(* ===== verification/FT_Prelude.thy ===== *)
theory FT_Prelude
  imports Main "HOL-Library.Multiset" "HOL-Library.Product_Lexorder"
    "HOL-Library.List_Lexorder" "HOL-Library.Char_ord"
begin

text \<open>
  Shared vocabulary of the development. Go's pair of a value and an error is a sum
  (\<open>Inl\<close> the error); \<open>thenE\<close> sequences two fallible steps as the idiom
  \<open>if err != nil { return err }\<close> does, \<open>checkE\<close> is a guard with an early return, and
  \<open>foldE\<close>, \<open>mapE\<close> are loops whose body may return early with an error. The theory also
  holds the list lemmas every component uses: deduplication by key, the two slicing idioms
  of the store (keyset pages and offset pages), and lemmas on stable sorting.
\<close>

named_theorems ok_elims \<open>facts that split a successful fallible computation\<close>

section \<open>Fallible computations\<close>

definition thenE :: "'e + 'a \<Rightarrow> ('a \<Rightarrow> 'e + 'b) \<Rightarrow> 'e + 'b" where
  "thenE m k = (case m of Inl e \<Rightarrow> Inl e | Inr x \<Rightarrow> k x)"

definition checkE :: "bool \<Rightarrow> 'e \<Rightarrow> 'e + unit" where
  "checkE b e = (if b then Inr () else Inl e)"

fun optE :: "'e \<Rightarrow> 'a option \<Rightarrow> 'e + 'a" where
  "optE e None = Inl e"
| "optE e (Some x) = Inr x"

fun foldE :: "('s \<Rightarrow> 'a \<Rightarrow> 'e + 's) \<Rightarrow> 's \<Rightarrow> 'a list \<Rightarrow> 'e + 's" where
  "foldE f s [] = Inr s"
| "foldE f s (x # xs) = thenE (f s x) (\<lambda>s'. foldE f s' xs)"

fun mapE :: "('a \<Rightarrow> 'e + 'b) \<Rightarrow> 'a list \<Rightarrow> 'e + 'b list" where
  "mapE f [] = Inr []"
| "mapE f (x # xs) = thenE (f x) (\<lambda>y. thenE (mapE f xs) (\<lambda>ys. Inr (y # ys)))"

lemma thenE_simps [simp]:
  "thenE (Inl e) k = Inl e"
  "thenE (Inr x) k = k x"
  by (simp_all add: thenE_def)

lemma thenE_Inr [ok_elims]: "thenE m k = Inr y \<longleftrightarrow> (\<exists>x. m = Inr x \<and> k x = Inr y)"
  by (cases m) auto

lemma thenE_Inl: "thenE m k = Inl e \<longleftrightarrow> m = Inl e \<or> (\<exists>x. m = Inr x \<and> k x = Inl e)"
  by (cases m) auto

lemma checkE_Inr [simp, ok_elims]: "checkE b e = Inr u \<longleftrightarrow> b"
  by (simp add: checkE_def)

lemma checkE_Inl [simp]: "checkE b e = Inl e' \<longleftrightarrow> \<not> b \<and> e' = e"
  by (auto simp: checkE_def)

lemma thenE_checkE [simp]: "thenE (checkE b e) k = (if b then k () else Inl e)"
  by (simp add: checkE_def)

lemma optE_Inr [simp, ok_elims]: "optE e m = Inr x \<longleftrightarrow> m = Some x"
  by (cases m) auto

lemma optE_Inl [simp]: "optE e m = Inl e' \<longleftrightarrow> m = None \<and> e' = e"
  by (cases m) auto

text \<open>A loop keeps what its body keeps.\<close>

lemma foldE_invariant:
  assumes step: "\<And>s x s'. P s \<Longrightarrow> x \<in> set xs \<Longrightarrow> f s x = Inr s' \<Longrightarrow> P s'"
    and "P s" and "foldE f s xs = Inr s'"
  shows "P s'"
  using assms
proof (induction xs arbitrary: s)
  case Nil
  then show ?case by simp
next
  case (Cons x xs)
  from Cons.prems(3) obtain s1 where s1: "f s x = Inr s1" and rest: "foldE f s1 xs = Inr s'"
    by (auto simp: thenE_Inr)
  from Cons.prems(1,2) s1 have "P s1" by (meson list.set_intros(1))
  with Cons.IH [OF _ _ rest] Cons.prems(1) show ?case by (meson list.set_intros(2))
qed

lemma foldE_append:
  "foldE f s (xs @ ys) = thenE (foldE f s xs) (\<lambda>s'. foldE f s' ys)"
  by (induction xs arbitrary: s) (auto simp: thenE_def split: sum.splits)

lemma mapE_length: "mapE f xs = Inr ys \<Longrightarrow> length ys = length xs"
  by (induction xs arbitrary: ys) (auto simp: thenE_Inr)

lemma mapE_Inr_iff: "mapE f xs = Inr ys \<longleftrightarrow> list_all2 (\<lambda>x y. f x = Inr y) xs ys"
proof (induction xs arbitrary: ys)
  case Nil
  then show ?case by auto
next
  case (Cons x xs)
  then show ?case by (cases ys) (auto simp: thenE_Inr)
qed

section \<open>Lists\<close>

lemma find_Some_mem: "find P xs = Some x \<Longrightarrow> x \<in> set xs \<and> P x"
  by (induction xs) (auto split: if_splits)

lemma find_None_iff_ex: "find P xs = None \<longleftrightarrow> (\<forall>x\<in>set xs. \<not> P x)"
  by (induction xs) auto

lemma find_append:
  "find P (xs @ ys) = (case find P xs of None \<Rightarrow> find P ys | Some x \<Rightarrow> Some x)"
  by (induction xs) auto

lemma find_distinct_key:
  "distinct (map k xs) \<Longrightarrow> x \<in> set xs \<Longrightarrow> find (\<lambda>y. k y = k x) xs = Some x"
  by (induction xs) force+

lemma find_map_same_key:
  assumes "\<And>x. k (f x) = k x"
  shows "find (\<lambda>x. k x = i) (map f xs) = map_option f (find (\<lambda>x. k x = i) xs)"
  using assms by (induction xs) auto

lemma distinct_map_filter_key: "distinct (map k xs) \<Longrightarrow> distinct (map k (filter P xs))"
  by (induction xs) auto

lemma map_key_if:
  assumes "\<And>x. P x \<Longrightarrow> k (g x) = k x"
  shows "map k (map (\<lambda>x. if P x then g x else x) xs) = map k xs"
  using assms by (induction xs) auto

lemma list_ex_key: "list_ex (\<lambda>x. k x = v) xs \<longleftrightarrow> v \<in> k ` set xs"
  by (induction xs) auto

end
