(* ===== verification/FT_Model.thy ===== *)
theory FT_Model
  imports FT_Prelude
begin

text \<open>
  The data of Farm Table: the enumerations and rows declared by the schema
  (\<open>internal/store/schema\<close>), and the pure functions on stages, priorities and
  relationship types that the store, the server and the GitHub adapter share.

  Conventions. A UUID is its 128-bit value, a \<open>nat\<close>, with \<open>uuid.Nil = 0\<close>; the canonical
  text of UUIDs is ordered as their values. An instant is an \<open>int\<close> count of nanoseconds.
  A Go string is a list of bytes. \<open>task.Stage\<close> is a string type in Go and the database can
  hold values of earlier releases, so \<open>stage\<close> has a constructor \<open>StageOther\<close> for any string
  that is not one of the ten declared values. A nil and an empty slice are the same list.
\<close>

section \<open>Scalar types\<close>

type_synonym uuid = nat
type_synonym time = int

definition uuid_Nil :: uuid where
  "uuid_Nil = 0"

definition one_second :: time where
  "one_second = 1000000000"

section \<open>Enumerations of the schema\<close>

datatype phase = PhaseOpen | PhaseInProgress | PhaseOnHold | PhaseClosed

datatype stage =
    StageTriage | StageAccepted | StageWorking | StageInReview | StageInQa | StageDeploying
  | StageCompleted | StageWontFix | StageDuplicate | StageCancelled | StageOther string

datatype hold_reason = HoldReasonWaitingForInput | HoldReasonDeferred

datatype priority = PriorityUrgent | PriorityHigh | PriorityNormal | PriorityLow

datatype ci_status = CiStatusUnknown | CiStatusPending | CiStatusRunning | CiStatusPassed | CiStatusFailed

datatype rel_type = TypeBlocks | TypeBlockedBy | TypeRelatesTo | TypeDuplicates | TypeDuplicatedBy

datatype platform =
  PlatformFarmtable | PlatformGithub | PlatformLinear | PlatformJira | PlatformAsana | PlatformBeads

datatype auth_method = AuthMethodPat | AuthMethodOauth | AuthMethodGithubApp

datatype account_status = StatusActive | StatusExpired | StatusRevoked

section \<open>The strings of the enumerations\<close>

definition phase_str :: "phase \<Rightarrow> string" where
  "phase_str p = (case p of PhaseOpen \<Rightarrow> ''open'' | PhaseInProgress \<Rightarrow> ''in_progress''
     | PhaseOnHold \<Rightarrow> ''on_hold'' | PhaseClosed \<Rightarrow> ''closed'')"

definition stage_str :: "stage \<Rightarrow> string" where
  "stage_str s = (case s of
       StageTriage \<Rightarrow> ''triage'' | StageAccepted \<Rightarrow> ''accepted''
     | StageWorking \<Rightarrow> ''working'' | StageInReview \<Rightarrow> ''in_review''
     | StageInQa \<Rightarrow> ''in_qa'' | StageDeploying \<Rightarrow> ''deploying''
     | StageCompleted \<Rightarrow> ''completed'' | StageWontFix \<Rightarrow> ''wont_fix''
     | StageDuplicate \<Rightarrow> ''duplicate'' | StageCancelled \<Rightarrow> ''cancelled''
     | StageOther x \<Rightarrow> x)"

text \<open>\<open>task.Stage(s)\<close>, the conversion of a string to a stage.\<close>

definition stage_of_str :: "string \<Rightarrow> stage" where
  "stage_of_str s =
    (if s = ''triage'' then StageTriage else if s = ''accepted'' then StageAccepted
     else if s = ''working'' then StageWorking else if s = ''in_review'' then StageInReview
     else if s = ''in_qa'' then StageInQa else if s = ''deploying'' then StageDeploying
     else if s = ''completed'' then StageCompleted else if s = ''wont_fix'' then StageWontFix
     else if s = ''duplicate'' then StageDuplicate else if s = ''cancelled'' then StageCancelled
     else StageOther s)"

definition hold_reason_str :: "hold_reason \<Rightarrow> string" where
  "hold_reason_str h = (case h of HoldReasonWaitingForInput \<Rightarrow> ''waiting_for_input''
     | HoldReasonDeferred \<Rightarrow> ''deferred'')"

definition priority_str :: "priority \<Rightarrow> string" where
  "priority_str p = (case p of PriorityUrgent \<Rightarrow> ''urgent'' | PriorityHigh \<Rightarrow> ''high''
     | PriorityNormal \<Rightarrow> ''normal'' | PriorityLow \<Rightarrow> ''low'')"

definition ci_status_str :: "ci_status \<Rightarrow> string" where
  "ci_status_str c = (case c of CiStatusUnknown \<Rightarrow> ''unknown'' | CiStatusPending \<Rightarrow> ''pending''
     | CiStatusRunning \<Rightarrow> ''running'' | CiStatusPassed \<Rightarrow> ''passed'' | CiStatusFailed \<Rightarrow> ''failed'')"

definition rel_type_str :: "rel_type \<Rightarrow> string" where
  "rel_type_str r = (case r of TypeBlocks \<Rightarrow> ''blocks'' | TypeBlockedBy \<Rightarrow> ''blocked_by''
     | TypeRelatesTo \<Rightarrow> ''relates_to'' | TypeDuplicates \<Rightarrow> ''duplicates''
     | TypeDuplicatedBy \<Rightarrow> ''duplicated_by'')"

definition platform_str :: "platform \<Rightarrow> string" where
  "platform_str p = (case p of PlatformFarmtable \<Rightarrow> ''farmtable'' | PlatformGithub \<Rightarrow> ''github''
     | PlatformLinear \<Rightarrow> ''linear'' | PlatformJira \<Rightarrow> ''jira'' | PlatformAsana \<Rightarrow> ''asana''
     | PlatformBeads \<Rightarrow> ''beads'')"

text \<open>\<open>collectionPlatform\<close> of \<open>internal/store/helpers.go\<close>: unknown names are native.\<close>

definition collectionPlatform :: "string \<Rightarrow> platform" where
  "collectionPlatform s =
    (if s = ''farmtable'' then PlatformFarmtable else if s = ''github'' then PlatformGithub
     else if s = ''linear'' then PlatformLinear else if s = ''jira'' then PlatformJira
     else if s = ''asana'' then PlatformAsana else if s = ''beads'' then PlatformBeads
     else PlatformFarmtable)"

text \<open>
  A stage that is a declared value, and a stage that is in normal form (the string of a
  \<open>StageOther\<close> is not the string of a declared one). Every stage the program reads is in
  normal form, since it is \<open>stage_of_str\<close> of a string.
\<close>

definition declared_stage :: "stage \<Rightarrow> bool" where
  "declared_stage s = (case s of StageOther _ \<Rightarrow> False | _ \<Rightarrow> True)"

definition normal_stage :: "stage \<Rightarrow> bool" where
  "normal_stage s = (stage_of_str (stage_str s) = s)"

lemma stage_str_of_str [simp]: "stage_str (stage_of_str s) = s"
  by (simp add: stage_of_str_def stage_str_def)

lemma declared_normal: "declared_stage s \<Longrightarrow> normal_stage s"
  by (cases s) (simp_all add: declared_stage_def normal_stage_def stage_str_def stage_of_str_def)

lemma stage_str_inj:
  "normal_stage s \<Longrightarrow> normal_stage t \<Longrightarrow> stage_str s = stage_str t \<longleftrightarrow> s = t"
  unfolding normal_stage_def by metis

lemma collectionPlatform_str [simp]: "collectionPlatform (platform_str p) = p"
  by (cases p) (simp_all add: collectionPlatform_def platform_str_def)

lemma phase_str_inj [simp]: "phase_str p = phase_str q \<longleftrightarrow> p = q"
  by (cases p; cases q) (simp_all add: phase_str_def)

lemma priority_str_inj [simp]: "priority_str p = priority_str q \<longleftrightarrow> p = q"
  by (cases p; cases q) (simp_all add: priority_str_def)

lemma ci_status_str_inj [simp]: "ci_status_str p = ci_status_str q \<longleftrightarrow> p = q"
  by (cases p; cases q) (simp_all add: ci_status_str_def)

lemma enum_str_nonempty [simp]:
  "phase_str p \<noteq> []" "priority_str r \<noteq> []" "ci_status_str c \<noteq> []"
  by (simp_all add: phase_str_def priority_str_def ci_status_str_def
      split: phase.split priority.split ci_status.split)

section \<open>Untyped platform data\<close>

text \<open>
  \<open>map[string]any\<close>: what \<open>encoding/json\<close> decodes into, and the Go-native slices
  (\<open>[]string\<close>, \<open>[]map[string]any\<close>) that the platform adapters build. A map is an
  association list of distinct keys.
\<close>

datatype jval =
    JNull | JBool bool | JNum int | JStr string
  | JList "jval list" | JStrs "string list"
  | JMap "(string \<times> jval) list" | JMaps "(string \<times> jval) list list"

type_synonym jmap = "(string \<times> jval) list"

text \<open>Go's loop that copies every entry of a map over another one.\<close>

fun jput :: "string \<Rightarrow> jval \<Rightarrow> jmap \<Rightarrow> jmap" where
  "jput k v [] = [(k, v)]"
| "jput k v ((k', v') # m) = (if k = k' then (k, v) # m else (k', v') # jput k v m)"

definition jmerge :: "jmap \<Rightarrow> jmap \<Rightarrow> jmap" where
  "jmerge old upd = fold (\<lambda>(k, v) m. jput k v m) upd old"

lemma map_of_jput: "map_of (jput k v m) = (map_of m)(k \<mapsto> v)"
  by (induction k v m rule: jput.induct) (auto simp: fun_eq_iff)

lemma keys_jput: "fst ` set (jput k v m) = insert k (fst ` set m)"
  by (induction k v m rule: jput.induct) auto

lemma distinct_jput: "distinct (map fst m) \<Longrightarrow> distinct (map fst (jput k v m))"
proof (induction k v m rule: jput.induct)
  case (2 k v k' v' m)
  then show ?case using keys_jput [of k v m] by auto
qed simp

lemma distinct_jmerge: "distinct (map fst old) \<Longrightarrow> distinct (map fst (jmerge old upd))"
  by (induction upd arbitrary: old) (auto simp: jmerge_def distinct_jput)

lemma map_of_jmerge:
  "distinct (map fst upd) \<Longrightarrow> map_of (jmerge old upd) = map_of old ++ map_of upd"
proof (induction upd arbitrary: old)
  case Nil
  then show ?case by (simp add: jmerge_def)
next
  case (Cons a upd)
  obtain k v where a: "a = (k, v)" by (cases a)
  from Cons.prems have "k \<notin> dom (map_of upd)"
    by (simp add: a dom_map_of_conv_image_fst)
  then have "(map_of old)(k \<mapsto> v) ++ map_of upd = map_of old ++ (map_of upd)(k \<mapsto> v)"
    by (simp add: map_add_upd_left)
  then show ?case
    using Cons by (simp add: jmerge_def a map_of_jput del: fun_upd_apply)
qed

section \<open>Rows\<close>

text \<open>
  A value of the change log as the code renders it. \<open>diffTask\<close> renders instants with
  \<open>Format(time.RFC3339)\<close>, which keeps whole seconds, UUIDs with \<open>String()\<close>, and the label
  and pull request lists as JSON of a sorted list; each of these renderings is injective on
  the value kept here, and the empty string is \<open>RStr []\<close>. \<open>RJson\<close> is \<open>json.Marshal\<close> of a map.
\<close>

datatype rendered =
    RStr string | RSec int | RUuid uuid | RLabels "string list"
  | RPrs "(string \<times> string) list list" | RJson jmap

record task =
  t_id :: uuid
  t_title :: string
  t_description :: string
  t_collection :: uuid
  t_phase :: phase
  t_stage :: stage
  t_hold :: "hold_reason option"
  t_native_label :: string
  t_type :: string
  t_priority :: "priority option"
  t_rank :: "int option"
  t_assignee :: "uuid option"
  t_parent :: "uuid option"
  t_start :: "time option"
  t_due :: "time option"
  t_closed :: "time option"
  t_created :: time
  t_updated :: time
  t_acceptance :: "string option"
  t_remote :: "jmap option"
  t_labels :: "string list"
  t_repo :: string
  t_branch :: string
  t_ci :: "ci_status option"
  t_prs :: "(string \<times> string) list list"
  t_version :: string

record rel =
  r_id :: uuid
  r_src :: uuid
  r_tgt :: uuid
  r_type :: rel_type

record change =
  ch_id :: uuid
  ch_task :: uuid
  ch_author :: uuid
  ch_field :: string
  ch_old :: rendered
  ch_new :: rendered
  ch_created :: time

record comment =
  cm_id :: uuid
  cm_task :: uuid
  cm_author :: uuid
  cm_body :: string
  cm_created :: time
  cm_updated :: time

record collection =
  co_id :: uuid
  co_name :: string
  co_description :: string
  co_platform :: platform
  co_remote_id :: string
  co_remote :: "jmap option"
  co_created :: time
  co_updated :: time

record user =
  u_id :: uuid
  u_email :: "string option"
  u_name :: string
  u_type :: string
  u_status :: string
  u_created :: time
  u_updated :: time

record token =
  k_id :: uuid
  k_hash :: string
  k_name :: string
  k_user :: uuid
  k_created :: time
  k_expires :: "time option"
  k_last_used :: "time option"
  k_scopes :: "string list"
  k_collections :: "uuid list"

record account =
  a_id :: uuid
  a_collection :: uuid
  a_platform :: platform
  a_token :: string
  a_method :: auth_method
  a_scopes :: "string list"
  a_remote_user :: string
  a_status :: account_status
  a_created :: time
  a_updated :: time
  a_expires :: "time option"
  a_refresh :: string
  a_token_expiry :: "time option"
  a_granted :: "string list"
  a_validated :: "time option"

text \<open>A task with its eager-loaded edges (\<open>WithSourceRelationships\<close>, \<open>WithTargetRelationships\<close>).\<close>

record etask =
  e_task :: task
  e_src :: "rel list"
  e_tgt :: "rel list"

section \<open>Pure functions on stages and priorities\<close>

definition IsTerminalStage :: "stage \<Rightarrow> bool" where
  "IsTerminalStage s = (case s of StageCompleted \<Rightarrow> True | StageWontFix \<Rightarrow> True
     | StageDuplicate \<Rightarrow> True | StageCancelled \<Rightarrow> True | _ \<Rightarrow> False)"

definition terminalStageSatisfiesDependency :: "stage \<Rightarrow> bool" where
  "terminalStageSatisfiesDependency s = (s = StageCompleted)"

definition phaseForStage :: "stage \<Rightarrow> phase" where
  "phaseForStage s = (case s of
       StageTriage \<Rightarrow> PhaseOpen | StageAccepted \<Rightarrow> PhaseOpen
     | StageWorking \<Rightarrow> PhaseInProgress | StageInReview \<Rightarrow> PhaseInProgress
     | StageInQa \<Rightarrow> PhaseInProgress | StageDeploying \<Rightarrow> PhaseInProgress
     | StageCompleted \<Rightarrow> PhaseClosed | StageWontFix \<Rightarrow> PhaseClosed
     | StageDuplicate \<Rightarrow> PhaseClosed | StageCancelled \<Rightarrow> PhaseClosed
     | _ \<Rightarrow> PhaseOpen)"

text \<open>The same projection as the GitHub adapter writes it (\<open>platform/github/labels.go\<close>).\<close>

definition github_phaseForStage :: "stage \<Rightarrow> phase" where
  "github_phaseForStage s = (case s of
       StageCompleted \<Rightarrow> PhaseClosed | StageWontFix \<Rightarrow> PhaseClosed
     | StageDuplicate \<Rightarrow> PhaseClosed | StageCancelled \<Rightarrow> PhaseClosed
     | StageWorking \<Rightarrow> PhaseInProgress | StageInReview \<Rightarrow> PhaseInProgress
     | StageInQa \<Rightarrow> PhaseInProgress | StageDeploying \<Rightarrow> PhaseInProgress
     | _ \<Rightarrow> PhaseOpen)"

definition priorityOrder :: "priority option \<Rightarrow> nat" where
  "priorityOrder p = (case p of None \<Rightarrow> 4 | Some PriorityUrgent \<Rightarrow> 0 | Some PriorityHigh \<Rightarrow> 1
     | Some PriorityNormal \<Rightarrow> 2 | Some PriorityLow \<Rightarrow> 3)"

text \<open>\<open>int(^uint(0) >> 1)\<close>, the largest 64-bit integer, for a task without a rank.\<close>

definition rankValue :: "int option \<Rightarrow> int" where
  "rankValue r = (case r of None \<Rightarrow> 2 ^ 63 - 1 | Some i \<Rightarrow> i)"

text \<open>The loop of \<open>prioritiesAtOrAbove\<close>: append each priority and stop after the minimum.\<close>

fun priorities_upto :: "priority \<Rightarrow> priority list \<Rightarrow> priority list" where
  "priorities_upto m [] = []"
| "priorities_upto m (p # ps) = (if p = m then [p] else p # priorities_upto m ps)"

definition prioritiesAtOrAbove :: "priority \<Rightarrow> priority list" where
  "prioritiesAtOrAbove m =
    priorities_upto m [PriorityUrgent, PriorityHigh, PriorityNormal, PriorityLow]"

lemma github_phaseForStage_eq: "github_phaseForStage s = phaseForStage s"
  by (cases s) (simp_all add: github_phaseForStage_def phaseForStage_def)

lemma phaseForStage_Closed [simp]: "phaseForStage s = PhaseClosed \<longleftrightarrow> IsTerminalStage s"
  by (cases s) (simp_all add: phaseForStage_def IsTerminalStage_def)

lemma phaseForStage_not_hold [simp]: "phaseForStage s \<noteq> PhaseOnHold"
  by (cases s) (simp_all add: phaseForStage_def)

lemma set_prioritiesAtOrAbove:
  "set (prioritiesAtOrAbove m) = {p. priorityOrder (Some p) \<le> priorityOrder (Some m)}"
proof -
  have "p \<in> set (prioritiesAtOrAbove m) \<longleftrightarrow> priorityOrder (Some p) \<le> priorityOrder (Some m)" for p
    by (cases m; cases p) (simp_all add: prioritiesAtOrAbove_def priorityOrder_def)
  then show ?thesis by blast
qed

lemma priorityOrder_inj [simp]: "priorityOrder p = priorityOrder q \<longleftrightarrow> p = q"
  by (auto simp: priorityOrder_def split: option.splits priority.splits)

end
