(* ===== verification/FT_GoText.thy ===== *)
theory FT_GoText
  imports FT_Prelude
begin

text \<open>
  The parts of Go's \<open>strconv\<close>, \<open>strings\<close> and \<open>unicode/utf8\<close> that the program's results
  depend on: \<open>Atoi\<close> and \<open>Itoa\<close> on a 64-bit \<open>int\<close> (the version counter of a task), counting
  the runes of a byte string and trimming white space (the length checks of the server).
  A Go string is a list of bytes, and a \<open>char\<close> is one byte.
\<close>

section \<open>Decimal numbers\<close>

definition max_int64 :: int where "max_int64 = 9223372036854775807"
definition min_int64 :: int where "min_int64 = - 9223372036854775808"

text \<open>Two's complement wrap-around of a 64-bit \<open>int\<close>.\<close>

definition wrap64 :: "int \<Rightarrow> int" where
  "wrap64 x = (x + 9223372036854775808) mod 18446744073709551616 - 9223372036854775808"

definition byte_val :: "char \<Rightarrow> nat" where
  "byte_val c = of_char c"

definition digit_char :: "nat \<Rightarrow> char" where
  "digit_char n = char_of (48 + n)"

definition is_digit :: "char \<Rightarrow> bool" where
  "is_digit c \<longleftrightarrow> 48 \<le> byte_val c \<and> byte_val c \<le> 57"

fun itoa_nat :: "nat \<Rightarrow> string" where
  "itoa_nat n = (if n < 10 then [digit_char n] else itoa_nat (n div 10) @ [digit_char (n mod 10)])"

declare itoa_nat.simps [simp del]

definition itoa :: "int \<Rightarrow> string" where
  "itoa i = (if i < 0 then CHR ''-'' # itoa_nat (nat (- i)) else itoa_nat (nat i))"

definition atoi_nat :: "string \<Rightarrow> nat" where
  "atoi_nat s = foldl (\<lambda>n c. 10 * n + (byte_val c - 48)) 0 s"

text \<open>
  \<open>v, _ := strconv.Atoi(s)\<close>: the error is dropped, so a string that is not a number counts
  as 0 and one out of range as the nearest 64-bit integer.
\<close>

definition atoi :: "string \<Rightarrow> int" where
  "atoi s =
    (let neg = (s \<noteq> [] \<and> hd s = CHR ''-'');
         ds = (if s \<noteq> [] \<and> (hd s = CHR ''-'' \<or> hd s = CHR ''+'') then tl s else s)
     in if ds = [] \<or> \<not> list_all is_digit ds then 0
        else if neg then max min_int64 (- int (atoi_nat ds))
        else min max_int64 (int (atoi_nat ds)))"

text \<open>\<open>strconv.Itoa(v + 1)\<close> of the version \<open>v\<close> read.\<close>

definition next_version :: "string \<Rightarrow> string" where
  "next_version s = itoa (wrap64 (atoi s + 1))"

lemma byte_val_digit [simp]: "n < 10 \<Longrightarrow> byte_val (digit_char n) = 48 + n"
  by (simp add: byte_val_def digit_char_def)

lemma is_digit_char [simp]: "n < 10 \<Longrightarrow> is_digit (digit_char n)"
  by (simp add: is_digit_def)

lemma itoa_nat_digits: "list_all is_digit (itoa_nat n) \<and> itoa_nat n \<noteq> []"
proof (induction n rule: itoa_nat.induct)
  case (1 n)
  then show ?case by (subst itoa_nat.simps, subst (2) itoa_nat.simps) auto
qed

lemma atoi_nat_itoa [simp]: "atoi_nat (itoa_nat n) = n"
proof (induction n rule: itoa_nat.induct)
  case (1 n)
  then show ?case
    by (subst itoa_nat.simps) (simp add: atoi_nat_def)
qed

lemma digit_not_sign: "is_digit c \<Longrightarrow> c \<noteq> CHR ''-'' \<and> c \<noteq> CHR ''+''"
  by (auto simp: is_digit_def byte_val_def)

lemma itoa_nat_sign: "hd (itoa_nat n) \<noteq> CHR ''-'' \<and> hd (itoa_nat n) \<noteq> CHR ''+''"
  using itoa_nat_digits [of n] digit_not_sign by (cases "itoa_nat n") auto

lemma atoi_itoa:
  assumes "min_int64 \<le> i" and "i \<le> max_int64"
  shows "atoi (itoa i) = i"
proof (cases "i < 0")
  case True
  then show ?thesis
    using assms itoa_nat_digits [of "nat (- i)"] by (simp add: atoi_def itoa_def)
next
  case False
  then show ?thesis
    using assms itoa_nat_digits [of "nat i"] itoa_nat_sign [of "nat i"]
    by (simp add: atoi_def itoa_def Let_def)
qed

lemma atoi_range: "min_int64 \<le> atoi s \<and> atoi s \<le> max_int64"
  by (simp add: atoi_def Let_def min_int64_def max_int64_def)

lemma wrap64_range: "min_int64 \<le> wrap64 x \<and> wrap64 x \<le> max_int64"
proof -
  have "0 \<le> (x + 9223372036854775808) mod 18446744073709551616"
    "(x + 9223372036854775808) mod 18446744073709551616 < 18446744073709551616" by simp_all
  then show ?thesis unfolding wrap64_def min_int64_def max_int64_def by linarith
qed

lemma wrap64_id: "min_int64 \<le> x \<Longrightarrow> x \<le> max_int64 \<Longrightarrow> wrap64 x = x"
  by (simp add: wrap64_def min_int64_def max_int64_def)

lemma atoi_next_version: "atoi (next_version s) = wrap64 (atoi s + 1)"
  by (simp add: next_version_def atoi_itoa wrap64_range)

text \<open>Every write changes the version, even at the end of the 64-bit range.\<close>

lemma next_version_neq [simp]: "next_version s \<noteq> s"
proof
  assume "next_version s = s"
  then have eq: "atoi s = wrap64 (atoi s + 1)" using atoi_next_version [of s] by simp
  show False
  proof (cases "atoi s = max_int64")
    case True
    then show False using eq by (simp add: wrap64_def max_int64_def)
  next
    case False
    then have "wrap64 (atoi s + 1) = atoi s + 1"
      using atoi_range [of s] by (intro wrap64_id) auto
    then show False using eq by simp
  qed
qed

lemma neq_next_version [simp]: "s \<noteq> next_version s"
  using next_version_neq [of s] by metis

lemma atoi_next_version_less:
  "atoi s < max_int64 \<Longrightarrow> atoi (next_version s) = atoi s + 1"
  using atoi_range [of s] by (simp add: atoi_next_version wrap64_id)

text \<open>\<open>strings.Contains\<close>.\<close>

fun contains :: "string \<Rightarrow> string \<Rightarrow> bool" where
  "contains [] sub = (sub = [])"
| "contains (c # s) sub = (take (length sub) (c # s) = sub \<or> contains s sub)"

end
