(* ===== verification/FT_Scopes.thy ===== *)
theory FT_Scopes
  imports FT_Model
begin

text \<open>
  Authorization: the request context that the interceptors of \<open>internal/server/auth.go\<close>
  build, the scope vocabulary and checks of \<open>internal/server/scopes.go\<close>, and the table of
  \<open>internal/server/transitions.go\<close> that maps a stage transition to the scope it needs.
  An RPC error is its gRPC code; the message text is not modelled.
\<close>

datatype code =
    InvalidArgument | PermissionDenied | Unauthenticated | NotFound | Aborted
  | FailedPrecondition | Unimplemented | ResourceExhausted | Internal

section \<open>The request context\<close>

text \<open>
  The values the interceptors store under \<open>userIDKey\<close>, \<open>authEnforcedKey\<close>, \<open>scopesKey\<close> and
  \<open>collectionIDsKey\<close>. A context without an interceptor has none of them.
\<close>

record ctx =
  c_user :: "uuid option"
  c_enforced :: bool
  c_scopes :: "string list"
  c_collections :: "uuid list"

definition open_access_ctx :: ctx where
  "open_access_ctx = \<lparr>c_user = None, c_enforced = False, c_scopes = [], c_collections = []\<rparr>"

definition UserIDFromContext :: "ctx \<Rightarrow> uuid option" where
  "UserIDFromContext c = c_user c"

text \<open>\<open>id, _ := UserIDFromContext(ctx)\<close>: the zero UUID when there is none.\<close>

definition actor_of :: "ctx \<Rightarrow> uuid" where
  "actor_of c = (case UserIDFromContext c of None \<Rightarrow> uuid_Nil | Some u \<Rightarrow> u)"

definition RequireIdentity :: "ctx \<Rightarrow> code + uuid" where
  "RequireIdentity c =
    (case UserIDFromContext c of
       Some u \<Rightarrow> if u \<noteq> uuid_Nil then Inr u
                 else if c_enforced c then Inl Unauthenticated else Inr uuid_Nil
     | None \<Rightarrow> if c_enforced c then Inl Unauthenticated else Inr uuid_Nil)"

section \<open>Scopes\<close>

definition ScopeWildcard :: string where "ScopeWildcard = ''*''"
definition ScopeTaskRead :: string where "ScopeTaskRead = ''task:read''"
definition ScopeTaskWrite :: string where "ScopeTaskWrite = ''task:write''"
definition ScopeTaskClaim :: string where "ScopeTaskClaim = ''task:claim''"
definition ScopeTaskAccept :: string where "ScopeTaskAccept = ''task:accept''"
definition ScopeTaskClose :: string where "ScopeTaskClose = ''task:close''"
definition ScopeCollectionRead :: string where "ScopeCollectionRead = ''collection:read''"
definition ScopeCollectionWrite :: string where "ScopeCollectionWrite = ''collection:write''"
definition ScopeCollectionAdmin :: string where "ScopeCollectionAdmin = ''collection:admin''"
definition ScopeTokenManage :: string where "ScopeTokenManage = ''token:manage''"
definition ScopeUserRead :: string where "ScopeUserRead = ''user:read''"

lemmas scope_defs = ScopeWildcard_def ScopeTaskRead_def ScopeTaskWrite_def ScopeTaskClaim_def
  ScopeTaskAccept_def ScopeTaskClose_def ScopeCollectionRead_def ScopeCollectionWrite_def
  ScopeCollectionAdmin_def ScopeTokenManage_def ScopeUserRead_def

definition AllScopes :: "string list" where
  "AllScopes = [ScopeTaskRead, ScopeTaskWrite, ScopeTaskClaim, ScopeTaskAccept, ScopeTaskClose,
     ScopeCollectionRead, ScopeCollectionWrite, ScopeCollectionAdmin, ScopeTokenManage,
     ScopeUserRead]"

definition RequireScope :: "ctx \<Rightarrow> string \<Rightarrow> code + unit" where
  "RequireScope c scope =
    (if \<not> c_enforced c then Inr ()
     else if c_scopes c = [] then Inr ()
     else if list_ex (\<lambda>s. s = ScopeWildcard \<or> s = scope) (c_scopes c) then Inr ()
     else Inl PermissionDenied)"

definition RequireCollectionAccess :: "ctx \<Rightarrow> uuid \<Rightarrow> code + unit" where
  "RequireCollectionAccess c cid =
    (if \<not> c_enforced c then Inr ()
     else if c_collections c = [] then Inr ()
     else if list_ex (\<lambda>i. i = cid) (c_collections c) then Inr ()
     else Inl PermissionDenied)"

text \<open>The default scopes of a user type; the empty list is the nil slice, which is a wildcard.\<close>

definition DefaultScopesForUserType :: "string \<Rightarrow> string list" where
  "DefaultScopesForUserType userType =
    (if userType = ''admin'' then [ScopeWildcard]
     else if userType = ''agent'' then
       [ScopeTaskRead, ScopeTaskWrite, ScopeTaskClaim, ScopeCollectionRead]
     else if userType = ''reviewer'' \<or> userType = ''orchestrator'' then
       [ScopeTaskRead, ScopeTaskWrite, ScopeTaskClaim, ScopeTaskAccept, ScopeTaskClose,
        ScopeCollectionRead]
     else if userType = ''viewer'' then [ScopeTaskRead, ScopeCollectionRead]
     else if userType = ''human'' then [ScopeWildcard]
     else if userType = ''service_account'' then [ScopeWildcard]
     else [])"

definition ValidateScopes :: "string list \<Rightarrow> bool" where
  "ValidateScopes scopes = list_all (\<lambda>s. s = ScopeWildcard \<or> List.member AllScopes s) scopes"

section \<open>The transition table\<close>

type_synonym stage_set = "stage list option"

definition stagesTriage :: stage_set where "stagesTriage = Some [StageTriage]"
definition stagesWorking :: stage_set where "stagesWorking = Some [StageWorking]"
definition stagesHandoff :: stage_set where
  "stagesHandoff = Some [StageInReview, StageInQa, StageDeploying]"
definition stagesTerminal :: stage_set where
  "stagesTerminal = Some [StageCompleted, StageWontFix, StageDuplicate, StageCancelled]"

fun stage_set_contains :: "stage_set \<Rightarrow> stage \<Rightarrow> bool" where
  "stage_set_contains None s = True"
| "stage_set_contains (Some ss) s = List.member ss s"

record transition_rule =
  tr_from :: stage_set
  tr_to :: stage_set
  tr_scope :: string

definition transitionTable :: "transition_rule list" where
  "transitionTable =
    [\<lparr>tr_from = None, tr_to = stagesTerminal, tr_scope = ScopeTaskClose\<rparr>,
     \<lparr>tr_from = stagesTriage, tr_to = None, tr_scope = ScopeTaskAccept\<rparr>,
     \<lparr>tr_from = stagesTerminal, tr_to = None, tr_scope = ScopeTaskAccept\<rparr>,
     \<lparr>tr_from = None, tr_to = stagesWorking, tr_scope = ScopeTaskClaim\<rparr>,
     \<lparr>tr_from = stagesWorking, tr_to = stagesHandoff, tr_scope = ScopeTaskWrite\<rparr>]"

fun first_rule :: "transition_rule list \<Rightarrow> stage \<Rightarrow> stage \<Rightarrow> string" where
  "first_rule [] from to = ScopeTaskWrite"
| "first_rule (r # rs) from to =
    (if stage_set_contains (tr_from r) from \<and> stage_set_contains (tr_to r) to
     then tr_scope r else first_rule rs from to)"

text \<open>\<open>TransitionScope\<close> on the two stage strings.\<close>

definition TransitionScope :: "string \<Rightarrow> string \<Rightarrow> string" where
  "TransitionScope fromStage toStage =
    (let from = stage_of_str fromStage; to = stage_of_str toStage in
     if from = to then ScopeTaskWrite else first_rule transitionTable from to)"

section \<open>Lemmas\<close>

lemma RequireIdentity_Inr:
  "RequireIdentity c = Inr u \<longleftrightarrow>
    (c_user c = Some u \<and> u \<noteq> uuid_Nil) \<or>
    (u = uuid_Nil \<and> \<not> c_enforced c \<and> (c_user c = None \<or> c_user c = Some uuid_Nil))"
  by (auto simp: RequireIdentity_def UserIDFromContext_def split: option.splits)

lemma RequireIdentity_enforced:
  "c_enforced c \<Longrightarrow> RequireIdentity c = Inr u \<Longrightarrow> actor_of c = u \<and> u \<noteq> uuid_Nil"
  by (auto simp: RequireIdentity_Inr actor_of_def UserIDFromContext_def)

text \<open>What a token grants: every scope when it has none or holds the wildcard.\<close>

definition grants :: "ctx \<Rightarrow> string \<Rightarrow> bool" where
  "grants c scope \<longleftrightarrow> \<not> c_enforced c \<or> c_scopes c = [] \<or> ScopeWildcard \<in> set (c_scopes c)
     \<or> scope \<in> set (c_scopes c)"

lemma RequireScope_Inr [ok_elims]: "RequireScope c scope = Inr u \<longleftrightarrow> grants c scope"
  by (auto simp: RequireScope_def grants_def list_ex_iff)

lemma RequireScope_Inl: "RequireScope c scope = Inl e \<longleftrightarrow> e = PermissionDenied \<and> \<not> grants c scope"
  by (auto simp: RequireScope_def grants_def list_ex_iff)

definition may_access :: "ctx \<Rightarrow> uuid \<Rightarrow> bool" where
  "may_access c cid \<longleftrightarrow> \<not> c_enforced c \<or> c_collections c = [] \<or> cid \<in> set (c_collections c)"

lemma RequireCollectionAccess_Inr [ok_elims]:
  "RequireCollectionAccess c cid = Inr u \<longleftrightarrow> may_access c cid"
  by (auto simp: RequireCollectionAccess_def may_access_def list_ex_iff)

text \<open>The caller of a server without authentication may do everything.\<close>

lemma open_access_may [simp]:
  "grants open_access_ctx sc" "may_access open_access_ctx cid"
  by (simp_all add: grants_def may_access_def open_access_ctx_def)

lemma open_access_checks [simp]:
  "RequireScope open_access_ctx sc = Inr ()" "RequireCollectionAccess open_access_ctx cid = Inr ()"
  "RequireIdentity open_access_ctx = Inr uuid_Nil" "actor_of open_access_ctx = uuid_Nil"
  by (simp_all add: RequireScope_Inr RequireCollectionAccess_Inr)
    (simp_all add: RequireIdentity_def actor_of_def UserIDFromContext_def open_access_ctx_def)

lemma RequireCollectionAccess_Inl:
  "RequireCollectionAccess c cid = Inl e \<longleftrightarrow> e = PermissionDenied \<and> \<not> may_access c cid"
  by (auto simp: RequireCollectionAccess_def may_access_def list_ex_iff)

lemma RequireScope_granted [simp]: "grants c scope \<Longrightarrow> RequireScope c scope = Inr ()"
  by (simp add: RequireScope_Inr)

lemma RequireCollectionAccess_granted [simp]:
  "may_access c cid \<Longrightarrow> RequireCollectionAccess c cid = Inr ()"
  by (simp add: RequireCollectionAccess_Inr)

text \<open>The table read as a closed form, over stages in normal form.\<close>

lemma TransitionScope_stages:
  assumes "normal_stage f" and "normal_stage t"
  shows "TransitionScope (stage_str f) (stage_str t) =
    (if f = t then ScopeTaskWrite
     else if IsTerminalStage t then ScopeTaskClose
     else if f = StageTriage \<or> IsTerminalStage f then ScopeTaskAccept
     else if t = StageWorking then ScopeTaskClaim
     else ScopeTaskWrite)"
proof -
  have f: "stage_of_str (stage_str f) = f" and t: "stage_of_str (stage_str t) = t"
    using assms by (simp_all add: normal_stage_def)
  have termi: "stage_set_contains stagesTerminal s \<longleftrightarrow> IsTerminalStage s" for s
    by (cases s) (simp_all add: stagesTerminal_def IsTerminalStage_def)
  have others: "stage_set_contains stagesTriage s \<longleftrightarrow> s = StageTriage"
    "stage_set_contains stagesWorking s \<longleftrightarrow> s = StageWorking" for s
    by (auto simp: stagesTriage_def stagesWorking_def)
  show ?thesis
    unfolding TransitionScope_def Let_def f t transitionTable_def
    by (simp add: termi others)
qed

end
