(* ===== verification/FT_Db.thy ===== *)
theory FT_Db
  imports FT_Model FT_GoText
begin

text \<open>
  The database behind \<open>EntStore\<close> as the generated \<open>ent\<close> client and the schema
  (\<open>internal/store/schema\<close>, \<open>ent/migrate/schema.go\<close>) present it: one list of rows per
  table, in insertion order, and the primitive statements on them with the constraints the
  schema declares (primary keys, foreign keys, unique indexes, \<open>NotEmpty\<close> and enumeration
  validators, defaults). A statement that violates a constraint is \<open>ErrOther\<close>, an error none
  of the sentinels of \<open>store.go\<close>. A transaction that fails leaves the database it started
  with, so an operation returns the new database only with a result.

  \<open>env\<close> is what a call reads from outside: the clock, read once per call, and the stream of
  \<open>uuid.New\<close>; \<open>d_next\<close> counts the identifiers drawn so far.
\<close>

datatype store_err =
    ErrNotFound | ErrConflict | ErrAlreadyClaimed | ErrAlreadyClosed | ErrUnavailable
  | ErrInvalidArgument | ErrNotImplemented | ErrOther

record env =
  now :: time
  uuid_at :: "nat \<Rightarrow> uuid"

record db =
  d_tasks :: "task list"
  d_rels :: "rel list"
  d_changes :: "change list"
  d_comments :: "comment list"
  d_colls :: "collection list"
  d_users :: "user list"
  d_tokens :: "token list"
  d_accounts :: "account list"
  d_next :: nat

definition empty_db :: db where
  "empty_db = \<lparr>d_tasks = [], d_rels = [], d_changes = [], d_comments = [], d_colls = [],
     d_users = [], d_tokens = [], d_accounts = [], d_next = 0\<rparr>"

definition fresh_uuid :: "env \<Rightarrow> db \<Rightarrow> uuid" where
  "fresh_uuid e d = uuid_at e (d_next d)"

definition drawn :: "db \<Rightarrow> db" where
  "drawn d = d\<lparr>d_next := Suc (d_next d)\<rparr>"

section \<open>Queries\<close>

definition get_task :: "uuid \<Rightarrow> db \<Rightarrow> task option" where
  "get_task i d = find (\<lambda>t. t_id t = i) (d_tasks d)"

definition task_exists :: "uuid \<Rightarrow> db \<Rightarrow> bool" where
  "task_exists i d = list_ex (\<lambda>t. t_id t = i) (d_tasks d)"

definition coll_exists :: "uuid \<Rightarrow> db \<Rightarrow> bool" where
  "coll_exists i d = list_ex (\<lambda>c. co_id c = i) (d_colls d)"

definition user_exists :: "uuid \<Rightarrow> db \<Rightarrow> bool" where
  "user_exists i d = list_ex (\<lambda>u. u_id u = i) (d_users d)"

definition with_edges :: "db \<Rightarrow> task \<Rightarrow> etask" where
  "with_edges d t = \<lparr>e_task = t,
     e_src = filter (\<lambda>r. r_src r = t_id t) (d_rels d),
     e_tgt = filter (\<lambda>r. r_tgt r = t_id t) (d_rels d)\<rparr>"

definition getTaskWithEdges :: "uuid \<Rightarrow> db \<Rightarrow> store_err + etask" where
  "getTaskWithEdges i d = thenE (optE ErrNotFound (get_task i d)) (\<lambda>t. Inr (with_edges d t))"

definition rel_exists :: "uuid \<Rightarrow> uuid \<Rightarrow> rel_type \<Rightarrow> db \<Rightarrow> bool" where
  "rel_exists s t ty d = list_ex (\<lambda>r. r_src r = s \<and> r_tgt r = t \<and> r_type r = ty) (d_rels d)"

section \<open>Statements\<close>

text \<open>\<open>Task.Create().Save\<close>: the validators, the primary key and the two foreign keys.\<close>

definition insert_task :: "task \<Rightarrow> db \<Rightarrow> store_err + db" where
  "insert_task t d =
    (if t_title t \<noteq> [] \<and> declared_stage (t_stage t) \<and> \<not> task_exists (t_id t) d
        \<and> coll_exists (t_collection t) d
        \<and> (case t_parent t of None \<Rightarrow> True | Some p \<Rightarrow> p = t_id t \<or> task_exists p d)
     then Inr (d\<lparr>d_tasks := d_tasks d @ [t]\<rparr>) else Inl ErrOther)"

text \<open>
  \<open>Task.Update().Where(\<dots>).Save\<close>: the number of rows matched and the new database. The
  validators run before the statement, whatever it matches; \<open>updated_at\<close> is set; the
  foreign key of the parent is checked for the rows written. \<open>id\<close>, \<open>collection_id\<close> and
  \<open>created_at\<close> have no setter in the updates of the program.
\<close>

definition task_row_ok :: "db \<Rightarrow> task \<Rightarrow> bool" where
  "task_row_ok d t = (case t_parent t of None \<Rightarrow> True | Some p \<Rightarrow> task_exists p d)"

definition update_tasks ::
  "env \<Rightarrow> bool \<Rightarrow> (task \<Rightarrow> bool) \<Rightarrow> (task \<Rightarrow> task) \<Rightarrow> db \<Rightarrow> store_err + (nat \<times> db)" where
  "update_tasks e valid P f d =
    (let g = (\<lambda>t. (f t)\<lparr>t_id := t_id t, t_collection := t_collection t,
                       t_created := t_created t, t_updated := now e\<rparr>) in
     if \<not> valid \<or> \<not> list_all (\<lambda>t. task_row_ok d (g t)) (filter P (d_tasks d)) then Inl ErrOther
     else Inr (length (filter P (d_tasks d)),
       d\<lparr>d_tasks := map (\<lambda>t. if P t then g t else t) (d_tasks d)\<rparr>))"

text \<open>
  \<open>Task.Delete().Where(task.IDEQ(id)).Exec\<close>: comments and changes forbid the deletion,
  relationship rows are deleted with the task, children lose their parent.
\<close>

definition delete_task :: "uuid \<Rightarrow> db \<Rightarrow> store_err + (nat \<times> db)" where
  "delete_task i d =
    (if task_exists i d \<and> (list_ex (\<lambda>c. cm_task c = i) (d_comments d)
          \<or> list_ex (\<lambda>c. ch_task c = i) (d_changes d)) then Inl ErrOther
     else Inr (length (filter (\<lambda>t. t_id t = i) (d_tasks d)),
       if task_exists i d then
         d\<lparr>d_tasks := map (\<lambda>t. if t_parent t = Some i then t\<lparr>t_parent := None\<rparr> else t)
                          (filter (\<lambda>t. t_id t \<noteq> i) (d_tasks d)),
           d_rels := filter (\<lambda>r. r_src r \<noteq> i \<and> r_tgt r \<noteq> i) (d_rels d)\<rparr>
       else d))"

definition insert_rel :: "rel \<Rightarrow> db \<Rightarrow> store_err + db" where
  "insert_rel r d =
    (if \<not> list_ex (\<lambda>q. r_id q = r_id r) (d_rels d)
        \<and> \<not> rel_exists (r_src r) (r_tgt r) (r_type r) d
        \<and> task_exists (r_src r) d \<and> task_exists (r_tgt r) d
     then Inr (d\<lparr>d_rels := d_rels d @ [r]\<rparr>) else Inl ErrOther)"

definition delete_rels :: "(rel \<Rightarrow> bool) \<Rightarrow> db \<Rightarrow> db" where
  "delete_rels P d = d\<lparr>d_rels := filter (\<lambda>r. \<not> P r) (d_rels d)\<rparr>"

definition insert_change :: "change \<Rightarrow> db \<Rightarrow> store_err + db" where
  "insert_change c d =
    (if ch_field c \<noteq> [] \<and> \<not> list_ex (\<lambda>q. ch_id q = ch_id c) (d_changes d)
        \<and> task_exists (ch_task c) d
     then Inr (d\<lparr>d_changes := d_changes d @ [c]\<rparr>) else Inl ErrOther)"

definition insert_comment :: "comment \<Rightarrow> db \<Rightarrow> store_err + db" where
  "insert_comment c d =
    (if cm_body c \<noteq> [] \<and> \<not> list_ex (\<lambda>q. cm_id q = cm_id c) (d_comments d)
        \<and> task_exists (cm_task c) d
     then Inr (d\<lparr>d_comments := d_comments d @ [c]\<rparr>) else Inl ErrOther)"

definition insert_coll :: "collection \<Rightarrow> db \<Rightarrow> store_err + db" where
  "insert_coll c d =
    (if co_name c \<noteq> [] \<and> \<not> coll_exists (co_id c) d
     then Inr (d\<lparr>d_colls := d_colls d @ [c]\<rparr>) else Inl ErrOther)"

text \<open>\<open>Collection.UpdateOneID(id).Save\<close>: \<open>ErrNotFound\<close> is \<open>ent\<close>'s not-found error.\<close>

definition update_coll ::
  "env \<Rightarrow> uuid \<Rightarrow> bool \<Rightarrow> (collection \<Rightarrow> collection) \<Rightarrow> db \<Rightarrow> store_err + (collection \<times> db)" where
  "update_coll e i valid f d =
    (let g = (\<lambda>c. (f c)\<lparr>co_id := co_id c, co_created := co_created c, co_updated := now e\<rparr>) in
     if \<not> valid then Inl ErrOther
     else case find (\<lambda>c. co_id c = i) (d_colls d) of
         None \<Rightarrow> Inl ErrNotFound
       | Some c \<Rightarrow> Inr (g c, d\<lparr>d_colls := map (\<lambda>c. if co_id c = i then g c else c) (d_colls d)\<rparr>))"

definition insert_user :: "user \<Rightarrow> db \<Rightarrow> store_err + db" where
  "insert_user u d =
    (if u_name u \<noteq> [] \<and> \<not> user_exists (u_id u) d
     then Inr (d\<lparr>d_users := d_users d @ [u]\<rparr>) else Inl ErrOther)"

definition insert_token :: "token \<Rightarrow> db \<Rightarrow> store_err + db" where
  "insert_token k d =
    (if k_hash k \<noteq> [] \<and> k_name k \<noteq> [] \<and> user_exists (k_user k) d
        \<and> \<not> list_ex (\<lambda>q. k_id q = k_id k) (d_tokens d)
        \<and> \<not> list_ex (\<lambda>q. k_hash q = k_hash k) (d_tokens d)
     then Inr (d\<lparr>d_tokens := d_tokens d @ [k]\<rparr>) else Inl ErrOther)"

definition update_token :: "uuid \<Rightarrow> (token \<Rightarrow> token) \<Rightarrow> db \<Rightarrow> store_err + (token \<times> db)" where
  "update_token i f d =
    (let g = (\<lambda>k. (f k)\<lparr>k_id := k_id k, k_hash := k_hash k, k_user := k_user k,
                       k_created := k_created k\<rparr>) in
     case find (\<lambda>k. k_id k = i) (d_tokens d) of
       None \<Rightarrow> Inl ErrNotFound
     | Some k \<Rightarrow> Inr (g k, d\<lparr>d_tokens := map (\<lambda>k. if k_id k = i then g k else k) (d_tokens d)\<rparr>))"

definition delete_token :: "uuid \<Rightarrow> db \<Rightarrow> store_err + db" where
  "delete_token i d =
    (if list_ex (\<lambda>k. k_id k = i) (d_tokens d)
     then Inr (d\<lparr>d_tokens := filter (\<lambda>k. k_id k \<noteq> i) (d_tokens d)\<rparr>) else Inl ErrNotFound)"

text \<open>A linked account is never on the native platform: the schema's enumeration lacks it.\<close>

definition insert_account :: "account \<Rightarrow> db \<Rightarrow> store_err + db" where
  "insert_account a d =
    (if a_platform a \<noteq> PlatformFarmtable \<and> coll_exists (a_collection a) d
        \<and> \<not> list_ex (\<lambda>q. a_id q = a_id a) (d_accounts d)
     then Inr (d\<lparr>d_accounts := d_accounts d @ [a]\<rparr>) else Inl ErrOther)"

definition update_account ::
  "env \<Rightarrow> uuid \<Rightarrow> (account \<Rightarrow> account) \<Rightarrow> db \<Rightarrow> store_err + (account \<times> db)" where
  "update_account e i f d =
    (let g = (\<lambda>a. (f a)\<lparr>a_id := a_id a, a_collection := a_collection a, a_platform := a_platform a,
                       a_created := a_created a, a_updated := now e\<rparr>) in
     case find (\<lambda>a. a_id a = i) (d_accounts d) of
       None \<Rightarrow> Inl ErrNotFound
     | Some a \<Rightarrow> Inr (g a,
         d\<lparr>d_accounts := map (\<lambda>a. if a_id a = i then g a else a) (d_accounts d)\<rparr>))"

definition delete_account :: "uuid \<Rightarrow> db \<Rightarrow> store_err + db" where
  "delete_account i d =
    (if list_ex (\<lambda>a. a_id a = i) (d_accounts d)
     then Inr (d\<lparr>d_accounts := filter (\<lambda>a. a_id a \<noteq> i) (d_accounts d)\<rparr>) else Inl ErrNotFound)"

end
