(* ===== verification/FT_Integrity.thy ===== *)
theory FT_Integrity
  imports FT_Db "HOL-Library.Sublist"
begin

text \<open>
  The interface between the statements of the database and the operations of the store. The
  locale \<open>db_step\<close> says of a relation on databases that it is a preorder which every
  statement respects; an operation composed of statements respects it then too (each
  component theory proves that for its operations inside the locale). It is interpreted here
  on referential integrity, on the append-only audit log and on declared stages.
\<close>

section \<open>Integrity of the database\<close>

definition task_ids :: "db \<Rightarrow> uuid set" where
  "task_ids d = t_id ` set (d_tasks d)"

definition coll_ids :: "db \<Rightarrow> uuid set" where
  "coll_ids d = co_id ` set (d_colls d)"

definition user_ids :: "db \<Rightarrow> uuid set" where
  "user_ids d = u_id ` set (d_users d)"

definition rel_key :: "rel \<Rightarrow> uuid \<times> uuid \<times> rel_type" where
  "rel_key r = (r_src r, r_tgt r, r_type r)"

definition tasks_ok :: "uuid set \<Rightarrow> task list \<Rightarrow> bool" where
  "tasks_ok cids ts \<longleftrightarrow> distinct (map t_id ts)
     \<and> (\<forall>t\<in>set ts. t_title t \<noteq> [] \<and> t_collection t \<in> cids
          \<and> set_option (t_parent t) \<subseteq> t_id ` set ts)"

definition rels_ok :: "uuid set \<Rightarrow> rel list \<Rightarrow> bool" where
  "rels_ok tids rs \<longleftrightarrow> distinct (map r_id rs) \<and> distinct (map rel_key rs)
     \<and> (\<forall>r\<in>set rs. r_src r \<in> tids \<and> r_tgt r \<in> tids)"

definition changes_ok :: "uuid set \<Rightarrow> change list \<Rightarrow> bool" where
  "changes_ok tids cs \<longleftrightarrow> distinct (map ch_id cs) \<and> (\<forall>c\<in>set cs. ch_task c \<in> tids)"

definition comments_ok :: "uuid set \<Rightarrow> comment list \<Rightarrow> bool" where
  "comments_ok tids cs \<longleftrightarrow> distinct (map cm_id cs)
     \<and> (\<forall>c\<in>set cs. cm_task c \<in> tids \<and> cm_body c \<noteq> [])"

definition colls_ok :: "collection list \<Rightarrow> bool" where
  "colls_ok cs \<longleftrightarrow> distinct (map co_id cs) \<and> (\<forall>c\<in>set cs. co_name c \<noteq> [])"

definition users_ok :: "user list \<Rightarrow> bool" where
  "users_ok us \<longleftrightarrow> distinct (map u_id us) \<and> (\<forall>u\<in>set us. u_name u \<noteq> [])"

definition tokens_ok :: "uuid set \<Rightarrow> token list \<Rightarrow> bool" where
  "tokens_ok uids ks \<longleftrightarrow> distinct (map k_id ks) \<and> distinct (map k_hash ks)
     \<and> (\<forall>k\<in>set ks. k_user k \<in> uids)"

definition accounts_ok :: "uuid set \<Rightarrow> account list \<Rightarrow> bool" where
  "accounts_ok cids as \<longleftrightarrow> distinct (map a_id as)
     \<and> (\<forall>a\<in>set as. a_collection a \<in> cids \<and> a_platform a \<noteq> PlatformFarmtable)"

definition db_ok :: "db \<Rightarrow> bool" where
  "db_ok d \<longleftrightarrow> tasks_ok (coll_ids d) (d_tasks d) \<and> rels_ok (task_ids d) (d_rels d)
     \<and> changes_ok (task_ids d) (d_changes d) \<and> comments_ok (task_ids d) (d_comments d)
     \<and> colls_ok (d_colls d) \<and> users_ok (d_users d)
     \<and> tokens_ok (user_ids d) (d_tokens d) \<and> accounts_ok (coll_ids d) (d_accounts d)"

definition stages_ok :: "db \<Rightarrow> bool" where
  "stages_ok d \<longleftrightarrow> (\<forall>t\<in>set (d_tasks d). declared_stage (t_stage t))"

lemma exists_iff [simp]:
  "task_exists i d \<longleftrightarrow> i \<in> task_ids d"
  "coll_exists i d \<longleftrightarrow> i \<in> coll_ids d"
  "user_exists i d \<longleftrightarrow> i \<in> user_ids d"
  by (auto simp: task_exists_def coll_exists_def user_exists_def task_ids_def coll_ids_def
      user_ids_def list_ex_iff)

lemma rel_exists_iff: "rel_exists s t ty d \<longleftrightarrow> (s, t, ty) \<in> rel_key ` set (d_rels d)"
  by (force simp: rel_exists_def list_ex_iff rel_key_def)

lemma get_task_Some: "get_task i d = Some t \<Longrightarrow> t \<in> set (d_tasks d) \<and> t_id t = i"
  unfolding get_task_def by (drule find_Some_mem)

lemma get_task_id: "get_task i d = Some t \<Longrightarrow> t_id t = i"
  using get_task_Some by blast

lemma get_task_None: "get_task i d = None \<longleftrightarrow> i \<notin> task_ids d"
  by (auto simp: get_task_def find_None_iff_ex task_ids_def)

lemma get_task_ids: "get_task i d = Some t \<Longrightarrow> i \<in> task_ids d"
  using get_task_None [of i d] by auto

lemma get_task_mem:
  "distinct (map t_id (d_tasks d)) \<Longrightarrow> t \<in> set (d_tasks d) \<Longrightarrow> get_task (t_id t) d = Some t"
  by (simp add: get_task_def find_distinct_key)

lemma getTaskWithEdges_Inr:
  "getTaskWithEdges i d = Inr et \<longleftrightarrow> (\<exists>t. get_task i d = Some t \<and> et = with_edges d t)"
  by (auto simp: getTaskWithEdges_def thenE_Inr)

lemma with_edges_simps [simp]:
  "e_task (with_edges d t) = t"
  "e_src (with_edges d t) = filter (\<lambda>r. r_src r = t_id t) (d_rels d)"
  "e_tgt (with_edges d t) = filter (\<lambda>r. r_tgt r = t_id t) (d_rels d)"
  by (simp_all add: with_edges_def)

section \<open>The interface\<close>

text \<open>What an update of rows has to respect: it blanks no title and undeclares no stage.\<close>

definition keeps_row :: "(task \<Rightarrow> task) \<Rightarrow> bool" where
  "keeps_row f \<longleftrightarrow> (\<forall>t. (t_title t \<noteq> [] \<longrightarrow> t_title (f t) \<noteq> [])
     \<and> (declared_stage (t_stage t) \<longrightarrow> declared_stage (t_stage (f t))))"

text \<open>A write of a collection that keeps a name and keeps the platform.\<close>

definition keeps_coll :: "(collection \<Rightarrow> collection) \<Rightarrow> bool" where
  "keeps_coll g \<longleftrightarrow> (\<forall>c. co_platform (g c) = co_platform c \<and> (co_name c \<noteq> [] \<longrightarrow> co_name (g c) \<noteq> []))"

locale db_step =
  fixes R :: "db \<Rightarrow> db \<Rightarrow> bool"
  assumes R_refl: "R d d"
    and R_trans: "R d1 d2 \<Longrightarrow> R d2 d3 \<Longrightarrow> R d1 d3"
    and R_drawn: "R d (drawn d)"
    and R_insert_task: "insert_task t d = Inr d' \<Longrightarrow> R d d'"
    and R_update_tasks: "update_tasks e v P f d = Inr (n, d') \<Longrightarrow> (v \<Longrightarrow> keeps_row f) \<Longrightarrow> R d d'"
    and R_delete_task: "delete_task i d = Inr (n, d') \<Longrightarrow> R d d'"
    and R_insert_rel: "insert_rel r d = Inr d' \<Longrightarrow> R d d'"
    and R_delete_rels: "R d (delete_rels Q d)"
    and R_insert_change: "insert_change c d = Inr d' \<Longrightarrow> R d d'"
    and R_insert_comment: "insert_comment cm d = Inr d' \<Longrightarrow> R d d'"
    and R_insert_coll: "insert_coll co d = Inr d' \<Longrightarrow> R d d'"
    and R_update_coll: "update_coll e i v g d = Inr (co, d') \<Longrightarrow>
          (v \<Longrightarrow> keeps_coll g) \<Longrightarrow> R d d'"
    and R_insert_user: "insert_user u d = Inr d' \<Longrightarrow> R d d'"
    and R_insert_token: "insert_token k d = Inr d' \<Longrightarrow> R d d'"
    and R_update_token: "update_token i h d = Inr (k, d') \<Longrightarrow> R d d'"
    and R_delete_token: "delete_token i d = Inr d' \<Longrightarrow> R d d'"
    and R_insert_account: "insert_account a d = Inr d' \<Longrightarrow> R d d'"
    and R_update_account: "update_account e i ha d = Inr (a, d') \<Longrightarrow> R d d'"
    and R_delete_account: "delete_account i d = Inr d' \<Longrightarrow> R d d'"
begin

lemma R_fold_steps:
  assumes "\<And>s x s'. x \<in> set xs \<Longrightarrow> f s x = Inr s' \<Longrightarrow> R s s'"
    and "foldE f d xs = Inr d'"
  shows "R d d'"
proof (rule foldE_invariant [where P = "R d", OF _ R_refl assms(2)])
  fix s x s'
  assume "R d s" and "x \<in> set xs" and "f s x = Inr s'"
  with assms(1) show "R d s'" by (blast intro: R_trans)
qed

end

section \<open>Integrity is an instance\<close>

lemma ids_simps [simp]:
  "task_ids (d\<lparr>d_tasks := ts\<rparr>) = t_id ` set ts"
  "task_ids (d\<lparr>d_rels := rs\<rparr>) = task_ids d" "task_ids (d\<lparr>d_changes := chs\<rparr>) = task_ids d"
  "task_ids (d\<lparr>d_comments := cms\<rparr>) = task_ids d" "task_ids (d\<lparr>d_colls := cs\<rparr>) = task_ids d"
  "task_ids (d\<lparr>d_users := us\<rparr>) = task_ids d" "task_ids (d\<lparr>d_tokens := ks\<rparr>) = task_ids d"
  "task_ids (d\<lparr>d_accounts := as\<rparr>) = task_ids d" "task_ids (d\<lparr>d_next := m\<rparr>) = task_ids d"
  "coll_ids (d\<lparr>d_colls := cs\<rparr>) = co_id ` set cs"
  "coll_ids (d\<lparr>d_tasks := ts\<rparr>) = coll_ids d" "coll_ids (d\<lparr>d_rels := rs\<rparr>) = coll_ids d"
  "coll_ids (d\<lparr>d_changes := chs\<rparr>) = coll_ids d" "coll_ids (d\<lparr>d_comments := cms\<rparr>) = coll_ids d"
  "coll_ids (d\<lparr>d_users := us\<rparr>) = coll_ids d" "coll_ids (d\<lparr>d_tokens := ks\<rparr>) = coll_ids d"
  "coll_ids (d\<lparr>d_accounts := as\<rparr>) = coll_ids d" "coll_ids (d\<lparr>d_next := m\<rparr>) = coll_ids d"
  "user_ids (d\<lparr>d_users := us\<rparr>) = u_id ` set us"
  "user_ids (d\<lparr>d_tasks := ts\<rparr>) = user_ids d" "user_ids (d\<lparr>d_rels := rs\<rparr>) = user_ids d"
  "user_ids (d\<lparr>d_changes := chs\<rparr>) = user_ids d" "user_ids (d\<lparr>d_comments := cms\<rparr>) = user_ids d"
  "user_ids (d\<lparr>d_colls := cs\<rparr>) = user_ids d" "user_ids (d\<lparr>d_tokens := ks\<rparr>) = user_ids d"
  "user_ids (d\<lparr>d_accounts := as\<rparr>) = user_ids d" "user_ids (d\<lparr>d_next := m\<rparr>) = user_ids d"
  by (simp_all add: task_ids_def coll_ids_def user_ids_def)

text \<open>Tables that refer to a table keep their references when it grows.\<close>

lemma table_mono:
  "cids \<subseteq> cids' \<Longrightarrow> tasks_ok cids ts \<Longrightarrow> tasks_ok cids' ts"
  "tids \<subseteq> tids' \<Longrightarrow> rels_ok tids rs \<Longrightarrow> rels_ok tids' rs"
  "tids \<subseteq> tids' \<Longrightarrow> changes_ok tids chs \<Longrightarrow> changes_ok tids' chs"
  "tids \<subseteq> tids' \<Longrightarrow> comments_ok tids cms \<Longrightarrow> comments_ok tids' cms"
  "uids \<subseteq> uids' \<Longrightarrow> tokens_ok uids ks \<Longrightarrow> tokens_ok uids' ks"
  "cids \<subseteq> cids' \<Longrightarrow> accounts_ok cids as \<Longrightarrow> accounts_ok cids' as"
  unfolding tasks_ok_def rels_ok_def changes_ok_def comments_ok_def tokens_ok_def accounts_ok_def
  by blast+

lemma db_ok_tasks_grow:
  assumes "db_ok d" and "tasks_ok (coll_ids d) ts" and "task_ids d \<subseteq> t_id ` set ts"
  shows "db_ok (d\<lparr>d_tasks := ts\<rparr>)"
  using assms by (auto simp: db_ok_def intro: table_mono)

lemma db_ok_insert_task:
  assumes ins: "insert_task t d = Inr d'" and ok: "db_ok d"
  shows "db_ok d'"
proof -
  from ins have d': "d' = d\<lparr>d_tasks := d_tasks d @ [t]\<rparr>" and new: "t_id t \<notin> task_ids d"
    and t: "t_title t \<noteq> []" "t_collection t \<in> coll_ids d"
      "set_option (t_parent t) \<subseteq> insert (t_id t) (task_ids d)"
    by (auto simp: insert_task_def split: if_splits option.splits)
  from ok have "tasks_ok (coll_ids d) (d_tasks d)" by (simp add: db_ok_def)
  with new t have "tasks_ok (coll_ids d) (d_tasks d @ [t])"
    unfolding tasks_ok_def task_ids_def by auto
  then show ?thesis unfolding d' by (rule db_ok_tasks_grow [OF ok]) (auto simp: task_ids_def)
qed

lemma update_tasks_Inr:
  "update_tasks e v P f d = Inr (n, d') \<longleftrightarrow>
     v \<and> (\<forall>t\<in>set (d_tasks d). P t \<longrightarrow> set_option (t_parent (f t)) \<subseteq> task_ids d)
     \<and> n = length (filter P (d_tasks d))
     \<and> d' = d\<lparr>d_tasks := map (\<lambda>t. if P t then (f t)\<lparr>t_id := t_id t,
           t_collection := t_collection t, t_created := t_created t, t_updated := now e\<rparr> else t)
           (d_tasks d)\<rparr>"
  by (auto simp: update_tasks_def Let_def task_row_ok_def list_all_iff split: option.splits)

lemma db_ok_update_tasks:
  assumes u: "update_tasks e v P f d = Inr (n, d')" and f: "v \<Longrightarrow> keeps_row f" and ok: "db_ok d"
  shows "db_ok d'"
proof -
  let ?g = "\<lambda>t. if P t then (f t)\<lparr>t_id := t_id t, t_collection := t_collection t,
     t_created := t_created t, t_updated := now e\<rparr> else t"
  have d': "d' = d\<lparr>d_tasks := map ?g (d_tasks d)\<rparr>" and kr: "keeps_row f"
    and par: "\<forall>t\<in>set (d_tasks d). P t \<longrightarrow> set_option (t_parent (f t)) \<subseteq> task_ids d"
    using u f by (auto simp: update_tasks_Inr)
  have keys: "map t_id (map ?g (d_tasks d)) = map t_id (d_tasks d)" by (rule map_key_if) simp
  then have ids: "t_id ` set (map ?g (d_tasks d)) = task_ids d"
    unfolding task_ids_def set_map [symmetric] by simp
  have old: "tasks_ok (coll_ids d) (d_tasks d)" using ok by (simp add: db_ok_def)
  have row: "\<forall>s\<in>set (map ?g (d_tasks d)). t_title s \<noteq> [] \<and> t_collection s \<in> coll_ids d
      \<and> set_option (t_parent s) \<subseteq> task_ids d"
    using old par kr unfolding tasks_ok_def keeps_row_def task_ids_def set_map ball_simps by simp
  have "distinct (map t_id (map ?g (d_tasks d)))"
    unfolding keys using old by (simp add: tasks_ok_def)
  with row have "tasks_ok (coll_ids d) (map ?g (d_tasks d))"
    unfolding tasks_ok_def ids by blast
  then show ?thesis unfolding d' by (rule db_ok_tasks_grow [OF ok]) (simp only: ids subset_refl)
qed

lemma db_ok_delete_task:
  assumes del: "delete_task i d = Inr (n, d')" and ok: "db_ok d"
  shows "db_ok d'"
proof (cases "i \<in> task_ids d")
  case False
  then show ?thesis using del ok by (auto simp: delete_task_def)
next
  case True
  let ?c = "\<lambda>t. if t_parent t = Some i then t\<lparr>t_parent := None\<rparr> else t"
  let ?ts = "map ?c (filter (\<lambda>t. t_id t \<noteq> i) (d_tasks d))"
  from True del have d': "d' = d\<lparr>d_tasks := ?ts,
      d_rels := filter (\<lambda>r. r_src r \<noteq> i \<and> r_tgt r \<noteq> i) (d_rels d)\<rparr>"
    and none: "\<forall>c\<in>set (d_comments d). cm_task c \<noteq> i" "\<forall>c\<in>set (d_changes d). ch_task c \<noteq> i"
    by (auto simp: delete_task_def list_ex_iff split: if_splits)
  have keys: "map t_id ?ts = map t_id (filter (\<lambda>t. t_id t \<noteq> i) (d_tasks d))"
    by (rule map_key_if) simp
  then have ids: "t_id ` set ?ts = task_ids d - {i}"
    unfolding task_ids_def set_map [symmetric] by auto
  have old: "tasks_ok (coll_ids d) (d_tasks d)" using ok by (simp add: db_ok_def)
  have row: "\<forall>s\<in>set ?ts. t_title s \<noteq> [] \<and> t_collection s \<in> coll_ids d
      \<and> set_option (t_parent s) \<subseteq> task_ids d - {i}"
    using old unfolding tasks_ok_def task_ids_def by (auto split: if_splits)
  have "distinct (map t_id ?ts)"
    unfolding keys using old by (simp add: tasks_ok_def distinct_map_filter_key)
  with row have "tasks_ok (coll_ids d) ?ts" unfolding tasks_ok_def ids by blast
  moreover have "rels_ok (task_ids d - {i}) (filter (\<lambda>r. r_src r \<noteq> i \<and> r_tgt r \<noteq> i) (d_rels d))"
    using ok by (auto simp: db_ok_def rels_ok_def distinct_map_filter_key)
  moreover have "changes_ok (task_ids d - {i}) (d_changes d)"
    "comments_ok (task_ids d - {i}) (d_comments d)"
    using ok none by (auto simp: db_ok_def changes_ok_def comments_ok_def)
  ultimately show ?thesis using ok unfolding db_ok_def d' by (simp add: ids del: set_map)
qed

lemma db_ok_rels:
  "insert_rel r d = Inr d' \<Longrightarrow> db_ok d \<Longrightarrow> db_ok d'"
  "db_ok d \<Longrightarrow> db_ok (delete_rels Q d)"
proof -
  assume ins: "insert_rel r d = Inr d'" and ok: "db_ok d"
  then have "rels_ok (task_ids d) (d_rels d @ [r])"
    by (auto simp: insert_rel_def db_ok_def rels_ok_def rel_exists_iff rel_key_def list_ex_key
        split: if_splits)
  then show "db_ok d'" using ins ok by (auto simp: insert_rel_def db_ok_def split: if_splits)
next
  assume ok: "db_ok d"
  then have "rels_ok (task_ids d) (filter (\<lambda>r. \<not> Q r) (d_rels d))"
    by (simp add: db_ok_def rels_ok_def distinct_map_filter_key)
  then show "db_ok (delete_rels Q d)" using ok by (simp add: delete_rels_def db_ok_def)
qed

lemma db_ok_insert_change: "insert_change c d = Inr d' \<Longrightarrow> db_ok d \<Longrightarrow> db_ok d'"
  by (auto simp: insert_change_def db_ok_def changes_ok_def list_ex_key split: if_splits)

lemma db_ok_insert_comment: "insert_comment c d = Inr d' \<Longrightarrow> db_ok d \<Longrightarrow> db_ok d'"
  by (auto simp: insert_comment_def db_ok_def comments_ok_def list_ex_key split: if_splits)

lemma db_ok_insert_coll:
  assumes ins: "insert_coll c d = Inr d'" and ok: "db_ok d"
  shows "db_ok d'"
proof -
  from ins have d': "d' = d\<lparr>d_colls := d_colls d @ [c]\<rparr>" and c: "co_name c \<noteq> []" "co_id c \<notin> coll_ids d"
    by (auto simp: insert_coll_def split: if_splits)
  have "coll_ids d \<subseteq> co_id ` set (d_colls d @ [c])" by (auto simp: coll_ids_def)
  moreover have "colls_ok (d_colls d @ [c])"
    using ok c by (auto simp: db_ok_def colls_ok_def coll_ids_def)
  ultimately show ?thesis
    using ok unfolding db_ok_def d' by (auto intro: table_mono simp del: set_append)
qed

lemma db_ok_insert_user:
  assumes ins: "insert_user u d = Inr d'" and ok: "db_ok d"
  shows "db_ok d'"
proof -
  from ins have d': "d' = d\<lparr>d_users := d_users d @ [u]\<rparr>" and u: "u_name u \<noteq> []" "u_id u \<notin> user_ids d"
    by (auto simp: insert_user_def split: if_splits)
  have "user_ids d \<subseteq> u_id ` set (d_users d @ [u])" by (auto simp: user_ids_def)
  moreover have "users_ok (d_users d @ [u])"
    using ok u by (auto simp: db_ok_def users_ok_def user_ids_def)
  ultimately show ?thesis
    using ok unfolding db_ok_def d' by (auto intro: table_mono simp del: set_append)
qed

lemma db_ok_insert_token: "insert_token k d = Inr d' \<Longrightarrow> db_ok d \<Longrightarrow> db_ok d'"
  by (auto simp: insert_token_def db_ok_def tokens_ok_def list_ex_key split: if_splits)

lemma db_ok_insert_account: "insert_account a d = Inr d' \<Longrightarrow> db_ok d \<Longrightarrow> db_ok d'"
  by (auto simp: insert_account_def db_ok_def accounts_ok_def list_ex_key split: if_splits)

lemma db_ok_update_coll:
  assumes u: "update_coll e i v g d = Inr (co, d')" and ok: "db_ok d"
    and g: "v \<Longrightarrow> keeps_coll g"
  shows "db_ok d'"
proof -
  let ?g = "\<lambda>c. (g c)\<lparr>co_id := co_id c, co_created := co_created c, co_updated := now e\<rparr>"
  let ?cs = "map (\<lambda>c. if co_id c = i then ?g c else c) (d_colls d)"
  have d': "d' = d\<lparr>d_colls := ?cs\<rparr>" and v: "v"
    using u by (auto simp: update_coll_def Let_def split: if_splits option.splits)
  have keys: "map co_id ?cs = map co_id (d_colls d)" by (rule map_key_if) simp
  then have ids: "co_id ` set ?cs = coll_ids d" unfolding coll_ids_def set_map [symmetric] by simp
  have "\<forall>c\<in>set ?cs. co_name c \<noteq> []"
    using ok g [OF v] unfolding db_ok_def colls_ok_def set_map ball_simps keeps_coll_def by simp
  moreover have "distinct (map co_id ?cs)"
    unfolding keys using ok by (simp add: db_ok_def colls_ok_def)
  ultimately have "colls_ok ?cs" unfolding colls_ok_def by blast
  then show ?thesis using ok unfolding db_ok_def d' by (simp add: ids del: set_map)
qed

lemma db_ok_update_token:
  assumes u: "update_token i h d = Inr (k, d')" and ok: "db_ok d"
  shows "db_ok d'"
proof -
  let ?g = "\<lambda>k. (h k)\<lparr>k_id := k_id k, k_hash := k_hash k, k_user := k_user k,
                     k_created := k_created k\<rparr>"
  let ?ks = "map (\<lambda>k. if k_id k = i then ?g k else k) (d_tokens d)"
  have d': "d' = d\<lparr>d_tokens := ?ks\<rparr>"
    using u by (auto simp: update_token_def Let_def split: option.splits)
  have keys: "map k_id ?ks = map k_id (d_tokens d)" "map k_hash ?ks = map k_hash (d_tokens d)"
    by (rule map_key_if; simp)+
  have "\<forall>k\<in>set ?ks. k_user k \<in> user_ids d"
    using ok unfolding db_ok_def tokens_ok_def set_map ball_simps by simp
  moreover have "distinct (map k_id ?ks)" "distinct (map k_hash ?ks)"
    unfolding keys using ok by (simp_all add: db_ok_def tokens_ok_def)
  ultimately have "tokens_ok (user_ids d) ?ks" unfolding tokens_ok_def by blast
  then show ?thesis using ok unfolding db_ok_def d' by simp
qed

lemma db_ok_update_account:
  assumes u: "update_account e i h d = Inr (a, d')" and ok: "db_ok d"
  shows "db_ok d'"
proof -
  let ?g = "\<lambda>a. (h a)\<lparr>a_id := a_id a, a_collection := a_collection a, a_platform := a_platform a,
                     a_created := a_created a, a_updated := now e\<rparr>"
  let ?as = "map (\<lambda>a. if a_id a = i then ?g a else a) (d_accounts d)"
  have d': "d' = d\<lparr>d_accounts := ?as\<rparr>"
    using u by (auto simp: update_account_def Let_def split: option.splits)
  have keys: "map a_id ?as = map a_id (d_accounts d)" by (rule map_key_if) simp
  have "\<forall>a\<in>set ?as. a_collection a \<in> coll_ids d \<and> a_platform a \<noteq> PlatformFarmtable"
    using ok unfolding db_ok_def accounts_ok_def set_map ball_simps by simp
  moreover have "distinct (map a_id ?as)"
    unfolding keys using ok by (simp add: db_ok_def accounts_ok_def)
  ultimately have "accounts_ok (coll_ids d) ?as" unfolding accounts_ok_def by blast
  then show ?thesis using ok unfolding db_ok_def d' by simp
qed

lemma db_ok_delete_token: "delete_token i d = Inr d' \<Longrightarrow> db_ok d \<Longrightarrow> db_ok d'"
  by (auto simp: delete_token_def db_ok_def tokens_ok_def distinct_map_filter_key split: if_splits)

lemma db_ok_delete_account: "delete_account i d = Inr d' \<Longrightarrow> db_ok d \<Longrightarrow> db_ok d'"
  by (auto simp: delete_account_def db_ok_def accounts_ok_def distinct_map_filter_key
      split: if_splits)

lemma db_ok_drawn [simp]: "db_ok (drawn d) = db_ok d"
  by (simp add: drawn_def db_ok_def)

lemmas db_ok_statements = db_ok_insert_task db_ok_delete_task db_ok_rels db_ok_insert_change
  db_ok_insert_comment db_ok_insert_coll db_ok_insert_user db_ok_insert_token db_ok_update_token
  db_ok_delete_token db_ok_insert_account db_ok_update_account db_ok_delete_account

interpretation integrity: db_step "\<lambda>d d'. db_ok d \<longrightarrow> db_ok d'"
proof
  fix e v P f d n d'
  assume "update_tasks e v P f d = Inr (n, d')" and "v \<Longrightarrow> keeps_row f"
  then show "db_ok d \<longrightarrow> db_ok d'" using db_ok_update_tasks by simp
next
  fix e i v g d co d'
  assume "update_coll e i v g d = Inr (co, d')" and "v \<Longrightarrow> keeps_coll g"
  then show "db_ok d \<longrightarrow> db_ok d'" using db_ok_update_coll by simp
qed (simp_all add: db_ok_statements)

section \<open>Two more instances\<close>

text \<open>The change log only grows: no statement rewrites or drops an entry of it.\<close>

definition log_extends :: "db \<Rightarrow> db \<Rightarrow> bool" where
  "log_extends d d' \<longleftrightarrow> prefix (d_changes d) (d_changes d')"

lemmas statement_defs = insert_task_def delete_task_def insert_rel_def delete_rels_def
  insert_change_def insert_comment_def insert_coll_def update_coll_def insert_user_def
  insert_token_def update_token_def delete_token_def insert_account_def update_account_def
  delete_account_def drawn_def

interpretation audit: db_step log_extends
proof
  fix d1 d2 d3
  assume "log_extends d1 d2" and "log_extends d2 d3"
  then show "log_extends d1 d3" unfolding log_extends_def by (rule prefix_order.trans)
qed (auto simp: log_extends_def statement_defs update_tasks_Inr Let_def
       split: if_splits option.splits)

lemma update_tasks_mem:
  assumes "update_tasks e v P f d = Inr (n, d')" and "s \<in> set (d_tasks d')"
  shows "\<exists>t\<in>set (d_tasks d). s = (if P t then (f t)\<lparr>t_id := t_id t,
      t_collection := t_collection t, t_created := t_created t, t_updated := now e\<rparr> else t)"
  using assms by (auto simp: update_tasks_Inr)

lemma stages_ok_update_tasks:
  assumes "update_tasks e v P f d = Inr (n, d')" and "v \<Longrightarrow> keeps_row f" and "stages_ok d"
  shows "stages_ok d'"
proof -
  have "v" using assms(1) by (simp add: update_tasks_Inr)
  then have "keeps_row f" by (rule assms(2))
  then show ?thesis
    using assms(3) update_tasks_mem [OF assms(1)] unfolding stages_ok_def keeps_row_def by fastforce
qed

text \<open>The statements on the other tables leave the tasks alone.\<close>

lemma keeps_tasks:
  "insert_rel r d = Inr d' \<Longrightarrow> d_tasks d' = d_tasks d"
  "insert_change c d = Inr d' \<Longrightarrow> d_tasks d' = d_tasks d"
  "insert_comment cm d = Inr d' \<Longrightarrow> d_tasks d' = d_tasks d"
  "insert_coll co d = Inr d' \<Longrightarrow> d_tasks d' = d_tasks d"
  "update_coll e i v g d = Inr (co, d') \<Longrightarrow> d_tasks d' = d_tasks d"
  "insert_user u d = Inr d' \<Longrightarrow> d_tasks d' = d_tasks d"
  "insert_token k d = Inr d' \<Longrightarrow> d_tasks d' = d_tasks d"
  "update_token i h d = Inr (k, d') \<Longrightarrow> d_tasks d' = d_tasks d"
  "delete_token i d = Inr d' \<Longrightarrow> d_tasks d' = d_tasks d"
  "insert_account a d = Inr d' \<Longrightarrow> d_tasks d' = d_tasks d"
  "update_account e i ha d = Inr (a, d') \<Longrightarrow> d_tasks d' = d_tasks d"
  "delete_account i d = Inr d' \<Longrightarrow> d_tasks d' = d_tasks d"
  "d_tasks (drawn d) = d_tasks d"
  "d_tasks (delete_rels Q d) = d_tasks d"
  by (auto simp: statement_defs Let_def split: if_splits option.splits)

lemma stages_ok_tasks: "d_tasks d' = d_tasks d \<Longrightarrow> stages_ok d \<Longrightarrow> stages_ok d'"
  by (simp add: stages_ok_def)

lemmas keeps_stages = keeps_tasks [THEN stages_ok_tasks]

lemma stages_ok_insert_delete:
  "insert_task t d = Inr d' \<Longrightarrow> stages_ok d \<Longrightarrow> stages_ok d'"
  "delete_task i d = Inr (n, d') \<Longrightarrow> stages_ok d \<Longrightarrow> stages_ok d'"
  by (auto simp: insert_task_def delete_task_def stages_ok_def split: if_splits option.splits)

interpretation declared: db_step "\<lambda>d d'. stages_ok d \<longrightarrow> stages_ok d'"
proof
  fix e v P f d n d'
  assume "update_tasks e v P f d = Inr (n, d')" and "v \<Longrightarrow> keeps_row f"
  then show "stages_ok d \<longrightarrow> stages_ok d'" using stages_ok_update_tasks by simp
qed (blast intro: stages_ok_insert_delete keeps_stages)+

text \<open>No statement deletes a collection or changes its platform.\<close>

definition platforms_kept :: "db \<Rightarrow> db \<Rightarrow> bool" where
  "platforms_kept d d' \<longleftrightarrow> (\<forall>i c. find (\<lambda>c. co_id c = i) (d_colls d) = Some c \<longrightarrow>
     (\<exists>c'. find (\<lambda>c. co_id c = i) (d_colls d') = Some c' \<and> co_platform c' = co_platform c))"

lemma platforms_kept_same: "d_colls d' = d_colls d \<Longrightarrow> platforms_kept d d'"
  by (simp add: platforms_kept_def)

lemma keeps_colls:
  "insert_task t d = Inr d' \<Longrightarrow> d_colls d' = d_colls d"
  "update_tasks e v P f d = Inr (n, d') \<Longrightarrow> d_colls d' = d_colls d"
  "delete_task i d = Inr (n, d') \<Longrightarrow> d_colls d' = d_colls d"
  "insert_rel r d = Inr d' \<Longrightarrow> d_colls d' = d_colls d"
  "insert_change ch d = Inr d' \<Longrightarrow> d_colls d' = d_colls d"
  "insert_comment cm d = Inr d' \<Longrightarrow> d_colls d' = d_colls d"
  "insert_user u d = Inr d' \<Longrightarrow> d_colls d' = d_colls d"
  "insert_token k d = Inr d' \<Longrightarrow> d_colls d' = d_colls d"
  "update_token i h d = Inr (k, d') \<Longrightarrow> d_colls d' = d_colls d"
  "delete_token i d = Inr d' \<Longrightarrow> d_colls d' = d_colls d"
  "insert_account a d = Inr d' \<Longrightarrow> d_colls d' = d_colls d"
  "update_account e i ha d = Inr (a, d') \<Longrightarrow> d_colls d' = d_colls d"
  "delete_account i d = Inr d' \<Longrightarrow> d_colls d' = d_colls d"
  "d_colls (drawn d) = d_colls d"
  "d_colls (delete_rels Q d) = d_colls d"
  by (auto simp: statement_defs update_tasks_Inr Let_def split: if_splits option.splits)

lemma platforms_kept_insert: "insert_coll co d = Inr d' \<Longrightarrow> platforms_kept d d'"
  by (auto simp: platforms_kept_def insert_coll_def find_append split: if_splits)

lemma platforms_kept_update:
  assumes "update_coll e i v g d = Inr (co, d')" and "v \<Longrightarrow> keeps_coll g"
  shows "platforms_kept d d'"
proof -
  let ?f = "\<lambda>c. if co_id c = i then (g c)\<lparr>co_id := co_id c, co_created := co_created c, co_updated := now e\<rparr> else c"
  have v: "v" and d': "d_colls d' = map ?f (d_colls d)"
    using assms(1) by (auto simp: update_coll_def Let_def split: if_splits option.splits)
  have "co_platform (?f c) = co_platform c" for c using assms(2) [OF v] by (simp add: keeps_coll_def)
  then show ?thesis by (simp add: platforms_kept_def d' find_map_same_key)
qed

interpretation platforms: db_step platforms_kept
proof
  fix d1 d2 d3
  assume "platforms_kept d1 d2" and "platforms_kept d2 d3"
  then show "platforms_kept d1 d3" unfolding platforms_kept_def by metis
next
  fix e i v g d co d'
  assume "update_coll e i v g d = Inr (co, d')" and "v \<Longrightarrow> keeps_coll g"
  then show "platforms_kept d d'" by (rule platforms_kept_update)
qed (auto intro: platforms_kept_insert platforms_kept_same keeps_colls)

end
