(* ===== verification/FT_Example.thy ===== *)
theory FT_Example
  imports FT_Integrity
begin

text \<open>
  A small database for the witnesses: one collection, a user, an accepted task that blocks a
  second one, a completed task and a task still in triage.
\<close>

definition ex_task :: "uuid \<Rightarrow> phase \<Rightarrow> stage \<Rightarrow> task" where
  "ex_task i ph st = \<lparr>t_id = i, t_title = ''a'', t_description = [], t_collection = 1,
     t_phase = ph, t_stage = st, t_hold = None, t_native_label = [], t_type = [],
     t_priority = None, t_rank = None, t_assignee = None, t_parent = None, t_start = None,
     t_due = None, t_closed = None, t_created = int i, t_updated = int i, t_acceptance = None,
     t_remote = None, t_labels = [], t_repo = [], t_branch = [], t_ci = None, t_prs = [],
     t_version = ''1''\<rparr>"

definition ex_coll :: collection where
  "ex_coll = \<lparr>co_id = 1, co_name = ''c'', co_description = [], co_platform = PlatformFarmtable,
     co_remote_id = [], co_remote = None, co_created = 0, co_updated = 0\<rparr>"

definition ex_user :: user where
  "ex_user = \<lparr>u_id = 7, u_email = None, u_name = ''u'', u_type = ''agent'', u_status = ''active'',
     u_created = 0, u_updated = 0\<rparr>"

definition ex_db :: db where
  "ex_db = \<lparr>d_tasks = [ex_task 10 PhaseOpen StageAccepted, ex_task 11 PhaseOpen StageAccepted,
        ex_task 12 PhaseClosed StageCompleted, ex_task 13 PhaseOpen StageTriage],
     d_rels = [\<lparr>r_id = 50, r_src = 10, r_tgt = 11, r_type = TypeBlocks\<rparr>,
        \<lparr>r_id = 51, r_src = 10, r_tgt = 12, r_type = TypeBlockedBy\<rparr>],
     d_changes = [], d_comments = [], d_colls = [ex_coll], d_users = [ex_user],
     d_tokens = [], d_accounts = [], d_next = 0\<rparr>"

definition ex_env :: env where
  "ex_env = \<lparr>now = 5000000000, uuid_at = (\<lambda>n. 1000 + n)\<rparr>"

lemmas ex_defs = ex_db_def ex_task_def ex_coll_def ex_user_def ex_env_def

lemma ex_db_ok: "db_ok ex_db"
  by (simp add: db_ok_def tasks_ok_def rels_ok_def changes_ok_def comments_ok_def colls_ok_def
      users_ok_def tokens_ok_def accounts_ok_def task_ids_def coll_ids_def user_ids_def
      rel_key_def ex_defs)

abbreviation ex10 :: task where "ex10 \<equiv> ex_task 10 PhaseOpen StageAccepted"
abbreviation ex11 :: task where "ex11 \<equiv> ex_task 11 PhaseOpen StageAccepted"

lemma ex_get10: "get_task 10 ex_db = Some ex10"
  by (simp add: get_task_def ex_defs)

lemma ex_get11: "get_task 11 ex_db = Some ex11"
  by (simp add: get_task_def ex_defs)

lemma ex_task_simps [simp]:
  "t_id (ex_task i ph st) = i" "t_phase (ex_task i ph st) = ph" "t_stage (ex_task i ph st) = st"
  "t_hold (ex_task i ph st) = None" "t_assignee (ex_task i ph st) = None"
  "t_start (ex_task i ph st) = None" "t_version (ex_task i ph st) = ''1''"
  "t_collection (ex_task i ph st) = 1" "t_title (ex_task i ph st) = ''a''"
  "t_parent (ex_task i ph st) = None"
  by (simp_all add: ex_task_def)

end
