(* ===== verification/FT_Availability.thy ===== *)
theory FT_Availability
  imports FT_Example
begin

text \<open>
  Availability of a task (\<open>computeAvailability\<close>, \<open>hasUnsatisfiedBlocker\<close> and the SQL
  predicates of \<open>noUnsatisfiedBlockerPredicates\<close>) and the two graph queries built on it,
  \<open>GetReadyTasks\<close> and \<open>GetBlockedTasks\<close>, of \<open>internal/store/entstore.go\<close>. The
  specification \<open>open_blocker\<close> says on the relation rows what the code computes from the
  eager-loaded edges.
\<close>

section \<open>Availability\<close>

datatype AvailabilityReason =
    ReasonTriage | ReasonTerminal | ReasonHeld | ReasonBlockedByDependency | ReasonFutureStartDate

record TaskAvailability =
  Available :: bool
  Reasons :: "AvailabilityReason list"

definition HasReason :: "TaskAvailability \<Rightarrow> AvailabilityReason \<Rightarrow> bool" where
  "HasReason a reason = list_ex (\<lambda>r. r = reason) (Reasons a)"

text \<open>The identifiers the two loops over the edges look up, in their order.\<close>

definition blocker_ids :: "etask \<Rightarrow> uuid list" where
  "blocker_ids et = map r_tgt (filter (\<lambda>r. r_type r = TypeBlockedBy) (e_src et))
     @ map r_src (filter (\<lambda>r. r_type r = TypeBlocks) (e_tgt et))"

fun check_blockers :: "(uuid \<Rightarrow> store_err + task) \<Rightarrow> uuid list \<Rightarrow> store_err + bool" where
  "check_blockers getTask [] = Inr False"
| "check_blockers getTask (i # is) =
    (case getTask i of
       Inl ErrNotFound \<Rightarrow> check_blockers getTask is
     | Inl err \<Rightarrow> Inl err
     | Inr b \<Rightarrow> if \<not> terminalStageSatisfiesDependency (t_stage b) then Inr True
               else check_blockers getTask is)"

definition hasUnsatisfiedBlocker :: "etask \<Rightarrow> (uuid \<Rightarrow> store_err + task) \<Rightarrow> store_err + bool" where
  "hasUnsatisfiedBlocker et getTask = check_blockers getTask (blocker_ids et)"

definition computeAvailability ::
  "time \<Rightarrow> etask \<Rightarrow> (uuid \<Rightarrow> store_err + task) \<Rightarrow> store_err + TaskAvailability" where
  "computeAvailability tnow et getTask =
    (let t = e_task et;
         r1 = (if t_stage t = StageTriage then [ReasonTriage] else []);
         r2 = (if IsTerminalStage (t_stage t) then [ReasonTerminal] else []);
         r3 = (if t_hold t \<noteq> None then [ReasonHeld] else []);
         r4 = (case t_start t of None \<Rightarrow> [] | Some s \<Rightarrow>
                 if s > tnow then [ReasonFutureStartDate] else [])
     in thenE (hasUnsatisfiedBlocker et getTask) (\<lambda>blocked.
        let reasons = r1 @ r2 @ r3 @ r4 @ (if blocked then [ReasonBlockedByDependency] else [])
        in Inr \<lparr>Available = (reasons = []), Reasons = reasons\<rparr>))"

text \<open>\<open>client.Task.Get\<close> as the lookup of the blockers.\<close>

definition task_Get :: "db \<Rightarrow> uuid \<Rightarrow> store_err + task" where
  "task_Get d i = optE ErrNotFound (get_task i d)"

definition ComputeAvailability :: "env \<Rightarrow> db \<Rightarrow> etask \<Rightarrow> store_err + TaskAvailability" where
  "ComputeAvailability e d et = computeAvailability (now e) et (task_Get d)"

text \<open>\<open>noUnsatisfiedBlockerPredicates\<close>, the two \<open>NOT EXISTS\<close> of the claim statement.\<close>

definition task_stage_neq_completed :: "db \<Rightarrow> uuid \<Rightarrow> bool" where
  "task_stage_neq_completed d i =
    list_ex (\<lambda>b. t_id b = i \<and> t_stage b \<noteq> StageCompleted) (d_tasks d)"

definition noUnsatisfiedBlockerPredicates :: "db \<Rightarrow> task \<Rightarrow> bool" where
  "noUnsatisfiedBlockerPredicates d t \<longleftrightarrow>
     \<not> list_ex (\<lambda>r. r_src r = t_id t \<and> r_type r = TypeBlockedBy
          \<and> task_stage_neq_completed d (r_tgt r)) (d_rels d)
   \<and> \<not> list_ex (\<lambda>r. r_tgt r = t_id t \<and> r_type r = TypeBlocks
          \<and> task_stage_neq_completed d (r_src r)) (d_rels d)"

definition validateTaskStateForWrite ::
  "time \<Rightarrow> stage \<Rightarrow> hold_reason option \<Rightarrow> time option \<Rightarrow> bool \<Rightarrow> store_err + unit" where
  "validateTaskStateForWrite tnow stage hold start clearing =
    (case hold of
       None \<Rightarrow> Inr ()
     | Some h \<Rightarrow>
         if stage \<notin> {StageAccepted, StageWorking, StageInReview, StageInQa, StageDeploying}
         then Inl ErrInvalidArgument
         else if h = HoldReasonDeferred \<and> (case start of None \<Rightarrow> False | Some s \<Rightarrow> s > tnow)
                 \<and> \<not> clearing
         then Inl ErrInvalidArgument
         else Inr ())"

section \<open>The graph queries\<close>

text \<open>The \<open>Offset\<close>/\<open>Limit\<close> slicing at the end of both queries.\<close>

definition page_slice :: "int \<Rightarrow> int \<Rightarrow> 'a list \<Rightarrow> 'a list" where
  "page_slice off lim xs =
    (let ys = (if 0 < off \<and> off < int (length xs) then drop (nat off) xs
               else if int (length xs) \<le> off then [] else xs)
     in if 0 < lim \<and> lim < int (length ys) then take (nat lim) ys else ys)"

record GetReadyTasksParams =
  gr_CollectionID :: "uuid option"
  gr_AssigneeID :: "uuid option"
  gr_Unassigned :: bool
  gr_MinPriority :: "priority option"
  gr_IncludeUnblockedOpen :: bool
  gr_Limit :: int
  gr_Offset :: int

record ReadyTaskResult =
  rt_Task :: etask
  rt_BlockersResolved :: nat

definition opt_eq :: "'a option \<Rightarrow> 'a \<Rightarrow> bool" where
  "opt_eq want x = (case want of None \<Rightarrow> True | Some w \<Rightarrow> x = w)"

definition ready_query :: "GetReadyTasksParams \<Rightarrow> task \<Rightarrow> bool" where
  "ready_query p t \<longleftrightarrow> t_phase t = PhaseOpen
     \<and> (gr_IncludeUnblockedOpen p \<or> (t_stage t = StageAccepted \<and> t_hold t = None))
     \<and> opt_eq (gr_CollectionID p) (t_collection t)
     \<and> (gr_AssigneeID p = None \<or> t_assignee t = gr_AssigneeID p)
     \<and> (gr_Unassigned p \<longrightarrow> t_assignee t = None)
     \<and> (case gr_MinPriority p of None \<Rightarrow> True
         | Some m \<Rightarrow> (case t_priority t of None \<Rightarrow> False
                     | Some q \<Rightarrow> List.member (prioritiesAtOrAbove m) q))"

definition blockers_resolved :: "db \<Rightarrow> etask \<Rightarrow> nat" where
  "blockers_resolved d et =
    length (filter (\<lambda>i. case get_task i d of None \<Rightarrow> False
                       | Some b \<Rightarrow> terminalStageSatisfiesDependency (t_stage b)) (blocker_ids et))"

definition ready_row ::
  "env \<Rightarrow> db \<Rightarrow> GetReadyTasksParams \<Rightarrow> etask \<Rightarrow> store_err + ReadyTaskResult list" where
  "ready_row e d p et =
    thenE (ComputeAvailability e d et) (\<lambda>a.
      if \<not> Available a \<and> (\<not> gr_IncludeUnblockedOpen p \<or> HasReason a ReasonBlockedByDependency)
      then Inr []
      else Inr [\<lparr>rt_Task = et, rt_BlockersResolved = blockers_resolved d et\<rparr>])"

text \<open>
  The comparison function of the stable sort, as the key it compares: the canonical text of
  a UUID is ordered as its value.
\<close>

definition ready_key :: "ReadyTaskResult \<Rightarrow> nat \<times> int \<times> time \<times> uuid" where
  "ready_key r = (let t = e_task (rt_Task r) in
     (priorityOrder (t_priority t), rankValue (t_rank t), t_created t, t_id t))"

definition GetReadyTasks ::
  "env \<Rightarrow> GetReadyTasksParams \<Rightarrow> db \<Rightarrow> store_err + (ReadyTaskResult list \<times> nat)" where
  "GetReadyTasks e p d =
    thenE (mapE (ready_row e d p) (map (with_edges d) (filter (ready_query p) (d_tasks d))))
      (\<lambda>rows. let results = concat rows in
        Inr (page_slice (gr_Offset p) (gr_Limit p) (sort_key ready_key results), length results))"

record GetBlockedTasksParams =
  gb_CollectionID :: "uuid option"
  gb_AssigneeID :: "uuid option"
  gb_Unassigned :: bool
  gb_Limit :: int
  gb_Offset :: int

record BlockerInfoResult =
  bi_TaskID :: uuid
  bi_Name :: string
  bi_Phase :: phase
  bi_Stage :: stage

record BlockedTaskResult =
  bt_Task :: etask
  bt_Blockers :: "BlockerInfoResult list"

definition blocked_query :: "GetBlockedTasksParams \<Rightarrow> task \<Rightarrow> bool" where
  "blocked_query p t \<longleftrightarrow> t_phase t \<noteq> PhaseClosed
     \<and> opt_eq (gb_CollectionID p) (t_collection t)
     \<and> (gb_AssigneeID p = None \<or> t_assignee t = gb_AssigneeID p)
     \<and> (gb_Unassigned p \<longrightarrow> t_assignee t = None)"

definition blocker_infos :: "db \<Rightarrow> etask \<Rightarrow> BlockerInfoResult list" where
  "blocker_infos d et = List.map_filter (\<lambda>i. case get_task i d of None \<Rightarrow> None
      | Some b \<Rightarrow> if \<not> terminalStageSatisfiesDependency (t_stage b)
                 then Some \<lparr>bi_TaskID = t_id b, bi_Name = t_title b, bi_Phase = t_phase b,
                            bi_Stage = t_stage b\<rparr> else None) (blocker_ids et)"

definition GetBlockedTasks ::
  "GetBlockedTasksParams \<Rightarrow> db \<Rightarrow> store_err + (BlockedTaskResult list \<times> nat)" where
  "GetBlockedTasks p d =
    (let results = filter (\<lambda>r. bt_Blockers r \<noteq> [])
           (map (\<lambda>et. \<lparr>bt_Task = et, bt_Blockers = blocker_infos d et\<rparr>)
             (map (with_edges d) (filter (blocked_query p) (d_tasks d))))
     in Inr (page_slice (gb_Offset p) (gb_Limit p) results, length results))"

section \<open>Lemmas on blockers\<close>

text \<open>The specification: a stored task that is not completed blocks the task \<open>i\<close>.\<close>

definition open_blocker :: "db \<Rightarrow> uuid \<Rightarrow> task \<Rightarrow> bool" where
  "open_blocker d i b \<longleftrightarrow> b \<in> set (d_tasks d) \<and> t_stage b \<noteq> StageCompleted
     \<and> ((i, t_id b, TypeBlockedBy) \<in> rel_key ` set (d_rels d)
        \<or> (t_id b, i, TypeBlocks) \<in> rel_key ` set (d_rels d))"

definition future_start :: "time \<Rightarrow> task \<Rightarrow> bool" where
  "future_start tnow t = (case t_start t of None \<Rightarrow> False | Some s \<Rightarrow> s > tnow)"

text \<open>What \<open>Available\<close> says, on the database.\<close>

definition claimable :: "env \<Rightarrow> db \<Rightarrow> task \<Rightarrow> bool" where
  "claimable e d t \<longleftrightarrow> t_stage t \<noteq> StageTriage \<and> \<not> IsTerminalStage (t_stage t)
     \<and> t_hold t = None \<and> \<not> future_start (now e) t \<and> noUnsatisfiedBlockerPredicates d t"

lemma check_blockers_Get:
  "check_blockers (task_Get d) ids
    = Inr (\<exists>i\<in>set ids. \<exists>b. get_task i d = Some b \<and> t_stage b \<noteq> StageCompleted)"
proof (induction ids)
  case (Cons i ids)
  then show ?case
    by (cases "get_task i d") (auto simp: task_Get_def terminalStageSatisfiesDependency_def)
qed simp

lemma rel_key_mem:
  "(s, t, ty) \<in> rel_key ` set rs \<longleftrightarrow> (\<exists>r\<in>set rs. r_src r = s \<and> r_tgt r = t \<and> r_type r = ty)"
  by (auto simp: rel_key_def)

lemma blocker_ids_with_edges:
  "i \<in> set (blocker_ids (with_edges d t)) \<longleftrightarrow>
     (t_id t, i, TypeBlockedBy) \<in> rel_key ` set (d_rels d)
     \<or> (i, t_id t, TypeBlocks) \<in> rel_key ` set (d_rels d)"
  by (auto simp: blocker_ids_def rel_key_mem)

lemma db_ok_distinct [intro]: "db_ok d \<Longrightarrow> distinct (map t_id (d_tasks d))"
  by (simp add: db_ok_def tasks_ok_def)

lemma db_ok_distinct_tasks [intro]: "db_ok d \<Longrightarrow> distinct (d_tasks d)"
  using db_ok_distinct distinct_map by blast

lemma get_task_iff:
  "db_ok d \<Longrightarrow> get_task i d = Some t \<longleftrightarrow> t \<in> set (d_tasks d) \<and> t_id t = i"
  using get_task_mem get_task_Some db_ok_distinct by blast

lemma task_row_unique:
  "db_ok d \<Longrightarrow> s \<in> set (d_tasks d) \<Longrightarrow> t \<in> set (d_tasks d) \<Longrightarrow> t_id s = t_id t \<Longrightarrow> s = t"
  by (metis db_ok_distinct get_task_mem option.inject)

lemma hasUnsatisfiedBlocker_iff:
  assumes "db_ok d"
  shows "hasUnsatisfiedBlocker (with_edges d t) (task_Get d) = Inr (\<exists>b. open_blocker d (t_id t) b)"
  unfolding hasUnsatisfiedBlocker_def check_blockers_Get
  using assms by (auto simp: blocker_ids_with_edges open_blocker_def get_task_iff Bex_def)

lemma neq_completed_iff:
  "task_stage_neq_completed d i \<longleftrightarrow> (\<exists>b\<in>set (d_tasks d). t_id b = i \<and> t_stage b \<noteq> StageCompleted)"
  by (auto simp: task_stage_neq_completed_def list_ex_iff)

lemma noUnsatisfiedBlocker_iff:
  "noUnsatisfiedBlockerPredicates d t \<longleftrightarrow> (\<nexists>b. open_blocker d (t_id t) b)"
proof -
  have "(\<exists>r\<in>set (d_rels d). r_src r = t_id t \<and> r_type r = TypeBlockedBy
          \<and> task_stage_neq_completed d (r_tgt r))
      \<longleftrightarrow> (\<exists>b\<in>set (d_tasks d). t_stage b \<noteq> StageCompleted
          \<and> (t_id t, t_id b, TypeBlockedBy) \<in> rel_key ` set (d_rels d))"
    unfolding neq_completed_iff rel_key_mem by (metis (no_types, lifting))
  moreover have "(\<exists>r\<in>set (d_rels d). r_tgt r = t_id t \<and> r_type r = TypeBlocks
          \<and> task_stage_neq_completed d (r_src r))
      \<longleftrightarrow> (\<exists>b\<in>set (d_tasks d). t_stage b \<noteq> StageCompleted
          \<and> (t_id b, t_id t, TypeBlocks) \<in> rel_key ` set (d_rels d))"
    unfolding neq_completed_iff rel_key_mem by (metis (no_types, lifting))
  ultimately show ?thesis
    unfolding noUnsatisfiedBlockerPredicates_def open_blocker_def list_ex_iff by blast
qed

lemma hasUnsatisfiedBlocker_sql:
  "db_ok d \<Longrightarrow> hasUnsatisfiedBlocker (with_edges d t) (task_Get d)
     = Inr (\<not> noUnsatisfiedBlockerPredicates d t)"
  by (simp add: hasUnsatisfiedBlocker_iff noUnsatisfiedBlocker_iff)

lemma ComputeAvailability_Inr:
  assumes "db_ok d"
  obtains a where "ComputeAvailability e d (with_edges d t) = Inr a"
    and "Available a \<longleftrightarrow> claimable e d t"
    and "HasReason a ReasonBlockedByDependency \<longleftrightarrow> \<not> noUnsatisfiedBlockerPredicates d t"
    and "\<And>r. HasReason a r \<Longrightarrow> \<not> Available a"
proof -
  let ?rs = "(if t_stage t = StageTriage then [ReasonTriage] else [])
    @ (if IsTerminalStage (t_stage t) then [ReasonTerminal] else [])
    @ (if t_hold t \<noteq> None then [ReasonHeld] else [])
    @ (if future_start (now e) t then [ReasonFutureStartDate] else [])
    @ (if \<not> noUnsatisfiedBlockerPredicates d t then [ReasonBlockedByDependency] else [])"
  have start: "(case t_start t of None \<Rightarrow> [] | Some s \<Rightarrow> if s > now e then [ReasonFutureStartDate] else [])
      = (if future_start (now e) t then [ReasonFutureStartDate] else [])"
    by (simp add: future_start_def split: option.split)
  have eq: "ComputeAvailability e d (with_edges d t) = Inr \<lparr>Available = (?rs = []), Reasons = ?rs\<rparr>"
    by (simp only: ComputeAvailability_def computeAvailability_def Let_def start with_edges_simps
        hasUnsatisfiedBlocker_sql [OF assms] thenE_simps)
  have "?rs = [] \<longleftrightarrow> claimable e d t" by (auto simp: claimable_def)
  moreover have "list_ex (\<lambda>r. r = ReasonBlockedByDependency) ?rs
      \<longleftrightarrow> \<not> noUnsatisfiedBlockerPredicates d t" by simp
  ultimately show ?thesis by (intro that [OF eq]) (auto simp: HasReason_def)
qed

section \<open>Lemmas on the slices\<close>

lemma page_slice_all [simp]: "page_slice 0 0 xs = xs"
  by (simp add: page_slice_def)

lemma page_slice_drop:
  "0 \<le> off \<Longrightarrow> 0 < lim \<Longrightarrow> page_slice off lim xs = take (nat lim) (drop (nat off) xs)"
  by (auto simp: page_slice_def Let_def)

lemma take_drop_pages:
  assumes "0 < (L :: nat)"
  shows "concat (map (\<lambda>k. take L (drop (k * L) xs)) [0..<n]) = take (n * L) xs"
proof (induction n)
  case 0
  then show ?case by simp
next
  case (Suc n)
  then show ?case by (simp add: add.commute [of L] take_add)
qed

lemma page_slices_concat:
  assumes "0 < L" and "length xs \<le> n * L"
  shows "concat (map (\<lambda>k. page_slice (int (k * L)) (int L) xs) [0..<n]) = xs"
proof -
  have "page_slice (int (k * L)) (int L) xs = take L (drop (k * L) xs)" for k
    using assms(1) by (subst page_slice_drop) (simp_all only: nat_int of_nat_0_le_iff of_nat_0_less_iff)
  then show ?thesis using assms take_drop_pages [of L xs n] by simp
qed

section \<open>Lemmas on the ready set\<close>

definition ready_task :: "env \<Rightarrow> db \<Rightarrow> GetReadyTasksParams \<Rightarrow> task \<Rightarrow> bool" where
  "ready_task e d p t \<longleftrightarrow> ready_query p t
     \<and> (if gr_IncludeUnblockedOpen p then noUnsatisfiedBlockerPredicates d t else claimable e d t)"

definition ready_result :: "db \<Rightarrow> task \<Rightarrow> ReadyTaskResult" where
  "ready_result d t = \<lparr>rt_Task = with_edges d t,
     rt_BlockersResolved = blockers_resolved d (with_edges d t)\<rparr>"

lemma ready_row_eq:
  assumes "db_ok d"
  shows "ready_row e d p (with_edges d t) = Inr (if gr_IncludeUnblockedOpen p
      then (if noUnsatisfiedBlockerPredicates d t then [ready_result d t] else [])
      else (if claimable e d t then [ready_result d t] else []))"
proof -
  obtain a where a: "ComputeAvailability e d (with_edges d t) = Inr a"
    "Available a \<longleftrightarrow> claimable e d t"
    "HasReason a ReasonBlockedByDependency \<longleftrightarrow> \<not> noUnsatisfiedBlockerPredicates d t"
    using ComputeAvailability_Inr [OF assms] by metis
  moreover have "claimable e d t \<Longrightarrow> noUnsatisfiedBlockerPredicates d t" by (simp add: claimable_def)
  ultimately show ?thesis by (auto simp: ready_row_def ready_result_def)
qed

lemma mapE_total: "(\<And>x. x \<in> set xs \<Longrightarrow> f x = Inr (g x)) \<Longrightarrow> mapE f xs = Inr (map g xs)"
  by (induction xs) auto

lemma concat_singletons: "concat (map (\<lambda>x. if P x then [f x] else []) xs) = map f (filter P xs)"
  by (induction xs) auto

lemma GetReadyTasks_eq:
  assumes "db_ok d"
  shows "GetReadyTasks e p d =
    (let all = map (ready_result d) (filter (ready_task e d p) (d_tasks d))
     in Inr (page_slice (gr_Offset p) (gr_Limit p) (sort_key ready_key all), length all))"
proof -
  let ?P = "\<lambda>t. if gr_IncludeUnblockedOpen p then noUnsatisfiedBlockerPredicates d t
                  else claimable e d t"
  have rows: "mapE (ready_row e d p) (map (with_edges d) ts)
      = Inr (map (\<lambda>t. if ?P t then [ready_result d t] else []) ts)" for ts
    using ready_row_eq [OF assms, of e p] by (induction ts) auto
  have "filter ?P (filter (ready_query p) (d_tasks d)) = filter (ready_task e d p) (d_tasks d)"
    by (auto simp: filter_filter ready_task_def intro!: filter_cong)
  then show ?thesis
    by (simp only: GetReadyTasks_def rows concat_singletons thenE_simps Let_def)
qed

lemma ready_key_result [simp]:
  "ready_key (ready_result d t) = (priorityOrder (t_priority t), rankValue (t_rank t), t_created t, t_id t)"
  by (simp add: ready_key_def ready_result_def Let_def)

lemma rt_Task_result [simp]: "e_task (rt_Task (ready_result d t)) = t"
  by (simp add: ready_result_def)

section \<open>Properties\<close>

lemma ex_claimable10: "claimable ex_env ex_db ex10"
  by (simp add: claimable_def future_start_def IsTerminalStage_def
      noUnsatisfiedBlockerPredicates_def task_stage_neq_completed_def ex_defs)

lemma ex_no_blocker10: "\<nexists>b. open_blocker ex_db 10 b"
  using ex_claimable10 by (simp add: claimable_def noUnsatisfiedBlocker_iff)

text \<open>
  C1. The Go code that computes availability from the eager-loaded edges and the predicates
  of the SQL claim statement agree: a task is reported available exactly when it is out of
  triage, not terminal, not held, started and without a stored blocker that is not completed;
  a reason is given exactly when it is not available, and the blocked reason exactly when the
  SQL predicate on relationships fails.
\<close>

theorem availability_matches_sql:
  assumes "db_ok d"
  shows "\<exists>a. ComputeAvailability e d (with_edges d t) = Inr a
    \<and> (Available a \<longleftrightarrow> t_stage t \<noteq> StageTriage \<and> \<not> IsTerminalStage (t_stage t)
          \<and> t_hold t = None \<and> \<not> future_start (now e) t \<and> noUnsatisfiedBlockerPredicates d t)
    \<and> (Available a \<longleftrightarrow> Reasons a = [])
    \<and> (HasReason a ReasonBlockedByDependency \<longleftrightarrow> (\<exists>b. open_blocker d (t_id t) b))"
proof -
  obtain a where a: "ComputeAvailability e d (with_edges d t) = Inr a"
    "Available a \<longleftrightarrow> claimable e d t"
    "HasReason a ReasonBlockedByDependency \<longleftrightarrow> \<not> noUnsatisfiedBlockerPredicates d t"
    using ComputeAvailability_Inr [OF assms] by metis
  have "Available a \<longleftrightarrow> Reasons a = []"
    using a(1) by (auto simp: ComputeAvailability_def computeAvailability_def Let_def thenE_Inr)
  with a show ?thesis unfolding claimable_def noUnsatisfiedBlocker_iff by blast
qed

theorem availability_matches_sql_witness:
  "\<exists>a. ComputeAvailability ex_env ex_db (with_edges ex_db (ex_task 11 PhaseOpen StageAccepted)) = Inr a
    \<and> Available a = False"
  using availability_matches_sql [OF ex_db_ok, of ex_env "ex_task 11 PhaseOpen StageAccepted"]
  by (auto simp: noUnsatisfiedBlockerPredicates_def task_stage_neq_completed_def ex_defs)

text \<open>
  C2. \<open>GetReadyTasks\<close> without a page returns every task that matches the filters and is ready,
  once, in the order of the keys (priority, rank, creation time, identifier), and the total
  is their number.
\<close>

theorem GetReadyTasks_complete:
  assumes "db_ok d" and "gr_Offset p = 0" and "gr_Limit p = 0"
  shows "\<exists>rs. GetReadyTasks e p d = Inr (rs, length rs)
    \<and> sorted (map ready_key rs)
    \<and> mset (map (\<lambda>r. e_task (rt_Task r)) rs) = mset (filter (ready_task e d p) (d_tasks d))"
proof -
  let ?all = "map (ready_result d) (filter (ready_task e d p) (d_tasks d))"
  have "GetReadyTasks e p d = Inr (sort_key ready_key ?all, length (sort_key ready_key ?all))"
    using assms by (simp add: GetReadyTasks_eq Let_def)
  moreover have "mset (map (\<lambda>r. e_task (rt_Task r)) (sort_key ready_key ?all))
      = mset (filter (ready_task e d p) (d_tasks d))"
    by (simp add: image_mset.compositionality comp_def)
  ultimately show ?thesis using sorted_sort_key by blast
qed

definition ex_ready :: GetReadyTasksParams where
  "ex_ready = \<lparr>gr_CollectionID = Some 1, gr_AssigneeID = None, gr_Unassigned = True,
     gr_MinPriority = None, gr_IncludeUnblockedOpen = False, gr_Limit = 0, gr_Offset = 0\<rparr>"

lemma ex_ready_task: "filter (ready_task ex_env ex_db ex_ready) (d_tasks ex_db)
    = [ex_task 10 PhaseOpen StageAccepted]"
  by (simp add: ready_task_def ready_query_def opt_eq_def claimable_def future_start_def
      IsTerminalStage_def noUnsatisfiedBlockerPredicates_def task_stage_neq_completed_def
      ex_ready_def ex_defs)

theorem GetReadyTasks_complete_witness:
  "\<exists>rs. GetReadyTasks ex_env ex_ready ex_db = Inr (rs, length rs)
    \<and> mset (map (\<lambda>r. e_task (rt_Task r)) rs) = {# ex_task 10 PhaseOpen StageAccepted #}"
  using GetReadyTasks_complete [OF ex_db_ok, of ex_ready ex_env]
  unfolding ex_ready_task by (auto simp: ex_ready_def)

text \<open>
  The pages of \<open>GetReadyTasks\<close> at offsets \<open>0, L, 2L, \<dots>\<close> of an unchanged database, put one
  after another, are the whole listing: no task is skipped or repeated.
\<close>

theorem GetReadyTasks_pages:
  assumes "db_ok d" and "0 < L"
    and "GetReadyTasks e (p\<lparr>gr_Offset := 0, gr_Limit := 0\<rparr>) d = Inr (whole, tot)"
    and "tot \<le> n * L"
  shows "concat (map (\<lambda>k. case GetReadyTasks e
             (p\<lparr>gr_Offset := int (k * L), gr_Limit := int L\<rparr>) d of
             Inl _ \<Rightarrow> [] | Inr (rs, _) \<Rightarrow> rs) [0..<n]) = whole"
proof -
  let ?all = "sort_key ready_key (map (ready_result d) (filter (ready_task e d p) (d_tasks d)))"
  have same: "ready_task e d (p\<lparr>gr_Offset := x, gr_Limit := y\<rparr>) = ready_task e d p" for x y
    by (simp add: fun_eq_iff ready_task_def ready_query_def)
  have "GetReadyTasks e (p\<lparr>gr_Offset := x, gr_Limit := y\<rparr>) d = Inr (page_slice x y ?all, length ?all)"
    for x y using assms(1) by (simp add: GetReadyTasks_eq same Let_def)
  then show ?thesis
    using assms(2-4) page_slices_concat [of L ?all n] by auto
qed

theorem GetReadyTasks_pages_witness:
  "\<exists>whole. concat (map (\<lambda>k. case GetReadyTasks ex_env
             (ex_ready\<lparr>gr_Offset := int (k * 1), gr_Limit := int 1\<rparr>) ex_db of
             Inl _ \<Rightarrow> [] | Inr (rs, _) \<Rightarrow> rs) [0..<4]) = whole \<and> length whole = 1"
proof -
  have q: "ex_ready\<lparr>gr_Offset := 0, gr_Limit := 0\<rparr> = ex_ready" by (simp add: ex_ready_def)
  then have eq: "GetReadyTasks ex_env (ex_ready\<lparr>gr_Offset := 0, gr_Limit := 0\<rparr>) ex_db
      = Inr ([ready_result ex_db (ex_task 10 PhaseOpen StageAccepted)], 1)"
    unfolding q GetReadyTasks_eq [OF ex_db_ok] ex_ready_task by (simp add: ex_ready_def)
  show ?thesis using GetReadyTasks_pages [OF ex_db_ok _ eq, of 1 4] by simp
qed

text \<open>
  On one database no task is listed both as ready and as blocked, whatever the filters
  and the pages of the two queries.
\<close>

theorem ready_not_blocked:
  assumes "db_ok d" and "GetReadyTasks e p d = Inr (rs, n)" and "GetBlockedTasks q d = Inr (bs, m)"
    and "r \<in> set rs" and "b \<in> set bs"
  shows "t_id (e_task (rt_Task r)) \<noteq> t_id (e_task (bt_Task b))"
proof -
  have slice: "set (page_slice i j xs) \<subseteq> set xs" for i j and xs :: "'a list"
    by (auto simp: page_slice_def Let_def dest: in_set_takeD in_set_dropD split: if_splits)
  obtain t where t: "r = ready_result d t" "ready_task e d p t" "t \<in> set (d_tasks d)"
    using assms(2,4) slice unfolding GetReadyTasks_eq [OF assms(1)] Let_def
    by (fastforce simp del: page_slice_all)
  obtain u where u: "bt_Task b = with_edges d u" "blocker_infos d (with_edges d u) \<noteq> []"
      "u \<in> set (d_tasks d)"
    using assms(3,5) slice unfolding GetBlockedTasks_def Let_def by fastforce
  from u(2) obtain i c where "i \<in> set (blocker_ids (with_edges d u))" and "get_task i d = Some c"
      and "t_stage c \<noteq> StageCompleted"
    by (fastforce simp: blocker_infos_def map_filter_def terminalStageSatisfiesDependency_def
        filter_empty_conv split: option.splits if_splits)
  then have "open_blocker d (t_id u) c"
    by (auto simp: open_blocker_def blocker_ids_with_edges dest: get_task_Some)
  then have "\<not> noUnsatisfiedBlockerPredicates d u" unfolding noUnsatisfiedBlocker_iff by blast
  moreover have "noUnsatisfiedBlockerPredicates d t"
    using t(2) by (auto simp: ready_task_def claimable_def split: if_splits)
  ultimately have "t \<noteq> u" by auto
  then have "t_id t \<noteq> t_id u"
    using task_row_unique [OF assms(1) t(3) u(3)] by blast
  then show ?thesis by (simp add: t(1) u(1))
qed

definition ex_blocked :: GetBlockedTasksParams where
  "ex_blocked = \<lparr>gb_CollectionID = None, gb_AssigneeID = None, gb_Unassigned = False,
     gb_Limit = 0, gb_Offset = 0\<rparr>"

theorem ready_not_blocked_witness:
  "\<exists>rs n bs m. GetReadyTasks ex_env ex_ready ex_db = Inr (rs, n)
    \<and> GetBlockedTasks ex_blocked ex_db = Inr (bs, m) \<and> rs \<noteq> [] \<and> bs \<noteq> []
    \<and> t_id (e_task (rt_Task (hd rs))) \<noteq> t_id (e_task (bt_Task (hd bs)))"
proof -
  have r: "GetReadyTasks ex_env ex_ready ex_db
      = Inr ([ready_result ex_db (ex_task 10 PhaseOpen StageAccepted)], 1)"
    unfolding GetReadyTasks_eq [OF ex_db_ok] ex_ready_task by (simp add: ex_ready_def)
  let ?b = "with_edges ex_db (ex_task 11 PhaseOpen StageAccepted)"
  have b: "GetBlockedTasks ex_blocked ex_db
      = Inr ([\<lparr>bt_Task = ?b, bt_Blockers = blocker_infos ex_db ?b\<rparr>], 1)"
    by (simp add: GetBlockedTasks_def blocked_query_def opt_eq_def blocker_infos_def map_filter_def
        blocker_ids_def get_task_def terminalStageSatisfiesDependency_def with_edges_def
        ex_blocked_def ex_defs page_slice_def)
  show ?thesis using ready_not_blocked [OF ex_db_ok r b] r b by simp
qed

end
