(* ===== verification/FT_Tasks.thy ===== *)
theory FT_Tasks
  imports FT_Availability
begin

text \<open>
  The operations of \<open>EntStore\<close> that write tasks (\<open>internal/store/entstore.go\<close>):
  \<open>CreateTask\<close>, \<open>InsertTasksAfter\<close>, \<open>UpdateTask\<close>, \<open>ClaimTask\<close>, \<open>CloseTask\<close> and \<open>DeleteTask\<close>,
  with the change log they keep (\<open>diffTask\<close>).

  An operation that reads a task and then writes it with a compare-and-swap on its version
  can be interleaved with other clients between the two statements. Such an attempt takes
  the database its read sees and the database its write sees as two arguments; from the
  write on, the attempt runs alone (it holds the row). The serial operation is the one whose
  arguments are all the same database.
\<close>

section \<open>Parameters\<close>

record CreateTaskParams =
  ct_Title :: string
  ct_Description :: string
  ct_CollectionID :: uuid
  ct_Phase :: phase
  ct_Stage :: stage
  ct_HoldReason :: "hold_reason option"
  ct_NativeLabel :: string
  ct_Type :: string
  ct_Priority :: "priority option"
  ct_Rank :: "int option"
  ct_AssigneeID :: "uuid option"
  ct_ParentTaskID :: "uuid option"
  ct_AcceptanceCriteria :: "string option"
  ct_RemoteData :: "jmap option"
  ct_Labels :: "string list"
  ct_StartDate :: "time option"
  ct_DueDate :: "time option"
  ct_BlocksTaskIDs :: "uuid list"
  ct_BlockedByTaskIDs :: "uuid list"
  ct_Repo :: string
  ct_Branch :: string

record PullRequestParam =
  pr_ID :: string
  pr_URL :: string
  pr_Status :: string

record UpdateTaskParams =
  ut_Title :: "string option"
  ut_Description :: "string option"
  ut_Phase :: "phase option"
  ut_Stage :: "stage option"
  ut_HoldReason :: "hold_reason option"
  ut_ClearHoldReason :: bool
  ut_NativeLabel :: "string option"
  ut_Type :: "string option"
  ut_Priority :: "priority option"
  ut_Rank :: "int option"
  ut_ClearRank :: bool
  ut_ClearPriority :: bool
  ut_AssigneeID :: "uuid option"
  ut_ClearAssignee :: bool
  ut_ParentTaskID :: "uuid option"
  ut_ClearParent :: bool
  ut_AcceptanceCriteria :: "string option"
  ut_ClearAcceptance :: bool
  ut_RemoteData :: "jmap option"
  ut_Version :: string
  ut_StartDate :: "time option"
  ut_ClearStartDate :: bool
  ut_DueDate :: "time option"
  ut_ClearDueDate :: bool
  ut_AddLabels :: "string list"
  ut_RemoveLabels :: "string list"
  ut_AddBlocks :: "uuid list"
  ut_AddBlockedBy :: "uuid list"
  ut_RemoveRelationships :: "uuid list"
  ut_Repo :: "string option"
  ut_Branch :: "string option"
  ut_ClearRepo :: bool
  ut_ClearBranch :: bool
  ut_AddPullRequests :: "PullRequestParam list"
  ut_CIStatus :: "string option"
  ut_ClearCIStatus :: bool
  ut_Reason :: "string option"

record InsertTasksAfterParams =
  it_AnchorTaskID :: uuid
  it_Steps :: "CreateTaskParams list"
  it_CollectionID :: uuid
  it_ActorID :: uuid
  it_Reason :: string

record InsertTasksAfterResult =
  ir_InsertedTasks :: "etask list"
  ir_AnchorTask :: etask

section \<open>The change log\<close>

type_synonym fieldChange = "string \<times> rendered \<times> rendered"

definition render_opt :: "('a \<Rightarrow> rendered) \<Rightarrow> 'a option \<Rightarrow> rendered" where
  "render_opt r x = (case x of None \<Rightarrow> RStr [] | Some y \<Rightarrow> r y)"

definition render_time :: "time \<Rightarrow> rendered" where
  "render_time t = RSec (t div one_second)"

text \<open>\<open>canonicalJSON\<close> on the two slice types it is called with.\<close>

definition canonical_labels :: "string list \<Rightarrow> rendered" where
  "canonical_labels ls = (if ls = [] then RStr [] else RLabels (sort ls))"

definition canonical_prs :: "(string \<times> string) list list \<Rightarrow> rendered" where
  "canonical_prs prs = (if prs = [] then RStr [] else RPrs (sort (map (sort_key fst) prs)))"

text \<open>The fields \<open>diffTask\<close> compares, in its order, as the strings it compares.\<close>

definition task_fields :: "task \<Rightarrow> task \<Rightarrow> fieldChange list" where
  "task_fields old upd =
    [(''title'', RStr (t_title old), RStr (t_title upd)),
     (''description'', RStr (t_description old), RStr (t_description upd)),
     (''phase'', RStr (phase_str (t_phase old)), RStr (phase_str (t_phase upd))),
     (''stage'', RStr (stage_str (t_stage old)), RStr (stage_str (t_stage upd))),
     (''native_label'', RStr (t_native_label old), RStr (t_native_label upd)),
     (''type'', RStr (t_type old), RStr (t_type upd)),
     (''priority'', render_opt (RStr \<circ> priority_str) (t_priority old),
        render_opt (RStr \<circ> priority_str) (t_priority upd)),
     (''assignee_id'', render_opt RUuid (t_assignee old), render_opt RUuid (t_assignee upd)),
     (''parent_task_id'', render_opt RUuid (t_parent old), render_opt RUuid (t_parent upd)),
     (''start_date'', render_opt render_time (t_start old),
        render_opt render_time (t_start upd)),
     (''due_date'', render_opt render_time (t_due old), render_opt render_time (t_due upd)),
     (''closed_at'', render_opt render_time (t_closed old),
        render_opt render_time (t_closed upd)),
     (''acceptance_criteria'', render_opt RStr (t_acceptance old), render_opt RStr (t_acceptance upd)),
     (''labels'', canonical_labels (t_labels old), canonical_labels (t_labels upd)),
     (''pull_requests'', canonical_prs (t_prs old), canonical_prs (t_prs upd)),
     (''repo'', RStr (t_repo old), RStr (t_repo upd)),
     (''branch'', RStr (t_branch old), RStr (t_branch upd)),
     (''ci_status'', render_opt (RStr \<circ> ci_status_str) (t_ci old),
        render_opt (RStr \<circ> ci_status_str) (t_ci upd))]"

definition diffTask :: "task \<Rightarrow> task \<Rightarrow> fieldChange list" where
  "diffTask old upd = filter (\<lambda>c. fst (snd c) \<noteq> snd (snd c)) (task_fields old upd)"

text \<open>One \<open>Change.Create()\<dots>Save\<close> of the loops over the differences.\<close>

definition create_change ::
  "env \<Rightarrow> uuid \<Rightarrow> uuid \<Rightarrow> db \<Rightarrow> fieldChange \<Rightarrow> store_err + db" where
  "create_change e tid author d c =
    insert_change \<lparr>ch_id = fresh_uuid e d, ch_task = tid, ch_author = author, ch_field = fst c,
      ch_old = fst (snd c), ch_new = snd (snd c), ch_created = now e\<rparr> (drawn d)"

text \<open>
  \<open>recordChanges\<close> outside a transaction: it stops at the first error, the rows before it
  stay, and its callers only log the error.
\<close>

fun record_each :: "env \<Rightarrow> uuid \<Rightarrow> uuid \<Rightarrow> fieldChange list \<Rightarrow> db \<Rightarrow> db" where
  "record_each e tid author [] d = d"
| "record_each e tid author (c # cs) d =
    (case create_change e tid author d c of Inl _ \<Rightarrow> d | Inr d' \<Rightarrow> record_each e tid author cs d')"

definition recordChanges :: "env \<Rightarrow> uuid \<Rightarrow> uuid \<Rightarrow> task \<Rightarrow> task \<Rightarrow> db \<Rightarrow> db" where
  "recordChanges e tid author old upd d = record_each e tid author (diffTask old upd) d"

section \<open>Creating tasks\<close>

text \<open>The loops over \<open>BlocksTaskIDs\<close> and the like: skip a row that exists, create it else.\<close>

definition add_rel :: "env \<Rightarrow> rel_type \<Rightarrow> uuid \<Rightarrow> db \<Rightarrow> uuid \<Rightarrow> store_err + db" where
  "add_rel e ty src d tgt =
    (if rel_exists src tgt ty d then Inr d
     else insert_rel \<lparr>r_id = fresh_uuid e d, r_src = src, r_tgt = tgt, r_type = ty\<rparr> (drawn d))"

definition new_task :: "env \<Rightarrow> uuid \<Rightarrow> CreateTaskParams \<Rightarrow> task" where
  "new_task e i p = \<lparr>t_id = i, t_title = ct_Title p, t_description = ct_Description p,
     t_collection = ct_CollectionID p, t_phase = ct_Phase p, t_stage = ct_Stage p,
     t_hold = ct_HoldReason p, t_native_label = ct_NativeLabel p, t_type = ct_Type p,
     t_priority = ct_Priority p, t_rank = ct_Rank p, t_assignee = ct_AssigneeID p,
     t_parent = ct_ParentTaskID p, t_start = ct_StartDate p, t_due = ct_DueDate p,
     t_closed = None, t_created = now e, t_updated = now e,
     t_acceptance = ct_AcceptanceCriteria p, t_remote = ct_RemoteData p,
     t_labels = ct_Labels p, t_repo = ct_Repo p, t_branch = ct_Branch p, t_ci = None,
     t_prs = [], t_version = ''1''\<rparr>"

definition CreateTask :: "env \<Rightarrow> CreateTaskParams \<Rightarrow> db \<Rightarrow> store_err + (etask \<times> db)" where
  "CreateTask e p d =
    thenE (validateTaskStateForWrite (now e) (ct_Stage p) (ct_HoldReason p) (ct_StartDate p) False) (\<lambda>_.
      let i = fresh_uuid e d in
      thenE (insert_task (new_task e i p) (drawn d)) (\<lambda>d1.
      thenE (foldE (add_rel e TypeBlocks i) d1 (ct_BlocksTaskIDs p)) (\<lambda>d2.
      thenE (foldE (add_rel e TypeBlockedBy i) d2 (ct_BlockedByTaskIDs p)) (\<lambda>d3.
      thenE (getTaskWithEdges i d3) (\<lambda>et. Inr (et, d3))))))"

text \<open>A step of \<open>InsertTasksAfter\<close> keeps only these fields of its parameters.\<close>

definition step_task :: "env \<Rightarrow> uuid \<Rightarrow> uuid \<Rightarrow> CreateTaskParams \<Rightarrow> task" where
  "step_task e i coll p = \<lparr>t_id = i, t_title = ct_Title p, t_description = ct_Description p,
     t_collection = coll, t_phase = ct_Phase p, t_stage = ct_Stage p,
     t_hold = None, t_native_label = ct_NativeLabel p, t_type = ct_Type p,
     t_priority = ct_Priority p, t_rank = None, t_assignee = None,
     t_parent = None, t_start = None, t_due = None,
     t_closed = None, t_created = now e, t_updated = now e,
     t_acceptance = None, t_remote = None,
     t_labels = ct_Labels p, t_repo = [], t_branch = [], t_ci = None,
     t_prs = [], t_version = ''1''\<rparr>"

definition insert_step ::
  "env \<Rightarrow> uuid \<Rightarrow> db \<times> uuid list \<Rightarrow> CreateTaskParams \<Rightarrow> store_err + (db \<times> uuid list)" where
  "insert_step e coll s p =
    (let d = fst s; i = fresh_uuid e d in
     thenE (insert_task (step_task e i coll p) (drawn d)) (\<lambda>d'. Inr (d', snd s @ [i])))"

text \<open>\<open>createBlocksRelationship\<close> along the chain \<open>chain[i] \<rightarrow> chain[i+1]\<close>.\<close>

definition createBlocksRelationship :: "env \<Rightarrow> db \<Rightarrow> uuid \<times> uuid \<Rightarrow> store_err + db" where
  "createBlocksRelationship e d st = add_rel e TypeBlocks (fst st) d (snd st)"

definition InsertTasksAfter ::
  "env \<Rightarrow> InsertTasksAfterParams \<Rightarrow> db \<Rightarrow> store_err + (InsertTasksAfterResult \<times> db)" where
  "InsertTasksAfter e p d =
    (let a = it_AnchorTaskID p in
     if it_Steps p = [] then Inl ErrInvalidArgument
     else thenE (optE ErrNotFound
            (find (\<lambda>t. t_id t = a \<and> t_collection t = it_CollectionID p) (d_tasks d))) (\<lambda>anchor.
       let downstream = map r_tgt (filter (\<lambda>r. r_src r = a \<and> r_type r = TypeBlocks) (d_rels d)) in
       thenE (foldE (insert_step e (it_CollectionID p)) (d, []) (it_Steps p)) (\<lambda>(d1, ids).
       let chain = a # ids in
       thenE (foldE (createBlocksRelationship e) d1 (zip (butlast chain) (tl chain))) (\<lambda>d2.
       thenE (foldE (createBlocksRelationship e) d2 (map (\<lambda>t. (last ids, t)) downstream)) (\<lambda>d3.
       let d4 = (if downstream = [] then d3
                 else delete_rels (\<lambda>r. r_src r = a \<and> List.member downstream (r_tgt r)
                        \<and> r_type r = TypeBlocks) d3) in
       thenE (update_tasks e True (\<lambda>t. t_id t = a)
                (\<lambda>t. t\<lparr>t_version := next_version (t_version anchor)\<rparr>) d4) (\<lambda>(n, d5).
       thenE (mapE (\<lambda>i. getTaskWithEdges i d5) ids) (\<lambda>inserted.
       thenE (getTaskWithEdges a d5) (\<lambda>anchorResult.
         Inr (\<lparr>ir_InsertedTasks = inserted, ir_AnchorTask = anchorResult\<rparr>, d5)))))))))"

section \<open>Updating a task\<close>

definition mergeLabels :: "string list \<Rightarrow> string list \<Rightarrow> string list \<Rightarrow> string list" where
  "mergeLabels current add rem =
    sort (remdups (filter (\<lambda>l. \<not> List.member rem l) (current @ add)))"

definition ci_status_of_str :: "string \<Rightarrow> ci_status option" where
  "ci_status_of_str s =
    (if s = ''unknown'' then Some CiStatusUnknown else if s = ''pending'' then Some CiStatusPending
     else if s = ''running'' then Some CiStatusRunning else if s = ''passed'' then Some CiStatusPassed
     else if s = ''failed'' then Some CiStatusFailed else None)"

text \<open>A setter with its clearing flag: \<open>if clear { Clear } else if v != nil { Set }\<close>.\<close>

definition set_or_clear :: "bool \<Rightarrow> 'a option \<Rightarrow> 'a option \<Rightarrow> 'a option" where
  "set_or_clear clear v cur = (if clear then None else case v of None \<Rightarrow> cur | Some x \<Rightarrow> Some x)"

definition set_if :: "'a option \<Rightarrow> 'a \<Rightarrow> 'a" where
  "set_if v cur = (case v of None \<Rightarrow> cur | Some x \<Rightarrow> x)"

text \<open>
  Setting a start date on a deferred task drops the hold, unless the update names a hold
  reason or clears the start date.
\<close>

definition drops_deferral :: "UpdateTaskParams \<Rightarrow> task \<Rightarrow> bool" where
  "drops_deferral p old \<longleftrightarrow> \<not> ut_ClearStartDate p \<and> ut_StartDate p \<noteq> None \<and> ut_HoldReason p = None
     \<and> \<not> ut_ClearHoldReason p \<and> t_hold old = Some HoldReasonDeferred"

text \<open>The stage, hold reason and start date after the update, which the validation reads.\<close>

definition target_hold :: "UpdateTaskParams \<Rightarrow> task \<Rightarrow> hold_reason option" where
  "target_hold p old = (if drops_deferral p old then None
     else set_or_clear (ut_ClearHoldReason p) (ut_HoldReason p) (t_hold old))"

definition validate_update :: "env \<Rightarrow> UpdateTaskParams \<Rightarrow> task \<Rightarrow> store_err + unit" where
  "validate_update e p old =
    validateTaskStateForWrite (now e) (set_if (ut_Stage p) (t_stage old)) (target_hold p old)
      (set_or_clear (ut_ClearStartDate p) (ut_StartDate p) (t_start old)) (ut_ClearStartDate p)"

definition pr_map :: "PullRequestParam \<Rightarrow> (string \<times> string) list" where
  "pr_map pr = [(''id'', pr_ID pr), (''status'', pr_Status pr), (''url'', pr_URL pr)]"

text \<open>The new version: the token's successor, or that of the version read.\<close>

definition update_version :: "UpdateTaskParams \<Rightarrow> task \<Rightarrow> string" where
  "update_version p old =
    (if ut_Version p \<noteq> [] then next_version (ut_Version p) else next_version (t_version old))"

definition update_guard :: "UpdateTaskParams \<Rightarrow> task \<Rightarrow> uuid \<Rightarrow> task \<Rightarrow> bool" where
  "update_guard p old i t \<longleftrightarrow> t_id t = i
     \<and> t_version t = (if ut_Version p \<noteq> [] then ut_Version p else t_version old)"

definition update_row :: "UpdateTaskParams \<Rightarrow> task \<Rightarrow> task \<Rightarrow> task" where
  "update_row p old t = t\<lparr>
     t_title := set_if (ut_Title p) (t_title t),
     t_description := set_if (ut_Description p) (t_description t),
     t_phase := set_if (ut_Phase p) (t_phase t),
     t_stage := set_if (ut_Stage p) (t_stage t),
     t_hold := (if drops_deferral p old then None
                else set_or_clear (ut_ClearHoldReason p) (ut_HoldReason p) (t_hold t)),
     t_native_label := set_if (ut_NativeLabel p) (t_native_label t),
     t_type := set_if (ut_Type p) (t_type t),
     t_priority := set_or_clear (ut_ClearPriority p) (ut_Priority p) (t_priority t),
     t_rank := set_or_clear (ut_ClearRank p) (ut_Rank p) (t_rank t),
     t_assignee := set_or_clear (ut_ClearAssignee p) (ut_AssigneeID p) (t_assignee t),
     t_parent := set_or_clear (ut_ClearParent p) (ut_ParentTaskID p) (t_parent t),
     t_acceptance := set_or_clear (ut_ClearAcceptance p) (ut_AcceptanceCriteria p) (t_acceptance t),
     t_remote := (case ut_RemoteData p of None \<Rightarrow> t_remote t
        | Some m \<Rightarrow> Some (jmerge (case t_remote old of None \<Rightarrow> [] | Some o' \<Rightarrow> o') m)),
     t_start := set_or_clear (ut_ClearStartDate p) (ut_StartDate p) (t_start t),
     t_due := set_or_clear (ut_ClearDueDate p) (ut_DueDate p) (t_due t),
     t_labels := (if ut_AddLabels p \<noteq> [] \<or> ut_RemoveLabels p \<noteq> []
        then mergeLabels (t_labels old) (ut_AddLabels p) (ut_RemoveLabels p) else t_labels t),
     t_repo := (if ut_ClearRepo p then [] else set_if (ut_Repo p) (t_repo t)),
     t_branch := (if ut_ClearBranch p then [] else set_if (ut_Branch p) (t_branch t)),
     t_ci := (if ut_ClearCIStatus p then None
        else case ut_CIStatus p of None \<Rightarrow> t_ci t | Some c \<Rightarrow> ci_status_of_str c),
     t_prs := (if ut_AddPullRequests p \<noteq> []
        then t_prs old @ map pr_map (ut_AddPullRequests p) else t_prs t),
     t_version := update_version p old\<rparr>"

text \<open>The validators of the values set.\<close>

definition update_values_ok :: "UpdateTaskParams \<Rightarrow> bool" where
  "update_values_ok p \<longleftrightarrow> ut_Title p \<noteq> Some []
     \<and> (case ut_Stage p of None \<Rightarrow> True | Some s \<Rightarrow> declared_stage s)
     \<and> (ut_ClearCIStatus p \<or> (case ut_CIStatus p of None \<Rightarrow> True
          | Some c \<Rightarrow> ci_status_of_str c \<noteq> None))"

definition doUpdateTask ::
  "env \<Rightarrow> uuid \<Rightarrow> UpdateTaskParams \<Rightarrow> uuid \<Rightarrow> db \<Rightarrow> db \<Rightarrow> store_err + (etask \<times> db)" where
  "doUpdateTask e i p actor d0 d1 =
    thenE (optE ErrNotFound (get_task i d0)) (\<lambda>old.
    thenE (validate_update e p old) (\<lambda>_.
    thenE (update_tasks e (update_values_ok p) (update_guard p old i) (update_row p old) d1) (\<lambda>(n, d2).
    if n = 0 then (if task_exists i d2 then Inl ErrConflict else Inl ErrNotFound)
    else
      thenE (foldE (add_rel e TypeBlocks i) d2 (ut_AddBlocks p)) (\<lambda>d3.
      thenE (foldE (add_rel e TypeBlockedBy i) d3 (ut_AddBlockedBy p)) (\<lambda>d4.
      let d5 = fold (\<lambda>tgt. delete_rels (\<lambda>r. r_src r = i \<and> r_tgt r = tgt))
                 (ut_RemoveRelationships p) d4 in
      thenE (optE ErrOther (get_task i d5)) (\<lambda>updated.
      thenE (foldE (create_change e i actor) d5 (diffTask old updated)) (\<lambda>d6.
      thenE (getTaskWithEdges i d6) (\<lambda>et. Inr (et, d6)))))))))"

text \<open>The retry loop: without a version token a first conflict is tried again.\<close>

definition UpdateTask ::
  "env \<Rightarrow> uuid \<Rightarrow> UpdateTaskParams \<Rightarrow> uuid \<Rightarrow> db \<times> db \<Rightarrow> db \<times> db \<Rightarrow> store_err + (etask \<times> db)" where
  "UpdateTask e i p actor try1 try2 =
    (case doUpdateTask e i p actor (fst try1) (snd try1) of
       Inl ErrConflict \<Rightarrow>
         if ut_Version p = [] then doUpdateTask e i p actor (fst try2) (snd try2)
         else Inl ErrConflict
     | r \<Rightarrow> r)"

definition UpdateTask_serial ::
  "env \<Rightarrow> uuid \<Rightarrow> UpdateTaskParams \<Rightarrow> uuid \<Rightarrow> db \<Rightarrow> store_err + (etask \<times> db)" where
  "UpdateTask_serial e i p actor d = UpdateTask e i p actor (d, d) (d, d)"

section \<open>Claiming, closing and deleting\<close>

definition claim_guard :: "env \<Rightarrow> uuid \<Rightarrow> string \<Rightarrow> task \<Rightarrow> db \<Rightarrow> task \<Rightarrow> bool" where
  "claim_guard e i version old d t \<longleftrightarrow> t_id t = i \<and> t_assignee t = None
     \<and> t_phase t = PhaseOpen \<and> t_stage t = StageAccepted \<and> t_hold t = None
     \<and> (case t_start t of None \<Rightarrow> True | Some s \<Rightarrow> s \<le> now e)
     \<and> noUnsatisfiedBlockerPredicates d t
     \<and> t_version t = (if version \<noteq> [] then version else t_version old)"

definition claim_row :: "uuid \<Rightarrow> task \<Rightarrow> task \<Rightarrow> task" where
  "claim_row assignee old t = t\<lparr>t_assignee := Some assignee, t_phase := PhaseInProgress,
     t_stage := StageWorking, t_hold := None, t_version := next_version (t_version old)\<rparr>"

text \<open>One turn of the loop ends with a result, or with \<open>None\<close>: the condition to \<open>continue\<close> holds.\<close>

definition failed_claim :: "env \<Rightarrow> uuid \<Rightarrow> db \<Rightarrow> store_err option" where
  "failed_claim e i d2 =
    (case get_task i d2 of
       None \<Rightarrow> Some ErrNotFound
     | Some current \<Rightarrow>
         if t_assignee current \<noteq> None then Some ErrAlreadyClaimed
         else if t_phase current = PhaseClosed then Some ErrAlreadyClosed
         else if t_phase current \<noteq> PhaseOpen \<or> t_stage current \<noteq> StageAccepted
                 \<or> t_hold current \<noteq> None then Some ErrUnavailable
         else (case ComputeAvailability e d2 (with_edges d2 current) of
             Inl err \<Rightarrow> Some ErrOther
           | Inr a \<Rightarrow> if \<not> Available a then Some ErrUnavailable else None))"

definition claim_attempt ::
  "env \<Rightarrow> uuid \<Rightarrow> uuid \<Rightarrow> string \<Rightarrow> bool \<Rightarrow> db \<times> db \<times> db \<Rightarrow> (store_err + (etask \<times> db)) option" where
  "claim_attempt e i assignee version first_turn = (\<lambda>(d0, d1, d2).
    (case get_task i d0 of
       None \<Rightarrow> Some (Inl ErrNotFound)
     | Some old \<Rightarrow>
        if t_phase old = PhaseClosed then Some (Inl ErrAlreadyClosed)
        else case ComputeAvailability e d0 (with_edges d0 old) of
          Inl err \<Rightarrow> Some (Inl ErrOther)
        | Inr a \<Rightarrow>
          if \<not> Available a then Some (Inl ErrUnavailable)
          else if t_assignee old \<noteq> None then Some (Inl ErrAlreadyClaimed)
          else case update_tasks e True (claim_guard e i version old d1) (claim_row assignee old) d1 of
            Inl err \<Rightarrow> Some (Inl ErrOther)
          | Inr (n, d3) \<Rightarrow>
            if n = 0 then
              (case failed_claim e i d2 of
                 Some err \<Rightarrow> Some (Inl err)
               | None \<Rightarrow> if version = [] \<and> first_turn then None else Some (Inl ErrConflict))
            else Some (thenE (getTaskWithEdges i d3) (\<lambda>et.
                   Inr (et, recordChanges e i assignee old (e_task et) d3)))))"

definition ClaimTask ::
  "env \<Rightarrow> uuid \<Rightarrow> uuid \<Rightarrow> string \<Rightarrow> db \<times> db \<times> db \<Rightarrow> db \<times> db \<times> db \<Rightarrow> store_err + (etask \<times> db)" where
  "ClaimTask e i assignee version try1 try2 =
    (case claim_attempt e i assignee version True try1 of
       Some r \<Rightarrow> r
     | None \<Rightarrow> (case claim_attempt e i assignee version False try2 of
           Some r \<Rightarrow> r | None \<Rightarrow> Inl ErrConflict))"

definition ClaimTask_serial ::
  "env \<Rightarrow> uuid \<Rightarrow> uuid \<Rightarrow> string \<Rightarrow> db \<Rightarrow> store_err + (etask \<times> db)" where
  "ClaimTask_serial e i assignee version d = ClaimTask e i assignee version (d, d, d) (d, d, d)"

definition close_row :: "env \<Rightarrow> stage \<Rightarrow> task \<Rightarrow> task \<Rightarrow> task" where
  "close_row e st old t = t\<lparr>t_phase := PhaseClosed, t_stage := st, t_closed := Some (now e),
     t_version := next_version (t_version old)\<rparr>"

definition close_attempt ::
  "env \<Rightarrow> uuid \<Rightarrow> stage \<Rightarrow> string \<Rightarrow> uuid \<Rightarrow> bool \<Rightarrow> db \<times> db \<Rightarrow> (store_err + (etask \<times> db)) option" where
  "close_attempt e i st version actor first_turn = (\<lambda>(d0, d1).
    (case get_task i d0 of
       None \<Rightarrow> Some (Inl ErrNotFound)
     | Some old \<Rightarrow>
        if t_phase old = PhaseClosed then Some (Inl ErrAlreadyClosed)
        else case update_tasks e True
               (\<lambda>t. t_id t = i \<and> t_version t = (if version \<noteq> [] then version else t_version old))
               (close_row e st old) d1 of
          Inl err \<Rightarrow> Some (Inl ErrOther)
        | Inr (n, d2) \<Rightarrow>
          if n = 0 then
            (if version = [] \<and> first_turn then None
             else Some (Inl (if task_exists i d2 then ErrConflict else ErrNotFound)))
          else Some (thenE (getTaskWithEdges i d2) (\<lambda>et.
                 Inr (et, recordChanges e i actor old (e_task et) d2)))))"

definition CloseTask ::
  "env \<Rightarrow> uuid \<Rightarrow> stage \<Rightarrow> string \<Rightarrow> uuid \<Rightarrow> db \<times> db \<Rightarrow> db \<times> db \<Rightarrow> store_err + (etask \<times> db)" where
  "CloseTask e i st version actor try1 try2 =
    (if st \<notin> {StageCompleted, StageWontFix, StageDuplicate, StageCancelled} then Inl ErrInvalidArgument
     else case close_attempt e i st version actor True try1 of
       Some r \<Rightarrow> r
     | None \<Rightarrow> (case close_attempt e i st version actor False try2 of
           Some r \<Rightarrow> r | None \<Rightarrow> Inl ErrConflict))"

definition CloseTask_serial ::
  "env \<Rightarrow> uuid \<Rightarrow> stage \<Rightarrow> string \<Rightarrow> uuid \<Rightarrow> db \<Rightarrow> store_err + (etask \<times> db)" where
  "CloseTask_serial e i st version actor d = CloseTask e i st version actor (d, d) (d, d)"

definition DeleteTask :: "uuid \<Rightarrow> db \<Rightarrow> store_err + db" where
  "DeleteTask i d = thenE (delete_task i d) (\<lambda>(n, d'). if n = 0 then Inl ErrNotFound else Inr d')"

definition GetTask :: "uuid \<Rightarrow> db \<Rightarrow> store_err + etask" where
  "GetTask i d = getTaskWithEdges i d"

end
