(* ===== verification/FT_TaskFacts.thy ===== *)
theory FT_TaskFacts
  imports FT_Tasks
begin

text \<open>
  What the operations on tasks keep and do. The first part shows inside \<open>db_step\<close> that each
  operation respects every relation the statements respect; the rest are the effects of
  \<open>UpdateTask\<close>, \<open>ClaimTask\<close>, \<open>CloseTask\<close> and \<open>InsertTasksAfter\<close> on the rows.
\<close>

section \<open>Rows keep their title and stage\<close>

lemma keeps_update_row: "update_values_ok p \<Longrightarrow> keeps_row (update_row p old)"
  by (auto simp: keeps_row_def update_row_def update_values_ok_def set_if_def split: option.splits)

lemma keeps_claim_row: "keeps_row (claim_row a old)"
  by (simp add: keeps_row_def claim_row_def declared_stage_def)

lemma keeps_close_row: "declared_stage st \<Longrightarrow> keeps_row (close_row e st old)"
  by (simp add: keeps_row_def close_row_def)

lemma keeps_version: "keeps_row (\<lambda>t. t\<lparr>t_version := v\<rparr>)"
  by (simp add: keeps_row_def)

section \<open>Every operation is composed of statements\<close>

context db_step
begin

lemma R_add_rel: "add_rel e ty src d tgt = Inr d' \<Longrightarrow> R d d'"
  unfolding add_rel_def by (auto split: if_splits intro: R_refl R_trans [OF R_drawn] R_insert_rel)

lemma R_add_rels: "foldE (add_rel e ty src) d tgts = Inr d' \<Longrightarrow> R d d'"
  by (rule R_fold_steps) (auto intro: R_add_rel)

lemma R_create_change: "create_change e tid author d c = Inr d' \<Longrightarrow> R d d'"
  unfolding create_change_def by (auto intro: R_trans [OF R_drawn] R_insert_change)

lemma R_create_changes: "foldE (create_change e tid author) d cs = Inr d' \<Longrightarrow> R d d'"
  by (rule R_fold_steps) (auto intro: R_create_change)

lemma R_record_each: "R d (record_each e tid author cs d)"
  by (induction cs arbitrary: d) (auto intro: R_refl R_trans R_create_change split: sum.split)

lemma R_recordChanges: "R d (recordChanges e tid author old upd d)"
  by (simp add: recordChanges_def R_record_each)

lemma R_remove_rels: "R d (fold (\<lambda>tgt. delete_rels (Q tgt)) tgts d)"
  by (induction tgts arbitrary: d) (auto intro: R_refl R_trans R_delete_rels)

lemma R_CreateTask:
  assumes "CreateTask e p d = Inr (et, d')"
  shows "R d d'"
proof -
  from assms obtain d1 d2 where "insert_task (new_task e (fresh_uuid e d) p) (drawn d) = Inr d1"
    and "foldE (add_rel e TypeBlocks (fresh_uuid e d)) d1 (ct_BlocksTaskIDs p) = Inr d2"
    and "foldE (add_rel e TypeBlockedBy (fresh_uuid e d)) d2 (ct_BlockedByTaskIDs p) = Inr d'"
    by (auto simp: CreateTask_def Let_def thenE_Inr)
  then show ?thesis by (blast intro: R_trans R_drawn R_insert_task R_add_rels)
qed

lemma R_insert_step: "insert_step e coll s p = Inr s' \<Longrightarrow> R (fst s) (fst s')"
  unfolding insert_step_def Let_def
  by (auto simp: thenE_Inr) (blast intro: R_trans R_drawn R_insert_task)

lemma R_insert_steps:
  assumes "foldE (insert_step e coll) s ps = Inr s'"
  shows "R (fst s) (fst s')"
proof (rule foldE_invariant [where P = "\<lambda>u. R (fst s) (fst u)", OF _ R_refl assms])
  fix u x u'
  assume "R (fst s) (fst u)" and "insert_step e coll u x = Inr u'"
  then show "R (fst s) (fst u')" by (blast intro: R_trans R_insert_step)
qed

lemma R_chain: "foldE (createBlocksRelationship e) d sts = Inr d' \<Longrightarrow> R d d'"
  by (rule R_fold_steps) (auto simp: createBlocksRelationship_def intro: R_add_rel)

end

text \<open>The run of a successful \<open>InsertTasksAfter\<close>, statement by statement.\<close>

lemma InsertTasksAfter_run:
  assumes "InsertTasksAfter e p d = Inr (r, d')"
  obtains anchor d1 ids d2 d3 where
    "it_Steps p \<noteq> []"
    "find (\<lambda>t. t_id t = it_AnchorTaskID p \<and> t_collection t = it_CollectionID p) (d_tasks d)
       = Some anchor"
    "foldE (insert_step e (it_CollectionID p)) (d, []) (it_Steps p) = Inr (d1, ids)"
    "foldE (createBlocksRelationship e) d1
       (zip (butlast (it_AnchorTaskID p # ids)) (tl (it_AnchorTaskID p # ids))) = Inr d2"
    "foldE (createBlocksRelationship e) d2 (map (\<lambda>t. (last ids, t)) (map r_tgt
       (filter (\<lambda>r. r_src r = it_AnchorTaskID p \<and> r_type r = TypeBlocks) (d_rels d)))) = Inr d3"
    "\<exists>n. update_tasks e True (\<lambda>t. t_id t = it_AnchorTaskID p)
       (\<lambda>t. t\<lparr>t_version := next_version (t_version anchor)\<rparr>)
       (let down = map r_tgt (filter (\<lambda>r. r_src r = it_AnchorTaskID p \<and> r_type r = TypeBlocks)
            (d_rels d))
        in if down = [] then d3 else delete_rels (\<lambda>r. r_src r = it_AnchorTaskID p
             \<and> List.member down (r_tgt r) \<and> r_type r = TypeBlocks) d3) = Inr (n, d')"
    "mapE (\<lambda>i. getTaskWithEdges i d') ids = Inr (ir_InsertedTasks r)"
    "getTaskWithEdges (it_AnchorTaskID p) d' = Inr (ir_AnchorTask r)"
proof -
  from assms have "it_Steps p \<noteq> []" by (auto simp: InsertTasksAfter_def Let_def)
  with assms show ?thesis
    by (auto simp: InsertTasksAfter_def Let_def thenE_Inr split: prod.splits intro!: that)
qed

context db_step
begin

lemma R_InsertTasksAfter:
  assumes "InsertTasksAfter e p d = Inr (r, d')"
  shows "R d d'"
  using assms
proof (rule InsertTasksAfter_run)
  fix anchor d1 ids d2 d3
  let ?a = "it_AnchorTaskID p"
  let ?down = "map r_tgt (filter (\<lambda>r. r_src r = ?a \<and> r_type r = TypeBlocks) (d_rels d))"
  assume st: "foldE (insert_step e (it_CollectionID p)) (d, []) (it_Steps p) = Inr (d1, ids)"
    and ch: "foldE (createBlocksRelationship e) d1 (zip (butlast (?a # ids)) (tl (?a # ids))) = Inr d2"
      "foldE (createBlocksRelationship e) d2 (map (\<lambda>t. (last ids, t)) ?down) = Inr d3"
    and up: "\<exists>n. update_tasks e True (\<lambda>t. t_id t = ?a)
       (\<lambda>t. t\<lparr>t_version := next_version (t_version anchor)\<rparr>)
       (let down = ?down in if down = [] then d3 else delete_rels (\<lambda>r. r_src r = ?a
             \<and> List.member down (r_tgt r) \<and> r_type r = TypeBlocks) d3) = Inr (n, d')"
  from R_insert_steps [OF st] R_chain [OF ch(1)] R_chain [OF ch(2)] have "R d d3"
    by (auto intro: R_trans)
  moreover from up have "R d3 d'"
    by (auto simp: Let_def split: if_splits
        intro: R_update_tasks R_trans [OF R_delete_rels] keeps_version)
  ultimately show ?thesis by (rule R_trans)
qed

end

text \<open>The run of a successful update.\<close>

lemma doUpdateTask_run:
  assumes "doUpdateTask e i p actor d0 d1 = Inr (et, d')"
  obtains old n d2 d3 d4 upd where
    "get_task i d0 = Some old" "validate_update e p old = Inr ()"
    "update_tasks e (update_values_ok p) (update_guard p old i) (update_row p old) d1 = Inr (n, d2)"
    "n \<noteq> 0"
    "foldE (add_rel e TypeBlocks i) d2 (ut_AddBlocks p) = Inr d3"
    "foldE (add_rel e TypeBlockedBy i) d3 (ut_AddBlockedBy p) = Inr d4"
    "get_task i (fold (\<lambda>tgt. delete_rels (\<lambda>r. r_src r = i \<and> r_tgt r = tgt))
        (ut_RemoveRelationships p) d4) = Some upd"
    "foldE (create_change e i actor) (fold (\<lambda>tgt. delete_rels (\<lambda>r. r_src r = i \<and> r_tgt r = tgt))
        (ut_RemoveRelationships p) d4) (diffTask old upd) = Inr d'"
    "getTaskWithEdges i d' = Inr et"
  using assms
  by (auto simp: doUpdateTask_def Let_def thenE_Inr split: if_splits prod.splits intro!: that)

context db_step
begin

lemma R_doUpdateTask:
  assumes "doUpdateTask e i p actor d0 d1 = Inr (et, d')"
  shows "R d1 d'"
  using assms
proof (rule doUpdateTask_run)
  fix old n d2 d3 d4 upd
  let ?d5 = "fold (\<lambda>tgt. delete_rels (\<lambda>r. r_src r = i \<and> r_tgt r = tgt)) (ut_RemoveRelationships p) d4"
  assume u: "update_tasks e (update_values_ok p) (update_guard p old i) (update_row p old) d1 = Inr (n, d2)"
    and b: "foldE (add_rel e TypeBlocks i) d2 (ut_AddBlocks p) = Inr d3"
      "foldE (add_rel e TypeBlockedBy i) d3 (ut_AddBlockedBy p) = Inr d4"
    and c: "foldE (create_change e i actor) ?d5 (diffTask old upd) = Inr d'"
  have "R d1 d2" using u by (rule R_update_tasks) (rule keeps_update_row)
  moreover have "R d2 d4" using b by (blast intro: R_trans R_add_rels)
  moreover have "R d4 ?d5" by (rule R_remove_rels)
  moreover have "R ?d5 d'" using c by (rule R_create_changes)
  ultimately show ?thesis by (blast intro: R_trans)
qed

lemma R_UpdateTask:
  "UpdateTask e i p actor a1 a2 = Inr (et, d') \<Longrightarrow> R (snd a1) d' \<or> R (snd a2) d'"
  unfolding UpdateTask_def
  by (auto split: sum.splits store_err.splits if_splits dest: R_doUpdateTask)

lemma R_claim_attempt:
  assumes "claim_attempt e i a v b (d0, d1, d2) = Some (Inr (et, d'))"
  shows "R d1 d'"
  using assms unfolding claim_attempt_def
  by (auto simp: thenE_Inr split: option.splits sum.splits if_splits prod.splits
      intro: R_trans [OF R_update_tasks [OF _ keeps_claim_row] R_recordChanges])

lemma R_ClaimTask:
  assumes "ClaimTask e i a v (d0, d1, d2) (d3, d4, d5) = Inr (et, d')"
  shows "R d1 d' \<or> R d4 d'"
  using assms unfolding ClaimTask_def by (auto split: option.splits dest: R_claim_attempt)

lemma R_close_attempt:
  assumes "close_attempt e i st v actor b (d0, d1) = Some (Inr (et, d'))" and "declared_stage st"
  shows "R d1 d'"
  using assms(1) unfolding close_attempt_def
  by (auto simp: thenE_Inr split: option.splits sum.splits if_splits prod.splits
      intro: R_trans [OF R_update_tasks [OF _ keeps_close_row [OF assms(2)]] R_recordChanges])

lemma R_CloseTask:
  assumes "CloseTask e i st v actor (d0, d1) (d2, d3) = Inr (et, d')"
  shows "R d1 d' \<or> R d3 d'"
proof -
  have "declared_stage st"
    using assms by (auto simp: CloseTask_def declared_stage_def split: if_splits)
  then show ?thesis
    using assms unfolding CloseTask_def
    by (auto split: option.splits if_splits dest: R_close_attempt)
qed

lemma R_DeleteTask: "DeleteTask i d = Inr d' \<Longrightarrow> R d d'"
  unfolding DeleteTask_def by (auto simp: thenE_Inr split: if_splits intro: R_delete_task)

end

section \<open>Effects on the rows\<close>

lemma tasks_add_rel: "add_rel e ty src d tgt = Inr d' \<Longrightarrow> d_tasks d' = d_tasks d"
  by (auto simp: add_rel_def keeps_tasks(13) split: if_splits dest!: keeps_tasks(1))

lemma tasks_add_rels: "foldE (add_rel e ty src) d tgts = Inr d' \<Longrightarrow> d_tasks d' = d_tasks d"
  by (rule foldE_invariant [where P = "\<lambda>s. d_tasks s = d_tasks d"]) (auto dest: tasks_add_rel)

lemma create_change_keeps:
  "create_change e tid author d c = Inr d' \<Longrightarrow>
     d_tasks d' = d_tasks d \<and> d_rels d' = d_rels d \<and> d_colls d' = d_colls d
     \<and> d_users d' = d_users d \<and> d_comments d' = d_comments d"
  by (auto simp: create_change_def insert_change_def drawn_def split: if_splits)

lemma create_changes_keep:
  assumes "foldE (create_change e tid author) d cs = Inr d'"
  shows "d_tasks d' = d_tasks d \<and> d_rels d' = d_rels d"
  by (rule foldE_invariant [where P = "\<lambda>s. d_tasks s = d_tasks d \<and> d_rels s = d_rels d", OF _ _ assms])
    (auto dest: create_change_keeps)

lemma record_each_keeps:
  "d_tasks (record_each e tid author cs d) = d_tasks d \<and> d_rels (record_each e tid author cs d) = d_rels d"
  by (induction cs arbitrary: d) (auto dest: create_change_keeps split: sum.split)

lemma recordChanges_keeps [simp]:
  "d_tasks (recordChanges e tid author old upd d) = d_tasks d"
  "d_rels (recordChanges e tid author old upd d) = d_rels d"
  by (simp_all add: recordChanges_def record_each_keeps)

lemma remove_rels_keeps [simp]: "d_tasks (fold (\<lambda>tgt. delete_rels (Q tgt)) tgts d) = d_tasks d"
  by (induction tgts arbitrary: d) (simp_all add: keeps_tasks(14))

lemma get_task_cong: "d_tasks d' = d_tasks d \<Longrightarrow> get_task i d' = get_task i d"
  by (simp add: get_task_def)

lemma get_task_append:
  assumes "i \<notin> task_ids d" and "d_tasks d' = d_tasks d @ [t]" and "t_id t = i"
  shows "get_task i d' = Some t"
proof -
  have "find (\<lambda>t. t_id t = i) (d_tasks d) = None"
    using assms(1) unfolding get_task_None [symmetric] get_task_def .
  then show ?thesis using assms(2,3) by (simp add: get_task_def find_append)
qed

lemma new_task_id [simp]: "t_id (new_task e i p) = i"
  by (simp add: new_task_def)

lemma get_task_update:
  assumes "update_tasks e v P f d = Inr (n, d')"
  shows "get_task j d' = map_option (\<lambda>t. if P t then (f t)\<lparr>t_id := t_id t,
      t_collection := t_collection t, t_created := t_created t, t_updated := now e\<rparr> else t)
      (get_task j d)"
proof -
  have tasks: "d_tasks d' = map (\<lambda>t. if P t then (f t)\<lparr>t_id := t_id t,
      t_collection := t_collection t, t_created := t_created t, t_updated := now e\<rparr> else t) (d_tasks d)"
    using assms by (simp add: update_tasks_Inr)
  show ?thesis unfolding get_task_def tasks by (rule find_map_same_key) simp
qed

lemma update_tasks_keeps:
  "update_tasks e v P f d = Inr (n, d') \<Longrightarrow> d_rels d' = d_rels d \<and> d_changes d' = d_changes d
     \<and> d_colls d' = d_colls d \<and> task_ids d' = task_ids d"
proof -
  assume u: "update_tasks e v P f d = Inr (n, d')"
  have "map t_id (d_tasks d') = map t_id (d_tasks d)"
    using u unfolding update_tasks_Inr by (auto simp del: map_map intro!: map_key_if)
  then have "task_ids d' = task_ids d" unfolding task_ids_def set_map [symmetric] by simp
  then show ?thesis using u by (simp add: update_tasks_Inr)
qed

text \<open>A guard that fixes the identifier matches one row at most.\<close>

lemma update_tasks_hit:
  assumes "update_tasks e v P f d = Inr (n, d')" and "db_ok d" and "\<And>t. P t \<Longrightarrow> t_id t = i"
  shows "n = (case get_task i d of None \<Rightarrow> 0 | Some t \<Rightarrow> if P t then 1 else 0)"
proof -
  have n: "n = length (filter P (d_tasks d))" using assms(1) by (simp add: update_tasks_Inr)
  have key: "P t \<longleftrightarrow> get_task i d = Some t \<and> P t" if "t \<in> set (d_tasks d)" for t
    using that assms(2,3) get_task_iff by blast
  show ?thesis
  proof (cases "\<exists>t\<in>set (d_tasks d). P t")
    case True
    then obtain t where t: "t \<in> set (d_tasks d)" "P t" "get_task i d = Some t" using key by blast
    have "filter P (d_tasks d) = filter (\<lambda>s. s = t) (d_tasks d)"
      using key t by (intro filter_cong) auto
    moreover have "length (filter (\<lambda>s. s = t) (d_tasks d)) = 1"
      using distinct_length_filter [OF db_ok_distinct_tasks [OF assms(2)], of "\<lambda>s. s = t"] t(1)
      by (simp add: Int_insert_left Collect_conv_if)
    ultimately show ?thesis using n t by simp
  next
    case False
    then have "filter P (d_tasks d) = []" by (simp add: filter_empty_conv)
    moreover have "\<not> P t" if "get_task i d = Some t" for t using False that get_task_Some by blast
    ultimately show ?thesis using n by (simp split: option.split)
  qed
qed

lemma update_row_fixed [simp]:
  "t_id (update_row p old t) = t_id t" "t_collection (update_row p old t) = t_collection t"
  "t_created (update_row p old t) = t_created t" "t_version (update_row p old t) = update_version p old"
  by (simp_all add: update_row_def)

lemma claim_row_fixed [simp]:
  "t_id (claim_row a old t) = t_id t" "t_collection (claim_row a old t) = t_collection t"
  "t_created (claim_row a old t) = t_created t"
  by (simp_all add: claim_row_def)

lemma close_row_fixed [simp]:
  "t_id (close_row e st old t) = t_id t" "t_collection (close_row e st old t) = t_collection t"
  "t_created (close_row e st old t) = t_created t"
  by (simp_all add: close_row_def)

lemma task_same_update:
  "t_id s = t_id t \<Longrightarrow> t_collection s = t_collection t \<Longrightarrow> t_created s = t_created t \<Longrightarrow>
    s\<lparr>t_id := t_id t, t_collection := t_collection t, t_created := t_created t, t_updated := u\<rparr>
      = s\<lparr>t_updated := u\<rparr>"
  by (cases s) simp

lemma doUpdateTask_effect:
  assumes run: "doUpdateTask e i p actor d0 d1 = Inr (et, d')" and ok: "db_ok d1"
  obtains old t where "get_task i d0 = Some old" "get_task i d1 = Some t"
    "t_version t = (if ut_Version p \<noteq> [] then ut_Version p else t_version old)"
    "validate_update e p old = Inr ()"
    "get_task i d' = Some ((update_row p old t)\<lparr>t_updated := now e\<rparr>)"
    "et = with_edges d' ((update_row p old t)\<lparr>t_updated := now e\<rparr>)"
    "\<And>j. j \<noteq> i \<Longrightarrow> get_task j d' = get_task j d1"
  using run
proof (rule doUpdateTask_run)
  fix old n d2 d3 d4 upd
  let ?d5 = "fold (\<lambda>tgt. delete_rels (\<lambda>r. r_src r = i \<and> r_tgt r = tgt)) (ut_RemoveRelationships p) d4"
  assume old: "get_task i d0 = Some old" and val: "validate_update e p old = Inr ()"
    and u: "update_tasks e (update_values_ok p) (update_guard p old i) (update_row p old) d1 = Inr (n, d2)"
    and n: "n \<noteq> 0"
    and b: "foldE (add_rel e TypeBlocks i) d2 (ut_AddBlocks p) = Inr d3"
      "foldE (add_rel e TypeBlockedBy i) d3 (ut_AddBlockedBy p) = Inr d4"
    and c: "foldE (create_change e i actor) ?d5 (diffTask old upd) = Inr d'"
    and et: "getTaskWithEdges i d' = Inr et"
  have tasks: "d_tasks d' = d_tasks d2"
    using tasks_add_rels [OF b(1)] tasks_add_rels [OF b(2)] create_changes_keep [OF c] by simp
  have "n = (case get_task i d1 of None \<Rightarrow> 0 | Some t \<Rightarrow> if update_guard p old i t then 1 else 0)"
    using u ok by (rule update_tasks_hit) (simp add: update_guard_def)
  with n obtain t where t: "get_task i d1 = Some t" "update_guard p old i t"
    by (auto split: option.splits if_splits)
  have at: "get_task j d' = map_option (\<lambda>t. if update_guard p old i t
      then (update_row p old t)\<lparr>t_updated := now e\<rparr> else t) (get_task j d1)" for j
    unfolding get_task_cong [OF tasks] get_task_update [OF u]
    by (rule map_option_cong) (auto simp: task_same_update)
  have "get_task j d' = get_task j d1" if "j \<noteq> i" for j
    unfolding at using that get_task_id [of j d1] by (cases "get_task j d1") (auto simp: update_guard_def)
  then show ?thesis
    using that [OF old t(1) _ val] t at et
    by (auto simp: getTaskWithEdges_Inr update_guard_def)
qed

section \<open>Claiming\<close>

lemma with_edges_cong: "d_rels d' = d_rels d \<Longrightarrow> with_edges d' t = with_edges d t"
  by (simp add: with_edges_def)

lemma claim_guard_id: "claim_guard e i v old d t \<Longrightarrow> t_id t = i"
  by (simp add: claim_guard_def)

lemma claim_attempt_effect:
  assumes run: "claim_attempt e i a v b (d0, d1, d2) = Some (Inr (et, d'))" and ok: "db_ok d1"
  obtains old t where "get_task i d0 = Some old" "get_task i d1 = Some t"
    "claim_guard e i v old d1 t"
    "get_task i d' = Some ((claim_row a old t)\<lparr>t_updated := now e\<rparr>)"
    "et = with_edges d' ((claim_row a old t)\<lparr>t_updated := now e\<rparr>)"
    "\<And>j. j \<noteq> i \<Longrightarrow> get_task j d' = get_task j d1"
    "d_rels d' = d_rels d1"
proof -
  from run obtain old n d3 where old: "get_task i d0 = Some old"
    and u: "update_tasks e True (claim_guard e i v old d1) (claim_row a old) d1 = Inr (n, d3)"
    and n: "n \<noteq> 0" and et: "getTaskWithEdges i d3 = Inr et"
    and d': "d' = recordChanges e i a old (e_task et) d3"
    by (auto simp: claim_attempt_def thenE_Inr split: option.splits sum.splits if_splits prod.splits)
  have "n = (case get_task i d1 of None \<Rightarrow> 0 | Some t \<Rightarrow> if claim_guard e i v old d1 t then 1 else 0)"
    using u ok by (rule update_tasks_hit) (rule claim_guard_id)
  with n obtain t where t: "get_task i d1 = Some t" "claim_guard e i v old d1 t"
    by (auto split: option.splits if_splits)
  have at3: "get_task j d3 = map_option (\<lambda>t. if claim_guard e i v old d1 t
      then (claim_row a old t)\<lparr>t_updated := now e\<rparr> else t) (get_task j d1)" for j
    unfolding get_task_update [OF u] by (rule map_option_cong) (auto simp: task_same_update)
  have at: "get_task j d' = map_option (\<lambda>t. if claim_guard e i v old d1 t
      then (claim_row a old t)\<lparr>t_updated := now e\<rparr> else t) (get_task j d1)" for j
    unfolding at3 [symmetric] d' by (rule get_task_cong) simp
  have other: "get_task j d' = get_task j d1" if "j \<noteq> i" for j
    unfolding at using that get_task_id [of j d1] claim_guard_id
    by (cases "get_task j d1") auto
  have rels: "d_rels d' = d_rels d1" using update_tasks_keeps [OF u] by (simp add: d')
  have "et = with_edges d3 ((claim_row a old t)\<lparr>t_updated := now e\<rparr>)"
    using et at3 [of i] t by (auto simp: getTaskWithEdges_Inr)
  then have "et = with_edges d' ((claim_row a old t)\<lparr>t_updated := now e\<rparr>)"
    using with_edges_cong [of d' d3] by (simp add: d')
  with that [OF old t _ _ other rels] at [of i] t show ?thesis by simp
qed

lemma not_future: "\<not> future_start tn t \<longleftrightarrow> (case t_start t of None \<Rightarrow> True | Some s \<Rightarrow> s \<le> tn)"
  by (auto simp: future_start_def split: option.splits)

text \<open>The guard of the statement on the row read before, when nothing came between.\<close>

lemma claim_guard_serial:
  "claim_guard e i v t d t \<longleftrightarrow> t_id t = i \<and> t_assignee t = None \<and> t_phase t = PhaseOpen
     \<and> t_stage t = StageAccepted \<and> claimable e d t \<and> (v = [] \<or> v = t_version t)"
  by (auto simp: claim_guard_def claimable_def not_future IsTerminalStage_def)

lemma update_claim_ok:
  assumes "db_ok d"
  shows "\<exists>n d3. update_tasks e True (claim_guard e i v old d) (claim_row a old) d = Inr (n, d3)"
proof -
  have "set_option (t_parent (claim_row a old t)) \<subseteq> task_ids d" if "t \<in> set (d_tasks d)" for t
    using that assms by (auto simp: claim_row_def db_ok_def tasks_ok_def task_ids_def)
  then show ?thesis by (auto simp: update_tasks_Inr)
qed

lemma claim_attempt_serial:
  assumes ok: "db_ok d" and t: "get_task i d = Some t"
  shows "claim_attempt e i a v b (d, d, d) =
    (if t_phase t = PhaseClosed then Some (Inl ErrAlreadyClosed)
     else if \<not> claimable e d t then Some (Inl ErrUnavailable)
     else if t_assignee t \<noteq> None then Some (Inl ErrAlreadyClaimed)
     else if t_phase t \<noteq> PhaseOpen \<or> t_stage t \<noteq> StageAccepted then Some (Inl ErrUnavailable)
     else if v \<noteq> [] \<and> v \<noteq> t_version t then Some (Inl ErrConflict)
     else claim_attempt e i a v b (d, d, d))"
    and "claimable e d t \<Longrightarrow> t_phase t = PhaseOpen \<Longrightarrow> t_stage t = StageAccepted \<Longrightarrow>
      t_assignee t = None \<Longrightarrow> v = [] \<or> v = t_version t \<Longrightarrow>
      \<exists>et d'. claim_attempt e i a v b (d, d, d) = Some (Inr (et, d'))"
proof -
  obtain av where av: "ComputeAvailability e d (with_edges d t) = Inr av"
    "Available av \<longleftrightarrow> claimable e d t"
    using ComputeAvailability_Inr [OF ok] by metis
  obtain n d3 where u: "update_tasks e True (claim_guard e i v t d) (claim_row a t) d = Inr (n, d3)"
    using update_claim_ok [OF ok] by blast
  have n: "n = (if claim_guard e i v t d t then 1 else 0)"
    using update_tasks_hit [OF u ok claim_guard_id] t by simp
  have ti: "t_id t = i" using t by (rule get_task_id)
  have hold: "claimable e d t \<Longrightarrow> t_hold t = None" by (simp add: claimable_def)
  show "claim_attempt e i a v b (d, d, d) =
    (if t_phase t = PhaseClosed then Some (Inl ErrAlreadyClosed)
     else if \<not> claimable e d t then Some (Inl ErrUnavailable)
     else if t_assignee t \<noteq> None then Some (Inl ErrAlreadyClaimed)
     else if t_phase t \<noteq> PhaseOpen \<or> t_stage t \<noteq> StageAccepted then Some (Inl ErrUnavailable)
     else if v \<noteq> [] \<and> v \<noteq> t_version t then Some (Inl ErrConflict)
     else claim_attempt e i a v b (d, d, d))"
    using t av u n hold
    by (simp add: claim_attempt_def failed_claim_def claim_guard_serial ti)
  assume free: "claimable e d t" "t_phase t = PhaseOpen" "t_stage t = StageAccepted"
    "t_assignee t = None" "v = [] \<or> v = t_version t"
  then have "n = 1" using n ti by (simp add: claim_guard_serial)
  moreover obtain et where "getTaskWithEdges i d3 = Inr et"
    using get_task_update [OF u, of i] t by (auto simp: getTaskWithEdges_Inr)
  ultimately show "\<exists>et d'. claim_attempt e i a v b (d, d, d) = Some (Inr (et, d'))"
    using t av u free by (simp add: claim_attempt_def)
qed

section \<open>Closing\<close>

lemma close_attempt_effect:
  assumes run: "close_attempt e i st v actor b (d0, d1) = Some (Inr (et, d'))" and ok: "db_ok d1"
  obtains old t where "get_task i d0 = Some old" "get_task i d1 = Some t"
    "t_phase old \<noteq> PhaseClosed" "t_version t = (if v \<noteq> [] then v else t_version old)"
    "get_task i d' = Some ((close_row e st old t)\<lparr>t_updated := now e\<rparr>)"
    "et = with_edges d' ((close_row e st old t)\<lparr>t_updated := now e\<rparr>)"
    "\<And>j. j \<noteq> i \<Longrightarrow> get_task j d' = get_task j d1"
proof -
  let ?P = "\<lambda>old t. t_id t = i \<and> t_version t = (if v \<noteq> [] then v else t_version old)"
  from run obtain old n d2 where old: "get_task i d0 = Some old" "t_phase old \<noteq> PhaseClosed"
    and u: "update_tasks e True (?P old) (close_row e st old) d1 = Inr (n, d2)"
    and n: "n \<noteq> 0" and et: "getTaskWithEdges i d2 = Inr et"
    and d': "d' = recordChanges e i actor old (e_task et) d2"
    by (auto simp: close_attempt_def thenE_Inr split: option.splits sum.splits if_splits prod.splits)
  have "n = (case get_task i d1 of None \<Rightarrow> 0 | Some t \<Rightarrow> if ?P old t then 1 else 0)"
    using u ok by (rule update_tasks_hit) simp
  with n obtain t where t: "get_task i d1 = Some t" "?P old t"
    by (auto split: option.splits if_splits)
  have at2: "get_task j d2 = map_option (\<lambda>t. if ?P old t
      then (close_row e st old t)\<lparr>t_updated := now e\<rparr> else t) (get_task j d1)" for j
    unfolding get_task_update [OF u] by (rule map_option_cong) (auto simp: task_same_update)
  have at: "get_task j d' = map_option (\<lambda>t. if ?P old t
      then (close_row e st old t)\<lparr>t_updated := now e\<rparr> else t) (get_task j d1)" for j
    unfolding at2 [symmetric] d' by (rule get_task_cong) simp
  have other: "get_task j d' = get_task j d1" if "j \<noteq> i" for j
    unfolding at using that get_task_id [of j d1] by (cases "get_task j d1") auto
  have "et = with_edges d2 ((close_row e st old t)\<lparr>t_updated := now e\<rparr>)"
    using et at2 [of i] t by (auto simp: getTaskWithEdges_Inr)
  then have "et = with_edges d' ((close_row e st old t)\<lparr>t_updated := now e\<rparr>)"
    using with_edges_cong [of d' d2] by (simp add: d')
  with that [OF old(1) t(1) old(2) _ _ _ other] at [of i] t show ?thesis by simp
qed

end
