(* ===== verification/FT_TaskProps.thy ===== *)
theory FT_TaskProps
  imports FT_TaskFacts
begin

text \<open>
  The properties of the operations on tasks: when a claim succeeds, that a race for a task
  has one winner at most, the compare-and-swap of \<open>UpdateTask\<close> and its retry, what closing
  does, how \<open>InsertTasksAfter\<close> rewires the blocking relation, and the change log.
\<close>

section \<open>Claims\<close>

text \<open>
  C5. With no other client between its statements, \<open>ClaimTask\<close> succeeds exactly when the task
  exists, is open, accepted, unassigned and available (not held, started, every blocker
  completed) and the version token, if any, is the stored version.
\<close>

theorem ClaimTask_succeeds_iff:
  assumes "db_ok d"
  shows "(\<exists>et d'. ClaimTask_serial e i a v d = Inr (et, d')) \<longleftrightarrow>
    (\<exists>t. get_task i d = Some t \<and> t_phase t = PhaseOpen \<and> t_stage t = StageAccepted
       \<and> t_assignee t = None \<and> t_hold t = None \<and> \<not> future_start (now e) t
       \<and> (\<nexists>b. open_blocker d i b) \<and> (v = [] \<or> v = t_version t))"
proof (cases "get_task i d")
  case None
  then show ?thesis by (simp add: ClaimTask_serial_def ClaimTask_def claim_attempt_def)
next
  case (Some t)
  note at = claim_attempt_serial [OF assms Some, where e = e and a = a and v = v]
  have ti: "t_id t = i" using Some by (rule get_task_id)
  let ?ok = "t_phase t = PhaseOpen \<and> t_stage t = StageAccepted \<and> t_assignee t = None
     \<and> claimable e d t \<and> (v = [] \<or> v = t_version t)"
  have "(\<exists>et d'. ClaimTask_serial e i a v d = Inr (et, d')) \<longleftrightarrow> ?ok"
  proof
    assume ?ok
    then obtain et d' where "claim_attempt e i a v True (d, d, d) = Some (Inr (et, d'))"
      using at(2) by blast
    then show "\<exists>et d'. ClaimTask_serial e i a v d = Inr (et, d')"
      by (simp add: ClaimTask_serial_def ClaimTask_def)
  next
    assume "\<exists>et d'. ClaimTask_serial e i a v d = Inr (et, d')"
    then obtain b et d' where "claim_attempt e i a v b (d, d, d) = Some (Inr (et, d'))"
      by (auto simp: ClaimTask_serial_def ClaimTask_def split: option.splits)
    then show ?ok using at(1) [of b] by (auto split: if_splits)
  qed
  then show ?thesis
    using Some ti by (auto simp: claimable_def noUnsatisfiedBlocker_iff IsTerminalStage_def)
qed

theorem ClaimTask_succeeds_iff_witness:
  "\<exists>et d'. ClaimTask_serial ex_env 10 7 [] ex_db = Inr (et, d')"
  using ClaimTask_succeeds_iff [OF ex_db_ok, of ex_env 10 7 "[]"] ex_no_blocker10
  by (simp add: ex_get10 future_start_def)

text \<open>
  C6. What a successful claim writes, also when other clients' writes came between its read
  and its write: the row of the task gets the assignee, the phase, the stage and a new
  version and loses its hold reason, every other task and every relationship is as it was,
  and the row written was unassigned, open and accepted and carried the expected version.
\<close>

theorem ClaimTask_effect:
  assumes "claim_attempt e i a v b (d0, d1, d2) = Some (Inr (et, d'))" and "db_ok d1"
  shows "\<exists>old t. get_task i d0 = Some old \<and> get_task i d1 = Some t
    \<and> t_assignee t = None \<and> t_phase t = PhaseOpen \<and> t_stage t = StageAccepted
    \<and> t_version t = (if v = [] then t_version old else v)
    \<and> e_task et = t\<lparr>t_assignee := Some a, t_phase := PhaseInProgress, t_stage := StageWorking,
         t_hold := None, t_version := next_version (t_version old), t_updated := now e\<rparr>
    \<and> get_task i d' = Some (e_task et)
    \<and> (\<forall>j. j \<noteq> i \<longrightarrow> get_task j d' = get_task j d1) \<and> d_rels d' = d_rels d1"
  using assms
proof (rule claim_attempt_effect)
  fix old t
  assume "get_task i d0 = Some old" "get_task i d1 = Some t" "claim_guard e i v old d1 t"
    "get_task i d' = Some ((claim_row a old t)\<lparr>t_updated := now e\<rparr>)"
    "et = with_edges d' ((claim_row a old t)\<lparr>t_updated := now e\<rparr>)"
    "\<And>j. j \<noteq> i \<Longrightarrow> get_task j d' = get_task j d1" "d_rels d' = d_rels d1"
  then show ?thesis by (intro exI [of _ old] exI [of _ t]) (simp add: claim_guard_def claim_row_def)
qed

theorem ClaimTask_effect_witness:
  "\<exists>et d'. claim_attempt ex_env 10 7 [] True (ex_db, ex_db, ex_db) = Some (Inr (et, d'))
    \<and> t_assignee (e_task et) = Some 7"
proof -
  obtain et d' where run: "claim_attempt ex_env 10 7 [] True (ex_db, ex_db, ex_db) = Some (Inr (et, d'))"
    using claim_attempt_serial(2) [OF ex_db_ok ex_get10 ex_claimable10] by fastforce
  show ?thesis using ClaimTask_effect [OF run ex_db_ok] run by auto
qed

text \<open>
  A race for one task: each attempt has read some database of its own, its write comes at
  its place in the sequence, and the winners are the attempts that wrote.
\<close>

fun claim_race :: "uuid \<Rightarrow> (env \<times> uuid \<times> string \<times> bool \<times> db \<times> db) list \<Rightarrow> db \<Rightarrow> uuid list \<times> db" where
  "claim_race i [] d = ([], d)"
| "claim_race i ((e, a, v, b, d0, d2) # as) d =
    (case claim_attempt e i a v b (d0, d, d2) of
       Some (Inr (et, d')) \<Rightarrow> let r = claim_race i as d' in (a # fst r, snd r)
     | _ \<Rightarrow> claim_race i as d)"

lemma claim_race_assigned:
  assumes "db_ok d" and "get_task i d = Some t" and "t_assignee t \<noteq> None"
  shows "claim_race i as d = ([], d)"
proof (induction as)
  case (Cons x xs)
  obtain e a v b d0 d2 where x: "x = (e, a, v, b, d0, d2)" by (cases x) auto
  have "claim_attempt e i a v b (d0, d, d2) \<noteq> Some (Inr r)" for r
    using assms
    by (cases r) (auto elim!: claim_attempt_effect simp: claim_guard_def)
  then show ?case using Cons by (auto simp: x split: option.splits sum.splits)
qed simp

text \<open>
  C7. Whatever the attempts of a race have read before and in whatever order their writes
  come, at most one of them wins the task, and when one does the task is assigned to it
  at the end.
\<close>

theorem claim_race_one_winner:
  assumes "db_ok d"
  shows "length (fst (claim_race i as d)) \<le> 1
    \<and> (\<forall>w\<in>set (fst (claim_race i as d)).
         \<exists>t. get_task i (snd (claim_race i as d)) = Some t \<and> t_assignee t = Some w)"
  using assms
proof (induction as arbitrary: d)
  case (Cons x xs)
  obtain e a v b d0 d2 where x: "x = (e, a, v, b, d0, d2)" by (cases x) auto
  show ?case
  proof (cases "\<exists>et d'. claim_attempt e i a v b (d0, d, d2) = Some (Inr (et, d'))")
    case True
    then obtain et d' where run: "claim_attempt e i a v b (d0, d, d2) = Some (Inr (et, d'))" by blast
    from run Cons.prems obtain t where "get_task i d' = Some t" "t_assignee t = Some a"
      by (rule claim_attempt_effect) (simp add: claim_row_def)
    moreover have "db_ok d'" using integrity.R_claim_attempt [OF run] Cons.prems by blast
    ultimately have "claim_race i xs d' = ([], d')" by (intro claim_race_assigned) auto
    then show ?thesis
      using \<open>get_task i d' = Some t\<close> \<open>t_assignee t = Some a\<close> by (simp add: x run)
  next
    case False
    then have "claim_race i (x # xs) d = claim_race i xs d"
      by (auto simp: x split: option.splits sum.splits)
    then show ?thesis using Cons by simp
  qed
qed simp

theorem claim_race_one_winner_witness:
  "length (fst (claim_race 10 [(ex_env, 7, [], True, ex_db, ex_db), (ex_env, 8, [], True, ex_db, ex_db)]
     ex_db)) \<le> 1"
  using claim_race_one_winner [OF ex_db_ok] by blast

section \<open>Updates\<close>

text \<open>
  C8. What a successful \<open>UpdateTask\<close> attempt writes: the row it updates carried the expected
  version (the token, or the version it read), gets the fields the parameters set and a
  version that differs from the expected one; the other tasks are as they were, and the
  identifier, collection and creation time of the task are.
\<close>

theorem doUpdateTask_writes:
  assumes "doUpdateTask e i p actor d0 d1 = Inr (et, d')" and "db_ok d1"
  shows "\<exists>old t. get_task i d0 = Some old \<and> get_task i d1 = Some t
    \<and> t_version t = (if ut_Version p \<noteq> [] then ut_Version p else t_version old)
    \<and> e_task et = (update_row p old t)\<lparr>t_updated := now e\<rparr>
    \<and> get_task i d' = Some (e_task et) \<and> t_version (e_task et) \<noteq> t_version t
    \<and> t_id (e_task et) = i \<and> t_collection (e_task et) = t_collection t
    \<and> t_created (e_task et) = t_created t
    \<and> (\<forall>j. j \<noteq> i \<longrightarrow> get_task j d' = get_task j d1)"
  using assms
proof (rule doUpdateTask_effect)
  fix old t
  assume a: "get_task i d0 = Some old" "get_task i d1 = Some t"
    "t_version t = (if ut_Version p \<noteq> [] then ut_Version p else t_version old)"
    "get_task i d' = Some ((update_row p old t)\<lparr>t_updated := now e\<rparr>)"
    "et = with_edges d' ((update_row p old t)\<lparr>t_updated := now e\<rparr>)"
    "\<And>j. j \<noteq> i \<Longrightarrow> get_task j d' = get_task j d1"
  then have "t_id t = i" using get_task_id by blast
  with a show ?thesis
    by (intro exI [of _ old] exI [of _ t]) (simp add: update_version_def)
qed

definition ex_update :: UpdateTaskParams where
  "ex_update = \<lparr>ut_Title = Some ''b'', ut_Description = None, ut_Phase = None, ut_Stage = None,
     ut_HoldReason = None, ut_ClearHoldReason = False, ut_NativeLabel = None, ut_Type = None,
     ut_Priority = None, ut_Rank = None, ut_ClearRank = False, ut_ClearPriority = False,
     ut_AssigneeID = None, ut_ClearAssignee = False, ut_ParentTaskID = None, ut_ClearParent = False,
     ut_AcceptanceCriteria = None, ut_ClearAcceptance = False, ut_RemoteData = None,
     ut_Version = ''1'', ut_StartDate = None, ut_ClearStartDate = False, ut_DueDate = None,
     ut_ClearDueDate = False, ut_AddLabels = [], ut_RemoveLabels = [], ut_AddBlocks = [],
     ut_AddBlockedBy = [], ut_RemoveRelationships = [], ut_Repo = None, ut_Branch = None,
     ut_ClearRepo = False, ut_ClearBranch = False, ut_AddPullRequests = [], ut_CIStatus = None,
     ut_ClearCIStatus = False, ut_Reason = None\<rparr>"

lemma task_fields_named: "\<forall>c\<in>set (task_fields a b). fst c \<noteq> []"
  by (simp add: task_fields_def)

lemma update_succeeds:
  assumes "db_ok d1" and "get_task i d0 = Some old" and "get_task i d1 = Some t"
    and "validate_update e p old = Inr ()" and "update_values_ok p"
    and "t_version t = (if ut_Version p \<noteq> [] then ut_Version p else t_version old)"
    and "set_option (t_parent (update_row p old t)) \<subseteq> task_ids d1"
    and "ut_AddBlocks p = []" and "ut_AddBlockedBy p = []" and "ut_RemoveRelationships p = []"
    and "inj (uuid_at e)" and "\<forall>n\<ge>d_next d1. uuid_at e n \<notin> ch_id ` set (d_changes d1)"
  shows "\<exists>et d'. doUpdateTask e i p actor d0 d1 = Inr (et, d')"
proof -
  have guard: "update_guard p old i s \<longleftrightarrow> s = t" if "s \<in> set (d_tasks d1)" for s
    using task_row_unique [OF assms(1) that] get_task_Some [OF assms(3)] assms(6)
    by (auto simp: update_guard_def)
  then obtain n d2 where u: "update_tasks e (update_values_ok p) (update_guard p old i)
      (update_row p old) d1 = Inr (n, d2)"
    using assms(5,7) by (auto simp: update_tasks_Inr)
  have n: "n = 1"
    using update_tasks_hit [OF u assms(1), of i] assms(3,6) get_task_id [OF assms(3)]
    by (simp add: update_guard_def)
  obtain upd where upd: "get_task i d2 = Some upd" using get_task_update [OF u, of i] assms(3) by simp
  have fresh: "inj (uuid_at e)" "\<forall>n\<ge>d_next d2. uuid_at e n \<notin> ch_id ` set (d_changes d2)"
    using assms(11,12) u by (auto simp: update_tasks_Inr)
  have "\<exists>d'. foldE (create_change e i actor) d cs = Inr d'"
    if "i \<in> task_ids d" and "\<forall>n\<ge>d_next d. uuid_at e n \<notin> ch_id ` set (d_changes d)"
      and "\<forall>c\<in>set cs. fst c \<noteq> []" for d cs
    using that
  proof (induction cs arbitrary: d)
    case (Cons c cs)
    let ?r = "\<lparr>ch_id = fresh_uuid e d, ch_task = i, ch_author = actor, ch_field = fst c,
      ch_old = fst (snd c), ch_new = snd (snd c), ch_created = now e\<rparr>"
    let ?d = "(drawn d)\<lparr>d_changes := d_changes d @ [?r]\<rparr>"
    have "create_change e i actor d c = Inr ?d"
      using Cons.prems by (auto simp: create_change_def insert_change_def list_ex_key drawn_def fresh_uuid_def)
    moreover have "\<forall>n\<ge>d_next ?d. uuid_at e n \<notin> ch_id ` set (d_changes ?d)"
      using Cons.prems(2) fresh(1) by (auto simp: drawn_def fresh_uuid_def dest: injD)
    ultimately show ?case using Cons.IH [of ?d] Cons.prems by (simp add: drawn_def)
  qed simp
  moreover have "\<forall>c\<in>set (diffTask old upd). fst c \<noteq> []"
    using task_fields_named [of old upd] by (auto simp: diffTask_def)
  ultimately obtain d' where d': "foldE (create_change e i actor) d2 (diffTask old upd) = Inr d'"
    using fresh(2) get_task_ids [OF upd] by blast
  then have "getTaskWithEdges i d' = Inr (with_edges d' upd)"
    using upd get_task_cong [of d' d2] create_changes_keep [OF d'] by (simp add: getTaskWithEdges_Inr)
  then show ?thesis
    using assms(2,4,8-10) u n upd d' by (simp add: doUpdateTask_def)
qed

lemma ex_update_valid: "validate_update ex_env ex_update ex10 = Inr ()"
  by (simp add: validate_update_def validateTaskStateForWrite_def target_hold_def
      drops_deferral_def set_or_clear_def ex_update_def)

lemma ex_update_runs: "\<exists>et d'. doUpdateTask ex_env 10 ex_update 7 ex_db ex_db = Inr (et, d')"
proof (rule update_succeeds [OF ex_db_ok ex_get10 ex_get10])
  show "inj (uuid_at ex_env)" by (simp add: ex_env_def)
  show "validate_update ex_env ex_update ex10 = Inr ()" by (rule ex_update_valid)
qed (simp_all add: ex_update_def update_values_ok_def update_row_def set_or_clear_def ex_db_def)

theorem doUpdateTask_writes_witness:
  "\<exists>et d'. doUpdateTask ex_env 10 ex_update 7 ex_db ex_db = Inr (et, d')
    \<and> t_title (e_task et) = ''b'' \<and> t_version (e_task et) \<noteq> ''1''"
proof -
  obtain et d' where run: "doUpdateTask ex_env 10 ex_update 7 ex_db ex_db = Inr (et, d')"
    using ex_update_runs by blast
  obtain old t where t: "get_task 10 ex_db = Some t" and v: "t_version (e_task et) \<noteq> t_version t"
    and et: "e_task et = (update_row ex_update old t)\<lparr>t_updated := now ex_env\<rparr>"
    using doUpdateTask_writes [OF run ex_db_ok] by blast
  have "t_title (update_row ex_update old t) = ''b''"
    by (simp add: update_row_def set_if_def ex_update_def)
  then have "t_title (e_task et) = ''b''" by (simp add: et)
  moreover have "t = ex10" using t ex_get10 by simp
  ultimately show ?thesis using run v by auto
qed

lemma stale_update_fails:
  assumes "db_ok d1" and "get_task i d1 = Some t" and "get_task i d0 = Some old"
    and "t_version t \<noteq> (if ut_Version p \<noteq> [] then ut_Version p else t_version old)"
    and "validate_update e p old = Inr ()" and "update_values_ok p"
  shows "doUpdateTask e i p actor d0 d1 = Inl ErrConflict"
proof -
  have none: "\<not> update_guard p old i s" if "s \<in> set (d_tasks d1)" for s
    using task_row_unique [OF assms(1) that] get_task_Some [OF assms(2)] assms(4)
    by (auto simp: update_guard_def)
  then have "filter (update_guard p old i) (d_tasks d1) = []" by (simp add: filter_empty_conv)
  then have "update_tasks e (update_values_ok p) (update_guard p old i) (update_row p old) d1
      = Inr (0, d1\<lparr>d_tasks := map (\<lambda>t. t) (d_tasks d1)\<rparr>)"
    using none assms(6) by (simp add: update_tasks_Inr cong: map_cong)
  then show ?thesis
    using assms(2,3,5) get_task_ids [OF assms(2)] by (simp add: doUpdateTask_def task_ids_def)
qed

text \<open>
  C9. No lost update: when two updates carry the same version token and the first has
  written, the second one writes nothing and reports a version conflict, whatever database
  it had read (one in which the task exists and its values pass the validation).
\<close>

theorem same_token_conflict:
  assumes "doUpdateTask e i p a d0 d1 = Inr (et, d2)" and "db_ok d1"
    and "ut_Version p \<noteq> []" and "ut_Version q = ut_Version p"
    and "get_task i dr = Some old" and "validate_update e' q old = Inr ()" and "update_values_ok q"
  shows "UpdateTask e' i q a' (dr, d2) later = Inl ErrConflict"
proof -
  obtain t where "get_task i d2 = Some t" "t_version t \<noteq> ut_Version p"
    using assms(1,2)
  proof (rule doUpdateTask_effect)
    fix old t
    assume "get_task i d2 = Some ((update_row p old t)\<lparr>t_updated := now e\<rparr>)"
    then show thesis using assms(3) by (intro that) (auto simp: update_version_def)
  qed
  moreover have "db_ok d2" using integrity.R_doUpdateTask [OF assms(1)] assms(2) by blast
  ultimately have "doUpdateTask e' i q a' dr d2 = Inl ErrConflict"
    using assms(3-7) by (intro stale_update_fails) simp_all
  then show ?thesis using assms(3,4) by (simp add: UpdateTask_def)
qed

theorem same_token_conflict_witness:
  "\<exists>et d2. doUpdateTask ex_env 10 ex_update 7 ex_db ex_db = Inr (et, d2)
    \<and> UpdateTask ex_env 10 ex_update 8 (ex_db, d2) (ex_db, ex_db) = Inl ErrConflict"
proof -
  obtain et d2 where run: "doUpdateTask ex_env 10 ex_update 7 ex_db ex_db = Inr (et, d2)"
    using ex_update_runs by blast
  have "UpdateTask ex_env 10 ex_update 8 (ex_db, d2) (ex_db, ex_db) = Inl ErrConflict"
    by (rule same_token_conflict [OF run ex_db_ok _ refl ex_get10])
      (simp_all add: ex_update_valid, simp_all add: ex_update_def update_values_ok_def)
  then show ?thesis using run by blast
qed

lemma serial_guard: "ut_Version p = [] \<Longrightarrow> t_version old = (if ut_Version p \<noteq> [] then ut_Version p else t_version old)"
  by simp

lemma doUpdateTask_no_conflict:
  assumes "db_ok d" and "ut_Version p = []"
  shows "doUpdateTask e i p a d d \<noteq> Inl ErrConflict"
proof
  assume c: "doUpdateTask e i p a d d = Inl ErrConflict"
  have rels: "foldE (add_rel e ty i) s ts \<noteq> Inl ErrConflict" for ty s ts
    by (induction ts arbitrary: s)
      (auto simp: thenE_Inl add_rel_def insert_rel_def split: if_splits)
  have logs: "foldE (create_change e i a) s cs \<noteq> Inl ErrConflict" for s cs
    by (induction cs arbitrary: s)
      (auto simp: thenE_Inl create_change_def insert_change_def split: if_splits)
  have val: "validate_update e p t \<noteq> Inl ErrConflict" for t
    by (auto simp: validate_update_def validateTaskStateForWrite_def split: option.splits)
  from c obtain old n d2 where old: "get_task i d = Some old"
    and u: "update_tasks e (update_values_ok p) (update_guard p old i) (update_row p old) d = Inr (n, d2)"
    and n: "n = 0"
    by (auto simp: doUpdateTask_def thenE_Inl thenE_Inr Let_def rels logs val getTaskWithEdges_def
        update_tasks_def split: if_splits prod.splits)
  show False
    using update_tasks_hit [OF u assms(1), of i] old get_task_id [OF old] assms(2) n
    by (simp add: update_guard_def)
qed

text \<open>
  The retry of \<open>UpdateTask\<close>: without a version token the caller never sees a version
  conflict if no other client writes between the read and the write of the second attempt,
  whatever happened during the first.
\<close>

theorem UpdateTask_retry:
  assumes "db_ok d" and "ut_Version p = []"
  shows "UpdateTask e i p a before (d, d) \<noteq> Inl ErrConflict"
  using doUpdateTask_no_conflict [OF assms] assms(2)
  by (auto simp: UpdateTask_def split: sum.splits store_err.splits)

theorem UpdateTask_retry_witness:
  "UpdateTask ex_env 10 (ex_update\<lparr>ut_Version := []\<rparr>) 7 (ex_db, empty_db) (ex_db, ex_db)
     \<noteq> Inl ErrConflict"
  by (rule UpdateTask_retry [OF ex_db_ok]) (simp add: ex_update_def)

section \<open>Closing\<close>


lemma close_attempt_succeeds:
  assumes ok: "db_ok d" and t: "get_task i d = Some t" and open_: "t_phase t \<noteq> PhaseClosed"
    and v: "v = [] \<or> v = t_version t"
  shows "\<exists>et d'. close_attempt e i st v a b (d, d) = Some (Inr (et, d'))"
proof -
  let ?P = "\<lambda>s. t_id s = i \<and> t_version s = (if v \<noteq> [] then v else t_version t)"
  have "set_option (t_parent (close_row e st t s)) \<subseteq> task_ids d" if "s \<in> set (d_tasks d)" for s
    using that ok by (auto simp: close_row_def db_ok_def tasks_ok_def task_ids_def)
  then obtain n d2 where u: "update_tasks e True ?P (close_row e st t) d = Inr (n, d2)"
    by (auto simp: update_tasks_Inr)
  have n: "n = 1" using update_tasks_hit [OF u ok, of i] t v get_task_id [OF t] by auto
  obtain et where "getTaskWithEdges i d2 = Inr et"
    using get_task_update [OF u, of i] t by (auto simp: getTaskWithEdges_Inr)
  then show ?thesis using t open_ u n by (simp add: close_attempt_def)
qed


section \<open>The hold reason\<close>

text \<open>A held task is in one of the five active stages: what the writes validate.\<close>

definition active_stage :: "stage \<Rightarrow> bool" where
  "active_stage s \<longleftrightarrow> s \<in> {StageAccepted, StageWorking, StageInReview, StageInQa, StageDeploying}"

definition hold_ok :: "task \<Rightarrow> bool" where
  "hold_ok t \<longleftrightarrow> (t_hold t \<noteq> None \<longrightarrow> active_stage (t_stage t))"

lemma validate_hold:
  "validateTaskStateForWrite tn st h sd c = Inr u \<Longrightarrow> h \<noteq> None \<longrightarrow> active_stage st"
  by (auto simp: validateTaskStateForWrite_def active_stage_def split: option.splits if_splits)

text \<open>
  The writes that validate keep held tasks in an active stage: a task created or updated
  has a hold reason only in an accepted, working, in-review, in-QA or deploying stage, and a
  claimed one has none.
\<close>

theorem writes_keep_hold:
  assumes "db_ok d"
  shows "(CreateTask e cp d = Inr (et, d') \<longrightarrow> hold_ok (e_task et))
    \<and> (doUpdateTask e i up actor d d = Inr (et, d') \<longrightarrow> hold_ok (e_task et))
    \<and> (ClaimTask_serial e i a v d = Inr (et, d') \<longrightarrow> t_hold (e_task et) = None)"
proof (intro conjI impI)
  assume run: "CreateTask e cp d = Inr (et, d')"
  let ?i = "fresh_uuid e d"
  from run obtain d1 d2 where val: "validateTaskStateForWrite (now e) (ct_Stage cp) (ct_HoldReason cp)
      (ct_StartDate cp) False = Inr ()" and ins: "insert_task (new_task e ?i cp) (drawn d) = Inr d1"
    and b: "foldE (add_rel e TypeBlocks ?i) d1 (ct_BlocksTaskIDs cp) = Inr d2"
      "foldE (add_rel e TypeBlockedBy ?i) d2 (ct_BlockedByTaskIDs cp) = Inr d'"
    and et: "getTaskWithEdges ?i d' = Inr et"
    by (auto simp: CreateTask_def Let_def thenE_Inr)
  have tasks: "d_tasks d' = d_tasks d @ [new_task e ?i cp]"
    using tasks_add_rels [OF b(1)] tasks_add_rels [OF b(2)] ins
    by (auto simp: insert_task_def drawn_def split: if_splits)
  moreover have new: "?i \<notin> task_ids d"
    using ins by (simp add: insert_task_def drawn_def split: if_splits)
  ultimately have "get_task ?i d' = Some (new_task e ?i cp)" by (intro get_task_append) simp_all
  then show "hold_ok (e_task et)"
    using et validate_hold [OF val] by (auto simp: getTaskWithEdges_Inr hold_ok_def new_task_def)
next
  assume run: "doUpdateTask e i up actor d d = Inr (et, d')"
  from run assms show "hold_ok (e_task et)"
  proof (rule doUpdateTask_effect)
    fix old t
    assume t: "get_task i d = Some old" "get_task i d = Some t"
      and val: "validate_update e up old = Inr ()"
      and et: "et = with_edges d' ((update_row up old t)\<lparr>t_updated := now e\<rparr>)"
    have "t_hold (update_row up old t) = target_hold up old"
      "t_stage (update_row up old t) = set_if (ut_Stage up) (t_stage old)"
      using t by (simp_all add: update_row_def target_hold_def)
    then show ?thesis
      using validate_hold [OF val [unfolded validate_update_def]] by (simp add: et hold_ok_def)
  qed
next
  assume "ClaimTask_serial e i a v d = Inr (et, d')"
  then obtain b where "claim_attempt e i a v b (d, d, d) = Some (Inr (et, d'))"
    by (auto simp: ClaimTask_serial_def ClaimTask_def split: option.splits)
  then show "t_hold (e_task et) = None"
    using assms by (rule claim_attempt_effect) (simp add: claim_row_def)
qed

theorem writes_keep_hold_witness:
  "\<exists>et d'. doUpdateTask ex_env 10 ex_update 7 ex_db ex_db = Inr (et, d') \<and> hold_ok (e_task et)"
  using writes_keep_hold [OF ex_db_ok, where e = ex_env and i = 10 and up = ex_update and actor = 7]
    ex_update_runs by blast

text \<open>
  Closing is the exception: it leaves the hold reason in place, and from then on an
  update that does not clear the hold reason or move the task to an active stage is refused
  as an invalid argument, even one that only edits the title.
\<close>

theorem closed_task_keeps_hold:
  assumes "db_ok d" and "get_task i d = Some t" and "t_hold t = Some h"
    and "CloseTask_serial e i st v a d = Inr (et, d')"
    and "ut_Stage p = None" and "\<not> ut_ClearHoldReason p" and "ut_StartDate p = None"
  shows "t_hold (e_task et) = Some h \<and> \<not> hold_ok (e_task et)
    \<and> UpdateTask_serial e' i p a' d' = Inl ErrInvalidArgument"
proof -
  have term_iff: "st \<in> {StageCompleted, StageWontFix, StageDuplicate, StageCancelled} \<longleftrightarrow> IsTerminalStage st"
    by (cases st) (simp_all add: IsTerminalStage_def)
  from assms(4) obtain b where run: "close_attempt e i st v a b (d, d) = Some (Inr (et, d'))"
    and st: "IsTerminalStage st"
    unfolding CloseTask_serial_def CloseTask_def term_iff by (auto split: if_splits option.splits)
  have et: "get_task i d' = Some (e_task et) \<and> t_hold (e_task et) = Some h \<and> t_stage (e_task et) = st"
    using run assms(1)
  proof (rule close_attempt_effect)
    fix old s
    assume "get_task i d = Some s" "get_task i d' = Some ((close_row e st old s)\<lparr>t_updated := now e\<rparr>)"
      "et = with_edges d' ((close_row e st old s)\<lparr>t_updated := now e\<rparr>)"
    then show ?thesis using assms(2,3) by (simp add: close_row_def)
  qed
  have inactive: "\<not> active_stage st" using st by (cases st) (simp_all add: active_stage_def IsTerminalStage_def)
  have "validate_update e' p (e_task et) = Inl ErrInvalidArgument"
    using et inactive assms(5-7)
    by (auto simp: validate_update_def validateTaskStateForWrite_def target_hold_def
        drops_deferral_def set_or_clear_def set_if_def active_stage_def split: option.splits)
  then have "doUpdateTask e' i p a' d' d' = Inl ErrInvalidArgument"
    using et by (simp add: doUpdateTask_def)
  then show ?thesis
    using et inactive by (simp add: UpdateTask_serial_def UpdateTask_def hold_ok_def)
qed

definition ex_held_db :: db where
  "ex_held_db = ex_db\<lparr>d_tasks := map (\<lambda>t. if t_id t = 10 then t\<lparr>t_hold := Some HoldReasonDeferred\<rparr> else t)
     (d_tasks ex_db)\<rparr>"

lemma ex_held_db_ok: "db_ok ex_held_db"
proof -
  have keys: "map t_id (d_tasks ex_held_db) = map t_id (d_tasks ex_db)"
    unfolding ex_held_db_def by (simp add: ex_db_def)
  then have "t_id ` set (d_tasks ex_held_db) = task_ids ex_db"
    unfolding task_ids_def set_map [symmetric] by simp
  moreover have "tasks_ok (coll_ids ex_db) (d_tasks ex_held_db)"
    unfolding tasks_ok_def keys by (simp add: ex_held_db_def ex_db_def coll_ids_def ex_coll_def)
  ultimately have "db_ok (ex_db\<lparr>d_tasks := d_tasks ex_held_db\<rparr>)"
    by (intro db_ok_tasks_grow [OF ex_db_ok]) simp_all
  then show ?thesis by (simp add: ex_held_db_def)
qed

theorem closed_task_keeps_hold_witness:
  "\<exists>et d'. CloseTask_serial ex_env 10 StageCompleted [] 7 ex_held_db = Inr (et, d')
    \<and> UpdateTask_serial ex_env 10 ex_update 7 d' = Inl ErrInvalidArgument"
proof -
  have t: "get_task 10 ex_held_db = Some (ex10\<lparr>t_hold := Some HoldReasonDeferred\<rparr>)"
    by (simp add: get_task_def ex_held_db_def ex_db_def)
  obtain et d' where "close_attempt ex_env 10 StageCompleted [] 7 True (ex_held_db, ex_held_db)
      = Some (Inr (et, d'))"
    using close_attempt_succeeds [OF ex_held_db_ok t] by fastforce
  then have run: "CloseTask_serial ex_env 10 StageCompleted [] 7 ex_held_db = Inr (et, d')"
    by (simp add: CloseTask_serial_def CloseTask_def)
  have "UpdateTask_serial ex_env 10 ex_update 7 d' = Inl ErrInvalidArgument"
    using closed_task_keeps_hold [OF ex_held_db_ok t _ run, where p = ex_update and e' = ex_env and a' = 7]
    by (simp add: ex_update_def)
  then show ?thesis using run by blast
qed

section \<open>The change log\<close>

lemma mergeLabels_props:
  "set (mergeLabels current add rem) = (set current \<union> set add) - set rem"
  "sorted (mergeLabels current add rem)" "distinct (mergeLabels current add rem)"
  by (auto simp: mergeLabels_def)

lemma render_opt_enum:
  "render_opt (RStr \<circ> priority_str) x = render_opt (RStr \<circ> priority_str) y \<longleftrightarrow> x = y"
  "render_opt (RStr \<circ> ci_status_str) c = render_opt (RStr \<circ> ci_status_str) c' \<longleftrightarrow> c = c'"
  by (auto simp: render_opt_def enum_str_nonempty [symmetric] split: option.splits)

lemma render_opt_uuid: "render_opt RUuid a = render_opt RUuid b \<longleftrightarrow> a = b"
  by (auto simp: render_opt_def split: option.splits)

definition seconds :: "time option \<Rightarrow> int option" where
  "seconds t = map_option (\<lambda>x. x div one_second) t"

lemma render_opt_time: "render_opt render_time a = render_opt render_time b \<longleftrightarrow> seconds a = seconds b"
  by (auto simp: render_opt_def render_time_def seconds_def split: option.splits)

definition text_of :: "string option \<Rightarrow> string" where
  "text_of s = (case s of None \<Rightarrow> [] | Some x \<Rightarrow> x)"

lemma render_opt_text: "render_opt RStr a = render_opt RStr b \<longleftrightarrow> text_of a = text_of b"
  by (auto simp: render_opt_def text_of_def split: option.splits)

lemma sort_eq_iff: "sort xs = sort ys \<longleftrightarrow> mset xs = mset ys"
  by (metis mset_sort properties_for_sort sorted_sort)

lemma canonical_labels_eq: "canonical_labels a = canonical_labels b \<longleftrightarrow> mset a = mset b"
  by (auto simp: canonical_labels_def sort_eq_iff)

lemma canonical_prs_eq: "canonical_prs a = canonical_prs b
    \<longleftrightarrow> mset (map (sort_key fst) a) = mset (map (sort_key fst) b)"
  by (auto simp: canonical_prs_def sort_eq_iff)

text \<open>
  The change log records what changed: \<open>diffTask\<close> is empty exactly when no tracked field
  differs (instants to the second, label and pull request lists up to order, a missing
  acceptance text being the empty one), and otherwise has one entry per field that differs,
  each with two different values.
\<close>

theorem diffTask_records:
  assumes "normal_stage (t_stage a)" and "normal_stage (t_stage b)"
  shows "(diffTask a b = [] \<longleftrightarrow>
      t_title a = t_title b \<and> t_description a = t_description b \<and> t_phase a = t_phase b
      \<and> t_stage a = t_stage b \<and> t_native_label a = t_native_label b \<and> t_type a = t_type b
      \<and> t_priority a = t_priority b \<and> t_assignee a = t_assignee b \<and> t_parent a = t_parent b
      \<and> seconds (t_start a) = seconds (t_start b) \<and> seconds (t_due a) = seconds (t_due b)
      \<and> seconds (t_closed a) = seconds (t_closed b)
      \<and> text_of (t_acceptance a) = text_of (t_acceptance b) \<and> mset (t_labels a) = mset (t_labels b)
      \<and> mset (map (sort_key fst) (t_prs a)) = mset (map (sort_key fst) (t_prs b))
      \<and> t_repo a = t_repo b \<and> t_branch a = t_branch b \<and> t_ci a = t_ci b)
    \<and> distinct (map fst (diffTask a b))
    \<and> (\<forall>(f, x, y) \<in> set (diffTask a b). f \<noteq> [] \<and> x \<noteq> y)"
proof (intro conjI)
  show "diffTask a b = [] \<longleftrightarrow>
      t_title a = t_title b \<and> t_description a = t_description b \<and> t_phase a = t_phase b
      \<and> t_stage a = t_stage b \<and> t_native_label a = t_native_label b \<and> t_type a = t_type b
      \<and> t_priority a = t_priority b \<and> t_assignee a = t_assignee b \<and> t_parent a = t_parent b
      \<and> seconds (t_start a) = seconds (t_start b) \<and> seconds (t_due a) = seconds (t_due b)
      \<and> seconds (t_closed a) = seconds (t_closed b)
      \<and> text_of (t_acceptance a) = text_of (t_acceptance b) \<and> mset (t_labels a) = mset (t_labels b)
      \<and> mset (map (sort_key fst) (t_prs a)) = mset (map (sort_key fst) (t_prs b))
      \<and> t_repo a = t_repo b \<and> t_branch a = t_branch b \<and> t_ci a = t_ci b"
    by (simp add: diffTask_def task_fields_def filter_empty_conv stage_str_inj [OF assms]
        render_opt_enum render_opt_uuid render_opt_time render_opt_text canonical_labels_eq
        canonical_prs_eq)
  have "distinct (map fst (task_fields a b))" by (simp add: task_fields_def)
  then show "distinct (map fst (diffTask a b))" unfolding diffTask_def by (rule distinct_map_filter_key)
  show "\<forall>(f, x, y) \<in> set (diffTask a b). f \<noteq> [] \<and> x \<noteq> y"
    using task_fields_named [of a b] by (auto simp: diffTask_def)
qed

theorem diffTask_records_witness:
  "diffTask ex10 (ex10\<lparr>t_title := ''b''\<rparr>) \<noteq> []
    \<and> distinct (map fst (diffTask ex10 (ex10\<lparr>t_title := ''b''\<rparr>)))"
  using diffTask_records [of ex10 "ex10\<lparr>t_title := ''b''\<rparr>"]
  by (simp add: declared_normal declared_stage_def)

section \<open>Inserting tasks\<close>

definition blocks :: "db \<Rightarrow> (uuid \<times> uuid) set" where
  "blocks d = {(s, t). (s, t, TypeBlocks) \<in> rel_key ` set (d_rels d)}"

lemma blocks_iff:
  "(s, t) \<in> blocks d \<longleftrightarrow> (\<exists>r\<in>set (d_rels d). r_src r = s \<and> r_tgt r = t \<and> r_type r = TypeBlocks)"
  by (simp add: blocks_def rel_key_mem)

lemma blocks_add_rel: "add_rel e TypeBlocks src d tgt = Inr d' \<Longrightarrow> blocks d' = insert (src, tgt) (blocks d)"
proof (cases "rel_exists src tgt TypeBlocks d")
  case True
  moreover assume "add_rel e TypeBlocks src d tgt = Inr d'"
  ultimately show ?thesis by (auto simp: add_rel_def blocks_def rel_exists_iff)
next
  case False
  moreover assume "add_rel e TypeBlocks src d tgt = Inr d'"
  ultimately have "d_rels d' = d_rels d @ [\<lparr>r_id = fresh_uuid e d, r_src = src, r_tgt = tgt,
      r_type = TypeBlocks\<rparr>]"
    by (auto simp: add_rel_def insert_rel_def drawn_def split: if_splits)
  then show ?thesis by (auto simp: blocks_def rel_key_def)
qed

lemma blocks_chain:
  "foldE (createBlocksRelationship e) d sts = Inr d' \<Longrightarrow> blocks d' = blocks d \<union> set sts"
proof (induction sts arbitrary: d)
  case (Cons st sts)
  obtain d1 where "createBlocksRelationship e d st = Inr d1"
    and "foldE (createBlocksRelationship e) d1 sts = Inr d'"
    using Cons.prems by (auto simp: thenE_Inr)
  then have "blocks d' = blocks d1 \<union> set sts" and "add_rel e TypeBlocks (fst st) d (snd st) = Inr d1"
    using Cons.IH [of d1] unfolding createBlocksRelationship_def by simp_all
  then show ?case using blocks_add_rel [of e "fst st" d "snd st" d1] by simp
qed simp

lemma insert_steps_effect:
  assumes "foldE (insert_step e coll) (d, ids0) ps = Inr (d', ids)"
  obtains new where "ids = ids0 @ new" "length new = length ps" "distinct new"
    "set new \<inter> task_ids d = {}" "d_rels d' = d_rels d" "task_ids d' = task_ids d \<union> set new"
  using assms
proof (induction ps arbitrary: d ids0 thesis)
  case Nil
  then show ?case by (auto intro: Nil.prems(1) [of "[]"])
next
  case (Cons p ps)
  let ?i = "fresh_uuid e d"
  from Cons.prems(2) obtain d1 where ins: "insert_task (step_task e ?i coll p) (drawn d) = Inr d1"
    and rest: "foldE (insert_step e coll) (d1, ids0 @ [?i]) ps = Inr (d', ids)"
    by (fastforce simp: thenE_Inr insert_step_def [of e coll "(d, ids0)" p] Let_def)
  have d1: "?i \<notin> task_ids d" "d_rels d1 = d_rels d" "task_ids d1 = insert ?i (task_ids d)"
    using ins by (auto simp: insert_task_def step_task_def drawn_def task_ids_def split: if_splits)
  show ?case
  proof (rule Cons.IH [OF _ rest])
    fix new
    assume n: "ids = (ids0 @ [?i]) @ new" "length new = length ps" "distinct new"
      "set new \<inter> task_ids d1 = {}" "d_rels d' = d_rels d1" "task_ids d' = task_ids d1 \<union> set new"
    show thesis by (rule Cons.prems(1) [of "?i # new"]) (use n d1 in auto)
  qed
qed

lemma mapE_getTask_ids: "mapE (\<lambda>i. getTaskWithEdges i d) ids = Inr ets \<Longrightarrow> map (\<lambda>et. t_id (e_task et)) ets = ids"
  by (induction ids arbitrary: ets) (auto simp: thenE_Inr getTaskWithEdges_Inr dest: get_task_id)

lemma splice_sets:
  assumes "l \<noteq> a" and "Z \<inter> {a} \<times> {t. (a, t) \<in> B} = {}"
  shows "(B \<union> Z \<union> {l} \<times> {t. (a, t) \<in> B}) - {a} \<times> {t. (a, t) \<in> B}
    = (B - {a} \<times> UNIV) \<union> Z \<union> {l} \<times> {t. (a, t) \<in> B}"
proof -
  have "B - {a} \<times> {t. (a, t) \<in> B} = B - {a} \<times> UNIV" by auto
  moreover have "Z - {a} \<times> {t. (a, t) \<in> B} = Z" using assms(2) by auto
  ultimately show ?thesis using assms(1) by auto
qed

lemma zip_chain: "zip (butlast (a # ids)) (tl (a # ids)) = zip (a # butlast ids) ids"
  by (cases ids rule: rev_cases) (simp_all add: butlast_append)

text \<open>
  C15. \<open>InsertTasksAfter\<close> splices the new tasks in as a chain: it creates one new task per step,
  the anchor blocks the first, each new task the next and the last one everything the anchor
  blocked before, while the anchor itself keeps only the first; no other \<open>blocks\<close> row
  changes. The anchor's version changes.
\<close>

theorem InsertTasksAfter_splices:
  assumes "db_ok d" and "InsertTasksAfter e p d = Inr (r, d')"
    and "ids = map (\<lambda>et. t_id (e_task et)) (ir_InsertedTasks r)" and "a = it_AnchorTaskID p"
  shows "length ids = length (it_Steps p) \<and> ids \<noteq> [] \<and> distinct ids \<and> set ids \<inter> task_ids d = {}
    \<and> blocks d' = (blocks d - {a} \<times> UNIV) \<union> set (zip (a # butlast ids) ids)
        \<union> {last ids} \<times> {t. (a, t) \<in> blocks d}
    \<and> map_option t_version (get_task a d') \<noteq> map_option t_version (get_task a d)"
  using assms(2)
proof (rule InsertTasksAfter_run)
  fix anchor d1 ids' d2 d3
  let ?a = "it_AnchorTaskID p"
  let ?down = "map r_tgt (filter (\<lambda>r. r_src r = ?a \<and> r_type r = TypeBlocks) (d_rels d))"
  assume ne: "it_Steps p \<noteq> []"
    and anchor: "find (\<lambda>t. t_id t = ?a \<and> t_collection t = it_CollectionID p) (d_tasks d) = Some anchor"
    and st: "foldE (insert_step e (it_CollectionID p)) (d, []) (it_Steps p) = Inr (d1, ids')"
    and ch: "foldE (createBlocksRelationship e) d1 (zip (butlast (?a # ids')) (tl (?a # ids'))) = Inr d2"
      "foldE (createBlocksRelationship e) d2 (map (\<lambda>t. (last ids', t)) ?down) = Inr d3"
    and up: "\<exists>n. update_tasks e True (\<lambda>t. t_id t = ?a)
       (\<lambda>t. t\<lparr>t_version := next_version (t_version anchor)\<rparr>)
       (let down = ?down in if down = [] then d3 else delete_rels (\<lambda>r. r_src r = ?a
             \<and> List.member down (r_tgt r) \<and> r_type r = TypeBlocks) d3) = Inr (n, d')"
    and got: "mapE (\<lambda>i. getTaskWithEdges i d') ids' = Inr (ir_InsertedTasks r)"
      "getTaskWithEdges ?a d' = Inr (ir_AnchorTask r)"
  let ?d4 = "if ?down = [] then d3 else delete_rels (\<lambda>r. r_src r = ?a
             \<and> List.member ?down (r_tgt r) \<and> r_type r = TypeBlocks) d3"
  have ids: "ids = ids'" using mapE_getTask_ids [OF got(1)] assms(3) by simp
  obtain new where new: "ids' = [] @ new" "length new = length (it_Steps p)" "distinct new"
    "set new \<inter> task_ids d = {}" "d_rels d1 = d_rels d" using st by (rule insert_steps_effect) blast
  have down: "set ?down = {t. (?a, t) \<in> blocks d}"
    by (auto simp: blocks_def rel_key_mem)
  have fresh: "set ids \<inter> set ?down = {}"
    using assms(1) new by (auto simp: ids db_ok_def rels_ok_def)
  have b3: "blocks d3 = blocks d \<union> set (zip (?a # butlast ids) ids) \<union> {last ids} \<times> set ?down"
    using blocks_chain [OF ch(1)] blocks_chain [OF ch(2)] new(5)
    by (auto simp: blocks_def zip_chain ids)
  have b4: "blocks ?d4 = blocks d3 - {?a} \<times> set ?down"
  proof (cases "?down = []")
    case False
    then show ?thesis by (auto simp: delete_rels_def blocks_iff)
  qed (simp only: if_P list.set Sigma_empty2 Diff_empty if_True)
  from up obtain n where u: "update_tasks e True (\<lambda>t. t_id t = ?a)
       (\<lambda>t. t\<lparr>t_version := next_version (t_version anchor)\<rparr>) ?d4 = Inr (n, d')"
    by (auto simp: Let_def)
  have "blocks d' = blocks ?d4" using update_tasks_keeps [OF u] by (simp add: blocks_def)
  moreover have "last ids \<noteq> ?a"
  proof -
    have "?a \<in> task_ids d"
      using find_Some_mem [OF anchor] unfolding task_ids_def by force
    moreover have "last ids \<in> set new" using new ne by (simp add: ids) (metis last_in_set length_0_conv)
    ultimately show ?thesis using new(4) by auto
  qed
  moreover have "set (zip (?a # butlast ids) ids) \<inter> {?a} \<times> set ?down = {}"
    using fresh by (auto dest: set_zip_rightD)
  ultimately have "blocks d' = (blocks d - {?a} \<times> UNIV) \<union> set (zip (?a # butlast ids) ids)
        \<union> {last ids} \<times> {t. (?a, t) \<in> blocks d}"
    unfolding b3 b4 down by (metis splice_sets)
  moreover have "map_option t_version (get_task ?a d') \<noteq> map_option t_version (get_task ?a d)"
  proof -
    have "anchor \<in> set (d_tasks d)" "t_id anchor = ?a" using find_Some_mem [OF anchor] by auto
    then have "get_task ?a d = Some anchor" using get_task_iff [OF assms(1)] by simp
    moreover have "map_option t_version (get_task ?a d') = Some (next_version (t_version anchor))"
      using got(2) get_task_update [OF u, of ?a] get_task_id
      by (fastforce simp: getTaskWithEdges_Inr split: option.splits)
    ultimately show ?thesis by auto
  qed
  ultimately show ?thesis using new ne by (auto simp: ids assms(4))
qed

definition ex_step :: CreateTaskParams where
  "ex_step = \<lparr>ct_Title = ''s'', ct_Description = [], ct_CollectionID = 1, ct_Phase = PhaseOpen,
     ct_Stage = StageAccepted, ct_HoldReason = None, ct_NativeLabel = [], ct_Type = [],
     ct_Priority = None, ct_Rank = None, ct_AssigneeID = None, ct_ParentTaskID = None,
     ct_AcceptanceCriteria = None, ct_RemoteData = None, ct_Labels = [], ct_StartDate = None,
     ct_DueDate = None, ct_BlocksTaskIDs = [], ct_BlockedByTaskIDs = [], ct_Repo = [],
     ct_Branch = []\<rparr>"

definition ex_insert :: InsertTasksAfterParams where
  "ex_insert = \<lparr>it_AnchorTaskID = 10, it_Steps = [ex_step, ex_step], it_CollectionID = 1,
     it_ActorID = 7, it_Reason = []\<rparr>"

lemma ex_insert_runs: "\<exists>r d'. InsertTasksAfter ex_env ex_insert ex_db = Inr (r, d')"
  by (simp add: InsertTasksAfter_def ex_insert_def ex_step_def ex_defs insert_step_def step_task_def
      insert_task_def task_exists_def coll_exists_def drawn_def fresh_uuid_def declared_stage_def
      createBlocksRelationship_def add_rel_def insert_rel_def rel_exists_def delete_rels_def
      update_tasks_def task_row_ok_def getTaskWithEdges_def get_task_def Let_def
      del: exists_iff)

theorem InsertTasksAfter_splices_witness:
  "\<exists>r d'. InsertTasksAfter ex_env ex_insert ex_db = Inr (r, d')
    \<and> length (ir_InsertedTasks r) = 2"
proof -
  obtain r d' where run: "InsertTasksAfter ex_env ex_insert ex_db = Inr (r, d')"
    using ex_insert_runs by blast
  show ?thesis
    using InsertTasksAfter_splices [OF ex_db_ok run refl refl] run by (auto simp: ex_insert_def)
qed

end
