(* ===== verification/FT_Crypto.thy ===== *)
theory FT_Crypto
  imports FT_Model
begin

text \<open>
  Credential encryption (\<open>internal/store/crypto.go\<close>): the prefix that marks an encrypted value
  and the layout of the ciphertext, base64 of the nonce followed by the sealed text. The
  AES-256-GCM operations are an argument (\<open>gcm\<close>); what the code relies on is that opening
  what was sealed under the same nonce gives the text back. Base64 is the standard alphabet
  with padding; decoding skips line breaks, as Go's does.
\<close>

section \<open>Base64\<close>

definition b64_alphabet :: string where
  "b64_alphabet = ''ABCDEFGHIJKLMNOPQRSTUVWXYZabcdefghijklmnopqrstuvwxyz0123456789+/''"

definition b64_char :: "nat \<Rightarrow> char" where
  "b64_char n = b64_alphabet ! n"

fun index_of :: "'a \<Rightarrow> 'a list \<Rightarrow> nat option" where
  "index_of x [] = None"
| "index_of x (y # ys) = (if x = y then Some 0 else map_option Suc (index_of x ys))"

definition b64_val :: "char \<Rightarrow> nat option" where
  "b64_val c = index_of c b64_alphabet"

definition byte :: "char \<Rightarrow> nat" where "byte c = of_char c"
definition chr :: "nat \<Rightarrow> char" where "chr n = char_of n"

definition pad :: char where "pad = CHR ''=''"

fun b64_encode :: "string \<Rightarrow> string" where
  "b64_encode [] = []"
| "b64_encode [a] = [b64_char (byte a div 4), b64_char (byte a mod 4 * 16), pad, pad]"
| "b64_encode [a, b] = [b64_char (byte a div 4), b64_char (byte a mod 4 * 16 + byte b div 16),
     b64_char (byte b mod 16 * 4), pad]"
| "b64_encode (a # b # c # s) =
     [b64_char (byte a div 4), b64_char (byte a mod 4 * 16 + byte b div 16),
      b64_char (byte b mod 16 * 4 + byte c div 64), b64_char (byte c mod 64)] @ b64_encode s"

text \<open>The 8-bit groups of two, three or four 6-bit values.\<close>

definition join2 :: "nat \<Rightarrow> nat \<Rightarrow> char" where "join2 w x = chr (w * 4 + x div 16)"
definition join3 :: "nat \<Rightarrow> nat \<Rightarrow> char" where "join3 x y = chr (x mod 16 * 16 + y div 4)"
definition join4 :: "nat \<Rightarrow> nat \<Rightarrow> char" where "join4 y z = chr (y mod 4 * 64 + z)"

fun b64_groups :: "string \<Rightarrow> string option" where
  "b64_groups [] = Some []"
| "b64_groups (a # b # c # e # s) =
    (case (b64_val a, b64_val b) of
       (Some w, Some x) \<Rightarrow>
         if c = pad then (if e = pad \<and> s = [] then Some [join2 w x] else None)
         else (case b64_val c of None \<Rightarrow> None | Some y \<Rightarrow>
           if e = pad then (if s = [] then Some [join2 w x, join3 x y] else None)
           else (case b64_val e of None \<Rightarrow> None | Some z \<Rightarrow>
             map_option (\<lambda>r. [join2 w x, join3 x y, join4 y z] @ r) (b64_groups s)))
     | _ \<Rightarrow> None)"
| "b64_groups _ = None"

definition b64_decode :: "string \<Rightarrow> string option" where
  "b64_decode s = b64_groups (filter (\<lambda>c. c \<noteq> CHR 0x0A \<and> c \<noteq> CHR 0x0D) s)"

lemma b64_chars_ok: "list_all (\<lambda>n. b64_val (b64_char n) = Some n \<and> b64_char n \<noteq> pad
    \<and> b64_char n \<noteq> CHR 0x0A \<and> b64_char n \<noteq> CHR 0x0D) [0..<64]"
  by code_simp

lemma b64_char_props:
  assumes "n < 64"
  shows "b64_val (b64_char n) = Some n" "b64_char n \<noteq> pad" "b64_char n \<noteq> CHR 0x0A"
    "b64_char n \<noteq> CHR 0x0D"
  using b64_chars_ok assms by (auto simp: list_all_iff)

lemma byte_less [simp]: "byte c < 256"
  unfolding byte_def by (rule nat_of_char_less_256)

lemma chr_byte [simp]: "chr (byte c) = c"
  by (simp add: chr_def byte_def)

lemma six_bits [simp]:
  "byte a div 4 < 64" "byte a mod 4 * 16 < 64" "byte a mod 4 * 16 + byte b div 16 < 64"
  "byte b mod 16 * 4 < 64" "byte b mod 16 * 4 + byte c div 64 < 64" "byte c mod 64 < 64"
proof -
  have "byte a < 256" "byte b < 256" "byte c < 256" by simp_all
  moreover have "byte a mod 4 < 4" "byte b mod 16 < 16" "byte c mod 64 < 64" by simp_all
  ultimately show "byte a div 4 < 64" "byte a mod 4 * 16 < 64"
    "byte a mod 4 * 16 + byte b div 16 < 64" "byte b mod 16 * 4 < 64"
    "byte b mod 16 * 4 + byte c div 64 < 64" "byte c mod 64 < 64"
    by linarith+
qed

lemma joins [simp]:
  "join2 (byte a div 4) (byte a mod 4 * 16) = a"
  "join2 (byte a div 4) (byte a mod 4 * 16 + byte b div 16) = a"
  "join3 (byte a mod 4 * 16 + byte b div 16) (byte b mod 16 * 4) = b"
  "join3 (byte a mod 4 * 16 + byte b div 16) (byte b mod 16 * 4 + byte c div 64) = b"
  "join4 (byte b mod 16 * 4 + byte c div 64) (byte c mod 64) = c"
proof -
  have lt: "byte a < 256" "byte b < 256" "byte c < 256" by simp_all
  have small: "byte b div 16 div 16 = 0" "byte c div 64 div 4 = 0"
    using lt by (simp_all add: div_mult2_eq [symmetric])
  have "byte a div 4 * 4 + byte a mod 4 * 16 div 16 = byte a" by simp
  then show "join2 (byte a div 4) (byte a mod 4 * 16) = a" unfolding join2_def by simp
  have "(byte a mod 4 * 16 + byte b div 16) div 16 = byte a mod 4" using small by simp
  then show "join2 (byte a div 4) (byte a mod 4 * 16 + byte b div 16) = a"
    unfolding join2_def by simp
  have m: "(byte a mod 4 * 16 + byte b div 16) mod 16 = byte b div 16"
    using lt by (simp add: mod_mult_self3 less_mult_imp_div_less)
  have "byte b div 16 * 16 + byte b mod 16 * 4 div 4 = byte b" by simp
  then show "join3 (byte a mod 4 * 16 + byte b div 16) (byte b mod 16 * 4) = b"
    unfolding join3_def m by simp
  have "(byte b mod 16 * 4 + byte c div 64) div 4 = byte b mod 16" using small by simp
  then show "join3 (byte a mod 4 * 16 + byte b div 16) (byte b mod 16 * 4 + byte c div 64) = b"
    unfolding join3_def m by simp
  have "(byte b mod 16 * 4 + byte c div 64) mod 4 = byte c div 64"
    using lt by (simp add: less_mult_imp_div_less)
  then show "join4 (byte b mod 16 * 4 + byte c div 64) (byte c mod 64) = c"
    unfolding join4_def by simp
qed

lemma b64_groups_encode: "b64_groups (b64_encode s) = Some s"
proof (induction s rule: b64_encode.induct)
  case (4 a b c s)
  then show ?case by (simp add: b64_char_props)
qed (simp_all add: b64_char_props)

lemma b64_encode_no_breaks: "filter (\<lambda>c. c \<noteq> CHR 0x0A \<and> c \<noteq> CHR 0x0D) (b64_encode s) = b64_encode s"
  by (induction s rule: b64_encode.induct) (simp_all add: b64_char_props pad_def)

lemma b64_roundtrip: "b64_decode (b64_encode s) = Some s"
  by (simp only: b64_decode_def b64_encode_no_breaks b64_groups_encode)

section \<open>The encryptor\<close>

datatype crypto_err = ErrEncryptionKeyNotSet | ErrEncryptionKeySize | ErrDecryptionFailed | ErrDecoding

record gcm =
  g_seal :: "string \<Rightarrow> string \<Rightarrow> string"
  g_open :: "string \<Rightarrow> string \<Rightarrow> string option"

definition nonce_size :: nat where "nonce_size = 12"

definition encryptedPrefix :: string where "encryptedPrefix = ''enc:v1:''"

text \<open>\<open>strings.HasPrefix\<close>.\<close>

fun has_prefix :: "string \<Rightarrow> string \<Rightarrow> bool" where
  "has_prefix s [] = True"
| "has_prefix [] (c # p) = False"
| "has_prefix (x # s) (c # p) = (x = c \<and> has_prefix s p)"

definition IsEncrypted :: "string \<Rightarrow> bool" where
  "IsEncrypted v = has_prefix v encryptedPrefix"

text \<open>The key of a configured encryptor; the value of the environment variable is an argument.\<close>

definition NewCredentialEncryptor :: "string \<Rightarrow> crypto_err + string" where
  "NewCredentialEncryptor base64Key =
    (case b64_decode base64Key of
       None \<Rightarrow> Inl ErrDecoding
     | Some key \<Rightarrow> if length key \<noteq> 32 then Inl ErrEncryptionKeySize else Inr key)"

definition NewCredentialEncryptorFromEnv :: "string \<Rightarrow> crypto_err + string" where
  "NewCredentialEncryptorFromEnv keyStr =
    (if keyStr = [] then Inl ErrEncryptionKeyNotSet else NewCredentialEncryptor keyStr)"

definition Encrypt :: "gcm \<Rightarrow> string \<Rightarrow> string \<Rightarrow> string" where
  "Encrypt g nonce plaintext =
    (if plaintext = [] then plaintext
     else if IsEncrypted plaintext then plaintext
     else encryptedPrefix @ b64_encode (nonce @ g_seal g nonce plaintext))"

definition Decrypt :: "gcm \<Rightarrow> string \<Rightarrow> crypto_err + string" where
  "Decrypt g ciphertext =
    (if ciphertext = [] then Inr ciphertext
     else if \<not> IsEncrypted ciphertext then Inr ciphertext
     else case b64_decode (drop (length encryptedPrefix) ciphertext) of
         None \<Rightarrow> Inl ErrDecoding
       | Some data \<Rightarrow>
           if length data < nonce_size then Inl ErrDecryptionFailed
           else case g_open g (take nonce_size data) (drop nonce_size data) of
               None \<Rightarrow> Inl ErrDecryptionFailed
             | Some plaintext \<Rightarrow> Inr plaintext)"

definition EncryptIfNeeded :: "gcm \<Rightarrow> string \<Rightarrow> string \<Rightarrow> string \<times> bool" where
  "EncryptIfNeeded g nonce value =
    (if value = [] \<or> IsEncrypted value then (value, False) else (Encrypt g nonce value, True))"

lemma has_prefix_append [simp]: "has_prefix (p @ s) p"
  by (induction p) auto

text \<open>What the code relies on of AES-GCM: opening what was sealed gives the text back.\<close>

definition gcm_ok :: "gcm \<Rightarrow> bool" where
  "gcm_ok g \<longleftrightarrow> (\<forall>n p. length n = nonce_size \<longrightarrow> g_open g n (g_seal g n p) = Some p)"

lemma Decrypt_Encrypt:
  assumes "gcm_ok g" and "length nonce = nonce_size" and "\<not> IsEncrypted v"
  shows "Decrypt g (Encrypt g nonce v) = Inr v"
proof -
  have "IsEncrypted (encryptedPrefix @ s)" "encryptedPrefix \<noteq> []" for s
    by (simp_all add: IsEncrypted_def encryptedPrefix_def)
  then show ?thesis using assms by (simp add: Encrypt_def Decrypt_def b64_roundtrip gcm_ok_def)
qed

text \<open>
  C16. A credential comes back: decrypting what \<open>Encrypt\<close> stored gives the original for every
  value that does not itself start with the marker, an encrypted value that is not empty
  carries the marker, and encrypting twice is the same as encrypting once.
\<close>

theorem credential_roundtrip:
  assumes "gcm_ok g" and "length nonce = nonce_size" and "\<not> IsEncrypted v"
  shows "Decrypt g (Encrypt g nonce v) = Inr v
    \<and> (v \<noteq> [] \<longrightarrow> IsEncrypted (Encrypt g nonce v))
    \<and> Encrypt g nonce' (Encrypt g nonce v) = Encrypt g nonce v"
proof -
  have "IsEncrypted (encryptedPrefix @ s)" for s by (simp add: IsEncrypted_def)
  then show ?thesis using Decrypt_Encrypt [OF assms] assms(3) by (simp add: Encrypt_def)
qed

text \<open>A transparent cipher, for the witness.\<close>

definition ex_gcm :: gcm where
  "ex_gcm = \<lparr>g_seal = (\<lambda>n p. p @ n), g_open = (\<lambda>n s. Some (take (length s - length n) s))\<rparr>"

theorem credential_roundtrip_witness:
  "Decrypt ex_gcm (Encrypt ex_gcm ''0123456789ab'' ''ghp_token'') = Inr ''ghp_token''"
proof -
  have "gcm_ok ex_gcm" by (simp add: gcm_ok_def ex_gcm_def)
  then show ?thesis
    using credential_roundtrip [of ex_gcm "''0123456789ab''" "''ghp_token''"]
    by (simp add: nonce_size_def IsEncrypted_def encryptedPrefix_def)
qed

end
