(* ===== verification/FT_Rows.thy ===== *)
theory FT_Rows
  imports FT_Tasks FT_Crypto
begin

text \<open>
  The operations of \<open>EntStore\<close> on the other tables (\<open>internal/store/entstore.go\<close>):
  collections, comments, the change log, users, API tokens and linked accounts, with the
  listings in pages. The credential encryptor and the token hash are arguments: the cipher and
  the hash function are library code.

  A cursor is what \<open>uuid.Parse(LastID)\<close> and \<open>time.Parse(LastSortValue)\<close> make of the two
  strings of the parameters: none, one whose identifier does not parse (an error), or an
  identifier with an instant. The server writes instants with \<open>RFC3339Nano\<close>, which parse back;
  a sort value that is no instant, which only a forged page token holds, is not modelled.
\<close>

section \<open>Pages after a cursor\<close>

datatype cursor = NoCursor | BadCursor | Cursor uuid time

text \<open>\<open>keysetPredUser\<close>, \<open>keysetPredComment\<close>, \<dots>: the row comes after the cursor.\<close>

definition keysetPred :: "time \<Rightarrow> uuid \<Rightarrow> time \<times> uuid \<Rightarrow> bool" where
  "keysetPred lastSortValue lastID = (\<lambda>(col, i).
     col > lastSortValue \<or> (col = lastSortValue \<and> i > lastID))"

definition limit_rows :: "int \<Rightarrow> 'a list \<Rightarrow> 'a list" where
  "limit_rows lim xs = (if 0 < lim then take (nat lim) xs else xs)"

definition keyset_page ::
  "('a \<Rightarrow> time \<times> uuid) \<Rightarrow> int \<Rightarrow> cursor \<Rightarrow> 'a list \<Rightarrow> store_err + 'a list" where
  "keyset_page key lim c rows =
    (case c of
       BadCursor \<Rightarrow> Inl ErrOther
     | NoCursor \<Rightarrow> Inr (limit_rows lim (sort_key key rows))
     | Cursor i v \<Rightarrow> Inr (limit_rows lim (sort_key key (filter (\<lambda>r. keysetPred v i (key r)) rows))))"

section \<open>Collections\<close>

record CreateCollectionParams =
  cc_Name :: string
  cc_Description :: string
  cc_Platform :: string
  cc_RemoteID :: string
  cc_RemoteData :: "jmap option"

record UpdateCollectionParams =
  uc_Name :: "string option"
  uc_Description :: "string option"
  uc_RemoteData :: "jmap option"

record ListCollectionsParams =
  lc_Platform :: "platform option"
  lc_Limit :: int
  lc_Cursor :: cursor

definition CreateCollection :: "env \<Rightarrow> CreateCollectionParams \<Rightarrow> db \<Rightarrow> store_err + (collection \<times> db)" where
  "CreateCollection e p d =
    (let c = \<lparr>co_id = fresh_uuid e d, co_name = cc_Name p, co_description = cc_Description p,
         co_platform = (if cc_Platform p \<noteq> [] then collectionPlatform (cc_Platform p)
                        else PlatformFarmtable),
         co_remote_id = cc_RemoteID p, co_remote = cc_RemoteData p,
         co_created = now e, co_updated = now e\<rparr>
     in thenE (insert_coll c (drawn d)) (\<lambda>d'. Inr (c, d')))"

definition UpdateCollection ::
  "env \<Rightarrow> uuid \<Rightarrow> UpdateCollectionParams \<Rightarrow> db \<Rightarrow> store_err + (collection \<times> db)" where
  "UpdateCollection e i p d =
    (let old = find (\<lambda>c. co_id c = i) (d_colls d);
         remote = (case uc_RemoteData p of None \<Rightarrow> None
           | Some m \<Rightarrow> Some (jmerge (case old of None \<Rightarrow> [] | Some c \<Rightarrow>
                 (case co_remote c of None \<Rightarrow> [] | Some r \<Rightarrow> r)) m))
     in if uc_RemoteData p \<noteq> None \<and> old = None then Inl ErrNotFound
        else update_coll e i (uc_Name p \<noteq> Some [])
               (\<lambda>c. c\<lparr>co_name := set_if (uc_Name p) (co_name c),
                     co_description := set_if (uc_Description p) (co_description c),
                     co_remote := (case remote of None \<Rightarrow> co_remote c | Some m \<Rightarrow> Some m)\<rparr>) d)"

definition GetCollection :: "uuid \<Rightarrow> db \<Rightarrow> store_err + collection" where
  "GetCollection i d = optE ErrNotFound (find (\<lambda>c. co_id c = i) (d_colls d))"

definition ListCollections :: "ListCollectionsParams \<Rightarrow> db \<Rightarrow> store_err + (collection list \<times> nat)" where
  "ListCollections p d =
    (let rows = filter (\<lambda>c. opt_eq (lc_Platform p) (co_platform c)) (d_colls d) in
     thenE (keyset_page (\<lambda>c. (co_created c, co_id c)) (lc_Limit p) (lc_Cursor p) rows)
       (\<lambda>cols. Inr (cols, length rows)))"

section \<open>Comments and changes\<close>

record AddCommentParams =
  ac_TaskID :: uuid
  ac_AuthorID :: uuid
  ac_Body :: string

record ListCommentsParams =
  lm_TaskID :: uuid
  lm_Limit :: int
  lm_Cursor :: cursor

record ListChangesParams =
  lh_TaskID :: uuid
  lh_Field :: string
  lh_Limit :: int
  lh_Cursor :: cursor

definition AddComment :: "env \<Rightarrow> AddCommentParams \<Rightarrow> db \<Rightarrow> store_err + (comment \<times> db)" where
  "AddComment e p d =
    (let c = \<lparr>cm_id = fresh_uuid e d, cm_task = ac_TaskID p, cm_author = ac_AuthorID p,
         cm_body = ac_Body p, cm_created = now e, cm_updated = now e\<rparr>
     in thenE (insert_comment c (drawn d)) (\<lambda>d'. Inr (c, d')))"

definition GetComment :: "uuid \<Rightarrow> db \<Rightarrow> store_err + comment" where
  "GetComment i d = optE ErrNotFound (find (\<lambda>c. cm_id c = i) (d_comments d))"

definition comment_key :: "comment \<Rightarrow> time \<times> uuid" where
  "comment_key c = (cm_created c, cm_id c)"

definition change_key :: "change \<Rightarrow> time \<times> uuid" where
  "change_key c = (ch_created c, ch_id c)"

definition ListComments :: "ListCommentsParams \<Rightarrow> db \<Rightarrow> store_err + (comment list \<times> nat)" where
  "ListComments p d =
    (let rows = filter (\<lambda>c. cm_task c = lm_TaskID p) (d_comments d) in
     thenE (keyset_page comment_key (lm_Limit p) (lm_Cursor p) rows)
       (\<lambda>cs. Inr (cs, length rows)))"

definition ListAllCommentsForTask :: "uuid \<Rightarrow> db \<Rightarrow> comment list" where
  "ListAllCommentsForTask i d = sort_key comment_key (filter (\<lambda>c. cm_task c = i) (d_comments d))"

text \<open>\<open>HasTaskWith(task.CollectionIDEQ(id))\<close>.\<close>

definition task_in_coll :: "uuid \<Rightarrow> uuid \<Rightarrow> db \<Rightarrow> bool" where
  "task_in_coll cid i d = list_ex (\<lambda>t. t_id t = i \<and> t_collection t = cid) (d_tasks d)"

definition ListAllCommentsForCollection :: "uuid \<Rightarrow> db \<Rightarrow> comment list" where
  "ListAllCommentsForCollection cid d =
    sort_key comment_key (filter (\<lambda>c. task_in_coll cid (cm_task c) d) (d_comments d))"

definition ListAllRelationshipsForCollection :: "uuid \<Rightarrow> db \<Rightarrow> rel list" where
  "ListAllRelationshipsForCollection cid d =
    sort_key r_id (filter (\<lambda>r. task_in_coll cid (r_src r) d \<or> task_in_coll cid (r_tgt r) d) (d_rels d))"

definition ListChanges :: "ListChangesParams \<Rightarrow> db \<Rightarrow> store_err + (change list \<times> nat)" where
  "ListChanges p d =
    (let rows = filter (\<lambda>c. ch_task c = lh_TaskID p
           \<and> (lh_Field p = [] \<or> ch_field c = lh_Field p)) (d_changes d) in
     thenE (keyset_page change_key (lh_Limit p) (lh_Cursor p) rows)
       (\<lambda>cs. Inr (cs, length rows)))"

definition ListAllChangesForTask :: "uuid \<Rightarrow> db \<Rightarrow> change list" where
  "ListAllChangesForTask i d = sort_key change_key (filter (\<lambda>c. ch_task c = i) (d_changes d))"

definition ListAllChangesForCollection :: "uuid \<Rightarrow> db \<Rightarrow> change list" where
  "ListAllChangesForCollection cid d =
    sort_key change_key (filter (\<lambda>c. task_in_coll cid (ch_task c) d) (d_changes d))"

definition ListAllTasksForCollection :: "uuid \<Rightarrow> db \<Rightarrow> task list" where
  "ListAllTasksForCollection cid d =
    sort_key (\<lambda>t. (t_created t, t_id t)) (filter (\<lambda>t. t_collection t = cid) (d_tasks d))"

section \<open>Users\<close>

record CreateUserParams =
  cu_DisplayName :: string
  cu_Email :: "string option"
  cu_Type :: string
  cu_Status :: string

record ListUsersParams =
  lu_Type :: string
  lu_Limit :: int
  lu_Cursor :: cursor

definition user_key :: "user \<Rightarrow> time \<times> uuid" where
  "user_key u = (u_created u, u_id u)"

definition CreateUser :: "env \<Rightarrow> CreateUserParams \<Rightarrow> db \<Rightarrow> store_err + (user \<times> db)" where
  "CreateUser e p d =
    (let u = \<lparr>u_id = fresh_uuid e d, u_email = cu_Email p, u_name = cu_DisplayName p,
         u_type = cu_Type p, u_status = cu_Status p, u_created = now e, u_updated = now e\<rparr>
     in thenE (insert_user u (drawn d)) (\<lambda>d'. Inr (u, d')))"

definition GetUserByEmail :: "string \<Rightarrow> db \<Rightarrow> user list" where
  "GetUserByEmail email d = sort_key user_key (filter (\<lambda>u. u_email u = Some email) (d_users d))"

definition GetUsersByIDs :: "uuid list \<Rightarrow> db \<Rightarrow> user list" where
  "GetUsersByIDs ids d =
    (if ids = [] then [] else sort_key user_key (filter (\<lambda>u. List.member ids (u_id u)) (d_users d)))"

definition GetUser :: "uuid \<Rightarrow> db \<Rightarrow> store_err + user" where
  "GetUser i d = optE ErrNotFound (find (\<lambda>u. u_id u = i) (d_users d))"

text \<open>\<open>First\<close> without an order: the first row of the table.\<close>

definition GetUserByName :: "string \<Rightarrow> db \<Rightarrow> store_err + user" where
  "GetUserByName name d = optE ErrNotFound (find (\<lambda>u. u_name u = name) (d_users d))"

definition ListUsers :: "ListUsersParams \<Rightarrow> db \<Rightarrow> store_err + (user list \<times> nat)" where
  "ListUsers p d =
    (let rows = filter (\<lambda>u. lu_Type p = [] \<or> u_type u = lu_Type p) (d_users d) in
     thenE (keyset_page user_key (lu_Limit p) (lu_Cursor p) rows) (\<lambda>us. Inr (us, length rows)))"

section \<open>API tokens\<close>

record CreateAPITokenParams =
  ck_UserID :: uuid
  ck_Name :: string
  ck_ExpiresAt :: "time option"
  ck_Scopes :: "string list"
  ck_CollectionIDs :: "uuid list"

record ListAPITokensParams =
  lk_UserID :: "uuid option"
  lk_Limit :: int
  lk_Cursor :: cursor

text \<open>\<open>hex.EncodeToString\<close>.\<close>

definition hex_digit :: "nat \<Rightarrow> char" where
  "hex_digit n = ''0123456789abcdef'' ! n"

fun hex_encode :: "string \<Rightarrow> string" where
  "hex_encode [] = []"
| "hex_encode (c # s) = hex_digit (byte c div 16) # hex_digit (byte c mod 16) # hex_encode s"

definition HashToken :: "(string \<Rightarrow> string) \<Rightarrow> string \<Rightarrow> string" where
  "HashToken sha256 raw = hex_encode (sha256 raw)"

text \<open>\<open>rawBytes\<close> are the 32 bytes read from the random source.\<close>

definition CreateAPIToken ::
  "(string \<Rightarrow> string) \<Rightarrow> string \<Rightarrow> env \<Rightarrow> CreateAPITokenParams \<Rightarrow> db \<Rightarrow> store_err + ((token \<times> string) \<times> db)" where
  "CreateAPIToken sha256 rawBytes e p d =
    (let rawToken = ''ft_'' @ hex_encode rawBytes;
         k = \<lparr>k_id = fresh_uuid e d, k_hash = HashToken sha256 rawToken, k_name = ck_Name p,
           k_user = ck_UserID p, k_created = now e, k_expires = ck_ExpiresAt p,
           k_last_used = None, k_scopes = ck_Scopes p, k_collections = ck_CollectionIDs p\<rparr>
     in thenE (insert_token k (drawn d)) (\<lambda>d'. Inr ((k, rawToken), d')))"

text \<open>\<open>WithUser\<close> loads the owner of the token.\<close>

definition token_with_user :: "db \<Rightarrow> token \<Rightarrow> token \<times> user option" where
  "token_with_user d k = (k, find (\<lambda>u. u_id u = k_user k) (d_users d))"

definition GetAPIToken :: "uuid \<Rightarrow> db \<Rightarrow> store_err + (token \<times> user option)" where
  "GetAPIToken i d = thenE (optE ErrNotFound (find (\<lambda>k. k_id k = i) (d_tokens d)))
     (\<lambda>k. Inr (token_with_user d k))"

definition LookupToken :: "string \<Rightarrow> db \<Rightarrow> store_err + (token \<times> user option)" where
  "LookupToken tokenHash d = thenE (optE ErrNotFound (find (\<lambda>k. k_hash k = tokenHash) (d_tokens d)))
     (\<lambda>k. Inr (token_with_user d k))"

text \<open>The cursor of the parameters is not read.\<close>

definition ListAPITokens :: "ListAPITokensParams \<Rightarrow> db \<Rightarrow> (token \<times> user option) list \<times> nat" where
  "ListAPITokens p d =
    (let rows = filter (\<lambda>k. opt_eq (lk_UserID p) (k_user k)) (d_tokens d) in
     (map (token_with_user d)
        (limit_rows (lk_Limit p) (sort_key (\<lambda>k. (k_created k, k_id k)) rows)), length rows))"

definition UpdateAPITokenScopes :: "uuid \<Rightarrow> string list \<Rightarrow> db \<Rightarrow> store_err + (token \<times> db)" where
  "UpdateAPITokenScopes i scopes d = update_token i (\<lambda>k. k\<lparr>k_scopes := scopes\<rparr>) d"

definition RevokeAPIToken :: "uuid \<Rightarrow> db \<Rightarrow> store_err + db" where
  "RevokeAPIToken i d = delete_token i d"

text \<open>\<open>UpdateTokenLastUsed\<close> wraps every error.\<close>

definition UpdateTokenLastUsed :: "env \<Rightarrow> uuid \<Rightarrow> db \<Rightarrow> store_err + db" where
  "UpdateTokenLastUsed e i d =
    (case update_token i (\<lambda>k. k\<lparr>k_last_used := Some (now e)\<rparr>) d of
       Inl _ \<Rightarrow> Inl ErrOther | Inr (k, d') \<Rightarrow> Inr d')"

section \<open>Linked accounts\<close>

record CreateLinkedAccountParams =
  cl_CollectionID :: uuid
  cl_Platform :: string
  cl_AuthToken :: string
  cl_AuthMethod :: string
  cl_Scopes :: "string list"
  cl_RemoteUserID :: string
  cl_ExpiresAt :: "time option"
  cl_RefreshToken :: string
  cl_TokenExpiry :: "time option"
  cl_ScopesGranted :: "string list"

record UpdateLinkedAccountParams =
  ul_AuthToken :: "string option"
  ul_RefreshToken :: "string option"
  ul_TokenExpiry :: "time option"
  ul_ClearTokenExpiry :: bool
  ul_Status :: "string option"
  ul_ScopesGranted :: "string list option"
  ul_LastValidatedAt :: "time option"

record ListLinkedAccountsParams =
  la_CollectionID :: "uuid option"
  la_Platform :: "string option"
  la_Status :: "string option"
  la_Limit :: int
  la_LastID :: "uuid option option"

text \<open>The enumeration validators of the schema on the strings of the parameters.\<close>

definition account_platform :: "string \<Rightarrow> platform option" where
  "account_platform s =
    (if s = ''github'' then Some PlatformGithub else if s = ''linear'' then Some PlatformLinear
     else if s = ''jira'' then Some PlatformJira else if s = ''asana'' then Some PlatformAsana
     else if s = ''beads'' then Some PlatformBeads else None)"

definition account_method :: "string \<Rightarrow> auth_method option" where
  "account_method s =
    (if s = ''pat'' then Some AuthMethodPat else if s = ''oauth'' then Some AuthMethodOauth
     else if s = ''github_app'' then Some AuthMethodGithubApp else None)"

definition account_status_of :: "string \<Rightarrow> account_status option" where
  "account_status_of s =
    (if s = ''active'' then Some StatusActive else if s = ''expired'' then Some StatusExpired
     else if s = ''revoked'' then Some StatusRevoked else None)"

text \<open>
  The configured encryptor with the nonces of the call (the first for the access token, the
  second for the refresh token), or none.
\<close>

type_synonym encryptor = "(gcm \<times> string \<times> string) option"

definition enc_auth :: "encryptor \<Rightarrow> string \<Rightarrow> string" where
  "enc_auth x s = (case x of None \<Rightarrow> s | Some (g, n1, n2) \<Rightarrow> Encrypt g n1 s)"

definition enc_refresh :: "encryptor \<Rightarrow> string \<Rightarrow> string" where
  "enc_refresh x s = (case x of None \<Rightarrow> s | Some (g, n1, n2) \<Rightarrow> Encrypt g n2 s)"

definition CreateLinkedAccount ::
  "encryptor \<Rightarrow> env \<Rightarrow> CreateLinkedAccountParams \<Rightarrow> db \<Rightarrow> store_err + (account \<times> db)" where
  "CreateLinkedAccount x e p d =
    (case (account_platform (cl_Platform p), account_method (cl_AuthMethod p)) of
       (Some pl, Some m) \<Rightarrow>
         (let a = \<lparr>a_id = fresh_uuid e d, a_collection = cl_CollectionID p, a_platform = pl,
              a_token = (if cl_AuthToken p \<noteq> [] then enc_auth x (cl_AuthToken p) else cl_AuthToken p),
              a_method = m, a_scopes = cl_Scopes p, a_remote_user = cl_RemoteUserID p,
              a_status = StatusActive, a_created = now e, a_updated = now e,
              a_expires = cl_ExpiresAt p,
              a_refresh = (if cl_RefreshToken p \<noteq> [] then enc_refresh x (cl_RefreshToken p)
                           else cl_RefreshToken p),
              a_token_expiry = cl_TokenExpiry p, a_granted = cl_ScopesGranted p,
              a_validated = None\<rparr>
          in thenE (insert_account a (drawn d)) (\<lambda>d'. Inr (a, d')))
     | _ \<Rightarrow> Inl ErrOther)"

definition UpdateLinkedAccount ::
  "encryptor \<Rightarrow> env \<Rightarrow> uuid \<Rightarrow> UpdateLinkedAccountParams \<Rightarrow> db \<Rightarrow> store_err + (account \<times> db)" where
  "UpdateLinkedAccount x e i p d =
    (if (case ul_Status p of None \<Rightarrow> False | Some s \<Rightarrow> account_status_of s = None) then Inl ErrOther
     else update_account e i (\<lambda>a. a\<lparr>
       a_token := (case ul_AuthToken p of None \<Rightarrow> a_token a | Some t \<Rightarrow> enc_auth x t),
       a_refresh := (case ul_RefreshToken p of None \<Rightarrow> a_refresh a | Some t \<Rightarrow> enc_refresh x t),
       a_token_expiry := set_or_clear (ul_ClearTokenExpiry p) (ul_TokenExpiry p) (a_token_expiry a),
       a_status := (case ul_Status p of None \<Rightarrow> a_status a
          | Some s \<Rightarrow> (case account_status_of s of None \<Rightarrow> a_status a | Some st \<Rightarrow> st)),
       a_granted := set_if (ul_ScopesGranted p) (a_granted a),
       a_validated := (case ul_LastValidatedAt p of None \<Rightarrow> a_validated a | Some t \<Rightarrow> Some t)\<rparr>) d)"

definition decryptLinkedAccount :: "encryptor \<Rightarrow> account \<Rightarrow> store_err + account" where
  "decryptLinkedAccount x a =
    (case x of
       None \<Rightarrow> Inr a
     | Some (g, _, _) \<Rightarrow>
         (case (if a_token a \<noteq> [] then Decrypt g (a_token a) else Inr (a_token a)) of
            Inl _ \<Rightarrow> Inl ErrOther
          | Inr t \<Rightarrow>
              (case (if a_refresh a \<noteq> [] then Decrypt g (a_refresh a) else Inr (a_refresh a)) of
                 Inl _ \<Rightarrow> Inl ErrOther
               | Inr r \<Rightarrow> Inr (a\<lparr>a_token := t, a_refresh := r\<rparr>))))"

definition GetLinkedAccount :: "encryptor \<Rightarrow> uuid \<Rightarrow> db \<Rightarrow> store_err + account" where
  "GetLinkedAccount x i d = thenE (optE ErrNotFound (find (\<lambda>a. a_id a = i) (d_accounts d)))
     (decryptLinkedAccount x)"

definition DeleteLinkedAccount :: "uuid \<Rightarrow> db \<Rightarrow> store_err + db" where
  "DeleteLinkedAccount i d = delete_account i d"

text \<open>
  The cursor of \<open>ListLinkedAccounts\<close> is an identifier only: \<open>Some None\<close> is one that does not
  parse, and the instant is looked up.
\<close>

definition account_cursor :: "uuid option option \<Rightarrow> db \<Rightarrow> cursor" where
  "account_cursor lastID d =
    (case lastID of
       None \<Rightarrow> NoCursor
     | Some None \<Rightarrow> BadCursor
     | Some (Some i) \<Rightarrow> (case find (\<lambda>a. a_id a = i) (d_accounts d) of
           None \<Rightarrow> BadCursor | Some a \<Rightarrow> Cursor i (a_created a)))"

definition ListLinkedAccounts ::
  "encryptor \<Rightarrow> ListLinkedAccountsParams \<Rightarrow> db \<Rightarrow> store_err + (account list \<times> nat)" where
  "ListLinkedAccounts x p d =
    (let rows = filter (\<lambda>a. opt_eq (la_CollectionID p) (a_collection a)
            \<and> (case la_Platform p of None \<Rightarrow> True | Some s \<Rightarrow> platform_str (a_platform a) = s)
            \<and> (case la_Status p of None \<Rightarrow> True | Some s \<Rightarrow> account_status_of s = Some (a_status a)))
          (d_accounts d)
     in thenE (keyset_page (\<lambda>a. (a_created a, a_id a)) (la_Limit p) (account_cursor (la_LastID p) d) rows)
          (\<lambda>as. thenE (mapE (decryptLinkedAccount x) as) (\<lambda>as'. Inr (as', length rows))))"

section \<open>Truncation and the pool of ephemeral stores\<close>

definition Truncate :: "db \<Rightarrow> db" where
  "Truncate d = d\<lparr>d_changes := [], d_comments := [], d_rels := [], d_accounts := [], d_tokens := [],
     d_tasks := [], d_colls := [], d_users := []\<rparr>"

record pool =
  p_pool :: "db list"
  p_maxSize :: int

definition NewEphemeralStorePool :: "int \<Rightarrow> pool" where
  "NewEphemeralStorePool n = \<lparr>p_pool = [], p_maxSize = n\<rparr>"

definition pool_Get :: "pool \<Rightarrow> db \<times> pool" where
  "pool_Get p = (if p_pool p \<noteq> [] then (last (p_pool p), p\<lparr>p_pool := butlast (p_pool p)\<rparr>)
     else (empty_db, p))"

definition pool_Return :: "db \<Rightarrow> pool \<Rightarrow> pool" where
  "pool_Return s p =
    (if int (length (p_pool p)) < p_maxSize p then p\<lparr>p_pool := p_pool p @ [Truncate s]\<rparr> else p)"

definition pool_Close :: "pool \<Rightarrow> pool" where
  "pool_Close p = p\<lparr>p_pool := []\<rparr>"

end
