(* ===== verification/FT_Paging.thy ===== *)
theory FT_Paging
  imports FT_Rows FT_Example
begin

text \<open>
  Keyset pagination. The locale \<open>keyset_listing\<close> is the contract between a listing of the
  store and a client that walks its pages: a page is the first rows, in key order, of those
  after the cursor. A client that asks for pages of \<open>L\<close> rows, passing the key of the last row
  as the next cursor until a page comes back short, sees every row once and in order. The
  locale is interpreted on the comments and changes of a task, on the collections and on the
  users.
\<close>

section \<open>The client and the contract\<close>

fun walk_pages :: "(nat \<Rightarrow> 'k option \<Rightarrow> 'a list) \<Rightarrow> ('a \<Rightarrow> 'k) \<Rightarrow> nat \<Rightarrow> nat \<Rightarrow> 'k option \<Rightarrow> 'a list" where
  "walk_pages page key L 0 c = []"
| "walk_pages page key L (Suc n) c =
    (let p = page L c in
     if length p < L then p else p @ walk_pages page key L n (Some (key (last p))))"

definition after_cursor :: "('a \<Rightarrow> 'k::linorder) \<Rightarrow> 'k option \<Rightarrow> 'a list \<Rightarrow> 'a list" where
  "after_cursor key c rows = (case c of None \<Rightarrow> rows | Some k \<Rightarrow> filter (\<lambda>r. k < key r) rows)"

lemma filter_after_last:
  assumes "sorted_wrt (\<lambda>a b. key a < key b) ys" and "0 < L" and "L \<le> length ys"
  shows "filter (\<lambda>r. key (last (take L ys)) < (key r :: 'k::linorder)) ys = drop L ys"
proof -
  let ?k = "key (last (take L ys))"
  have split: "ys = take L ys @ drop L ys" by simp
  have ne: "take L ys \<noteq> []" using assms(2,3) by auto
  have upto: "\<not> ?k < key r" if "r \<in> set (take L ys)" for r
  proof -
    have "take L ys = butlast (take L ys) @ [last (take L ys)]" using ne by simp
    moreover have "sorted_wrt (\<lambda>a b. key a < key b) (take L ys)"
      using assms(1) sorted_wrt_take by blast
    ultimately have "\<forall>x\<in>set (butlast (take L ys)). key x < ?k"
      by (metis sorted_wrt_append list.set_intros(1))
    moreover have "r \<in> set (butlast (take L ys)) \<or> r = last (take L ys)"
      using that ne by (metis append_butlast_last_id rotate1.simps(2) set_ConsD set_rotate1)
    ultimately show ?thesis by auto
  qed
  have beyond: "?k < key r" if "r \<in> set (drop L ys)" for r
  proof -
    have "sorted_wrt (\<lambda>a b. key a < key b) (take L ys @ drop L ys)" using assms(1) by simp
    then show ?thesis using that ne last_in_set unfolding sorted_wrt_append by blast
  qed
  have "filter (\<lambda>r. ?k < key r) ys
      = filter (\<lambda>r. ?k < key r) (take L ys) @ filter (\<lambda>r. ?k < key r) (drop L ys)"
    by (subst split) (rule filter_append)
  also have "filter (\<lambda>r. ?k < key r) (take L ys) = []" using upto by (simp add: filter_empty_conv)
  also have "filter (\<lambda>r. ?k < key r) (drop L ys) = drop L ys" using beyond by (simp add: filter_id_conv)
  finally show ?thesis by simp
qed

lemma sort_key_strict:
  "distinct (map key rows) \<Longrightarrow> sorted_wrt (\<lambda>a b. key a < key b) (sort_key (key :: 'a \<Rightarrow> 'k::linorder) rows)"
proof -
  assume "distinct (map key rows)"
  then have "distinct (map key (sort_key key rows))" by (simp add: distinct_map)
  then have "sorted_wrt (<) (map key (sort_key key rows))" by (simp add: strict_sorted_iff)
  then show ?thesis by (simp add: sorted_wrt_map)
qed

locale keyset_listing =
  fixes ok :: "'s \<Rightarrow> bool"
    and key :: "'a \<Rightarrow> 'k::linorder"
    and rows :: "'s \<Rightarrow> 'a list"
    and page :: "'s \<Rightarrow> nat \<Rightarrow> 'k option \<Rightarrow> 'a list"
  assumes page_law: "ok s \<Longrightarrow> 0 < L \<Longrightarrow> set_option c \<subseteq> key ` set (rows s) \<Longrightarrow>
      page s L c = take L (sort_key key (after_cursor key c (rows s)))"
    and keys_distinct: "ok s \<Longrightarrow> distinct (map key (rows s))"
begin

lemma page_sorted: "ok s \<Longrightarrow> 0 < L \<Longrightarrow> set_option c \<subseteq> key ` set (rows s) \<Longrightarrow>
    page s L c = take L (after_cursor key c (sort_key key (rows s)))"
  by (cases c) (simp_all add: page_law after_cursor_def filter_sort)

text \<open>One request: a short page is the rest of the rows, a full one is followed by its cursor.\<close>

lemma page_step:
  assumes "ok s" and "0 < L" and "set_option c \<subseteq> key ` set (rows s)"
  defines "rest \<equiv> \<lambda>c. after_cursor key c (sort_key key (rows s))"
  shows "if length (page s L c) < L then rest c = page s L c
    else rest c = page s L c @ rest (Some (key (last (page s L c)))) \<and> length (page s L c) = L
      \<and> key (last (page s L c)) \<in> key ` set (rows s)"
proof (cases "length (rest c) < L")
  case True
  then show ?thesis using page_sorted [OF assms(1,2,3)] by (simp add: rest_def)
next
  case False
  let ?k = "key (last (take L (rest c)))"
  have p: "page s L c = take L (rest c)" unfolding rest_def using assms(1,2,3) by (rule page_sorted)
  have strict: "sorted_wrt (\<lambda>a b. key a < key b) (rest c)"
    using sort_key_strict [OF keys_distinct [OF assms(1)]]
    by (cases c) (simp_all add: rest_def after_cursor_def sorted_wrt_filter)
  have last: "last (take L (rest c)) \<in> set (rest c)"
    using False assms(2) by (metis in_set_takeD last_in_set le_zero_eq length_0_conv not_le take_eq_Nil)
  have "rest (Some ?k) = filter (\<lambda>r. ?k < key r) (rest c)"
  proof (cases c)
    case (Some k)
    have "k < ?k" using last by (simp add: rest_def after_cursor_def Some)
    then show ?thesis by (auto simp: rest_def after_cursor_def Some intro!: filter_cong)
  qed (simp add: rest_def after_cursor_def)
  then have "rest (Some ?k) = drop L (rest c)" using filter_after_last [OF strict assms(2)] False by simp
  moreover have "?k \<in> key ` set (rows s)"
    using last by (cases c) (auto simp: rest_def after_cursor_def)
  ultimately show ?thesis using False by (simp add: p)
qed

lemma walk_from:
  assumes "ok s" and "0 < L" and "length (after_cursor key c (sort_key key (rows s))) < n * L"
    and "set_option c \<subseteq> key ` set (rows s)"
  shows "walk_pages (page s) key L n c = after_cursor key c (sort_key key (rows s))"
  using assms(3,4)
proof (induction n arbitrary: c)
  case (Suc n)
  then show ?case
    using page_step [OF assms(1,2) Suc.prems(2)] Suc.IH [of "Some (key (last (page s L c)))"]
    by (auto simp: Let_def split: if_splits)
qed simp

theorem walk_complete:
  assumes "ok s" and "0 < L" and "length (rows s) < n * L"
  shows "walk_pages (page s) key L n None = sort_key key (rows s)"
  using walk_from [of s L None n] assms by (simp add: after_cursor_def)

end

section \<open>The listings of the store\<close>

definition cursor_of :: "(time \<times> uuid) option \<Rightarrow> cursor" where
  "cursor_of c = (case c of None \<Rightarrow> NoCursor | Some (v, i) \<Rightarrow> Cursor i v)"

lemma keysetPred_less: "keysetPred v i k \<longleftrightarrow> (v, i) < k"
  by (cases k) (auto simp: keysetPred_def)

lemma keyset_page_cursor:
  assumes "0 < L"
  shows "keyset_page key (int L) (cursor_of c) rows = Inr (take L (sort_key key (after_cursor key c rows)))"
  using assms by (cases c) (auto simp: keyset_page_def cursor_of_def limit_rows_def after_cursor_def
      keysetPred_less)

definition comments_of :: "uuid \<Rightarrow> db \<Rightarrow> comment list" where
  "comments_of i d = filter (\<lambda>c. cm_task c = i) (d_comments d)"

definition ListComments_page :: "uuid \<Rightarrow> db \<Rightarrow> nat \<Rightarrow> (time \<times> uuid) option \<Rightarrow> comment list" where
  "ListComments_page i d L c =
    (case ListComments \<lparr>lm_TaskID = i, lm_Limit = int L, lm_Cursor = cursor_of c\<rparr> d of
       Inl _ \<Rightarrow> [] | Inr (cs, _) \<Rightarrow> cs)"

definition changes_of :: "uuid \<Rightarrow> string \<Rightarrow> db \<Rightarrow> change list" where
  "changes_of i f d = filter (\<lambda>c. ch_task c = i \<and> (f = [] \<or> ch_field c = f)) (d_changes d)"

definition ListChanges_page :: "uuid \<Rightarrow> string \<Rightarrow> db \<Rightarrow> nat \<Rightarrow> (time \<times> uuid) option \<Rightarrow> change list" where
  "ListChanges_page i f d L c =
    (case ListChanges \<lparr>lh_TaskID = i, lh_Field = f, lh_Limit = int L, lh_Cursor = cursor_of c\<rparr> d of
       Inl _ \<Rightarrow> [] | Inr (cs, _) \<Rightarrow> cs)"

definition users_of :: "string \<Rightarrow> db \<Rightarrow> user list" where
  "users_of ty d = filter (\<lambda>u. ty = [] \<or> u_type u = ty) (d_users d)"

definition ListUsers_page :: "string \<Rightarrow> db \<Rightarrow> nat \<Rightarrow> (time \<times> uuid) option \<Rightarrow> user list" where
  "ListUsers_page ty d L c =
    (case ListUsers \<lparr>lu_Type = ty, lu_Limit = int L, lu_Cursor = cursor_of c\<rparr> d of
       Inl _ \<Rightarrow> [] | Inr (us, _) \<Rightarrow> us)"

definition coll_key :: "collection \<Rightarrow> time \<times> uuid" where
  "coll_key c = (co_created c, co_id c)"

definition colls_of :: "platform option \<Rightarrow> db \<Rightarrow> collection list" where
  "colls_of pl d = filter (\<lambda>c. opt_eq pl (co_platform c)) (d_colls d)"

definition ListCollections_page ::
  "platform option \<Rightarrow> db \<Rightarrow> nat \<Rightarrow> (time \<times> uuid) option \<Rightarrow> collection list" where
  "ListCollections_page pl d L c =
    (case ListCollections \<lparr>lc_Platform = pl, lc_Limit = int L, lc_Cursor = cursor_of c\<rparr> d of
       Inl _ \<Rightarrow> [] | Inr (cs, _) \<Rightarrow> cs)"

lemma distinct_pair_key: "distinct (map k xs) \<Longrightarrow> distinct (map (\<lambda>x. (v x, k x)) (filter P xs))"
  by (induction xs) auto

lemma key_funs:
  "comment_key = (\<lambda>c. (cm_created c, cm_id c))" "change_key = (\<lambda>c. (ch_created c, ch_id c))"
  "user_key = (\<lambda>u. (u_created u, u_id u))" "coll_key = (\<lambda>c. (co_created c, co_id c))"
  by (simp_all add: fun_eq_iff comment_key_def change_key_def user_key_def coll_key_def)

lemmas listing_defs = ListComments_page_def ListComments_def comments_of_def
  ListChanges_page_def ListChanges_def changes_of_def ListUsers_page_def ListUsers_def users_of_def
  ListCollections_page_def ListCollections_def colls_of_def Let_def keyset_page_cursor
  db_ok_def comments_ok_def changes_ok_def users_ok_def colls_ok_def distinct_pair_key

interpretation comment_pages: keyset_listing db_ok comment_key "comments_of i" "ListComments_page i" for i
  by unfold_locales (simp_all add: listing_defs key_funs)

interpretation change_pages: keyset_listing db_ok change_key "changes_of i f" "ListChanges_page i f" for i f
  by unfold_locales (simp_all add: listing_defs key_funs)

interpretation user_pages: keyset_listing db_ok user_key "users_of ty" "ListUsers_page ty" for ty
  by unfold_locales (simp_all add: listing_defs key_funs)

interpretation coll_pages: keyset_listing db_ok coll_key "colls_of pl" "ListCollections_page pl" for pl
  by unfold_locales (simp_all add: listing_defs key_funs)

section \<open>Properties\<close>

text \<open>
  C17. Walking the pages of \<open>ListComments\<close>, \<open>ListChanges\<close>, \<open>ListUsers\<close> or \<open>ListCollections\<close>
  with any page size gives every matching row once, in the order of creation time and
  identifier: no row is skipped or repeated at a page boundary, even when several rows have
  the same creation time.
\<close>

theorem listings_complete:
  assumes "db_ok d" and "0 < L"
    and "length (d_comments d) < n * L" and "length (d_changes d) < n * L"
    and "length (d_users d) < n * L" and "length (d_colls d) < n * L"
  shows "walk_pages (ListComments_page i d) comment_key L n None
        = sort_key comment_key (filter (\<lambda>c. cm_task c = i) (d_comments d))
    \<and> walk_pages (ListChanges_page i f d) change_key L n None
        = sort_key change_key (filter (\<lambda>c. ch_task c = i \<and> (f = [] \<or> ch_field c = f)) (d_changes d))
    \<and> walk_pages (ListUsers_page ty d) user_key L n None
        = sort_key user_key (filter (\<lambda>u. ty = [] \<or> u_type u = ty) (d_users d))
    \<and> walk_pages (ListCollections_page pl d) coll_key L n None
        = sort_key coll_key (filter (\<lambda>c. opt_eq pl (co_platform c)) (d_colls d))"
proof -
  have short: "length (filter P xs) < m" if "length xs < m" for P and m and xs :: "'x list"
    using that length_filter_le [of P xs] by linarith
  show ?thesis
    using comment_pages.walk_complete [OF assms(1,2), of i n]
      change_pages.walk_complete [OF assms(1,2), of i f n]
      user_pages.walk_complete [OF assms(1,2), of ty n]
      coll_pages.walk_complete [OF assms(1,2), of pl n] assms(3-6)
    by (simp add: comments_of_def changes_of_def users_of_def colls_of_def short)
qed

theorem listings_complete_witness:
  "walk_pages (ListUsers_page [] ex_db) user_key 1 2 None = [ex_user]
    \<and> walk_pages (ListCollections_page None ex_db) coll_key 1 2 None = [ex_coll]"
  using listings_complete [OF ex_db_ok, of 1 2 0 "[]" "[]" None]
  by (simp add: ex_db_def opt_eq_def)

end
