(* ===== verification/FT_ListTasks.thy ===== *)
theory FT_ListTasks
  imports FT_Paging "HOL-Library.Option_ord"
begin

text \<open>
  \<open>EntStore.ListTasks\<close> (\<open>internal/store/entstore.go\<close>): filters, the four sort fields in both
  orders, the keyset cursor and the label filter applied to the page. A column value is an
  instant or a text; SQL orders a missing value before all others or after all others by
  dialect (SQLite first, PostgreSQL last, reversed for a descending order), and a comparison
  with a missing value holds for none.
\<close>

section \<open>Column values\<close>

datatype sval = SVTime time | SVText string

instantiation sval :: linorder
begin

fun less_eq_sval :: "sval \<Rightarrow> sval \<Rightarrow> bool" where
  "less_eq_sval (SVTime a) (SVTime b) = (a \<le> b)"
| "less_eq_sval (SVTime a) (SVText b) = True"
| "less_eq_sval (SVText a) (SVTime b) = False"
| "less_eq_sval (SVText a) (SVText b) = (a \<le> b)"

definition less_sval :: "sval \<Rightarrow> sval \<Rightarrow> bool" where
  "less_sval a b = (a \<le> b \<and> \<not> b \<le> a)"

instance
proof
  fix x y z :: sval
  show "x < y \<longleftrightarrow> x \<le> y \<and> \<not> y \<le> x" by (rule less_sval_def)
  show "x \<le> x" by (cases x) simp_all
  show "x \<le> z" if "x \<le> y" "y \<le> z" using that by (cases x; cases y; cases z) auto
  show "x = y" if "x \<le> y" "y \<le> x" using that by (cases x; cases y) auto
  show "x \<le> y \<or> y \<le> x" by (cases x; cases y) auto
qed

end

datatype sort_field = ByCreated | ByUpdated | ByPriority | ByDueDate | ByOther

text \<open>The string of \<open>SortField\<close>; any other string adds no \<open>ORDER BY\<close> and compares \<open>created_at\<close>.\<close>

definition sort_field_of :: "string \<Rightarrow> sort_field" where
  "sort_field_of s =
    (if s = [] \<or> s = ''created'' then ByCreated else if s = ''updated'' then ByUpdated
     else if s = ''priority'' then ByPriority else if s = ''due_date'' then ByDueDate else ByOther)"

definition sort_column :: "sort_field \<Rightarrow> task \<Rightarrow> sval option" where
  "sort_column f t = (case f of
       ByUpdated \<Rightarrow> Some (SVTime (t_updated t))
     | ByPriority \<Rightarrow> map_option (SVText \<circ> priority_str) (t_priority t)
     | ByDueDate \<Rightarrow> map_option SVTime (t_due t)
     | _ \<Rightarrow> Some (SVTime (t_created t)))"

section \<open>The listing\<close>

datatype task_cursor = TNoCursor | TBadCursor | TCursor uuid sval

record ListTasksParams =
  lt_CollectionID :: "uuid option"
  lt_Phase :: "phase option"
  lt_Stage :: "stage option"
  lt_AssigneeID :: "uuid option"
  lt_Unassigned :: bool
  lt_Priority :: "priority option"
  lt_Type :: "string option"
  lt_Labels :: "string list"
  lt_ParentTaskID :: "uuid option"
  lt_SortField :: string
  lt_SortOrder :: string
  lt_Limit :: int
  lt_Cursor :: task_cursor

definition list_preds :: "ListTasksParams \<Rightarrow> task \<Rightarrow> bool" where
  "list_preds p t \<longleftrightarrow> opt_eq (lt_CollectionID p) (t_collection t)
     \<and> opt_eq (lt_Phase p) (t_phase t) \<and> opt_eq (lt_Stage p) (t_stage t)
     \<and> (lt_AssigneeID p = None \<or> t_assignee t = lt_AssigneeID p)
     \<and> (lt_Unassigned p \<longrightarrow> t_assignee t = None)
     \<and> (lt_Priority p = None \<or> t_priority t = lt_Priority p)
     \<and> opt_eq (lt_Type p) (t_type t)
     \<and> (lt_ParentTaskID p = None \<or> t_parent t = lt_ParentTaskID p)"

text \<open>
  The ascending order of the column and the identifier, missing values first or last; the
  descending order is its reverse.
\<close>

definition order_key :: "bool \<Rightarrow> sort_field \<Rightarrow> task \<Rightarrow> nat \<times> sval option \<times> uuid" where
  "order_key nulls_first f t =
    (case sort_column f t of None \<Rightarrow> (if nulls_first then 0 else 2) | Some v \<Rightarrow> 1,
     sort_column f t, t_id t)"

definition order_rows :: "bool \<Rightarrow> sort_field \<Rightarrow> bool \<Rightarrow> task list \<Rightarrow> task list" where
  "order_rows nulls_first f desc rows =
    (if f = ByOther then rows
     else if desc then rev (sort_key (order_key nulls_first f) rows)
     else sort_key (order_key nulls_first f) rows)"

definition keysetPredTask :: "sort_field \<Rightarrow> sval \<Rightarrow> uuid \<Rightarrow> bool \<Rightarrow> task \<Rightarrow> bool" where
  "keysetPredTask f v lastID desc t =
    (case sort_column f t of
       None \<Rightarrow> False
     | Some c \<Rightarrow> if desc then c < v \<or> (c = v \<and> t_id t < lastID)
                else v < c \<or> (c = v \<and> lastID < t_id t))"

definition hasAllLabels :: "string list \<Rightarrow> string list \<Rightarrow> bool" where
  "hasAllLabels taskLabels required = list_all (List.member taskLabels) required"

definition ListTasks :: "bool \<Rightarrow> ListTasksParams \<Rightarrow> db \<Rightarrow> store_err + (etask list \<times> nat)" where
  "ListTasks nulls_first p d =
    (let rows = filter (list_preds p) (d_tasks d);
         f = sort_field_of (lt_SortField p);
         desc = (lt_SortOrder p = ''desc'');
         finish = (\<lambda>sel.
           let tasks = limit_rows (lt_Limit p) (order_rows nulls_first f desc sel);
               kept = (if lt_Labels p \<noteq> [] then filter (\<lambda>t. hasAllLabels (t_labels t) (lt_Labels p)) tasks
                       else tasks)
           in Inr (map (with_edges d) kept, length rows))
     in case lt_Cursor p of
          TBadCursor \<Rightarrow> Inl ErrOther
        | TNoCursor \<Rightarrow> finish rows
        | TCursor i v \<Rightarrow> finish (filter (keysetPredTask f v i desc) rows))"

section \<open>Pages of the listing\<close>

text \<open>
  The two fields every row has a value for. The key of a row is the instant and the
  identifier, both negated for a descending order, so that a page is always a prefix of the
  ascending order of the keys.
\<close>

definition sort_time :: "sort_field \<Rightarrow> task \<Rightarrow> time" where
  "sort_time f t = (if f = ByUpdated then t_updated t else t_created t)"

definition order_sign :: "bool \<Rightarrow> int" where
  "order_sign desc = (if desc then - 1 else 1)"

definition page_key :: "sort_field \<Rightarrow> bool \<Rightarrow> task \<Rightarrow> int \<times> int" where
  "page_key f desc t = (order_sign desc * sort_time f t, order_sign desc * int (t_id t))"

definition task_cursor_of :: "bool \<Rightarrow> (int \<times> int) option \<Rightarrow> task_cursor" where
  "task_cursor_of desc c = (case c of None \<Rightarrow> TNoCursor
     | Some (v, i) \<Rightarrow> TCursor (nat (order_sign desc * i)) (SVTime (order_sign desc * v)))"

definition field_name :: "sort_field \<Rightarrow> string" where
  "field_name f = (if f = ByUpdated then ''updated'' else ''created'')"

definition ListTasks_page ::
  "bool \<Rightarrow> ListTasksParams \<Rightarrow> sort_field \<Rightarrow> bool \<Rightarrow> db \<Rightarrow> nat \<Rightarrow> (int \<times> int) option \<Rightarrow> task list" where
  "ListTasks_page nf p f desc d L c =
    (case ListTasks nf (p\<lparr>lt_Limit := int L, lt_Labels := [], lt_SortField := field_name f,
         lt_SortOrder := (if desc then ''desc'' else ''asc''), lt_Cursor := task_cursor_of desc c\<rparr>) d of
       Inl _ \<Rightarrow> [] | Inr (ets, _) \<Rightarrow> map e_task ets)"

abbreviation time_field :: "sort_field \<Rightarrow> bool" where
  "time_field f \<equiv> f = ByCreated \<or> f = ByUpdated"

lemma sort_column_time: "time_field f \<Longrightarrow> sort_column f t = Some (SVTime (sort_time f t))"
  by (auto simp: sort_column_def sort_time_def)

lemma sval_less [simp]: "SVTime a < SVTime b \<longleftrightarrow> a < b"
  by (auto simp: less_sval_def)

lemma keysetPredTask_key:
  assumes "time_field f"
  shows "keysetPredTask f (SVTime (order_sign desc * v)) (nat (order_sign desc * (order_sign desc * int i))) desc t
    \<longleftrightarrow> (v, order_sign desc * int i) < page_key f desc t"
  using assms by (auto simp: keysetPredTask_def sort_column_time page_key_def order_sign_def)

lemma distinct_page_key: "distinct (map t_id ts) \<Longrightarrow> distinct (map (page_key f desc) (filter P ts))"
  by (induction ts) (auto simp: page_key_def order_sign_def)

lemma order_rows_key:
  assumes "time_field f" and "distinct (map t_id rows)"
  shows "order_rows nf f desc rows = sort_key (page_key f desc) rows"
proof -
  have inj: "inj_on (page_key f desc) (set rows)" "inj_on (order_key nf f) (set rows)"
    using assms(2) by (auto simp: inj_on_def page_key_def order_key_def order_sign_def distinct_map)
  have ne: "f \<noteq> ByOther" using assms(1) by auto
  have rows: "order_rows nf f desc rows
      = (if desc then rev (sort_key (order_key nf f) rows) else sort_key (order_key nf f) rows)"
    using ne by (simp add: order_rows_def)
  have "sorted (map (order_key nf f) (sort_key (order_key nf f) rows))" by simp
  then have lex: "sorted_wrt (\<lambda>a b. order_key nf f a \<le> order_key nf f b) (sort_key (order_key nf f) rows)"
    by (simp add: sorted_map)
  have "sorted_wrt (\<lambda>a b. page_key f desc a \<le> page_key f desc b) (order_rows nf f desc rows)"
  proof (cases desc)
    case True
    have "page_key f True b \<le> page_key f True a" if "order_key nf f a \<le> order_key nf f b" for a b
      using that assms(1)
      by (auto simp: order_key_def page_key_def order_sign_def sort_column_time less_eq_option_def)
    then show ?thesis
      using lex unfolding rows by (auto simp: True sorted_wrt_rev elim: sorted_wrt_mono_rel [rotated])
  next
    case False
    have "page_key f False a \<le> page_key f False b" if "order_key nf f a \<le> order_key nf f b" for a b
      using that assms(1)
      by (auto simp: order_key_def page_key_def order_sign_def sort_column_time less_eq_option_def)
    then show ?thesis
      using lex unfolding rows by (auto simp: False elim: sorted_wrt_mono_rel [rotated])
  qed
  then have "sorted (map (page_key f desc) (order_rows nf f desc rows))" by (simp add: sorted_map)
  moreover have "mset rows = mset (order_rows nf f desc rows)" by (simp add: rows)
  ultimately show ?thesis using sort_key_inj_key_eq [OF _ inj(1)] by metis
qed

definition listed :: "ListTasksParams \<Rightarrow> db \<Rightarrow> task list" where
  "listed p d = filter (list_preds p) (d_tasks d)"

lemma list_preds_cong [simp]:
  "list_preds (p\<lparr>lt_Limit := a, lt_Labels := b, lt_SortField := g, lt_SortOrder := h, lt_Cursor := c\<rparr>)
     = list_preds p"
  by (simp add: fun_eq_iff list_preds_def)

lemma ListTasks_page_law:
  assumes "db_ok d" and "0 < L" and "set_option c \<subseteq> page_key f desc ` set (listed p d)"
    and f: "time_field f"
  shows "ListTasks_page nf p f desc d L c
    = take L (sort_key (page_key f desc) (after_cursor (page_key f desc) c (listed p d)))"
proof -
  have name: "sort_field_of (field_name f) = f" using f by (auto simp: sort_field_of_def field_name_def)
  have dist: "distinct (map t_id (filter P (listed p d)))" for P
    using db_ok_distinct [OF assms(1)] by (simp add: listed_def distinct_map_filter_key)
  have ord: "order_rows nf f desc (filter P (listed p d)) = sort_key (page_key f desc) (filter P (listed p d))" for P
    using f dist by (rule order_rows_key)
  have page: "ListTasks_page nf p f desc d L c = take L (order_rows nf f desc (filter (\<lambda>t. case task_cursor_of desc c of
       TCursor i v \<Rightarrow> keysetPredTask f v i desc t | _ \<Rightarrow> True) (listed p d)))"
    if "task_cursor_of desc c \<noteq> TBadCursor"
    using that assms(2)
    by (auto simp: ListTasks_page_def ListTasks_def Let_def name limit_rows_def listed_def comp_def
        split: task_cursor.splits)
  show ?thesis
  proof (cases c)
    case None
    then show ?thesis using page ord [of "\<lambda>t. True"] by (simp add: task_cursor_of_def after_cursor_def)
  next
    case (Some k)
    then obtain t where "k = page_key f desc t" using assms(3) by auto
    then have k: "k = (order_sign desc * sort_time f t, order_sign desc * int (t_id t))"
      by (simp add: page_key_def)
    have "task_cursor_of desc c = TCursor (nat (order_sign desc * (order_sign desc * int (t_id t))))
        (SVTime (order_sign desc * (order_sign desc * sort_time f t)))"
      by (simp add: task_cursor_of_def Some k)
    then show ?thesis
      using page ord keysetPredTask_key [OF f, where desc = desc] by (simp add: after_cursor_def Some k)
  qed
qed

interpretation task_pages: keyset_listing db_ok "page_key f desc" "listed p"
    "\<lambda>d L c. if time_field f then ListTasks_page nf p f desc d L c
             else take L (sort_key (page_key f desc) (after_cursor (page_key f desc) c (listed p d)))"
  for nf p f desc
proof
  fix d assume "db_ok d"
  then show "distinct (map (page_key f desc) (listed p d))"
    unfolding listed_def by (intro distinct_page_key db_ok_distinct)
qed (simp add: ListTasks_page_law)


definition ex_list :: ListTasksParams where
  "ex_list = \<lparr>lt_CollectionID = Some 1, lt_Phase = Some PhaseOpen, lt_Stage = None,
     lt_AssigneeID = None, lt_Unassigned = False, lt_Priority = None, lt_Type = None, lt_Labels = [],
     lt_ParentTaskID = None, lt_SortField = [], lt_SortOrder = [], lt_Limit = 0,
     lt_Cursor = TNoCursor\<rparr>"


end
