(* ===== verification/FT_Import.thy ===== *)
theory FT_Import
  imports FT_TaskFacts FT_Rows FT_Example
begin

text \<open>
  Two bulk writers of \<open>internal/store/entstore.go\<close>: \<open>ImportCollection\<close>, which creates a whole
  collection in one transaction with the identifiers and instants it is given, and
  \<open>migratePersistedTaskState\<close>, which at start-up rewrites the stages of earlier releases.
\<close>

section \<open>Importing a collection\<close>

text \<open>The zero \<open>time.Time\<close>: an imported instant that is zero takes the default.\<close>

definition zero_time :: time where
  "zero_time = - 62135596800000000000"

definition or_now :: "env \<Rightarrow> time \<Rightarrow> time" where
  "or_now e t = (if t \<noteq> zero_time then t else now e)"

record ImportUser =
  iu_ID :: uuid
  iu_DisplayName :: string
  iu_Email :: "string option"
  iu_Type :: string
  iu_Status :: string

record ImportCollection =
  ic_Name :: string
  ic_Description :: string
  ic_Platform :: platform
  ic_RemoteData :: "jmap option"
  ic_CreatedAt :: time
  ic_UpdatedAt :: time

record ImportTask =
  im_ID :: uuid
  im_Title :: string
  im_Description :: string
  im_Phase :: phase
  im_Stage :: stage
  im_HoldReason :: "hold_reason option"
  im_NativeLabel :: string
  im_Type :: string
  im_Priority :: "priority option"
  im_Rank :: "int option"
  im_AssigneeID :: "uuid option"
  im_ParentTaskID :: "uuid option"
  im_StartDate :: "time option"
  im_DueDate :: "time option"
  im_ClosedAt :: "time option"
  im_CreatedAt :: time
  im_UpdatedAt :: time
  im_AcceptanceCriteria :: "string option"
  im_Labels :: "string list"
  im_Repo :: string
  im_Branch :: string
  im_CIStatus :: "ci_status option"
  im_PullRequests :: "(string \<times> string) list list"
  im_RemoteData :: "jmap option"
  im_Version :: string

record ImportComment =
  ico_ID :: uuid
  ico_TaskID :: uuid
  ico_AuthorID :: uuid
  ico_Body :: string
  ico_CreatedAt :: time
  ico_UpdatedAt :: time

record ImportRelationship =
  ire_ID :: uuid
  ire_SourceTaskID :: uuid
  ire_TargetTaskID :: uuid
  ire_Type :: rel_type

record ImportChange =
  ich_ID :: uuid
  ich_TaskID :: uuid
  ich_AuthorID :: uuid
  ich_FieldName :: string
  ich_OldValue :: rendered
  ich_NewValue :: rendered
  ich_CreatedAt :: time

record ImportCollectionParams =
  ip_Users :: "ImportUser list"
  ip_Collection :: ImportCollection
  ip_Tasks :: "ImportTask list"
  ip_Comments :: "ImportComment list"
  ip_Relationships :: "ImportRelationship list"
  ip_Changes :: "ImportChange list"

definition import_user :: "env \<Rightarrow> db \<Rightarrow> ImportUser \<Rightarrow> store_err + db" where
  "import_user e d u =
    (if user_exists (iu_ID u) d then Inr d
     else insert_user \<lparr>u_id = iu_ID u, u_email = iu_Email u, u_name = iu_DisplayName u,
       u_type = iu_Type u, u_status = iu_Status u, u_created = now e, u_updated = now e\<rparr> d)"

definition import_task :: "env \<Rightarrow> uuid \<Rightarrow> db \<Rightarrow> ImportTask \<Rightarrow> store_err + db" where
  "import_task e coll d t = insert_task
    \<lparr>t_id = im_ID t, t_title = im_Title t, t_description = im_Description t, t_collection = coll,
     t_phase = im_Phase t, t_stage = im_Stage t, t_hold = im_HoldReason t,
     t_native_label = im_NativeLabel t, t_type = im_Type t, t_priority = im_Priority t,
     t_rank = im_Rank t, t_assignee = im_AssigneeID t, t_parent = im_ParentTaskID t,
     t_start = im_StartDate t, t_due = im_DueDate t, t_closed = im_ClosedAt t,
     t_created = or_now e (im_CreatedAt t), t_updated = or_now e (im_UpdatedAt t),
     t_acceptance = im_AcceptanceCriteria t, t_remote = im_RemoteData t, t_labels = im_Labels t,
     t_repo = im_Repo t, t_branch = im_Branch t, t_ci = im_CIStatus t,
     t_prs = im_PullRequests t, t_version = im_Version t\<rparr> d"

definition import_comment :: "env \<Rightarrow> db \<Rightarrow> ImportComment \<Rightarrow> store_err + db" where
  "import_comment e d c = insert_comment
    \<lparr>cm_id = ico_ID c, cm_task = ico_TaskID c, cm_author = ico_AuthorID c, cm_body = ico_Body c,
     cm_created = or_now e (ico_CreatedAt c), cm_updated = or_now e (ico_UpdatedAt c)\<rparr> d"

definition import_rel :: "db \<Rightarrow> ImportRelationship \<Rightarrow> store_err + db" where
  "import_rel d r = insert_rel \<lparr>r_id = ire_ID r, r_src = ire_SourceTaskID r,
     r_tgt = ire_TargetTaskID r, r_type = ire_Type r\<rparr> d"

definition import_change :: "env \<Rightarrow> db \<Rightarrow> ImportChange \<Rightarrow> store_err + db" where
  "import_change e d c = insert_change
    \<lparr>ch_id = ich_ID c, ch_task = ich_TaskID c, ch_author = ich_AuthorID c,
     ch_field = ich_FieldName c, ch_old = ich_OldValue c, ch_new = ich_NewValue c,
     ch_created = or_now e (ich_CreatedAt c)\<rparr> d"

definition import_coll :: "env \<Rightarrow> uuid \<Rightarrow> ImportCollection \<Rightarrow> collection" where
  "import_coll e cid c = \<lparr>co_id = cid, co_name = ic_Name c, co_description = ic_Description c,
     co_platform = ic_Platform c, co_remote_id = [], co_remote = ic_RemoteData c,
     co_created = or_now e (ic_CreatedAt c), co_updated = or_now e (ic_UpdatedAt c)\<rparr>"

definition ImportCollection ::
  "env \<Rightarrow> ImportCollectionParams \<Rightarrow> db \<Rightarrow> store_err + (collection \<times> db)" where
  "ImportCollection e p d =
    thenE (foldE (import_user e) d (ip_Users p)) (\<lambda>d1.
    let cid = fresh_uuid e d1 in
    thenE (insert_coll (import_coll e cid (ip_Collection p)) (drawn d1)) (\<lambda>d2.
    thenE (foldE (import_task e cid) d2 (ip_Tasks p)) (\<lambda>d3.
    thenE (foldE (import_comment e) d3 (ip_Comments p)) (\<lambda>d4.
    thenE (foldE import_rel d4 (ip_Relationships p)) (\<lambda>d5.
    thenE (foldE (import_change e) d5 (ip_Changes p)) (\<lambda>d6.
    thenE (GetCollection cid d6) (\<lambda>coll. Inr (coll, d6))))))))"

section \<open>The state migration\<close>

definition oldPersistedTaskStages :: "string list" where
  "oldPersistedTaskStages =
    [''backlog'', ''ready'', ''waiting_for_input'', ''deferred'', ''scheduled'', ''blocked'']"

definition old_stage :: "stage \<Rightarrow> bool" where
  "old_stage s = List.member oldPersistedTaskStages (stage_str s)"

definition taskStateMigrationField :: string where
  "taskStateMigrationField = ''task_state_migration''"

record persistedTaskStateMigration =
  mg_stage :: stage
  mg_phase :: phase
  mg_hold :: "hold_reason option"
  mg_reason :: string

fun has_unsatisfied :: "db \<Rightarrow> uuid list \<Rightarrow> bool" where
  "has_unsatisfied d [] = False"
| "has_unsatisfied d (i # is) =
    (case get_task i d of
       None \<Rightarrow> has_unsatisfied d is
     | Some b \<Rightarrow> if \<not> terminalStageSatisfiesDependency (t_stage b) then True else has_unsatisfied d is)"

definition persistedTaskHasUnsatisfiedBlocker :: "db \<Rightarrow> etask \<Rightarrow> bool" where
  "persistedTaskHasUnsatisfiedBlocker d et = has_unsatisfied d (blocker_ids et)"

definition persistedTaskStateMigrationForTask ::
  "env \<Rightarrow> db \<Rightarrow> etask \<Rightarrow> store_err + persistedTaskStateMigration" where
  "persistedTaskStateMigrationForTask e d et =
    (let t = e_task et; s = stage_str (t_stage t);
         accepted = (\<lambda>h r. Inr \<lparr>mg_stage = StageAccepted, mg_phase = PhaseOpen, mg_hold = h, mg_reason = r\<rparr>)
     in if s = ''backlog'' \<or> s = ''ready'' then accepted None (''old_'' @ s @ ''_stage_to_accepted'')
        else if s = ''waiting_for_input'' then
          accepted (Some HoldReasonWaitingForInput) ''old_waiting_for_input_stage_to_hold_reason''
        else if s = ''deferred'' then
          (if (case t_start t of None \<Rightarrow> False | Some x \<Rightarrow> x > now e)
           then accepted None ''old_deferred_stage_future_start_date_cleared_hold''
           else accepted (Some HoldReasonDeferred) ''old_deferred_stage_to_hold_reason'')
        else if s = ''scheduled'' then
          (if t_start t \<noteq> None then accepted None ''old_scheduled_stage_with_start_date''
           else accepted (Some HoldReasonDeferred) ''old_scheduled_stage_without_start_date_to_deferred'')
        else if s = ''blocked'' then
          (if persistedTaskHasUnsatisfiedBlocker d et
           then accepted None ''old_blocked_stage_with_blocker_to_dependency_availability''
           else accepted (Some HoldReasonWaitingForInput)
                  ''old_blocked_stage_without_blocker_to_waiting_for_input'')
        else Inl ErrOther)"

text \<open>The two JSON objects of the migration note; keys in the order \<open>json.Marshal\<close> sorts them.\<close>

definition migration_old_value :: "task \<Rightarrow> string \<Rightarrow> rendered" where
  "migration_old_value t reason = RJson
    [(''has_blocker'', JBool (reason = ''old_blocked_stage_with_blocker_to_dependency_availability'')),
     (''native_label'', JStr (t_native_label t)), (''phase'', JStr (phase_str (t_phase t))),
     (''stage'', JStr (stage_str (t_stage t))),
     (''start_date'', case t_start t of None \<Rightarrow> JNull | Some x \<Rightarrow> JNum x)]"

definition migration_new_value :: "persistedTaskStateMigration \<Rightarrow> rendered" where
  "migration_new_value m = RJson
    ((case mg_hold m of None \<Rightarrow> [] | Some h \<Rightarrow> [(''hold_reason'', JStr (hold_reason_str h))])
     @ [(''reason'', JStr (mg_reason m)), (''stage'', JStr (stage_str (mg_stage m)))])"

definition migrate_task :: "env \<Rightarrow> db \<Rightarrow> etask \<Rightarrow> store_err + db" where
  "migrate_task e d et =
    thenE (persistedTaskStateMigrationForTask e d et) (\<lambda>m.
    let t = e_task et in
    thenE (update_tasks e True (\<lambda>s. t_id s = t_id t \<and> t_stage s = t_stage t \<and> old_stage (t_stage s))
        (\<lambda>s. s\<lparr>t_stage := mg_stage m, t_phase := mg_phase m, t_hold := mg_hold m\<rparr>) d) (\<lambda>(n, d1).
      if n = 0 then Inr d1
      else if list_ex (\<lambda>c. ch_task c = t_id t \<and> ch_field c = taskStateMigrationField) (d_changes d1)
      then Inr d1
      else create_change e (t_id t) uuid_Nil d1
             (taskStateMigrationField, migration_old_value t (mg_reason m), migration_new_value m)))"

definition migratePersistedTaskStates :: "env \<Rightarrow> etask list \<Rightarrow> db \<Rightarrow> store_err + db" where
  "migratePersistedTaskStates e tasks d = foldE (migrate_task e) d tasks"

definition migratePersistedTaskState :: "env \<Rightarrow> db \<Rightarrow> store_err + db" where
  "migratePersistedTaskState e d =
    (let tasks = map (with_edges d) (filter (\<lambda>t. old_stage (t_stage t)) (d_tasks d)) in
     if tasks = [] then Inr d else migratePersistedTaskStates e tasks d)"

section \<open>Both are composed of statements\<close>

context db_step
begin

lemma R_import_row:
  "import_user e d u = Inr d' \<Longrightarrow> R d d'"
  "import_task e cid d t = Inr d' \<Longrightarrow> R d d'"
  "import_comment e d c = Inr d' \<Longrightarrow> R d d'"
  "import_rel d r = Inr d' \<Longrightarrow> R d d'"
  "import_change e d h = Inr d' \<Longrightarrow> R d d'"
  unfolding import_user_def import_task_def import_comment_def import_rel_def import_change_def
  by (simp split: if_splits, simp add: R_refl, erule R_insert_user, erule R_insert_task,
      erule R_insert_comment, erule R_insert_rel, erule R_insert_change)

lemma R_imports:
  "foldE (import_user e) d us = Inr d' \<Longrightarrow> R d d'"
  "foldE (import_task e cid) d ts = Inr d' \<Longrightarrow> R d d'"
  "foldE (import_comment e) d cs = Inr d' \<Longrightarrow> R d d'"
  "foldE import_rel d rs = Inr d' \<Longrightarrow> R d d'"
  "foldE (import_change e) d hs = Inr d' \<Longrightarrow> R d d'"
  by (erule R_fold_steps [rotated], erule R_import_row)+

lemma R_ImportCollection:
  assumes "ImportCollection e p d = Inr (c, d')"
  shows "R d d'"
proof -
  from assms obtain d1 d2 d3 d4 d5 where steps:
    "foldE (import_user e) d (ip_Users p) = Inr d1"
    "insert_coll (import_coll e (fresh_uuid e d1) (ip_Collection p)) (drawn d1) = Inr d2"
    "foldE (import_task e (fresh_uuid e d1)) d2 (ip_Tasks p) = Inr d3"
    "foldE (import_comment e) d3 (ip_Comments p) = Inr d4"
    "foldE import_rel d4 (ip_Relationships p) = Inr d5"
    "foldE (import_change e) d5 (ip_Changes p) = Inr d'"
    by (auto simp: ImportCollection_def Let_def thenE_Inr)
  have "R d d2" using R_imports(1) [OF steps(1)] R_insert_coll [OF steps(2)] R_drawn R_trans by metis
  moreover have "R d2 d4" using R_imports(2) [OF steps(3)] R_imports(3) [OF steps(4)] by (rule R_trans)
  moreover have "R d4 d'" using R_imports(4) [OF steps(5)] R_imports(5) [OF steps(6)] by (rule R_trans)
  ultimately show ?thesis by (metis R_trans)
qed

lemma R_migrate_task:
  assumes "migrate_task e d et = Inr d'"
  shows "R d d'"
proof -
  from assms obtain m n d1 where m: "persistedTaskStateMigrationForTask e d et = Inr m"
    and u: "update_tasks e True (\<lambda>s. t_id s = t_id (e_task et) \<and> t_stage s = t_stage (e_task et)
        \<and> old_stage (t_stage s))
      (\<lambda>s. s\<lparr>t_stage := mg_stage m, t_phase := mg_phase m, t_hold := mg_hold m\<rparr>) d = Inr (n, d1)"
    and rest: "d' = d1 \<or> create_change e (t_id (e_task et)) uuid_Nil d1
      (taskStateMigrationField, migration_old_value (e_task et) (mg_reason m), migration_new_value m) = Inr d'"
    by (auto simp: migrate_task_def Let_def thenE_Inr split: prod.splits if_splits)
  have "mg_stage m = StageAccepted"
    using m by (auto simp: persistedTaskStateMigrationForTask_def Let_def split: if_splits)
  then have "keeps_row (\<lambda>s. s\<lparr>t_stage := mg_stage m, t_phase := mg_phase m, t_hold := mg_hold m\<rparr>)"
    by (simp add: keeps_row_def declared_stage_def)
  with u have "R d d1" by (rule R_update_tasks)
  with rest show ?thesis by (blast intro: R_trans R_create_change)
qed

lemma R_migrate: "migratePersistedTaskState e d = Inr d' \<Longrightarrow> R d d'"
  unfolding migratePersistedTaskState_def migratePersistedTaskStates_def Let_def
  by (auto split: if_splits intro: R_refl R_fold_steps [of _ "migrate_task e"] R_migrate_task)

end

section \<open>What the migration does\<close>

text \<open>The row of a task after the migration, from its row before.\<close>

definition migrated_row :: "env \<Rightarrow> task \<Rightarrow> task \<Rightarrow> bool" where
  "migrated_row e t s \<longleftrightarrow> (\<exists>h.
     s = t\<lparr>t_stage := StageAccepted, t_phase := PhaseOpen, t_hold := h, t_updated := now e\<rparr>
     \<and> (h = Some HoldReasonDeferred \<longrightarrow> \<not> future_start (now e) t))"

definition keeps_or_migrates :: "env \<Rightarrow> task \<Rightarrow> task \<Rightarrow> bool" where
  "keeps_or_migrates e t s \<longleftrightarrow> s = t \<or> (old_stage (t_stage t) \<and> migrated_row e t s)"

definition settled :: "db \<Rightarrow> uuid \<Rightarrow> bool" where
  "settled d i \<longleftrightarrow> (\<forall>t. get_task i d = Some t \<longrightarrow> \<not> old_stage (t_stage t))"

definition migrating :: "env \<Rightarrow> db \<Rightarrow> db \<Rightarrow> bool" where
  "migrating e d s \<longleftrightarrow> (\<forall>j. rel_option (keeps_or_migrates e) (get_task j d) (get_task j s))"

lemma accepted_not_old: "\<not> old_stage StageAccepted"
  by (simp add: old_stage_def oldPersistedTaskStages_def stage_str_def)

lemma migrated_fields:
  assumes "migrated_row e t s"
  shows "t_stage s = StageAccepted" "t_phase s = PhaseOpen" "t_id s = t_id t"
    "t_collection s = t_collection t"
  using assms by (auto simp: migrated_row_def)

lemma migration_for_task:
  assumes "persistedTaskStateMigrationForTask e d et = Inr m"
  shows "mg_stage m = StageAccepted \<and> mg_phase m = PhaseOpen
    \<and> (mg_hold m = Some HoldReasonDeferred \<longrightarrow> \<not> future_start (now e) (e_task et))"
  using assms
  by (auto simp: persistedTaskStateMigrationForTask_def Let_def future_start_def split: if_splits)

lemma migrate_task_tasks:
  assumes "migrate_task e s et = Inr s'"
  obtains m where "persistedTaskStateMigrationForTask e s et = Inr m"
    "\<And>j. get_task j s' = map_option (\<lambda>r. if t_id r = t_id (e_task et)
        \<and> t_stage r = t_stage (e_task et) \<and> old_stage (t_stage r)
      then r\<lparr>t_stage := mg_stage m, t_phase := mg_phase m, t_hold := mg_hold m, t_updated := now e\<rparr>
      else r) (get_task j s)"
proof -
  from assms obtain m n d1 where m: "persistedTaskStateMigrationForTask e s et = Inr m"
    and u: "update_tasks e True (\<lambda>r. t_id r = t_id (e_task et) \<and> t_stage r = t_stage (e_task et)
        \<and> old_stage (t_stage r))
      (\<lambda>r. r\<lparr>t_stage := mg_stage m, t_phase := mg_phase m, t_hold := mg_hold m\<rparr>) s = Inr (n, d1)"
    and rest: "s' = d1 \<or> create_change e (t_id (e_task et)) uuid_Nil d1
      (taskStateMigrationField, migration_old_value (e_task et) (mg_reason m), migration_new_value m) = Inr s'"
    by (auto simp: migrate_task_def Let_def thenE_Inr split: prod.splits if_splits)
  have "d_tasks s' = d_tasks d1" using rest create_change_keeps by blast
  then have same: "get_task j s' = get_task j d1" for j by (rule get_task_cong)
  show ?thesis
  proof (rule that [OF m])
    fix j
    show "get_task j s' = map_option (\<lambda>r. if t_id r = t_id (e_task et)
        \<and> t_stage r = t_stage (e_task et) \<and> old_stage (t_stage r)
      then r\<lparr>t_stage := mg_stage m, t_phase := mg_phase m, t_hold := mg_hold m, t_updated := now e\<rparr>
      else r) (get_task j s)"
      unfolding same get_task_update [OF u] by (rule map_option_cong) (auto simp: task_same_update)
  qed
qed

lemma migrate_task_step:
  assumes run: "migrate_task e s et = Inr s'" and inv: "migrating e d s"
    and orig: "get_task (t_id (e_task et)) d = Some (e_task et)"
  shows "migrating e d s' \<and> settled s' (t_id (e_task et)) \<and> (\<forall>j. settled s j \<longrightarrow> settled s' j)"
  using run
proof (rule migrate_task_tasks)
  fix m :: persistedTaskStateMigration
  let ?i = "t_id (e_task et)"
  let ?hit = "\<lambda>r. t_id r = ?i \<and> t_stage r = t_stage (e_task et) \<and> old_stage (t_stage r)"
  let ?new = "\<lambda>r. r\<lparr>t_stage := mg_stage m, t_phase := mg_phase m, t_hold := mg_hold m, t_updated := now e\<rparr>"
  assume m: "persistedTaskStateMigrationForTask e s et = Inr m"
    and at: "\<And>j. get_task j s' = map_option (\<lambda>r. if ?hit r then ?new r else r) (get_task j s)"
  note mg = migration_for_task [OF m]
  have keep: "keeps_or_migrates e t (if ?hit r then ?new r else r)"
    if t: "get_task j d = Some t" and r: "keeps_or_migrates e t r" for j t r
  proof (cases "?hit r")
    case True
    have "r = t"
      using r True accepted_not_old by (auto simp: keeps_or_migrates_def dest: migrated_fields(1))
    moreover have "j = ?i" using get_task_id [OF t] True \<open>r = t\<close> by metis
    then have "t = e_task et" using t orig by (metis option.inject)
    ultimately show ?thesis using True mg by (auto simp: keeps_or_migrates_def migrated_row_def)
  next
    case False
    then show ?thesis using r by (simp only: if_False)
  qed
  have "rel_option (keeps_or_migrates e) (get_task j d) (get_task j s')" for j
    using inv [unfolded migrating_def, rule_format, of j] keep [of j] unfolding at
    by (cases "get_task j d"; cases "get_task j s") auto
  moreover have "settled s' j" if "settled s j" for j
    using that mg accepted_not_old unfolding settled_def at by (auto split: if_splits)
  moreover have "settled s' ?i"
  proof (cases "get_task ?i s")
    case None
    then show ?thesis by (simp add: settled_def at)
  next
    case (Some r)
    then have "keeps_or_migrates e (e_task et) r"
      using inv [unfolded migrating_def, rule_format, of ?i] orig by simp
    then consider "r = e_task et" | "t_stage r = StageAccepted"
      by (auto simp: keeps_or_migrates_def dest: migrated_fields(1))
    then show ?thesis
      by cases (use Some mg accepted_not_old get_task_id [OF Some] in \<open>auto simp: settled_def at\<close>)
  qed
  ultimately show ?thesis by (simp add: migrating_def)
qed

lemma migrate_all:
  assumes "foldE (migrate_task e) s ets = Inr s'" and "migrating e d s"
    and "\<forall>et\<in>set ets. get_task (t_id (e_task et)) d = Some (e_task et)"
  shows "migrating e d s' \<and> (\<forall>et\<in>set ets. settled s' (t_id (e_task et)))
    \<and> (\<forall>j. settled s j \<longrightarrow> settled s' j)"
  using assms
proof (induction ets arbitrary: s)
  case (Cons et ets)
  obtain s1 where s1: "migrate_task e s et = Inr s1" and rest: "foldE (migrate_task e) s1 ets = Inr s'"
    using Cons.prems(1) by (auto simp: thenE_Inr)
  note step = migrate_task_step [OF s1 Cons.prems(2)]
  have "get_task (t_id (e_task et)) d = Some (e_task et)" using Cons.prems(3) by simp
  with step Cons.IH [OF rest] Cons.prems(3) show ?case by simp
qed simp

text \<open>
  The start-up migration of task states: afterwards no task is in a stage of an earlier
  release, every task that was in one is accepted and open (deferred only when its start
  date is not in the future) with its other fields unchanged, every other task is as it was,
  and running the migration again changes nothing.
\<close>

theorem migration_result:
  assumes "db_ok d" and "migratePersistedTaskState e d = Inr d'"
  shows "(\<forall>t\<in>set (d_tasks d'). \<not> old_stage (t_stage t))
    \<and> (\<forall>t\<in>set (d_tasks d). \<exists>s. get_task (t_id t) d' = Some s
          \<and> (if old_stage (t_stage t) then migrated_row e t s else s = t))
    \<and> migratePersistedTaskState e' d' = Inr d'"
proof -
  let ?ets = "map (with_edges d) (filter (\<lambda>t. old_stage (t_stage t)) (d_tasks d))"
  have start: "migrating e d d"
    by (simp add: migrating_def keeps_or_migrates_def option.rel_refl)
  have orig: "\<forall>et\<in>set ?ets. get_task (t_id (e_task et)) d = Some (e_task et)"
    using assms(1) by (auto simp: get_task_iff)
  have run: "foldE (migrate_task e) d ?ets = Inr d'"
    using assms(2) unfolding migratePersistedTaskState_def migratePersistedTaskStates_def Let_def
    by (cases "?ets = []") simp_all
  have inv: "migrating e d d'" and fin: "\<forall>et\<in>set ?ets. settled d' (t_id (e_task et))"
    and keep: "\<forall>j. settled d j \<longrightarrow> settled d' j"
    using migrate_all [OF run start orig] by blast+
  have all: "settled d' j" for j
  proof (cases "settled d j")
    case False
    then obtain t where "get_task j d = Some t" "old_stage (t_stage t)" by (auto simp: settled_def)
    then have "with_edges d t \<in> set ?ets" "j = t_id t" using get_task_Some by fastforce+
    with fin show ?thesis by fastforce
  qed (use keep in blast)
  have ok': "db_ok d'" using integrity.R_migrate [OF assms(2)] assms(1) by blast
  have clean: "\<forall>t\<in>set (d_tasks d'). \<not> old_stage (t_stage t)"
    using all ok' by (auto simp: settled_def get_task_iff)
  have "\<exists>s. get_task (t_id t) d' = Some s \<and> (if old_stage (t_stage t) then migrated_row e t s else s = t)"
    if t: "t \<in> set (d_tasks d)" for t
  proof -
    have "get_task (t_id t) d = Some t" using t assms(1) by (simp add: get_task_iff)
    then obtain s where s: "get_task (t_id t) d' = Some s" "keeps_or_migrates e t s"
      using inv unfolding migrating_def by (metis option.rel_cases option.distinct(1) option.inject)
    then have "\<not> old_stage (t_stage s)" using all [of "t_id t"] by (simp add: settled_def)
    with s show ?thesis by (auto simp: keeps_or_migrates_def)
  qed
  moreover have "migratePersistedTaskState e' d' = Inr d'"
  proof -
    have "filter (\<lambda>t. old_stage (t_stage t)) (d_tasks d') = []"
      using clean by (simp add: filter_empty_conv)
    then show ?thesis by (simp add: migratePersistedTaskState_def)
  qed
  ultimately show ?thesis using clean by blast
qed

definition ex_old_db :: db where
  "ex_old_db = ex_db\<lparr>d_tasks := [ex_task 13 PhaseOnHold (StageOther ''deferred'')], d_rels := []\<rparr>"

lemma ex_old_db_ok: "db_ok ex_old_db"
  by (simp add: db_ok_def tasks_ok_def rels_ok_def changes_ok_def comments_ok_def colls_ok_def
      users_ok_def tokens_ok_def accounts_ok_def ex_old_db_def ex_db_def coll_ids_def ex_coll_def
      ex_user_def)

lemma ex_old_runs: "\<exists>d'. migratePersistedTaskState ex_env ex_old_db = Inr d'"
  by (simp add: migratePersistedTaskState_def migratePersistedTaskStates_def old_stage_def
      oldPersistedTaskStages_def ex_old_db_def ex_defs stage_str_def migrate_task_def Let_def
      persistedTaskStateMigrationForTask_def update_tasks_def task_row_ok_def create_change_def
      insert_change_def taskStateMigrationField_def task_ids_def drawn_def)

theorem migration_result_witness:
  "\<exists>d' s. migratePersistedTaskState ex_env ex_old_db = Inr d'
    \<and> get_task 13 d' = Some s \<and> t_stage s = StageAccepted"
proof -
  obtain d' where run: "migratePersistedTaskState ex_env ex_old_db = Inr d'" using ex_old_runs by blast
  let ?t = "ex_task 13 PhaseOnHold (StageOther ''deferred'')"
  have t: "?t \<in> set (d_tasks ex_old_db)" "old_stage (t_stage ?t)"
    by (simp_all add: ex_old_db_def old_stage_def oldPersistedTaskStages_def stage_str_def)
  obtain s where "get_task (t_id ?t) d' = Some s" "migrated_row ex_env ?t s"
    using migration_result [OF ex_old_db_ok run] t by meson
  then show ?thesis using run migrated_fields(1) by (metis ex_task_simps(1))
qed

end
