(* ===== verification/FT_StoreSteps.thy ===== *)
theory FT_StoreSteps
  imports FT_TaskProps FT_Import
begin

text \<open>
  The store as a transition system: a step is one successful write operation of \<open>EntStore\<close>
  by some client. The operations that read first and write with a compare-and-swap may have
  read any database (the parameter \<open>d0\<close> of the rules), so the runs of the system include the
  interleavings of concurrent clients. What every statement keeps holds along every run.
\<close>

section \<open>Row operations are composed of statements\<close>

context db_step
begin

lemmas R_fresh = R_trans [OF R_drawn R_insert_coll] R_trans [OF R_drawn R_insert_comment]
  R_trans [OF R_drawn R_insert_user] R_trans [OF R_drawn R_insert_token]
  R_trans [OF R_drawn R_insert_account]

lemma R_CreateCollection: "CreateCollection e p d = Inr (c, d') \<Longrightarrow> R d d'"
  unfolding CreateCollection_def Let_def
  by (auto simp: thenE_Inr intro: R_fresh)

lemma R_UpdateCollection: "UpdateCollection e i p d = Inr (c, d') \<Longrightarrow> R d d'"
  unfolding UpdateCollection_def Let_def
  by (auto split: if_splits elim!: R_update_coll simp: set_if_def keeps_coll_def split: option.splits)

lemma R_AddComment: "AddComment e p d = Inr (c, d') \<Longrightarrow> R d d'"
  unfolding AddComment_def Let_def by (auto simp: thenE_Inr intro: R_fresh)

lemma R_CreateUser: "CreateUser e p d = Inr (u, d') \<Longrightarrow> R d d'"
  unfolding CreateUser_def Let_def by (auto simp: thenE_Inr intro: R_fresh)

lemma R_CreateAPIToken: "CreateAPIToken sha raw e p d = Inr (k, d') \<Longrightarrow> R d d'"
  unfolding CreateAPIToken_def Let_def
  by (auto simp: thenE_Inr intro: R_fresh)

lemma R_UpdateAPITokenScopes: "UpdateAPITokenScopes i s d = Inr (k, d') \<Longrightarrow> R d d'"
  unfolding UpdateAPITokenScopes_def by (rule R_update_token)

lemma R_RevokeAPIToken: "RevokeAPIToken i d = Inr d' \<Longrightarrow> R d d'"
  unfolding RevokeAPIToken_def by (rule R_delete_token)

lemma R_UpdateTokenLastUsed: "UpdateTokenLastUsed e i d = Inr d' \<Longrightarrow> R d d'"
  unfolding UpdateTokenLastUsed_def by (auto split: sum.splits elim: R_update_token)

lemma R_CreateLinkedAccount: "CreateLinkedAccount x e p d = Inr (a, d') \<Longrightarrow> R d d'"
  unfolding CreateLinkedAccount_def Let_def
  by (auto simp: thenE_Inr intro: R_fresh split: option.splits)

lemma R_UpdateLinkedAccount: "UpdateLinkedAccount x e i p d = Inr (a, d') \<Longrightarrow> R d d'"
  unfolding UpdateLinkedAccount_def by (auto split: if_splits elim: R_update_account)

lemma R_DeleteLinkedAccount: "DeleteLinkedAccount i d = Inr d' \<Longrightarrow> R d d'"
  unfolding DeleteLinkedAccount_def by (rule R_delete_account)

end

section \<open>Steps and runs\<close>

inductive store_step :: "db \<Rightarrow> db \<Rightarrow> bool" where
  create: "CreateTask e cp d = Inr (et, d') \<Longrightarrow> store_step d d'"
| insert_after: "InsertTasksAfter e ip d = Inr (ir, d') \<Longrightarrow> store_step d d'"
| update: "doUpdateTask e i up actor d0 d = Inr (et, d') \<Longrightarrow> store_step d d'"
| claim: "claim_attempt e i a v b (d0, d, d2) = Some (Inr (et, d')) \<Longrightarrow> store_step d d'"
| close: "close_attempt e i st v actor b (d0, d) = Some (Inr (et, d')) \<Longrightarrow>
    IsTerminalStage st \<Longrightarrow> store_step d d'"
| delete: "DeleteTask i d = Inr d' \<Longrightarrow> store_step d d'"
| create_coll: "CreateCollection e ccp d = Inr (c, d') \<Longrightarrow> store_step d d'"
| update_coll: "UpdateCollection e i ucp d = Inr (c, d') \<Longrightarrow> store_step d d'"
| comment: "AddComment e acp d = Inr (cm, d') \<Longrightarrow> store_step d d'"
| create_user: "CreateUser e cup d = Inr (u, d') \<Longrightarrow> store_step d d'"
| create_token: "CreateAPIToken sha raw e ckp d = Inr (kr, d') \<Longrightarrow> store_step d d'"
| scopes: "UpdateAPITokenScopes i ss d = Inr (k, d') \<Longrightarrow> store_step d d'"
| revoke: "RevokeAPIToken i d = Inr d' \<Longrightarrow> store_step d d'"
| last_used: "UpdateTokenLastUsed e i d = Inr d' \<Longrightarrow> store_step d d'"
| link: "CreateLinkedAccount x e clp d = Inr (la, d') \<Longrightarrow> store_step d d'"
| relink: "UpdateLinkedAccount x e i ulp d = Inr (la, d') \<Longrightarrow> store_step d d'"
| unlink: "DeleteLinkedAccount i d = Inr d' \<Longrightarrow> store_step d d'"
| import_all: "ImportCollection e icp d = Inr (c, d') \<Longrightarrow> store_step d d'"
| migrate: "migratePersistedTaskState e d = Inr d' \<Longrightarrow> store_step d d'"

context db_step
begin

lemma R_store_step: "store_step d d' \<Longrightarrow> R d d'"
proof (induction rule: store_step.induct)
  case (close e i st v actor b d0 d et d')
  have "declared_stage st" using close(2) by (cases st) (simp_all add: declared_stage_def IsTerminalStage_def)
  with close(1) show ?case by (rule R_close_attempt)
qed (fact R_CreateTask R_InsertTasksAfter R_doUpdateTask R_claim_attempt R_DeleteTask
      R_CreateCollection R_UpdateCollection R_AddComment R_CreateUser R_CreateAPIToken
      R_UpdateAPITokenScopes R_RevokeAPIToken R_UpdateTokenLastUsed R_CreateLinkedAccount
      R_UpdateLinkedAccount R_DeleteLinkedAccount R_ImportCollection R_migrate)+

lemma R_run: "store_step\<^sup>*\<^sup>* d d' \<Longrightarrow> R d d'"
  by (induction rule: rtranclp_induct) (auto intro: R_refl R_trans R_store_step)

end



end
