(* ===== verification/FT_Auth.thy ===== *)
theory FT_Auth
  imports FT_Scopes FT_Rows FT_Example
begin

text \<open>
  Authentication: the interceptors of \<open>internal/server/auth.go\<close>, which turn the headers of a
  request into a request context, and the token lookups they use: the one over the store
  (\<open>token_lookup.go\<close>) and the legacy one over a single shared token.

  The metadata of a request is the function \<open>md.Get\<close>, from a lower-case header name to its
  values. The hash SHA-256 is an argument. Recording the use of a token happens in a goroutine
  of its own after the request was let through: the interceptor returns the identifier to
  record, and \<open>RecordUsage\<close> is the step that the goroutine takes.
\<close>

section \<open>Reading the token\<close>

type_synonym md = "string \<Rightarrow> string list"

definition bearer :: string where "bearer = ''Bearer ''"

definition extractToken :: "md \<Rightarrow> string" where
  "extractToken m =
    (case m ''x-farmtable-token'' of
       v # _ \<Rightarrow> if v \<noteq> [] then v else
         (case m ''authorization'' of a # _ \<Rightarrow>
            if take 7 a = bearer then drop 7 a else [] | [] \<Rightarrow> [])
     | [] \<Rightarrow>
         (case m ''authorization'' of a # _ \<Rightarrow>
            if take 7 a = bearer then drop 7 a else [] | [] \<Rightarrow> []))"

definition isUnauthenticatedEndpoint :: "string \<Rightarrow> bool" where
  "isUnauthenticatedEndpoint fullMethod \<longleftrightarrow>
     fullMethod = ''/farmtable.v1.FarmTableService/GetVersion''
   \<or> fullMethod = ''/farmtable.v1.FarmTableService/GetStatus''"

section \<open>Token lookups\<close>

record TokenLookupResult =
  tl_UserID :: uuid
  tl_TokenID :: uuid
  tl_ExpiresAt :: "time option"
  tl_Scopes :: "string list"
  tl_CollectionIDs :: "uuid list"

type_synonym token_lookup = "string \<Rightarrow> store_err + TokenLookupResult"

definition StoreTokenLookup_LookupByHash :: "db \<Rightarrow> token_lookup" where
  "StoreTokenLookup_LookupByHash d hash =
    thenE (LookupToken hash d) (\<lambda>(k, _).
      Inr \<lparr>tl_UserID = k_user k, tl_TokenID = k_id k, tl_ExpiresAt = k_expires k,
           tl_Scopes = k_scopes k, tl_CollectionIDs = k_collections k\<rparr>)"

text \<open>\<open>RecordUsage\<close> only logs an error.\<close>

definition StoreTokenLookup_RecordUsage :: "env \<Rightarrow> uuid \<Rightarrow> db \<Rightarrow> db" where
  "StoreTokenLookup_RecordUsage e i d =
    (case UpdateTokenLastUsed e i d of Inl _ \<Rightarrow> d | Inr d' \<Rightarrow> d')"

definition legacy_LookupByHash :: "(string \<Rightarrow> string) \<Rightarrow> string \<Rightarrow> token_lookup" where
  "legacy_LookupByHash sha256 tok hash =
    (if hash \<noteq> hex_encode (sha256 tok) then Inl ErrOther
     else Inr \<lparr>tl_UserID = uuid_Nil, tl_TokenID = uuid_Nil, tl_ExpiresAt = None,
               tl_Scopes = [], tl_CollectionIDs = []\<rparr>)"

definition LegacyTokenAuth :: "(string \<Rightarrow> string) \<Rightarrow> string \<Rightarrow> token_lookup option" where
  "LegacyTokenAuth sha256 validToken =
    (if validToken = [] then None else Some (legacy_LookupByHash sha256 validToken))"

section \<open>The interceptors\<close>

text \<open>
  What both interceptors do before they call the handler: the context it gets, and the token
  whose use is recorded. \<open>None\<close> for the metadata is a context without incoming metadata.
\<close>

definition authenticate ::
  "token_lookup option \<Rightarrow> (string \<Rightarrow> string) \<Rightarrow> time \<Rightarrow> string \<Rightarrow> md option \<Rightarrow> ctx
    \<Rightarrow> code + (ctx \<times> uuid option)" where
  "authenticate lookup sha256 tnow fullMethod md c =
    (case lookup of
       None \<Rightarrow> Inr (c, None)
     | Some lookupByHash \<Rightarrow>
         let c1 = c\<lparr>c_enforced := True\<rparr> in
         if isUnauthenticatedEndpoint fullMethod then Inr (c1, None)
         else (case md of
             None \<Rightarrow> Inl Unauthenticated
           | Some m \<Rightarrow>
               let tok = extractToken m in
               if tok = [] then Inl Unauthenticated
               else (case lookupByHash (hex_encode (sha256 tok)) of
                   Inl _ \<Rightarrow> Inl Unauthenticated
                 | Inr r \<Rightarrow>
                     (case tl_ExpiresAt r of
                        Some t \<Rightarrow> if t < tnow then Inl Unauthenticated
                          else Inr (c1\<lparr>c_user := Some (tl_UserID r), c_scopes := tl_Scopes r,
                                 c_collections := tl_CollectionIDs r\<rparr>, Some (tl_TokenID r))
                      | None \<Rightarrow> Inr (c1\<lparr>c_user := Some (tl_UserID r), c_scopes := tl_Scopes r,
                                 c_collections := tl_CollectionIDs r\<rparr>, Some (tl_TokenID r))))))"

definition TokenAuthInterceptor ::
  "token_lookup option \<Rightarrow> (string \<Rightarrow> string) \<Rightarrow> time \<Rightarrow> string \<Rightarrow> md option \<Rightarrow> ctx
    \<Rightarrow> (ctx \<Rightarrow> code + 'a) \<Rightarrow> code + 'a" where
  "TokenAuthInterceptor lookup sha256 tnow fullMethod md c handler =
    thenE (authenticate lookup sha256 tnow fullMethod md c) (\<lambda>(c', _). handler c')"

text \<open>The stream interceptor hands the handler a stream whose context is the new one.\<close>

definition TokenAuthStreamInterceptor ::
  "token_lookup option \<Rightarrow> (string \<Rightarrow> string) \<Rightarrow> time \<Rightarrow> string \<Rightarrow> md option \<Rightarrow> ctx
    \<Rightarrow> (ctx \<Rightarrow> code + 'a) \<Rightarrow> code + 'a" where
  "TokenAuthStreamInterceptor lookup sha256 tnow fullMethod md ss handler =
    thenE (authenticate lookup sha256 tnow fullMethod md ss) (\<lambda>(ss', _). handler ss')"

section \<open>What the interceptor lets through\<close>

lemma LookupToken_Inr:
  assumes "db_ok d"
  shows "LookupToken h d = Inr (k, u) \<longleftrightarrow>
    k \<in> set (d_tokens d) \<and> k_hash k = h \<and> u = find (\<lambda>u. u_id u = k_user k) (d_users d)"
proof -
  have "distinct (map k_hash (d_tokens d))"
    using assms by (simp add: db_ok_def tokens_ok_def)
  then have "find (\<lambda>k. k_hash k = h) (d_tokens d) = Some k \<longleftrightarrow> k \<in> set (d_tokens d) \<and> k_hash k = h"
    by (auto dest: find_Some_mem find_distinct_key)
  then show ?thesis
    by (auto simp: LookupToken_def thenE_Inr token_with_user_def)
qed

lemma StoreTokenLookup_Inr:
  assumes "db_ok d"
  shows "StoreTokenLookup_LookupByHash d h = Inr r \<longleftrightarrow>
    (\<exists>k\<in>set (d_tokens d). k_hash k = h
       \<and> r = \<lparr>tl_UserID = k_user k, tl_TokenID = k_id k, tl_ExpiresAt = k_expires k,
           tl_Scopes = k_scopes k, tl_CollectionIDs = k_collections k\<rparr>)"
  by (auto simp: StoreTokenLookup_LookupByHash_def thenE_Inr LookupToken_Inr [OF assms])

text \<open>The context of a request that came with the token \<open>k\<close>.\<close>

definition token_ctx :: "token \<Rightarrow> ctx \<Rightarrow> ctx" where
  "token_ctx k c = c\<lparr>c_user := Some (k_user k), c_enforced := True, c_scopes := k_scopes k,
     c_collections := k_collections k\<rparr>"

definition token_expired :: "time \<Rightarrow> token \<Rightarrow> bool" where
  "token_expired tnow k \<longleftrightarrow> (case k_expires k of None \<Rightarrow> False | Some t \<Rightarrow> t < tnow)"

lemma authenticate_only_Unauthenticated:
  "authenticate l sha tnow meth md c = Inl err \<Longrightarrow> err = Unauthenticated"
  by (auto simp: authenticate_def Let_def split: option.splits if_splits sum.splits)

lemma authenticate_known:
  assumes "db_ok d" and "\<not> isUnauthenticatedEndpoint meth"
    and "k \<in> set (d_tokens d)" and "k_hash k = HashToken sha (extractToken m)"
  shows "authenticate (Some (StoreTokenLookup_LookupByHash d)) sha tnow meth (Some m) c
    = (if extractToken m = [] \<or> token_expired tnow k then Inl Unauthenticated
       else Inr (token_ctx k c, Some (k_id k)))"
proof -
  have "StoreTokenLookup_LookupByHash d (HashToken sha (extractToken m)) = Inr \<lparr>tl_UserID = k_user k,
      tl_TokenID = k_id k, tl_ExpiresAt = k_expires k, tl_Scopes = k_scopes k,
      tl_CollectionIDs = k_collections k\<rparr>"
    using StoreTokenLookup_Inr [OF assms(1)] assms(3,4) by blast
  then show ?thesis
    using assms(2)
    by (simp add: authenticate_def Let_def token_ctx_def token_expired_def HashToken_def
        split: option.split)
qed

lemma authenticate_unknown:
  assumes "db_ok d" and "\<not> isUnauthenticatedEndpoint meth"
    and "\<forall>k\<in>set (d_tokens d). k_hash k \<noteq> HashToken sha (extractToken m)"
  shows "authenticate (Some (StoreTokenLookup_LookupByHash d)) sha tnow meth (Some m) c
    = Inl Unauthenticated"
proof -
  have "\<nexists>r. StoreTokenLookup_LookupByHash d (HashToken sha (extractToken m)) = Inr r"
    using StoreTokenLookup_Inr [OF assms(1)] assms(3) by blast
  then obtain e where "StoreTokenLookup_LookupByHash d (HashToken sha (extractToken m)) = Inl e"
    by (cases "StoreTokenLookup_LookupByHash d (HashToken sha (extractToken m))") auto
  then show ?thesis using assms(2) by (simp add: authenticate_def Let_def HashToken_def)
qed

lemma token_hash_inj:
  "db_ok d \<Longrightarrow> k \<in> set (d_tokens d) \<Longrightarrow> k' \<in> set (d_tokens d) \<Longrightarrow> k_hash k' = k_hash k \<Longrightarrow> k' = k"
  by (simp add: db_ok_def tokens_ok_def distinct_map) (metis inj_onD)

lemma authenticate_store:
  assumes "db_ok d" and "\<not> isUnauthenticatedEndpoint meth"
  shows "authenticate (Some (StoreTokenLookup_LookupByHash d)) sha tnow meth md c = Inr (c', use) \<longleftrightarrow>
    (\<exists>m k. md = Some m \<and> extractToken m \<noteq> [] \<and> k \<in> set (d_tokens d)
       \<and> k_hash k = HashToken sha (extractToken m) \<and> \<not> token_expired tnow k
       \<and> c' = token_ctx k c \<and> use = Some (k_id k))"
    (is "?lhs \<longleftrightarrow> ?rhs")
proof
  assume ?lhs
  then obtain m where m: "md = Some m"
    using assms(2) by (cases md) (auto simp: authenticate_def Let_def)
  with \<open>?lhs\<close> obtain k where k: "k \<in> set (d_tokens d)" "k_hash k = HashToken sha (extractToken m)"
    using authenticate_unknown [OF assms, of sha m tnow c] by auto
  from \<open>?lhs\<close> m authenticate_known [OF assms k, of tnow c] k show ?rhs
    by (auto split: if_splits)
next
  assume ?rhs
  then obtain m k where "md = Some m" "extractToken m \<noteq> []" "k \<in> set (d_tokens d)"
    "k_hash k = HashToken sha (extractToken m)" "\<not> token_expired tnow k"
    "c' = token_ctx k c" "use = Some (k_id k)" by blast
  then show ?lhs using authenticate_known [OF assms, of k sha m tnow c] by simp
qed

text \<open>
  C21. Authentication is exactly the possession of a live token: with a lookup over the store,
  a request for any method but the two status ones reaches its handler if and only if it
  carries a token whose hash is stored and which has not expired, and then the handler runs
  with the identity, scopes and collections of that token; every refusal is \<open>Unauthenticated\<close>.
\<close>

theorem interceptor_admits_live_tokens:
  assumes "db_ok d" and "\<not> isUnauthenticatedEndpoint meth"
  shows "(authenticate (Some (StoreTokenLookup_LookupByHash d)) sha tnow meth md c = Inr (c', use) \<longleftrightarrow>
      (\<exists>m k. md = Some m \<and> extractToken m \<noteq> [] \<and> k \<in> set (d_tokens d)
         \<and> k_hash k = HashToken sha (extractToken m) \<and> \<not> token_expired tnow k
         \<and> c' = token_ctx k c \<and> use = Some (k_id k)))
    \<and> (authenticate (Some (StoreTokenLookup_LookupByHash d)) sha tnow meth md c = Inl err
         \<longrightarrow> err = Unauthenticated)"
  by (intro conjI impI authenticate_store [OF assms]) (rule authenticate_only_Unauthenticated)

text \<open>The metadata of a client that sends the token as a bearer token.\<close>

definition bearer_md :: "string \<Rightarrow> md" where
  "bearer_md tok h = (if h = ''authorization'' then [''Bearer '' @ tok] else [])"

lemma extract_bearer: "extractToken (bearer_md tok) = tok"
  by (simp add: extractToken_def bearer_md_def bearer_def)

definition ex_md :: "md option" where "ex_md = Some (bearer_md ''t'')"

definition ex_token :: token where
  "ex_token = \<lparr>k_id = 30, k_hash = ''74'', k_name = ''n'', k_user = 7, k_created = 0,
     k_expires = Some 9, k_last_used = None, k_scopes = [''task:read''], k_collections = [1]\<rparr>"

lemma ex_tokens_ok: "db_ok (ex_db\<lparr>d_tokens := [ex_token]\<rparr>)"
  by (simp add: db_ok_def tasks_ok_def rels_ok_def changes_ok_def comments_ok_def colls_ok_def
      users_ok_def tokens_ok_def accounts_ok_def task_ids_def coll_ids_def user_ids_def
      rel_key_def ex_defs ex_token_def)

theorem interceptor_admits_live_tokens_witness:
  "authenticate (Some (StoreTokenLookup_LookupByHash (ex_db\<lparr>d_tokens := [ex_token]\<rparr>)))
     (\<lambda>s. s) 9 ''/farmtable.v1.FarmTableService/GetTask'' ex_md open_access_ctx
   = Inr (\<lparr>c_user = Some 7, c_enforced = True, c_scopes = [''task:read''], c_collections = [1]\<rparr>,
       Some 30)"
  using interceptor_admits_live_tokens [OF ex_tokens_ok,
      of "''/farmtable.v1.FarmTableService/GetTask''" "\<lambda>s. s" 9 ex_md open_access_ctx
        "\<lparr>c_user = Some 7, c_enforced = True, c_scopes = [''task:read''], c_collections = [1]\<rparr>"
        "Some 30"]
  by (simp add: isUnauthenticatedEndpoint_def ex_md_def extract_bearer ex_token_def HashToken_def
      hex_digit_def byte_def token_expired_def token_ctx_def open_access_ctx_def)

section \<open>The life of a token\<close>

lemma CreateAPIToken_Inr:
  assumes "CreateAPIToken sha raw e p d = Inr ((k, tok), d')"
  shows "tok = ''ft_'' @ hex_encode raw \<and> k_hash k = HashToken sha tok \<and> k_id k = fresh_uuid e d
    \<and> k_user k = ck_UserID p \<and> k_expires k = ck_ExpiresAt p \<and> k_scopes k = ck_Scopes p
    \<and> k_collections k = ck_CollectionIDs p \<and> d_tokens d' = d_tokens d @ [k]"
  using assms
  by (auto simp: CreateAPIToken_def Let_def thenE_Inr insert_token_def drawn_def split: if_splits)

lemma db_ok_CreateAPIToken:
  "CreateAPIToken sha raw e p d = Inr (r, d') \<Longrightarrow> db_ok d \<Longrightarrow> db_ok d'"
  by (auto simp: CreateAPIToken_def Let_def thenE_Inr
      elim!: db_ok_insert_token intro!: db_ok_drawn)

lemma find_map_keeps:
  assumes "\<And>x. P (f x) = P x"
  shows "find P (map f xs) = map_option f (find P xs)"
  using assms by (induction xs) auto

text \<open>Recording the use of a token is not seen by later lookups.\<close>

lemma LookupByHash_after_usage:
  "StoreTokenLookup_LookupByHash (StoreTokenLookup_RecordUsage e i d) = StoreTokenLookup_LookupByHash d"
proof (cases "find (\<lambda>k. k_id k = i) (d_tokens d)")
  case None
  then show ?thesis
    by (simp add: StoreTokenLookup_RecordUsage_def UpdateTokenLastUsed_def update_token_def)
next
  case (Some k0)
  show ?thesis
  proof
    fix h
    show "StoreTokenLookup_LookupByHash (StoreTokenLookup_RecordUsage e i d) h
      = StoreTokenLookup_LookupByHash d h"
      by (cases "find (\<lambda>k. k_hash k = h) (d_tokens d)")
        (simp_all add: StoreTokenLookup_RecordUsage_def UpdateTokenLastUsed_def
          update_token_def Some StoreTokenLookup_LookupByHash_def LookupToken_def Let_def
          token_with_user_def find_map_keeps)
  qed
qed

text \<open>
  The life of a token. A request with the token that \<open>CreateAPIToken\<close> returned is let
  through as the user, with the scopes and the collections of its parameters, until the token
  expires; after the expiry, and after \<open>RevokeAPIToken\<close>, it is \<open>Unauthenticated\<close>, whatever the
  clock says; and recording its use does not change that.
\<close>

theorem token_life:
  assumes "db_ok d" and "CreateAPIToken sha raw e p d = Inr ((k, tok), d')"
    and "\<not> isUnauthenticatedEndpoint meth"
  shows "TokenAuthInterceptor (Some (StoreTokenLookup_LookupByHash d')) sha tnow meth
      (Some (bearer_md tok)) c handler
     = (if (case ck_ExpiresAt p of None \<Rightarrow> False | Some t \<Rightarrow> t < tnow) then Inl Unauthenticated
        else handler (c\<lparr>c_user := Some (ck_UserID p), c_enforced := True, c_scopes := ck_Scopes p,
               c_collections := ck_CollectionIDs p\<rparr>))
    \<and> StoreTokenLookup_LookupByHash (StoreTokenLookup_RecordUsage e' (k_id k) d')
       = StoreTokenLookup_LookupByHash d'
    \<and> (\<exists>d''. RevokeAPIToken (k_id k) d' = Inr d''
       \<and> TokenAuthInterceptor (Some (StoreTokenLookup_LookupByHash d'')) sha tnow meth
           (Some (bearer_md tok)) c handler = Inl Unauthenticated)"
proof -
  let ?L = StoreTokenLookup_LookupByHash
  have ok': "db_ok d'" by (rule db_ok_CreateAPIToken [OF assms(2,1)])
  note k = CreateAPIToken_Inr [OF assms(2)]
  have kin: "k \<in> set (d_tokens d')" and tok: "tok \<noteq> []" using k by simp_all
  have hash: "k_hash k = HashToken sha (extractToken (bearer_md tok))"
    using k by (simp add: extract_bearer)
  have admit: "TokenAuthInterceptor (Some (?L d')) sha tnow meth (Some (bearer_md tok)) c handler
     = (if token_expired tnow k then Inl Unauthenticated else handler (token_ctx k c))"
    using authenticate_known [OF ok' assms(3) kin hash] tok
    by (simp add: TokenAuthInterceptor_def extract_bearer)
  obtain d'' where d'': "RevokeAPIToken (k_id k) d' = Inr d''"
      "d_tokens d'' = filter (\<lambda>q. k_id q \<noteq> k_id k) (d_tokens d')"
    using kin by (auto simp: RevokeAPIToken_def delete_token_def list_ex_key)
  have ok'': "db_ok d''"
    using d''(1) ok' unfolding RevokeAPIToken_def by (rule db_ok_delete_token)
  have "\<forall>q\<in>set (d_tokens d''). k_hash q \<noteq> HashToken sha (extractToken (bearer_md tok))"
    using token_hash_inj [OF ok' kin] d''(2) hash by auto
  then have "TokenAuthInterceptor (Some (?L d'')) sha tnow meth (Some (bearer_md tok)) c handler
       = Inl Unauthenticated"
    by (simp add: TokenAuthInterceptor_def authenticate_unknown [OF ok'' assms(3)])
  with admit d''(1) LookupByHash_after_usage k show ?thesis
    by (simp add: token_expired_def token_ctx_def)
qed


theorem token_life_witness:
  "TokenAuthInterceptor (Some (StoreTokenLookup_LookupByHash (snd (projr (CreateAPIToken (\<lambda>s. s) ''r''
       ex_env \<lparr>ck_UserID = 7, ck_Name = ''n'', ck_ExpiresAt = Some 9, ck_Scopes = [],
         ck_CollectionIDs = []\<rparr> ex_db))))) (\<lambda>s. s) 10 ''m'' (Some (bearer_md ''ft_72'')) open_access_ctx
       (\<lambda>c. Inr (c_user c)) = Inl Unauthenticated"
proof -
  let ?p = "\<lparr>ck_UserID = 7, ck_Name = ''n'', ck_ExpiresAt = Some 9, ck_Scopes = [],
     ck_CollectionIDs = []\<rparr>"
  have "\<exists>k d'. CreateAPIToken (\<lambda>s. s) ''r'' ex_env ?p ex_db = Inr ((k, ''ft_72''), d')"
    by (simp add: CreateAPIToken_def Let_def insert_token_def drawn_def HashToken_def hex_digit_def
        byte_def fresh_uuid_def user_ids_def ex_defs)
  then obtain k d' where c: "CreateAPIToken (\<lambda>s. s) ''r'' ex_env ?p ex_db = Inr ((k, ''ft_72''), d')"
    by blast
  show ?thesis
    using token_life [OF ex_db_ok c, of "''m''" 10 open_access_ctx "\<lambda>c. Inr (c_user c)" ex_env]
    by (simp add: c isUnauthenticatedEndpoint_def)
qed

end
