(* ===== verification/FT_Utf8.thy ===== *)
theory FT_Utf8
  imports FT_Prelude
begin

text \<open>
  What the program uses of Go's text packages: decoding a byte string into runes
  (\<open>unicode/utf8\<close>), trimming white space (\<open>strings.TrimSpace\<close>) and the classification of
  runes (\<open>unicode\<close>). The tables of \<open>unicode\<close> beyond ASCII are a parameter, the record
  \<open>unicode\<close>.
\<close>

definition RuneError :: nat where "RuneError = 65533"

definition in_range :: "nat \<Rightarrow> nat \<Rightarrow> nat \<Rightarrow> bool" where
  "in_range lo hi x \<longleftrightarrow> lo \<le> x \<and> x \<le> hi"

text \<open>The bounds on the second byte, by the first one.\<close>

definition second_lo :: "nat \<Rightarrow> nat" where
  "second_lo b = (if b = 224 then 160 else if b = 240 then 144 else 128)"

definition second_hi :: "nat \<Rightarrow> nat" where
  "second_hi b = (if b = 237 then 159 else if b = 244 then 143 else 191)"

text \<open>
  \<open>utf8.DecodeRune\<close> on the bytes: the rune and the number of bytes it takes; an invalid byte
  is \<open>RuneError\<close> and takes one.
\<close>

definition DecodeRune :: "nat list \<Rightarrow> nat \<times> nat" where
  "DecodeRune bs =
    (case bs of
       [] \<Rightarrow> (RuneError, 0)
     | b0 # r1 \<Rightarrow>
         if b0 < 128 then (b0, 1)
         else (case r1 of
             [] \<Rightarrow> (RuneError, 1)
           | b1 # r2 \<Rightarrow>
               if \<not> in_range 194 244 b0 \<or> \<not> in_range (second_lo b0) (second_hi b0) b1
               then (RuneError, 1)
               else if b0 < 224 then ((b0 - 192) * 64 + (b1 - 128), 2)
               else (case r2 of
                   [] \<Rightarrow> (RuneError, 1)
                 | b2 # r3 \<Rightarrow>
                     if \<not> in_range 128 191 b2 then (RuneError, 1)
                     else if b0 < 240 then ((b0 - 224) * 4096 + (b1 - 128) * 64 + (b2 - 128), 3)
                     else (case r3 of
                         [] \<Rightarrow> (RuneError, 1)
                       | b3 # _ \<Rightarrow>
                           if \<not> in_range 128 191 b3 then (RuneError, 1)
                           else ((b0 - 240) * 262144 + (b1 - 128) * 4096 + (b2 - 128) * 64
                                   + (b3 - 128), 4)))))"

text \<open>The runes of a string in order, each with the bytes it comes from.\<close>

function rune_chunks :: "string \<Rightarrow> (nat \<times> string) list" where
  "rune_chunks [] = []"
| "rune_chunks (c # s) =
    (let (r, n) = DecodeRune (map of_char (c # s)) in
     (r, c # take (n - 1) s) # rune_chunks (drop (n - 1) s))"
  by pat_completeness auto
termination by (relation "measure length") auto

definition runes :: "string \<Rightarrow> nat list" where
  "runes s = map fst (rune_chunks s)"

definition RuneCountInString :: "string \<Rightarrow> nat" where
  "RuneCountInString s = length (runes s)"

text \<open>\<open>unicode.IsSpace\<close>.\<close>

definition IsSpace :: "nat \<Rightarrow> bool" where
  "IsSpace r \<longleftrightarrow> in_range 9 13 r \<or> r = 32 \<or> r = 133 \<or> r = 160 \<or> r = 5760 \<or> in_range 8192 8202 r
     \<or> r = 8232 \<or> r = 8233 \<or> r = 8239 \<or> r = 8287 \<or> r = 12288"

text \<open>White-space runes at both ends are removed; what is left is a stretch of the bytes.\<close>

definition TrimSpace :: "string \<Rightarrow> string" where
  "TrimSpace s = concat (map snd
     (rev (dropWhile (\<lambda>c. IsSpace (fst c)) (rev (dropWhile (\<lambda>c. IsSpace (fst c)) (rune_chunks s))))))"

record unicode =
  IsUpper :: "nat \<Rightarrow> bool"
  IsLower :: "nat \<Rightarrow> bool"
  IsDigit :: "nat \<Rightarrow> bool"
  ToUpper :: "nat \<Rightarrow> nat"
  ToLower :: "nat \<Rightarrow> nat"

text \<open>The ASCII part of the tables, for the witnesses.\<close>

definition ascii :: unicode where
  "ascii = \<lparr>IsUpper = in_range 65 90, IsLower = in_range 97 122, IsDigit = in_range 48 57,
     ToUpper = (\<lambda>r. if in_range 97 122 r then r - 32 else r),
     ToLower = (\<lambda>r. if in_range 65 90 r then r + 32 else r)\<rparr>"

text \<open>\<open>strings.ToLower\<close> on a character of an ASCII text.\<close>

definition lower_char :: "char \<Rightarrow> char" where
  "lower_char c = (if in_range 65 90 (of_char c) then char_of ((of_char c :: nat) + 32) else c)"

section \<open>Lemmas\<close>

text \<open>Decoding loses no byte.\<close>

lemma rune_chunks_bytes [simp]: "concat (map snd (rune_chunks s)) = s"
  by (induction s rule: rune_chunks.induct) (auto split: prod.splits)

lemma rune_chunks_nonempty: "c \<in> set (rune_chunks s) \<Longrightarrow> snd c \<noteq> []"
  by (induction s rule: rune_chunks.induct) (auto split: prod.splits)

lemma RuneCount_le: "RuneCountInString s \<le> length s"
proof (induction s rule: rune_chunks.induct)
  case (2 c s)
  then show ?case
    by (auto simp: RuneCountInString_def runes_def split: prod.splits) (meson diff_le_self le_trans)
qed (simp add: RuneCountInString_def runes_def)

lemma rune_chunks_Nil [simp]: "rune_chunks s = [] \<longleftrightarrow> s = []"
  by (cases s) (auto split: prod.splits)

lemma RuneCount_0 [simp]: "RuneCountInString s = 0 \<longleftrightarrow> s = []"
  by (simp add: RuneCountInString_def runes_def)

lemma concat_snd_Nil: "\<forall>c\<in>set xs. snd c \<noteq> [] \<Longrightarrow> concat (map snd xs) = [] \<longleftrightarrow> xs = []"
  by (cases xs) auto

lemma trim_both_Nil: "dropWhile P (rev (dropWhile P xs)) = [] \<longleftrightarrow> (\<forall>x\<in>set xs. P x)"
  by (induction xs) (auto simp: dropWhile_eq_Nil_conv)

lemma TrimSpace_Nil_iff: "TrimSpace s = [] \<longleftrightarrow> (\<forall>r\<in>set (runes s). IsSpace r)"
proof -
  let ?d = "\<lambda>cs. dropWhile (\<lambda>c. IsSpace (fst c)) cs"
  have "TrimSpace s = [] \<longleftrightarrow> rev (?d (rev (?d (rune_chunks s)))) = []"
  proof -
    have "\<forall>c\<in>set (rev (?d (rev (?d (rune_chunks s))))). snd c \<noteq> []"
      by (auto dest!: set_dropWhileD rune_chunks_nonempty)
    then show ?thesis unfolding TrimSpace_def by (rule concat_snd_Nil)
  qed
  also have "\<dots> \<longleftrightarrow> (\<forall>r\<in>set (runes s). IsSpace r)"
    unfolding rev_is_Nil_conv trim_both_Nil by (simp add: runes_def)
  finally show ?thesis .
qed

text \<open>ASCII texts: one rune for each byte.\<close>

definition ascii_text :: "string \<Rightarrow> bool" where
  "ascii_text s \<longleftrightarrow> list_all (\<lambda>c. (of_char c :: nat) < 128) s"

lemma ascii_text_simps [simp]:
  "ascii_text []" "ascii_text (c # s) \<longleftrightarrow> (of_char c :: nat) < 128 \<and> ascii_text s"
  "ascii_text (s @ t) \<longleftrightarrow> ascii_text s \<and> ascii_text t"
  by (simp_all add: ascii_text_def)

lemma rune_chunks_ascii: "ascii_text s \<Longrightarrow> rune_chunks s = map (\<lambda>c. (of_char c, [c])) s"
  by (induction s) (simp_all add: DecodeRune_def)

lemma runes_ascii: "ascii_text s \<Longrightarrow> runes s = map of_char s"
  by (simp add: runes_def rune_chunks_ascii o_def)

end
