(* ===== verification/FT_Urls.thy ===== *)
theory FT_Urls
  imports FT_Utf8 FT_Model
begin

text \<open>
  The URL checks of \<open>internal/server/urlvalidate.go\<close>: \<open>validateURLField\<close>, the classification of
  the keys of untyped platform data, the sanitizer that data passes on its way out
  (\<open>sanitizeRemoteData\<close>) and the check it passes on its way in
  (\<open>validateRemoteDataURLs\<close>). \<open>url.Parse\<close> is an argument that returns the scheme and the host;
  the texts of errors are not modelled, so a check returns a boolean.
\<close>

section \<open>One URL\<close>

type_synonym url_parser = "string \<Rightarrow> (string \<times> string) option"

definition allowedURLSchemes :: "string list" where
  "allowedURLSchemes = [''http'', ''https'']"

definition validateURLField :: "url_parser \<Rightarrow> string \<Rightarrow> bool" where
  "validateURLField parse raw =
    (if raw = [] then True
     else if list_ex (\<lambda>r. r \<le> 32 \<or> r = 127) (runes raw) then False
     else (case parse raw of
         None \<Rightarrow> False
       | Some (scheme, host) \<Rightarrow>
           List.member allowedURLSchemes (map lower_char scheme) \<and> host \<noteq> []))"

section \<open>Keys that hold URLs\<close>

definition word :: "string \<Rightarrow> nat list" where "word s = map of_char s"

definition urlBearingKeyWords :: "nat list list" where
  "urlBearingKeyWords = map word [''url'', ''urls'', ''uri'', ''uris'', ''href'', ''hrefs'',
     ''link'', ''links'', ''permalink'', ''permalinks'']"

text \<open>
  The segments of a key, as runes: \<open>prev\<close> is the rune before, \<open>cur\<close> the segment being built.
  \<open>flush\<close> drops an empty segment.
\<close>

definition flush_segment :: "nat list \<Rightarrow> nat list list" where
  "flush_segment cur = (if cur = [] then [] else [cur])"

definition is_separator :: "nat \<Rightarrow> bool" where
  "is_separator r \<longleftrightarrow> r \<in> {95, 45, 46, 47, 32}"

fun key_segments_from :: "unicode \<Rightarrow> nat option \<Rightarrow> nat list \<Rightarrow> nat list \<Rightarrow> nat list list" where
  "key_segments_from U prev cur [] = flush_segment cur"
| "key_segments_from U prev cur (r # rs) =
    (if is_separator r then flush_segment cur @ key_segments_from U (Some r) [] rs
     else if IsUpper U r then
       (let prevIsLowerOrDigit = (case prev of None \<Rightarrow> False | Some p \<Rightarrow> IsLower U p \<or> IsDigit U p);
            nextIsLower = (case rs of [] \<Rightarrow> False | n # _ \<Rightarrow> IsLower U n);
            prevIsUpper = (case prev of None \<Rightarrow> False | Some p \<Rightarrow> IsUpper U p)
        in if prevIsLowerOrDigit \<or> prevIsUpper \<and> nextIsLower
           then flush_segment cur @ key_segments_from U (Some r) [r] rs
           else key_segments_from U (Some r) (cur @ [r]) rs)
     else key_segments_from U (Some r) (cur @ [r]) rs)"

definition keySegments :: "unicode \<Rightarrow> string \<Rightarrow> nat list list" where
  "keySegments U key = key_segments_from U None [] (runes key)"

definition suffix_of :: "'a list \<Rightarrow> 'a list \<Rightarrow> bool" where
  "suffix_of w s \<longleftrightarrow> length w \<le> length s \<and> drop (length s - length w) s = w"

definition urlBearingRemoteDataKey :: "unicode \<Rightarrow> string \<Rightarrow> bool" where
  "urlBearingRemoteDataKey U key =
    list_ex (\<lambda>seg. let low = map (ToLower U) seg in
        List.member urlBearingKeyWords low
      \<or> (seg = map (ToUpper U) seg \<and> seg \<noteq> low
          \<and> list_ex (\<lambda>w. suffix_of w low) urlBearingKeyWords))
      (keySegments U key)"

section \<open>The sanitizer\<close>

definition maxRemoteDataDepth :: nat where "maxRemoteDataDepth = 32"

text \<open>What the two traversals share: the classifier of keys and the check of one URL.\<close>

record url_env =
  url_key :: "string \<Rightarrow> bool"
  url_ok :: "string \<Rightarrow> bool"

definition url_env_of :: "unicode \<Rightarrow> url_parser \<Rightarrow> url_env" where
  "url_env_of U parse = \<lparr>url_key = urlBearingRemoteDataKey U, url_ok = validateURLField parse\<rparr>"

definition is_container :: "jval \<Rightarrow> bool" where
  "is_container v = (case v of JMap _ \<Rightarrow> True | JMaps _ \<Rightarrow> True | _ \<Rightarrow> False)"

text \<open>The strings of a list under a key that holds URLs.\<close>

fun keep_urls :: "url_env \<Rightarrow> jval list \<Rightarrow> jval list" where
  "keep_urls E [] = []"
| "keep_urls E (JStr s # vs) = (if url_ok E s then JStr s # keep_urls E vs else keep_urls E vs)"
| "keep_urls E (_ # vs) = keep_urls E vs"

text \<open>The size of a value, with maps counted by their values.\<close>

abbreviation jmap_size :: "jmap \<Rightarrow> nat" where
  "jmap_size \<equiv> size_list (size_prod (\<lambda>_. 0) size)"

abbreviation jmaps_size :: "jmap list \<Rightarrow> nat" where
  "jmaps_size \<equiv> size_list jmap_size"

function san_value :: "url_env \<Rightarrow> string \<Rightarrow> nat \<Rightarrow> jval \<Rightarrow> jval option"
  and san_map :: "url_env \<Rightarrow> nat \<Rightarrow> jmap \<Rightarrow> jmap"
  and san_list :: "url_env \<Rightarrow> nat \<Rightarrow> jval list \<Rightarrow> jval list"
  and san_maps :: "url_env \<Rightarrow> nat \<Rightarrow> jmap list \<Rightarrow> jmap list"
where
  "san_value E key d v =
    (if maxRemoteDataDepth < d then None
     else if url_key E key \<and> \<not> is_container v then
       (case v of
          JStr s \<Rightarrow> if url_ok E s then Some (JStr s) else None
        | JList vs \<Rightarrow> Some (JList (keep_urls E vs))
        | JStrs ss \<Rightarrow> Some (JStrs (filter (url_ok E) ss))
        | _ \<Rightarrow> None)
     else
       (case v of
          JMap m \<Rightarrow> Some (JMap (san_map E (Suc d) m))
        | JList vs \<Rightarrow> Some (JList (san_list E (Suc d) vs))
        | JMaps ms \<Rightarrow> Some (JMaps (san_maps E (Suc d) ms))
        | _ \<Rightarrow> Some v))"
| "san_map E d [] = []"
| "san_map E d ((k, v) # m) =
    (case san_value E k d v of None \<Rightarrow> san_map E d m | Some w \<Rightarrow> (k, w) # san_map E d m)"
| "san_list E d [] = []"
| "san_list E d (v # vs) =
    (case san_value E [] d v of None \<Rightarrow> san_list E d vs | Some w \<Rightarrow> w # san_list E d vs)"
| "san_maps E d [] = []"
| "san_maps E d (m # ms) =
    (case san_value E [] d (JMap m) of
       Some (JMap m') \<Rightarrow> m' # san_maps E d ms | _ \<Rightarrow> san_maps E d ms)"
  by pat_completeness auto
termination
  by (relation "measure (\<lambda>x. case x of
        Inl (Inl (E, k, d, v)) \<Rightarrow> 2 * size v
      | Inl (Inr (E, d, m)) \<Rightarrow> 2 * jmap_size m + 1
      | Inr (Inl (E, d, vs)) \<Rightarrow> 2 * size_list size vs + 1
      | Inr (Inr (E, d, ms)) \<Rightarrow> 2 * jmaps_size ms + 1)") auto

text \<open>\<open>sanitizeRemoteData\<close>; the nil map stays nil.\<close>

definition sanitizeRemoteData :: "unicode \<Rightarrow> url_parser \<Rightarrow> jmap option \<Rightarrow> jmap option" where
  "sanitizeRemoteData U parse rd = map_option (san_map (url_env_of U parse) 0) rd"

section \<open>The import check\<close>

function val_value :: "url_env \<Rightarrow> string \<Rightarrow> nat \<Rightarrow> jval \<Rightarrow> bool"
  and val_map :: "url_env \<Rightarrow> nat \<Rightarrow> jmap \<Rightarrow> bool"
  and val_entries :: "url_env \<Rightarrow> nat \<Rightarrow> jmap \<Rightarrow> bool"
  and val_list :: "url_env \<Rightarrow> nat \<Rightarrow> jval list \<Rightarrow> bool"
  and val_maps :: "url_env \<Rightarrow> nat \<Rightarrow> jmap list \<Rightarrow> bool"
where
  "val_value E key d v =
    (if maxRemoteDataDepth < d then False
     else if url_key E key then
       (case v of
          JStr s \<Rightarrow> url_ok E s
        | JList vs \<Rightarrow> list_all (\<lambda>w. case w of JStr s \<Rightarrow> url_ok E s | _ \<Rightarrow> True) vs
        | JStrs ss \<Rightarrow> list_all (url_ok E) ss
        | JMap m \<Rightarrow> val_map E (Suc d) m
        | JMaps ms \<Rightarrow> val_maps E (Suc d) ms
        | _ \<Rightarrow> True)
     else
       (case v of
          JMap m \<Rightarrow> val_map E (Suc d) m
        | JList vs \<Rightarrow> val_list E (Suc d) vs
        | JMaps ms \<Rightarrow> val_maps E (Suc d) ms
        | _ \<Rightarrow> True))"
| "val_map E d m = (if maxRemoteDataDepth < d then False else val_entries E d m)"
| "val_entries E d [] = True"
| "val_entries E d ((k, v) # m) = (val_value E k d v \<and> val_entries E d m)"
| "val_list E d [] = True"
| "val_list E d (v # vs) = (val_value E [] d v \<and> val_list E d vs)"
| "val_maps E d [] = True"
| "val_maps E d (m # ms) = (val_map E d m \<and> val_maps E d ms)"
  by pat_completeness auto
termination
  by (relation "measure (\<lambda>x. case x of
        Inl (Inl (E, k, d, v)) \<Rightarrow> 3 * size v
      | Inl (Inr (E, d, m)) \<Rightarrow> 3 * jmap_size m + 2
      | Inr (Inl (E, d, m)) \<Rightarrow> 3 * jmap_size m + 1
      | Inr (Inr (Inl (E, d, vs))) \<Rightarrow> 3 * size_list size vs + 1
      | Inr (Inr (Inr (E, d, ms))) \<Rightarrow> 3 * jmaps_size ms + 1)") auto

definition validateRemoteDataURLs :: "unicode \<Rightarrow> url_parser \<Rightarrow> jmap option \<Rightarrow> bool" where
  "validateRemoteDataURLs U parse rd =
    (case rd of None \<Rightarrow> True | Some m \<Rightarrow> val_map (url_env_of U parse) 0 m)"

definition validateImportedTaskURLs ::
  "unicode \<Rightarrow> url_parser \<Rightarrow> (string \<times> string) list list \<Rightarrow> jmap option \<Rightarrow> bool" where
  "validateImportedTaskURLs U parse prs rd =
    (list_all (\<lambda>pr. validateURLField parse (case map_of pr ''url'' of None \<Rightarrow> [] | Some u \<Rightarrow> u)) prs
     \<and> validateRemoteDataURLs U parse rd)"

section \<open>What the sanitizer lets through\<close>

text \<open>The strings that stand under a key that holds URLs, at any depth.\<close>

fun list_strings :: "jval list \<Rightarrow> string list" where
  "list_strings [] = []"
| "list_strings (JStr s # vs) = s # list_strings vs"
| "list_strings (_ # vs) = list_strings vs"

function urls_value :: "(string \<Rightarrow> bool) \<Rightarrow> string \<Rightarrow> jval \<Rightarrow> string list"
  and urls_map :: "(string \<Rightarrow> bool) \<Rightarrow> jmap \<Rightarrow> string list"
  and urls_list :: "(string \<Rightarrow> bool) \<Rightarrow> jval list \<Rightarrow> string list"
  and urls_maps :: "(string \<Rightarrow> bool) \<Rightarrow> jmap list \<Rightarrow> string list"
where
  "urls_value K key v =
    (case v of
       JStr s \<Rightarrow> if K key then [s] else []
     | JStrs ss \<Rightarrow> if K key then ss else []
     | JList vs \<Rightarrow> (if K key then list_strings vs else []) @ urls_list K vs
     | JMap m \<Rightarrow> urls_map K m
     | JMaps ms \<Rightarrow> urls_maps K ms
     | _ \<Rightarrow> [])"
| "urls_map K [] = []"
| "urls_map K ((k, v) # m) = urls_value K k v @ urls_map K m"
| "urls_list K [] = []"
| "urls_list K (v # vs) = urls_value K [] v @ urls_list K vs"
| "urls_maps K [] = []"
| "urls_maps K (m # ms) = urls_map K m @ urls_maps K ms"
  by pat_completeness auto
termination
  by (relation "measure (\<lambda>x. case x of
        Inl (Inl (K, k, v)) \<Rightarrow> 2 * size v
      | Inl (Inr (K, m)) \<Rightarrow> 2 * jmap_size m + 1
      | Inr (Inl (K, vs)) \<Rightarrow> 2 * size_list size vs + 1
      | Inr (Inr (K, ms)) \<Rightarrow> 2 * jmaps_size ms + 1)") auto

declare san_value.simps [simp del] urls_value.simps [simp del] val_value.simps [simp del]

lemmas value_steps = san_value.simps urls_value.simps val_value.simps

lemmas san_induct = san_value_san_map_san_list_san_maps.induct

lemma keep_urls_strings:
  "set (list_strings (keep_urls E vs)) \<subseteq> {s. url_ok E s}"
  by (induction E vs rule: keep_urls.induct) auto

lemma keep_urls_nested: "\<not> K [] \<Longrightarrow> urls_list K (keep_urls E vs) = []"
  by (induction E vs rule: keep_urls.induct) (auto simp: urls_value.simps)

lemma san_map_container [simp]: "is_container (JMap m)" "is_container (JMaps ms)"
  by (simp_all add: is_container_def)

lemma san_urls:
  assumes "\<not> url_key E []"
  shows "case_option True (\<lambda>w. set (urls_value (url_key E) key w) \<subseteq> {s. url_ok E s}) (san_value E key d v)"
    and "set (urls_map (url_key E) (san_map E d m)) \<subseteq> {s. url_ok E s}"
    and "set (urls_list (url_key E) (san_list E d vs)) \<subseteq> {s. url_ok E s}"
    and "set (urls_maps (url_key E) (san_maps E d ms)) \<subseteq> {s. url_ok E s}"
  using assms
proof (induction E key d v and E d m and E d vs and E d ms rule: san_induct)
  case (1 E key d v)
  then show ?case
    using keep_urls_strings [of E] keep_urls_nested [of "url_key E" E]
    by (cases v) (auto simp: is_container_def value_steps)
next
  case (7 E d m ms)
  then show ?case by (auto simp: urls_value.simps split: option.splits jval.splits if_splits)
qed (auto split: option.splits)

text \<open>A second pass changes nothing.\<close>

lemma keep_urls_idem [simp]: "keep_urls E (keep_urls E vs) = keep_urls E vs"
  by (induction E vs rule: keep_urls.induct) auto

lemma san_idem:
  shows "case_option True (\<lambda>w. san_value E key d w = Some w) (san_value E key d v)"
    and "san_map E d (san_map E d m) = san_map E d m"
    and "san_list E d (san_list E d vs) = san_list E d vs"
    and "san_maps E d (san_maps E d ms) = san_maps E d ms"
proof (induction E key d v and E d m and E d vs and E d ms rule: san_induct)
  case (1 E key d v)
  then show ?case by (cases v) (auto simp: is_container_def value_steps)
next
  case (7 E d m ms)
  then show ?case by (auto split: option.splits jval.splits if_splits)
qed (auto split: option.splits)

section \<open>The import check and the sanitizer agree\<close>

text \<open>How deep a value is nested; a list of maps counts twice, as the sanitizer counts it.\<close>

function jdepth :: "jval \<Rightarrow> nat"
  and jdepth_map :: "jmap \<Rightarrow> nat"
  and jdepth_list :: "jval list \<Rightarrow> nat"
  and jdepth_maps :: "jmap list \<Rightarrow> nat"
where
  "jdepth v = (case v of JMap m \<Rightarrow> Suc (jdepth_map m) | JList vs \<Rightarrow> Suc (jdepth_list vs)
     | JMaps ms \<Rightarrow> Suc (Suc (jdepth_maps ms)) | _ \<Rightarrow> 0)"
| "jdepth_map [] = 0"
| "jdepth_map ((k, v) # m) = max (jdepth v) (jdepth_map m)"
| "jdepth_list [] = 0"
| "jdepth_list (v # vs) = max (jdepth v) (jdepth_list vs)"
| "jdepth_maps [] = 0"
| "jdepth_maps (m # ms) = max (jdepth_map m) (jdepth_maps ms)"
  by pat_completeness auto
termination
  by (relation "measure (\<lambda>x. case x of
        Inl (Inl v) \<Rightarrow> 2 * size v
      | Inl (Inr m) \<Rightarrow> 2 * jmap_size m + 1
      | Inr (Inl vs) \<Rightarrow> 2 * size_list size vs + 1
      | Inr (Inr ms) \<Rightarrow> 2 * jmaps_size ms + 1)") auto

text \<open>The sanitizer when every URL is good: it drops only what cannot be checked.\<close>

abbreviation any_url :: "url_env \<Rightarrow> url_env" where
  "any_url E \<equiv> E\<lparr>url_ok := \<lambda>_. True\<rparr>"

text \<open>The number of entries in a value, which every drop decreases.\<close>

function weight :: "jval \<Rightarrow> nat"
  and weight_map :: "jmap \<Rightarrow> nat"
  and weight_list :: "jval list \<Rightarrow> nat"
  and weight_maps :: "jmap list \<Rightarrow> nat"
where
  "weight v = (case v of JMap m \<Rightarrow> weight_map m | JList vs \<Rightarrow> weight_list vs
     | JStrs ss \<Rightarrow> length ss | JMaps ms \<Rightarrow> weight_maps ms | _ \<Rightarrow> 0)"
| "weight_map [] = 0"
| "weight_map ((k, v) # m) = Suc (weight v + weight_map m)"
| "weight_list [] = 0"
| "weight_list (v # vs) = Suc (weight v + weight_list vs)"
| "weight_maps [] = 0"
| "weight_maps (m # ms) = Suc (weight_map m + weight_maps ms)"
  by pat_completeness auto
termination
  by (relation "measure (\<lambda>x. case x of
        Inl (Inl v) \<Rightarrow> 2 * size v
      | Inl (Inr m) \<Rightarrow> 2 * jmap_size m + 1
      | Inr (Inl vs) \<Rightarrow> 2 * size_list size vs + 1
      | Inr (Inr ms) \<Rightarrow> 2 * jmaps_size ms + 1)") auto

abbreviation osize :: "jval option \<Rightarrow> nat" where
  "osize x \<equiv> (case x of None \<Rightarrow> 0 | Some w \<Rightarrow> Suc (weight w))"

lemma keep_urls_any:
  "(list_all (\<lambda>w. case w of JStr s \<Rightarrow> url_ok E s | _ \<Rightarrow> True) vs \<longrightarrow> keep_urls E vs = keep_urls (any_url E) vs)
   \<and> weight_list (keep_urls E vs) \<le> weight_list (keep_urls (any_url E) vs)
   \<and> (\<not> list_all (\<lambda>w. case w of JStr s \<Rightarrow> url_ok E s | _ \<Rightarrow> True) vs
       \<longrightarrow> weight_list (keep_urls E vs) < weight_list (keep_urls (any_url E) vs))"
  by (induction E vs rule: keep_urls.induct) auto

lemma filter_size:
  "(list_all P ss \<longrightarrow> filter P ss = ss) \<and> length (filter P ss) \<le> length ss
   \<and> (\<not> list_all P ss \<longrightarrow> length (filter P ss) < length ss)"
  by (induction ss) auto

declare jdepth.simps [simp del] weight.simps [simp del]

text \<open>
  On values that are not nested too deeply: the check accepts a value exactly when the
  sanitizer treats it as if every URL were good, and else the sanitizer drops something. The
  two may count the depth from different starts.
\<close>

abbreviation agree :: "bool \<Rightarrow> ('a \<Rightarrow> nat) \<Rightarrow> 'a \<Rightarrow> 'a \<Rightarrow> bool" where
  "agree ok sz x y \<equiv> (ok \<longrightarrow> x = y) \<and> sz x \<le> sz y \<and> (\<not> ok \<longrightarrow> sz x < sz y)"

lemma val_san:
  shows "d + jdepth v \<le> maxRemoteDataDepth \<Longrightarrow> e + jdepth v \<le> maxRemoteDataDepth \<Longrightarrow>
      agree (val_value E key e v) osize (san_value E key d v) (san_value (any_url E) key d v)"
    and "d + jdepth_map m \<le> maxRemoteDataDepth \<Longrightarrow> e + jdepth_map m \<le> maxRemoteDataDepth \<Longrightarrow>
      agree (val_entries E e m) weight_map (san_map E d m) (san_map (any_url E) d m)"
    and "d + jdepth_list vs \<le> maxRemoteDataDepth \<Longrightarrow> e + jdepth_list vs \<le> maxRemoteDataDepth \<Longrightarrow>
      agree (val_list E e vs) weight_list (san_list E d vs) (san_list (any_url E) d vs)"
    and "Suc (d + jdepth_maps ms) \<le> maxRemoteDataDepth \<Longrightarrow> Suc (e + jdepth_maps ms) \<le> maxRemoteDataDepth \<Longrightarrow>
      agree (val_maps E (Suc e) ms) weight_maps (san_maps E d ms) (san_maps (any_url E) d ms)"
proof (induction E key d v and E d m and E d vs and E d ms arbitrary: e and e and e and e
    rule: san_induct)
  case (1 E key d v)
  note steps = san_value.simps val_value.simps jdepth.simps weight.simps is_container_def
  show ?case
  proof (cases v)
    case (JMap m)
    with "1.prems" "1.IH"(2) [of m "Suc e"] show ?thesis by (simp add: steps)
  next
    case (JList vs)
    with "1.prems" keep_urls_any [of E vs] "1.IH"(1) [of vs "Suc e"] show ?thesis
      by (simp add: steps)
  next
    case (JMaps ms)
    with "1.prems" "1.IH"(3) [of ms e] show ?thesis by (simp add: steps)
  next
    case (JStrs ss)
    with "1.prems" filter_size [of "url_ok E" ss] show ?thesis by (simp add: steps)
  qed (use "1.prems" in \<open>simp_all add: steps\<close>)
next
  case (3 E d k v m)
  have b: "d + jdepth v \<le> maxRemoteDataDepth" "e + jdepth v \<le> maxRemoteDataDepth"
    "d + jdepth_map m \<le> maxRemoteDataDepth" "e + jdepth_map m \<le> maxRemoteDataDepth"
    using "3.prems" by auto
  note v = "3.IH"(1) [OF b(1,2)]
  have rest: "agree (val_entries E e m) weight_map (san_map E d m)
      (san_map (any_url E) d m)"
    by (cases "san_value E k d v") (use "3.IH"(2,3) b in auto)
  from v rest show ?case
    by (cases "san_value E k d v"; cases "san_value (any_url E) k d v") auto
next
  case (5 E d v vs)
  have b: "d + jdepth v \<le> maxRemoteDataDepth" "e + jdepth v \<le> maxRemoteDataDepth"
    "d + jdepth_list vs \<le> maxRemoteDataDepth" "e + jdepth_list vs \<le> maxRemoteDataDepth"
    using "5.prems" by auto
  note v = "5.IH"(1) [OF b(1,2)]
  have rest: "agree (val_list E e vs) weight_list (san_list E d vs)
      (san_list (any_url E) d vs)"
    by (cases "san_value E [] d v") (use "5.IH"(2,3) b in auto)
  from v rest show ?case
    by (cases "san_value E [] d v"; cases "san_value (any_url E) [] d v") auto
next
  case (7 E d m ms)
  have s: "san_value F [] d (JMap m) = Some (JMap (san_map F (Suc d) m))" for F
    using "7.prems" by (simp add: san_value.simps)
  from "7.prems" "7.IH"(1) [of e] "7.IH"(9) [OF s refl, of e]
  show ?case by (auto simp: s jdepth.simps val_value.simps weight.simps max_def split: if_splits)
qed auto

section \<open>Properties\<close>

lemma keySegments_Nil [simp]: "\<not> urlBearingRemoteDataKey U []"
  by (simp add: urlBearingRemoteDataKey_def keySegments_def runes_def flush_segment_def)

text \<open>
  Nothing but checked URLs leaves through platform data: in the sanitized map, at any
  depth and in maps and lists of either kind, every string under a key that holds URLs passes
  \<open>validateURLField\<close>; sanitizing twice is the same as sanitizing once; and \<open>nil\<close> stays \<open>nil\<close>.
\<close>

theorem sanitized_urls_valid:
  "(\<forall>m. sanitizeRemoteData U parse (Some rd) = Some m \<longrightarrow>
      (\<forall>s\<in>set (urls_map (urlBearingRemoteDataKey U) m). validateURLField parse s))
   \<and> sanitizeRemoteData U parse (sanitizeRemoteData U parse x) = sanitizeRemoteData U parse x
   \<and> (sanitizeRemoteData U parse x = None \<longleftrightarrow> x = None)"
proof -
  have "set (urls_map (urlBearingRemoteDataKey U) (san_map (url_env_of U parse) 0 rd))
      \<subseteq> {s. validateURLField parse s}"
    using san_urls(2) [of "url_env_of U parse" 0 rd] by (simp add: url_env_of_def)
  then show ?thesis
    by (auto simp: sanitizeRemoteData_def san_idem(2) option.map_comp comp_def
        intro: option.map_cong)
qed

text \<open>A parser that knows two URLs, for the witnesses.\<close>

definition ex_parse :: url_parser where
  "ex_parse s = (if s = ''http://h'' then Some (''http'', ''h'')
     else if s = ''js:x'' then Some (''js'', []) else None)"

definition ex_remote :: jmap where
  "ex_remote = [(''p'', JMap [(''html_url'', JStr ''js:x'')]), (''pageUrl'', JStr ''http://h''),
     (''n'', JNum 1)]"

lemma ex_sanitize:
  "sanitizeRemoteData ascii ex_parse (Some ex_remote)
   = Some [(''p'', JMap []), (''pageUrl'', JStr ''http://h''), (''n'', JNum 1)]"
  by code_simp

theorem sanitized_urls_valid_witness:
  "urls_map (urlBearingRemoteDataKey ascii) [(''p'', JMap []), (''pageUrl'', JStr ''http://h''),
      (''n'', JNum 1)] = [''http://h''] \<and> validateURLField ex_parse ''http://h''"
proof -
  have u: "urls_map (urlBearingRemoteDataKey ascii) [(''p'', JMap []), (''pageUrl'', JStr ''http://h''),
      (''n'', JNum 1)] = [''http://h'']" by code_simp
  have "\<forall>s\<in>set (urls_map (urlBearingRemoteDataKey ascii)
      [(''p'', JMap []), (''pageUrl'', JStr ''http://h''), (''n'', JNum 1)]). validateURLField ex_parse s"
    using sanitized_urls_valid [of ascii ex_parse ex_remote None] ex_sanitize by blast
  then show ?thesis unfolding u by simp
qed

text \<open>
  The import check and the sanitizer agree on every document that is not nested too
  deeply: the check accepts the platform data exactly when the sanitizer treats it as it would
  if every URL in it were good, so a rejected document is one from which the sanitizer would
  have dropped a URL. A document that is accepted has its URLs kept on every later read.
\<close>

theorem import_check_agrees:
  assumes "jdepth_map rd \<le> maxRemoteDataDepth"
  shows "validateRemoteDataURLs U parse (Some rd) \<longleftrightarrow>
    sanitizeRemoteData U parse (Some rd)
      = Some (san_map (url_env_of U parse\<lparr>url_ok := \<lambda>_. True\<rparr>) 0 rd)"
  using val_san(2) [of 0 rd 0 "url_env_of U parse"] assms
  by (auto simp: validateRemoteDataURLs_def sanitizeRemoteData_def)

theorem import_check_agrees_witness:
  "\<not> validateRemoteDataURLs ascii ex_parse (Some ex_remote)"
proof -
  have "jdepth_map ex_remote \<le> maxRemoteDataDepth" by code_simp
  moreover have "san_map (url_env_of ascii ex_parse\<lparr>url_ok := \<lambda>_. True\<rparr>) 0 ex_remote = ex_remote"
    by code_simp
  moreover have "ex_remote \<noteq> [(''p'', JMap []), (''pageUrl'', JStr ''http://h''), (''n'', JNum 1)]"
    by (simp add: ex_remote_def)
  ultimately show ?thesis
    using import_check_agrees [of ex_remote ascii ex_parse] ex_sanitize by simp
qed

text \<open>
  What a URL field lets through: given that \<open>url.Parse\<close> reads the scheme off the front of
  its argument, a non-empty accepted value starts with \<open>http:\<close> or \<open>https:\<close> up to case and holds
  no white space and no control character; so it is never a script URL.
\<close>

theorem accepted_url_is_http:
  assumes "\<And>s sch h. parse s = Some (sch, h) \<Longrightarrow> sch \<noteq> []
      \<Longrightarrow> map lower_char (take (Suc (length sch)) s) = map lower_char sch @ '':''"
    and "validateURLField parse raw" and "raw \<noteq> []"
  shows "(\<exists>n. map lower_char (take n raw) = ''http:'' \<or> map lower_char (take n raw) = ''https:'')
    \<and> (\<forall>r\<in>set (runes raw). 32 < r \<and> r \<noteq> 127)"
proof -
  from assms(2,3) obtain sch h where p: "parse raw = Some (sch, h)"
    and "map lower_char sch = ''http'' \<or> map lower_char sch = ''https''"
    and "\<forall>r\<in>set (runes raw). 32 < r \<and> r \<noteq> 127"
    by (auto simp: validateURLField_def allowedURLSchemes_def list_ex_iff not_le
        split: if_splits option.splits)
  moreover from this have "map lower_char (take (Suc (length sch)) raw) = map lower_char sch @ '':''"
    using assms(1) [OF p] by auto
  ultimately show ?thesis by (metis append_Cons append_Nil)
qed

theorem accepted_url_is_http_witness:
  "validateURLField ex_parse ''http://h'' \<and> (\<exists>n. map lower_char (take n ''http://h'') = ''http:''
     \<or> map lower_char (take n ''http://h'') = ''https:'')"
proof -
  have v: "validateURLField ex_parse ''http://h''" by code_simp
  have "map lower_char (take (Suc (length sch)) s) = map lower_char sch @ '':''"
    if "ex_parse s = Some (sch, h)" "sch \<noteq> []" for s sch h
    using that by (auto simp: ex_parse_def lower_char_def in_range_def split: if_splits)
  then show ?thesis using accepted_url_is_http [of ex_parse "''http://h''", OF _ v] v by simp
qed

end
