(* ===== verification/FT_Convert.thy ===== *)
theory FT_Convert
  imports FT_Urls FT_Availability FT_Rows FT_Example
begin

text \<open>
  The conversions between stored rows and protobuf messages: \<open>internal/convert\<close> and
  \<open>internal/server/convert.go\<close>. A protobuf enumeration is its 32-bit number, since a client may
  send any; the defined numbers are the keys of the generated \<open>_name\<close> maps. A message is a
  record of the fields the converters set, an unset optional field is \<open>None\<close>; identifiers are
  strings, rendered by the UUID library, which is a parameter with the URL parser, the
  character tables and the test whether protobuf can represent a map.
\<close>

record lib =
  uuid_Parse :: "string \<Rightarrow> uuid option"
  uuid_String :: "uuid \<Rightarrow> string"
  url_Parse :: url_parser
  tables :: unicode
  structpb_ok :: "jmap \<Rightarrow> bool"

text \<open>What the code relies on: \<open>uuid.Parse\<close> reads back what \<open>UUID.String\<close> writes.\<close>

definition uuid_laws :: "lib \<Rightarrow> bool" where
  "uuid_laws L \<longleftrightarrow> (\<forall>u. uuid_Parse L (uuid_String L u) = Some u)"

section \<open>Enumerations\<close>

definition TaskPhase_names :: "int list" where "TaskPhase_names = [0, 1, 2, 3, 4]"
definition TaskStage_names :: "int list" where
  "TaskStage_names = [0, 1, 2, 4, 5, 6, 7, 12, 13, 14, 15]"
definition TaskPriority_names :: "int list" where "TaskPriority_names = [0, 1, 2, 3, 4]"
definition TaskHoldReason_names :: "int list" where "TaskHoldReason_names = [0, 1, 2]"
definition CIStatus_names :: "int list" where "CIStatus_names = [0, 1, 2, 3, 4]"
definition Platform_names :: "int list" where "Platform_names = [0, 1, 2, 3, 4, 5, 6]"
definition UserType_names :: "int list" where "UserType_names = [0, 1, 2, 3]"
definition SortField_names :: "int list" where "SortField_names = [0, 1, 2, 3, 4]"
definition SortOrder_names :: "int list" where "SortOrder_names = [0, 1, 2]"

definition PhaseFromProto :: "int \<Rightarrow> phase" where
  "PhaseFromProto p = (if p = 1 then PhaseOpen else if p = 2 then PhaseInProgress
     else if p = 3 then PhaseOnHold else if p = 4 then PhaseClosed else PhaseOpen)"

definition StageFromProto :: "int \<Rightarrow> stage" where
  "StageFromProto s = (if s = 1 then StageTriage else if s = 2 then StageAccepted
     else if s = 4 then StageWorking else if s = 5 then StageInReview else if s = 6 then StageInQa
     else if s = 7 then StageDeploying else if s = 12 then StageCompleted
     else if s = 13 then StageWontFix else if s = 14 then StageDuplicate
     else if s = 15 then StageCancelled else StageTriage)"

definition PriorityFromProto :: "int \<Rightarrow> priority" where
  "PriorityFromProto p = (if p = 1 then PriorityUrgent else if p = 2 then PriorityHigh
     else if p = 3 then PriorityNormal else if p = 4 then PriorityLow else PriorityNormal)"

definition phaseToProto :: "phase \<Rightarrow> int" where
  "phaseToProto p = (case p of PhaseOpen \<Rightarrow> 1 | PhaseInProgress \<Rightarrow> 2 | PhaseOnHold \<Rightarrow> 3
     | PhaseClosed \<Rightarrow> 4)"

definition stageToProto :: "stage \<Rightarrow> int" where
  "stageToProto s = (case s of StageTriage \<Rightarrow> 1 | StageAccepted \<Rightarrow> 2 | StageWorking \<Rightarrow> 4
     | StageInReview \<Rightarrow> 5 | StageInQa \<Rightarrow> 6 | StageDeploying \<Rightarrow> 7 | StageCompleted \<Rightarrow> 12
     | StageWontFix \<Rightarrow> 13 | StageDuplicate \<Rightarrow> 14 | StageCancelled \<Rightarrow> 15 | StageOther _ \<Rightarrow> 0)"

definition holdReasonToProto :: "hold_reason \<Rightarrow> int" where
  "holdReasonToProto h = (case h of HoldReasonWaitingForInput \<Rightarrow> 1 | HoldReasonDeferred \<Rightarrow> 2)"

text \<open>\<open>None\<close> is the empty string, which is not a hold reason.\<close>

definition holdReasonFromProto :: "int \<Rightarrow> hold_reason option" where
  "holdReasonFromProto h = (if h = 1 then Some HoldReasonWaitingForInput
     else if h = 2 then Some HoldReasonDeferred else None)"

definition availabilityReasonToProto :: "AvailabilityReason \<Rightarrow> int" where
  "availabilityReasonToProto r = (case r of ReasonTriage \<Rightarrow> 1 | ReasonTerminal \<Rightarrow> 2
     | ReasonHeld \<Rightarrow> 3 | ReasonBlockedByDependency \<Rightarrow> 4 | ReasonFutureStartDate \<Rightarrow> 5)"

definition priorityToProto :: "priority \<Rightarrow> int" where
  "priorityToProto p = (case p of PriorityUrgent \<Rightarrow> 1 | PriorityHigh \<Rightarrow> 2 | PriorityNormal \<Rightarrow> 3
     | PriorityLow \<Rightarrow> 4)"

definition platformToProto :: "platform \<Rightarrow> int" where
  "platformToProto p = (case p of PlatformFarmtable \<Rightarrow> 1 | PlatformGithub \<Rightarrow> 2
     | PlatformLinear \<Rightarrow> 3 | PlatformJira \<Rightarrow> 4 | PlatformAsana \<Rightarrow> 5 | PlatformBeads \<Rightarrow> 6)"

definition platformFromProto :: "int \<Rightarrow> platform" where
  "platformFromProto p = (if p = 1 then PlatformFarmtable else if p = 2 then PlatformGithub
     else if p = 3 then PlatformLinear else if p = 4 then PlatformJira
     else if p = 5 then PlatformAsana else if p = 6 then PlatformBeads else PlatformFarmtable)"

definition platformStringToProto :: "string \<Rightarrow> int" where
  "platformStringToProto s = (if s = ''github'' then 2 else if s = ''linear'' then 3
     else if s = ''jira'' then 4 else if s = ''asana'' then 5 else if s = ''beads'' then 6
     else if s = ''farmtable'' then 1 else 1)"

definition userTypeToProto :: "string \<Rightarrow> int" where
  "userTypeToProto t = (if t = ''human'' then 1 else if t = ''agent'' then 2
     else if t = ''service_account'' then 3 else 2)"

definition userTypeFromProto :: "int \<Rightarrow> string" where
  "userTypeFromProto t = (if t = 1 then ''human'' else if t = 2 then ''agent''
     else if t = 3 then ''service_account'' else [])"

definition userStatusToProto :: "string \<Rightarrow> int" where
  "userStatusToProto s = (if s = ''active'' then 1 else if s = ''suspended'' then 2
     else if s = ''archived'' then 3 else 1)"

definition ciStatusToProto :: "ci_status \<Rightarrow> int" where
  "ciStatusToProto c = (case c of CiStatusPending \<Rightarrow> 1 | CiStatusRunning \<Rightarrow> 2
     | CiStatusPassed \<Rightarrow> 3 | CiStatusFailed \<Rightarrow> 4 | CiStatusUnknown \<Rightarrow> 0)"

definition ciStatusFromProto :: "int \<Rightarrow> string" where
  "ciStatusFromProto c = (if c = 1 then ''pending'' else if c = 2 then ''running''
     else if c = 3 then ''passed'' else if c = 4 then ''failed'' else ''unknown'')"

definition prStatusToProto :: "string \<Rightarrow> int" where
  "prStatusToProto s = (if s = ''open'' then 1 else if s = ''merged'' then 2
     else if s = ''closed'' then 3 else 0)"

definition prStatusFromProto :: "int \<Rightarrow> string" where
  "prStatusFromProto s = (if s = 1 then ''open'' else if s = 2 then ''merged''
     else if s = 3 then ''closed'' else [])"

definition relationshipTypeToProto :: "rel_type \<Rightarrow> int" where
  "relationshipTypeToProto r = (case r of TypeBlocks \<Rightarrow> 1 | TypeBlockedBy \<Rightarrow> 2
     | TypeRelatesTo \<Rightarrow> 3 | TypeDuplicates \<Rightarrow> 4 | TypeDuplicatedBy \<Rightarrow> 4)"

definition invertRelationshipType :: "int \<Rightarrow> int" where
  "invertRelationshipType r = (if r = 1 then 2 else if r = 2 then 1 else r)"

definition sortFieldToString :: "int \<Rightarrow> string" where
  "sortFieldToString f = (if f = 1 then ''created'' else if f = 2 then ''updated''
     else if f = 3 then ''priority'' else if f = 4 then ''due_date'' else [])"

definition sortOrderToString :: "int \<Rightarrow> string" where
  "sortOrderToString s = (if s = 1 then ''asc'' else if s = 2 then ''desc'' else ''asc'')"

text \<open>Linked accounts: the numbers of \<open>AuthMethod\<close> are those of the generated code.\<close>

definition linkedAccountPlatformToProto :: "platform \<Rightarrow> int" where
  "linkedAccountPlatformToProto p = (case p of PlatformGithub \<Rightarrow> 2 | PlatformLinear \<Rightarrow> 3
     | PlatformJira \<Rightarrow> 4 | PlatformAsana \<Rightarrow> 5 | PlatformBeads \<Rightarrow> 6 | PlatformFarmtable \<Rightarrow> 0)"

definition linkedAccountPlatformFromProto :: "int \<Rightarrow> string" where
  "linkedAccountPlatformFromProto p = (if p = 2 then ''github'' else if p = 3 then ''linear''
     else if p = 4 then ''jira'' else if p = 5 then ''asana'' else if p = 6 then ''beads'' else [])"

definition linkedAccountAuthMethodToProto :: "auth_method \<Rightarrow> int" where
  "linkedAccountAuthMethodToProto m = (case m of AuthMethodPat \<Rightarrow> 3 | AuthMethodOauth \<Rightarrow> 1
     | AuthMethodGithubApp \<Rightarrow> 6)"

definition linkedAccountAuthMethodFromProto :: "int \<Rightarrow> string" where
  "linkedAccountAuthMethodFromProto m = (if m = 3 then ''pat'' else if m = 1 then ''oauth''
     else if m = 6 then ''github_app'' else [])"

definition linkedAccountStatusToProto :: "account_status \<Rightarrow> int" where
  "linkedAccountStatusToProto s = (case s of StatusActive \<Rightarrow> 1 | StatusExpired \<Rightarrow> 2
     | StatusRevoked \<Rightarrow> 3)"

definition linkedAccountStatusFromProto :: "int \<Rightarrow> string" where
  "linkedAccountStatusFromProto s = (if s = 1 then ''active'' else if s = 2 then ''expired''
     else if s = 3 then ''revoked'' else [])"

section \<open>Messages\<close>

record pb_pull_request =
  pq_Id :: string
  pq_Url :: string
  pq_Status :: int

record pb_code_context =
  pcc_Repo :: "string option"
  pcc_Branch :: "string option"
  pcc_CiStatus :: "int option"
  pcc_PullRequests :: "pb_pull_request list"

record pb_availability =
  pav_Available :: bool
  pav_Reasons :: "int list"

record pb_task =
  pt_Id :: string
  pt_Name :: string
  pt_Description :: "string option"
  pt_Acceptance :: "string option"
  pt_Phase :: int
  pt_Stage :: int
  pt_NativeStatus :: "string option"
  pt_Type :: "string option"
  pt_Priority :: "int option"
  pt_HoldReason :: "int option"
  pt_Rank :: "int option"
  pt_Assignees :: "string list"
  pt_ParentTaskId :: "string option"
  pt_CollectionId :: string
  pt_Platform :: int
  pt_StartDate :: "time option"
  pt_DueDate :: "time option"
  pt_ClosedAt :: "time option"
  pt_CreatedAt :: time
  pt_UpdatedAt :: time
  pt_RemoteId :: "string option"
  pt_RemoteUrl :: "string option"
  pt_RemoteData :: "jmap option"
  pt_Labels :: "string list"
  pt_CodeContext :: "pb_code_context option"
  pt_Relationships :: "(int \<times> string) list"
  pt_Version :: string
  pt_Availability :: pb_availability

definition availabilityToProto :: "TaskAvailability \<Rightarrow> pb_availability" where
  "availabilityToProto a = \<lparr>pav_Available = Available a,
     pav_Reasons = map availabilityReasonToProto (Reasons a)\<rparr>"

definition basicAvailabilityForTask :: "time \<Rightarrow> task \<Rightarrow> TaskAvailability" where
  "basicAvailabilityForTask tnow t =
    (let reasons = (if t_stage t = StageTriage then [ReasonTriage] else [])
           @ (if IsTerminalStage (t_stage t) then [ReasonTerminal] else [])
           @ (if t_hold t \<noteq> None then [ReasonHeld] else [])
           @ (case t_start t of None \<Rightarrow> [] | Some s \<Rightarrow> if s > tnow then [ReasonFutureStartDate] else [])
     in \<lparr>Available = (reasons = []), Reasons = reasons\<rparr>)"

definition some_unless_empty :: "string \<Rightarrow> string option" where
  "some_unless_empty s = (if s \<noteq> [] then Some s else None)"

text \<open>\<open>m[k].(string)\<close>.\<close>

definition jstring :: "jmap option \<Rightarrow> string \<Rightarrow> string option" where
  "jstring rd k = (case rd of None \<Rightarrow> None | Some m \<Rightarrow>
     (case map_of m k of Some (JStr s) \<Rightarrow> Some s | _ \<Rightarrow> None))"

definition structOrNilLoggingErr :: "lib \<Rightarrow> jmap option \<Rightarrow> jmap option" where
  "structOrNilLoggingErr L rd = (case rd of None \<Rightarrow> None | Some m \<Rightarrow>
     if structpb_ok L m then Some m else None)"

definition pr_to_proto :: "(string \<times> string) list \<Rightarrow> pb_pull_request" where
  "pr_to_proto pr = (let get = (\<lambda>k. case map_of pr k of None \<Rightarrow> [] | Some v \<Rightarrow> v) in
     \<lparr>pq_Id = get ''id'', pq_Url = get ''url'', pq_Status = prStatusToProto (get ''status'')\<rparr>)"

definition code_context :: "task \<Rightarrow> pb_code_context option" where
  "code_context t =
    (if t_repo t \<noteq> [] \<or> t_branch t \<noteq> [] \<or> t_ci t \<noteq> None \<or> t_prs t \<noteq> [] then
       Some \<lparr>pcc_Repo = some_unless_empty (t_repo t), pcc_Branch = some_unless_empty (t_branch t),
         pcc_CiStatus = map_option ciStatusToProto (t_ci t), pcc_PullRequests = map pr_to_proto (t_prs t)\<rparr>
     else None)"

text \<open>
  The relationships of both directions, sorted by type and target; entries that compare equal
  are equal, so the order of the sort is determined.
\<close>

definition relationships_to_proto :: "lib \<Rightarrow> etask \<Rightarrow> (int \<times> string) list" where
  "relationships_to_proto L et = sort (
     map (\<lambda>r. (relationshipTypeToProto (r_type r), uuid_String L (r_tgt r))) (e_src et) @
     map (\<lambda>r. (invertRelationshipType (relationshipTypeToProto (r_type r)), uuid_String L (r_src r)))
       (e_tgt et))"

definition taskToProto :: "lib \<Rightarrow> time \<Rightarrow> etask \<Rightarrow> pb_task" where
  "taskToProto L tnow et =
    (let t = e_task et in
     \<lparr>pt_Id = uuid_String L (t_id t), pt_Name = t_title t,
      pt_Description = some_unless_empty (t_description t), pt_Acceptance = t_acceptance t,
      pt_Phase = phaseToProto (t_phase t), pt_Stage = stageToProto (t_stage t),
      pt_NativeStatus = some_unless_empty (t_native_label t), pt_Type = some_unless_empty (t_type t),
      pt_Priority = map_option priorityToProto (t_priority t),
      pt_HoldReason = map_option holdReasonToProto (t_hold t), pt_Rank = t_rank t,
      pt_Assignees = (case t_assignee t of None \<Rightarrow> [] | Some a \<Rightarrow> [uuid_String L a]),
      pt_ParentTaskId = map_option (uuid_String L) (t_parent t),
      pt_CollectionId = uuid_String L (t_collection t),
      pt_Platform = (case jstring (t_remote t) ''platform'' of None \<Rightarrow> 1
         | Some p \<Rightarrow> platformStringToProto p),
      pt_StartDate = t_start t, pt_DueDate = t_due t, pt_ClosedAt = t_closed t,
      pt_CreatedAt = t_created t, pt_UpdatedAt = t_updated t,
      pt_RemoteId = (case jstring (t_remote t) ''remote_id'' of None \<Rightarrow> None
         | Some s \<Rightarrow> some_unless_empty s),
      pt_RemoteUrl = (case jstring (t_remote t) ''remote_url'' of None \<Rightarrow> None
         | Some s \<Rightarrow> if s \<noteq> [] \<and> validateURLField (url_Parse L) s then Some s else None),
      pt_RemoteData = structOrNilLoggingErr L
         (sanitizeRemoteData (tables L) (url_Parse L) (t_remote t)),
      pt_Labels = t_labels t, pt_CodeContext = code_context t,
      pt_Relationships = relationships_to_proto L et, pt_Version = t_version t,
      pt_Availability = availabilityToProto (basicAvailabilityForTask tnow t)\<rparr>)"

record pb_user =
  pu_Id :: string
  pu_Name :: string
  pu_Type :: int
  pu_Status :: int
  pu_Email :: "string option"

definition userToProto :: "lib \<Rightarrow> user \<Rightarrow> pb_user" where
  "userToProto L u = \<lparr>pu_Id = uuid_String L (u_id u), pu_Name = u_name u,
     pu_Type = userTypeToProto (u_type u), pu_Status = userStatusToProto (u_status u),
     pu_Email = u_email u\<rparr>"

record pb_collection =
  pc_Id :: string
  pc_Name :: string
  pc_Platform :: int
  pc_CreatedAt :: time
  pc_UpdatedAt :: time
  pc_Description :: "string option"
  pc_RemoteId :: "string option"
  pc_RemoteData :: "jmap option"

definition collectionToProto :: "lib \<Rightarrow> collection \<Rightarrow> pb_collection" where
  "collectionToProto L c = \<lparr>pc_Id = uuid_String L (co_id c), pc_Name = co_name c,
     pc_Platform = platformToProto (co_platform c), pc_CreatedAt = co_created c,
     pc_UpdatedAt = co_updated c, pc_Description = some_unless_empty (co_description c),
     pc_RemoteId = some_unless_empty (co_remote_id c),
     pc_RemoteData = structOrNilLoggingErr L
       (sanitizeRemoteData (tables L) (url_Parse L) (co_remote c))\<rparr>"

record pb_comment =
  pcm_Id :: string
  pcm_TaskId :: string
  pcm_Author :: string
  pcm_Body :: string
  pcm_CreatedAt :: time
  pcm_UpdatedAt :: time

definition commentToProto :: "lib \<Rightarrow> comment \<Rightarrow> pb_comment" where
  "commentToProto L c = \<lparr>pcm_Id = uuid_String L (cm_id c), pcm_TaskId = uuid_String L (cm_task c),
     pcm_Author = uuid_String L (cm_author c), pcm_Body = cm_body c,
     pcm_CreatedAt = cm_created c, pcm_UpdatedAt = cm_updated c\<rparr>"

record pb_change =
  pch_Id :: string
  pch_TaskId :: string
  pch_Field :: string
  pch_ChangedBy :: string
  pch_ChangedAt :: time
  pch_OldValue :: "rendered option"
  pch_NewValue :: "rendered option"

definition changeToProto :: "lib \<Rightarrow> change \<Rightarrow> pb_change" where
  "changeToProto L c = \<lparr>pch_Id = uuid_String L (ch_id c), pch_TaskId = uuid_String L (ch_task c),
     pch_Field = ch_field c, pch_ChangedBy = uuid_String L (ch_author c),
     pch_ChangedAt = ch_created c,
     pch_OldValue = (if ch_old c \<noteq> RStr [] then Some (ch_old c) else None),
     pch_NewValue = (if ch_new c \<noteq> RStr [] then Some (ch_new c) else None)\<rparr>"

text \<open>The credentials of a linked account are in no field of its message.\<close>

record pb_linked_account =
  pla_Id :: string
  pla_CollectionId :: string
  pla_Platform :: int
  pla_AuthMethod :: int
  pla_Scopes :: "string list"
  pla_Status :: int
  pla_CreatedAt :: time
  pla_UpdatedAt :: time
  pla_RemoteUserId :: "string option"
  pla_ExpiresAt :: "time option"

definition linkedAccountToProto :: "lib \<Rightarrow> account \<Rightarrow> pb_linked_account" where
  "linkedAccountToProto L a = \<lparr>pla_Id = uuid_String L (a_id a),
     pla_CollectionId = uuid_String L (a_collection a),
     pla_Platform = linkedAccountPlatformToProto (a_platform a),
     pla_AuthMethod = linkedAccountAuthMethodToProto (a_method a), pla_Scopes = a_scopes a,
     pla_Status = linkedAccountStatusToProto (a_status a), pla_CreatedAt = a_created a,
     pla_UpdatedAt = a_updated a, pla_RemoteUserId = some_unless_empty (a_remote_user a),
     pla_ExpiresAt = a_expires a\<rparr>"

section \<open>Properties\<close>

lemma stored_enums [simp]:
  "PhaseFromProto (phaseToProto p) = p" "PriorityFromProto (priorityToProto r) = r"
  "declared_stage s \<Longrightarrow> StageFromProto (stageToProto s) = s"
proof -
  show "PhaseFromProto (phaseToProto p) = p"
    by (cases p) (simp_all add: PhaseFromProto_def phaseToProto_def)
  show "PriorityFromProto (priorityToProto r) = r"
    by (cases r) (simp_all add: PriorityFromProto_def priorityToProto_def)
  show "declared_stage s \<Longrightarrow> StageFromProto (stageToProto s) = s"
    by (cases s) (simp_all add: StageFromProto_def stageToProto_def declared_stage_def)
qed

text \<open>
  The enumerations survive the wire: every declared stored value comes back from its
  number, and every defined number but the unspecified one (and \<open>unknown\<close>, which has no number)
  comes back from the stored value it is read as; so what a client reads and sends back is what
  was stored.
\<close>

theorem enums_roundtrip:
  "PhaseFromProto (phaseToProto p) = p \<and> PriorityFromProto (priorityToProto r) = r
   \<and> (declared_stage s \<longrightarrow> StageFromProto (stageToProto s) = s)
   \<and> holdReasonFromProto (holdReasonToProto h) = Some h \<and> platformFromProto (platformToProto pl) = pl
   \<and> (c \<noteq> CiStatusUnknown \<longrightarrow> ci_status_of_str (ciStatusFromProto (ciStatusToProto c)) = Some c)
   \<and> (n \<in> set TaskPhase_names - {0} \<longrightarrow> phaseToProto (PhaseFromProto n) = n)
   \<and> (n \<in> set TaskStage_names - {0} \<longrightarrow> stageToProto (StageFromProto n) = n)
   \<and> (n \<in> set TaskPriority_names - {0} \<longrightarrow> priorityToProto (PriorityFromProto n) = n)
   \<and> (n \<in> set Platform_names - {0} \<longrightarrow> platformToProto (platformFromProto n) = n)
   \<and> (n \<in> set TaskHoldReason_names - {0} \<longrightarrow> map_option holdReasonToProto (holdReasonFromProto n) = Some n)"
proof -
  have "holdReasonFromProto (holdReasonToProto h) = Some h"
    by (cases h) (simp_all add: holdReasonFromProto_def holdReasonToProto_def)
  moreover have "platformFromProto (platformToProto pl) = pl"
    by (cases pl) (simp_all add: platformFromProto_def platformToProto_def)
  moreover have "c \<noteq> CiStatusUnknown \<longrightarrow> ci_status_of_str (ciStatusFromProto (ciStatusToProto c)) = Some c"
    by (cases c) (simp_all add: ciStatusFromProto_def ciStatusToProto_def ci_status_of_str_def)
  moreover have "n \<in> set TaskStage_names - {0} \<longrightarrow> stageToProto (StageFromProto n) = n"
    by (auto simp: TaskStage_names_def StageFromProto_def stageToProto_def)
  moreover have "n \<in> set TaskPhase_names - {0} \<longrightarrow> phaseToProto (PhaseFromProto n) = n"
    "n \<in> set TaskPriority_names - {0} \<longrightarrow> priorityToProto (PriorityFromProto n) = n"
    "n \<in> set Platform_names - {0} \<longrightarrow> platformToProto (platformFromProto n) = n"
    "n \<in> set TaskHoldReason_names - {0} \<longrightarrow> map_option holdReasonToProto (holdReasonFromProto n) = Some n"
    by (auto simp: TaskPhase_names_def PhaseFromProto_def phaseToProto_def TaskPriority_names_def
        PriorityFromProto_def priorityToProto_def Platform_names_def platformFromProto_def
        platformToProto_def TaskHoldReason_names_def holdReasonFromProto_def holdReasonToProto_def)
  ultimately show ?thesis using stored_enums by blast
qed

theorem enums_roundtrip_witness:
  "StageFromProto (stageToProto StageInQa) = StageInQa \<and> stageToProto (StageFromProto 12) = 12
    \<and> ci_status_of_str (ciStatusFromProto (ciStatusToProto CiStatusPassed)) = Some CiStatusPassed"
  using enums_roundtrip [where s = StageInQa and n = 12 and c = CiStatusPassed]
  by (simp add: declared_stage_def TaskStage_names_def)

text \<open>
  The dependency graph looks the same from both ends, whichever of its two forms a row
  has: the message of one task lists another under \<open>blocks\<close> exactly when the message of the
  other lists the first under \<open>blocked by\<close>, and the symmetric types likewise.
\<close>

lemma uuid_String_inj: "uuid_laws L \<Longrightarrow> uuid_String L u = uuid_String L v \<longleftrightarrow> u = v"
  unfolding uuid_laws_def by (metis option.inject)

lemma relationship_listed:
  assumes "uuid_laws L"
  shows "(n, uuid_String L j) \<in> set (relationships_to_proto L (with_edges d t)) \<longleftrightarrow>
    (\<exists>r\<in>set (d_rels d). (r_src r = t_id t \<and> r_tgt r = j \<and> n = relationshipTypeToProto (r_type r))
       \<or> (r_tgt r = t_id t \<and> r_src r = j \<and> n = invertRelationshipType (relationshipTypeToProto (r_type r))))"
  by (auto simp: relationships_to_proto_def with_edges_def uuid_String_inj [OF assms] image_iff)

lemma invert_involutive: "invertRelationshipType (invertRelationshipType n) = n"
  by (simp add: invertRelationshipType_def)

theorem relationships_symmetric:
  assumes "uuid_laws L"
  shows "(n, uuid_String L (t_id b)) \<in> set (pt_Relationships (taskToProto L tnow (with_edges d a))) \<longleftrightarrow>
    (invertRelationshipType n, uuid_String L (t_id a))
      \<in> set (pt_Relationships (taskToProto L tnow (with_edges d b)))"
proof -
  have inv: "invertRelationshipType n = invertRelationshipType m \<longleftrightarrow> n = m" for n m
    by (metis invert_involutive)
  have flip: "invertRelationshipType n = m \<longleftrightarrow> n = invertRelationshipType m" for n m
    by (metis invert_involutive)
  have edges: "pt_Relationships (taskToProto L tnow (with_edges d t))
      = relationships_to_proto L (with_edges d t)" for t
    by (simp add: taskToProto_def Let_def)
  show ?thesis
    unfolding edges relationship_listed [OF assms] flip inv invert_involutive by blast
qed

definition ex_lib :: lib where
  "ex_lib = \<lparr>uuid_Parse = (\<lambda>s. if s = [] then None else Some (length s - 1)),
     uuid_String = (\<lambda>u. replicate (Suc u) CHR ''u''), url_Parse = ex_parse, tables = ascii,
     structpb_ok = (\<lambda>_. True)\<rparr>"

lemma ex_lib_laws: "uuid_laws ex_lib"
  by (simp add: uuid_laws_def ex_lib_def)

theorem relationships_symmetric_witness:
  "(1, uuid_String ex_lib 11) \<in> set (pt_Relationships (taskToProto ex_lib 0 (with_edges ex_db ex10)))
   \<and> (2, uuid_String ex_lib 10) \<in> set (pt_Relationships (taskToProto ex_lib 0 (with_edges ex_db ex11)))"
proof -
  have l: "(1, uuid_String ex_lib 11) \<in> set (relationships_to_proto ex_lib (with_edges ex_db ex10))"
    unfolding relationship_listed [OF ex_lib_laws]
    by (simp add: ex_defs relationshipTypeToProto_def)
  have e: "pt_Relationships (taskToProto ex_lib 0 (with_edges ex_db ex10))
      = relationships_to_proto ex_lib (with_edges ex_db ex10)"
    by (simp add: taskToProto_def Let_def)
  show ?thesis
    using relationships_symmetric [OF ex_lib_laws, of 1 ex11 0 ex_db ex10] l e
    by (simp add: invertRelationshipType_def)
qed

end
