(* ===== verification/FT_Events.thy ===== *)
theory FT_Events
  imports FT_Convert "HOL-Library.AList"
begin

text \<open>
  The event bus of \<open>internal/streaming/eventbus.go\<close>. An event is published as one pointer that
  all subscribers share, and the stream handler writes the sequence number into it: so the
  events live in a store of cells and a channel holds addresses. The map of subscribers is an
  association list with distinct identifiers; Go visits a map in any order, but each
  subscriber has a channel of its own, so the order makes no difference.
\<close>

record task_event =
  ev_EventType :: int
  ev_Task :: "pb_task option"
  ev_Timestamp :: time
  ev_Sequence :: int

definition EVENT_INITIAL :: int where "EVENT_INITIAL = 1"
definition EVENT_CREATED :: int where "EVENT_CREATED = 2"
definition EVENT_UPDATED :: int where "EVENT_UPDATED = 3"
definition EVENT_CLOSED :: int where "EVENT_CLOSED = 4"
definition EVENT_HEARTBEAT :: int where "EVENT_HEARTBEAT = 6"
definition EVENT_SNAPSHOT_COMPLETE :: int where "EVENT_SNAPSHOT_COMPLETE = 7"

section \<open>Filters\<close>

record SubscriptionFilter =
  f_CollectionID :: "uuid option"
  f_Phase :: "phase option"
  f_Stages :: "stage list"
  f_AssigneeID :: "uuid option"
  f_Unassigned :: bool
  f_Labels :: "string list"
  f_TaskID :: "uuid option"
  f_Priority :: "priority option"

definition matchesFilter :: "lib \<Rightarrow> SubscriptionFilter \<Rightarrow> task_event \<Rightarrow> bool" where
  "matchesFilter L f event =
    (case ev_Task event of
       None \<Rightarrow> True
     | Some t \<Rightarrow>
        (case f_TaskID f of
           Some i \<Rightarrow> (case uuid_Parse L (pt_Id t) of None \<Rightarrow> False | Some taskID \<Rightarrow> taskID = i)
         | None \<Rightarrow>
             (case f_CollectionID f of None \<Rightarrow> True
              | Some i \<Rightarrow> (case uuid_Parse L (pt_CollectionId t) of None \<Rightarrow> False | Some collID \<Rightarrow> collID = i))
           \<and> (case f_Phase f of None \<Rightarrow> True | Some p \<Rightarrow> PhaseFromProto (pt_Phase t) = p)
           \<and> (f_Stages f = [] \<or> list_ex (\<lambda>s. StageFromProto (pt_Stage t) = s) (f_Stages f))
           \<and> (case f_AssigneeID f of None \<Rightarrow> True
              | Some i \<Rightarrow> list_ex (\<lambda>a. uuid_Parse L a = Some i) (pt_Assignees t))
           \<and> (f_Unassigned f \<longrightarrow> pt_Assignees t = [])
           \<and> list_all (List.member (pt_Labels t)) (f_Labels f)
           \<and> (case f_Priority f of None \<Rightarrow> True
              | Some p \<Rightarrow> (case pt_Priority t of None \<Rightarrow> False | Some q \<Rightarrow> PriorityFromProto q = p))))"

section \<open>The bus\<close>

type_synonym addr = nat

record subscriber =
  sb_Filter :: SubscriptionFilter
  sb_Events :: "addr list"

record bus =
  b_cells :: "task_event list"
  b_subscribers :: "(string \<times> subscriber) list"

definition NewEventBus :: bus where
  "NewEventBus = \<lparr>b_cells = [], b_subscribers = []\<rparr>"

definition channel_capacity :: nat where "channel_capacity = 256"

text \<open>\<open>Subscribe\<close>, given the new identifier.\<close>

definition Subscribe :: "string \<Rightarrow> SubscriptionFilter \<Rightarrow> bus \<Rightarrow> bus" where
  "Subscribe i f b = b\<lparr>b_subscribers :=
     AList.update i \<lparr>sb_Filter = f, sb_Events = []\<rparr> (b_subscribers b)\<rparr>"

text \<open>The channel of the subscriber is closed with it: its reader drains it and then ends.\<close>

definition Unsubscribe :: "string \<Rightarrow> bus \<Rightarrow> bus" where
  "Unsubscribe i b = b\<lparr>b_subscribers := AList.delete i (b_subscribers b)\<rparr>"

definition offer :: "lib \<Rightarrow> task_event \<Rightarrow> addr \<Rightarrow> subscriber \<Rightarrow> subscriber" where
  "offer L event a s =
    (if \<not> matchesFilter L (sb_Filter s) event then s
     else if length (sb_Events s) < channel_capacity then s\<lparr>sb_Events := sb_Events s @ [a]\<rparr>
     else s)"

definition Publish :: "lib \<Rightarrow> task_event \<Rightarrow> bus \<Rightarrow> bus" where
  "Publish L event b = b\<lparr>b_cells := b_cells b @ [event],
     b_subscribers := map (\<lambda>(i, s). (i, offer L event (length (b_cells b)) s)) (b_subscribers b)\<rparr>"

end
