(* ===== verification/FT_Service.thy ===== *)
theory FT_Service
  imports FT_Events FT_Scopes FT_ListTasks FT_TaskProps
begin

text \<open>
  The handlers of the gRPC service for tasks (\<open>internal/server/server.go\<close>). A handler takes the
  request context of the interceptor, the request and the database, and returns an error code
  or the response with the events it publishes and the new database. A handler that reads a
  task to authorize a write and then calls the store takes a database for its own read and the
  databases of the store's statements, since other clients may write in between.

  A page token of a request is what \<open>decodeCursor\<close> makes of it: none, one that is refused, or
  the cursor it holds.
\<close>

type_synonym 'a reply = "code + ('a \<times> task_event list \<times> db)"

section \<open>Shared steps\<close>

definition storeErr :: "store_err \<Rightarrow> code" where
  "storeErr err = (case err of ErrNotFound \<Rightarrow> NotFound | ErrConflict \<Rightarrow> Aborted
     | ErrAlreadyClaimed \<Rightarrow> FailedPrecondition | ErrAlreadyClosed \<Rightarrow> FailedPrecondition
     | ErrUnavailable \<Rightarrow> FailedPrecondition | ErrInvalidArgument \<Rightarrow> InvalidArgument
     | ErrNotImplemented \<Rightarrow> Unimplemented | ErrOther \<Rightarrow> Internal)"

definition with_code :: "(store_err \<Rightarrow> code) \<Rightarrow> store_err + 'a \<Rightarrow> code + 'a" where
  "with_code f r = (case r of Inl e \<Rightarrow> Inl (f e) | Inr x \<Rightarrow> Inr x)"

definition parse_id :: "lib \<Rightarrow> string \<Rightarrow> code + uuid" where
  "parse_id L s = optE InvalidArgument (uuid_Parse L s)"

definition parse_opt_id :: "lib \<Rightarrow> string option \<Rightarrow> code + uuid option" where
  "parse_opt_id L s = (case s of None \<Rightarrow> Inr None | Some x \<Rightarrow>
     thenE (parse_id L x) (\<lambda>i. Inr (Some i)))"

definition validateDefinedEnum :: "int \<Rightarrow> int list \<Rightarrow> code + unit" where
  "validateDefinedEnum v names = checkE (List.member names v) InvalidArgument"

definition maxTaskNameLength :: nat where "maxTaskNameLength = 512"
definition maxTaskDescriptionLength :: nat where "maxTaskDescriptionLength = 65536"

definition validateTaskName :: "string \<Rightarrow> code + unit" where
  "validateTaskName name =
    (if TrimSpace name = [] then Inl InvalidArgument
     else checkE (RuneCountInString name \<le> maxTaskNameLength) InvalidArgument)"

definition validateTaskDescription :: "string \<Rightarrow> code + unit" where
  "validateTaskDescription description =
    checkE (RuneCountInString description \<le> maxTaskDescriptionLength) InvalidArgument"

text \<open>An optional enumeration field that a handler reads with \<open>conv\<close>.\<close>

definition read_enum :: "int list \<Rightarrow> (int \<Rightarrow> 'a) \<Rightarrow> int option \<Rightarrow> code + 'a option" where
  "read_enum names conv v = (case v of None \<Rightarrow> Inr None
     | Some n \<Rightarrow> thenE (validateDefinedEnum n names) (\<lambda>_. Inr (Some (conv n))))"

text \<open>The same for a field where the unspecified number counts as unset.\<close>

definition read_enum_unless_0 :: "int list \<Rightarrow> (int \<Rightarrow> 'a) \<Rightarrow> int option \<Rightarrow> code + 'a option" where
  "read_enum_unless_0 names conv v = (if v = Some 0 then Inr None else read_enum names conv v)"

definition read_hold :: "int option \<Rightarrow> code + hold_reason option" where
  "read_hold v = thenE (read_enum_unless_0 TaskHoldReason_names holdReasonFromProto v)
     (\<lambda>h. Inr (case h of None \<Rightarrow> None | Some x \<Rightarrow> x))"

text \<open>\<open>s.taskToProto\<close>: the message with the availability the store computes.\<close>

definition srv_taskToProto :: "lib \<Rightarrow> env \<Rightarrow> db \<Rightarrow> etask \<Rightarrow> pb_task" where
  "srv_taskToProto L e d et =
    (let p = taskToProto L (now e) et in
     case ComputeAvailability e d et of
       Inl _ \<Rightarrow> p | Inr a \<Rightarrow> p\<lparr>pt_Availability := availabilityToProto a\<rparr>)"

definition task_ev :: "env \<Rightarrow> int \<Rightarrow> pb_task \<Rightarrow> task_event" where
  "task_ev e ty t = \<lparr>ev_EventType = ty, ev_Task = Some t, ev_Timestamp = now e, ev_Sequence = 0\<rparr>"

section \<open>Creating tasks\<close>

record CreateTaskRequest =
  rc_Name :: string
  rc_CollectionId :: string
  rc_Description :: string
  rc_AcceptanceCriteria :: "string option"
  rc_Stage :: "int option"
  rc_Priority :: "int option"
  rc_Type :: string
  rc_AssigneeIds :: "string list"
  rc_Labels :: "string list"
  rc_ParentTaskId :: "string option"
  rc_DueDate :: "time option"
  rc_StartDate :: "time option"
  rc_HoldReason :: "int option"
  rc_Rank :: "int option"
  rc_BlocksTaskIds :: "string list"
  rc_BlockedByTaskIds :: "string list"
  rc_Repo :: string
  rc_Branch :: string

text \<open>The stage and phase of the new task, with the scope the stage needs.\<close>

definition create_stage :: "ctx \<Rightarrow> int option \<Rightarrow> code + (stage \<times> phase)" where
  "create_stage c v =
    (case v of
       None \<Rightarrow> Inr (StageTriage, PhaseOpen)
     | Some n \<Rightarrow>
        thenE (validateDefinedEnum n TaskStage_names) (\<lambda>_.
        let stage = StageFromProto n in
        if stage = StageWorking then Inl InvalidArgument
        else let required = TransitionScope (stage_str StageTriage) (stage_str stage) in
          thenE (if required \<noteq> ScopeTaskWrite then RequireScope c required else Inr ()) (\<lambda>_.
          Inr (stage, phaseForStage stage))))"

definition first_id :: "lib \<Rightarrow> string list \<Rightarrow> code + uuid option" where
  "first_id L ids = parse_opt_id L (case ids of [] \<Rightarrow> None | s # _ \<Rightarrow> Some s)"

definition srv_CreateTask :: "lib \<Rightarrow> env \<Rightarrow> ctx \<Rightarrow> CreateTaskRequest \<Rightarrow> db \<Rightarrow> pb_task reply" where
  "srv_CreateTask L e c req d =
    thenE (RequireIdentity c) (\<lambda>_.
    thenE (RequireScope c ScopeTaskWrite) (\<lambda>_.
    thenE (validateTaskName (rc_Name req)) (\<lambda>_.
    thenE (validateTaskDescription (rc_Description req)) (\<lambda>_.
    thenE (parse_id L (rc_CollectionId req)) (\<lambda>collID.
    thenE (RequireCollectionAccess c collID) (\<lambda>_.
    thenE (create_stage c (rc_Stage req)) (\<lambda>(stage, phase).
    thenE (read_enum TaskPriority_names PriorityFromProto (rc_Priority req)) (\<lambda>priority.
    thenE (first_id L (rc_AssigneeIds req)) (\<lambda>assignee.
    thenE (parse_opt_id L (rc_ParentTaskId req)) (\<lambda>parent.
    thenE (read_hold (rc_HoldReason req)) (\<lambda>hold.
    thenE (mapE (parse_id L) (rc_BlocksTaskIds req)) (\<lambda>blocks.
    thenE (mapE (parse_id L) (rc_BlockedByTaskIds req)) (\<lambda>blockedBy.
    let p = \<lparr>ct_Title = rc_Name req, ct_Description = rc_Description req, ct_CollectionID = collID,
          ct_Phase = phase, ct_Stage = stage, ct_HoldReason = hold,
          ct_NativeLabel = stage_str stage, ct_Type = rc_Type req, ct_Priority = priority,
          ct_Rank = rc_Rank req, ct_AssigneeID = assignee, ct_ParentTaskID = parent,
          ct_AcceptanceCriteria = rc_AcceptanceCriteria req, ct_RemoteData = None,
          ct_Labels = rc_Labels req, ct_StartDate = rc_StartDate req, ct_DueDate = rc_DueDate req,
          ct_BlocksTaskIDs = blocks, ct_BlockedByTaskIDs = blockedBy, ct_Repo = rc_Repo req,
          ct_Branch = rc_Branch req\<rparr> in
    thenE (with_code (\<lambda>_. Internal) (CreateTask e p d)) (\<lambda>(t, d').
    let proto = srv_taskToProto L e d' t in
    Inr (proto, [task_ev e EVENT_CREATED proto], d')))))))))))))))"

record NewTaskSpec =
  ns_Name :: string
  ns_Description :: string
  ns_Type :: string
  ns_Priority :: "int option"
  ns_Labels :: "string list"

record InsertTasksAfterRequest =
  ri_AnchorTaskId :: string
  ri_Steps :: "NewTaskSpec list"
  ri_CollectionId :: string
  ri_Reason :: string

definition insert_spec :: "uuid \<Rightarrow> NewTaskSpec \<Rightarrow> code + CreateTaskParams" where
  "insert_spec collID step =
    thenE (validateTaskName (ns_Name step)) (\<lambda>_.
    thenE (validateTaskDescription (ns_Description step)) (\<lambda>_.
    thenE (read_enum TaskPriority_names PriorityFromProto (ns_Priority step)) (\<lambda>priority.
    Inr \<lparr>ct_Title = ns_Name step, ct_Description = ns_Description step, ct_CollectionID = collID,
      ct_Phase = PhaseOpen, ct_Stage = StageTriage, ct_HoldReason = None,
      ct_NativeLabel = stage_str StageTriage, ct_Type = ns_Type step, ct_Priority = priority,
      ct_Rank = None, ct_AssigneeID = None, ct_ParentTaskID = None, ct_AcceptanceCriteria = None,
      ct_RemoteData = None, ct_Labels = ns_Labels step, ct_StartDate = None, ct_DueDate = None,
      ct_BlocksTaskIDs = [], ct_BlockedByTaskIDs = [], ct_Repo = [], ct_Branch = []\<rparr>)))"

definition srv_InsertTasksAfter ::
  "lib \<Rightarrow> env \<Rightarrow> ctx \<Rightarrow> InsertTasksAfterRequest \<Rightarrow> db \<Rightarrow> (pb_task list \<times> pb_task) reply" where
  "srv_InsertTasksAfter L e c req d =
    thenE (RequireIdentity c) (\<lambda>_.
    thenE (RequireScope c ScopeTaskWrite) (\<lambda>_.
    thenE (parse_id L (ri_AnchorTaskId req)) (\<lambda>anchorID.
    thenE (parse_id L (ri_CollectionId req)) (\<lambda>collID.
    thenE (RequireCollectionAccess c collID) (\<lambda>_.
    thenE (checkE (ri_Steps req \<noteq> []) InvalidArgument) (\<lambda>_.
    thenE (mapE (insert_spec collID) (ri_Steps req)) (\<lambda>steps.
    let p = \<lparr>it_AnchorTaskID = anchorID, it_Steps = steps, it_CollectionID = collID,
          it_ActorID = actor_of c, it_Reason = ri_Reason req\<rparr> in
    thenE (with_code storeErr (InsertTasksAfter e p d)) (\<lambda>(r, d').
    let anchor = srv_taskToProto L e d' (ir_AnchorTask r);
        inserted = map (srv_taskToProto L e d') (ir_InsertedTasks r) in
    Inr ((inserted, anchor),
         map (task_ev e EVENT_CREATED) inserted @ [task_ev e EVENT_UPDATED anchor], d')))))))))"

section \<open>Reading tasks\<close>

definition srv_GetTask ::
  "lib \<Rightarrow> env \<Rightarrow> ctx \<Rightarrow> string \<Rightarrow> bool \<Rightarrow> bool \<Rightarrow> db \<Rightarrow> code + (pb_task \<times> pb_comment list \<times> pb_change list)" where
  "srv_GetTask L e c reqId includeComments includeChanges d =
    thenE (RequireScope c ScopeTaskRead) (\<lambda>_.
    thenE (parse_id L reqId) (\<lambda>i.
    thenE (with_code storeErr (GetTask i d)) (\<lambda>t.
    thenE (RequireCollectionAccess c (t_collection (e_task t))) (\<lambda>_.
    thenE (if includeComments then
             thenE (with_code (\<lambda>_. Internal)
               (ListComments \<lparr>lm_TaskID = i, lm_Limit = 20, lm_Cursor = NoCursor\<rparr> d))
               (\<lambda>(cs, _). Inr (map (commentToProto L) cs))
           else Inr []) (\<lambda>comments.
    thenE (if includeChanges then
             thenE (with_code (\<lambda>_. Internal)
               (ListChanges \<lparr>lh_TaskID = i, lh_Field = [], lh_Limit = 50, lh_Cursor = NoCursor\<rparr> d))
               (\<lambda>(cs, _). Inr (map (changeToProto L) cs))
           else Inr []) (\<lambda>changes.
    Inr (srv_taskToProto L e d t, comments, changes)))))))"

datatype 'c page_token = NoToken | BadToken | PageToken 'c

definition decodeCursor :: "'c \<Rightarrow> 'c page_token \<Rightarrow> code + 'c" where
  "decodeCursor none t = (case t of NoToken \<Rightarrow> Inr none | BadToken \<Rightarrow> Inl InvalidArgument
     | PageToken c \<Rightarrow> Inr c)"

definition clamp_page_size :: "int \<Rightarrow> int" where
  "clamp_page_size n = (let p = (if n \<le> 0 then 50 else n) in if p > 200 then 200 else p)"

record ListTasksRequest =
  rl_CollectionId :: "string option"
  rl_Phase :: "int option"
  rl_Stages :: "int list"
  rl_Assignee :: "string option"
  rl_Priority :: "int option"
  rl_Type :: "string option"
  rl_Labels :: "string list"
  rl_ParentTaskId :: "string option"
  rl_SortField :: int
  rl_SortOrder :: int
  rl_PageSize :: int
  rl_PageToken :: "task_cursor page_token"

text \<open>The assignee filter: \<open>none\<close> asks for unassigned tasks.\<close>

definition assignee_filter :: "lib \<Rightarrow> string option \<Rightarrow> code + (bool \<times> uuid option)" where
  "assignee_filter L a =
    (case a of None \<Rightarrow> Inr (False, None)
     | Some s \<Rightarrow> if s = ''none'' then Inr (True, None)
         else thenE (parse_id L s) (\<lambda>i. Inr (False, Some i)))"

text \<open>The collection a scoped token must name, with the check that it may.\<close>

definition collection_filter :: "lib \<Rightarrow> ctx \<Rightarrow> string option \<Rightarrow> code + uuid option" where
  "collection_filter L c cid =
    (case cid of None \<Rightarrow> Inr None
     | Some s \<Rightarrow> thenE (parse_id L s) (\<lambda>i. thenE (RequireCollectionAccess c i) (\<lambda>_. Inr (Some i))))"

definition must_name_collection :: "ctx \<Rightarrow> string option \<Rightarrow> code + unit" where
  "must_name_collection c cid = checkE (cid \<noteq> None \<or> c_collections c = []) InvalidArgument"

text \<open>\<open>taskSortValue\<close> with the identifier: the cursor of the next page.\<close>

definition taskSortValue :: "string \<Rightarrow> task \<Rightarrow> sval" where
  "taskSortValue sortField t =
    (if sortField = ''updated'' then SVTime (t_updated t)
     else if sortField = ''priority'' then
       (case t_priority t of None \<Rightarrow> SVText [] | Some p \<Rightarrow> SVText (priority_str p))
     else if sortField = ''due_date'' then
       (case t_due t of None \<Rightarrow> SVText [] | Some x \<Rightarrow> SVTime x)
     else SVTime (t_created t))"

text \<open>Go's conversion to \<open>int32\<close>.\<close>

definition int32 :: "int \<Rightarrow> int" where
  "int32 n = (n + 2 ^ 31) mod 2 ^ 32 - 2 ^ 31"

record 'a page =
  pg_Items :: "'a list"
  pg_TotalCount :: int
  pg_HasMore :: bool

definition list_stage :: "int list \<Rightarrow> code + stage option" where
  "list_stage stages =
    thenE (mapE (\<lambda>s. validateDefinedEnum s TaskStage_names) stages) (\<lambda>_.
    Inr (case stages of [] \<Rightarrow> None | s # _ \<Rightarrow> Some (StageFromProto s)))"

definition list_tasks_params :: "lib \<Rightarrow> ctx \<Rightarrow> ListTasksRequest \<Rightarrow> code + ListTasksParams" where
  "list_tasks_params L c req =
    thenE (RequireScope c ScopeTaskRead) (\<lambda>_.
    thenE (must_name_collection c (rl_CollectionId req)) (\<lambda>_.
    thenE (decodeCursor TNoCursor (rl_PageToken req)) (\<lambda>cursor.
    thenE (collection_filter L c (rl_CollectionId req)) (\<lambda>coll.
    thenE (read_enum_unless_0 TaskPhase_names PhaseFromProto (rl_Phase req)) (\<lambda>phase.
    thenE (list_stage (rl_Stages req)) (\<lambda>stage.
    thenE (assignee_filter L (rl_Assignee req)) (\<lambda>(unassigned, assignee).
    thenE (read_enum_unless_0 TaskPriority_names PriorityFromProto (rl_Priority req)) (\<lambda>priority.
    thenE (parse_opt_id L (rl_ParentTaskId req)) (\<lambda>parent.
    thenE (read_enum_unless_0 SortField_names sortFieldToString (Some (rl_SortField req))) (\<lambda>sf.
    thenE (read_enum_unless_0 SortOrder_names sortOrderToString (Some (rl_SortOrder req))) (\<lambda>so.
    Inr \<lparr>lt_CollectionID = coll, lt_Phase = phase, lt_Stage = stage, lt_AssigneeID = assignee,
      lt_Unassigned = unassigned, lt_Priority = priority, lt_Type = rl_Type req,
      lt_Labels = rl_Labels req, lt_ParentTaskID = parent,
      lt_SortField = (case sf of None \<Rightarrow> [] | Some f \<Rightarrow> f),
      lt_SortOrder = (case so of None \<Rightarrow> [] | Some o' \<Rightarrow> o'),
      lt_Limit = clamp_page_size (rl_PageSize req), lt_Cursor = cursor\<rparr>)))))))))))"

definition srv_ListTasks ::
  "lib \<Rightarrow> env \<Rightarrow> bool \<Rightarrow> ctx \<Rightarrow> ListTasksRequest \<Rightarrow> db \<Rightarrow> code + (pb_task page \<times> task_cursor option)" where
  "srv_ListTasks L e nulls_first c req d =
    thenE (list_tasks_params L c req) (\<lambda>p.
    thenE (with_code (\<lambda>_. Internal) (ListTasks nulls_first p d)) (\<lambda>(tasks, n).
    let full = (tasks \<noteq> [] \<and> int (length tasks) = lt_Limit p);
        sortField = (if lt_SortField p = [] then ''created'' else lt_SortField p) in
    Inr (\<lparr>pg_Items = map (srv_taskToProto L e d) tasks, pg_TotalCount = int32 (int n), pg_HasMore = full\<rparr>,
         if full then Some (TCursor (t_id (e_task (last tasks)))
           (taskSortValue sortField (e_task (last tasks)))) else None)))"

end
