(* ===== verification/FT_ServiceWrites.thy ===== *)
theory FT_ServiceWrites
  imports FT_Service
begin

text \<open>
  The handlers that write an existing task: \<open>UpdateTask\<close>, \<open>ClaimTask\<close>, \<open>CloseTask\<close> and
  \<open>DeleteTask\<close> of \<open>internal/server/server.go\<close>. Their first database argument \<open>d0\<close> is the one
  the handler itself reads to authorize the call; the pairs or triples after it belong to the
  attempts of the store operation.
\<close>

section \<open>UpdateTask\<close>

record UpdateTaskRequest =
  ru_Id :: string
  ru_Name :: "string option"
  ru_Description :: "string option"
  ru_AcceptanceCriteria :: "string option"
  ru_Stage :: "int option"
  ru_Priority :: "int option"
  ru_Type :: "string option"
  ru_AssigneeIds :: "string list"
  ru_ClearAssignees :: bool
  ru_DueDate :: "time option"
  ru_ClearDueDate :: bool
  ru_StartDate :: "time option"
  ru_ClearStartDate :: bool
  ru_HoldReason :: "int option"
  ru_ClearHoldReason :: bool
  ru_Rank :: "int option"
  ru_ClearRank :: bool
  ru_ParentTaskId :: "string option"
  ru_ClearParent :: bool
  ru_AddLabels :: "string list"
  ru_RemoveLabels :: "string list"
  ru_AddBlocks :: "string list"
  ru_AddBlockedBy :: "string list"
  ru_RemoveRelationships :: "string list"
  ru_Repo :: "string option"
  ru_Branch :: "string option"
  ru_AddPullRequests :: "pb_pull_request list"
  ru_CiStatus :: "int option"
  ru_RemoteId :: "string option"
  ru_RemoteUrl :: "string option"
  ru_Reason :: "string option"
  ru_Version :: "string option"

definition check_opt :: "('a \<Rightarrow> code + unit) \<Rightarrow> 'a option \<Rightarrow> code + unit" where
  "check_opt f v = (case v of None \<Rightarrow> Inr () | Some x \<Rightarrow> f x)"

text \<open>The stage of an update: never \<open>working\<close>, and with the scope of the transition.\<close>

definition update_stage :: "ctx \<Rightarrow> stage \<Rightarrow> int option \<Rightarrow> code + stage option" where
  "update_stage c existing v =
    (case v of
       None \<Rightarrow> Inr None
     | Some n \<Rightarrow>
        thenE (validateDefinedEnum n TaskStage_names) (\<lambda>_.
        let st = StageFromProto n in
        if st = StageWorking then Inl InvalidArgument
        else let transitionScope = TransitionScope (stage_str existing) (stage_str st) in
          thenE (if transitionScope \<noteq> ScopeTaskWrite then RequireScope c transitionScope else Inr ()) (\<lambda>_.
          Inr (Some st))))"

definition read_pull_request :: "lib \<Rightarrow> pb_pull_request \<Rightarrow> code + PullRequestParam" where
  "read_pull_request L pr =
    thenE (checkE (validateURLField (url_Parse L) (pq_Url pr)) InvalidArgument) (\<lambda>_.
    Inr \<lparr>pr_ID = pq_Id pr, pr_URL = pq_Url pr, pr_Status = prStatusFromProto (pq_Status pr)\<rparr>)"

definition read_remote :: "lib \<Rightarrow> UpdateTaskRequest \<Rightarrow> code + jmap option" where
  "read_remote L req =
    (if ru_RemoteId req = None \<and> ru_RemoteUrl req = None then Inr None
     else thenE (check_opt (\<lambda>u. checkE (validateURLField (url_Parse L) u) InvalidArgument) (ru_RemoteUrl req))
       (\<lambda>_. Inr (Some
         ((case ru_RemoteId req of None \<Rightarrow> [] | Some i \<Rightarrow> [(''remote_id'', JStr i)])
          @ (case ru_RemoteUrl req of None \<Rightarrow> [] | Some u \<Rightarrow> [(''remote_url'', JStr u)])))))"

text \<open>The parameters of the store call, from the request and the task that was read.\<close>

definition update_params :: "lib \<Rightarrow> ctx \<Rightarrow> stage \<Rightarrow> UpdateTaskRequest \<Rightarrow> code + UpdateTaskParams" where
  "update_params L c existing req =
    thenE (check_opt validateTaskName (ru_Name req)) (\<lambda>_.
    thenE (check_opt validateTaskDescription (ru_Description req)) (\<lambda>_.
    thenE (update_stage c existing (ru_Stage req)) (\<lambda>stage.
    thenE (read_enum TaskPriority_names PriorityFromProto (ru_Priority req)) (\<lambda>priority.
    thenE (if ru_ClearAssignees req then Inr None else first_id L (ru_AssigneeIds req)) (\<lambda>assignee.
    thenE (if ru_ClearParent req then Inr None else parse_opt_id L (ru_ParentTaskId req)) (\<lambda>parent.
    thenE (if ru_ClearHoldReason req then Inr None else read_hold (ru_HoldReason req)) (\<lambda>hold.
    thenE (mapE (parse_id L) (ru_AddBlocks req)) (\<lambda>addBlocks.
    thenE (mapE (parse_id L) (ru_AddBlockedBy req)) (\<lambda>addBlockedBy.
    thenE (mapE (parse_id L) (ru_RemoveRelationships req)) (\<lambda>removed.
    thenE (mapE (read_pull_request L) (ru_AddPullRequests req)) (\<lambda>prs.
    thenE (read_enum_unless_0 CIStatus_names ciStatusFromProto (ru_CiStatus req)) (\<lambda>ci.
    thenE (read_remote L req) (\<lambda>remote.
    Inr \<lparr>ut_Title = ru_Name req, ut_Description = ru_Description req,
      ut_Phase = map_option phaseForStage stage, ut_Stage = stage, ut_HoldReason = hold,
      ut_ClearHoldReason = ru_ClearHoldReason req, ut_NativeLabel = None, ut_Type = ru_Type req,
      ut_Priority = priority, ut_Rank = (if ru_ClearRank req then None else ru_Rank req),
      ut_ClearRank = ru_ClearRank req, ut_ClearPriority = False, ut_AssigneeID = assignee,
      ut_ClearAssignee = ru_ClearAssignees req, ut_ParentTaskID = parent,
      ut_ClearParent = ru_ClearParent req, ut_AcceptanceCriteria = ru_AcceptanceCriteria req,
      ut_ClearAcceptance = False, ut_RemoteData = remote,
      ut_Version = (case ru_Version req of None \<Rightarrow> [] | Some v \<Rightarrow> v),
      ut_StartDate = ru_StartDate req, ut_ClearStartDate = ru_ClearStartDate req,
      ut_DueDate = ru_DueDate req, ut_ClearDueDate = ru_ClearDueDate req,
      ut_AddLabels = ru_AddLabels req, ut_RemoveLabels = ru_RemoveLabels req,
      ut_AddBlocks = addBlocks, ut_AddBlockedBy = addBlockedBy, ut_RemoveRelationships = removed,
      ut_Repo = ru_Repo req, ut_Branch = ru_Branch req, ut_ClearRepo = False,
      ut_ClearBranch = False, ut_AddPullRequests = prs, ut_CIStatus = ci, ut_ClearCIStatus = False,
      ut_Reason = ru_Reason req\<rparr>)))))))))))))"

text \<open>The targets of the changed relationships, each once, in the order of the three lists.\<close>

definition related_ids :: "UpdateTaskParams \<Rightarrow> uuid list" where
  "related_ids p = rev (remdups (rev (ut_AddBlocks p @ ut_AddBlockedBy p @ ut_RemoveRelationships p)))"

definition related_events :: "lib \<Rightarrow> env \<Rightarrow> db \<Rightarrow> uuid list \<Rightarrow> task_event list" where
  "related_events L e d ids = List.map_filter (\<lambda>i. case GetTask i d of
     Inl _ \<Rightarrow> None | Inr t \<Rightarrow> Some (task_ev e EVENT_UPDATED (srv_taskToProto L e d t))) ids"

definition srv_UpdateTask ::
  "lib \<Rightarrow> env \<Rightarrow> ctx \<Rightarrow> UpdateTaskRequest \<Rightarrow> db \<Rightarrow> db \<times> db \<Rightarrow> db \<times> db \<Rightarrow> pb_task reply" where
  "srv_UpdateTask L e c req d0 try1 try2 =
    thenE (RequireIdentity c) (\<lambda>_.
    thenE (RequireScope c ScopeTaskWrite) (\<lambda>_.
    thenE (parse_id L (ru_Id req)) (\<lambda>i.
    thenE (with_code storeErr (GetTask i d0)) (\<lambda>existing.
    thenE (RequireCollectionAccess c (t_collection (e_task existing))) (\<lambda>_.
    thenE (update_params L c (t_stage (e_task existing)) req) (\<lambda>p.
    thenE (with_code storeErr (UpdateTask e i p (actor_of c) try1 try2)) (\<lambda>(t, d').
    let proto = srv_taskToProto L e d' t in
    Inr (proto, task_ev e EVENT_UPDATED proto # related_events L e d' (related_ids p), d'))))))))"

section \<open>ClaimTask, CloseTask, DeleteTask\<close>

record ClaimTaskRequest =
  rk_Id :: string
  rk_Version :: "string option"
  rk_AssigneeId :: "string option"

definition srv_ClaimTask ::
  "lib \<Rightarrow> env \<Rightarrow> ctx \<Rightarrow> ClaimTaskRequest \<Rightarrow> db \<Rightarrow> db \<times> db \<times> db \<Rightarrow> db \<times> db \<times> db \<Rightarrow> pb_task reply" where
  "srv_ClaimTask L e c req d0 try1 try2 =
    thenE (RequireIdentity c) (\<lambda>_.
    thenE (RequireScope c ScopeTaskClaim) (\<lambda>_.
    thenE (parse_id L (rk_Id req)) (\<lambda>i.
    thenE (with_code storeErr (GetTask i d0)) (\<lambda>existing.
    thenE (RequireCollectionAccess c (t_collection (e_task existing))) (\<lambda>_.
    thenE (checkE (rk_AssigneeId req = None) InvalidArgument) (\<lambda>_.
    let version = (case rk_Version req of None \<Rightarrow> [] | Some v \<Rightarrow> v) in
    thenE (with_code storeErr (ClaimTask e i (actor_of c) version try1 try2)) (\<lambda>(t, d').
    let proto = srv_taskToProto L e d' t in
    Inr (proto, [task_ev e EVENT_UPDATED proto], d'))))))))"

record CloseTaskRequest =
  rx_Id :: string
  rx_Stage :: "int option"
  rx_Version :: "string option"

definition srv_CloseTask ::
  "lib \<Rightarrow> env \<Rightarrow> ctx \<Rightarrow> CloseTaskRequest \<Rightarrow> db \<Rightarrow> db \<times> db \<Rightarrow> db \<times> db \<Rightarrow> pb_task reply" where
  "srv_CloseTask L e c req d0 try1 try2 =
    thenE (RequireIdentity c) (\<lambda>_.
    thenE (RequireScope c ScopeTaskClose) (\<lambda>_.
    thenE (parse_id L (rx_Id req)) (\<lambda>i.
    thenE (with_code storeErr (GetTask i d0)) (\<lambda>existing.
    thenE (RequireCollectionAccess c (t_collection (e_task existing))) (\<lambda>_.
    thenE (read_enum TaskStage_names StageFromProto (rx_Stage req)) (\<lambda>st.
    let stage = (case st of None \<Rightarrow> StageCompleted | Some s \<Rightarrow> s);
        version = (case rx_Version req of None \<Rightarrow> [] | Some v \<Rightarrow> v) in
    thenE (with_code storeErr (CloseTask e i stage version (actor_of c) try1 try2)) (\<lambda>(t, d').
    let proto = srv_taskToProto L e d' t in
    Inr (proto, [task_ev e EVENT_CLOSED proto], d'))))))))"

definition srv_DeleteTask :: "ctx \<Rightarrow> code + unit" where
  "srv_DeleteTask c =
    thenE (RequireIdentity c) (\<lambda>_.
    thenE (RequireScope c ScopeTaskWrite) (\<lambda>_.
    Inl Unimplemented))"

end
