(* ===== verification/FT_ServiceRows.thy ===== *)
theory FT_ServiceRows
  imports FT_ServiceWrites FT_Paging
begin

text \<open>
  The handlers of \<open>internal/server/server.go\<close> for the other resources: comments, collections,
  linked accounts, the audit trail, users, version and status. A listing answers with a page
  of messages and the cursor its page token encodes.
\<close>

section \<open>Pages\<close>

definition page_of ::
  "('a \<Rightarrow> 'b) \<Rightarrow> ('a \<Rightarrow> time \<times> uuid) \<Rightarrow> bool \<Rightarrow> 'a list \<Rightarrow> nat \<Rightarrow> 'b page \<times> cursor option" where
  "page_of conv key full rows n =
    (let more = (full \<and> rows \<noteq> []) in
     (\<lparr>pg_Items = map conv rows, pg_TotalCount = int32 (int n), pg_HasMore = more\<rparr>,
      if more then Some (Cursor (snd (key (last rows))) (fst (key (last rows)))) else None))"

definition full_page :: "int \<Rightarrow> 'a list \<Rightarrow> bool" where
  "full_page pageSize rows = (int (length rows) = pageSize)"

text \<open>The steps that guard the resources of a task: the task is read for its collection.\<close>

definition RequireTaskAccess :: "ctx \<Rightarrow> uuid \<Rightarrow> db \<Rightarrow> code + unit" where
  "RequireTaskAccess c i d =
    thenE (with_code storeErr (GetTask i d)) (\<lambda>t.
    RequireCollectionAccess c (t_collection (e_task t)))"

section \<open>Comments\<close>

definition srv_AddComment ::
  "lib \<Rightarrow> env \<Rightarrow> ctx \<Rightarrow> string \<Rightarrow> string \<Rightarrow> db \<Rightarrow> db \<Rightarrow> code + (pb_comment \<times> db)" where
  "srv_AddComment L e c reqTaskId body d0 d =
    thenE (RequireIdentity c) (\<lambda>_.
    thenE (RequireScope c ScopeTaskWrite) (\<lambda>_.
    thenE (parse_id L reqTaskId) (\<lambda>taskID.
    thenE (RequireTaskAccess c taskID d0) (\<lambda>_.
    thenE (with_code (\<lambda>_. Internal) (AddComment e
      \<lparr>ac_TaskID = taskID, ac_AuthorID = actor_of c, ac_Body = body\<rparr> d)) (\<lambda>(cm, d').
    Inr (commentToProto L cm, d'))))))"

definition srv_ListComments ::
  "lib \<Rightarrow> ctx \<Rightarrow> string \<Rightarrow> int \<Rightarrow> cursor page_token \<Rightarrow> db \<Rightarrow> code + (pb_comment page \<times> cursor option)" where
  "srv_ListComments L c reqTaskId reqPageSize tok d =
    thenE (RequireScope c ScopeTaskRead) (\<lambda>_.
    thenE (parse_id L reqTaskId) (\<lambda>taskID.
    thenE (RequireTaskAccess c taskID d) (\<lambda>_.
    let pageSize = clamp_page_size reqPageSize in
    thenE (decodeCursor NoCursor tok) (\<lambda>cursor.
    thenE (with_code (\<lambda>_. Internal) (ListComments
      \<lparr>lm_TaskID = taskID, lm_Limit = pageSize, lm_Cursor = cursor\<rparr> d)) (\<lambda>(cs, n).
    Inr (page_of (commentToProto L) comment_key (full_page pageSize cs) cs n))))))"

definition srv_GetComment :: "lib \<Rightarrow> ctx \<Rightarrow> string \<Rightarrow> db \<Rightarrow> code + pb_comment" where
  "srv_GetComment L c reqId d =
    thenE (RequireScope c ScopeTaskRead) (\<lambda>_.
    thenE (parse_id L reqId) (\<lambda>i.
    thenE (with_code storeErr (GetComment i d)) (\<lambda>cm.
    thenE (RequireTaskAccess c (cm_task cm) d) (\<lambda>_.
    Inr (commentToProto L cm)))))"

section \<open>Collections\<close>

definition srv_GetCollection :: "lib \<Rightarrow> ctx \<Rightarrow> string \<Rightarrow> db \<Rightarrow> code + pb_collection" where
  "srv_GetCollection L c reqId d =
    thenE (RequireScope c ScopeCollectionRead) (\<lambda>_.
    thenE (parse_id L reqId) (\<lambda>i.
    thenE (RequireCollectionAccess c i) (\<lambda>_.
    thenE (with_code storeErr (GetCollection i d)) (\<lambda>co.
    Inr (collectionToProto L co)))))"

text \<open>
  The filter of a collection-scoped token comes after the page of the store: the total is then
  that of the page, and a page of which nothing is left has no successor.
\<close>

definition scoped_rows :: "ctx \<Rightarrow> ('a \<Rightarrow> uuid) \<Rightarrow> 'a list \<Rightarrow> nat \<Rightarrow> 'a list \<times> nat" where
  "scoped_rows c coll rows n =
    (if c_collections c = [] then (rows, n)
     else let kept = filter (\<lambda>r. List.member (c_collections c) (coll r)) rows in (kept, length kept))"

definition collection_key :: "collection \<Rightarrow> time \<times> uuid" where
  "collection_key co = (co_created co, co_id co)"

definition srv_ListCollections ::
  "lib \<Rightarrow> ctx \<Rightarrow> int option \<Rightarrow> int \<Rightarrow> cursor page_token \<Rightarrow> db
    \<Rightarrow> code + (pb_collection page \<times> cursor option)" where
  "srv_ListCollections L c reqPlatform reqPageSize tok d =
    thenE (RequireScope c ScopeCollectionRead) (\<lambda>_.
    let pageSize = clamp_page_size reqPageSize in
    thenE (decodeCursor NoCursor tok) (\<lambda>cursor.
    thenE (read_enum_unless_0 Platform_names platformFromProto reqPlatform) (\<lambda>plat.
    thenE (with_code (\<lambda>_. Internal) (ListCollections
      \<lparr>lc_Platform = plat, lc_Limit = pageSize, lc_Cursor = cursor\<rparr> d)) (\<lambda>(cols, n).
    let storeFull = full_page pageSize cols;
        (kept, n') = scoped_rows c co_id cols n in
    Inr (page_of (collectionToProto L) collection_key storeFull kept n')))))"

record CreateCollectionRequest =
  rn_Name :: string
  rn_Description :: string
  rn_Platform :: "int option"
  rn_RemoteId :: "string option"

definition srv_CreateCollection ::
  "lib \<Rightarrow> env \<Rightarrow> ctx \<Rightarrow> CreateCollectionRequest \<Rightarrow> db \<Rightarrow> code + (pb_collection \<times> db)" where
  "srv_CreateCollection L e c req d =
    thenE (RequireIdentity c) (\<lambda>_.
    thenE (RequireScope c ScopeCollectionWrite) (\<lambda>_.
    let platform = (case rn_Platform req of None \<Rightarrow> ''farmtable''
          | Some n \<Rightarrow> if n = 0 then ''farmtable'' else platform_str (platformFromProto n));
        remoteID = (case rn_RemoteId req of None \<Rightarrow> [] | Some r \<Rightarrow> r) in
    thenE (checkE (platform = ''farmtable'' \<or> remoteID \<noteq> []) InvalidArgument) (\<lambda>_.
    thenE (with_code (\<lambda>_. Internal) (CreateCollection e
      \<lparr>cc_Name = rn_Name req, cc_Description = rn_Description req, cc_Platform = platform,
        cc_RemoteID = remoteID, cc_RemoteData = None\<rparr> d)) (\<lambda>(co, d').
    Inr (collectionToProto L co, d')))))"

text \<open>The trimmed name of an update, which must not be empty.\<close>

definition trimmed_name :: "string option \<Rightarrow> code + string option" where
  "trimmed_name v = (case v of None \<Rightarrow> Inr None
     | Some s \<Rightarrow> thenE (checkE (TrimSpace s \<noteq> []) InvalidArgument) (\<lambda>_. Inr (Some (TrimSpace s))))"

definition srv_UpdateCollection ::
  "lib \<Rightarrow> env \<Rightarrow> ctx \<Rightarrow> string \<Rightarrow> string option \<Rightarrow> string option \<Rightarrow> db \<Rightarrow> code + (pb_collection \<times> db)" where
  "srv_UpdateCollection L e c reqId reqName reqDescription d =
    thenE (RequireIdentity c) (\<lambda>_.
    thenE (RequireScope c ScopeCollectionWrite) (\<lambda>_.
    thenE (parse_id L reqId) (\<lambda>i.
    thenE (RequireCollectionAccess c i) (\<lambda>_.
    thenE (trimmed_name reqName) (\<lambda>name.
    if reqName = None \<and> reqDescription = None
    then thenE (with_code storeErr (GetCollection i d)) (\<lambda>co. Inr (collectionToProto L co, d))
    else thenE (with_code storeErr (UpdateCollection e i
           \<lparr>uc_Name = name, uc_Description = reqDescription, uc_RemoteData = None\<rparr> d)) (\<lambda>(co, d').
         Inr (collectionToProto L co, d')))))))"

section \<open>Linked accounts\<close>

record CreateLinkedAccountRequest =
  rq_CollectionId :: string
  rq_Platform :: int
  rq_AuthMethod :: int
  rq_AuthToken :: string
  rq_Scopes :: "string list"
  rq_RemoteUserId :: string
  rq_ExpiresAt :: "time option"

definition srv_CreateLinkedAccount ::
  "lib \<Rightarrow> encryptor \<Rightarrow> env \<Rightarrow> ctx \<Rightarrow> CreateLinkedAccountRequest \<Rightarrow> db \<Rightarrow> code + (pb_linked_account \<times> db)" where
  "srv_CreateLinkedAccount L x e c req d =
    thenE (RequireIdentity c) (\<lambda>_.
    thenE (RequireScope c ScopeCollectionAdmin) (\<lambda>_.
    thenE (parse_id L (rq_CollectionId req)) (\<lambda>collID.
    thenE (RequireCollectionAccess c collID) (\<lambda>_.
    let platform = linkedAccountPlatformFromProto (rq_Platform req);
        authMethod = linkedAccountAuthMethodFromProto (rq_AuthMethod req) in
    thenE (checkE (platform \<noteq> []) InvalidArgument) (\<lambda>_.
    thenE (checkE (authMethod \<noteq> []) InvalidArgument) (\<lambda>_.
    thenE (checkE (rq_AuthToken req \<noteq> []) InvalidArgument) (\<lambda>_.
    thenE (with_code storeErr (CreateLinkedAccount x e
      \<lparr>cl_CollectionID = collID, cl_Platform = platform, cl_AuthToken = rq_AuthToken req,
        cl_AuthMethod = authMethod, cl_Scopes = rq_Scopes req, cl_RemoteUserID = rq_RemoteUserId req,
        cl_ExpiresAt = rq_ExpiresAt req, cl_RefreshToken = [], cl_TokenExpiry = None,
        cl_ScopesGranted = []\<rparr> d)) (\<lambda>(la, d').
    Inr (linkedAccountToProto L la, d')))))))))"

definition srv_GetLinkedAccount ::
  "lib \<Rightarrow> encryptor \<Rightarrow> ctx \<Rightarrow> string \<Rightarrow> db \<Rightarrow> code + pb_linked_account" where
  "srv_GetLinkedAccount L x c reqId d =
    thenE (RequireScope c ScopeCollectionRead) (\<lambda>_.
    thenE (parse_id L reqId) (\<lambda>i.
    thenE (with_code storeErr (GetLinkedAccount x i d)) (\<lambda>la.
    thenE (RequireCollectionAccess c (a_collection la)) (\<lambda>_.
    Inr (linkedAccountToProto L la)))))"

definition srv_DeleteLinkedAccount ::
  "lib \<Rightarrow> encryptor \<Rightarrow> ctx \<Rightarrow> string \<Rightarrow> db \<Rightarrow> db \<Rightarrow> code + db" where
  "srv_DeleteLinkedAccount L x c reqId d0 d =
    thenE (RequireIdentity c) (\<lambda>_.
    thenE (RequireScope c ScopeCollectionAdmin) (\<lambda>_.
    thenE (parse_id L reqId) (\<lambda>i.
    thenE (with_code storeErr (GetLinkedAccount x i d0)) (\<lambda>la.
    thenE (RequireCollectionAccess c (a_collection la)) (\<lambda>_.
    with_code storeErr (DeleteLinkedAccount i d))))))"

record ListLinkedAccountsRequest =
  rg_CollectionId :: "string option"
  rg_Platform :: "int option"
  rg_Status :: "int option"
  rg_PageSize :: int
  rg_PageToken :: "uuid option page_token"

definition account_key :: "account \<Rightarrow> time \<times> uuid" where
  "account_key a = (a_created a, a_id a)"

definition srv_ListLinkedAccounts ::
  "lib \<Rightarrow> encryptor \<Rightarrow> ctx \<Rightarrow> ListLinkedAccountsRequest \<Rightarrow> db
    \<Rightarrow> code + (pb_linked_account page \<times> cursor option)" where
  "srv_ListLinkedAccounts L x c req d =
    thenE (RequireScope c ScopeCollectionRead) (\<lambda>_.
    let pageSize = clamp_page_size (rg_PageSize req) in
    thenE (collection_filter L c (rg_CollectionId req)) (\<lambda>coll.
    let plat = (case rg_Platform req of None \<Rightarrow> None
          | Some n \<Rightarrow> if n = 0 then None else Some (linkedAccountPlatformFromProto n));
        st = (case rg_Status req of None \<Rightarrow> None
          | Some n \<Rightarrow> if n = 0 then None else Some (linkedAccountStatusFromProto n)) in
    thenE (case rg_PageToken req of NoToken \<Rightarrow> Inr None | BadToken \<Rightarrow> Inl InvalidArgument
           | PageToken i \<Rightarrow> Inr (Some i)) (\<lambda>lastID.
    thenE (with_code (\<lambda>_. Internal) (ListLinkedAccounts x
      \<lparr>la_CollectionID = coll, la_Platform = plat, la_Status = st, la_Limit = pageSize,
        la_LastID = lastID\<rparr> d)) (\<lambda>(as, n).
    let storeFull = full_page pageSize as;
        (kept, n') = (if rg_CollectionId req = None then scoped_rows c a_collection as n
                          else (as, n)) in
    Inr (page_of (linkedAccountToProto L) account_key storeFull kept n')))))"

section \<open>Changes, users, version and status\<close>

definition srv_ListChanges ::
  "lib \<Rightarrow> ctx \<Rightarrow> string \<Rightarrow> string \<Rightarrow> int \<Rightarrow> cursor page_token \<Rightarrow> db
    \<Rightarrow> code + (pb_change page \<times> cursor option)" where
  "srv_ListChanges L c reqTaskId field reqPageSize tok d =
    thenE (RequireScope c ScopeTaskRead) (\<lambda>_.
    thenE (parse_id L reqTaskId) (\<lambda>taskID.
    thenE (RequireTaskAccess c taskID d) (\<lambda>_.
    let pageSize = clamp_page_size reqPageSize in
    thenE (decodeCursor NoCursor tok) (\<lambda>cursor.
    thenE (with_code (\<lambda>_. Internal) (ListChanges
      \<lparr>lh_TaskID = taskID, lh_Field = field, lh_Limit = pageSize, lh_Cursor = cursor\<rparr> d)) (\<lambda>(cs, n).
    Inr (page_of (changeToProto L) change_key (full_page pageSize cs) cs n))))))"

definition srv_WhoAmI :: "lib \<Rightarrow> ctx \<Rightarrow> db \<Rightarrow> code + pb_user" where
  "srv_WhoAmI L c d =
    (case UserIDFromContext c of
       None \<Rightarrow> Inl Unauthenticated
     | Some i \<Rightarrow> if i = uuid_Nil then Inl Unauthenticated
         else thenE (with_code storeErr (GetUser i d)) (\<lambda>u. Inr (userToProto L u)))"

definition srv_ListUsers ::
  "lib \<Rightarrow> ctx \<Rightarrow> int option \<Rightarrow> int \<Rightarrow> cursor page_token \<Rightarrow> db \<Rightarrow> code + (pb_user page \<times> cursor option)" where
  "srv_ListUsers L c reqType reqPageSize tok d =
    thenE (RequireScope c ScopeUserRead) (\<lambda>_.
    let pageSize = clamp_page_size reqPageSize in
    thenE (decodeCursor NoCursor tok) (\<lambda>cursor.
    thenE (read_enum UserType_names userTypeFromProto reqType) (\<lambda>ty.
    thenE (with_code (\<lambda>_. Internal) (ListUsers
      \<lparr>lu_Type = (case ty of None \<Rightarrow> [] | Some s \<Rightarrow> s), lu_Limit = pageSize, lu_Cursor = cursor\<rparr> d))
      (\<lambda>(us, n).
    Inr (page_of (userToProto L) user_key (full_page pageSize us) us n)))))"

definition srv_GetUser :: "lib \<Rightarrow> ctx \<Rightarrow> string \<Rightarrow> db \<Rightarrow> code + pb_user" where
  "srv_GetUser L c reqId d =
    thenE (RequireScope c ScopeUserRead) (\<lambda>_.
    thenE (parse_id L reqId) (\<lambda>i.
    thenE (with_code storeErr (GetUser i d)) (\<lambda>u.
    Inr (userToProto L u))))"

definition srv_GetVersion :: "string \<Rightarrow> string \<times> string \<times> string" where
  "srv_GetVersion version = (version, ''farmtable'', ''grpc'')"

record pb_status =
  pst_Version :: string
  pst_Status :: string
  pst_UptimeSeconds :: int
  pst_TaskCount :: int
  pst_AuthenticatedAs :: "pb_user option"

text \<open>The uptime is \<open>int64(time.Since(startedAt).Seconds())\<close>, of instants in nanoseconds.\<close>

definition srv_GetStatus :: "lib \<Rightarrow> env \<Rightarrow> string \<Rightarrow> time \<Rightarrow> bool \<Rightarrow> ctx \<Rightarrow> db \<Rightarrow> pb_status" where
  "srv_GetStatus L e version startedAt nulls_first c d =
    \<lparr>pst_Version = version,
     pst_Status = (case ListCollections \<lparr>lc_Platform = None, lc_Limit = 1, lc_Cursor = NoCursor\<rparr> d of
       Inl _ \<Rightarrow> ''unavailable'' | Inr _ \<Rightarrow> ''serving''),
     pst_UptimeSeconds = (now e - startedAt) div 1000000000,
     pst_TaskCount = (case ListTasks nulls_first
         \<lparr>lt_CollectionID = None, lt_Phase = None, lt_Stage = None, lt_AssigneeID = None,
           lt_Unassigned = False, lt_Priority = None, lt_Type = None, lt_Labels = [],
           lt_ParentTaskID = None, lt_SortField = [], lt_SortOrder = [], lt_Limit = 1,
           lt_Cursor = TNoCursor\<rparr> d of
       Inl _ \<Rightarrow> 0 | Inr (_, n) \<Rightarrow> int32 (int n)),
     pst_AuthenticatedAs = (case UserIDFromContext c of None \<Rightarrow> None
       | Some i \<Rightarrow> if i = uuid_Nil then None
           else (case GetUser i d of Inl _ \<Rightarrow> None | Inr u \<Rightarrow> Some (userToProto L u)))\<rparr>"

end
