(* ===== verification/FT_GraphSearch.thy ===== *)
theory FT_GraphSearch
  imports FT_ServiceRows
begin

text \<open>
  The recursive searches over the dependency graph (\<open>internal/server/server.go\<close>):
  \<open>buildDependencyNode\<close> with its set of visited tasks and its depth bound,
  \<open>findLongestBlocksChain\<close> with the tasks on the stack, \<open>countDownstream\<close>, and the exchange
  sort of \<open>GetBottlenecks\<close>. Go's map \<open>visited\<close> is shared by the whole recursion, so it is
  threaded through it as a list; \<open>onStack\<close> is restored on return, so it is an argument.

  The specification is \<open>dfs\<close>, a depth-first search that collects the vertices it meets; both
  searches that thread \<open>visited\<close> are shown to be instances of it.
\<close>

section \<open>Edges\<close>

text \<open>The tasks a task blocks, in the order of the two loops over its edges.\<close>

definition blocks_targets :: "etask \<Rightarrow> uuid list" where
  "blocks_targets et = map r_tgt (filter (\<lambda>r. r_type r = TypeBlocks) (e_src et))
     @ map r_src (filter (\<lambda>r. r_type r = TypeBlockedBy) (e_tgt et))"

definition blocks_of :: "db \<Rightarrow> uuid \<Rightarrow> uuid list" where
  "blocks_of d i = (case GetTask i d of Inl _ \<Rightarrow> [] | Inr t \<Rightarrow> blocks_targets t)"

definition blockers_of :: "db \<Rightarrow> uuid \<Rightarrow> uuid list" where
  "blockers_of d i = (case GetTask i d of Inl _ \<Rightarrow> [] | Inr t \<Rightarrow> blocker_ids t)"

section \<open>Depth-first search\<close>

text \<open>
  Visit the vertices of a list that were not visited before; \<open>n\<close> is how many levels below
  them are still expanded.
\<close>

fun dfs :: "(uuid \<Rightarrow> uuid list) \<Rightarrow> nat \<Rightarrow> uuid list \<Rightarrow> uuid list \<Rightarrow> uuid list" where
  "dfs succ n [] v = v"
| "dfs succ n (j # js) v =
    (if List.member v j then dfs succ n js v
     else dfs succ n js (case n of 0 \<Rightarrow> j # v | Suc m \<Rightarrow> dfs succ m (succ j) (j # v)))"

lemma dfs_extends: "\<exists>w. dfs succ n js v = w @ v \<and> (distinct v \<longrightarrow> distinct (w @ v))"
proof (induction succ n js v rule: dfs.induct)
  case (1 succ n v)
  then show ?case by simp
next
  case (2 succ n j js v)
  show ?case
  proof (cases "List.member v j")
    case True
    then show ?thesis using 2(1) by simp
  next
    case False
    let ?v1 = "case n of 0 \<Rightarrow> j # v | Suc m \<Rightarrow> dfs succ m (succ j) (j # v)"
    have "\<exists>w. ?v1 = w @ v \<and> (distinct v \<longrightarrow> distinct (w @ v))"
    proof (cases n)
      case 0
      then show ?thesis using False by (intro exI [of _ "[j]"]) simp
    next
      case (Suc m)
      obtain w where w: "dfs succ m (succ j) (j # v) = w @ j # v"
        "distinct (j # v) \<longrightarrow> distinct (w @ j # v)"
        using 2(2) [OF False Suc] by blast
      then show ?thesis using False Suc by (intro exI [of _ "w @ [j]"]) simp
    qed
    then obtain w where w: "?v1 = w @ v" "distinct v \<longrightarrow> distinct (w @ v)" by blast
    obtain u where u: "dfs succ n js ?v1 = u @ ?v1" "distinct ?v1 \<longrightarrow> distinct (u @ ?v1)"
      using 2(3) [OF False] by blast
    show ?thesis using False w u by (intro exI [of _ "u @ w"]) simp
  qed
qed

lemma dfs_subset: "set v \<subseteq> set (dfs succ n js v)"
  using dfs_extends [of succ n js v] by auto

lemma dfs_distinct: "distinct v \<Longrightarrow> distinct (dfs succ n js v)"
  using dfs_extends [of succ n js v] by auto

lemma dfs_starts: "set js \<subseteq> set (dfs succ n js v)"
proof (induction succ n js v rule: dfs.induct)
  case (1 succ n v)
  then show ?case by simp
next
  case (2 succ n j js v)
  show ?case
  proof (cases "List.member v j")
    case True
    then show ?thesis using 2(1) dfs_subset [of v succ n js] by auto
  next
    case False
    let ?v1 = "case n of 0 \<Rightarrow> j # v | Suc m \<Rightarrow> dfs succ m (succ j) (j # v)"
    have "j \<in> set ?v1"
    proof (cases n)
      case (Suc m)
      then show ?thesis using dfs_subset [of "j # v" succ m "succ j"] by auto
    qed simp
    then show ?thesis using False 2(3) dfs_subset [of ?v1 succ n js] by auto
  qed
qed

text \<open>Soundness: what is new is reachable, in at most \<open>n\<close> steps from a start.\<close>

fun within :: "(uuid \<Rightarrow> uuid list) \<Rightarrow> nat \<Rightarrow> uuid \<Rightarrow> uuid \<Rightarrow> bool" where
  "within succ 0 a b = (a = b)"
| "within succ (Suc n) a b = (a = b \<or> (\<exists>c\<in>set (succ a). within succ n c b))"

lemma within_refl [simp]: "within succ n a a"
  by (cases n) simp_all

lemma dfs_within:
  "x \<in> set (dfs succ n js v) \<Longrightarrow> x \<in> set v \<or> (\<exists>j\<in>set js. within succ n j x)"
proof (induction succ n js v rule: dfs.induct)
  case (1 succ n v)
  then show ?case by simp
next
  case (2 succ n j js v)
  show ?case
  proof (cases "List.member v j")
    case True
    then have "x \<in> set (dfs succ n js v)" using 2(4) by simp
    from 2(1) [OF True this] show ?thesis by auto
  next
    case False
    define v1 where "v1 = (case n of 0 \<Rightarrow> j # v | Suc m \<Rightarrow> dfs succ m (succ j) (j # v))"
    have "x \<in> set (dfs succ n js v1)" using 2(4) False by (simp add: v1_def)
    from 2(3) [OF False this [unfolded v1_def], folded v1_def]
    consider "x \<in> set v1" | "\<exists>j\<in>set js. within succ n j x" by blast
    then show ?thesis
    proof cases
      case 1
      show ?thesis
      proof (cases n)
        case 0
        then have "x \<in> set (j # v)" using 1 by (simp add: v1_def)
        then show ?thesis by auto
      next
        case (Suc m)
        then have "x \<in> set (dfs succ m (succ j) (j # v))" using 1 by (simp add: v1_def)
        from 2(2) [OF False Suc this] show ?thesis by (auto simp: Suc)
      qed
    next
      case 2
      then show ?thesis by auto
    qed
  qed
qed

text \<open>Completeness: with as many levels as there are vertices left, the result is closed.\<close>

lemma dfs_closed:
  assumes "finite U" and "\<And>x. x \<in> U \<Longrightarrow> set (succ x) \<subseteq> U"
    and "set js \<subseteq> U" and "card (U - set v) \<le> Suc n"
  shows "\<forall>x\<in>set (dfs succ n js v) - set v. set (succ x) \<subseteq> set (dfs succ n js v)"
  using assms
proof (induction succ n js v rule: dfs.induct)
  case (1 succ n v)
  then show ?case by simp
next
  case (2 succ n j js v)
  note U = 2(4) 2(5)
  show ?case
  proof (cases "List.member v j")
    case True
    then show ?thesis using 2(1) [OF True U] 2(6,7) by simp
  next
    case False
    let ?v1 = "case n of 0 \<Rightarrow> j # v | Suc m \<Rightarrow> dfs succ m (succ j) (j # v)"
    let ?r = "dfs succ n js ?v1"
    have j: "j \<in> U" "j \<notin> set v" using 2(6) False by simp_all
    have "card (U - set (j # v)) < card (U - set v)"
      using U(1) j by (intro psubset_card_mono) auto
    then have less: "card (U - set (j # v)) \<le> n" using 2(7) by linarith
    have sub: "set ?v1 \<subseteq> set ?r" by (rule dfs_subset)
    have v1: "set (j # v) \<subseteq> set ?v1"
      by (cases n) (use dfs_subset [of "j # v" succ] in simp_all)
    have one: "\<forall>x\<in>set ?v1 - set v. set (succ x) \<subseteq> set ?v1"
    proof (cases n)
      case 0
      then have "U - set (j # v) = {}" using less U(1) by simp
      then have "U \<subseteq> set (j # v)" by blast
      then show ?thesis using 0 U(2) j by auto
    next
      case (Suc m)
      have "\<forall>x\<in>set (dfs succ m (succ j) (j # v)) - set (j # v).
          set (succ x) \<subseteq> set (dfs succ m (succ j) (j # v))"
        using 2(2) [OF False Suc U] U(2) [OF j(1)] less Suc by simp
      moreover have "set (succ j) \<subseteq> set (dfs succ m (succ j) (j # v))" by (rule dfs_starts)
      ultimately show ?thesis using Suc by auto
    qed
    have "card (U - set ?v1) \<le> card (U - set (j # v))"
      using U(1) v1 by (intro card_mono) auto
    then have "card (U - set ?v1) \<le> Suc n" using less by linarith
    then have two: "\<forall>x\<in>set ?r - set ?v1. set (succ x) \<subseteq> set ?r"
      using 2(3) [OF False U] 2(6) by simp
    have "\<forall>x\<in>set ?r - set v. set (succ x) \<subseteq> set ?r" using one two sub by blast
    then show ?thesis using False by simp
  qed
qed

lemma dfs_append: "dfs succ n (xs @ ys) v = dfs succ n ys (dfs succ n xs v)"
  by (induction xs arbitrary: v) simp_all

text \<open>What can be reached from a vertex at all.\<close>

inductive_set reach :: "(uuid \<Rightarrow> uuid list) \<Rightarrow> uuid \<Rightarrow> uuid set" for succ a where
  root: "a \<in> reach succ a"
| step: "b \<in> reach succ a \<Longrightarrow> c \<in> set (succ b) \<Longrightarrow> c \<in> reach succ a"

lemma within_reach: "within succ n b c \<Longrightarrow> b \<in> reach succ a \<Longrightarrow> c \<in> reach succ a"
  by (induction n arbitrary: b) (auto intro: reach.step)

text \<open>With levels enough for all vertices in reach, the search from a visited start finds them all.\<close>

lemma dfs_reach:
  assumes "finite (reach succ a)" and "card (reach succ a) \<le> Suc (Suc n)"
  shows "set (dfs succ n (succ a) [a]) = reach succ a"
proof
  show "set (dfs succ n (succ a) [a]) \<subseteq> reach succ a"
  proof
    fix x assume "x \<in> set (dfs succ n (succ a) [a])"
    then have "x = a \<or> (\<exists>j\<in>set (succ a). within succ n j x)" using dfs_within by fastforce
    then show "x \<in> reach succ a"
      by (auto intro: reach.intros within_reach [OF _ reach.step [OF reach.root]])
  qed
  let ?r = "dfs succ n (succ a) [a]"
  have "card (reach succ a - set [a]) \<le> Suc n"
    using assms reach.root [of a succ] by simp
  then have closed: "\<forall>x\<in>set ?r - set [a]. set (succ x) \<subseteq> set ?r"
    using assms(1) by (intro dfs_closed [of "reach succ a"]) (auto intro: reach.intros)
  show "reach succ a \<subseteq> set ?r"
  proof
    fix x assume "x \<in> reach succ a"
    then show "x \<in> set ?r"
    proof induction
      case root
      show ?case using dfs_subset [of "[a]" succ n "succ a"] by simp
    next
      case (step b c)
      show ?case using closed step dfs_starts [of "succ a" succ n "[a]"] by (cases "b = a") auto
    qed
  qed
qed

section \<open>Counting what is downstream\<close>

definition maxGraphDepth :: nat where "maxGraphDepth = 50"

function countDownstream :: "db \<Rightarrow> nat \<Rightarrow> uuid \<Rightarrow> uuid list \<Rightarrow> nat \<times> uuid list"
  and count_targets :: "db \<Rightarrow> nat \<Rightarrow> uuid list \<Rightarrow> uuid list \<Rightarrow> nat \<times> uuid list"
where
  "countDownstream d depth i visited =
    (if maxGraphDepth \<le> depth then (0, visited)
     else case GetTask i d of Inl _ \<Rightarrow> (0, visited)
       | Inr t \<Rightarrow> count_targets d depth (blocks_targets t) visited)"
| "count_targets d depth [] visited = (0, visited)"
| "count_targets d depth (j # js) visited =
    (if List.member visited j then count_targets d depth js visited
     else let (c, v1) = countDownstream d (Suc depth) j (j # visited);
              (c', v2) = count_targets d depth js v1 in (1 + c + c', v2))"
  by pat_completeness auto
termination
  by (relation "measures [\<lambda>x. case x of Inl (d, depth, i, v) \<Rightarrow> maxGraphDepth - depth
        | Inr (d, depth, js, v) \<Rightarrow> maxGraphDepth - Suc depth,
      \<lambda>x. case x of Inl y \<Rightarrow> 0 | Inr (d, depth, js, v) \<Rightarrow> Suc (length js)]") auto

declare countDownstream.simps [simp del]

text \<open>The count is the number of vertices that the depth-first search adds.\<close>

lemma count_dfs:
  "depth < maxGraphDepth \<Longrightarrow> countDownstream d depth i v
     = (length (dfs (blocks_of d) (maxGraphDepth - Suc depth) (blocks_of d i) v) - length v,
        dfs (blocks_of d) (maxGraphDepth - Suc depth) (blocks_of d i) v)"
  "depth < maxGraphDepth \<Longrightarrow> count_targets d depth js v
     = (length (dfs (blocks_of d) (maxGraphDepth - Suc depth) js v) - length v,
        dfs (blocks_of d) (maxGraphDepth - Suc depth) js v)"
proof (induction d depth i v and d depth js v rule: countDownstream_count_targets.induct)
  case (1 d depth i visited)
  then show ?case by (subst countDownstream.simps) (auto simp: blocks_of_def [of d i] split: sum.splits)
next
  case (2 d depth visited)
  then show ?case by simp
next
  case (3 d depth j js visited)
  show ?case
  proof (cases "List.member visited j")
    case True
    then show ?thesis using 3(1) 3(4) by simp
  next
    case False
    let ?n = "maxGraphDepth - Suc depth"
    define v1 where "v1 = (case ?n of 0 \<Rightarrow> j # visited
      | Suc m \<Rightarrow> dfs (blocks_of d) m (blocks_of d j) (j # visited))"
    have node: "countDownstream d (Suc depth) j (j # visited) = (length v1 - Suc (length visited), v1)"
    proof (cases "Suc depth < maxGraphDepth")
      case True
      then have "?n = Suc (maxGraphDepth - Suc (Suc depth))" by simp
      then show ?thesis using 3(2) [OF False True] by (simp add: v1_def)
    next
      case False
      then show ?thesis using 3(4) by (simp add: v1_def countDownstream.simps)
    qed
    have rest: "count_targets d depth js v1
      = (length (dfs (blocks_of d) ?n js v1) - length v1, dfs (blocks_of d) ?n js v1)"
      using 3(3) [OF False node [symmetric] refl 3(4)] .
    have "Suc (length visited) \<le> length v1"
    proof (cases ?n)
      case (Suc m)
      then show ?thesis
        using dfs_extends [of "blocks_of d" m "blocks_of d j" "j # visited"] by (auto simp: v1_def)
    qed (simp add: v1_def)
    moreover have "length v1 \<le> length (dfs (blocks_of d) ?n js v1)"
      using dfs_extends [of "blocks_of d" ?n js v1] by auto
    moreover have "dfs (blocks_of d) ?n (j # js) visited = dfs (blocks_of d) ?n js v1"
      using False by (simp add: v1_def)
    ultimately show ?thesis using False node rest by (simp del: dfs.simps)
  qed
qed

section \<open>The longest chain of blocks\<close>

record criticalPathEntry =
  cp_id :: uuid
  cp_title :: string
  cp_stage :: string
  cp_fanOut :: int

text \<open>The loop that keeps the first of the longest lists.\<close>

definition longest_of :: "'a list list \<Rightarrow> 'a list" where
  "longest_of ps = foldl (\<lambda>best p. if length best < length p then p else best) [] ps"

function findLongestBlocksChain ::
  "db \<Rightarrow> nat \<Rightarrow> uuid list \<Rightarrow> uuid \<Rightarrow> criticalPathEntry list" where
  "findLongestBlocksChain d depth onStack i =
    (if List.member onStack i \<or> maxGraphDepth \<le> depth then []
     else case GetTask i d of
         Inl _ \<Rightarrow> []
       | Inr t \<Rightarrow>
          (let blocksTargets = blocks_targets t;
               entry = \<lparr>cp_id = t_id (e_task t), cp_title = t_title (e_task t),
                 cp_stage = stage_str (t_stage (e_task t)),
                 cp_fanOut = int32 (int (length blocksTargets))\<rparr> in
           if blocksTargets = [] then [entry]
           else entry # longest_of
             (map (findLongestBlocksChain d (Suc depth) (i # onStack)) blocksTargets)))"
  by pat_completeness auto
termination
  by (relation "measure (\<lambda>(d, depth, onStack, i). maxGraphDepth - depth)") auto

declare findLongestBlocksChain.simps [simp del]

lemma longest_of_fold:
  "foldl (\<lambda>best p. if length best < length p then p else best) b ps \<in> insert b (set ps)
   \<and> (\<forall>p\<in>insert b (set ps).
        length p \<le> length (foldl (\<lambda>best p. if length best < length p then p else best) b ps))"
proof (induction ps arbitrary: b)
  case (Cons p ps)
  show ?case
  proof (cases "length b < length p")
    case True
    then show ?thesis using Cons [of p] by fastforce
  next
    case False
    then show ?thesis using Cons [of b] by fastforce
  qed
qed simp

lemma longest_of_mem: "longest_of ps = [] \<or> longest_of ps \<in> set ps"
  using longest_of_fold [of "[]" ps] by (auto simp: longest_of_def)

lemma longest_of_ge: "p \<in> set ps \<Longrightarrow> length p \<le> length (longest_of ps)"
  using longest_of_fold [of "[]" ps] by (auto simp: longest_of_def)

text \<open>A chain: stored tasks, each blocking the next.\<close>

fun blocks_chain :: "db \<Rightarrow> uuid list \<Rightarrow> bool" where
  "blocks_chain d [] = True"
| "blocks_chain d [i] = (i \<in> task_ids d)"
| "blocks_chain d (i # j # p) = (i \<in> task_ids d \<and> j \<in> set (blocks_of d i) \<and> blocks_chain d (j # p))"

lemma GetTask_cases:
  assumes "i \<in> task_ids d"
  obtains t where "GetTask i d = Inr (with_edges d t)" "t_id t = i" "t \<in> set (d_tasks d)"
proof -
  from assms obtain t where t: "get_task i d = Some t"
    using get_task_None [of i d] by auto
  then have "GetTask i d = Inr (with_edges d t)" by (simp add: GetTask_def getTaskWithEdges_def)
  then show ?thesis using that t get_task_id get_task_Some by blast
qed

lemma GetTask_missing: "i \<notin> task_ids d \<Longrightarrow> GetTask i d = Inl ErrNotFound"
  using get_task_None [of i d] by (simp add: GetTask_def getTaskWithEdges_def)

text \<open>One turn of the search on a stored task off the stack.\<close>

lemma chain_step:
  assumes "i \<notin> set st" and "depth < maxGraphDepth" and "i \<in> task_ids d"
  obtains en where "cp_id en = i"
    "findLongestBlocksChain d depth st i
      = en # longest_of (map (findLongestBlocksChain d (Suc depth) (i # st)) (blocks_of d i))"
proof -
  from assms(3) obtain t where t: "GetTask i d = Inr (with_edges d t)" "t_id t = i"
    by (rule GetTask_cases)
  have b: "blocks_of d i = blocks_targets (with_edges d t)" by (simp add: blocks_of_def t)
  have "findLongestBlocksChain d depth st i
      = \<lparr>cp_id = i, cp_title = t_title t, cp_stage = stage_str (t_stage t),
          cp_fanOut = int32 (int (length (blocks_of d i)))\<rparr>
        # longest_of (map (findLongestBlocksChain d (Suc depth) (i # st)) (blocks_of d i))"
    using assms(1,2) t
    by (subst findLongestBlocksChain.simps) (simp add: b Let_def longest_of_def)
  then show ?thesis by (rule that [rotated]) simp
qed

lemma chain_found:
  "db_ok d \<Longrightarrow> let p = map cp_id (findLongestBlocksChain d depth st i) in
     blocks_chain d p \<and> distinct p \<and> set p \<inter> set st = {}
     \<and> length p \<le> maxGraphDepth - depth
     \<and> (p \<noteq> [] \<longrightarrow> hd p = i)"
proof (induction d depth st i rule: findLongestBlocksChain.induct)
  case (1 d depth st i)
  let ?f = "findLongestBlocksChain d (Suc depth) (i # st)"
  show ?case
  proof (cases "i \<in> set st \<or> maxGraphDepth \<le> depth \<or> i \<notin> task_ids d")
    case True
    then have "findLongestBlocksChain d depth st i = []"
      by (subst findLongestBlocksChain.simps) (auto simp: GetTask_missing)
    then show ?thesis by simp
  next
    case False
    then have st: "i \<notin> set st" "depth < maxGraphDepth" "i \<in> task_ids d" by auto
    then obtain en where en: "cp_id en = i"
      "findLongestBlocksChain d depth st i = en # longest_of (map ?f (blocks_of d i))"
      by (rule chain_step)
    define q where "q = map cp_id (longest_of (map ?f (blocks_of d i)))"
    have p: "map cp_id (findLongestBlocksChain d depth st i) = i # q" using en by (simp add: q_def)
    from st(3) obtain t where t: "GetTask i d = Inr (with_edges d t)" by (rule GetTask_cases)
    have "q = [] \<or> (\<exists>j\<in>set (blocks_of d i). q = map cp_id (?f j))"
      using longest_of_mem [of "map ?f (blocks_of d i)"] by (auto simp: q_def)
    then show ?thesis
    proof
      assume "q = []"
      then show ?thesis using st by (simp add: p)
    next
      assume "\<exists>j\<in>set (blocks_of d i). q = map cp_id (?f j)"
      then obtain j where j: "j \<in> set (blocks_of d i)" "q = map cp_id (?f j)" by blast
      have bt: "blocks_targets (with_edges d t) \<noteq> []" "j \<in> set (blocks_targets (with_edges d t))"
        using j(1) t by (auto simp: blocks_of_def)
      have "blocks_chain d q \<and> distinct q \<and> set q \<inter> set (i # st) = {}
        \<and> length q \<le> maxGraphDepth - Suc depth \<and> (q \<noteq> [] \<longrightarrow> hd q = j)"
        using 1(1) [OF _ t refl refl bt(1) bt(2) 1(2)] st j(2) by (simp add: Let_def)
      then show ?thesis using st j(1) p
        by (cases q) (auto simp: Let_def)
    qed
  qed
qed

lemma chain_longest:
  "blocks_chain d (i # p) \<Longrightarrow> distinct (i # p) \<Longrightarrow> set (i # p) \<inter> set st = {} \<Longrightarrow>
     length (i # p) \<le> maxGraphDepth - depth \<Longrightarrow>
     length (i # p) \<le> length (findLongestBlocksChain d depth st i)"
proof (induction p arbitrary: i st depth)
  case Nil
  then have "i \<notin> set st" "depth < maxGraphDepth" "i \<in> task_ids d" by auto
  then obtain en where "findLongestBlocksChain d depth st i
      = en # longest_of (map (findLongestBlocksChain d (Suc depth) (i # st)) (blocks_of d i))"
    by (rule chain_step)
  then show ?case by simp
next
  case (Cons j p)
  then have "i \<notin> set st" "depth < maxGraphDepth" "i \<in> task_ids d" by auto
  then obtain en where en: "findLongestBlocksChain d depth st i
      = en # longest_of (map (findLongestBlocksChain d (Suc depth) (i # st)) (blocks_of d i))"
    by (rule chain_step)
  have "length (j # p) \<le> length (findLongestBlocksChain d (Suc depth) (i # st) j)"
    using Cons.prems by (intro Cons.IH) auto
  also have "\<dots> \<le> length (longest_of (map (findLongestBlocksChain d (Suc depth) (i # st)) (blocks_of d i)))"
    using Cons.prems(1) by (intro longest_of_ge) auto
  finally show ?case by (simp add: en)
qed

section \<open>The dependency tree\<close>

datatype dep_node = DepNode (dn_Task: pb_task) (dn_Blocks: "dep_node list") (dn_BlockedBy: "dep_node list")

text \<open>The numbers of \<open>DependencyDirection\<close>: 1 is up, 2 is down, 3 is both.\<close>

definition goes_down :: "int \<Rightarrow> bool" where "goes_down dir = (dir = 2 \<or> dir = 3)"
definition goes_up :: "int \<Rightarrow> bool" where "goes_up dir = (dir = 1 \<or> dir = 3)"

definition opt_cons :: "'a option \<Rightarrow> 'a list \<Rightarrow> 'a list" where
  "opt_cons x xs = (case x of None \<Rightarrow> xs | Some y \<Rightarrow> y # xs)"

function buildDependencyNode ::
  "lib \<Rightarrow> env \<Rightarrow> db \<Rightarrow> int \<Rightarrow> nat \<Rightarrow> nat \<Rightarrow> uuid \<Rightarrow> uuid list \<Rightarrow> code + (dep_node option \<times> uuid list)"
  and build_nodes ::
  "lib \<Rightarrow> env \<Rightarrow> db \<Rightarrow> int \<Rightarrow> nat \<Rightarrow> nat \<Rightarrow> uuid list \<Rightarrow> uuid list \<Rightarrow> code + (dep_node list \<times> uuid list)"
where
  "buildDependencyNode L e d dir maxDepth depth i visited =
    (if List.member visited i \<or> maxDepth < depth then Inr (None, visited)
     else thenE (with_code storeErr (GetTask i d)) (\<lambda>t.
       thenE (build_nodes L e d dir maxDepth (Suc depth)
           (if goes_down dir then blocks_targets t else []) (i # visited)) (\<lambda>(down, v1).
       thenE (build_nodes L e d dir maxDepth (Suc depth)
           (if goes_up dir then blocker_ids t else []) v1) (\<lambda>(up, v2).
       Inr (Some (DepNode (srv_taskToProto L e d t) down up), v2)))))"
| "build_nodes L e d dir maxDepth depth [] visited = Inr ([], visited)"
| "build_nodes L e d dir maxDepth depth (j # js) visited =
    thenE (buildDependencyNode L e d dir maxDepth depth j visited) (\<lambda>(n, v1).
    thenE (build_nodes L e d dir maxDepth depth js v1) (\<lambda>(ns, v2).
    Inr (opt_cons n ns, v2)))"
  by pat_completeness auto
termination
  by (relation "measures [\<lambda>x. case x of Inl (L, e, d, dir, m, depth, i, v) \<Rightarrow> Suc m - depth
        | Inr (L, e, d, dir, m, depth, js, v) \<Rightarrow> Suc m - depth,
      \<lambda>x. case x of Inl y \<Rightarrow> 0 | Inr (L, e, d, dir, m, depth, js, v) \<Rightarrow> Suc (length js)]") auto

declare buildDependencyNode.simps [simp del]

text \<open>The tasks of a tree in the order in which they are visited.\<close>

fun tree_ids :: "dep_node \<Rightarrow> string list" where
  "tree_ids (DepNode t bs us) = pt_Id t # concat (map tree_ids bs) @ concat (map tree_ids us)"

text \<open>A tree of at most \<open>n\<close> levels below its root whose edges are those of the graph.\<close>

fun dep_tree :: "lib \<Rightarrow> db \<Rightarrow> nat \<Rightarrow> uuid \<Rightarrow> dep_node \<Rightarrow> bool" where
  "dep_tree L d n i (DepNode t bs us) \<longleftrightarrow> pt_Id t = uuid_String L i \<and> i \<in> task_ids d
     \<and> (bs @ us = [] \<or> 0 < n)
     \<and> (\<forall>b\<in>set bs. \<exists>j\<in>set (blocks_of d i). dep_tree L d (n - 1) j b)
     \<and> (\<forall>u\<in>set us. \<exists>j\<in>set (blockers_of d i). dep_tree L d (n - 1) j u)"

text \<open>The edges the search follows for a direction.\<close>

definition dep_edges :: "db \<Rightarrow> int \<Rightarrow> uuid \<Rightarrow> uuid list" where
  "dep_edges d dir i = (if goes_down dir then blocks_of d i else [])
     @ (if goes_up dir then blockers_of d i else [])"

lemma pt_Id_srv [simp]: "pt_Id (srv_taskToProto L e d et) = uuid_String L (t_id (e_task et))"
  by (simp add: srv_taskToProto_def taskToProto_def Let_def split: sum.split)

lemma rel_ends:
  assumes "db_ok d" and "r \<in> set (d_rels d)"
  shows "r_src r \<in> task_ids d" "r_tgt r \<in> task_ids d"
  using assms by (auto simp: db_ok_def rels_ok_def)

lemma dep_edges_stored: "db_ok d \<Longrightarrow> set (blocks_of d i) \<union> set (blockers_of d i) \<subseteq> task_ids d"
proof (cases "i \<in> task_ids d")
  case True
  then obtain t where t: "GetTask i d = Inr (with_edges d t)" by (rule GetTask_cases)
  moreover assume "db_ok d"
  ultimately show ?thesis
    by (auto simp: blocks_of_def blockers_of_def blocks_targets_def blocker_ids_def with_edges_def rel_ends)
next
  case False
  then show ?thesis by (simp add: blocks_of_def blockers_of_def GetTask_missing)
qed

text \<open>The set of visited tasks after a call, and what the call built.\<close>

definition visited_after :: "db \<Rightarrow> int \<Rightarrow> nat \<Rightarrow> nat \<Rightarrow> uuid list \<Rightarrow> uuid list \<Rightarrow> uuid list" where
  "visited_after d dir m depth js v = (if depth \<le> m then dfs (dep_edges d dir) (m - depth) js v else v)"

definition built :: "lib \<Rightarrow> db \<Rightarrow> int \<Rightarrow> nat \<Rightarrow> nat \<Rightarrow> uuid list \<Rightarrow> uuid list \<Rightarrow> dep_node list \<Rightarrow> bool" where
  "built L d dir m depth js v ns \<longleftrightarrow>
     map (uuid_String L) (visited_after d dir m depth js v)
       = rev (concat (map tree_ids ns)) @ map (uuid_String L) v
   \<and> (\<forall>x\<in>set ns. depth \<le> m \<and> (\<exists>j\<in>set js. dep_tree L d (m - depth) j x))"

lemma visited_after_append:
  "visited_after d dir m depth (xs @ ys) v
    = visited_after d dir m depth ys (visited_after d dir m depth xs v)"
  by (simp add: visited_after_def dfs_append)

lemma built_append:
  "built L d dir m depth xs v ns \<Longrightarrow>
    built L d dir m depth ys (visited_after d dir m depth xs v) us \<Longrightarrow>
    built L d dir m depth (xs @ ys) v (ns @ us)"
  by (auto simp: built_def visited_after_append)

lemma visited_after_node:
  "i \<notin> set v \<Longrightarrow> depth \<le> m \<Longrightarrow> visited_after d dir m depth [i] v
     = visited_after d dir m (Suc depth) (dep_edges d dir i) (i # v)"
proof (cases "m - depth")
  case (Suc n)
  moreover from Suc have "m - Suc depth = n" and "Suc depth \<le> m" by arith+
  moreover assume "i \<notin> set v" and "depth \<le> m"
  ultimately show ?thesis by (simp add: visited_after_def)
qed (simp add: visited_after_def)

lemma built_node:
  assumes "i \<notin> set v" and "depth \<le> m" and i: "i \<in> task_ids d" and id: "pt_Id t = uuid_String L i"
    and down: "built L d dir m (Suc depth) (if goes_down dir then blocks_of d i else []) (i # v) bs"
    and up: "built L d dir m (Suc depth) (if goes_up dir then blockers_of d i else [])
      (visited_after d dir m (Suc depth) (if goes_down dir then blocks_of d i else []) (i # v)) us"
  shows "built L d dir m depth [i] v [DepNode t bs us]"
proof -
  have "built L d dir m (Suc depth) (dep_edges d dir i) (i # v) (bs @ us)"
    unfolding dep_edges_def by (rule built_append [OF down up])
  moreover have "dep_tree L d (m - depth) i (DepNode t bs us)"
    using down up i id by (auto simp: built_def split: if_splits)
  ultimately show ?thesis
    using assms(1,2) id by (simp add: built_def visited_after_node)
qed

lemma build_nodes_ok:
  "db_ok d \<Longrightarrow> i \<in> task_ids d \<Longrightarrow>
     \<exists>n. buildDependencyNode L e d dir m depth i v = Inr (n, visited_after d dir m depth [i] v)
       \<and> built L d dir m depth [i] v (opt_cons n [])"
  "db_ok d \<Longrightarrow> set js \<subseteq> task_ids d \<Longrightarrow>
     \<exists>ns. build_nodes L e d dir m depth js v = Inr (ns, visited_after d dir m depth js v)
       \<and> built L d dir m depth js v ns"
proof (induction L e d dir m depth i v and L e d dir m depth js v rule: buildDependencyNode_build_nodes.induct)
  case (1 L e d dir m depth i v)
  show ?case
  proof (cases "List.member v i \<or> m < depth")
    case True
    then have "buildDependencyNode L e d dir m depth i v = Inr (None, v)"
      by (subst buildDependencyNode.simps) simp
    moreover have "visited_after d dir m depth [i] v = v" using True by (auto simp: visited_after_def)
    ultimately show ?thesis by (simp add: built_def opt_cons_def)
  next
    case False
    from 1(4) obtain t where t: "GetTask i d = Inr (with_edges d t)" "t_id t = i" by (rule GetTask_cases)
    let ?D = "if goes_down dir then blocks_of d i else []"
    let ?U = "if goes_up dir then blockers_of d i else []"
    have D: "?D = (if goes_down dir then blocks_targets (with_edges d t) else [])"
      and U: "?U = (if goes_up dir then blocker_ids (with_edges d t) else [])"
      by (simp_all add: blocks_of_def blockers_of_def t)
    have stored: "set ?D \<subseteq> task_ids d" "set ?U \<subseteq> task_ids d"
      using dep_edges_stored [OF 1(3)] by auto
    let ?v1 = "visited_after d dir m (Suc depth) ?D (i # v)"
    obtain bs where bs: "build_nodes L e d dir m (Suc depth) ?D (i # v) = Inr (bs, ?v1)"
      "built L d dir m (Suc depth) ?D (i # v) bs"
      using 1(1) [OF False 1(3), of "with_edges d t", folded D] stored by blast
    obtain us where us: "build_nodes L e d dir m (Suc depth) ?U ?v1
        = Inr (us, visited_after d dir m (Suc depth) ?U ?v1)"
      "built L d dir m (Suc depth) ?U ?v1 us"
      using 1(2) [OF False 1(3), of "with_edges d t" ?v1, folded U] stored by blast
    have "buildDependencyNode L e d dir m depth i v
      = Inr (Some (DepNode (srv_taskToProto L e d (with_edges d t)) bs us),
          visited_after d dir m (Suc depth) ?U ?v1)"
      using False bs(1) us(1) t
      by (subst buildDependencyNode.simps) (simp add: with_code_def flip: D U)
    moreover have "visited_after d dir m (Suc depth) ?U ?v1 = visited_after d dir m depth [i] v"
      using False by (simp add: visited_after_node dep_edges_def visited_after_append)
    moreover have "built L d dir m depth [i] v [DepNode (srv_taskToProto L e d (with_edges d t)) bs us]"
      using False bs(2) us(2) t 1(4) by (intro built_node) auto
    ultimately show ?thesis by (auto simp: opt_cons_def)
  qed
next
  case (2 L e d dir m depth v)
  then show ?case by (simp add: built_def visited_after_def)
next
  case (3 L e d dir m depth j js v)
  from 3(3,4) 3(1) obtain n where n:
    "buildDependencyNode L e d dir m depth j v = Inr (n, visited_after d dir m depth [j] v)"
    "built L d dir m depth [j] v (opt_cons n [])" by auto
  let ?v1 = "visited_after d dir m depth [j] v"
  obtain ns where ns: "build_nodes L e d dir m depth js ?v1
      = Inr (ns, visited_after d dir m depth js ?v1)" "built L d dir m depth js ?v1 ns"
    using 3(2) [OF 3(3), of ?v1] 3(4) by auto
  have "opt_cons n ns = opt_cons n [] @ ns" by (cases n) (simp_all add: opt_cons_def)
  then show ?case
    using n ns built_append [OF n(2) ns(2)] visited_after_append [of d dir m depth "[j]" js v] by simp
qed

section \<open>The exchange sort\<close>

text \<open>The two loops of \<open>GetBottlenecks\<close> that sort by a count, the largest first.\<close>

definition swap_if :: "('a \<Rightarrow> nat) \<Rightarrow> nat \<Rightarrow> nat \<Rightarrow> 'a list \<Rightarrow> 'a list" where
  "swap_if key i j xs = (if key (xs ! j) > key (xs ! i) then xs[i := xs ! j, j := xs ! i] else xs)"

definition exchange_pass :: "('a \<Rightarrow> nat) \<Rightarrow> nat \<Rightarrow> 'a list \<Rightarrow> 'a list" where
  "exchange_pass key i xs = fold (swap_if key i) [Suc i..<length xs] xs"

definition exchange_sort :: "('a \<Rightarrow> nat) \<Rightarrow> 'a list \<Rightarrow> 'a list" where
  "exchange_sort key xs = fold (exchange_pass key) [0..<length xs] xs"

lemma swap_if_mset: "i < length xs \<Longrightarrow> j < length xs \<Longrightarrow> mset (swap_if key i j xs) = mset xs"
  by (simp add: swap_if_def mset_swap)

lemma swap_if_length [simp]: "length (swap_if key i j xs) = length xs"
  by (simp add: swap_if_def)

lemma swap_if_nth:
  assumes "i < length xs" and "j < length xs" and "i \<noteq> j"
  shows "k \<noteq> i \<Longrightarrow> k \<noteq> j \<Longrightarrow> swap_if key i j xs ! k = xs ! k"
    and "key (swap_if key i j xs ! i) = max (key (xs ! i)) (key (xs ! j))"
    and "key (swap_if key i j xs ! j) = min (key (xs ! i)) (key (xs ! j))"
  using assms by (auto simp: swap_if_def nth_list_update)

text \<open>After the pass up to \<open>n\<close> the entry at \<open>i\<close> is the largest of those in between.\<close>

lemma exchange_pass_upto:
  assumes "i < n" and "n \<le> length xs" and "ys = fold (swap_if key i) [Suc i..<n] xs"
  shows "length ys = length xs \<and> mset ys = mset xs \<and> (\<forall>k<i. ys ! k = xs ! k)
    \<and> (\<forall>k. i \<le> k \<longrightarrow> k < n \<longrightarrow> key (ys ! k) \<le> key (ys ! i))
    \<and> (\<forall>k. n \<le> k \<longrightarrow> ys ! k = xs ! k)"
  using assms(1,2) unfolding assms(3)
proof (induction n)
  case (Suc n)
  show ?case
  proof (cases "i = n")
    case True
    have "key (xs ! k) \<le> key (xs ! n)" if "n \<le> k" "k < Suc n" for k
      using that by (cases "k = n") simp_all
    with True show ?thesis by simp
  next
    case False
    let ?y = "fold (swap_if key i) [Suc i..<n] xs"
    let ?z = "swap_if key i n ?y"
    have z: "fold (swap_if key i) [Suc i..<Suc n] xs = ?z" using Suc.prems False by simp
    have IH: "length ?y = length xs" "mset ?y = mset xs" "\<forall>k<i. ?y ! k = xs ! k"
      "\<forall>k. i \<le> k \<longrightarrow> k < n \<longrightarrow> key (?y ! k) \<le> key (?y ! i)" "\<forall>k. n \<le> k \<longrightarrow> ?y ! k = xs ! k"
      using Suc False by simp_all
    have ij: "i < length ?y" "n < length ?y" "i \<noteq> n" using IH(1) Suc.prems False by auto
    have zk: "?z ! k = ?y ! k" if "k \<noteq> i" "k \<noteq> n" for k by (rule swap_if_nth(1) [OF ij that])
    have zi: "key (?z ! i) = max (key (?y ! i)) (key (?y ! n))" by (rule swap_if_nth(2) [OF ij])
    have zn: "key (?z ! n) = min (key (?y ! i)) (key (?y ! n))" by (rule swap_if_nth(3) [OF ij])
    have "key (?z ! k) \<le> key (?z ! i)" if "i \<le> k" "k < Suc n" for k
    proof -
      from that(2) consider "k = i" | "k = n" | "k \<noteq> i" "k \<noteq> n" "k < n" by linarith
      then show ?thesis
      proof cases
        case 3
        then have "key (?y ! k) \<le> key (?y ! i)" using IH(4) that(1) by blast
        then show ?thesis using zk [OF 3(1,2)] zi by simp
      qed (use zi zn in simp_all)
    qed
    then show ?thesis
      unfolding z using IH swap_if_mset [OF ij(1,2)] zk ij(3) Suc.prems by auto
  qed
qed simp

lemma exchange_sort_upto:
  assumes "n \<le> length xs" and "ys = fold (exchange_pass key) [0..<n] xs"
  shows "length ys = length xs \<and> mset ys = mset xs
    \<and> (\<forall>a b. a < n \<longrightarrow> a \<le> b \<longrightarrow> b < length xs \<longrightarrow> key (ys ! b) \<le> key (ys ! a))"
  using assms(1) unfolding assms(2)
proof (induction n)
  case (Suc n)
  let ?y = "fold (exchange_pass key) [0..<n] xs"
  let ?z = "exchange_pass key n ?y"
  have IH: "length ?y = length xs" "mset ?y = mset xs"
    "\<And>a b. a < n \<Longrightarrow> a \<le> b \<Longrightarrow> b < length xs \<Longrightarrow> key (?y ! b) \<le> key (?y ! a)"
    using Suc by simp_all
  have n: "n < length ?y" using IH(1) Suc.prems by simp
  have z: "length ?z = length ?y" "mset ?z = mset ?y" "\<And>k. k < n \<Longrightarrow> ?z ! k = ?y ! k"
    "\<And>k. n \<le> k \<Longrightarrow> k < length ?y \<Longrightarrow> key (?z ! k) \<le> key (?z ! n)"
    using exchange_pass_upto [OF n order_refl refl] unfolding exchange_pass_def by auto
  have "key (?z ! b) \<le> key (?z ! a)" if "a < Suc n" "a \<le> b" "b < length xs" for a b
  proof (cases "a = n")
    case True
    then show ?thesis using z(4) [of b] that IH(1) by simp
  next
    case False
    then have a: "a < n" using that(1) by simp
    have "mset (drop n ?z) = mset (drop n ?y)"
    proof -
      have "take n ?z = take n ?y" using z(1,3) n by (intro nth_equalityI) auto
      then show ?thesis using z(2) by (metis append_take_drop_id mset_append add_left_cancel)
    qed
    then have "set (drop n ?z) = set (drop n ?y)" by (rule mset_eq_setD)
    moreover have "?z ! b \<in> set (drop n ?z)" if "n \<le> b"
      using that \<open>b < length xs\<close> IH(1) z(1) by (auto simp: in_set_conv_nth intro!: exI [of _ "b - n"])
    ultimately have far: "n \<le> b \<Longrightarrow> \<exists>k\<ge>n. k < length xs \<and> ?z ! b = ?y ! k"
      using IH(1) by (auto simp: in_set_conv_nth) (metis add.commute le_add1 less_diff_conv)
    show ?thesis
    proof (cases "b < n")
      case True
      then show ?thesis using IH(3) [OF a that(2,3)] z(3) a by simp
    next
      case False
      then obtain k where "n \<le> k" "k < length xs" "?z ! b = ?y ! k" using far by auto
      then show ?thesis using IH(3) [OF a, of k] z(3) [OF a] a by simp
    qed
  qed
  then show ?case using IH z by simp
qed simp

lemma exchange_sort_perm: "mset (exchange_sort key xs) = mset xs"
  using exchange_sort_upto [OF order_refl refl, of key xs] by (simp add: exchange_sort_def)

lemma exchange_sort_sorted: "sorted_wrt (\<lambda>a b. key b \<le> key a) (exchange_sort key xs)"
  using exchange_sort_upto [OF order_refl refl, of key xs]
  by (simp add: exchange_sort_def sorted_wrt_iff_nth_less)

end
