(* ===== verification/FT_Graph.thy ===== *)
theory FT_Graph
  imports FT_GraphSearch
begin

text \<open>
  The graph handlers of \<open>internal/server/server.go\<close> and their routing
  (\<open>graph_routing.go\<close>, \<open>graph_support.go\<close>). A collection of another platform is copied into an
  ephemeral store from the pool, and the request is handed to a second service on that store,
  which has no pool of its own; the store goes back to the pool with \<open>pool_Return\<close>. An offset
  token is what \<open>strconv.Atoi\<close> makes of the cursor it holds.
\<close>

section \<open>Which collections support graph queries\<close>

definition platformGraphDefaults :: "platform \<Rightarrow> bool" where
  "platformGraphDefaults p = (case p of PlatformFarmtable \<Rightarrow> True | PlatformGithub \<Rightarrow> True
     | PlatformLinear \<Rightarrow> True | PlatformJira \<Rightarrow> True | PlatformAsana \<Rightarrow> False | PlatformBeads \<Rightarrow> False)"

definition collectionSupportsGraph :: "collection \<Rightarrow> bool" where
  "collectionSupportsGraph co =
    (case (case co_remote co of None \<Rightarrow> None | Some m \<Rightarrow> map_of m ''graph_queries'') of
       Some (JBool b) \<Rightarrow> b | _ \<Rightarrow> platformGraphDefaults (co_platform co))"

datatype graphRoute = RouteDirect | RouteEphemeral

definition resolveGraphRoute :: "uuid \<Rightarrow> db \<Rightarrow> code + graphRoute" where
  "resolveGraphRoute cid d =
    thenE (with_code (\<lambda>_. NotFound) (GetCollection cid d)) (\<lambda>co.
    if co_platform co = PlatformFarmtable then Inr RouteDirect
    else if \<not> collectionSupportsGraph co then Inl Unimplemented
    else Inr RouteEphemeral)"

section \<open>The ephemeral store\<close>

definition plain_list :: "uuid \<Rightarrow> phase option \<Rightarrow> int \<Rightarrow> ListTasksParams" where
  "plain_list cid ph lim = \<lparr>lt_CollectionID = Some cid, lt_Phase = ph, lt_Stage = None,
     lt_AssigneeID = None, lt_Unassigned = False, lt_Priority = None, lt_Type = None,
     lt_Labels = [], lt_ParentTaskID = None, lt_SortField = [], lt_SortOrder = [],
     lt_Limit = lim, lt_Cursor = TNoCursor\<rparr>"

definition maxEphemeralTasks :: int where "maxEphemeralTasks = 10000"

text \<open>The assignee, the hold reason, the rank, the parent and the remote data are not copied.\<close>

definition taskToCreateParams :: "task \<Rightarrow> uuid \<Rightarrow> CreateTaskParams" where
  "taskToCreateParams t cid = \<lparr>ct_Title = t_title t, ct_Description = t_description t,
     ct_CollectionID = cid, ct_Phase = t_phase t, ct_Stage = t_stage t, ct_HoldReason = None,
     ct_NativeLabel = t_native_label t, ct_Type = t_type t, ct_Priority = t_priority t,
     ct_Rank = None, ct_AssigneeID = None, ct_ParentTaskID = None,
     ct_AcceptanceCriteria = t_acceptance t, ct_RemoteData = None, ct_Labels = t_labels t,
     ct_StartDate = t_start t, ct_DueDate = t_due t, ct_BlocksTaskIDs = [],
     ct_BlockedByTaskIDs = [], ct_Repo = t_repo t, ct_Branch = t_branch t\<rparr>"

text \<open>An update that only adds relationships.\<close>

definition add_only :: "uuid list \<Rightarrow> uuid list \<Rightarrow> UpdateTaskParams" where
  "add_only bs bys = \<lparr>ut_Title = None, ut_Description = None, ut_Phase = None,
     ut_Stage = None, ut_HoldReason = None, ut_ClearHoldReason = False, ut_NativeLabel = None,
     ut_Type = None, ut_Priority = None, ut_Rank = None, ut_ClearRank = False,
     ut_ClearPriority = False, ut_AssigneeID = None, ut_ClearAssignee = False,
     ut_ParentTaskID = None, ut_ClearParent = False, ut_AcceptanceCriteria = None,
     ut_ClearAcceptance = False, ut_RemoteData = None, ut_Version = [], ut_StartDate = None,
     ut_ClearStartDate = False, ut_DueDate = None, ut_ClearDueDate = False, ut_AddLabels = [],
     ut_RemoveLabels = [], ut_AddBlocks = bs, ut_AddBlockedBy = bys,
     ut_RemoveRelationships = [], ut_Repo = None, ut_Branch = None, ut_ClearRepo = False,
     ut_ClearBranch = False, ut_AddPullRequests = [], ut_CIStatus = None,
     ut_ClearCIStatus = False, ut_Reason = None\<rparr>"

definition try_update :: "env \<Rightarrow> uuid \<Rightarrow> UpdateTaskParams \<Rightarrow> db \<Rightarrow> store_err + db" where
  "try_update e i p d = thenE (UpdateTask_serial e i p uuid_Nil d) (\<lambda>(_, d'). Inr d')"

text \<open>Both forms of the edge are stored; the second update is left out when the first one fails.\<close>

definition createRelationshipViaUpdate :: "env \<Rightarrow> db \<Rightarrow> rel \<Rightarrow> db" where
  "createRelationshipViaUpdate e d r =
    (let two = (\<lambda>p q. case try_update e (r_src r) p d of
           Inl _ \<Rightarrow> d
         | Inr d1 \<Rightarrow> (case try_update e (r_tgt r) q d1 of Inl _ \<Rightarrow> d1 | Inr d2 \<Rightarrow> d2))
     in case r_type r of
          TypeBlocks \<Rightarrow> two (add_only [r_tgt r] []) (add_only [] [r_src r])
        | TypeBlockedBy \<Rightarrow> two (add_only [] [r_tgt r]) (add_only [r_src r] [])
        | _ \<Rightarrow> d)"

definition load_task ::
  "env \<Rightarrow> uuid \<Rightarrow> db \<times> (uuid \<times> uuid) list \<Rightarrow> etask \<Rightarrow> store_err + (db \<times> (uuid \<times> uuid) list)" where
  "load_task e cid s et =
    thenE (CreateTask e (taskToCreateParams (e_task et) cid) (fst s)) (\<lambda>(created, d').
    Inr (d', (t_id (e_task et), t_id (e_task created)) # snd s))"

definition load_rel :: "env \<Rightarrow> (uuid \<times> uuid) list \<Rightarrow> rel \<Rightarrow> db \<Rightarrow> db" where
  "load_rel e idMap r d =
    (case (map_of idMap (r_src r), map_of idMap (r_tgt r)) of
       (Some s, Some t) \<Rightarrow> createRelationshipViaUpdate e d (r\<lparr>r_src := s, r_tgt := t\<rparr>)
     | _ \<Rightarrow> d)"

definition loadEphemeralStore :: "lib \<Rightarrow> env \<Rightarrow> bool \<Rightarrow> pool \<Rightarrow> uuid \<Rightarrow> db \<Rightarrow> code + db" where
  "loadEphemeralStore L e nulls_first p cid d =
    (let eph0 = fst (pool_Get p) in
     with_code (\<lambda>_. Internal) (
       thenE (ListTasks nulls_first (plain_list cid None maxEphemeralTasks) d) (\<lambda>(tasks, _).
       thenE (CreateCollection e \<lparr>cc_Name = ''ephemeral-'' @ uuid_String L cid, cc_Description = [],
           cc_Platform = platform_str PlatformFarmtable, cc_RemoteID = [], cc_RemoteData = None\<rparr> eph0)
         (\<lambda>(mirrorColl, eph1).
       thenE (foldE (load_task e (co_id mirrorColl)) (eph1, []) tasks) (\<lambda>(eph2, idMap).
       Inr (fold (load_rel e idMap) (concat (map e_src tasks)) eph2))))))"

definition ephemeralCollectionID :: "db \<Rightarrow> code + uuid" where
  "ephemeralCollectionID d =
    (case ListCollections \<lparr>lc_Platform = None, lc_Limit = 1, lc_Cursor = NoCursor\<rparr> d of
       Inr (co # _, _) \<Rightarrow> Inr (co_id co) | _ \<Rightarrow> Inl Internal)"

text \<open>
  The routing that the graph handlers share: access, route, then the query on this store or
  the adapted request on the service of the ephemeral store. The second service has no pool.
\<close>

definition on_route :: "ctx \<Rightarrow> uuid \<Rightarrow> db \<Rightarrow> code + 'a \<Rightarrow> code + 'a \<Rightarrow> code + 'a" where
  "on_route c cid d direct ephemeral =
    thenE (RequireCollectionAccess c cid) (\<lambda>_.
    thenE (resolveGraphRoute cid d) (\<lambda>route.
    case route of RouteDirect \<Rightarrow> direct | RouteEphemeral \<Rightarrow> ephemeral))"

definition route_graph ::
  "lib \<Rightarrow> env \<Rightarrow> bool \<Rightarrow> ctx \<Rightarrow> pool option \<Rightarrow> ('r \<Rightarrow> 'r) \<Rightarrow> ('r \<Rightarrow> uuid \<Rightarrow> db \<Rightarrow> code + 'a)
    \<Rightarrow> 'r \<Rightarrow> uuid \<Rightarrow> db \<Rightarrow> code + 'a" where
  "route_graph L e nf c pool adapt query req cid d =
    on_route c cid d (query req cid d)
      (case pool of
         None \<Rightarrow> Inl Internal
       | Some p \<Rightarrow>
           thenE (loadEphemeralStore L e nf p cid d) (\<lambda>eph.
           thenE (ephemeralCollectionID eph) (\<lambda>ephCID.
           on_route c ephCID eph (query (adapt req) ephCID eph) (Inl Internal))))"

section \<open>Ready and blocked tasks\<close>

definition decodeOffsetCursor :: "int page_token \<Rightarrow> code + int" where
  "decodeOffsetCursor t = (case t of NoToken \<Rightarrow> Inr 0 | BadToken \<Rightarrow> Inl InvalidArgument
     | PageToken n \<Rightarrow> if n < 0 then Inl InvalidArgument else Inr n)"

text \<open>The page with the offset of the next one.\<close>

definition offset_page :: "int \<Rightarrow> 'a list \<Rightarrow> nat \<Rightarrow> 'a page \<times> int option" where
  "offset_page off items n =
    (let nextOffset = off + int (length items); more = (nextOffset < int n) in
     (\<lparr>pg_Items = items, pg_TotalCount = int32 (int n), pg_HasMore = more\<rparr>,
      if more then Some nextOffset else None))"

record GetReadyTasksRequest =
  ry_CollectionId :: "string option"
  ry_Assignee :: "string option"
  ry_MinPriority :: "int option"
  ry_IncludeUnblockedOpen :: bool
  ry_PageSize :: int
  ry_PageToken :: "int page_token"

definition ready_direct ::
  "lib \<Rightarrow> env \<Rightarrow> GetReadyTasksRequest \<Rightarrow> uuid option \<Rightarrow> db \<Rightarrow> code + ((pb_task \<times> int) page \<times> int option)" where
  "ready_direct L e req cid d =
    thenE (decodeOffsetCursor (ry_PageToken req)) (\<lambda>off.
    thenE (assignee_filter L (ry_Assignee req)) (\<lambda>(unassigned, assignee).
    thenE (read_enum_unless_0 TaskPriority_names PriorityFromProto (ry_MinPriority req)) (\<lambda>pr.
    thenE (with_code (\<lambda>_. Internal) (GetReadyTasks e
      \<lparr>gr_CollectionID = cid, gr_AssigneeID = assignee, gr_Unassigned = unassigned,
        gr_MinPriority = pr, gr_IncludeUnblockedOpen = ry_IncludeUnblockedOpen req,
        gr_Limit = clamp_page_size (ry_PageSize req), gr_Offset = off\<rparr> d)) (\<lambda>(results, n).
    Inr (offset_page off (map (\<lambda>r. (srv_taskToProto L e d (rt_Task r),
        int32 (int (rt_BlockersResolved r)))) results) n)))))"

definition srv_GetReadyTasks ::
  "lib \<Rightarrow> env \<Rightarrow> bool \<Rightarrow> pool option \<Rightarrow> ctx \<Rightarrow> GetReadyTasksRequest \<Rightarrow> db
    \<Rightarrow> code + ((pb_task \<times> int) page \<times> int option)" where
  "srv_GetReadyTasks L e nf pool c req d =
    thenE (RequireScope c ScopeTaskRead) (\<lambda>_.
    thenE (must_name_collection c (ry_CollectionId req)) (\<lambda>_.
    case ry_CollectionId req of
      None \<Rightarrow> ready_direct L e req None d
    | Some s \<Rightarrow> thenE (parse_id L s) (\<lambda>cid.
        route_graph L e nf c pool id (\<lambda>r i. ready_direct L e r (Some i)) req cid d)))"

record GetBlockedTasksRequest =
  rb_CollectionId :: "string option"
  rb_Assignee :: "string option"
  rb_PageSize :: int
  rb_PageToken :: "int page_token"

record pb_blocker =
  pbk_TaskId :: string
  pbk_Name :: string
  pbk_Phase :: int
  pbk_Stage :: int

definition blocker_to_proto :: "lib \<Rightarrow> BlockerInfoResult \<Rightarrow> pb_blocker" where
  "blocker_to_proto L b = \<lparr>pbk_TaskId = uuid_String L (bi_TaskID b), pbk_Name = bi_Name b,
     pbk_Phase = phaseToProto (bi_Phase b), pbk_Stage = stageToProto (bi_Stage b)\<rparr>"

definition blocked_direct ::
  "lib \<Rightarrow> env \<Rightarrow> GetBlockedTasksRequest \<Rightarrow> uuid option \<Rightarrow> db
    \<Rightarrow> code + ((pb_task \<times> pb_blocker list) page \<times> int option)" where
  "blocked_direct L e req cid d =
    thenE (decodeOffsetCursor (rb_PageToken req)) (\<lambda>off.
    thenE (assignee_filter L (rb_Assignee req)) (\<lambda>(unassigned, assignee).
    thenE (with_code (\<lambda>_. Internal) (GetBlockedTasks
      \<lparr>gb_CollectionID = cid, gb_AssigneeID = assignee, gb_Unassigned = unassigned,
        gb_Limit = clamp_page_size (rb_PageSize req), gb_Offset = off\<rparr> d)) (\<lambda>(results, n).
    Inr (offset_page off (map (\<lambda>r. (srv_taskToProto L e d (bt_Task r),
        map (blocker_to_proto L) (bt_Blockers r))) results) n))))"

definition srv_GetBlockedTasks ::
  "lib \<Rightarrow> env \<Rightarrow> bool \<Rightarrow> pool option \<Rightarrow> ctx \<Rightarrow> GetBlockedTasksRequest \<Rightarrow> db
    \<Rightarrow> code + ((pb_task \<times> pb_blocker list) page \<times> int option)" where
  "srv_GetBlockedTasks L e nf pool c req d =
    thenE (RequireScope c ScopeTaskRead) (\<lambda>_.
    thenE (must_name_collection c (rb_CollectionId req)) (\<lambda>_.
    case rb_CollectionId req of
      None \<Rightarrow> blocked_direct L e req None d
    | Some s \<Rightarrow> thenE (parse_id L s) (\<lambda>cid.
        route_graph L e nf c pool id (\<lambda>r i. blocked_direct L e r (Some i)) req cid d)))"

section \<open>Dependency tree\<close>

definition clamp_depth :: "int \<Rightarrow> nat" where
  "clamp_depth n = nat (let m = (if n \<le> 0 then 5 else n) in if m > 20 then 20 else m)"

definition srv_GetDependencyTree ::
  "lib \<Rightarrow> env \<Rightarrow> ctx \<Rightarrow> string \<Rightarrow> int \<Rightarrow> int \<Rightarrow> db \<Rightarrow> code + dep_node option" where
  "srv_GetDependencyTree L e c reqTaskId reqMaxDepth reqDir d =
    thenE (RequireScope c ScopeTaskRead) (\<lambda>_.
    thenE (parse_id L reqTaskId) (\<lambda>taskID.
    thenE (RequireTaskAccess c taskID d) (\<lambda>_.
    let dir = (if reqDir = 0 then 3 else reqDir) in
    thenE (buildDependencyNode L e d dir (clamp_depth reqMaxDepth) 0 taskID []) (\<lambda>(root, _).
    Inr root))))"

section \<open>Critical path\<close>

definition maxGraphTasks :: nat where "maxGraphTasks = 500"

text \<open>One turn of the loop over the phases that are not closed.\<close>

definition load_phase :: "bool \<Rightarrow> uuid \<Rightarrow> db \<Rightarrow> etask list \<Rightarrow> phase \<Rightarrow> code + etask list" where
  "load_phase nf cid d tasks ph =
    (let remaining = int maxGraphTasks - int (length tasks) in
     if remaining \<le> 0 then Inr tasks
     else thenE (with_code (\<lambda>_. Internal) (ListTasks nf (plain_list cid (Some ph) remaining) d))
       (\<lambda>(batch, _). Inr (tasks @ batch)))"

definition load_open_tasks :: "bool \<Rightarrow> uuid \<Rightarrow> db \<Rightarrow> code + etask list" where
  "load_open_tasks nf cid d =
    thenE (foldE (load_phase nf cid d) [] [PhaseOpen, PhaseInProgress, PhaseOnHold]) (\<lambda>tasks.
    if maxGraphTasks \<le> length tasks then Inl ResourceExhausted else Inr tasks)"

record pb_path_node =
  pn_Id :: string
  pn_Name :: string
  pn_Stage :: int
  pn_Depth :: int

record pb_critical_path =
  pcp_Path :: "pb_path_node list"
  pcp_TotalDepth :: int
  pcp_Bottleneck :: "(string \<times> string \<times> int) option"

definition path_node :: "lib \<Rightarrow> nat \<Rightarrow> criticalPathEntry \<Rightarrow> pb_path_node" where
  "path_node L k en = \<lparr>pn_Id = uuid_String L (cp_id en), pn_Name = cp_title en,
     pn_Stage = stageToProto (stage_of_str (cp_stage en)), pn_Depth = int32 (int k)\<rparr>"

text \<open>The first entry of the largest fan-out, when it is positive.\<close>

definition path_bottleneck :: "lib \<Rightarrow> criticalPathEntry list \<Rightarrow> (string \<times> string \<times> int) option" where
  "path_bottleneck L path = snd (foldl (\<lambda>(maxFanOut, b) en.
     if cp_fanOut en > maxFanOut
     then (cp_fanOut en, Some (uuid_String L (cp_id en), cp_title en, cp_fanOut en))
     else (maxFanOut, b)) (0, None) path)"

definition critical_path_response :: "lib \<Rightarrow> criticalPathEntry list \<Rightarrow> pb_critical_path" where
  "critical_path_response L path =
    \<lparr>pcp_Path = map (\<lambda>(k, en). path_node L k en) (List.enumerate 0 path),
     pcp_TotalDepth = int32 (int (length path)), pcp_Bottleneck = path_bottleneck L path\<rparr>"

text \<open>The identifiers the searches start from: a root, or every task that is not closed.\<close>

definition start_ids :: "lib \<Rightarrow> bool \<Rightarrow> string option \<Rightarrow> uuid \<Rightarrow> db \<Rightarrow> code + uuid list" where
  "start_ids L nf root cid d =
    (case root of
       Some s \<Rightarrow> thenE (parse_id L s) (\<lambda>i.
         thenE (with_code storeErr (GetTask i d)) (\<lambda>t. Inr [t_id (e_task t)]))
     | None \<Rightarrow> thenE (load_open_tasks nf cid d) (\<lambda>ts. Inr (map (\<lambda>t. t_id (e_task t)) ts)))"

definition longest_path :: "db \<Rightarrow> uuid list \<Rightarrow> criticalPathEntry list" where
  "longest_path d ids = longest_of (map (findLongestBlocksChain d 0 []) ids)"

definition critical_path_direct ::
  "lib \<Rightarrow> bool \<Rightarrow> string option \<Rightarrow> uuid \<Rightarrow> db \<Rightarrow> code + pb_critical_path" where
  "critical_path_direct L nf root cid d =
    thenE (start_ids L nf root cid d) (\<lambda>ids. Inr (critical_path_response L (longest_path d ids)))"

definition srv_GetCriticalPath ::
  "lib \<Rightarrow> env \<Rightarrow> bool \<Rightarrow> pool option \<Rightarrow> ctx \<Rightarrow> string \<Rightarrow> string option \<Rightarrow> db \<Rightarrow> code + pb_critical_path" where
  "srv_GetCriticalPath L e nf pool c reqCollectionId reqRootTaskId d =
    thenE (RequireScope c ScopeTaskRead) (\<lambda>_.
    thenE (parse_id L reqCollectionId) (\<lambda>cid.
    route_graph L e nf c pool (\<lambda>_. None) (critical_path_direct L nf) reqRootTaskId cid d))"

section \<open>Bottlenecks\<close>

record bottleneckInfo =
  bn_id :: uuid
  bn_title :: string
  bn_stage :: string
  bn_directCount :: nat
  bn_downstreamCount :: nat

definition bottleneck_of :: "db \<Rightarrow> etask \<Rightarrow> bottleneckInfo" where
  "bottleneck_of d et =
    (let t = e_task et in
     \<lparr>bn_id = t_id t, bn_title = t_title t, bn_stage = stage_str (t_stage t),
      bn_directCount = length (remdups (blocks_targets et)),
      bn_downstreamCount = fst (countDownstream d 0 (t_id t) [t_id t])\<rparr>)"

record pb_bottleneck =
  pbn_Id :: string
  pbn_Name :: string
  pbn_Stage :: int
  pbn_DownstreamCount :: int
  pbn_DirectDependents :: int

definition bottleneck_to_proto :: "lib \<Rightarrow> bottleneckInfo \<Rightarrow> pb_bottleneck" where
  "bottleneck_to_proto L b = \<lparr>pbn_Id = uuid_String L (bn_id b), pbn_Name = bn_title b,
     pbn_Stage = stageToProto (stage_of_str (bn_stage b)),
     pbn_DownstreamCount = int32 (int (bn_downstreamCount b)),
     pbn_DirectDependents = int32 (int (bn_directCount b))\<rparr>"

definition bottlenecks_direct :: "lib \<Rightarrow> bool \<Rightarrow> int \<Rightarrow> uuid \<Rightarrow> db \<Rightarrow> code + pb_bottleneck list" where
  "bottlenecks_direct L nf reqLimit cid d =
    thenE (load_open_tasks nf cid d) (\<lambda>tasks.
    let limit = (if reqLimit \<le> 0 then 10 else reqLimit);
        bs = exchange_sort bn_downstreamCount
          (map (bottleneck_of d) (filter (\<lambda>et. blocks_targets et \<noteq> []) tasks)) in
    Inr (map (bottleneck_to_proto L) (if limit < int (length bs) then take (nat limit) bs else bs)))"

definition srv_GetBottlenecks ::
  "lib \<Rightarrow> env \<Rightarrow> bool \<Rightarrow> pool option \<Rightarrow> ctx \<Rightarrow> string \<Rightarrow> int \<Rightarrow> db \<Rightarrow> code + pb_bottleneck list" where
  "srv_GetBottlenecks L e nf pool c reqCollectionId reqLimit d =
    thenE (RequireScope c ScopeTaskRead) (\<lambda>_.
    thenE (parse_id L reqCollectionId) (\<lambda>cid.
    route_graph L e nf c pool id (bottlenecks_direct L nf) reqLimit cid d))"

end
