(* ===== verification/FT_GraphProps.thy ===== *)
theory FT_GraphProps
  imports FT_Graph
begin

text \<open>
  Properties of the graph handlers: the critical path is a longest chain of blocks, the
  dependency tree is the depth-first tree of the graph and complete when it is small, the
  bottlenecks are counted and ordered as they say.
\<close>

section \<open>The tasks that are not closed\<close>

definition open_phases :: "phase list" where
  "open_phases = [PhaseOpen, PhaseInProgress, PhaseOnHold]"

definition open_in :: "uuid \<Rightarrow> task \<Rightarrow> bool" where
  "open_in cid t \<longleftrightarrow> t_collection t = cid \<and> t_phase t \<in> set open_phases"

definition phase_rows :: "bool \<Rightarrow> uuid \<Rightarrow> db \<Rightarrow> phase \<Rightarrow> task list" where
  "phase_rows nf cid d ph =
    sort_key (order_key nf ByCreated) (filter (\<lambda>t. t_collection t = cid \<and> t_phase t = ph) (d_tasks d))"

definition open_rows :: "bool \<Rightarrow> uuid \<Rightarrow> db \<Rightarrow> task list" where
  "open_rows nf cid d = concat (map (phase_rows nf cid d) open_phases)"

lemma plain_ListTasks:
  "0 < lim \<Longrightarrow> ListTasks nf (plain_list cid (Some ph) lim) d
     = Inr (map (with_edges d) (take (nat lim) (phase_rows nf cid d ph)),
         length (phase_rows nf cid d ph))"
proof -
  have f: "filter (list_preds (plain_list cid (Some ph) lim)) (d_tasks d)
      = filter (\<lambda>t. t_collection t = cid \<and> t_phase t = ph) (d_tasks d)"
    by (rule filter_cong) (auto simp: list_preds_def plain_list_def opt_eq_def)
  assume "0 < lim"
  then show ?thesis
    unfolding ListTasks_def f Let_def
    by (simp add: plain_list_def sort_field_of_def order_rows_def limit_rows_def phase_rows_def)
qed

lemma load_phase_rows:
  "load_phase nf cid d (map (with_edges d) (take maxGraphTasks xs)) ph
    = Inr (map (with_edges d) (take maxGraphTasks (xs @ phase_rows nf cid d ph)))"
proof (cases "maxGraphTasks \<le> length xs")
  case True
  then show ?thesis by (simp add: load_phase_def min_def)
next
  case False
  then have "0 < int maxGraphTasks - int (length xs)" by simp
  from plain_ListTasks [OF this] False show ?thesis
    by (simp add: load_phase_def with_code_def min_def nat_diff_distrib)
qed

lemma load_open_eq:
  "load_open_tasks nf cid d =
    (if maxGraphTasks \<le> length (open_rows nf cid d) then Inl ResourceExhausted
     else Inr (map (with_edges d) (open_rows nf cid d)))"
proof -
  let ?R = "open_rows nf cid d"
  have "foldE (load_phase nf cid d) (map (with_edges d) (take maxGraphTasks [])) open_phases
      = Inr (map (with_edges d) (take maxGraphTasks ?R))"
    unfolding open_phases_def open_rows_def foldE.simps load_phase_rows thenE_simps
    by (simp add: open_phases_def)
  then have "foldE (load_phase nf cid d) [] [PhaseOpen, PhaseInProgress, PhaseOnHold]
      = Inr (map (with_edges d) (take maxGraphTasks ?R))"
    by (simp add: open_phases_def)
  then show ?thesis by (simp add: load_open_tasks_def min_def)
qed

lemma open_rows_set: "set (open_rows nf cid d) = {t \<in> set (d_tasks d). open_in cid t}"
  by (auto simp: open_rows_def open_phases_def phase_rows_def open_in_def)

lemma open_rows_length: "length (open_rows nf cid d) = length (filter (open_in cid) (d_tasks d))"
proof -
  have "length (filter (\<lambda>t. t_collection t = cid \<and> t_phase t = PhaseOpen) ts)
      + (length (filter (\<lambda>t. t_collection t = cid \<and> t_phase t = PhaseInProgress) ts)
      + length (filter (\<lambda>t. t_collection t = cid \<and> t_phase t = PhaseOnHold) ts))
      = length (filter (open_in cid) ts)" for ts
    by (induction ts) (auto simp: open_in_def open_phases_def)
  then show ?thesis by (simp add: open_rows_def open_phases_def phase_rows_def)
qed

text \<open>A query on a native collection that the caller may read.\<close>

definition native_collection :: "uuid \<Rightarrow> db \<Rightarrow> bool" where
  "native_collection cid d \<longleftrightarrow> (\<exists>co. GetCollection cid d = Inr co \<and> co_platform co = PlatformFarmtable)"

lemma route_native:
  "native_collection cid d \<Longrightarrow> may_access c cid \<Longrightarrow>
    route_graph L e nf c pool adapt query req cid d = query req cid d"
  by (auto simp: native_collection_def route_graph_def on_route_def resolveGraphRoute_def with_code_def)

section \<open>Critical path\<close>

lemma map_enumerate_snd: "map (\<lambda>x. f (snd x)) (List.enumerate n xs) = map f xs"
  by (induction xs arbitrary: n) simp_all

lemma path_ids: "map pn_Id (pcp_Path (critical_path_response L path)) = map (uuid_String L) (map cp_id path)"
  by (simp add: critical_path_response_def path_node_def case_prod_beta comp_def
      map_enumerate_snd [of "\<lambda>en. uuid_String L (cp_id en)"])

lemma int32_small: "0 \<le> n \<Longrightarrow> n < 2 ^ 31 \<Longrightarrow> int32 n = n"
  by (simp add: int32_def)

lemma longest_path_chain:
  assumes ok: "db_ok d" and i: "\<And>i. i \<in> set ids \<Longrightarrow> P i"
  defines "p \<equiv> map cp_id (longest_path d ids)"
  shows "blocks_chain d p \<and> distinct p \<and> length p \<le> maxGraphDepth \<and> (p = [] \<or> P (hd p))"
proof -
  have "p = [] \<or> (\<exists>i\<in>set ids. p = map cp_id (findLongestBlocksChain d 0 [] i))"
    using longest_of_mem [of "map (findLongestBlocksChain d 0 []) ids"]
    by (auto simp: p_def longest_path_def)
  then show ?thesis using chain_found [OF ok, of 0 "[]"] i by (fastforce simp: Let_def)
qed

lemma longest_path_ge:
  assumes "i \<in> set ids" and "blocks_chain d (i # q)" and "distinct (i # q)"
    and "length (i # q) \<le> maxGraphDepth"
  shows "length (i # q) \<le> length (longest_path d ids)"
proof -
  have "length (i # q) \<le> length (findLongestBlocksChain d 0 [] i)"
    using assms(2-4) by (intro chain_longest) simp_all
  also have "\<dots> \<le> length (longest_path d ids)"
    unfolding longest_path_def by (rule longest_of_ge) (simp add: assms(1))
  finally show ?thesis .
qed

lemma open_starts:
  "length (filter (open_in cid) (d_tasks d)) < 500 \<Longrightarrow>
     start_ids L nf None cid d = Inr (map t_id (open_rows nf cid d))"
  by (simp add: start_ids_def load_open_eq open_rows_length maxGraphTasks_def comp_def)


text \<open>The example collection by its name.\<close>

lemma ex_native: "uuid_Parse ex_lib ''uu'' = Some 1" "native_collection 1 ex_db"
  by (simp_all add: ex_lib_def native_collection_def GetCollection_def ex_defs)


section \<open>Dependency tree\<close>

lemma clamp_depth_bounds: "1 \<le> clamp_depth n \<and> clamp_depth n \<le> 20"
  by (auto simp: clamp_depth_def Let_def Suc_le_eq)

lemma reach_stored: "db_ok d \<Longrightarrow> i \<in> task_ids d \<Longrightarrow> reach (dep_edges d dir) i \<subseteq> task_ids d"
proof
  fix x assume ok: "db_ok d" and "i \<in> task_ids d" and "x \<in> reach (dep_edges d dir) i"
  from this(3,2) show "x \<in> task_ids d"
    by induction (use dep_edges_stored [OF ok] in \<open>auto simp: dep_edges_def split: if_splits\<close>)
qed

lemma reach_finite: "db_ok d \<Longrightarrow> i \<in> task_ids d \<Longrightarrow> finite (reach (dep_edges d dir) i)"
  by (rule finite_subset [OF reach_stored]) (simp_all add: task_ids_def)

lemma inj_uuid_String: "uuid_laws L \<Longrightarrow> inj (uuid_String L)"
  by (rule inj_on_inverseI [of _ "\<lambda>s. the (uuid_Parse L s)"]) (simp add: uuid_laws_def)

text \<open>
  C29. \<open>GetDependencyTree\<close> returns for every stored task a caller may read: a tree of at most
  20 levels below its root whose edges are rows of the dependency graph, in which no task
  stands twice. When no more tasks are connected with the root than the depth asked for, the
  tree holds all of them.
\<close>

theorem dependency_tree:
  assumes ok: "db_ok d" and laws: "uuid_laws L" and read: "grants c ScopeTaskRead"
    and root: "uuid_Parse L s = Some i" "get_task i d = Some t" "may_access c (t_collection t)"
  shows "\<exists>node. srv_GetDependencyTree L e c s n dir d = Inr (Some node)
    \<and> dep_tree L d (clamp_depth n) i node \<and> clamp_depth n \<le> 20
    \<and> distinct (tree_ids node) \<and> length (tree_ids node) \<le> length (d_tasks d)
    \<and> (let related = reach (dep_edges d (if dir = 0 then 3 else dir)) i in
        set (tree_ids node) \<subseteq> uuid_String L ` related
        \<and> (card related \<le> Suc (clamp_depth n) \<longrightarrow> set (tree_ids node) = uuid_String L ` related))"
proof -
  let ?dir = "if dir = 0 then 3 else dir" and ?m = "clamp_depth n"
  let ?R = "reach (dep_edges d ?dir) i"
  have stored: "i \<in> task_ids d" using root(2) get_task_ids by blast
  obtain x where x: "buildDependencyNode L e d ?dir ?m 0 i [] = Inr (x, visited_after d ?dir ?m 0 [i] [])"
    "built L d ?dir ?m 0 [i] [] (opt_cons x [])"
    using build_nodes_ok(1) [OF ok stored] by blast
  obtain k where k: "?m = Suc k" using clamp_depth_bounds [of n] by (cases ?m) auto
  let ?v = "dfs (dep_edges d ?dir) k (dep_edges d ?dir i) [i]"
  have v: "visited_after d ?dir ?m 0 [i] [] = ?v" by (simp add: visited_after_def k)
  have ids: "map (uuid_String L) ?v = rev (concat (map tree_ids (opt_cons x [])))"
    using x(2) by (simp add: built_def v)
  have "?v \<noteq> []" using dfs_subset [of "[i]" "dep_edges d ?dir" k "dep_edges d ?dir i"] by auto
  then obtain node where node: "x = Some node" using ids by (cases x) (auto simp: opt_cons_def)
  have ids': "tree_ids node = rev (map (uuid_String L) ?v)" using ids node by (simp add: opt_cons_def)
  have "srv_GetDependencyTree L e c s n dir d = Inr (Some node)"
    using read root x(1) node
    by (simp add: srv_GetDependencyTree_def parse_id_def RequireTaskAccess_def GetTask_def
        getTaskWithEdges_def with_code_def Let_def split del: if_split)
  moreover have "dep_tree L d ?m i node" using x(2) node by (simp add: built_def opt_cons_def)
  moreover have dist: "distinct ?v" by (rule dfs_distinct) simp
  then have "distinct (tree_ids node)"
    using inj_uuid_String [OF laws] by (simp add: ids' distinct_map inj_on_subset)
  moreover have sub: "set ?v \<subseteq> ?R"
    using dfs_within by (fastforce intro: reach.intros within_reach [OF _ reach.step [OF reach.root]])
  then have "length (tree_ids node) \<le> length (d_tasks d)"
  proof -
    have "length (tree_ids node) = card (set ?v)" using dist by (simp add: ids' distinct_card)
    also have "\<dots> \<le> card (task_ids d)"
      by (rule card_mono [OF _ subset_trans [OF sub reach_stored [OF ok stored]]]) (simp add: task_ids_def)
    also have "\<dots> \<le> length (d_tasks d)"
      using card_length [of "map t_id (d_tasks d)"] by (simp add: task_ids_def)
    finally show ?thesis .
  qed
  moreover have "set ?v = ?R" if "card ?R \<le> Suc ?m"
    using that reach_finite [OF ok stored] by (intro dfs_reach) (simp_all add: k)
  ultimately show ?thesis
    using clamp_depth_bounds [of n] sub
    by (intro exI [of _ node]) (simp add: ids' Let_def image_mono split del: if_split)
qed

theorem dependency_tree_witness:
  "\<exists>node. srv_GetDependencyTree ex_lib ex_env open_access_ctx (replicate 11 CHR ''u'') 0 2 ex_db = Inr (Some node)
     \<and> length (tree_ids node) \<le> 4 \<and> distinct (tree_ids node)"
proof -
  have "uuid_Parse ex_lib (replicate 11 CHR ''u'') = Some 10" by (simp add: ex_lib_def)
  from dependency_tree [OF ex_db_ok ex_lib_laws open_access_may(1) this ex_get10 open_access_may(2),
      of ex_env 0 2]
  show ?thesis
  proof (elim exE conjE)
    fix node
    assume "srv_GetDependencyTree ex_lib ex_env open_access_ctx (replicate 11 CHR ''u'') 0 2 ex_db = Inr (Some node)"
      and "distinct (tree_ids node)" and "length (tree_ids node) \<le> length (d_tasks ex_db)"
    then show ?thesis by (auto simp: ex_db_def)
  qed
qed

section \<open>Bottlenecks\<close>

lemma downstream_bound:
  assumes "db_ok d" and "i \<in> task_ids d"
  shows "fst (countDownstream d 0 i [i]) \<le> card (reach (blocks_of d) i) - 1
    \<and> (card (reach (blocks_of d) i) \<le> 51 \<longrightarrow>
        fst (countDownstream d 0 i [i]) = card (reach (blocks_of d) i) - 1)"
proof -
  let ?v = "dfs (blocks_of d) 49 (blocks_of d i) [i]" and ?R = "reach (blocks_of d) i"
  have edges: "dep_edges d 2 = blocks_of d" by (simp add: fun_eq_iff dep_edges_def goes_down_def goes_up_def)
  have fin: "finite ?R" using reach_finite [OF assms, of 2] by (simp add: edges)
  have "distinct ?v" by (rule dfs_distinct) simp
  then have count: "fst (countDownstream d 0 i [i]) = card (set ?v) - 1"
    by (simp add: count_dfs(1) [where depth = 0] maxGraphDepth_def distinct_card)
  have "set ?v \<subseteq> ?R"
    using dfs_within by (fastforce intro: reach.intros within_reach [OF _ reach.step [OF reach.root]])
  then have "card (set ?v) \<le> card ?R" using fin by (rule card_mono [rotated])
  moreover have "set ?v = ?R" if "card ?R \<le> 51"
    using fin that by (intro dfs_reach) simp_all
  ultimately show ?thesis by (simp add: count)
qed

definition bottleneck_limit :: "int \<Rightarrow> nat" where
  "bottleneck_limit n = (if n \<le> 0 then 10 else nat n)"

lemma take_limit:
  "(if (if n \<le> 0 then 10 else n) < int (length bs) then take (nat (if n \<le> 0 then 10 else n)) bs else bs)
    = take (bottleneck_limit n) bs"
  by (auto simp: bottleneck_limit_def)

lemma bottleneck_of_row:
  assumes ok: "db_ok d" and t: "t \<in> set (d_tasks d)"
  defines "R \<equiv> reach (blocks_of d) (t_id t)"
  shows "bn_id (bottleneck_of d (with_edges d t)) = t_id t
    \<and> blocks_targets (with_edges d t) = blocks_of d (t_id t)
    \<and> bn_directCount (bottleneck_of d (with_edges d t)) = card (set (blocks_of d (t_id t)))
    \<and> bn_downstreamCount (bottleneck_of d (with_edges d t)) \<le> card R - 1
    \<and> (card R \<le> 51 \<longrightarrow> bn_downstreamCount (bottleneck_of d (with_edges d t)) = card R - 1)"
proof -
  have "get_task (t_id t) d = Some t" using ok t by (simp add: get_task_iff)
  then have b: "blocks_targets (with_edges d t) = blocks_of d (t_id t)"
    by (simp add: blocks_of_def GetTask_def getTaskWithEdges_def)
  have "t_id t \<in> task_ids d" using t by (auto simp: task_ids_def)
  from downstream_bound [OF ok this] b show ?thesis
    by (simp add: bottleneck_of_def Let_def R_def length_remdups_card_conv)
qed

text \<open>
  \<open>GetBottlenecks\<close> ranks: for a native collection with fewer than 500 tasks that are not
  closed, it returns tasks of these that block others, at most as many as asked for, with the
  number of tasks they block directly; the downstream counts fall along the list, a task that
  is left out has no larger one, and a count never exceeds the number of tasks that can be
  reached along the blocks and is that number when no more than 50 can.
\<close>

theorem bottlenecks_ranked:
  assumes ok: "db_ok d" and may: "grants c ScopeTaskRead" "may_access c cid"
    and cid: "uuid_Parse L s = Some cid" "native_collection cid d"
    and few: "length (filter (open_in cid) (d_tasks d)) < 500"
  shows "\<exists>bs. srv_GetBottlenecks L e nf pool c s n d = Inr (map (bottleneck_to_proto L) bs)
    \<and> length bs \<le> bottleneck_limit n
    \<and> sorted_wrt (\<lambda>a b. bn_downstreamCount b \<le> bn_downstreamCount a) bs
    \<and> (\<forall>b\<in>set bs. \<exists>t\<in>set (d_tasks d). open_in cid t \<and> bn_id b = t_id t \<and> blocks_of d (t_id t) \<noteq> []
         \<and> bn_directCount b = card (set (blocks_of d (t_id t)))
         \<and> bn_downstreamCount b \<le> card (reach (blocks_of d) (t_id t)) - 1
         \<and> (card (reach (blocks_of d) (t_id t)) \<le> 51 \<longrightarrow>
              bn_downstreamCount b = card (reach (blocks_of d) (t_id t)) - 1))
    \<and> (\<forall>t\<in>set (d_tasks d). open_in cid t \<longrightarrow> blocks_of d (t_id t) \<noteq> [] \<longrightarrow> t_id t \<notin> bn_id ` set bs \<longrightarrow>
         (\<forall>b\<in>set bs. fst (countDownstream d 0 (t_id t) [t_id t]) \<le> bn_downstreamCount b))"
proof -
  let ?all = "map (bottleneck_of d) (filter (\<lambda>et. blocks_targets et \<noteq> [])
    (map (with_edges d) (open_rows nf cid d)))"
  let ?sorted = "exchange_sort bn_downstreamCount ?all"
  let ?bs = "take (bottleneck_limit n) ?sorted"
  have run: "srv_GetBottlenecks L e nf pool c s n d = Inr (map (bottleneck_to_proto L) ?bs)"
    using may cid few
    by (simp add: srv_GetBottlenecks_def parse_id_def route_native bottlenecks_direct_def Let_def
        load_open_eq open_rows_length maxGraphTasks_def take_limit)
  have elems: "set ?sorted = bottleneck_of d ` with_edges d ` {t \<in> set (d_tasks d). open_in cid t
      \<and> blocks_of d (t_id t) \<noteq> []}"
    unfolding mset_eq_setD [OF exchange_sort_perm]
    using bottleneck_of_row [OF ok] by (auto simp: open_rows_set)
  have sorted: "sorted_wrt (\<lambda>a b. bn_downstreamCount b \<le> bn_downstreamCount a) (?bs @ drop (bottleneck_limit n) ?sorted)"
    by (simp only: append_take_drop_id exchange_sort_sorted)
  have listed: "\<forall>b\<in>set ?bs. \<exists>t\<in>set (d_tasks d). open_in cid t \<and> bn_id b = t_id t \<and> blocks_of d (t_id t) \<noteq> []
         \<and> bn_directCount b = card (set (blocks_of d (t_id t)))
         \<and> bn_downstreamCount b \<le> card (reach (blocks_of d) (t_id t)) - 1
         \<and> (card (reach (blocks_of d) (t_id t)) \<le> 51 \<longrightarrow>
              bn_downstreamCount b = card (reach (blocks_of d) (t_id t)) - 1)"
  proof
    fix b assume "b \<in> set ?bs"
    then have "b \<in> set ?sorted" by (rule in_set_takeD)
    then obtain t where "t \<in> set (d_tasks d)" "open_in cid t" "blocks_of d (t_id t) \<noteq> []"
      "b = bottleneck_of d (with_edges d t)" unfolding elems by blast
    then show "\<exists>t\<in>set (d_tasks d). open_in cid t \<and> bn_id b = t_id t \<and> blocks_of d (t_id t) \<noteq> []
         \<and> bn_directCount b = card (set (blocks_of d (t_id t)))
         \<and> bn_downstreamCount b \<le> card (reach (blocks_of d) (t_id t)) - 1
         \<and> (card (reach (blocks_of d) (t_id t)) \<le> 51 \<longrightarrow>
              bn_downstreamCount b = card (reach (blocks_of d) (t_id t)) - 1)"
      using bottleneck_of_row [OF ok] by blast
  qed
  have "fst (countDownstream d 0 (t_id t) [t_id t]) \<le> bn_downstreamCount b"
    if t: "t \<in> set (d_tasks d)" "open_in cid t" "blocks_of d (t_id t) \<noteq> []" "t_id t \<notin> bn_id ` set ?bs"
      and b: "b \<in> set ?bs" for t b
  proof -
    let ?x = "bottleneck_of d (with_edges d t)"
    have "?x \<in> set ?sorted" unfolding elems using t by blast
    moreover have "?x \<notin> set ?bs" using t(4) bottleneck_of_row [OF ok t(1)] by force
    ultimately have "?x \<in> set (drop (bottleneck_limit n) ?sorted)"
      by (metis Un_iff append_take_drop_id set_append)
    then have "bn_downstreamCount ?x \<le> bn_downstreamCount b"
      using sorted b unfolding sorted_wrt_append by blast
    then show ?thesis by (simp add: bottleneck_of_def Let_def)
  qed
  then show ?thesis
    using run listed sorted unfolding sorted_wrt_append
    by (intro exI [of _ ?bs]) (intro conjI, simp_all)
qed

theorem bottlenecks_ranked_witness:
  "\<exists>bs. srv_GetBottlenecks ex_lib ex_env True None open_access_ctx ''uu'' 1 ex_db
       = Inr (map (bottleneck_to_proto ex_lib) bs) \<and> length bs \<le> 1"
proof -
  have few: "length (filter (open_in 1) (d_tasks ex_db)) < 500" by (simp add: ex_defs)
  from bottlenecks_ranked [OF ex_db_ok open_access_may ex_native few, of ex_env True None 1]
  show ?thesis by (elim exE conjE) (auto simp: bottleneck_limit_def)
qed

section \<open>Collections of other platforms\<close>

lemma colls_add_rel: "add_rel e ty src d tgt = Inr d' \<Longrightarrow> d_colls d' = d_colls d"
  by (auto simp: add_rel_def insert_rel_def drawn_def split: if_splits)

lemma colls_add_rels: "foldE (add_rel e ty src) d tgts = Inr d' \<Longrightarrow> d_colls d' = d_colls d"
  by (induction tgts arbitrary: d) (auto simp: thenE_Inr dest: colls_add_rel)

lemma colls_create_changes: "foldE (create_change e i actor) d cs = Inr d' \<Longrightarrow> d_colls d' = d_colls d"
  by (induction cs arbitrary: d)
    (auto simp: thenE_Inr create_change_def insert_change_def drawn_def split: if_splits)

lemma colls_remove_rels: "d_colls (fold (\<lambda>tgt. delete_rels (Q tgt)) tgts d) = d_colls d"
  by (induction tgts arbitrary: d) (simp_all add: delete_rels_def)

lemma colls_doUpdateTask: "doUpdateTask e i p actor d0 d1 = Inr (et, d') \<Longrightarrow> d_colls d' = d_colls d1"
  by (erule doUpdateTask_run)
    (auto dest!: update_tasks_keeps colls_add_rels colls_create_changes simp: colls_remove_rels)

lemma colls_try_update: "try_update e i p d = Inr d' \<Longrightarrow> d_colls d' = d_colls d"
  by (auto simp: try_update_def thenE_Inr UpdateTask_serial_def UpdateTask_def
      split: sum.splits store_err.splits if_splits dest: colls_doUpdateTask)

lemma colls_relationship: "d_colls (createRelationshipViaUpdate e d r) = d_colls d"
  by (auto simp: createRelationshipViaUpdate_def Let_def colls_try_update
      split: rel_type.split sum.split)

lemma colls_load_rels: "d_colls (fold (load_rel e m) rs d) = d_colls d"
  by (induction rs arbitrary: d)
    (simp_all add: load_rel_def colls_relationship split: option.split)

lemma colls_CreateTask: "CreateTask e p d = Inr (et, d') \<Longrightarrow> d_colls d' = d_colls d"
  by (auto simp: CreateTask_def Let_def thenE_Inr insert_task_def drawn_def split: if_splits
      dest!: colls_add_rels)

lemma colls_load_tasks:
  "foldE (load_task e cid) s ts = Inr s' \<Longrightarrow> d_colls (fst s') = d_colls (fst s)"
  by (induction ts arbitrary: s) (auto simp: thenE_Inr load_task_def dest: colls_CreateTask)

text \<open>The ephemeral store holds the mirror alone, under a new identifier.\<close>

lemma ephemeral_collection:
  assumes "loadEphemeralStore L e nf p cid d = Inr eph" and "d_colls (fst (pool_Get p)) = []"
  shows "ephemeralCollectionID eph = Inr (fresh_uuid e (fst (pool_Get p)))"
proof -
  let ?e0 = "fst (pool_Get p)"
  from assms(1) obtain tasks co e1 e2 m where
    co: "CreateCollection e \<lparr>cc_Name = ''ephemeral-'' @ uuid_String L cid, cc_Description = [],
       cc_Platform = platform_str PlatformFarmtable, cc_RemoteID = [], cc_RemoteData = None\<rparr> ?e0
       = Inr (co, e1)"
    and ts: "foldE (load_task e (co_id co)) (e1, []) tasks = Inr (e2, m)"
    and eph: "eph = fold (load_rel e m) (concat (map e_src tasks)) e2"
    by (auto simp: loadEphemeralStore_def Let_def with_code_def thenE_Inr split: sum.splits)
  have "co_id co = fresh_uuid e ?e0" "d_colls e1 = [co]"
    using co assms(2) by (auto simp: CreateCollection_def Let_def thenE_Inr insert_coll_def drawn_def
        split: if_splits)
  moreover have "d_colls eph = d_colls e1"
    using colls_load_tasks [OF ts] by (simp add: eph colls_load_rels)
  ultimately show ?thesis
    by (simp add: ephemeralCollectionID_def ListCollections_def opt_eq_def keyset_page_def limit_rows_def)
qed

lemma route_refused:
  assumes "\<not> may_access c (fresh_uuid e (fst (pool_Get p)))" and "d_colls (fst (pool_Get p)) = []"
    and "resolveGraphRoute cid d = Inr RouteEphemeral" and "may_access c cid"
    and "loadEphemeralStore L e nf p cid d = Inr eph"
  shows "route_graph L e nf c (Some p) adapt query req cid d = Inl PermissionDenied"
  using assms ephemeral_collection [OF assms(5,2)]
  by (simp add: route_graph_def on_route_def)
    (simp add: RequireCollectionAccess_def may_access_def list_ex_iff)

text \<open>
  A token restricted to collections can run no graph query on a collection of another
  platform, not even on one it names: the second service checks the token against the new
  identifier of the mirror, so the critical path, the bottlenecks, the ready and the blocked
  tasks are all refused with \<open>PermissionDenied\<close>.
\<close>

theorem scoped_token_external_graph:
  assumes scoped: "c_enforced c" "c_collections c \<noteq> []" "cid \<in> set (c_collections c)"
    and new: "fresh_uuid e (fst (pool_Get p)) \<notin> set (c_collections c)"
    and eph: "resolveGraphRoute cid d = Inr RouteEphemeral" "d_colls (fst (pool_Get p)) = []"
      "loadEphemeralStore L e nf p cid d = Inr x"
    and req: "grants c ScopeTaskRead" "uuid_Parse L s = Some cid"
  shows "srv_GetCriticalPath L e nf (Some p) c s root d = Inl PermissionDenied
    \<and> srv_GetBottlenecks L e nf (Some p) c s n d = Inl PermissionDenied
    \<and> (ry_CollectionId r = Some s \<longrightarrow> srv_GetReadyTasks L e nf (Some p) c r d = Inl PermissionDenied)
    \<and> (rb_CollectionId b = Some s \<longrightarrow> srv_GetBlockedTasks L e nf (Some p) c b d = Inl PermissionDenied)"
proof -
  have "may_access c cid" "\<not> may_access c (fresh_uuid e (fst (pool_Get p)))"
    using scoped new by (simp_all add: may_access_def)
  then have refused: "route_graph L e nf c (Some p) adapt query rq cid d = Inl PermissionDenied"
    for adapt :: "'r \<Rightarrow> 'r" and query :: "'r \<Rightarrow> uuid \<Rightarrow> db \<Rightarrow> code + 'a" and rq
    using eph by (intro route_refused) auto
  show ?thesis
    using req by (simp add: srv_GetCriticalPath_def srv_GetBottlenecks_def srv_GetReadyTasks_def
        srv_GetBlockedTasks_def parse_id_def must_name_collection_def refused)
qed

definition ex_github_db :: db where
  "ex_github_db = empty_db\<lparr>d_colls := [ex_coll\<lparr>co_platform := PlatformGithub\<rparr>]\<rparr>"

definition ex_scoped_ctx :: ctx where
  "ex_scoped_ctx = \<lparr>c_user = Some 7, c_enforced = True, c_scopes = [], c_collections = [1]\<rparr>"

theorem scoped_token_external_graph_witness:
  "srv_GetCriticalPath ex_lib ex_env True (Some (NewEphemeralStorePool 5)) ex_scoped_ctx ''uu'' None
     ex_github_db = Inl PermissionDenied"
proof -
  let ?p = "NewEphemeralStorePool 5"
  have pool: "pool_Get ?p = (empty_db, ?p)" by (simp add: pool_Get_def NewEphemeralStorePool_def)
  have route: "resolveGraphRoute 1 ex_github_db = Inr RouteEphemeral"
    by (simp add: resolveGraphRoute_def GetCollection_def with_code_def ex_github_db_def ex_coll_def
        collectionSupportsGraph_def platformGraphDefaults_def)
  obtain x where load: "loadEphemeralStore ex_lib ex_env True ?p 1 ex_github_db = Inr x"
    by (simp add: loadEphemeralStore_def pool ListTasks_def plain_list_def ex_github_db_def
        empty_db_def sort_field_of_def order_rows_def limit_rows_def with_code_def
        CreateCollection_def Let_def insert_coll_def coll_ids_def drawn_def)
  show ?thesis
    by (rule scoped_token_external_graph [THEN conjunct1, OF _ _ _ _ route _ load])
      (simp_all add: ex_scoped_ctx_def pool fresh_uuid_def ex_env_def empty_db_def grants_def ex_lib_def)
qed

end
