(* ===== verification/FT_ServiceProps.thy ===== *)
theory FT_ServiceProps
  imports FT_GraphProps FT_StoreSteps
begin

text \<open>
  The service as a transition system: a step is one successful write RPC of a caller with its
  request context, no other client writing in between. Every step changes only rows the caller
  is authorized for (\<open>authorized\<close>); the locale \<open>rpc_contract\<close> carries what follows for single
  steps to runs, and it is interpreted for the life cycle that agents cannot drive, for the
  collections a token does not name, and for the bounds on names.
\<close>

section \<open>Steps\<close>

inductive rpc_step :: "lib \<Rightarrow> ctx \<Rightarrow> db \<Rightarrow> db \<Rightarrow> bool" for L c where
  create: "srv_CreateTask L e c cr d = Inr (t, evs, d') \<Longrightarrow> rpc_step L c d d'"
| insert_after: "srv_InsertTasksAfter L e c ir d = Inr (ts, evs, d') \<Longrightarrow> rpc_step L c d d'"
| update: "srv_UpdateTask L e c ur d (d, d) (d, d) = Inr (t, evs, d') \<Longrightarrow> rpc_step L c d d'"
| claim: "srv_ClaimTask L e c kr d (d, d, d) (d, d, d) = Inr (t, evs, d') \<Longrightarrow> rpc_step L c d d'"
| close: "srv_CloseTask L e c xr d (d, d) (d, d) = Inr (t, evs, d') \<Longrightarrow> rpc_step L c d d'"
| comment: "srv_AddComment L e c s body d d = Inr (cm, d') \<Longrightarrow> rpc_step L c d d'"
| create_coll: "srv_CreateCollection L e c nr d = Inr (co, d') \<Longrightarrow> rpc_step L c d d'"
| update_coll: "srv_UpdateCollection L e c s nm ds d = Inr (co, d') \<Longrightarrow> rpc_step L c d d'"
| link: "srv_CreateLinkedAccount L x e c qr d = Inr (la, d') \<Longrightarrow> rpc_step L c d d'"
| unlink: "srv_DeleteLinkedAccount L x c s d d = Inr d' \<Longrightarrow> rpc_step L c d d'"

lemma with_code_Inr [ok_elims]: "with_code f r = Inr x \<longleftrightarrow> r = Inr x"
  by (simp add: with_code_def split: sum.split)

section \<open>What a caller may do to a task\<close>

definition name_ok :: "string \<Rightarrow> bool" where
  "name_ok s \<longleftrightarrow> TrimSpace s \<noteq> [] \<and> RuneCountInString s \<le> 512"

definition description_ok :: "string \<Rightarrow> bool" where
  "description_ok s \<longleftrightarrow> RuneCountInString s \<le> 65536"

lemma validateTaskName_Inr: "validateTaskName s = Inr u \<longleftrightarrow> name_ok s"
  by (simp add: validateTaskName_def name_ok_def maxTaskNameLength_def)

lemma validateTaskDescription_Inr: "validateTaskDescription s = Inr u \<longleftrightarrow> description_ok s"
  by (simp add: validateTaskDescription_def description_ok_def maxTaskDescriptionLength_def)

definition may_move :: "ctx \<Rightarrow> stage \<Rightarrow> stage \<Rightarrow> bool" where
  "may_move c s s' \<longleftrightarrow> s' = s \<or> grants c (TransitionScope (stage_str s) (stage_str s'))"

definition new_row_ok :: "ctx \<Rightarrow> task \<Rightarrow> bool" where
  "new_row_ok c t \<longleftrightarrow> may_access c (t_collection t) \<and> may_move c StageTriage (t_stage t)
     \<and> t_stage t \<noteq> StageWorking \<and> name_ok (t_title t) \<and> description_ok (t_description t)"

definition row_change_ok :: "ctx \<Rightarrow> task \<Rightarrow> task \<Rightarrow> bool" where
  "row_change_ok c t t' \<longleftrightarrow> t_collection t' = t_collection t \<and> may_access c (t_collection t)
     \<and> may_move c (t_stage t) (t_stage t')
     \<and> (t_title t' = t_title t \<or> name_ok (t_title t'))
     \<and> (t_description t' = t_description t \<or> description_ok (t_description t'))"

fun row_ok :: "ctx \<Rightarrow> task option \<Rightarrow> task option \<Rightarrow> bool" where
  "row_ok c None None = True"
| "row_ok c None (Some t') = new_row_ok c t'"
| "row_ok c (Some t) None = False"
| "row_ok c (Some t) (Some t') = (t' = t \<or> row_change_ok c t t')"

definition authorized :: "ctx \<Rightarrow> db \<Rightarrow> db \<Rightarrow> bool" where
  "authorized c d d' \<longleftrightarrow> (\<forall>i. row_ok c (get_task i d) (get_task i d'))"

lemma row_ok_refl [simp]: "row_ok c o' o'"
  by (cases o') simp_all

lemma authorized_same: "d_tasks d' = d_tasks d \<Longrightarrow> authorized c d d'"
  unfolding authorized_def by (simp add: get_task_cong [of d' d])

lemma authorized_append:
  assumes "d_tasks d' = d_tasks d @ new" and "\<forall>t\<in>set new. new_row_ok c t"
  shows "authorized c d d'"
  unfolding authorized_def
proof
  fix i
  show "row_ok c (get_task i d) (get_task i d')"
  proof (cases "get_task i d")
    case None
    then have "get_task i d' = find (\<lambda>t. t_id t = i) new"
      using assms(1) by (simp add: get_task_def find_append)
    then show ?thesis
      using None assms(2) by (cases "find (\<lambda>t. t_id t = i) new") (auto dest: find_Some_mem)
  next
    case (Some t)
    then have "get_task i d' = Some t" using assms(1) by (simp add: get_task_def find_append)
    then show ?thesis using Some by simp
  qed
qed

lemma authorized_one:
  assumes "get_task i d = Some t" and "get_task i d' = Some t'" and "row_change_ok c t t'"
    and "\<And>j. j \<noteq> i \<Longrightarrow> get_task j d' = get_task j d"
  shows "authorized c d d'"
  unfolding authorized_def
proof
  fix j show "row_ok c (get_task j d) (get_task j d')" using assms by (cases "j = i") simp_all
qed

text \<open>A change of the version of one accessible row after an authorized step.\<close>

lemma authorized_version:
  assumes "authorized c d d1"
    and u: "update_tasks e v (\<lambda>t. t_id t = a) (\<lambda>t. t\<lparr>t_version := w\<rparr>) d1 = Inr (n, d')"
    and a: "get_task a d = Some t" "may_access c (t_collection t)"
  shows "authorized c d d'"
  unfolding authorized_def
proof
  fix i
  let ?g = "\<lambda>t. t\<lparr>t_version := w, t_id := t_id t, t_collection := t_collection t,
      t_created := t_created t, t_updated := now e\<rparr>"
  have at: "get_task i d' = map_option (\<lambda>t. if t_id t = a then ?g t else t) (get_task i d1)"
    by (rule get_task_update [OF u])
  have i: "row_ok c (get_task i d) (get_task i d1)" using assms(1) by (simp add: authorized_def)
  have new: "new_row_ok c (?g t) = new_row_ok c t" for t by (simp add: new_row_ok_def)
  have ch: "row_change_ok c t (?g t') = row_change_ok c t t'" for t t' by (simp add: row_change_ok_def)
  show "row_ok c (get_task i d) (get_task i d')"
  proof (cases "get_task i d1")
    case None
    then show ?thesis using i at by simp
  next
    case (Some s')
    show ?thesis
    proof (cases "t_id s' = a")
      case True
      then have ia: "i = a" using Some get_task_id by blast
      then have "row_ok c (Some t) (Some s')" using i Some a(1) by simp
      then have "row_change_ok c t s'" using a(2) by (auto simp: row_change_ok_def may_move_def)
      then have "row_change_ok c t (?g s')" unfolding ch .
      moreover have "get_task i d' = Some (?g s')"
        unfolding at Some using True by (simp only: option.map if_True simp_thms)
      ultimately show ?thesis using ia a(1) by (simp only: row_ok.simps simp_thms)
    next
      case False
      then show ?thesis using at Some i by simp
    qed
  qed
qed

section \<open>Every handler is authorized\<close>

lemma CreateTask_row:
  assumes "CreateTask e p d = Inr (et, d')"
  shows "d_tasks d' = d_tasks d @ [new_task e (fresh_uuid e d) p]"
proof -
  from assms obtain d1 d2 where ins: "insert_task (new_task e (fresh_uuid e d) p) (drawn d) = Inr d1"
    and rels: "foldE (add_rel e TypeBlocks (fresh_uuid e d)) d1 (ct_BlocksTaskIDs p) = Inr d2"
      "foldE (add_rel e TypeBlockedBy (fresh_uuid e d)) d2 (ct_BlockedByTaskIDs p) = Inr d'"
    by (auto simp: CreateTask_def Let_def thenE_Inr)
  have "d_tasks d1 = d_tasks d @ [new_task e (fresh_uuid e d) p]"
    using ins by (auto simp: insert_task_def drawn_def split: if_splits)
  then show ?thesis using tasks_add_rels [OF rels(1)] tasks_add_rels [OF rels(2)] by simp
qed

lemma create_stage_Inr:
  assumes "create_stage c v = Inr (st, ph)" and "grants c ScopeTaskWrite"
  shows "may_move c StageTriage st \<and> st \<noteq> StageWorking"
  using assms
  by (auto simp: create_stage_def thenE_Inr Let_def may_move_def RequireScope_Inr
      split: option.splits if_splits)

lemma authorized_create:
  assumes "srv_CreateTask L e c req d = Inr (t, evs, d')"
  shows "authorized c d d'"
proof -
  from assms obtain p et where
    run: "CreateTask e p d = Inr (et, d')"
    and p: "ct_Title p = rc_Name req" "ct_Description p = rc_Description req"
    and checks: "grants c ScopeTaskWrite" "name_ok (rc_Name req)" "description_ok (rc_Description req)"
      "may_access c (ct_CollectionID p)" "create_stage c (rc_Stage req) = Inr (ct_Stage p, ct_Phase p)"
    unfolding srv_CreateTask_def Let_def
    by (clarsimp simp only: thenE_Inr split_paired_Ex prod.case RequireScope_Inr RequireCollectionAccess_Inr
      with_code_Inr validateTaskName_Inr validateTaskDescription_Inr) (rule that, assumption, simp_all)
  show ?thesis
    by (rule authorized_append [OF CreateTask_row [OF run]])
      (use checks p create_stage_Inr [OF checks(5,1)] in \<open>simp add: new_row_ok_def new_task_def\<close>)
qed

text \<open>The rows that \<open>InsertTasksAfter\<close> adds are its steps, in their order.\<close>

lemma insert_steps_rows:
  "foldE (insert_step e coll) s ps = Inr s' \<Longrightarrow>
     \<exists>new. d_tasks (fst s') = d_tasks (fst s) @ new
       \<and> (\<forall>t\<in>set new. \<exists>i. \<exists>p\<in>set ps. t = step_task e i coll p)"
proof (induction ps arbitrary: s)
  case Nil
  then show ?case by simp
next
  case (Cons p ps)
  then obtain s1 where s1: "insert_step e coll s p = Inr s1" "foldE (insert_step e coll) s1 ps = Inr s'"
    by (auto simp: thenE_Inr)
  have "d_tasks (fst s1) = d_tasks (fst s) @ [step_task e (fresh_uuid e (fst s)) coll p]"
    using s1(1) by (auto simp: insert_step_def Let_def thenE_Inr insert_task_def drawn_def split: if_splits)
  with Cons.IH [OF s1(2)] show ?case by fastforce
qed

lemma insert_spec_Inr:
  assumes "mapE (insert_spec coll) steps = Inr ps" and "p \<in> set ps"
  shows "ct_Stage p = StageTriage \<and> name_ok (ct_Title p) \<and> description_ok (ct_Description p)"
proof -
  from assms obtain st where "insert_spec coll st = Inr p"
    unfolding mapE_Inr_iff by (auto simp: list_all2_conv_all_nth in_set_conv_nth)
  then show ?thesis
    by (auto simp: insert_spec_def thenE_Inr validateTaskName_Inr validateTaskDescription_Inr)
qed

lemma chain_tasks: "foldE (createBlocksRelationship e) d sts = Inr d' \<Longrightarrow> d_tasks d' = d_tasks d"
  by (induction sts arbitrary: d)
    (auto simp: thenE_Inr createBlocksRelationship_def dest: tasks_add_rel)

lemma authorized_insert:
  assumes ok: "db_ok d" and run: "srv_InsertTasksAfter L e c req d = Inr (ts, evs, d')"
  shows "authorized c d d'"
proof -
  from run obtain p r where ins: "InsertTasksAfter e p d = Inr (r, d')"
    and acc: "may_access c (it_CollectionID p)"
    and steps: "mapE (insert_spec (it_CollectionID p)) (ri_Steps req) = Inr (it_Steps p)"
    unfolding srv_InsertTasksAfter_def Let_def
    by (clarsimp simp only: thenE_Inr split_paired_Ex prod.case RequireScope_Inr RequireCollectionAccess_Inr
      with_code_Inr) (rule that, assumption, simp_all)
  from ins show ?thesis
  proof (rule InsertTasksAfter_run)
    fix anchor d1 ids d2 d3
    let ?a = "it_AnchorTaskID p" and ?coll = "it_CollectionID p"
    let ?down = "map r_tgt (filter (\<lambda>r. r_src r = ?a \<and> r_type r = TypeBlocks) (d_rels d))"
    let ?d4 = "let down = ?down in if down = [] then d3 else delete_rels (\<lambda>r. r_src r = ?a
      \<and> List.member down (r_tgt r) \<and> r_type r = TypeBlocks) d3"
    assume anchor: "find (\<lambda>t. t_id t = ?a \<and> t_collection t = ?coll) (d_tasks d) = Some anchor"
      and st: "foldE (insert_step e ?coll) (d, []) (it_Steps p) = Inr (d1, ids)"
      and ch: "foldE (createBlocksRelationship e) d1 (zip (butlast (?a # ids)) (tl (?a # ids))) = Inr d2"
        "foldE (createBlocksRelationship e) d2 (map (\<lambda>t. (last ids, t)) ?down) = Inr d3"
      and up: "\<exists>n. update_tasks e True (\<lambda>t. t_id t = ?a)
        (\<lambda>t. t\<lparr>t_version := next_version (t_version anchor)\<rparr>) ?d4 = Inr (n, d')"
    obtain new where new: "d_tasks d1 = d_tasks d @ new"
      "\<forall>t\<in>set new. \<exists>i. \<exists>q\<in>set (it_Steps p). t = step_task e i ?coll q"
      using insert_steps_rows [OF st] by auto
    have "d_tasks ?d4 = d_tasks d @ new"
      using chain_tasks [OF ch(1)] chain_tasks [OF ch(2)] new(1) by (simp add: Let_def delete_rels_def)
    moreover have "\<forall>t\<in>set new. new_row_ok c t"
      using new(2) insert_spec_Inr [OF steps] acc by (fastforce simp: new_row_ok_def step_task_def may_move_def)
    ultimately have one: "authorized c d ?d4" by (rule authorized_append)
    have "get_task ?a d = Some anchor" "t_collection anchor = ?coll"
      using find_Some_mem [OF anchor] ok by (simp_all add: get_task_iff)
    moreover from this acc have "may_access c (t_collection anchor)" by simp
    ultimately show ?thesis using up one by (elim exE) (rule authorized_version)
  qed
qed

lemma update_stage_Inr:
  assumes "update_stage c s v = Inr st" and "grants c ScopeTaskWrite"
  shows "may_move c s (set_if st s)"
  using assms
  by (auto simp: update_stage_def thenE_Inr Let_def may_move_def RequireScope_Inr set_if_def
      split: option.splits if_splits)

lemma check_opt_Inr: "check_opt f v = Inr u \<longleftrightarrow> (\<forall>x. v = Some x \<longrightarrow> f x = Inr ())"
  by (simp add: check_opt_def split: option.split)

lemma update_params_Inr:
  assumes "update_params L c s req = Inr p"
  shows "update_stage c s (ru_Stage req) = Inr (ut_Stage p) \<and> (\<forall>x. ut_Title p = Some x \<longrightarrow> name_ok x)
    \<and> (\<forall>x. ut_Description p = Some x \<longrightarrow> description_ok x)"
  using assms unfolding update_params_def Let_def
  by (clarsimp simp: thenE_Inr check_opt_Inr validateTaskName_Inr validateTaskDescription_Inr)

lemma row_change_update:
  assumes "update_params L c (t_stage t) req = Inr p" and "grants c ScopeTaskWrite"
    and "may_access c (t_collection t)"
  shows "row_change_ok c t ((update_row p old t)\<lparr>t_updated := n\<rparr>)"
  using update_params_Inr [OF assms(1)] assms(3) update_stage_Inr [OF _ assms(2), of "t_stage t" "ru_Stage req"]
  by (auto simp: row_change_ok_def update_row_def set_if_def split: option.split)

lemma UpdateTask_run:
  "UpdateTask e i p a (d, d) (d, d) = Inr (et, d') \<Longrightarrow> doUpdateTask e i p a d d = Inr (et, d')"
  by (auto simp: UpdateTask_def split: sum.splits store_err.splits if_splits)

lemma GetTask_Inr: "GetTask i d = Inr et \<longleftrightarrow> (\<exists>t. get_task i d = Some t \<and> et = with_edges d t)"
  by (simp add: GetTask_def getTaskWithEdges_Inr)

lemma authorized_update:
  assumes ok: "db_ok d" and run: "srv_UpdateTask L e c req d (d, d) (d, d) = Inr (t, evs, d')"
  shows "authorized c d d'"
proof -
  from run obtain i p et old where w: "grants c ScopeTaskWrite"
    and old: "get_task i d = Some old" and acc: "may_access c (t_collection old)"
    and p: "update_params L c (t_stage old) req = Inr p"
    and up: "doUpdateTask e i p (actor_of c) d d = Inr (et, d')"
    unfolding srv_UpdateTask_def Let_def
    by (auto simp: thenE_Inr RequireScope_Inr RequireCollectionAccess_Inr with_code_Inr GetTask_Inr
        dest!: UpdateTask_run)
  from up ok show ?thesis
  proof (rule doUpdateTask_effect)
    fix old' t'
    assume "get_task i d = Some t'" "get_task i d' = Some ((update_row p old' t')\<lparr>t_updated := now e\<rparr>)"
      and "\<And>j. j \<noteq> i \<Longrightarrow> get_task j d' = get_task j d"
    then show ?thesis
      using old row_change_update [OF p w acc, of _ old'] by (intro authorized_one [of i d t']) auto
  qed
qed

lemma authorized_claim:
  assumes ok: "db_ok d" and run: "srv_ClaimTask L e c req d (d, d, d) (d, d, d) = Inr (t, evs, d')"
  shows "authorized c d d'"
proof -
  from run obtain i v old et where w: "grants c ScopeTaskClaim"
    and old: "get_task i d = Some old" and acc: "may_access c (t_collection old)"
    and cl: "ClaimTask e i (actor_of c) v (d, d, d) (d, d, d) = Inr (et, d')"
    unfolding srv_ClaimTask_def Let_def
    by (auto simp: thenE_Inr RequireScope_Inr RequireCollectionAccess_Inr with_code_Inr GetTask_Inr
        split: if_splits)
  then obtain b where "claim_attempt e i (actor_of c) v b (d, d, d) = Some (Inr (et, d'))"
    by (auto simp: ClaimTask_def split: option.splits)
  from this ok show ?thesis
  proof (rule claim_attempt_effect)
    fix old' t'
    assume t': "get_task i d = Some t'" and g: "claim_guard e i v old' d t'"
      and a: "get_task i d' = Some ((claim_row (actor_of c) old' t')\<lparr>t_updated := now e\<rparr>)"
      and o: "\<And>j. j \<noteq> i \<Longrightarrow> get_task j d' = get_task j d"
    have "may_move c (t_stage t') StageWorking"
      using g w TransitionScope_stages [of StageAccepted StageWorking]
      by (simp add: claim_guard_def may_move_def declared_normal declared_stage_def IsTerminalStage_def)
    then have "row_change_ok c t' ((claim_row (actor_of c) old' t')\<lparr>t_updated := now e\<rparr>)"
      using old t' acc by (simp add: row_change_ok_def claim_row_def)
    with t' a show ?thesis using o by (rule authorized_one)
  qed
qed

lemma authorized_close:
  assumes ok: "db_ok d" "stages_ok d"
    and run: "srv_CloseTask L e c req d (d, d) (d, d) = Inr (t, evs, d')"
  shows "authorized c d d'"
proof -
  from run obtain i st v old et where w: "grants c ScopeTaskClose"
    and old: "get_task i d = Some old" and acc: "may_access c (t_collection old)"
    and cl: "CloseTask e i st v (actor_of c) (d, d) (d, d) = Inr (et, d')"
    unfolding srv_CloseTask_def Let_def
    by (auto simp: thenE_Inr RequireScope_Inr RequireCollectionAccess_Inr with_code_Inr GetTask_Inr)
  then obtain b where at: "close_attempt e i st v (actor_of c) b (d, d) = Some (Inr (et, d'))"
    and st: "st \<in> {StageCompleted, StageWontFix, StageDuplicate, StageCancelled}"
    by (auto simp: CloseTask_def split: option.splits if_splits)
  from at ok(1) show ?thesis
  proof (rule close_attempt_effect)
    fix old' t'
    assume t': "get_task i d = Some t'"
      and a: "get_task i d' = Some ((close_row e st old' t')\<lparr>t_updated := now e\<rparr>)"
      and o: "\<And>j. j \<noteq> i \<Longrightarrow> get_task j d' = get_task j d"
    have "normal_stage (t_stage t')"
      using ok(2) get_task_Some [OF t'] by (auto simp: stages_ok_def declared_normal)
    moreover have "normal_stage st" "IsTerminalStage st"
      using st by (auto simp: declared_normal declared_stage_def IsTerminalStage_def)
    ultimately have "may_move c (t_stage t') st"
      using w TransitionScope_stages [of "t_stage t'" st] by (auto simp: may_move_def)
    then have "row_change_ok c t' ((close_row e st old' t')\<lparr>t_updated := now e\<rparr>)"
      using old t' acc by (simp add: row_change_ok_def close_row_def)
    with t' a show ?thesis using o by (rule authorized_one)
  qed
qed

lemma rows_only:
  "AddComment e p1 d = Inr (cm, d') \<Longrightarrow> d_tasks d' = d_tasks d"
  "CreateCollection e p2 d = Inr (co, d') \<Longrightarrow> d_tasks d' = d_tasks d"
  "UpdateCollection e i p3 d = Inr (co, d') \<Longrightarrow> d_tasks d' = d_tasks d"
  "CreateLinkedAccount x e p4 d = Inr (la, d') \<Longrightarrow> d_tasks d' = d_tasks d"
  "DeleteLinkedAccount i d = Inr d' \<Longrightarrow> d_tasks d' = d_tasks d"
  by (auto simp: AddComment_def CreateCollection_def UpdateCollection_def CreateLinkedAccount_def
      DeleteLinkedAccount_def Let_def thenE_Inr insert_comment_def insert_coll_def update_coll_def
      insert_account_def delete_account_def drawn_def split: if_splits option.splits)

lemma rpc_authorized:
  assumes "rpc_step L c d d'" and "db_ok d" and "stages_ok d"
  shows "authorized c d d'"
  using assms
proof cases
  case (comment e s body cm)
  then show ?thesis
    by (auto simp: srv_AddComment_def thenE_Inr with_code_Inr intro: authorized_same dest: rows_only)
next
  case (create_coll e nr co)
  then show ?thesis
    by (auto simp: srv_CreateCollection_def thenE_Inr with_code_Inr Let_def intro: authorized_same
        dest: rows_only split: if_splits)
next
  case (update_coll e s nm ds co)
  then show ?thesis
    by (auto simp: srv_UpdateCollection_def thenE_Inr with_code_Inr intro: authorized_same
        dest: rows_only split: if_splits)
next
  case (link e x qr la)
  then show ?thesis
    by (auto simp: srv_CreateLinkedAccount_def thenE_Inr with_code_Inr Let_def intro: authorized_same
        dest: rows_only split: if_splits)
next
  case (unlink x s)
  then show ?thesis
    by (auto simp: srv_DeleteLinkedAccount_def thenE_Inr with_code_Inr intro: authorized_same
        dest: rows_only)
qed (use assms(2,3) in \<open>auto dest: authorized_create authorized_insert authorized_update
      authorized_claim authorized_close\<close>)

context db_step
begin

lemma R_rpc_step: "rpc_step L c d d' \<Longrightarrow> R d d'"
proof (induction rule: rpc_step.induct)
  case (create e cr d t evs d')
  then show ?case by (auto simp: srv_CreateTask_def thenE_Inr with_code_Inr Let_def split: prod.splits
      dest: R_CreateTask)
next
  case (insert_after e ir d ts evs d')
  then show ?case by (auto simp: srv_InsertTasksAfter_def thenE_Inr with_code_Inr Let_def split: if_splits
      dest: R_InsertTasksAfter)
next
  case (update e ur d t evs d')
  then show ?case by (auto simp: srv_UpdateTask_def thenE_Inr with_code_Inr Let_def dest: R_UpdateTask)
next
  case (claim e kr d t evs d')
  then show ?case by (auto simp: srv_ClaimTask_def thenE_Inr with_code_Inr Let_def dest: R_ClaimTask
      split: if_splits)
next
  case (close e xr d t evs d')
  then show ?case by (auto simp: srv_CloseTask_def thenE_Inr with_code_Inr Let_def dest: R_CloseTask)
next
  case (comment e s body d cm d')
  then show ?case by (auto simp: srv_AddComment_def thenE_Inr with_code_Inr dest: R_AddComment)
next
  case (create_coll e nr d co d')
  then show ?case by (auto simp: srv_CreateCollection_def thenE_Inr with_code_Inr Let_def
      dest: R_CreateCollection split: if_splits)
next
  case (update_coll e s nm ds d co d')
  then show ?case by (auto simp: srv_UpdateCollection_def thenE_Inr with_code_Inr
      intro: R_refl dest: R_UpdateCollection split: if_splits)
next
  case (link e x qr d la d')
  then show ?case by (auto simp: srv_CreateLinkedAccount_def thenE_Inr with_code_Inr Let_def
      dest: R_CreateLinkedAccount split: if_splits)
next
  case (unlink x s d d')
  then show ?case by (auto simp: srv_DeleteLinkedAccount_def thenE_Inr with_code_Inr dest: R_DeleteLinkedAccount)
qed

end

section \<open>From steps to runs\<close>

text \<open>A run of the service: every step is an RPC of some caller that satisfies \<open>ok\<close>.\<close>

definition service_run :: "lib \<Rightarrow> (ctx \<Rightarrow> bool) \<Rightarrow> db \<Rightarrow> db \<Rightarrow> bool" where
  "service_run L ok = (\<lambda>d d'. \<exists>c. ok c \<and> rpc_step L c d d')\<^sup>*\<^sup>*"

locale rpc_contract =
  fixes ok :: "ctx \<Rightarrow> bool" and R :: "db \<Rightarrow> db \<Rightarrow> bool"
  assumes R_refl: "R d d"
    and R_trans: "R d1 d2 \<Longrightarrow> R d2 d3 \<Longrightarrow> R d1 d3"
    and R_authorized: "ok c \<Longrightarrow> authorized c d d' \<Longrightarrow> stages_ok d \<Longrightarrow> stages_ok d' \<Longrightarrow> R d d'"
begin

lemma R_service_run:
  assumes "service_run L ok d d'" and "db_ok d" and "stages_ok d"
  shows "R d d' \<and> db_ok d' \<and> stages_ok d'"
  using assms(1) unfolding service_run_def
proof (induction rule: rtranclp_induct)
  case base
  then show ?case using assms(2,3) R_refl by blast
next
  case (step d1 d2)
  then obtain c where c: "ok c" "rpc_step L c d1 d2" by blast
  then have ok2: "db_ok d2" "stages_ok d2"
    using step.IH integrity.R_rpc_step declared.R_rpc_step by blast+
  moreover have "authorized c d1 d2" using rpc_authorized [OF c(2)] step.IH by blast
  ultimately show ?case using step.IH R_trans R_authorized [OF c(1)] by blast
qed

end

text \<open>A run for the witnesses: one task is created in the collection of the example.\<close>

definition ex_create_req :: CreateTaskRequest where
  "ex_create_req = \<lparr>rc_Name = ''n'', rc_CollectionId = ''uu'', rc_Description = [],
     rc_AcceptanceCriteria = None, rc_Stage = None, rc_Priority = None, rc_Type = [],
     rc_AssigneeIds = [], rc_Labels = [], rc_ParentTaskId = None, rc_DueDate = None,
     rc_StartDate = None, rc_HoldReason = None, rc_Rank = None, rc_BlocksTaskIds = [],
     rc_BlockedByTaskIds = [], rc_Repo = [], rc_Branch = []\<rparr>"

definition ex_after :: "db \<Rightarrow> db" where
  "ex_after d = (drawn d)\<lparr>d_tasks := d_tasks d @ [\<lparr>t_id = 1000, t_title = ''n'',
     t_description = [], t_collection = 1, t_phase = PhaseOpen, t_stage = StageTriage,
     t_hold = None, t_native_label = stage_str StageTriage, t_type = [], t_priority = None,
     t_rank = None, t_assignee = None, t_parent = None, t_start = None, t_due = None,
     t_closed = None, t_created = 5000000000, t_updated = 5000000000, t_acceptance = None,
     t_remote = None, t_labels = [], t_repo = [], t_branch = [], t_ci = None, t_prs = [],
     t_version = ''1''\<rparr>]\<rparr>"

text \<open>The example with a second collection that holds one task.\<close>

definition ex_two_db :: db where
  "ex_two_db = ex_db\<lparr>d_colls := [ex_coll, ex_coll\<lparr>co_id := 2, co_name := ''d''\<rparr>],
     d_tasks := d_tasks ex_db @ [ex10\<lparr>t_id := 14, t_collection := 2\<rparr>]\<rparr>"

lemma ex_two_ok: "db_ok ex_two_db" "stages_ok ex_two_db"
  by (simp_all add: ex_two_db_def db_ok_def tasks_ok_def rels_ok_def changes_ok_def comments_ok_def
      colls_ok_def users_ok_def tokens_ok_def accounts_ok_def task_ids_def coll_ids_def user_ids_def
      rel_key_def ex_defs stages_ok_def declared_stage_def)

lemma ex_stages_ok: "stages_ok ex_db"
  by (simp add: stages_ok_def ex_db_def declared_stage_def)

definition ex_create_params :: CreateTaskParams where
  "ex_create_params = \<lparr>ct_Title = ''n'', ct_Description = [], ct_CollectionID = 1,
     ct_Phase = PhaseOpen, ct_Stage = StageTriage, ct_HoldReason = None,
     ct_NativeLabel = stage_str StageTriage, ct_Type = [], ct_Priority = None, ct_Rank = None,
     ct_AssigneeID = None, ct_ParentTaskID = None, ct_AcceptanceCriteria = None,
     ct_RemoteData = None, ct_Labels = [], ct_StartDate = None, ct_DueDate = None,
     ct_BlocksTaskIDs = [], ct_BlockedByTaskIDs = [], ct_Repo = [], ct_Branch = []\<rparr>"

lemma ex_create_store:
  assumes "d \<in> {ex_db, ex_two_db}"
  shows "\<exists>et. CreateTask ex_env ex_create_params d = Inr (et, ex_after d)"
  using assms
  by (auto simp: CreateTask_def ex_create_params_def ex_after_def ex_defs ex_two_db_def Let_def
      new_task_def fresh_uuid_def drawn_def insert_task_def task_ids_def coll_ids_def user_ids_def
      validateTaskStateForWrite_def IsTerminalStage_def declared_stage_def getTaskWithEdges_def
      get_task_def)

lemma ex_texts: "name_ok ''n''" "name_ok ''a''" "description_ok []"
  by (simp_all add: name_ok_def description_ok_def TrimSpace_Nil_iff RuneCountInString_def runes_def
      DecodeRune_def IsSpace_def in_range_def)

lemma ex_create_step:
  assumes "RequireIdentity c = Inr u" and "grants c ScopeTaskWrite" and "may_access c 1"
    and d: "d \<in> {ex_db, ex_two_db}"
  shows "rpc_step ex_lib c d (ex_after d)"
proof -
  from ex_create_store [OF d] obtain et where et: "CreateTask ex_env ex_create_params d = Inr (et, ex_after d)" ..
  have names: "validateTaskName ''n'' = Inr ()" "validateTaskDescription [] = Inr ()"
    using ex_texts by (simp_all add: validateTaskName_Inr validateTaskDescription_Inr)
  have "\<exists>t evs. srv_CreateTask ex_lib ex_env c ex_create_req d = Inr (t, evs, ex_after d)"
    using assms(1-3) et names
    by (simp add: srv_CreateTask_def ex_create_req_def parse_id_def create_stage_def read_enum_def
        first_id_def parse_opt_id_def read_hold_def read_enum_unless_0_def with_code_def
        ex_lib_def Let_def ex_create_params_def)
  then show ?thesis by (auto intro: rpc_step.create)
qed

lemma ex_run:
  assumes "ok c" and "RequireIdentity c = Inr u" and "grants c ScopeTaskWrite" and "may_access c 1"
    and "d \<in> {ex_db, ex_two_db}"
  shows "service_run ex_lib ok d (ex_after d)"
  unfolding service_run_def using ex_create_step [OF assms(2-5)] assms(1) by blast

definition ex_agent_ctx :: ctx where
  "ex_agent_ctx = \<lparr>c_user = Some 7, c_enforced = True, c_scopes = DefaultScopesForUserType ''agent'',
     c_collections = []\<rparr>"

section \<open>The life cycle is out of reach of agents\<close>

text \<open>A token with the default scopes of an agent, on a server that enforces tokens.\<close>

definition agent_ctx :: "ctx \<Rightarrow> bool" where
  "agent_ctx c \<longleftrightarrow> c_enforced c \<and> c_scopes c = DefaultScopesForUserType ''agent''"

text \<open>
  Triage and the closed stages are left and entered by nobody: tasks in them stay in their
  stage, open tasks stay open, and new tasks are in triage.
\<close>

definition settled_kept :: "stage \<Rightarrow> stage \<Rightarrow> bool" where
  "settled_kept s s' \<longleftrightarrow> (s = StageTriage \<or> IsTerminalStage s \<longrightarrow> s' = s)
     \<and> (IsTerminalStage s' \<longrightarrow> IsTerminalStage s)"

lemma settled_kept_refl: "settled_kept s s"
  by (simp add: settled_kept_def)

lemma settled_kept_trans: "settled_kept a b \<Longrightarrow> settled_kept b c \<Longrightarrow> settled_kept a c"
  unfolding settled_kept_def by metis

lemma settled_kept_triage: "settled_kept StageTriage b \<longleftrightarrow> b = StageTriage"
  by (auto simp: settled_kept_def IsTerminalStage_def)

fun stage_kept :: "task option \<Rightarrow> task option \<Rightarrow> bool" where
  "stage_kept None None = True"
| "stage_kept None (Some t') = (t_stage t' = StageTriage)"
| "stage_kept (Some t) None = False"
| "stage_kept (Some t) (Some t') =
    settled_kept (t_stage t) (t_stage t')"

definition stages_kept :: "db \<Rightarrow> db \<Rightarrow> bool" where
  "stages_kept d d' \<longleftrightarrow> (\<forall>i. stage_kept (get_task i d) (get_task i d'))"

lemma stage_kept_refl: "stage_kept x x"
  by (cases x) (simp_all add: settled_kept_refl)

lemma stage_kept_trans: "stage_kept x y \<Longrightarrow> stage_kept y z \<Longrightarrow> stage_kept x z"
  by (cases x; cases y; cases z) (auto simp: settled_kept_triage intro: settled_kept_trans)

lemma agent_grants: "agent_ctx c \<Longrightarrow> \<not> grants c ScopeTaskAccept \<and> \<not> grants c ScopeTaskClose"
  by (simp add: agent_ctx_def grants_def DefaultScopesForUserType_def scope_defs)

lemma agent_moves:
  assumes "agent_ctx c" and "may_move c s s'" and "declared_stage s" and "declared_stage s'" and "s' \<noteq> s"
  shows "s \<noteq> StageTriage \<and> \<not> IsTerminalStage s \<and> \<not> IsTerminalStage s'"
proof -
  have "grants c (TransitionScope (stage_str s) (stage_str s'))"
    using assms(2,5) by (simp add: may_move_def)
  then show ?thesis
    using agent_grants [OF assms(1)] assms(5)
      TransitionScope_stages [OF declared_normal [OF assms(3)] declared_normal [OF assms(4)]]
    by (simp split: if_splits)
qed

lemma stage_kept_authorized:
  assumes "agent_ctx c" and "row_ok c x y"
    and "\<And>t. x = Some t \<Longrightarrow> declared_stage (t_stage t)" and "\<And>t. y = Some t \<Longrightarrow> declared_stage (t_stage t)"
  shows "stage_kept x y"
proof (cases x)
  case None
  then show ?thesis
    using assms agent_moves [OF assms(1), of StageTriage]
    by (cases y) (auto simp: new_row_ok_def declared_stage_def)
next
  case (Some t)
  then obtain t' where t': "y = Some t'" "t' = t \<or> row_change_ok c t t'" using assms(2) by (cases y) auto
  show ?thesis
    using Some t' assms(3,4) agent_moves [OF assms(1), of "t_stage t" "t_stage t'"]
    by (cases "t_stage t' = t_stage t") (auto simp: row_change_ok_def settled_kept_def)
qed

lemma kept_task: "stage_kept (Some t) y \<Longrightarrow> \<exists>t'. y = Some t' \<and> settled_kept (t_stage t) (t_stage t')"
  by (cases y) simp_all

lemma stages_ok_get: "stages_ok d \<Longrightarrow> get_task i d = Some t \<Longrightarrow> declared_stage (t_stage t)"
  using get_task_Some by (fastforce simp: stages_ok_def)

interpretation agents: rpc_contract agent_ctx stages_kept
proof
  show "stages_kept d d" for d by (simp add: stages_kept_def stage_kept_refl)
  show "stages_kept d1 d3" if "stages_kept d1 d2" "stages_kept d2 d3" for d1 d2 d3
    using that stage_kept_trans unfolding stages_kept_def by blast
  show "stages_kept d d'" if "agent_ctx c" "authorized c d d'" "stages_ok d" "stages_ok d'" for c d d'
    using that stage_kept_authorized stages_ok_get unfolding stages_kept_def authorized_def by blast
qed



section \<open>Collections a token does not name\<close>

fun foreign_kept :: "uuid \<Rightarrow> task option \<Rightarrow> task option \<Rightarrow> bool" where
  "foreign_kept cid (Some t) y = ((t_collection t = cid \<longrightarrow> y = Some t)
     \<and> (t_collection t \<noteq> cid \<longrightarrow> (\<exists>t'. y = Some t' \<and> t_collection t' \<noteq> cid)))"
| "foreign_kept cid None y = (\<forall>t'. y = Some t' \<longrightarrow> t_collection t' \<noteq> cid)"

lemma foreign_kept_trans:
  assumes "foreign_kept cid x y" and "foreign_kept cid y z" shows "foreign_kept cid x z"
proof (cases x)
  case None
  show ?thesis
  proof (cases y)
    case None
    then show ?thesis using assms \<open>x = None\<close> by simp
  next
    case (Some t)
    then show ?thesis using assms \<open>x = None\<close> by auto
  qed
next
  case (Some t)
  then show ?thesis using assms by (cases "t_collection t = cid") auto
qed

definition collection_kept :: "uuid \<Rightarrow> db \<Rightarrow> db \<Rightarrow> bool" where
  "collection_kept cid d d' \<longleftrightarrow> (\<forall>i. foreign_kept cid (get_task i d) (get_task i d'))"

interpretation scoped: rpc_contract "\<lambda>c. \<not> may_access c cid" "collection_kept cid" for cid
proof
  show "collection_kept cid d d" for d
    unfolding collection_kept_def
  proof
    fix i show "foreign_kept cid (get_task i d) (get_task i d)" by (cases "get_task i d") simp_all
  qed
  show "collection_kept cid d1 d3" if "collection_kept cid d1 d2" "collection_kept cid d2 d3" for d1 d2 d3
    unfolding collection_kept_def
  proof
    fix i
    have "foreign_kept cid (get_task i d1) (get_task i d2)" "foreign_kept cid (get_task i d2) (get_task i d3)"
      using that by (simp_all add: collection_kept_def)
    then show "foreign_kept cid (get_task i d1) (get_task i d3)" by (rule foreign_kept_trans)
  qed
  show "collection_kept cid d d'" if "\<not> may_access c cid" "authorized c d d'" for c d d'
    unfolding collection_kept_def
  proof
    fix i
    have "row_ok c (get_task i d) (get_task i d')" using that(2) by (simp add: authorized_def)
    then show "foreign_kept cid (get_task i d) (get_task i d')"
      using that(1) by (cases "get_task i d"; cases "get_task i d'") (auto simp: new_row_ok_def row_change_ok_def)
  qed
qed

text \<open>
  C33. Along every run of the service in which no caller may access a collection, the task
  rows of that collection stay exactly as they are, and no task joins it.
\<close>

theorem foreign_collection_untouched:
  assumes "service_run L (\<lambda>c. \<not> may_access c cid) d d'" and "db_ok d" and "stages_ok d"
  shows "\<forall>i (t :: task). t_collection t = cid \<longrightarrow> (get_task i d = Some t \<longleftrightarrow> get_task i d' = Some t)"
proof (intro allI impI)
  fix i and t :: task assume t: "t_collection t = cid"
  have "foreign_kept cid (get_task i d) (get_task i d')"
    using scoped.R_service_run [OF assms] by (simp add: collection_kept_def)
  then show "get_task i d = Some t \<longleftrightarrow> get_task i d' = Some t" using t by (cases "get_task i d") auto
qed

theorem foreign_collection_untouched_witness:
  "service_run ex_lib (\<lambda>c. \<not> may_access c 2) ex_two_db (ex_after ex_two_db)
   \<and> get_task 14 (ex_after ex_two_db) = Some (ex10\<lparr>t_id := 14, t_collection := 2\<rparr>)"
proof -
  have run: "service_run ex_lib (\<lambda>c. \<not> may_access c 2) ex_two_db (ex_after ex_two_db)"
    by (rule ex_run [of _ ex_scoped_ctx 7])
      (simp_all add: ex_scoped_ctx_def may_access_def grants_def RequireIdentity_Inr uuid_Nil_def)
  have "get_task 14 ex_two_db = Some (ex10\<lparr>t_id := 14, t_collection := 2\<rparr>)"
    by (simp add: get_task_def ex_two_db_def ex_db_def)
  then show ?thesis
    using run foreign_collection_untouched [OF run ex_two_ok, rule_format,
      of "ex10\<lparr>t_id := 14, t_collection := 2\<rparr>" 14] by simp
qed

section \<open>Bounds on names and descriptions\<close>

definition text_ok :: "db \<Rightarrow> bool" where
  "text_ok d \<longleftrightarrow> (\<forall>i t. get_task i d = Some t \<longrightarrow> name_ok (t_title t) \<and> description_ok (t_description t))"

interpretation texts: rpc_contract "\<lambda>_. True" "\<lambda>d d'. text_ok d \<longrightarrow> text_ok d'"
proof
  show "text_ok d \<longrightarrow> text_ok d'" if "authorized c d d'" for c d d'
    unfolding text_ok_def
  proof (intro impI allI)
    fix i t'
    assume old: "\<forall>i t. get_task i d = Some t \<longrightarrow> name_ok (t_title t) \<and> description_ok (t_description t)"
      and t': "get_task i d' = Some t'"
    have "row_ok c (get_task i d) (Some t')" using that t' by (metis authorized_def)
    then show "name_ok (t_title t') \<and> description_ok (t_description t')"
      using old by (cases "get_task i d") (auto simp: new_row_ok_def row_change_ok_def)
  qed
qed auto

text \<open>
  The bounds of the service are an invariant of its runs: when every task has a name that
  is not blank and of at most 512 characters and a description of at most 65536, every task
  has after any run, whoever calls.
\<close>

theorem text_bounds_invariant:
  assumes "service_run L (\<lambda>_. True) d d'" and "db_ok d" and "stages_ok d"
    and "\<forall>t\<in>set (d_tasks d). TrimSpace (t_title t) \<noteq> [] \<and> RuneCountInString (t_title t) \<le> 512
      \<and> RuneCountInString (t_description t) \<le> 65536"
  shows "\<forall>t\<in>set (d_tasks d'). TrimSpace (t_title t) \<noteq> [] \<and> RuneCountInString (t_title t) \<le> 512
      \<and> RuneCountInString (t_description t) \<le> 65536"
proof -
  have iff: "text_ok x \<longleftrightarrow> (\<forall>t\<in>set (d_tasks x). TrimSpace (t_title t) \<noteq> []
      \<and> RuneCountInString (t_title t) \<le> 512 \<and> RuneCountInString (t_description t) \<le> 65536)" if "db_ok x" for x
    using that by (auto simp: text_ok_def name_ok_def description_ok_def get_task_iff)
  show ?thesis
    using texts.R_service_run [OF assms(1-3)] assms(4) iff assms(2) by blast
qed

theorem text_bounds_invariant_witness:
  "service_run ex_lib (\<lambda>_. True) ex_db (ex_after ex_db)
   \<and> RuneCountInString (t_title (last (d_tasks (ex_after ex_db)))) \<le> 512"
proof -
  have run: "service_run ex_lib (\<lambda>_. True) ex_db (ex_after ex_db)"
    by (rule ex_run [of _ open_access_ctx uuid_Nil])
      (simp_all add: grants_def may_access_def RequireIdentity_Inr open_access_ctx_def)
  have "\<forall>t\<in>set (d_tasks ex_db). TrimSpace (t_title t) \<noteq> [] \<and> RuneCountInString (t_title t) \<le> 512
      \<and> RuneCountInString (t_description t) \<le> 65536"
    using ex_texts by (simp add: ex_db_def ex_task_def name_ok_def description_ok_def)
  note bounds = text_bounds_invariant [OF run ex_db_ok ex_stages_ok this]
  have "last (d_tasks (ex_after ex_db)) \<in> set (d_tasks (ex_after ex_db))"
    by (rule last_in_set) (simp add: ex_after_def)
  then show ?thesis using run bounds by blast
qed

end
