(* ===== verification/FT_Watch.thy ===== *)
theory FT_Watch
  imports FT_Service "HOL-Library.Sublist"
begin

text \<open>
  The watch streams of \<open>internal/server/watch.go\<close>: the guards and the filter of a request, the
  initial snapshot, and the loop that numbers and sends events, as a step relation over the
  event bus and the open streams. Taking an event from the channel, with its number written
  into the shared event, and sending that event are two steps, because the handlers of two
  streams run concurrently and hold the same pointer.
\<close>

section \<open>The request\<close>

record WatchTasksRequest =
  rw_CollectionId :: "string option"
  rw_Phase :: "int option"
  rw_Stages :: "int list"
  rw_Assignee :: "string option"
  rw_Labels :: "string list"
  rw_TaskId :: "string option"
  rw_Priority :: "int option"
  rw_IncludeInitial :: bool

definition id_if_set :: "lib \<Rightarrow> string option \<Rightarrow> code + unit" where
  "id_if_set L s = (case s of None \<Rightarrow> Inr () | Some x \<Rightarrow> thenE (parse_id L x) (\<lambda>_. Inr ()))"

definition enum_if_set :: "int list \<Rightarrow> int option \<Rightarrow> code + unit" where
  "enum_if_set names v = (case v of None \<Rightarrow> Inr ()
     | Some n \<Rightarrow> if n = 0 then Inr () else validateDefinedEnum n names)"

definition validateWatchTasksRequest :: "lib \<Rightarrow> WatchTasksRequest \<Rightarrow> code + unit" where
  "validateWatchTasksRequest L req =
    thenE (id_if_set L (rw_CollectionId req)) (\<lambda>_.
    thenE (enum_if_set TaskPhase_names (rw_Phase req)) (\<lambda>_.
    thenE (mapE (\<lambda>s. enum_if_set TaskStage_names (Some s)) (rw_Stages req)) (\<lambda>_.
    thenE (if rw_Assignee req = Some ''none'' then Inr () else id_if_set L (rw_Assignee req)) (\<lambda>_.
    thenE (id_if_set L (rw_TaskId req)) (\<lambda>_.
    enum_if_set TaskPriority_names (rw_Priority req))))))"

text \<open>An optional text that does not parse sets nothing.\<close>

definition parsed :: "lib \<Rightarrow> string option \<Rightarrow> uuid option" where
  "parsed L s = (case s of None \<Rightarrow> None | Some x \<Rightarrow> uuid_Parse L x)"

definition enum_filter :: "(int \<Rightarrow> 'a) \<Rightarrow> int option \<Rightarrow> 'a option" where
  "enum_filter conv v = (case v of None \<Rightarrow> None | Some n \<Rightarrow> if n = 0 then None else Some (conv n))"

definition buildFilter :: "lib \<Rightarrow> WatchTasksRequest \<Rightarrow> SubscriptionFilter" where
  "buildFilter L req =
    \<lparr>f_CollectionID = parsed L (rw_CollectionId req),
     f_Phase = enum_filter PhaseFromProto (rw_Phase req),
     f_Stages = map StageFromProto (filter (\<lambda>s. s \<noteq> 0) (rw_Stages req)),
     f_AssigneeID = (if rw_Assignee req = Some ''none'' then None else parsed L (rw_Assignee req)),
     f_Unassigned = (rw_Assignee req = Some ''none''),
     f_Labels = rw_Labels req,
     f_TaskID = parsed L (rw_TaskId req),
     f_Priority = enum_filter PriorityFromProto (rw_Priority req)\<rparr>"

text \<open>
  \<open>WatchTasks\<close> up to its subscription; \<open>streaming\<close> is whether the service has an event bus.
\<close>

definition WatchTasks_filter ::
  "lib \<Rightarrow> bool \<Rightarrow> ctx \<Rightarrow> WatchTasksRequest \<Rightarrow> db \<Rightarrow> code + SubscriptionFilter" where
  "WatchTasks_filter L streaming c req d =
    (if \<not> streaming then Inl Unimplemented else
     thenE (RequireIdentity c) (\<lambda>_.
     thenE (RequireScope c ScopeTaskRead) (\<lambda>_.
     thenE (validateWatchTasksRequest L req) (\<lambda>_.
     thenE (case rw_CollectionId req of
         Some s \<Rightarrow>
           thenE (parse_id L s) (\<lambda>collID.
           thenE (RequireCollectionAccess c collID) (\<lambda>_.
           thenE (with_code storeErr (GetCollection collID d)) (\<lambda>coll.
           checkE (co_platform coll = PlatformFarmtable) Unimplemented)))
       | None \<Rightarrow> checkE (c_collections c = []) PermissionDenied) (\<lambda>_.
     Inr (buildFilter L req))))))"

section \<open>The snapshot\<close>

definition filterToListRequest :: "WatchTasksRequest \<Rightarrow> ListTasksRequest" where
  "filterToListRequest req =
    \<lparr>rl_CollectionId = rw_CollectionId req, rl_Phase = rw_Phase req, rl_Stages = rw_Stages req,
     rl_Assignee = rw_Assignee req, rl_Priority = rw_Priority req, rl_Type = None,
     rl_Labels = rw_Labels req, rl_ParentTaskId = None, rl_SortField = 0, rl_SortOrder = 0,
     rl_PageSize = 200, rl_PageToken = NoToken\<rparr>"

definition initial_event :: "env \<Rightarrow> int \<Rightarrow> pb_task \<Rightarrow> task_event" where
  "initial_event e seq t =
    \<lparr>ev_EventType = EVENT_INITIAL, ev_Task = Some t, ev_Timestamp = now e, ev_Sequence = seq\<rparr>"

text \<open>The events of one page, numbered from the number after \<open>seq\<close>.\<close>

fun initial_events :: "env \<Rightarrow> int \<Rightarrow> pb_task list \<Rightarrow> task_event list" where
  "initial_events e seq [] = []"
| "initial_events e seq (t # ts) = initial_event e (seq + 1) t # initial_events e (seq + 1) ts"

text \<open>
  The loop over pages. Every page is read on a database of its own; the list of these is the
  fuel, and \<open>None\<close> means that it ended before the loop did. The result holds the events sent
  and the error or the last number.
\<close>

type_synonym snapshot = "task_event list \<times> (code + int)"

fun snapshot_pages ::
  "lib \<Rightarrow> bool \<Rightarrow> ctx \<Rightarrow> ListTasksRequest \<Rightarrow> task_cursor page_token \<Rightarrow> int \<Rightarrow> (env \<times> db) list \<Rightarrow> snapshot option"
  where
  "snapshot_pages L nf c lr tok seq [] = None"
| "snapshot_pages L nf c lr tok seq ((e, d) # rest) =
    (case srv_ListTasks L e nf c (lr\<lparr>rl_PageToken := tok\<rparr>) d of
       Inl err \<Rightarrow> Some ([], Inl err)
     | Inr (pg, nxt) \<Rightarrow>
         let evs = initial_events e seq (pg_Items pg); seq' = seq + int (length (pg_Items pg)) in
         if \<not> pg_HasMore pg then Some (evs, Inr seq')
         else map_option (\<lambda>(more, r). (evs @ more, r))
           (snapshot_pages L nf c lr (case nxt of None \<Rightarrow> NoToken | Some k \<Rightarrow> PageToken k) seq' rest))"

definition sendInitialSnapshot ::
  "lib \<Rightarrow> bool \<Rightarrow> ctx \<Rightarrow> WatchTasksRequest \<Rightarrow> SubscriptionFilter \<Rightarrow> int \<Rightarrow> (env \<times> db) list \<Rightarrow> snapshot option"
  where
  "sendInitialSnapshot L nf c req f seq dbs =
    (case f_TaskID f of
       None \<Rightarrow> snapshot_pages L nf c (filterToListRequest req) NoToken seq dbs
     | Some i \<Rightarrow> (case dbs of
         [] \<Rightarrow> None
       | (e, d) # _ \<Rightarrow> Some (case srv_GetTask L e c (uuid_String L i) False False d of
             Inl err \<Rightarrow> ([], if err = NotFound then Inr seq else Inl err)
           | Inr (t, _) \<Rightarrow> ([initial_event e (seq + 1) t], Inr (seq + 1)))))"

definition control_event :: "int \<Rightarrow> time \<Rightarrow> int \<Rightarrow> task_event" where
  "control_event ty at seq =
    \<lparr>ev_EventType = ty, ev_Task = None, ev_Timestamp = at, ev_Sequence = seq\<rparr>"

text \<open>What \<open>WatchTasks\<close> sends between its subscription and its loop.\<close>

definition snapshot_events ::
  "lib \<Rightarrow> bool \<Rightarrow> ctx \<Rightarrow> WatchTasksRequest \<Rightarrow> SubscriptionFilter \<Rightarrow> time \<Rightarrow> (env \<times> db) list \<Rightarrow> snapshot option"
  where
  "snapshot_events L nf c req f at dbs =
    (if \<not> rw_IncludeInitial req then Some ([], Inr 0)
     else map_option (\<lambda>(evs, r). case r of
         Inl err \<Rightarrow> (evs, Inl err)
       | Inr seq \<Rightarrow> (evs @ [control_event EVENT_SNAPSHOT_COMPLETE at (seq + 1)], Inr (seq + 1)))
       (sendInitialSnapshot L nf c req f 0 dbs))"

section \<open>The streams\<close>

text \<open>
  A stream: whether it is in its loop, its counter, the event it has numbered and is about to
  send, and what it has sent.
\<close>

record stream =
  st_live :: bool
  st_seq :: int
  st_taken :: "addr option"
  st_sent :: "task_event list"

record watch =
  w_bus :: bus
  w_streams :: "string \<Rightarrow> stream option"

datatype watch_label =
    Published task_event | Opened string | Snapshot string | Taken string | Sent string
  | Heartbeat string | Closed string

definition with_stream :: "string \<Rightarrow> stream \<Rightarrow> watch \<Rightarrow> watch" where
  "with_stream i st w = w\<lparr>w_streams := (w_streams w)(i := Some st)\<rparr>"

text \<open>\<open>event.Sequence = seq\<close>, through the pointer.\<close>

definition stamp :: "addr \<Rightarrow> int \<Rightarrow> bus \<Rightarrow> bus" where
  "stamp a seq b = b\<lparr>b_cells := (b_cells b)[a := (b_cells b ! a)\<lparr>ev_Sequence := seq\<rparr>]\<rparr>"

definition set_events :: "string \<Rightarrow> addr list \<Rightarrow> bus \<Rightarrow> bus" where
  "set_events i as b = b\<lparr>b_subscribers :=
     AList.map_entry i (\<lambda>s. s\<lparr>sb_Events := as\<rparr>) (b_subscribers b)\<rparr>"

inductive watch_step :: "lib \<Rightarrow> watch \<Rightarrow> watch_label \<Rightarrow> watch \<Rightarrow> bool" for L where
  publish: "watch_step L w (Published ev) (w\<lparr>w_bus := Publish L ev (w_bus w)\<rparr>)"
| open_stream: "w_streams w i = None \<Longrightarrow> map_of (b_subscribers (w_bus w)) i = None \<Longrightarrow>
    watch_step L w (Opened i) (with_stream i
      \<lparr>st_live = False, st_seq = 0, st_taken = None, st_sent = []\<rparr> (w\<lparr>w_bus := Subscribe i f (w_bus w)\<rparr>))"
| snapshot: "w_streams w i = Some st \<Longrightarrow> \<not> st_live st \<Longrightarrow>
    snapshot_events L nf c req f at dbs = Some (evs, Inr seq) \<Longrightarrow>
    watch_step L w (Snapshot i) (with_stream i
      \<lparr>st_live = True, st_seq = seq, st_taken = None, st_sent = evs\<rparr> w)"
| take_event: "w_streams w i = Some st \<Longrightarrow> st_live st \<Longrightarrow> st_taken st = None \<Longrightarrow>
    map_of (b_subscribers (w_bus w)) i = Some s \<Longrightarrow> sb_Events s = a # as \<Longrightarrow>
    watch_step L w (Taken i) (with_stream i (st\<lparr>st_seq := st_seq st + 1, st_taken := Some a\<rparr>)
      (w\<lparr>w_bus := stamp a (st_seq st + 1) (set_events i as (w_bus w))\<rparr>))"
| send: "w_streams w i = Some st \<Longrightarrow> st_taken st = Some a \<Longrightarrow>
    watch_step L w (Sent i) (with_stream i
      (st\<lparr>st_taken := None, st_sent := st_sent st @ [b_cells (w_bus w) ! a]\<rparr>) w)"
| heartbeat: "w_streams w i = Some st \<Longrightarrow> st_live st \<Longrightarrow> st_taken st = None \<Longrightarrow>
    watch_step L w (Heartbeat i) (with_stream i (st\<lparr>st_seq := st_seq st + 1,
      st_sent := st_sent st @ [control_event EVENT_HEARTBEAT at (st_seq st + 1)]\<rparr>) w)"
| close_stream: "w_streams w i = Some st \<Longrightarrow>
    watch_step L w (Closed i) (w\<lparr>w_bus := Unsubscribe i (w_bus w),
      w_streams := (w_streams w)(i := None)\<rparr>)"

definition watch_init :: watch where
  "watch_init = \<lparr>w_bus = NewEventBus, w_streams = (\<lambda>_. None)\<rparr>"

inductive watch_run :: "lib \<Rightarrow> watch \<Rightarrow> watch_label list \<Rightarrow> watch \<Rightarrow> bool" for L where
  nil: "watch_run L w [] w"
| snoc: "watch_run L w tr w1 \<Longrightarrow> watch_step L w1 l w2 \<Longrightarrow> watch_run L w (tr @ [l]) w2"

inductive_cases watch_run_snocE: "watch_run L w (tr @ [l]) w'"

end
