(* ===== verification/FT_WatchProps.thy ===== *)
theory FT_WatchProps
  imports FT_Watch
begin

text \<open>
  What a watcher gets. The abstract specification is a bounded queue per stream: it holds the
  values of the events and knows no pointers and no numbers. The step relation of \<open>FT_Watch\<close>
  refines it; from the queue follow the order and the completeness of the delivery. The
  numbers are the part that the sharing of the events breaks.
\<close>

section \<open>The specification\<close>

text \<open>An event without its number.\<close>

definition plain :: "task_event \<Rightarrow> task_event" where
  "plain ev = ev\<lparr>ev_Sequence := 0\<rparr>"

record watcher =
  wa_filter :: SubscriptionFilter
  wa_queue :: "task_event list"
  wa_delivered :: "task_event list"

definition wa_offer :: "lib \<Rightarrow> task_event \<Rightarrow> watcher \<Rightarrow> watcher" where
  "wa_offer L ev a = (if matchesFilter L (wa_filter a) ev \<and> length (wa_queue a) < channel_capacity
     then a\<lparr>wa_queue := wa_queue a @ [ev]\<rparr> else a)"

text \<open>The events the handlers publish, as opposed to those a stream makes for itself.\<close>

definition broadcast :: "task_event \<Rightarrow> bool" where
  "broadcast ev \<longleftrightarrow> ev_EventType ev \<in> {EVENT_CREATED, EVENT_UPDATED, EVENT_CLOSED}"

lemmas event_types = EVENT_INITIAL_def EVENT_CREATED_def EVENT_UPDATED_def EVENT_CLOSED_def
  EVENT_HEARTBEAT_def EVENT_SNAPSHOT_COMPLETE_def

type_synonym watchers = "string \<Rightarrow> watcher option"

inductive queue_step :: "lib \<Rightarrow> watchers \<Rightarrow> watch_label \<Rightarrow> watchers \<Rightarrow> bool" for L where
  "queue_step L m (Published ev) (\<lambda>i. map_option (wa_offer L (plain ev)) (m i))"
| "m i = None \<Longrightarrow>
    queue_step L m (Opened i) (m(i \<mapsto> \<lparr>wa_filter = f, wa_queue = [], wa_delivered = []\<rparr>))"
| "m i = Some a \<Longrightarrow> \<forall>ev\<in>set evs. \<not> broadcast ev \<Longrightarrow> 
    queue_step L m (Snapshot i) (m(i \<mapsto> a\<lparr>wa_delivered := wa_delivered a @ evs\<rparr>))"
| "m i = Some a \<Longrightarrow> wa_queue a = ev # q \<Longrightarrow>
    queue_step L m (Taken i) (m(i \<mapsto> a\<lparr>wa_queue := q, wa_delivered := wa_delivered a @ [ev]\<rparr>))"
| "queue_step L m (Sent i) m"
| "m i = Some a \<Longrightarrow> \<not> broadcast ev \<Longrightarrow>
    queue_step L m (Heartbeat i) (m(i \<mapsto> a\<lparr>wa_delivered := wa_delivered a @ [ev]\<rparr>))"
| "queue_step L m (Closed i) (m(i := None))"

section \<open>The abstraction\<close>

definition abs_cell :: "bus \<Rightarrow> addr \<Rightarrow> task_event" where
  "abs_cell b a = plain (b_cells b ! a)"

definition abs_stream :: "bus \<Rightarrow> subscriber \<Rightarrow> stream \<Rightarrow> watcher" where
  "abs_stream b s st = \<lparr>wa_filter = sb_Filter s, wa_queue = map (abs_cell b) (sb_Events s),
     wa_delivered = map plain (st_sent st) @ map (abs_cell b) (case st_taken st of None \<Rightarrow> [] | Some a \<Rightarrow> [a])\<rparr>"

definition abs_watch :: "watch \<Rightarrow> watchers" where
  "abs_watch w i = (case map_of (b_subscribers (w_bus w)) i of
       None \<Rightarrow> None
     | Some s \<Rightarrow> map_option (abs_stream (w_bus w) s) (w_streams w i))"

text \<open>The addresses in use are cells, and the subscriptions are those of the streams.\<close>

definition watch_ok :: "watch \<Rightarrow> bool" where
  "watch_ok w \<longleftrightarrow>
     (\<forall>i. (map_of (b_subscribers (w_bus w)) i = None) = (w_streams w i = None))
   \<and> (\<forall>i s. map_of (b_subscribers (w_bus w)) i = Some s \<longrightarrow>
        (\<forall>a\<in>set (sb_Events s). a < length (b_cells (w_bus w))))
   \<and> (\<forall>i st. w_streams w i = Some st \<longrightarrow> (\<forall>a. st_taken st = Some a \<longrightarrow> a < length (b_cells (w_bus w)))
        \<and> (\<not> st_live st \<longrightarrow> st_sent st = [] \<and> st_taken st = None))"

lemma plain_simps [simp]: "plain (plain ev) = plain ev" "plain (ev\<lparr>ev_Sequence := n\<rparr>) = plain ev"
  "ev_EventType (plain ev) = ev_EventType ev" "broadcast (plain ev) = broadcast ev" "ev_Task (plain ev) = ev_Task ev"
  by (simp_all add: plain_def broadcast_def)

lemma matchesFilter_plain [simp]: "matchesFilter L f (plain ev) = matchesFilter L f ev"
  by (simp add: matchesFilter_def)

lemma abs_cell_stamp [simp]: "abs_cell (stamp x n b) a = abs_cell b a"
  by (cases "x < length (b_cells b)") (auto simp: abs_cell_def stamp_def nth_list_update list_update_beyond)

lemma bus_simps [simp]:
  "b_cells (set_events i as b) = b_cells b"
  "abs_cell (set_events i as b) = abs_cell b"
  "b_subscribers (stamp x n b) = b_subscribers b"
  "length (b_cells (stamp x n b)) = length (b_cells b)"
  "b_cells (Subscribe i f b) = b_cells b" "b_cells (Unsubscribe i b) = b_cells b"
  "abs_cell (Subscribe i f b) = abs_cell b" "abs_cell (Unsubscribe i b) = abs_cell b"
  by (simp_all add: set_events_def stamp_def Subscribe_def Unsubscribe_def abs_cell_def fun_eq_iff)

lemma subscribers_Publish:
  "map_of (b_subscribers (Publish L ev b)) i
     = map_option (offer L ev (length (b_cells b))) (map_of (b_subscribers b) i)"
  by (simp add: Publish_def map_of_map)

lemma subscribers_set_events:
  "map_of (b_subscribers (set_events i as b)) j = (if j = i
     then map_option (\<lambda>s. s\<lparr>sb_Events := as\<rparr>) (map_of (b_subscribers b) i) else map_of (b_subscribers b) j)"
  by (simp add: set_events_def map_of_map_entry split: option.split)

lemma subscribers_Subscribe:
  "map_of (b_subscribers (Subscribe i f b)) j
     = (if j = i then Some \<lparr>sb_Filter = f, sb_Events = []\<rparr> else map_of (b_subscribers b) j)"
  by (simp add: Subscribe_def update_conv')

lemma subscribers_Unsubscribe:
  "map_of (b_subscribers (Unsubscribe i b)) j = (if j = i then None else map_of (b_subscribers b) j)"
  by (simp add: Unsubscribe_def delete_conv')

lemma offer_simps [simp]: "sb_Filter (offer L ev a s) = sb_Filter s"
  by (simp add: offer_def)

lemmas watch_maps = subscribers_Publish subscribers_set_events subscribers_Subscribe subscribers_Unsubscribe

lemma watch_ok_init: "watch_ok watch_init"
  by (simp add: watch_ok_def watch_init_def NewEventBus_def)

lemma watch_ok_step: "watch_step L w l w' \<Longrightarrow> watch_ok w \<Longrightarrow> watch_ok w'"
proof (induction rule: watch_step.induct)
  case (publish w ev)
  have "b_cells (Publish L ev b) = b_cells b @ [ev]" for b by (simp add: Publish_def)
  moreover have "set (sb_Events (offer L ev a s)) \<subseteq> insert a (set (sb_Events s))" for a s
    by (auto simp: offer_def)
  ultimately show ?case using publish
    by (fastforce simp: watch_ok_def watch_maps less_Suc_eq)
next
  case (send w i st a)
  then have "st_live st" unfolding watch_ok_def by (metis option.distinct(1))
  with send show ?case by (auto simp: watch_ok_def with_stream_def)
qed (auto simp: watch_ok_def watch_maps with_stream_def)

section \<open>The refinement\<close>

lemma abs_cell_Publish: "a < length (b_cells b) \<Longrightarrow> abs_cell (Publish L ev b) a = abs_cell b a"
  by (simp add: abs_cell_def Publish_def nth_append)

lemma abs_cell_Publish_new: "abs_cell (Publish L ev b) (length (b_cells b)) = plain ev"
  by (simp add: abs_cell_def Publish_def)

lemma abs_stream_Publish:
  assumes "\<forall>a\<in>set (sb_Events s). a < length (b_cells b)" and "\<forall>a. st_taken st = Some a \<longrightarrow> a < length (b_cells b)"
  shows "abs_stream (Publish L ev b) (offer L ev (length (b_cells b)) s) st = wa_offer L (plain ev) (abs_stream b s st)"
proof -
  have q: "map (abs_cell (Publish L ev b)) (sb_Events s) = map (abs_cell b) (sb_Events s)"
    using assms(1) by (simp add: abs_cell_Publish)
  show ?thesis
    using assms(2)
    by (auto simp: abs_stream_def offer_def wa_offer_def q abs_cell_Publish abs_cell_Publish_new split: option.splits)
qed

lemma abs_watch_upd:
  assumes "\<And>j. j \<noteq> i \<Longrightarrow> map_of (b_subscribers (w_bus w')) j = map_of (b_subscribers (w_bus w)) j"
    and "\<And>j. j \<noteq> i \<Longrightarrow> w_streams w' j = w_streams w j" and "abs_cell (w_bus w') = abs_cell (w_bus w)"
    and "abs_watch w' i = x"
  shows "abs_watch w' = (abs_watch w)(i := x)"
proof
  have "abs_stream (w_bus w') = abs_stream (w_bus w)"
    by (simp add: abs_stream_def fun_eq_iff assms(3))
  then show "abs_watch w' j = ((abs_watch w)(i := x)) j" for j
    using assms(1,2) [of j] assms(4) by (cases "j = i") (simp_all only: abs_watch_def fun_upd_apply simp_thms if_False if_True)
qed

text \<open>Events of one type, numbered from \<open>n + 1\<close> up to \<open>m\<close>.\<close>

definition numbered :: "int \<Rightarrow> int \<Rightarrow> task_event list \<Rightarrow> bool" where
  "numbered n m evs \<longleftrightarrow> n \<le> m \<and> map ev_Sequence evs = [n + 1..m]"

lemma numbered_append:
  assumes "numbered n m xs" and "numbered m k ys" shows "numbered n k (xs @ ys)"
proof -
  have "[n + 1..k] = [n + 1..m] @ [m + 1..k]"
    using assms upto_split2 [of "n + 1" m k] by (cases "n = m") (simp_all add: numbered_def)
  then show ?thesis using assms by (simp add: numbered_def)
qed

lemma numbered_one: "ev_Sequence ev = n + 1 \<Longrightarrow> numbered n (n + 1) [ev]"
  by (simp add: numbered_def)

lemma initial_events_facts:
  "numbered n (n + int (length ts)) (initial_events e n ts)
   \<and> (\<forall>ev\<in>set (initial_events e n ts). ev_EventType ev = EVENT_INITIAL)"
proof (induction ts arbitrary: n)
  case (Cons t ts)
  have "numbered n (n + 1) [initial_event e (n + 1) t]"
    by (rule numbered_one) (simp add: initial_event_def)
  from numbered_append [OF this Cons.IH [of "n + 1", THEN conjunct1]] Cons.IH [of "n + 1"]
  show ?case by (simp add: initial_event_def algebra_simps)
qed (simp add: numbered_def)

lemma snapshot_pages_facts:
  "snapshot_pages L nf c lr tok seq dbs = Some (evs, r) \<Longrightarrow>
     (\<forall>ev\<in>set evs. ev_EventType ev = EVENT_INITIAL) \<and> (\<forall>m. r = Inr m \<longrightarrow> numbered seq m evs)"
proof (induction dbs arbitrary: tok seq evs r)
  case (Cons ed dbs)
  obtain e d where ed: "ed = (e, d)" by (cases ed)
  show ?case
  proof (cases "srv_ListTasks L e nf c (lr\<lparr>rl_PageToken := tok\<rparr>) d")
    case (Inl err)
    then show ?thesis using Cons.prems by (auto simp: ed)
  next
    case (Inr x)
    obtain pg nxt where x: "x = (pg, nxt)" by (cases x)
    let ?m = "seq + int (length (pg_Items pg))"
    note page = initial_events_facts [of seq "pg_Items pg" e]
    show ?thesis
    proof (cases "pg_HasMore pg")
      case False
      then show ?thesis using Cons.prems Inr page by (auto simp: ed x Let_def)
    next
      case True
      then obtain more where more: "snapshot_pages L nf c lr (case nxt of None \<Rightarrow> NoToken | Some k \<Rightarrow> PageToken k)
          ?m dbs = Some (more, r)" "evs = initial_events e seq (pg_Items pg) @ more"
        using Cons.prems Inr by (auto simp: ed x Let_def)
      show ?thesis
        using Cons.IH [OF more(1)] page numbered_append [of seq ?m _ _ more] by (auto simp: more(2))
    qed
  qed
qed simp

lemma sendInitialSnapshot_facts:
  assumes "sendInitialSnapshot L nf c req f seq dbs = Some (evs, r)"
  shows "(\<forall>ev\<in>set evs. ev_EventType ev = EVENT_INITIAL) \<and> (\<forall>m. r = Inr m \<longrightarrow> numbered seq m evs)"
proof (cases "f_TaskID f")
  case None
  then show ?thesis using assms by (simp add: sendInitialSnapshot_def snapshot_pages_facts)
next
  case (Some i)
  have one: "numbered seq (seq + 1) [initial_event e (seq + 1) t]" for e t
    by (rule numbered_one) (simp add: initial_event_def)
  have none: "numbered seq seq []" by (simp add: numbered_def)
  show ?thesis
    using assms Some one none
    by (auto simp: sendInitialSnapshot_def initial_event_def split: list.splits sum.splits prod.splits if_splits)
qed

lemma snapshot_events_facts:
  assumes "snapshot_events L nf c req f at dbs = Some (evs, r)"
  shows "(\<forall>ev\<in>set evs. \<not> broadcast ev) \<and> (\<forall>m. r = Inr m \<longrightarrow> numbered 0 m evs)"
proof (cases "rw_IncludeInitial req")
  case False
  then show ?thesis using assms by (auto simp: snapshot_events_def numbered_def)
next
  case True
  with assms obtain evs0 r0 where s: "sendInitialSnapshot L nf c req f 0 dbs = Some (evs0, r0)"
    and evs: "(evs, r) = (case r0 of Inl err \<Rightarrow> (evs0, Inl err)
       | Inr seq \<Rightarrow> (evs0 @ [control_event EVENT_SNAPSHOT_COMPLETE at (seq + 1)], Inr (seq + 1)))"
    by (auto simp: snapshot_events_def)
  have kinds: "\<not> broadcast ev" if "ev_EventType ev = EVENT_INITIAL \<or> ev_EventType ev = EVENT_SNAPSHOT_COMPLETE" for ev
    using that by (auto simp: broadcast_def event_types)
  show ?thesis
  proof (cases r0)
    case (Inl err)
    then show ?thesis using evs kinds sendInitialSnapshot_facts [OF s] by auto
  next
    case (Inr seq)
    have "numbered 0 (seq + 1) (evs0 @ [control_event EVENT_SNAPSHOT_COMPLETE at (seq + 1)])"
      using sendInitialSnapshot_facts [OF s] Inr
      by (intro numbered_append [of 0 seq] numbered_one) (auto simp: control_event_def)
    then show ?thesis
      using evs kinds sendInitialSnapshot_facts [OF s] by (auto simp: Inr control_event_def)
  qed
qed

lemma watch_subscriber:
  assumes "watch_ok w" and "w_streams w i = Some st"
  obtains s where "map_of (b_subscribers (w_bus w)) i = Some s"
  using assms unfolding watch_ok_def by (metis not_None_eq)

lemma watch_step_refines:
  assumes "watch_step L w l w'" and "watch_ok w"
  shows "queue_step L (abs_watch w) l (abs_watch w')"
  using assms
proof (induction rule: watch_step.induct)
  case (publish w ev)
  have "abs_watch (w\<lparr>w_bus := Publish L ev (w_bus w)\<rparr>) i = map_option (wa_offer L (plain ev)) (abs_watch w i)" for i
  proof (cases "map_of (b_subscribers (w_bus w)) i")
    case None
    then show ?thesis by (simp add: abs_watch_def watch_maps)
  next
    case (Some s)
    show ?thesis
    proof (cases "w_streams w i")
      case None
      then show ?thesis using Some by (simp add: abs_watch_def watch_maps)
    next
      case (Some st)
      have "\<forall>a\<in>set (sb_Events s). a < length (b_cells (w_bus w))"
        "\<forall>a. st_taken st = Some a \<longrightarrow> a < length (b_cells (w_bus w))"
        using publish \<open>map_of _ i = Some s\<close> Some unfolding watch_ok_def by blast+
      then show ?thesis
        using Some \<open>map_of _ i = Some s\<close> by (simp add: abs_watch_def watch_maps abs_stream_Publish)
    qed
  qed
  then have "abs_watch (w\<lparr>w_bus := Publish L ev (w_bus w)\<rparr>)
      = (\<lambda>i. map_option (wa_offer L (plain ev)) (abs_watch w i))" by (rule ext)
  then show ?case by (simp only: queue_step.intros(1))
next
  case (open_stream w i f)
  let ?w' = "with_stream i \<lparr>st_live = False, st_seq = 0, st_taken = None, st_sent = []\<rparr>
      (w\<lparr>w_bus := Subscribe i f (w_bus w)\<rparr>)"
  have "abs_watch ?w' = (abs_watch w)(i := Some \<lparr>wa_filter = f, wa_queue = [], wa_delivered = []\<rparr>)"
    by (rule abs_watch_upd) (simp_all add: watch_maps with_stream_def abs_watch_def abs_stream_def)
  moreover have "abs_watch w i = None" using open_stream by (simp add: abs_watch_def)
  ultimately show ?case by (simp only: queue_step.intros(2))
next
  case (snapshot w i st nf c req f at dbs evs seq)
  then obtain s where s: "map_of (b_subscribers (w_bus w)) i = Some s" by (elim watch_subscriber)
  have fresh: "st_sent st = []" "st_taken st = None"
    using snapshot unfolding watch_ok_def by blast+
  let ?a = "abs_stream (w_bus w) s st"
  let ?w' = "with_stream i \<lparr>st_live = True, st_seq = seq, st_taken = None, st_sent = evs\<rparr> w"
  have "abs_watch ?w' = (abs_watch w)(i := Some (?a\<lparr>wa_delivered := wa_delivered ?a @ map plain evs\<rparr>))"
    by (rule abs_watch_upd) (simp_all add: with_stream_def abs_watch_def abs_stream_def s fresh)
  moreover have "abs_watch w i = Some ?a" using s snapshot by (simp add: abs_watch_def)
  moreover have "\<forall>ev\<in>set (map plain evs). \<not> broadcast ev"
    using snapshot_events_facts [OF snapshot(3)] by simp
  ultimately show ?case by (simp only: queue_step.intros(3))
next
  case (take_event w i st s a as)
  let ?x = "abs_stream (w_bus w) s st" and ?q = "map (abs_cell (w_bus w)) as"
  let ?w' = "with_stream i (st\<lparr>st_seq := st_seq st + 1, st_taken := Some a\<rparr>)
      (w\<lparr>w_bus := stamp a (st_seq st + 1) (set_events i as (w_bus w))\<rparr>)"
  have "abs_watch ?w' = (abs_watch w)(i := Some (?x\<lparr>wa_queue := ?q,
      wa_delivered := wa_delivered ?x @ [abs_cell (w_bus w) a]\<rparr>))"
    by (rule abs_watch_upd)
      (use take_event in \<open>simp_all add: watch_maps with_stream_def abs_watch_def abs_stream_def fun_eq_iff\<close>)
  moreover have "abs_watch w i = Some ?x" using take_event by (simp add: abs_watch_def)
  moreover have "wa_queue ?x = abs_cell (w_bus w) a # ?q" using take_event by (simp add: abs_stream_def)
  ultimately show ?case by (simp only: queue_step.intros(4))
next
  case (send w i st a)
  then obtain s where s: "map_of (b_subscribers (w_bus w)) i = Some s" by (elim watch_subscriber)
  let ?w' = "with_stream i (st\<lparr>st_taken := None, st_sent := st_sent st @ [b_cells (w_bus w) ! a]\<rparr>) w"
  have "abs_watch ?w' = (abs_watch w)(i := abs_watch w i)"
    by (rule abs_watch_upd)
      (use s send in \<open>simp_all add: with_stream_def abs_watch_def abs_stream_def abs_cell_def\<close>)
  then show ?case by (simp only: queue_step.intros(5) fun_upd_triv)
next
  case (heartbeat w i st at)
  then obtain s where s: "map_of (b_subscribers (w_bus w)) i = Some s" by (elim watch_subscriber)
  let ?x = "abs_stream (w_bus w) s st" and ?ev = "plain (control_event EVENT_HEARTBEAT at 0)"
  let ?w' = "with_stream i (st\<lparr>st_seq := st_seq st + 1,
      st_sent := st_sent st @ [control_event EVENT_HEARTBEAT at (st_seq st + 1)]\<rparr>) w"
  have "abs_watch ?w' = (abs_watch w)(i := Some (?x\<lparr>wa_delivered := wa_delivered ?x @ [?ev]\<rparr>))"
    by (rule abs_watch_upd)
      (use s heartbeat in \<open>simp_all add: with_stream_def abs_watch_def abs_stream_def control_event_def plain_def\<close>)
  moreover have "abs_watch w i = Some ?x" using s heartbeat by (simp add: abs_watch_def)
  moreover have "\<not> broadcast ?ev"
    by (simp add: broadcast_def control_event_def event_types)
  ultimately show ?case by (simp only: queue_step.intros(6) not_False_eq_True)
next
  case (close_stream w i st)
  have "abs_watch (w\<lparr>w_bus := Unsubscribe i (w_bus w), w_streams := (w_streams w)(i := None)\<rparr>)
      = (abs_watch w)(i := None)"
    by (rule abs_watch_upd) (simp_all add: watch_maps abs_watch_def fun_eq_iff)
  then show ?case by (simp only: queue_step.intros(7))
qed

inductive queue_run :: "lib \<Rightarrow> watchers \<Rightarrow> watch_label list \<Rightarrow> watchers \<Rightarrow> bool" for L where
  queue_nil: "queue_run L m [] m"
| queue_snoc: "queue_run L m tr m1 \<Longrightarrow> queue_step L m1 l m2 \<Longrightarrow> queue_run L m (tr @ [l]) m2"

lemma watch_ok_run: "watch_run L w tr w' \<Longrightarrow> watch_ok w \<Longrightarrow> watch_ok w'"
  by (induction rule: watch_run.induct) (auto intro: watch_ok_step)

lemma run_refines:
  assumes "watch_run L w tr w'" and "watch_ok w"
  shows "queue_run L (abs_watch w) tr (abs_watch w')"
  using assms
proof (induction rule: watch_run.induct)
  case (nil w)
  then show ?case by (simp add: queue_nil)
next
  case (snoc w tr w1 l w2)
  then show ?case using watch_ok_run watch_step_refines by (blast intro: queue_snoc)
qed

lemma abs_watch_init: "abs_watch watch_init = (\<lambda>_. None)"
  by (simp add: abs_watch_def watch_init_def NewEventBus_def fun_eq_iff)

lemma run_to: "watch_run L w tr w1 \<Longrightarrow> watch_step L w1 l w2' \<Longrightarrow> w2' = w2 \<Longrightarrow> watch_run L w (tr @ [l]) w2"
  by (auto intro: watch_run.snoc)

definition ex_event :: task_event where
  "ex_event = \<lparr>ev_EventType = EVENT_UPDATED, ev_Task = None, ev_Timestamp = 0, ev_Sequence = 0\<rparr>"



section \<open>Order and completeness of the delivery\<close>

text \<open>The events published since the last subscription under an identifier.\<close>

definition heard_step :: "string \<Rightarrow> task_event list \<Rightarrow> watch_label \<Rightarrow> task_event list" where
  "heard_step i acc l = (case l of Opened j \<Rightarrow> if j = i then [] else acc
     | Published ev \<Rightarrow> acc @ [plain ev] | _ \<Rightarrow> acc)"

definition heard :: "string \<Rightarrow> watch_label list \<Rightarrow> task_event list" where
  "heard i tr = foldl (heard_step i) [] tr"

definition matching :: "lib \<Rightarrow> SubscriptionFilter \<Rightarrow> task_event list \<Rightarrow> task_event list" where
  "matching L f = filter (matchesFilter L f)"

definition received :: "watcher \<Rightarrow> task_event list" where
  "received a = filter broadcast (wa_delivered a) @ wa_queue a"

definition broadcasts :: "watch_label list \<Rightarrow> bool" where
  "broadcasts tr \<longleftrightarrow> (\<forall>ev. Published ev \<in> set tr \<longrightarrow> broadcast ev)"

text \<open>The invariant of one queue, against the events it should hold.\<close>

definition in_order :: "watcher \<Rightarrow> task_event list \<Rightarrow> bool" where
  "in_order a ms \<longleftrightarrow> (\<forall>ev\<in>set (wa_queue a). broadcast ev) \<and> subseq (received a) ms
     \<and> (length ms \<le> channel_capacity \<longrightarrow> received a = ms)"

lemma in_order_offer:
  assumes "in_order a (matching L (wa_filter a) h)" and "broadcast ev"
  shows "in_order (wa_offer L ev a) (matching L (wa_filter a) (h @ [ev]))"
proof (cases "matchesFilter L (wa_filter a) ev")
  case False
  then show ?thesis using assms by (simp add: wa_offer_def matching_def)
next
  case True
  let ?ms = "matching L (wa_filter a) h"
  have ms: "matching L (wa_filter a) (h @ [ev]) = ?ms @ [ev]" using True by (simp add: matching_def)
  show ?thesis
  proof (cases "length (wa_queue a) < channel_capacity")
    case True
    then show ?thesis
      using assms \<open>matchesFilter L (wa_filter a) ev\<close>
      by (auto simp: ms in_order_def wa_offer_def received_def) (metis append_assoc subseq_append_iff subseq_order.refl)
  next
    case False
    have "length (wa_queue a) \<le> length (received a)" by (simp add: received_def)
    then have "\<not> length (?ms @ [ev]) \<le> channel_capacity"
      using assms(1) False unfolding in_order_def by fastforce
    moreover have "subseq (received a) (?ms @ [ev])"
      using assms(1) list_emb_append_mono [of "(=)" "received a" ?ms "[]" "[ev]"] by (simp add: in_order_def)
    ultimately show ?thesis using assms(1) False by (simp add: ms in_order_def wa_offer_def)
  qed
qed

lemma wa_filter_offer [simp]: "wa_filter (wa_offer L ev a) = wa_filter a"
  by (simp add: wa_offer_def)

lemma heard_snoc: "heard i (tr @ [l]) = heard_step i (heard i tr) l"
  by (simp add: heard_def)

text \<open>A run of two streams in which the second takes an event before the first has sent it.\<close>

definition any_filter :: SubscriptionFilter where
  "any_filter = \<lparr>f_CollectionID = None, f_Phase = None, f_Stages = [], f_AssigneeID = None,
     f_Unassigned = False, f_Labels = [], f_TaskID = None, f_Priority = None\<rparr>"

definition ex_watch :: WatchTasksRequest where
  "ex_watch = \<lparr>rw_CollectionId = None, rw_Phase = None, rw_Stages = [], rw_Assignee = None,
     rw_Labels = [], rw_TaskId = None, rw_Priority = None, rw_IncludeInitial = False\<rparr>"

text \<open>Labels that neither take nor send, and publish nothing but the example event.\<close>

definition quiet_label :: "watch_label \<Rightarrow> bool" where
  "quiet_label l \<longleftrightarrow> (\<forall>i. l \<noteq> Taken i \<and> l \<noteq> Sent i) \<and> (\<forall>ev. l = Published ev \<longrightarrow> ev = ex_event)"

definition race_state ::
  "task_event list \<Rightarrow> addr list \<Rightarrow> addr list \<Rightarrow> stream \<Rightarrow> stream \<Rightarrow> watch" where
  "race_state cells qa qb sa sb =
    \<lparr>w_bus = \<lparr>b_cells = cells, b_subscribers = [(''a'', \<lparr>sb_Filter = any_filter, sb_Events = qa\<rparr>),
       (''b'', \<lparr>sb_Filter = any_filter, sb_Events = qb\<rparr>)]\<rparr>,
     w_streams = (\<lambda>i. if i = ''a'' then Some sa else if i = ''b'' then Some sb else None)\<rparr>"

abbreviation live :: "int \<Rightarrow> addr option \<Rightarrow> task_event list \<Rightarrow> stream" where
  "live n a evs \<equiv> \<lparr>st_live = True, st_seq = n, st_taken = a, st_sent = evs\<rparr>"

lemmas race_defs = race_state_def with_stream_def stamp_def set_events_def fun_eq_iff

lemma race_start: "\<exists>tr. watch_run L watch_init tr (race_state [] [] [] (live 0 None []) (live 0 None []))
    \<and> heard ''a'' tr = [] \<and> (\<forall>l\<in>set tr. quiet_label l)"
proof -
  let ?new = "\<lparr>st_live = False, st_seq = 0, st_taken = None, st_sent = []\<rparr>"
  have snap: "snapshot_events L True open_access_ctx ex_watch any_filter 0 [] = Some ([], Inr 0)"
    by (simp add: snapshot_events_def ex_watch_def)
  have r1: "watch_run L watch_init ([] @ [Opened ''a'']) \<lparr>w_bus = Subscribe ''a'' any_filter NewEventBus,
      w_streams = [''a'' \<mapsto> ?new]\<rparr>"
    by (rule run_to [OF watch_run.nil watch_step.open_stream [of watch_init "''a''" L any_filter]])
      (simp_all add: watch_init_def NewEventBus_def with_stream_def)
  have r2: "watch_run L watch_init (([] @ [Opened ''a'']) @ [Opened ''b'']) (race_state [] [] [] ?new ?new)"
    by (rule run_to [OF r1 watch_step.open_stream [of _ "''b''" L any_filter]])
      (auto simp: race_defs NewEventBus_def Subscribe_def)
  have r3: "watch_run L watch_init ((([] @ [Opened ''a'']) @ [Opened ''b'']) @ [Snapshot ''a''])
      (race_state [] [] [] (live 0 None []) ?new)"
    by (rule run_to [OF r2 watch_step.snapshot [OF _ _ snap]]) (auto simp: race_defs)
  have "watch_run L watch_init (((([] @ [Opened ''a'']) @ [Opened ''b'']) @ [Snapshot ''a'']) @ [Snapshot ''b''])
      (race_state [] [] [] (live 0 None []) (live 0 None []))"
    by (rule run_to [OF r3 watch_step.snapshot [OF _ _ snap]]) (auto simp: race_defs)
  then show ?thesis
    by (intro exI conjI) (assumption, simp_all add: heard_def heard_step_def quiet_label_def)
qed

lemma race_published: "\<exists>tr. watch_run L watch_init tr (race_state [ex_event] [0] [0]
      (live 1 None [control_event EVENT_HEARTBEAT 0 1]) (live 0 None []))
    \<and> heard ''a'' tr = [plain ex_event] \<and> (\<forall>l\<in>set tr. quiet_label l)"
proof -
  let ?hb = "control_event EVENT_HEARTBEAT 0 1"
  from race_start obtain tr where
    r0: "watch_run L watch_init tr (race_state [] [] [] (live 0 None []) (live 0 None []))"
    and tr: "heard ''a'' tr = []" "\<forall>l\<in>set tr. quiet_label l" by blast
  have match: "matchesFilter L any_filter ex_event" by (simp add: matchesFilter_def ex_event_def)
  have r1: "watch_run L watch_init (tr @ [Heartbeat ''a'']) (race_state [] [] [] (live 1 None [?hb]) (live 0 None []))"
    by (rule run_to [OF r0 watch_step.heartbeat [where at = 0]]) (auto simp: race_defs)
  have "watch_run L watch_init ((tr @ [Heartbeat ''a'']) @ [Published ex_event])
      (race_state [ex_event] [0] [0] (live 1 None [?hb]) (live 0 None []))"
    by (rule run_to [OF r1 watch_step.publish])
      (simp add: race_state_def Publish_def offer_def match channel_capacity_def)
  then show ?thesis
    using tr
    by (intro exI conjI) (assumption, simp_all only: heard_snoc, simp_all add: heard_step_def quiet_label_def)
qed

lemma race_run:
  "\<exists>tr w st. watch_run L watch_init tr w \<and> w_streams w ''a'' = Some st \<and> map ev_Sequence (st_sent st) = [1, 1]"
proof -
  let ?hb = "control_event EVENT_HEARTBEAT 0 1" and ?ev = "\<lambda>n. ex_event\<lparr>ev_Sequence := n\<rparr>"
  from race_published obtain tr where r2: "watch_run L watch_init tr
      (race_state [ex_event] [0] [0] (live 1 None [?hb]) (live 0 None []))" by blast
  have r3: "watch_run L watch_init (tr @ [Taken ''a''])
      (race_state [?ev 2] [] [0] (live 2 (Some 0) [?hb]) (live 0 None []))"
    by (rule run_to [OF r2 watch_step.take_event [where as = "[]"]]) (auto simp: race_defs)
  have r4: "watch_run L watch_init ((tr @ [Taken ''a'']) @ [Taken ''b''])
      (race_state [?ev 1] [] [] (live 2 (Some 0) [?hb]) (live 1 (Some 0) []))"
    by (rule run_to [OF r3 watch_step.take_event [where as = "[]"]]) (auto simp: race_defs)
  have "watch_run L watch_init (((tr @ [Taken ''a'']) @ [Taken ''b'']) @ [Sent ''a''])
      (race_state [?ev 1] [] [] (live 2 None [?hb, ?ev 1]) (live 1 (Some 0) []))"
    by (rule run_to [OF r4 watch_step.send]) (auto simp: race_defs)
  moreover have "map ev_Sequence [?hb, ?ev 1] = [1, 1]" by (simp add: control_event_def)
  ultimately show ?thesis
    by (intro exI conjI) (assumption, simp add: race_state_def, simp)
qed

section \<open>Runs of queues\<close>

lemma kept:
  "filter broadcast evs = [] \<Longrightarrow> in_order (b\<lparr>wa_delivered := wa_delivered b @ evs\<rparr>) ms = in_order b ms"
  "wa_queue b = ev # q \<Longrightarrow> broadcast ev \<Longrightarrow>
    in_order b ms \<Longrightarrow> in_order (b\<lparr>wa_queue := q, wa_delivered := wa_delivered b @ [ev]\<rparr>) ms"
  "\<not> broadcast ev \<Longrightarrow> in_order (b\<lparr>wa_delivered := wa_delivered b @ [ev]\<rparr>) ms = in_order b ms"
  by (simp_all add: in_order_def received_def)

lemma run_in_order:
  assumes "queue_run L m0 tr m" and "m0 = (\<lambda>_. None)" and "broadcasts tr" and "m i = Some a"
  shows "in_order a (matching L (wa_filter a) (heard i tr))"
  using assms
proof (induction arbitrary: a rule: queue_run.induct)
  case (queue_nil m)
  then show ?case by simp
next
  case (queue_snoc m tr m1 l m2)
  have IH: "in_order b (matching L (wa_filter b) (heard i tr))" if "m1 i = Some b" for b
    using queue_snoc.IH [OF queue_snoc.prems(1) _ that] queue_snoc.prems(2) by (simp add: broadcasts_def)
  show ?case
    using queue_snoc.hyps(2) queue_snoc.prems(3)
  proof (cases rule: queue_step.cases)
    case (1 ev)
    then obtain b where b: "m1 i = Some b" "a = wa_offer L (plain ev) b" using queue_snoc.prems(3) by auto
    have "broadcast (plain ev)" using queue_snoc.prems(2) 1 by (simp add: broadcasts_def)
    then show ?thesis
      using in_order_offer [OF IH [OF b(1)], of "plain ev"] by (simp add: b(2) 1 heard_snoc heard_step_def)
  next
    case (2 j f)
    then show ?thesis
      using IH queue_snoc.prems(3)
      by (cases "j = i") (auto simp: heard_snoc heard_step_def in_order_def received_def matching_def)
  next
    case (3 j b evs)
    have "filter broadcast evs = []" using 3 by simp
    then show ?thesis
      using 3 IH queue_snoc.prems(3) by (cases "j = i") (auto simp: heard_snoc heard_step_def kept)
  next
    case (4 j b ev q)
    have "broadcast ev" if "j = i" using IH [of b] 4 that by (simp add: in_order_def)
    then show ?thesis
      using 4 IH queue_snoc.prems(3) by (cases "j = i") (auto simp: heard_snoc heard_step_def kept)
  next
    case (6 j b ev)
    then show ?thesis
      using IH queue_snoc.prems(3) by (cases "j = i") (auto simp: heard_snoc heard_step_def kept)
  qed (use IH queue_snoc.prems(3) in \<open>auto simp: heard_snoc heard_step_def split: if_splits\<close>)
qed

text \<open>
  C37. Events reach a stream in the order of their publication and only when they match its
  filter: what a stream has sent, is about to send and has in its channel is a subsequence of
  the matching events published since its subscription. As long as these are at most 256,
  the capacity of the channel, none is missing.
\<close>

theorem delivery_in_order:
  assumes "watch_run L watch_init tr w" and "\<forall>ev. Published ev \<in> set tr \<longrightarrow> broadcast ev"
    and "map_of (b_subscribers (w_bus w)) i = Some s" and "w_streams w i = Some st"
  shows "subseq (received (abs_stream (w_bus w) s st)) (filter (matchesFilter L (sb_Filter s)) (heard i tr))
    \<and> (length (filter (matchesFilter L (sb_Filter s)) (heard i tr)) \<le> 256 \<longrightarrow>
        received (abs_stream (w_bus w) s st) = filter (matchesFilter L (sb_Filter s)) (heard i tr))"
proof -
  have "queue_run L (\<lambda>_. None) tr (abs_watch w)"
    using run_refines [OF assms(1) watch_ok_init] by (simp add: abs_watch_init)
  moreover have "abs_watch w i = Some (abs_stream (w_bus w) s st)" using assms(3,4) by (simp add: abs_watch_def)
  moreover have "wa_filter (abs_stream (w_bus w) s st) = sb_Filter s" by (simp add: abs_stream_def)
  ultimately show ?thesis
    using run_in_order [of L "\<lambda>_. None" tr "abs_watch w" i] assms(2)
    by (simp add: broadcasts_def in_order_def matching_def channel_capacity_def)
qed

theorem delivery_in_order_witness:
  "\<exists>tr w s st. watch_run ex_lib watch_init tr w \<and> w_streams w ''a'' = Some st
     \<and> received (abs_stream (w_bus w) s st) = [plain ex_event]"
proof -
  let ?w = "race_state [ex_event] [0] [0] (live 1 None [control_event EVENT_HEARTBEAT 0 1]) (live 0 None [])"
  from race_published obtain tr where run: "watch_run ex_lib watch_init tr ?w"
    and heard: "heard ''a'' tr = [plain ex_event]" and quiet: "\<forall>l\<in>set tr. quiet_label l" by blast
  have pub: "\<forall>ev. Published ev \<in> set tr \<longrightarrow> broadcast ev"
    using quiet by (auto simp: quiet_label_def broadcast_def ex_event_def)
  have match: "matchesFilter ex_lib any_filter ex_event" by (simp add: matchesFilter_def ex_event_def)
  obtain s st where s: "map_of (b_subscribers (w_bus ?w)) ''a'' = Some s" "w_streams ?w ''a'' = Some st"
    "sb_Filter s = any_filter" by (simp add: race_state_def)
  from delivery_in_order [OF run pub s(1,2)]
  have "received (abs_stream (w_bus ?w) s st) = [plain ex_event]" by (simp add: heard s(3) match)
  with run s(2) show ?thesis by blast
qed

section \<open>Sequence numbers\<close>

text \<open>Runs in which no step of another stream comes between taking an event and sending it.\<close>

inductive serial_run :: "lib \<Rightarrow> watch \<Rightarrow> watch \<Rightarrow> bool" for L where
  serial_nil: "serial_run L w w"
| serial_step: "serial_run L w w1 \<Longrightarrow> watch_step L w1 l w2 \<Longrightarrow> \<forall>i. l \<noteq> Taken i \<and> l \<noteq> Sent i \<Longrightarrow>
    serial_run L w w2"
| serial_pair: "serial_run L w w1 \<Longrightarrow> watch_step L w1 (Taken i) w2 \<Longrightarrow> watch_step L w2 (Sent i) w3 \<Longrightarrow>
    serial_run L w w3"

definition well_numbered :: "watch \<Rightarrow> bool" where
  "well_numbered w \<longleftrightarrow> (\<forall>i st. w_streams w i = Some st \<longrightarrow>
     st_taken st = None \<and> numbered 0 (st_seq st) (st_sent st))"

lemma well_numbered_step:
  assumes "watch_step L w l w'" and "\<forall>i. l \<noteq> Taken i \<and> l \<noteq> Sent i" and "well_numbered w"
  shows "well_numbered w'"
  using assms
proof (induction rule: watch_step.induct)
  case (snapshot w i st nf c req f at dbs evs seq)
  then show ?case
    using snapshot_events_facts [OF snapshot(3)] by (simp add: well_numbered_def with_stream_def)
next
  case (heartbeat w i st at)
  have "numbered 0 (st_seq st + 1) (st_sent st @ [control_event EVENT_HEARTBEAT at (st_seq st + 1)])"
    using heartbeat
    by (intro numbered_append [of 0 "st_seq st"] numbered_one) (auto simp: well_numbered_def control_event_def)
  then show ?case using heartbeat by (simp add: well_numbered_def with_stream_def)
qed (auto simp: well_numbered_def with_stream_def numbered_def)

inductive_cases takenE: "watch_step L w (Taken i) w'"
inductive_cases sentE: "watch_step L w (Sent i) w'"

lemma well_numbered_pair:
  assumes "watch_step L w (Taken i) w1" and "watch_step L w1 (Sent i) w2" and "well_numbered w" and "watch_ok w"
  shows "well_numbered w2"
  using assms(1)
proof (rule takenE)
  fix st s a as
  assume st: "w_streams w i = Some st"
    and s: "map_of (b_subscribers (w_bus w)) i = Some s" "sb_Events s = a # as"
    and w1: "w1 = with_stream i (st\<lparr>st_seq := st_seq st + 1, st_taken := Some a\<rparr>)
      (w\<lparr>w_bus := stamp a (st_seq st + 1) (set_events i as (w_bus w))\<rparr>)"
  have a: "a < length (b_cells (w_bus w))" using assms(4) s unfolding watch_ok_def by fastforce
  have w2: "w2 = with_stream i (st\<lparr>st_seq := st_seq st + 1, st_taken := None,
      st_sent := st_sent st @ [b_cells (w_bus w1) ! a]\<rparr>) w1"
    using assms(2) by (rule sentE) (auto simp: w1 with_stream_def)
  have "ev_Sequence (b_cells (w_bus w1) ! a) = st_seq st + 1"
    using a by (simp add: w1 with_stream_def stamp_def)
  then have "numbered 0 (st_seq st + 1) (st_sent st @ [b_cells (w_bus w1) ! a])"
    using assms(3) st by (intro numbered_append [of 0 "st_seq st"] numbered_one) (auto simp: well_numbered_def)
  then show ?thesis
    using assms(3) unfolding w2 by (auto simp: well_numbered_def with_stream_def w1)
qed

lemma serial_run_numbered:
  "serial_run L w w' \<Longrightarrow> watch_ok w \<Longrightarrow> well_numbered w \<Longrightarrow> watch_ok w' \<and> well_numbered w'"
  by (induction rule: serial_run.induct)
    (blast intro: well_numbered_step well_numbered_pair watch_ok_step)+

lemma quiet_run_serial:
  "watch_run L w tr w' \<Longrightarrow> \<forall>l\<in>set tr. quiet_label l \<Longrightarrow> serial_run L w w'"
proof (induction rule: watch_run.induct)
  case (snoc w tr w1 l w2)
  have "\<forall>i. l \<noteq> Taken i \<and> l \<noteq> Sent i" using snoc.prems by (simp add: quiet_label_def)
  with snoc show ?case by (auto intro: serial_step)
qed (rule serial_nil)

text \<open>
  When no other stream's step comes between taking an event and sending it, every stream
  numbers what it sends consecutively from 1, its snapshot included. Because one event is
  shared by all streams and each writes its number into it, this does not hold in general:
  a run of two streams sends the number 1 twice on the first.
\<close>

theorem sequence_numbers:
  assumes "serial_run L watch_init w" and "w_streams w i = Some st"
  shows "map ev_Sequence (st_sent st) = [1..st_seq st]
    \<and> (\<exists>tr w' st'. watch_run L watch_init tr w' \<and> w_streams w' ''a'' = Some st'
        \<and> map ev_Sequence (st_sent st') = [1, 1])"
proof -
  have "well_numbered watch_init" by (simp add: well_numbered_def watch_init_def)
  then have "well_numbered w" using serial_run_numbered [OF assms(1) watch_ok_init] by blast
  then show ?thesis using assms(2) race_run by (auto simp: well_numbered_def numbered_def)
qed

theorem sequence_numbers_witness:
  "\<exists>w st. serial_run ex_lib watch_init w \<and> w_streams w ''a'' = Some st
     \<and> st_seq st = 1 \<and> map ev_Sequence (st_sent st) = [1]"
proof -
  let ?w = "race_state [ex_event] [0] [0] (live 1 None [control_event EVENT_HEARTBEAT 0 1]) (live 0 None [])"
  from race_published obtain tr where "watch_run ex_lib watch_init tr ?w" "\<forall>l\<in>set tr. quiet_label l" by blast
  then have run: "serial_run ex_lib watch_init ?w" by (rule quiet_run_serial)
  have st: "w_streams ?w ''a'' = Some (live 1 None [control_event EVENT_HEARTBEAT 0 1])"
    by (simp add: race_state_def)
  from sequence_numbers [OF run st] run st show ?thesis by (intro exI conjI) (assumption, assumption, simp_all)
qed

end
