(* ===== verification/FT_WatchList.thy ===== *)
theory FT_WatchList
  imports FT_WatchProps FT_ListTasks
begin

text \<open>
  The snapshot of a watch stream against the listing of the store: on a quiet database the
  loop over pages ends and sends every task of the listing once; and the filter of the stream
  accepts the tasks that the listing selects.
\<close>

section \<open>The snapshot is the listing\<close>

lemma watch_list_params:
  assumes "list_tasks_params L c (filterToListRequest req) = Inr p"
  shows "list_tasks_params L c (filterToListRequest req\<lparr>rl_PageToken := NoToken\<rparr>) = Inr (p\<lparr>lt_Cursor := TNoCursor\<rparr>)"
    and "list_tasks_params L c (filterToListRequest req\<lparr>rl_PageToken := PageToken k\<rparr>) = Inr (p\<lparr>lt_Cursor := k\<rparr>)"
    and "lt_Limit p = 200" and "lt_SortField p = []" and "lt_SortOrder p = []" and "lt_Labels p = rw_Labels req"
  using assms
  by (auto simp: list_tasks_params_def filterToListRequest_def thenE_Inr decodeCursor_def
      read_enum_unless_0_def clamp_page_size_def)

lemma list_preds_paging [simp]:
  "list_preds (p\<lparr>lt_Cursor := k\<rparr>) = list_preds p" "list_preds (p\<lparr>lt_Limit := n\<rparr>) = list_preds p"
  "list_preds (p\<lparr>lt_Labels := ls\<rparr>) = list_preds p" "list_preds (p\<lparr>lt_SortField := s\<rparr>) = list_preds p"
  "list_preds (p\<lparr>lt_SortOrder := s\<rparr>) = list_preds p"
  by (simp_all add: fun_eq_iff list_preds_def)

text \<open>The page of a request of the snapshot.\<close>

lemma watch_page:
  fixes d :: db and nf :: bool
  assumes p: "list_tasks_params L c (filterToListRequest req) = Inr p" and nolabels: "rw_Labels req = []"
  defines "page \<equiv> ListTasks_page nf p ByCreated False d 200"
    and "tok \<equiv> \<lambda>k. case k of None \<Rightarrow> NoToken | Some _ \<Rightarrow> PageToken (task_cursor_of False k)"
  shows "\<exists>pg. srv_ListTasks L e nf c (filterToListRequest req\<lparr>rl_PageToken := tok k\<rparr>) d
      = Inr (pg, if length (page k) = 200 then Some (task_cursor_of False (Some (page_key ByCreated False (last (page k))))) else None)
    \<and> pg_Items pg = map (\<lambda>t. srv_taskToProto L e d (with_edges d t)) (page k)
    \<and> (pg_HasMore pg \<longleftrightarrow> length (page k) = 200)"
proof -
  note ps = watch_list_params [OF p]
  let ?p = "p\<lparr>lt_Cursor := task_cursor_of False k\<rparr>"
  have params: "list_tasks_params L c (filterToListRequest req\<lparr>rl_PageToken := tok k\<rparr>) = Inr ?p"
    using ps(1,2) by (cases k) (simp_all add: tok_def task_cursor_of_def)
  have field: "sort_field_of [] = ByCreated" "sort_field_of (field_name ByCreated) = ByCreated"
    by (simp_all add: sort_field_of_def field_name_def)
  have list: "ListTasks nf ?p d = Inr (map (with_edges d) (page k), length (listed p d))"
    using ps(3-6) nolabels
    by (auto simp: ListTasks_def page_def ListTasks_page_def Let_def field listed_def comp_def
        task_cursor_of_def split: option.splits prod.splits)
  have cur: "task_cursor_of False (Some (page_key ByCreated False t)) = TCursor (t_id t) (SVTime (t_created t))" for t
    by (simp add: page_key_def sort_time_def task_cursor_of_def order_sign_def)
  have sortval: "taskSortValue ''created'' t = SVTime (t_created t)" for t by (simp add: taskSortValue_def)
  have "srv_ListTasks L e nf c (filterToListRequest req\<lparr>rl_PageToken := tok k\<rparr>) d
      = Inr (\<lparr>pg_Items = map (srv_taskToProto L e d) (map (with_edges d) (page k)),
          pg_TotalCount = int32 (int (length (listed p d))), pg_HasMore = (length (page k) = 200)\<rparr>,
        if length (page k) = 200 then Some (TCursor (t_id (last (page k))) (SVTime (t_created (last (page k))))) else None)"
    using ps(3-6) by (auto simp: srv_ListTasks_def params list with_code_def Let_def last_map sortval)
  then show ?thesis by (simp add: cur comp_def)
qed

lemma snapshot_pages_quiet:
  fixes d :: db and e :: env and nf :: bool
  assumes ok: "db_ok d" and p: "list_tasks_params L c (filterToListRequest req) = Inr p"
    and nolabels: "rw_Labels req = []"
  defines "rest \<equiv> \<lambda>k. after_cursor (page_key ByCreated False) k (sort_key (page_key ByCreated False) (listed p d))"
    and "tok \<equiv> \<lambda>k. case k of None \<Rightarrow> NoToken | Some _ \<Rightarrow> PageToken (task_cursor_of False k)"
    and "msg \<equiv> \<lambda>t. srv_taskToProto L e d (with_edges d t)"
  assumes "length (rest k) < n * 200" and "set_option k \<subseteq> page_key ByCreated False ` set (listed p d)"
  shows "snapshot_pages L nf c (filterToListRequest req) (tok k) seq (replicate n (e, d))
    = Some (initial_events e seq (map msg (rest k)), Inr (seq + int (length (rest k))))"
  using assms(7,8)
proof (induction n arbitrary: k seq)
  case (Suc n)
  let ?page = "ListTasks_page nf p ByCreated False d 200 k"
  let ?k' = "Some (page_key ByCreated False (last ?page))"
  obtain pg where pg: "srv_ListTasks L e nf c (filterToListRequest req\<lparr>rl_PageToken := tok k\<rparr>) d
      = Inr (pg, if length ?page = 200 then Some (task_cursor_of False ?k') else None)"
    "pg_Items pg = map msg ?page" "pg_HasMore pg \<longleftrightarrow> length ?page = 200"
    using watch_page [OF p nolabels, of e nf k d] unfolding tok_def msg_def by blast
  note step = task_pages.page_step [OF ok _ Suc.prems(2), of 200 nf, folded rest_def]
  show ?case
  proof (cases "length ?page < 200")
    case True
    then have "rest k = ?page" using step by (simp add: rest_def)
    with True show ?thesis using pg by (simp add: Let_def)
  next
    case False
    then have full: "rest k = ?page @ rest ?k'" "length ?page = 200"
      "page_key ByCreated False (last ?page) \<in> page_key ByCreated False ` set (listed p d)"
      using step by (simp_all add: rest_def)
    have "snapshot_pages L nf c (filterToListRequest req) (tok ?k') (seq + 200) (replicate n (e, d))
        = Some (initial_events e (seq + 200) (map msg (rest ?k')), Inr (seq + 200 + int (length (rest ?k'))))"
      using Suc.IH [of ?k' "seq + 200"] Suc.prems(1) full by simp
    moreover have "tok ?k' = PageToken (task_cursor_of False ?k')" by (simp add: tok_def)
    moreover have "initial_events e s (xs @ ys) = initial_events e s xs @ initial_events e (s + int (length xs)) ys"
      for s xs ys by (induction xs arbitrary: s) (simp_all add: algebra_simps)
    ultimately show ?thesis using pg full by (simp add: Let_def)
  qed
qed simp

lemma sort_key_same_order:
  assumes "\<And>x y. f x \<le> f y \<longleftrightarrow> g x \<le> g y"
  shows "sort_key f xs = sort_key g xs"
proof -
  have "insort_key f x ys = insort_key g x ys" for x ys
    by (induction ys) (simp_all add: assms)
  then show ?thesis by (induction xs) (simp_all add: sort_key_def)
qed

text \<open>
  The snapshot of a watch request without a task and without labels, on a database that
  does not change while it runs: the loop over pages of 200 ends within one page more than the
  tasks need, and sends every task that the listing of the request selects once, oldest first,
  numbered from 1.
\<close>

theorem snapshot_complete:
  assumes "db_ok d" and "list_tasks_params L c (filterToListRequest req) = Inr p"
    and "rw_Labels req = []" and "f_TaskID f = None" and "length (d_tasks d) < n * 200"
  shows "sendInitialSnapshot L nf c req f 0 (replicate n (e, d)) =
    (let ts = sort_key (\<lambda>t. (t_created t, t_id t)) (filter (list_preds p) (d_tasks d))
     in Some (initial_events e 0 (map (\<lambda>t. srv_taskToProto L e d (with_edges d t)) ts), Inr (int (length ts))))"
proof -
  have key: "sort_key (page_key ByCreated False) ts = sort_key (\<lambda>t. (t_created t, t_id t)) ts" for ts
    by (rule sort_key_same_order) (simp add: page_key_def sort_time_def order_sign_def less_eq_prod_def)
  have "length (listed p d) < n * 200"
    unfolding listed_def by (rule le_less_trans [OF length_filter_le assms(5)])
  then show ?thesis
    using snapshot_pages_quiet [OF assms(1-3), where k = None and seq = 0 and n = n and e = e and nf = nf]
    by (simp add: sendInitialSnapshot_def assms(4) after_cursor_def key listed_def Let_def)
qed

lemma ex_watch_params:
  "\<exists>p. list_tasks_params ex_lib open_access_ctx (filterToListRequest ex_watch) = Inr p
     \<and> list_preds p = (\<lambda>_. True)"
  by (simp add: list_tasks_params_def filterToListRequest_def ex_watch_def open_access_ctx_def
      RequireScope_def must_name_collection_def decodeCursor_def collection_filter_def
      read_enum_unless_0_def read_enum_def list_stage_def assignee_filter_def parse_opt_id_def
      list_preds_def opt_eq_def fun_eq_iff)

theorem snapshot_complete_witness:
  "map_option snd (sendInitialSnapshot ex_lib True open_access_ctx ex_watch any_filter 0 [(ex_env, ex_db)])
     = Some (Inr 4)"
proof -
  from ex_watch_params obtain p where
    p: "list_tasks_params ex_lib open_access_ctx (filterToListRequest ex_watch) = Inr p"
    and preds: "list_preds p = (\<lambda>_. True)" by blast
  have "rw_Labels ex_watch = []" "f_TaskID any_filter = None" "length (d_tasks ex_db) < 1 * 200"
    by (simp_all add: ex_watch_def any_filter_def ex_db_def)
  from snapshot_complete [OF ex_db_ok p this, of True ex_env] show ?thesis
    by (simp add: preds ex_db_def Let_def)
qed

section \<open>The filter is the listing\<close>

lemma srv_task_fields:
  "pt_CollectionId (srv_taskToProto L e d (with_edges d t)) = uuid_String L (t_collection t)"
  "pt_Phase (srv_taskToProto L e d (with_edges d t)) = phaseToProto (t_phase t)"
  "pt_Stage (srv_taskToProto L e d (with_edges d t)) = stageToProto (t_stage t)"
  "pt_Priority (srv_taskToProto L e d (with_edges d t)) = map_option priorityToProto (t_priority t)"
  "pt_Assignees (srv_taskToProto L e d (with_edges d t))
     = (case t_assignee t of None \<Rightarrow> [] | Some a \<Rightarrow> [uuid_String L a])"
  "pt_Labels (srv_taskToProto L e d (with_edges d t)) = t_labels t"
  by (simp_all add: srv_taskToProto_def taskToProto_def Let_def split: sum.split)

lemma watch_list_fields:
  assumes "list_tasks_params L c (filterToListRequest req) = Inr p"
  shows "lt_CollectionID p = parsed L (rw_CollectionId req)"
    and "lt_Phase p = enum_filter PhaseFromProto (rw_Phase req)"
    and "lt_Priority p = enum_filter PriorityFromProto (rw_Priority req)"
    and "lt_Stage p = (case rw_Stages req of [] \<Rightarrow> None | s # _ \<Rightarrow> Some (StageFromProto s))"
    and "lt_Unassigned p = (rw_Assignee req = Some ''none'')"
    and "lt_AssigneeID p = (if rw_Assignee req = Some ''none'' then None else parsed L (rw_Assignee req))"
    and "lt_Type p = None" and "lt_ParentTaskID p = None"
proof -
  have enum: "read_enum_unless_0 names conv v = Inr x \<Longrightarrow> x = enum_filter conv v" for names v x
    and conv :: "int \<Rightarrow> 'b"
    by (auto simp: read_enum_unless_0_def read_enum_def enum_filter_def thenE_Inr split: option.splits if_splits)
  have coll: "collection_filter L c v = Inr x \<Longrightarrow> x = parsed L v" for v x
    by (auto simp: collection_filter_def parsed_def parse_id_def thenE_Inr split: option.splits)
  have stage: "list_stage v = Inr x \<Longrightarrow> x = (case v of [] \<Rightarrow> None | s # _ \<Rightarrow> Some (StageFromProto s))" for v x
    by (auto simp: list_stage_def thenE_Inr)
  have asg: "assignee_filter L v = Inr (u, x) \<Longrightarrow> u = (v = Some ''none'')
      \<and> x = (if v = Some ''none'' then None else parsed L v)" for v u x
    by (auto simp: assignee_filter_def parsed_def parse_id_def thenE_Inr split: option.splits if_splits)
  from assms obtain coll ph st u a pr where
    "collection_filter L c (rw_CollectionId req) = Inr coll"
    "read_enum_unless_0 TaskPhase_names PhaseFromProto (rw_Phase req) = Inr ph"
    "list_stage (rw_Stages req) = Inr st" "assignee_filter L (rw_Assignee req) = Inr (u, a)"
    "read_enum_unless_0 TaskPriority_names PriorityFromProto (rw_Priority req) = Inr pr"
    "lt_CollectionID p = coll" "lt_Phase p = ph" "lt_Stage p = st" "lt_Unassigned p = u"
    "lt_AssigneeID p = a" "lt_Priority p = pr" "lt_Type p = None" "lt_ParentTaskID p = None"
    by (auto simp: list_tasks_params_def filterToListRequest_def thenE_Inr parse_opt_id_def)
  then show "lt_CollectionID p = parsed L (rw_CollectionId req)"
    "lt_Phase p = enum_filter PhaseFromProto (rw_Phase req)"
    "lt_Priority p = enum_filter PriorityFromProto (rw_Priority req)"
    "lt_Stage p = (case rw_Stages req of [] \<Rightarrow> None | s # _ \<Rightarrow> Some (StageFromProto s))"
    "lt_Unassigned p = (rw_Assignee req = Some ''none'')"
    "lt_AssigneeID p = (if rw_Assignee req = Some ''none'' then None else parsed L (rw_Assignee req))"
    "lt_Type p = None" "lt_ParentTaskID p = None"
    using enum coll stage asg by blast+
qed

text \<open>
  The two implementations of the filter agree: for a request without a task and with at
  most one stage, which is not the unspecified one, the predicate that the event bus evaluates
  on the message of a task accepts exactly the tasks that the listing of the snapshot selects.
\<close>

theorem watch_filter_is_list_filter:
  assumes "uuid_laws L" and "list_tasks_params L c (filterToListRequest req) = Inr p"
    and "rw_TaskId req = None" and "rw_Stages req = [] \<or> (\<exists>s. s \<noteq> 0 \<and> rw_Stages req = [s])"
    and "declared_stage (t_stage t)"
    and "ev_Task ev = Some (srv_taskToProto L e d (with_edges d t))"
  shows "matchesFilter L (buildFilter L req) ev \<longleftrightarrow>
    list_preds p t \<and> hasAllLabels (t_labels t) (rw_Labels req)"
proof -
  have rt: "uuid_Parse L (uuid_String L u) = Some u" for u using assms(1) by (simp add: uuid_laws_def)
  let ?m = "srv_taskToProto L e d (with_edges d t)"
  have coll: "(case x of None \<Rightarrow> True | Some i \<Rightarrow> (case uuid_Parse L (pt_CollectionId ?m) of
      None \<Rightarrow> False | Some y \<Rightarrow> y = i)) = opt_eq x (t_collection t)" for x
    by (auto simp: srv_task_fields rt opt_eq_def split: option.split)
  have phase: "(case x of None \<Rightarrow> True | Some q \<Rightarrow> PhaseFromProto (pt_Phase ?m) = q) = opt_eq x (t_phase t)" for x
    by (auto simp: srv_task_fields opt_eq_def split: option.split)
  have stage: "(f_Stages (buildFilter L req) = [] \<or>
      list_ex (\<lambda>s. StageFromProto (pt_Stage ?m) = s) (f_Stages (buildFilter L req))) = opt_eq (lt_Stage p) (t_stage t)"
    using assms(4,5) by (auto simp: srv_task_fields buildFilter_def opt_eq_def watch_list_fields(4) [OF assms(2)])
  have asg: "(case x of None \<Rightarrow> True | Some i \<Rightarrow> list_ex (\<lambda>a. uuid_Parse L a = Some i) (pt_Assignees ?m))
      = (x = None \<or> t_assignee t = x)" for x
    by (auto simp: srv_task_fields rt split: option.split)
  have none: "(pt_Assignees ?m = []) = (t_assignee t = None)"
    by (auto simp: srv_task_fields split: option.split)
  have prio: "(case x of None \<Rightarrow> True | Some q \<Rightarrow> (case pt_Priority ?m of None \<Rightarrow> False
      | Some r \<Rightarrow> PriorityFromProto r = q)) = (x = None \<or> t_priority t = x)" for x
    by (auto simp: srv_task_fields split: option.split)
  have labels: "list_all (List.member (pt_Labels ?m)) (rw_Labels req) = hasAllLabels (t_labels t) (rw_Labels req)"
    by (simp add: srv_task_fields hasAllLabels_def)
  have fields: "f_TaskID (buildFilter L req) = None" "f_CollectionID (buildFilter L req) = lt_CollectionID p"
    "f_Phase (buildFilter L req) = lt_Phase p" "f_AssigneeID (buildFilter L req) = lt_AssigneeID p"
    "f_Unassigned (buildFilter L req) = lt_Unassigned p" "f_Labels (buildFilter L req) = rw_Labels req"
    "f_Priority (buildFilter L req) = lt_Priority p"
    using assms(3) watch_list_fields [OF assms(2)] by (simp_all add: buildFilter_def parsed_def)
  show ?thesis
    unfolding matchesFilter_def assms(6) option.case stage fields coll phase asg none prio labels
    using watch_list_fields(7,8) [OF assms(2)] by (auto simp: list_preds_def opt_eq_def)
qed

theorem watch_filter_is_list_filter_witness:
  "matchesFilter ex_lib (buildFilter ex_lib ex_watch)
     (task_ev ex_env EVENT_UPDATED (srv_taskToProto ex_lib ex_env ex_db (with_edges ex_db ex10)))"
proof -
  from ex_watch_params obtain p where
    p: "list_tasks_params ex_lib open_access_ctx (filterToListRequest ex_watch) = Inr p"
    and preds: "list_preds p = (\<lambda>_. True)" by blast
  have "rw_TaskId ex_watch = None" "rw_Stages ex_watch = [] \<or> (\<exists>s. s \<noteq> 0 \<and> rw_Stages ex_watch = [s])"
    "declared_stage (t_stage ex10)"
    by (simp_all add: ex_watch_def declared_stage_def)
  from watch_filter_is_list_filter [OF ex_lib_laws p this] show ?thesis
    by (simp add: task_ev_def preds hasAllLabels_def ex_watch_def)
qed

end
