(* ===== verification/FT_Documents.thy ===== *)
theory FT_Documents
  imports FT_Import FT_Service
begin

text \<open>
  Export and import of a collection as a document (\<open>internal/server/export_import.go\<close>): the
  document, the handler that fills it from the store, and the handler that turns a document
  into the parameters of the store's bulk import. The text of a document is made and read by
  \<open>encoding/json\<close>; its functions are parameters (\<open>doc_codec\<close>). A string of the change log is
  kept as the rendered value it stands for.
\<close>

section \<open>The document\<close>

record exportCollection =
  xc_ID :: string
  xc_Name :: string
  xc_Description :: string
  xc_Platform :: string
  xc_RemoteData :: "jmap option"
  xc_CreatedAt :: time
  xc_UpdatedAt :: time

record exportUser =
  xu_ID :: string
  xu_DisplayName :: string
  xu_Email :: "string option"
  xu_Type :: string
  xu_Status :: string

record exportTask =
  xt_ID :: string
  xt_Title :: string
  xt_Description :: string
  xt_Phase :: string
  xt_Stage :: string
  xt_HoldReason :: "string option"
  xt_NativeLabel :: string
  xt_Type :: string
  xt_Priority :: "string option"
  xt_Rank :: "int option"
  xt_AssigneeID :: "string option"
  xt_ParentTaskID :: "string option"
  xt_StartDate :: "time option"
  xt_DueDate :: "time option"
  xt_ClosedAt :: "time option"
  xt_CreatedAt :: time
  xt_UpdatedAt :: time
  xt_AcceptanceCriteria :: "string option"
  xt_Labels :: "string list"
  xt_Repo :: string
  xt_Branch :: string
  xt_CIStatus :: "string option"
  xt_PullRequests :: "(string \<times> string) list list"
  xt_RemoteData :: "jmap option"

record exportComment =
  xm_ID :: string
  xm_TaskID :: string
  xm_AuthorID :: string
  xm_Body :: string
  xm_CreatedAt :: time
  xm_UpdatedAt :: time

record exportRelationship =
  xr_ID :: string
  xr_SourceTaskID :: string
  xr_TargetTaskID :: string
  xr_Type :: string

record exportChange =
  xh_ID :: string
  xh_TaskID :: string
  xh_AuthorID :: string
  xh_FieldName :: string
  xh_OldValue :: rendered
  xh_NewValue :: rendered
  xh_CreatedAt :: time

record exportDocument =
  doc_FormatVersion :: int
  doc_ExportedAt :: time
  doc_Generator :: string
  doc_Collection :: exportCollection
  doc_Users :: "exportUser list"
  doc_Tasks :: "exportTask list"
  doc_Comments :: "exportComment list"
  doc_Relationships :: "exportRelationship list"
  doc_Changes :: "exportChange list"

section \<open>Export\<close>

definition taskExport :: "lib \<Rightarrow> task \<Rightarrow> exportTask" where
  "taskExport L t =
    \<lparr>xt_ID = uuid_String L (t_id t), xt_Title = t_title t, xt_Description = t_description t,
     xt_Phase = phase_str (t_phase t), xt_Stage = stage_str (t_stage t),
     xt_HoldReason = map_option hold_reason_str (t_hold t), xt_NativeLabel = t_native_label t,
     xt_Type = t_type t, xt_Priority = map_option priority_str (t_priority t), xt_Rank = t_rank t,
     xt_AssigneeID = map_option (uuid_String L) (t_assignee t),
     xt_ParentTaskID = map_option (uuid_String L) (t_parent t), xt_StartDate = t_start t,
     xt_DueDate = t_due t, xt_ClosedAt = t_closed t, xt_CreatedAt = t_created t,
     xt_UpdatedAt = t_updated t, xt_AcceptanceCriteria = t_acceptance t, xt_Labels = t_labels t,
     xt_Repo = t_repo t, xt_Branch = t_branch t, xt_CIStatus = map_option ci_status_str (t_ci t),
     xt_PullRequests = t_prs t,
     xt_RemoteData = sanitizeRemoteData (tables L) (url_Parse L) (t_remote t)\<rparr>"

definition commentExport :: "lib \<Rightarrow> comment \<Rightarrow> exportComment" where
  "commentExport L c = \<lparr>xm_ID = uuid_String L (cm_id c), xm_TaskID = uuid_String L (cm_task c),
     xm_AuthorID = uuid_String L (cm_author c), xm_Body = cm_body c, xm_CreatedAt = cm_created c,
     xm_UpdatedAt = cm_updated c\<rparr>"

definition changeExport :: "lib \<Rightarrow> change \<Rightarrow> exportChange" where
  "changeExport L c = \<lparr>xh_ID = uuid_String L (ch_id c), xh_TaskID = uuid_String L (ch_task c),
     xh_AuthorID = uuid_String L (ch_author c), xh_FieldName = ch_field c, xh_OldValue = ch_old c,
     xh_NewValue = ch_new c, xh_CreatedAt = ch_created c\<rparr>"

definition relExport :: "lib \<Rightarrow> rel \<Rightarrow> exportRelationship" where
  "relExport L r = \<lparr>xr_ID = uuid_String L (r_id r), xr_SourceTaskID = uuid_String L (r_src r),
     xr_TargetTaskID = uuid_String L (r_tgt r), xr_Type = rel_type_str (r_type r)\<rparr>"

definition userExport :: "lib \<Rightarrow> user \<Rightarrow> exportUser" where
  "userExport L u = \<lparr>xu_ID = uuid_String L (u_id u), xu_DisplayName = u_name u,
     xu_Email = u_email u, xu_Type = u_type u, xu_Status = u_status u\<rparr>"

definition collExport :: "lib \<Rightarrow> collection \<Rightarrow> exportCollection" where
  "collExport L c = \<lparr>xc_ID = uuid_String L (co_id c), xc_Name = co_name c,
     xc_Description = co_description c, xc_Platform = platform_str (co_platform c),
     xc_RemoteData = sanitizeRemoteData (tables L) (url_Parse L) (co_remote c),
     xc_CreatedAt = co_created c, xc_UpdatedAt = co_updated c\<rparr>"

text \<open>
  Grouping the rows by task and walking the tasks in their order. Rows of a task that the first
  query did not see are left out.
\<close>

definition grouped :: "('r \<Rightarrow> uuid) \<Rightarrow> task list \<Rightarrow> 'r list \<Rightarrow> 'r list" where
  "grouped task_of ts rs = concat (map (\<lambda>t. filter (\<lambda>r. task_of r = t_id t) rs) ts)"

text \<open>
  The five queries are not one transaction: each reads a database of its own. The users are
  listed in the order of their identifiers.
\<close>

record export_dbs =
  xd_tasks :: db
  xd_comments :: db
  xd_changes :: db
  xd_rels :: db
  xd_users :: db

definition export_users :: "lib \<Rightarrow> uuid list \<Rightarrow> db \<Rightarrow> code + exportUser list" where
  "export_users L ids d =
    (let us = GetUsersByIDs ids d in
     mapE (\<lambda>i. case find (\<lambda>u. u_id u = i) us of
         None \<Rightarrow> Inl (storeErr ErrNotFound) | Some u \<Rightarrow> Inr (userExport L u)) ids)"

definition srv_ExportCollection ::
  "lib \<Rightarrow> env \<Rightarrow> ctx \<Rightarrow> string \<Rightarrow> bool \<Rightarrow> db \<Rightarrow> export_dbs \<Rightarrow> code + (exportDocument \<times> nat)" where
  "srv_ExportCollection L e c reqId includeChanges d0 ds =
    thenE (RequireScope c ScopeCollectionRead) (\<lambda>_.
    thenE (parse_id L reqId) (\<lambda>cid.
    thenE (RequireCollectionAccess c cid) (\<lambda>_.
    thenE (with_code storeErr (GetCollection cid d0)) (\<lambda>coll.
    thenE (checkE (co_platform coll = PlatformFarmtable) FailedPrecondition) (\<lambda>_.
    let tasks = ListAllTasksForCollection cid (xd_tasks ds);
        comments = grouped cm_task tasks (ListAllCommentsForCollection cid (xd_comments ds));
        changes = (if includeChanges
          then grouped ch_task tasks (ListAllChangesForCollection cid (xd_changes ds)) else []);
        rels = ListAllRelationshipsForCollection cid (xd_rels ds);
        inside = filter (\<lambda>r. List.member (map t_id tasks) (r_src r) \<and> List.member (map t_id tasks) (r_tgt r)) rels;
        userIDs = sort (remdups (List.map_filter t_assignee tasks @ map cm_author comments
          @ map ch_author changes)) in
    thenE (export_users L userIDs (xd_users ds)) (\<lambda>users.
    Inr (\<lparr>doc_FormatVersion = 2, doc_ExportedAt = now e, doc_Generator = ''farmtable'',
          doc_Collection = collExport L coll, doc_Users = users,
          doc_Tasks = map (taskExport L) tasks, doc_Comments = map (commentExport L) comments,
          doc_Relationships = map (relExport L) inside, doc_Changes = map (changeExport L) changes\<rparr>,
         length rels - length inside)))))))"

section \<open>Reading the enumerations of a document\<close>

definition parseTaskPhase :: "string \<Rightarrow> phase option" where
  "parseTaskPhase s = (if s = ''open'' then Some PhaseOpen else if s = ''in_progress'' then Some PhaseInProgress
     else if s = ''on_hold'' then Some PhaseOnHold else if s = ''closed'' then Some PhaseClosed else None)"

definition isRemovedNativeStage :: "string \<Rightarrow> bool" where
  "isRemovedNativeStage s = List.member
    [''backlog'', ''ready'', ''blocked'', ''waiting_for_input'', ''deferred'', ''scheduled''] s"

definition parseNativeTaskStage :: "string \<Rightarrow> stage option" where
  "parseNativeTaskStage s = (if s = [] then Some StageTriage
     else if declared_stage (stage_of_str s) then Some (stage_of_str s) else None)"

definition parseTaskPriority :: "string \<Rightarrow> priority option" where
  "parseTaskPriority s = (if s = ''urgent'' then Some PriorityUrgent else if s = ''high'' then Some PriorityHigh
     else if s = ''normal'' then Some PriorityNormal else if s = ''low'' then Some PriorityLow else None)"

definition parseTaskCIStatus :: "string \<Rightarrow> ci_status option" where
  "parseTaskCIStatus s =
    (if s = ''unknown'' then Some CiStatusUnknown else if s = ''pending'' then Some CiStatusPending
     else if s = ''running'' then Some CiStatusRunning else if s = ''passed'' then Some CiStatusPassed
     else if s = ''failed'' then Some CiStatusFailed else None)"

definition parseRelationshipType :: "string \<Rightarrow> rel_type option" where
  "parseRelationshipType s =
    (if s = ''blocks'' then Some TypeBlocks else if s = ''blocked_by'' then Some TypeBlockedBy
     else if s = ''relates_to'' then Some TypeRelatesTo else if s = ''duplicates'' then Some TypeDuplicates
     else if s = ''duplicated_by'' then Some TypeDuplicatedBy else None)"

text \<open>\<open>task.HoldReasonValidator\<close>.\<close>

definition hold_reason_of_str :: "string \<Rightarrow> hold_reason option" where
  "hold_reason_of_str s = (if s = ''waiting_for_input'' then Some HoldReasonWaitingForInput
     else if s = ''deferred'' then Some HoldReasonDeferred else None)"

lemma parse_enum_str [simp]:
  "parseTaskPhase (phase_str p) = Some p" "parseTaskPriority (priority_str r) = Some r"
  "parseTaskCIStatus (ci_status_str c) = Some c" "parseRelationshipType (rel_type_str ty) = Some ty"
  "hold_reason_of_str (hold_reason_str h) = Some h"
  "declared_stage s \<Longrightarrow> parseNativeTaskStage (stage_str s) = Some s"
proof -
  show "parseTaskPhase (phase_str p) = Some p" by (cases p) (simp_all add: parseTaskPhase_def phase_str_def)
  show "parseTaskPriority (priority_str r) = Some r"
    by (cases r) (simp_all add: parseTaskPriority_def priority_str_def)
  show "parseTaskCIStatus (ci_status_str c) = Some c"
    by (cases c) (simp_all add: parseTaskCIStatus_def ci_status_str_def)
  show "parseRelationshipType (rel_type_str ty) = Some ty"
    by (cases ty) (simp_all add: parseRelationshipType_def rel_type_str_def)
  show "hold_reason_of_str (hold_reason_str h) = Some h"
    by (cases h) (simp_all add: hold_reason_of_str_def hold_reason_str_def)
  show "declared_stage s \<Longrightarrow> parseNativeTaskStage (stage_str s) = Some s"
    by (cases s) (simp_all add: parseNativeTaskStage_def declared_stage_def stage_str_def stage_of_str_def)
qed

end
