(* ===== verification/FT_Beads.thy ===== *)
theory FT_Beads
  imports FT_Documents
begin

text \<open>
  Import of a Beads issue export (\<open>internal/server/beads_import.go\<close>): the detection of the
  format, the lines of the file, the conversion of the issues to a document, and the removal
  of duplicate relationships. Decoding one line of JSON is a parameter. Go visits the map of
  users in any order; the document here lists them in the order of their first appearance.
\<close>

record beadsDependency =
  bd_IssueID :: string
  bd_DependsOnID :: string
  bd_Type :: string

record beadsComment =
  bc_Author :: string
  bc_Text :: string
  bc_CreatedAt :: time

record beadsIssue =
  bi_Type :: string
  bi_ID :: string
  bi_Title :: string
  bi_Description :: string
  bi_Status :: string
  bi_Priority :: "int option"
  bi_IssueType :: string
  bi_Assignee :: string
  bi_Owner :: string
  bi_Labels :: "string list"
  bi_Dependencies :: "beadsDependency list"
  bi_AcceptanceCriteria :: string
  bi_Design :: string
  bi_Notes :: string
  bi_CreatedAt :: time
  bi_UpdatedAt :: time
  bi_ClosedAt :: "time option"
  bi_StartedAt :: "time option"
  bi_DueAt :: "time option"
  bi_Comments :: "beadsComment list"

text \<open>
  The functions of \<open>encoding/json\<close> on the types of this package: writing and reading a
  document, whether a text is one object with a format version, and the type and title of a
  line, or the issue on it, when it parses.
\<close>

record doc_codec =
  j_Marshal :: "exportDocument \<Rightarrow> string"
  j_Decode :: "string \<Rightarrow> exportDocument option"
  j_HasVersion :: "string \<Rightarrow> bool"
  j_Probe :: "string \<Rightarrow> (string \<times> string) option"
  j_Issue :: "string \<Rightarrow> beadsIssue option"

datatype import_warning =
    AmbiguousEmail string nat bool | UsersCreated nat bool
  | LineSkippedJSON nat | LineSkippedTitle nat | ParentNotFound string string

section \<open>Lines\<close>

text \<open>
  \<open>bufio.Scanner\<close> with \<open>ScanLines\<close> and a buffer of 10 MB: the lines, without their end,
  up to one that does not fit; the flag is whether all did.
\<close>

definition max_line :: nat where "max_line = 10 * 1024 * 1024"

fun split_lines :: "string \<Rightarrow> string \<Rightarrow> string list" where
  "split_lines acc [] = (if acc = [] then [] else [acc])"
| "split_lines acc (c # s) = (if c = CHR 0x0A then acc # split_lines [] s else split_lines (acc @ [c]) s)"

definition drop_cr :: "string \<Rightarrow> string" where
  "drop_cr l = (if l \<noteq> [] \<and> last l = CHR 0x0D then butlast l else l)"

definition scan_lines :: "string \<Rightarrow> string list \<times> bool" where
  "scan_lines s = (let ls = split_lines [] s; fits = takeWhile (\<lambda>l. length l < max_line) ls
     in (map drop_cr fits, length fits = length ls))"

fun parse_lines :: "doc_codec \<Rightarrow> nat \<Rightarrow> string list \<Rightarrow> beadsIssue list \<times> import_warning list" where
  "parse_lines J n [] = ([], [])"
| "parse_lines J n (l # ls) =
    (let (issues, ws) = parse_lines J (Suc n) ls; line = TrimSpace l in
     if line = [] then (issues, ws)
     else case j_Issue J line of
         None \<Rightarrow> (issues, LineSkippedJSON n # ws)
       | Some i \<Rightarrow>
           if bi_Type i \<noteq> [] \<and> bi_Type i \<noteq> ''issue'' then (issues, ws)
           else if bi_Title i = [] then (issues, LineSkippedTitle n # ws)
           else (i # issues, ws))"

definition parseBeadsJSONL :: "doc_codec \<Rightarrow> string \<Rightarrow> code + (beadsIssue list \<times> import_warning list)" where
  "parseBeadsJSONL J data =
    (let (ls, complete) = scan_lines data; (issues, ws) = parse_lines J 1 ls in
     if \<not> complete then Inl InvalidArgument
     else if issues = [] then Inl InvalidArgument
     else Inr (issues, ws))"

text \<open>The first line that is not blank decides.\<close>

definition detectImportFormat :: "doc_codec \<Rightarrow> string \<Rightarrow> string" where
  "detectImportFormat J data =
    (let trimmed = TrimSpace data in
     if trimmed = [] then []
     else if hd trimmed = CHR ''{'' \<and> j_HasVersion J trimmed then ''farmtable''
     else (case find (\<lambda>l. l \<noteq> []) (map TrimSpace (fst (scan_lines trimmed))) of
         None \<Rightarrow> []
       | Some line \<Rightarrow>
           if hd line \<noteq> CHR ''{'' then []
           else (case j_Probe J line of
               None \<Rightarrow> []
             | Some (ty, title) \<Rightarrow> if ty = ''issue'' \<or> title \<noteq> [] then ''beads'' else [])))"

section \<open>Fields\<close>

definition beadsStatusToTaskState :: "string \<Rightarrow> string \<times> string \<times> string option" where
  "beadsStatusToTaskState status =
    (if status = ''open'' then (''open'', ''accepted'', None)
     else if status = ''in_progress'' \<or> status = ''hooked'' then (''in_progress'', ''working'', None)
     else if status = ''blocked'' then (''open'', ''accepted'', Some ''waiting_for_input'')
     else if status = ''deferred'' then (''open'', ''accepted'', Some ''deferred'')
     else if status = ''closed'' then (''closed'', ''completed'', None)
     else if status = ''pinned'' then (''open'', ''accepted'', None)
     else (''open'', ''triage'', None))"

definition beadsPriorityToFarmtable :: "int \<Rightarrow> string option" where
  "beadsPriorityToFarmtable p =
    (if p = 0 then Some ''urgent'' else if p = 1 then Some ''high'' else if p = 2 then Some ''normal''
     else if p = 3 then Some ''low'' else if p \<ge> 4 then Some ''low'' else None)"

definition beadsTypeToFarmtable :: "string \<Rightarrow> string" where
  "beadsTypeToFarmtable ty = (if ty = ''bug'' then ''bug'' else if ty = ''epic'' then ''epic''
     else if ty = ''story'' then ''story'' else if ty = ''subtask'' then ''subtask'' else ''task'')"

definition blank_line :: string where "blank_line = [CHR 0x0A, CHR 0x0A]"

definition append_part :: "string \<Rightarrow> string \<Rightarrow> string \<Rightarrow> string" where
  "append_part title part desc = (if part = [] then desc
     else desc @ (if desc \<noteq> [] then blank_line else []) @ ''## '' @ title @ blank_line @ part)"

definition beads_description :: "beadsIssue \<Rightarrow> string" where
  "beads_description i =
    append_part ''Notes'' (bi_Notes i) (append_part ''Design'' (bi_Design i) (bi_Description i))"

text \<open>The relationship of a dependency: its kind, and whether its ends are exchanged.\<close>

definition beads_rel :: "string \<Rightarrow> rel_type \<times> bool" where
  "beads_rel ty = (if ty = ''blocks'' then (TypeBlocks, True)
     else if ty = ''duplicates'' then (TypeDuplicates, False) else (TypeRelatesTo, False))"

section \<open>Conversion\<close>

record beads_state =
  bs_users :: "(string \<times> string) list"
  bs_tasks :: "exportTask list"
  bs_comments :: "exportComment list"
  bs_rels :: "exportRelationship list"
  bs_warnings :: "import_warning list"
  bs_next :: nat

definition new_uuid :: "lib \<Rightarrow> env \<Rightarrow> nat \<Rightarrow> string" where
  "new_uuid L e k = uuid_String L (uuid_at e k)"

definition beads_ids :: "lib \<Rightarrow> env \<Rightarrow> nat \<Rightarrow> beadsIssue list \<Rightarrow> (string \<times> string) list" where
  "beads_ids L e k issues = fold (\<lambda>(j, i) m. AList.update (bi_ID i) (new_uuid L e (k + j)) m)
     (enumerate 0 issues) []"

definition ensureUser :: "lib \<Rightarrow> env \<Rightarrow> string \<Rightarrow> beads_state \<Rightarrow> beads_state" where
  "ensureUser L e name s =
    (if name = [] \<or> map_of (bs_users s) name \<noteq> None then s
     else s\<lparr>bs_users := bs_users s @ [(name, new_uuid L e (bs_next s))], bs_next := Suc (bs_next s)\<rparr>)"

definition collect_users :: "lib \<Rightarrow> env \<Rightarrow> beadsIssue \<Rightarrow> beads_state \<Rightarrow> beads_state" where
  "collect_users L e i s = fold (ensureUser L e) ([bi_Assignee i, bi_Owner i] @ map bc_Author (bi_Comments i)) s"

definition parent_entries :: "beadsIssue \<Rightarrow> string list" where
  "parent_entries i = map bd_DependsOnID
     (filter (\<lambda>dep. bd_Type dep = ''parent-child'' \<and> bd_IssueID dep = bi_ID i) (bi_Dependencies i))"

text \<open>The parents of all issues with this identifier, the last one counts.\<close>

definition parent_map :: "beadsIssue list \<Rightarrow> string \<Rightarrow> string option" where
  "parent_map issues i =
    (let ps = concat (map parent_entries (filter (\<lambda>x. bi_ID x = i) issues)) in
     if ps = [] then None else Some (last ps))"

definition beads_task ::
  "(string \<times> string) list \<Rightarrow> (string \<times> string) list \<Rightarrow> string option \<Rightarrow> string \<Rightarrow> beadsIssue \<Rightarrow> exportTask" where
  "beads_task ids users parent taskUUID i =
    (let (ph, st, hold) = beadsStatusToTaskState (bi_Status i) in
     \<lparr>xt_ID = taskUUID, xt_Title = bi_Title i, xt_Description = beads_description i, xt_Phase = ph,
      xt_Stage = st, xt_HoldReason = hold, xt_NativeLabel = bi_Status i,
      xt_Type = beadsTypeToFarmtable (bi_IssueType i),
      xt_Priority = (case bi_Priority i of None \<Rightarrow> None | Some p \<Rightarrow> beadsPriorityToFarmtable p),
      xt_Rank = None,
      xt_AssigneeID = (if bi_Assignee i = [] then None else map_of users (bi_Assignee i)),
      xt_ParentTaskID = (case parent of None \<Rightarrow> None | Some p \<Rightarrow> map_of ids p),
      xt_StartDate = bi_StartedAt i, xt_DueDate = bi_DueAt i, xt_ClosedAt = bi_ClosedAt i,
      xt_CreatedAt = bi_CreatedAt i, xt_UpdatedAt = bi_UpdatedAt i,
      xt_AcceptanceCriteria = (if bi_AcceptanceCriteria i = [] then None else Some (bi_AcceptanceCriteria i)),
      xt_Labels = bi_Labels i, xt_Repo = [], xt_Branch = [], xt_CIStatus = None,
      xt_PullRequests = [], xt_RemoteData = None\<rparr>)"

definition add_comment :: "lib \<Rightarrow> env \<Rightarrow> string \<Rightarrow> beadsComment \<Rightarrow> beads_state \<Rightarrow> beads_state" where
  "add_comment L e taskUUID c s =
    (let name = (if bc_Author c = [] then ''Unknown'' else bc_Author c); s1 = ensureUser L e name s in
     s1\<lparr>bs_comments := bs_comments s1 @ [\<lparr>xm_ID = new_uuid L e (bs_next s1), xm_TaskID = taskUUID,
          xm_AuthorID = (case map_of (bs_users s1) name of None \<Rightarrow> [] | Some u \<Rightarrow> u), xm_Body = bc_Text c,
          xm_CreatedAt = bc_CreatedAt c, xm_UpdatedAt = bc_CreatedAt c\<rparr>],
        bs_next := Suc (bs_next s1)\<rparr>)"

definition add_dependency ::
  "lib \<Rightarrow> env \<Rightarrow> (string \<times> string) list \<Rightarrow> beadsDependency \<Rightarrow> beads_state \<Rightarrow> beads_state" where
  "add_dependency L e ids dep s =
    (if bd_Type dep = ''parent-child'' then s
     else case (map_of ids (bd_IssueID dep), map_of ids (bd_DependsOnID dep)) of
         (Some src, Some tgt) \<Rightarrow>
           (let (ty, swap) = beads_rel (bd_Type dep) in
            s\<lparr>bs_rels := bs_rels s @ [\<lparr>xr_ID = new_uuid L e (bs_next s),
                 xr_SourceTaskID = (if swap then tgt else src),
                 xr_TargetTaskID = (if swap then src else tgt), xr_Type = rel_type_str ty\<rparr>],
               bs_next := Suc (bs_next s)\<rparr>)
       | _ \<Rightarrow> s)"

definition convert_issue ::
  "lib \<Rightarrow> env \<Rightarrow> (string \<times> string) list \<Rightarrow> (string \<Rightarrow> string option) \<Rightarrow> beadsIssue \<Rightarrow> beads_state \<Rightarrow> beads_state" where
  "convert_issue L e ids parents i s =
    (case map_of ids (bi_ID i) of
       None \<Rightarrow> s
     | Some taskUUID \<Rightarrow>
        let parent = parents (bi_ID i);
            missing = (case parent of None \<Rightarrow> [] | Some p \<Rightarrow>
              if map_of ids p = None then [ParentNotFound (bi_ID i) p] else []);
            s1 = s\<lparr>bs_warnings := bs_warnings s @ missing,
              bs_tasks := bs_tasks s @ [beads_task ids (bs_users s) parent taskUUID i]\<rparr> in
        fold (add_dependency L e ids) (bi_Dependencies i)
          (fold (add_comment L e taskUUID) (bi_Comments i) s1))"

definition beads_user :: "string \<times> string \<Rightarrow> exportUser" where
  "beads_user nu = \<lparr>xu_ID = snd nu, xu_DisplayName = fst nu, xu_Email = None, xu_Type = ''human'',
     xu_Status = ''active''\<rparr>"

definition convertBeadsToExportDocument ::
  "lib \<Rightarrow> env \<Rightarrow> nat \<Rightarrow> beadsIssue list \<Rightarrow> string \<Rightarrow> exportDocument \<times> import_warning list \<times> nat" where
  "convertBeadsToExportDocument L e k issues collectionName =
    (let ids = beads_ids L e k issues;
         s0 = \<lparr>bs_users = [], bs_tasks = [], bs_comments = [], bs_rels = [], bs_warnings = [],
               bs_next = k + length issues\<rparr>;
         s1 = fold (collect_users L e) issues s0;
         s2 = fold (convert_issue L e ids (parent_map issues)) issues s1 in
     (\<lparr>doc_FormatVersion = 2, doc_ExportedAt = now e, doc_Generator = ''farmtable'',
       doc_Collection = \<lparr>xc_ID = new_uuid L e (bs_next s2), xc_Name = collectionName,
         xc_Description = ''Imported from Beads issue tracker'',
         xc_Platform = platform_str PlatformFarmtable, xc_RemoteData = None,
         xc_CreatedAt = now e, xc_UpdatedAt = now e\<rparr>,
       doc_Users = map beads_user (bs_users s2), doc_Tasks = bs_tasks s2,
       doc_Comments = bs_comments s2, doc_Relationships = bs_rels s2, doc_Changes = []\<rparr>,
      bs_warnings s2, Suc (bs_next s2)))"

section \<open>Duplicate relationships\<close>

definition rel_dedup_key :: "exportRelationship \<Rightarrow> string \<times> string \<times> string" where
  "rel_dedup_key r =
    (if xr_Type r = rel_type_str TypeRelatesTo \<and> xr_TargetTaskID r < xr_SourceTaskID r
     then (xr_TargetTaskID r, xr_SourceTaskID r, xr_Type r)
     else (xr_SourceTaskID r, xr_TargetTaskID r, xr_Type r))"

fun dedup_rels :: "(string \<times> string \<times> string) list \<Rightarrow> exportRelationship list \<Rightarrow> exportRelationship list" where
  "dedup_rels seen [] = []"
| "dedup_rels seen (r # rs) =
    (if List.member seen (rel_dedup_key r) then dedup_rels seen rs
     else r # dedup_rels (rel_dedup_key r # seen) rs)"

definition deduplicateRelationships :: "exportRelationship list \<Rightarrow> exportRelationship list" where
  "deduplicateRelationships rels = dedup_rels [] rels"

end
