(* ===== verification/FT_DocImport.thy ===== *)
theory FT_DocImport
  imports FT_Beads
begin

text \<open>
  The import handler of \<open>internal/server/export_import.go\<close>: the order of the tasks, the checks
  of a document, the users it is matched with, the rows it becomes, and the handler. Fresh
  identifiers are drawn from the environment, one after the other.
\<close>

section \<open>The order of the tasks\<close>

definition parent_of :: "exportTask \<Rightarrow> string option" where
  "parent_of t = (case xt_ParentTaskID t of None \<Rightarrow> None | Some p \<Rightarrow> if p = [] then None else Some p)"

text \<open>
  \<open>visit\<close>: depth first along the parents. The state holds the identifiers visited and the tasks
  in order; \<open>visiting\<close> are the tasks on the way to this one.
\<close>

function visit_task ::
  "exportTask list \<Rightarrow> string list \<Rightarrow> string list \<times> exportTask list \<Rightarrow> exportTask
     \<Rightarrow> code + (string list \<times> exportTask list)" where
  "visit_task ts visiting s t =
    (if List.member (fst s) (xt_ID t) then Inr s
     else if List.member visiting (xt_ID t) then Inl InvalidArgument
     else thenE (case parent_of t of
         None \<Rightarrow> Inr s
       | Some p \<Rightarrow> (case find (\<lambda>u. xt_ID u = p) ts of
             None \<Rightarrow> Inl InvalidArgument
           | Some u \<Rightarrow> visit_task ts (xt_ID t # visiting) s u)) (\<lambda>(visited, ordered).
     Inr (xt_ID t # visited, ordered @ [t])))"
  by pat_completeness auto
termination
proof (relation "measure (\<lambda>(ts, visiting, s, t). card (insert (xt_ID t) (xt_ID ` set ts) - set visiting))", goal_cases)
  case (2 ts visiting s t p u)
  have "u \<in> set ts" using 2(4) by (auto dest: find_Some_mem)
  then have "insert (xt_ID u) (xt_ID ` set ts) - set (xt_ID t # visiting)
      \<subset> insert (xt_ID t) (xt_ID ` set ts) - set visiting"
    using 2(2) by auto
  then show ?case by (simp add: psubset_card_mono)
qed simp

declare visit_task.simps [simp del]

definition orderImportTasks :: "exportTask list \<Rightarrow> code + exportTask list" where
  "orderImportTasks ts =
    (if \<not> distinct (map xt_ID ts) then Inl InvalidArgument
     else thenE (foldE (visit_task ts []) ([], []) ts) (\<lambda>(visited, ordered). Inr ordered))"

section \<open>Checks\<close>

definition set_text :: "string option \<Rightarrow> string option" where
  "set_text v = (case v of None \<Rightarrow> None | Some s \<Rightarrow> if s = [] then None else Some s)"

definition known :: "string list \<Rightarrow> string \<Rightarrow> code + unit" where
  "known ids i = checkE (List.member ids i) InvalidArgument"

definition validate_task :: "int \<Rightarrow> string list \<Rightarrow> exportTask \<Rightarrow> code + unit" where
  "validate_task version userIDs t =
    thenE (optE InvalidArgument (parseTaskPhase (xt_Phase t))) (\<lambda>_.
    thenE (checkE (parseNativeTaskStage (xt_Stage t) \<noteq> None
        \<or> (version = 1 \<and> isRemovedNativeStage (xt_Stage t))) InvalidArgument) (\<lambda>_.
    thenE (case set_text (xt_Priority t) of None \<Rightarrow> Inr ()
      | Some s \<Rightarrow> checkE (parseTaskPriority s \<noteq> None) InvalidArgument) (\<lambda>_.
    thenE (case set_text (xt_CIStatus t) of None \<Rightarrow> Inr ()
      | Some s \<Rightarrow> checkE (parseTaskCIStatus s \<noteq> None) InvalidArgument) (\<lambda>_.
    (case set_text (xt_AssigneeID t) of None \<Rightarrow> Inr () | Some s \<Rightarrow> known userIDs s)))))"

definition validate_comment :: "lib \<Rightarrow> string list \<Rightarrow> string list \<Rightarrow> exportComment \<Rightarrow> code + unit" where
  "validate_comment L taskIDs userIDs c =
    thenE (parse_id L (xm_ID c)) (\<lambda>_. thenE (known taskIDs (xm_TaskID c)) (\<lambda>_. known userIDs (xm_AuthorID c)))"

definition validate_rel :: "lib \<Rightarrow> string list \<Rightarrow> exportRelationship \<Rightarrow> code + unit" where
  "validate_rel L taskIDs r =
    thenE (parse_id L (xr_ID r)) (\<lambda>_. thenE (known taskIDs (xr_SourceTaskID r)) (\<lambda>_.
    thenE (known taskIDs (xr_TargetTaskID r)) (\<lambda>_.
    checkE (parseRelationshipType (xr_Type r) \<noteq> None) InvalidArgument)))"

definition validate_change :: "lib \<Rightarrow> string list \<Rightarrow> string list \<Rightarrow> exportChange \<Rightarrow> code + unit" where
  "validate_change L taskIDs userIDs c =
    thenE (parse_id L (xh_ID c)) (\<lambda>_. thenE (known taskIDs (xh_TaskID c)) (\<lambda>_. known userIDs (xh_AuthorID c)))"

definition validateImportReferences ::
  "lib \<Rightarrow> exportDocument \<Rightarrow> string list \<Rightarrow> code + string list" where
  "validateImportReferences L doc taskIDs =
    (let userIDs = map xu_ID (doc_Users doc) in
     thenE (mapE (parse_id L) userIDs) (\<lambda>_.
     thenE (mapE (validate_task (doc_FormatVersion doc) userIDs) (doc_Tasks doc)) (\<lambda>_.
     thenE (mapE (validate_comment L taskIDs userIDs) (doc_Comments doc)) (\<lambda>_.
     thenE (mapE (validate_rel L taskIDs) (doc_Relationships doc)) (\<lambda>_.
     thenE (mapE (validate_change L taskIDs userIDs) (doc_Changes doc)) (\<lambda>_.
     Inr userIDs))))))"

section \<open>Users\<close>

record user_import =
  ui_mapping :: "(string \<times> uuid) list"
  ui_create :: "ImportUser list"
  ui_matched :: nat
  ui_created :: nat
  ui_warnings :: "import_warning list"
  ui_next :: nat

definition resolve_user ::
  "lib \<Rightarrow> env \<Rightarrow> string list \<Rightarrow> bool \<Rightarrow> db \<Rightarrow> user_import \<Rightarrow> exportUser \<Rightarrow> code + user_import" where
  "resolve_user L e required dryRun d s u =
    (if \<not> List.member required (xu_ID u) then Inr s
     else thenE (parse_id L (xu_ID u)) (\<lambda>_.
       let matches = (case set_text (xu_Email u) of None \<Rightarrow> [] | Some m \<Rightarrow> GetUserByEmail m d) in
       case matches of
         [m] \<Rightarrow> Inr (s\<lparr>ui_mapping := AList.update (xu_ID u) (u_id m) (ui_mapping s),
                   ui_matched := Suc (ui_matched s)\<rparr>)
       | _ \<Rightarrow> Inr (s\<lparr>ui_mapping := AList.update (xu_ID u) (uuid_at e (ui_next s)) (ui_mapping s),
                ui_create := ui_create s @ (if dryRun then [] else
                  [\<lparr>iu_ID = uuid_at e (ui_next s), iu_DisplayName = xu_DisplayName u,
                    iu_Email = xu_Email u, iu_Type = xu_Type u, iu_Status = xu_Status u\<rparr>]),
                ui_created := Suc (ui_created s),
                ui_warnings := ui_warnings s @ (if matches = [] then []
                  else [AmbiguousEmail (case xu_Email u of None \<Rightarrow> [] | Some m \<Rightarrow> m) (length matches) dryRun]),
                ui_next := Suc (ui_next s)\<rparr>)))"

definition resolveImportUsers ::
  "lib \<Rightarrow> env \<Rightarrow> exportUser list \<Rightarrow> string list \<Rightarrow> bool \<Rightarrow> nat \<Rightarrow> db \<Rightarrow> code + user_import" where
  "resolveImportUsers L e users required dryRun k d =
    thenE (foldE (resolve_user L e required dryRun d)
        \<lparr>ui_mapping = [], ui_create = [], ui_matched = 0, ui_created = 0, ui_warnings = [], ui_next = k\<rparr> users)
      (\<lambda>s. Inr (if ui_created s = 0 then s
        else s\<lparr>ui_warnings := ui_warnings s @ [UsersCreated (ui_created s) dryRun]\<rparr>))"

section \<open>Rows\<close>

definition oldBlockedByEvidence :: "exportRelationship list \<Rightarrow> string \<Rightarrow> bool" where
  "oldBlockedByEvidence rels i = list_ex (\<lambda>r. (xr_Type r = ''blocked_by'' \<and> xr_SourceTaskID r = i)
     \<or> (xr_Type r = ''blocks'' \<and> xr_TargetTaskID r = i)) rels"

text \<open>The phase, the stage, the hold reason and the reason of the migration, empty for none.\<close>

definition migrateTaskState ::
  "env \<Rightarrow> exportTask \<Rightarrow> bool \<Rightarrow> int \<Rightarrow> code + (phase \<times> stage \<times> hold_reason option \<times> string)" where
  "migrateTaskState e t hasOldBlocker version =
    (let s = xt_Stage t; st = stage_of_str s;
         accepted = (\<lambda>h r. if version \<noteq> 1 then Inl InvalidArgument
            else Inr (PhaseOpen, StageAccepted, h, r)) in
     if declared_stage st then
       thenE (case set_text (xt_HoldReason t) of None \<Rightarrow> Inr None
         | Some h \<Rightarrow> thenE (optE InvalidArgument (hold_reason_of_str h)) (\<lambda>r. Inr (Some r))) (\<lambda>hold.
       Inr (phaseForStage st, st, hold, []))
     else if s = ''backlog'' \<or> s = ''ready'' then accepted None (''old_'' @ s @ ''_stage_to_accepted'')
     else if s = ''waiting_for_input'' then
       accepted (Some HoldReasonWaitingForInput) ''old_waiting_for_input_stage_to_hold_reason''
     else if s = ''deferred'' then
       (if (case xt_StartDate t of None \<Rightarrow> False | Some x \<Rightarrow> x > now e)
        then accepted None ''old_deferred_stage_future_start_date_cleared_hold''
        else accepted (Some HoldReasonDeferred) ''old_deferred_stage_to_hold_reason'')
     else if s = ''scheduled'' then
       (if xt_StartDate t \<noteq> None then accepted None ''old_scheduled_stage_with_start_date''
        else accepted (Some HoldReasonDeferred) ''old_scheduled_stage_without_start_date_to_deferred'')
     else if s = ''blocked'' then
       (if hasOldBlocker then accepted None ''old_blocked_stage_with_blocker_to_dependency_availability''
        else accepted (Some HoldReasonWaitingForInput) ''old_blocked_stage_without_blocker_to_waiting_for_input'')
     else Inl InvalidArgument)"

definition validateImportedTaskState :: "env \<Rightarrow> stage \<Rightarrow> hold_reason option \<Rightarrow> time option \<Rightarrow> code + unit" where
  "validateImportedTaskState e st hold start =
    (case hold of
       None \<Rightarrow> Inr ()
     | Some h \<Rightarrow>
        thenE (checkE (st \<in> {StageAccepted, StageWorking, StageInReview, StageInQa, StageDeploying}) InvalidArgument)
          (\<lambda>_. checkE (\<not> (h = HoldReasonDeferred \<and> (case start of None \<Rightarrow> False | Some x \<Rightarrow> x > now e)))
             InvalidArgument))"

text \<open>A lookup in a mapping that fails the import when there is no entry.\<close>

definition mapped :: "(string \<times> uuid) list \<Rightarrow> string \<Rightarrow> code + uuid" where
  "mapped m i = optE InvalidArgument (map_of m i)"

definition mapped_opt :: "(string \<times> uuid) list \<Rightarrow> string option \<Rightarrow> code + uuid option" where
  "mapped_opt m v = (case set_text v of None \<Rightarrow> Inr None | Some s \<Rightarrow> thenE (mapped m s) (\<lambda>i. Inr (Some i)))"

definition parse_opt :: "(string \<Rightarrow> 'a option) \<Rightarrow> string option \<Rightarrow> code + 'a option" where
  "parse_opt f v = (case set_text v of None \<Rightarrow> Inr None
     | Some s \<Rightarrow> thenE (optE InvalidArgument (f s)) (\<lambda>x. Inr (Some x)))"

definition migration_note ::
  "env \<Rightarrow> exportTask \<Rightarrow> bool \<Rightarrow> ImportTask \<Rightarrow> string \<Rightarrow> uuid \<Rightarrow> uuid \<Rightarrow> ImportChange" where
  "migration_note e t hasOldBlocker im reason author noteID =
    \<lparr>ich_ID = noteID, ich_TaskID = im_ID im, ich_AuthorID = author,
     ich_FieldName = taskStateMigrationField,
     ich_OldValue = RJson [(''has_blocker'', JBool hasOldBlocker),
       (''native_label'', JStr (xt_NativeLabel t)), (''phase'', JStr (xt_Phase t)),
       (''stage'', JStr (xt_Stage t)),
       (''start_date'', case xt_StartDate t of None \<Rightarrow> JNull | Some x \<Rightarrow> JNum x)],
     ich_NewValue = RJson ((case im_HoldReason im of None \<Rightarrow> []
         | Some h \<Rightarrow> [(''hold_reason'', JStr (hold_reason_str h))])
       @ [(''reason'', JStr reason), (''stage'', JStr (stage_str (im_Stage im)))]),
     ich_CreatedAt = now e\<rparr>"

definition migrationAuthorID :: uuid where "migrationAuthorID = 1"

definition importedTask ::
  "lib \<Rightarrow> env \<Rightarrow> (string \<times> uuid) list \<Rightarrow> (string \<times> uuid) list \<Rightarrow> bool \<Rightarrow> int \<Rightarrow> uuid \<Rightarrow> exportTask
     \<Rightarrow> code + (ImportTask \<times> ImportChange option)" where
  "importedTask L e taskMapping userMapping hasOldBlocker version noteID t =
    thenE (mapped taskMapping (xt_ID t)) (\<lambda>newID.
    thenE (migrateTaskState e t hasOldBlocker version) (\<lambda>(phase, stage, hold, reason).
    thenE (validateImportedTaskState e stage hold (xt_StartDate t)) (\<lambda>_.
    thenE (checkE (validateImportedTaskURLs (tables L) (url_Parse L) (xt_PullRequests t) (xt_RemoteData t))
        InvalidArgument) (\<lambda>_.
    thenE (parse_opt parseTaskPriority (xt_Priority t)) (\<lambda>priority.
    thenE (mapped_opt userMapping (xt_AssigneeID t)) (\<lambda>assignee.
    thenE (mapped_opt taskMapping (xt_ParentTaskID t)) (\<lambda>parent.
    thenE (parse_opt parseTaskCIStatus (xt_CIStatus t)) (\<lambda>ci.
    let im = \<lparr>im_ID = newID, im_Title = xt_Title t, im_Description = xt_Description t,
          im_Phase = phase, im_Stage = stage, im_HoldReason = hold,
          im_NativeLabel = xt_NativeLabel t, im_Type = xt_Type t, im_Priority = priority,
          im_Rank = xt_Rank t, im_AssigneeID = assignee, im_ParentTaskID = parent,
          im_StartDate = xt_StartDate t, im_DueDate = xt_DueDate t, im_ClosedAt = xt_ClosedAt t,
          im_CreatedAt = xt_CreatedAt t, im_UpdatedAt = xt_UpdatedAt t,
          im_AcceptanceCriteria = xt_AcceptanceCriteria t, im_Labels = xt_Labels t,
          im_Repo = xt_Repo t, im_Branch = xt_Branch t, im_CIStatus = ci,
          im_PullRequests = xt_PullRequests t,
          im_RemoteData = sanitizeRemoteData (tables L) (url_Parse L) (xt_RemoteData t),
          im_Version = ''1''\<rparr> in
    Inr (im, if reason = [] then None
             else Some (migration_note e t hasOldBlocker im reason migrationAuthorID noteID))))))))))"

definition importedComment ::
  "lib \<Rightarrow> (string \<times> uuid) list \<Rightarrow> (string \<times> uuid) list \<Rightarrow> uuid \<times> exportComment \<Rightarrow> code + ImportComment" where
  "importedComment L taskMapping userMapping x = (case x of (newID, c) \<Rightarrow>
    thenE (parse_id L (xm_ID c)) (\<lambda>_.
    thenE (mapped taskMapping (xm_TaskID c)) (\<lambda>taskID.
    thenE (mapped userMapping (xm_AuthorID c)) (\<lambda>authorID.
    Inr \<lparr>ico_ID = newID, ico_TaskID = taskID, ico_AuthorID = authorID, ico_Body = xm_Body c,
         ico_CreatedAt = xm_CreatedAt c, ico_UpdatedAt = xm_UpdatedAt c\<rparr>))))"

definition importedRelationship ::
  "lib \<Rightarrow> (string \<times> uuid) list \<Rightarrow> uuid \<times> exportRelationship \<Rightarrow> code + ImportRelationship" where
  "importedRelationship L taskMapping x = (case x of (newID, r) \<Rightarrow>
    thenE (parse_id L (xr_ID r)) (\<lambda>_.
    thenE (mapped taskMapping (xr_SourceTaskID r)) (\<lambda>sourceID.
    thenE (mapped taskMapping (xr_TargetTaskID r)) (\<lambda>targetID.
    thenE (optE InvalidArgument (parseRelationshipType (xr_Type r))) (\<lambda>relType.
    Inr \<lparr>ire_ID = newID, ire_SourceTaskID = sourceID, ire_TargetTaskID = targetID, ire_Type = relType\<rparr>)))))"

definition importedChange ::
  "lib \<Rightarrow> (string \<times> uuid) list \<Rightarrow> (string \<times> uuid) list \<Rightarrow> uuid \<times> exportChange \<Rightarrow> code + ImportChange" where
  "importedChange L taskMapping userMapping x = (case x of (newID, c) \<Rightarrow>
    thenE (parse_id L (xh_ID c)) (\<lambda>_.
    thenE (mapped taskMapping (xh_TaskID c)) (\<lambda>taskID.
    thenE (mapped userMapping (xh_AuthorID c)) (\<lambda>authorID.
    Inr \<lparr>ich_ID = newID, ich_TaskID = taskID, ich_AuthorID = authorID, ich_FieldName = xh_FieldName c,
         ich_OldValue = xh_OldValue c, ich_NewValue = xh_NewValue c, ich_CreatedAt = xh_CreatedAt c\<rparr>))))"

section \<open>The handler\<close>

record import_rows =
  ir_tasks :: "ImportTask list"
  ir_notes :: "ImportChange list"
  ir_next :: nat

definition import_one ::
  "lib \<Rightarrow> env \<Rightarrow> (string \<times> uuid) list \<Rightarrow> (string \<times> uuid) list \<Rightarrow> exportDocument \<Rightarrow> import_rows \<Rightarrow> exportTask
     \<Rightarrow> code + import_rows" where
  "import_one L e taskMapping userMapping doc s t =
    thenE (importedTask L e taskMapping userMapping (oldBlockedByEvidence (doc_Relationships doc) (xt_ID t))
        (doc_FormatVersion doc) (uuid_at e (ir_next s)) t) (\<lambda>(im, note).
    Inr (s\<lparr>ir_tasks := ir_tasks s @ [im],
           ir_notes := ir_notes s @ (case note of None \<Rightarrow> [] | Some n \<Rightarrow> [n]),
           ir_next := (if note = None then ir_next s else Suc (ir_next s))\<rparr>))"

text \<open>Pairs each row with the next fresh identifier.\<close>

definition with_ids :: "env \<Rightarrow> nat \<Rightarrow> 'a list \<Rightarrow> (uuid \<times> 'a) list" where
  "with_ids e k xs = map (\<lambda>(j, x). (uuid_at e (k + j), x)) (enumerate 0 xs)"

definition task_mapping :: "env \<Rightarrow> nat \<Rightarrow> exportTask list \<Rightarrow> (string \<times> uuid) list" where
  "task_mapping e k ts = fold (\<lambda>(i, t) m. AList.update (xt_ID t) i m) (with_ids e k ts) []"

definition import_collection :: "string option \<Rightarrow> lib \<Rightarrow> exportCollection \<Rightarrow> ImportCollection" where
  "import_collection name L c =
    \<lparr>ic_Name = (case name of None \<Rightarrow> xc_Name c | Some n \<Rightarrow> n), ic_Description = xc_Description c,
     ic_Platform = PlatformFarmtable,
     ic_RemoteData = sanitizeRemoteData (tables L) (url_Parse L) (xc_RemoteData c),
     ic_CreatedAt = xc_CreatedAt c, ic_UpdatedAt = xc_UpdatedAt c\<rparr>"

record import_stats =
  is_UsersMatched :: int
  is_UsersCreated :: int
  is_Tasks :: int
  is_Comments :: int
  is_Relationships :: int
  is_Changes :: int

definition import_stats_of :: "exportDocument \<Rightarrow> user_import \<Rightarrow> import_stats" where
  "import_stats_of doc u = \<lparr>is_UsersMatched = int32 (int (ui_matched u)),
     is_UsersCreated = int32 (int (ui_created u)), is_Tasks = int32 (int (length (doc_Tasks doc))),
     is_Comments = int32 (int (length (doc_Comments doc))),
     is_Relationships = int32 (int (length (doc_Relationships doc))),
     is_Changes = int32 (int (length (doc_Changes doc)))\<rparr>"

text \<open>
  The document as the parameters of the bulk import; \<open>k\<close> is the next identifier to draw, and
  the users are looked up in the database \<open>d\<close>.
\<close>

definition import_document ::
  "lib \<Rightarrow> env \<Rightarrow> string option \<Rightarrow> bool \<Rightarrow> exportDocument \<Rightarrow> nat \<Rightarrow> db
     \<Rightarrow> code + (ImportCollectionParams \<times> import_stats \<times> import_warning list \<times> nat)" where
  "import_document L e name dryRun doc k d =
    thenE (mapE (\<lambda>t. parse_id L (xt_ID t)) (doc_Tasks doc)) (\<lambda>_.
    let taskMapping = task_mapping e k (doc_Tasks doc); k1 = k + length (doc_Tasks doc) in
    thenE (orderImportTasks (doc_Tasks doc)) (\<lambda>orderedTasks.
    let coll = import_collection name L (doc_Collection doc) in
    thenE (checkE (ic_Name coll \<noteq> []) InvalidArgument) (\<lambda>_.
    thenE (validateImportReferences L doc (map fst taskMapping)) (\<lambda>userIDs.
    thenE (resolveImportUsers L e (doc_Users doc) userIDs dryRun k1 d) (\<lambda>u.
    thenE (foldE (import_one L e taskMapping (ui_mapping u) doc)
        \<lparr>ir_tasks = [], ir_notes = [], ir_next = ui_next u\<rparr> orderedTasks) (\<lambda>rows.
    let k2 = ir_next rows; k3 = k2 + length (doc_Comments doc);
        k4 = k3 + length (doc_Relationships doc); k5 = k4 + length (doc_Changes doc) in
    thenE (mapE (importedComment L taskMapping (ui_mapping u)) (with_ids e k2 (doc_Comments doc))) (\<lambda>comments.
    thenE (mapE (importedRelationship L taskMapping) (with_ids e k3 (doc_Relationships doc))) (\<lambda>rels.
    thenE (mapE (importedChange L taskMapping (ui_mapping u)) (with_ids e k4 (doc_Changes doc))) (\<lambda>changes.
    Inr (\<lparr>ip_Users = ui_create u @ (if ir_notes rows = [] then [] else
            [\<lparr>iu_ID = migrationAuthorID, iu_DisplayName = ''system:migration'', iu_Email = None,
              iu_Type = ''service_account'', iu_Status = ''active''\<rparr>]),
          ip_Collection = coll, ip_Tasks = ir_tasks rows, ip_Comments = comments,
          ip_Relationships = rels, ip_Changes = changes @ ir_notes rows\<rparr>,
         import_stats_of doc u, ui_warnings u, k5))))))))))"

text \<open>The document of the request, in either format, with the warnings of its conversion.\<close>

definition read_document ::
  "lib \<Rightarrow> doc_codec \<Rightarrow> env \<Rightarrow> string option \<Rightarrow> string \<Rightarrow> nat \<Rightarrow> code + (exportDocument \<times> import_warning list \<times> nat)"
  where
  "read_document L J e name data k =
    (let format = detectImportFormat J data in
     if format = ''beads'' then
       thenE (parseBeadsJSONL J data) (\<lambda>(issues, parseWarnings).
       let collName = (case set_text name of None \<Rightarrow> ''Beads Import'' | Some n \<Rightarrow> n);
           (doc, convertWarnings, k1) = convertBeadsToExportDocument L e k issues collName in
       Inr (doc\<lparr>doc_Relationships := deduplicateRelationships (doc_Relationships doc)\<rparr>,
            parseWarnings @ convertWarnings, k1))
     else if format = ''farmtable'' then
       thenE (optE InvalidArgument (j_Decode J data)) (\<lambda>doc.
       thenE (checkE (doc_FormatVersion doc = 1 \<or> doc_FormatVersion doc = 2) InvalidArgument) (\<lambda>_.
       thenE (checkE (doc_Generator doc = [] \<or> doc_Generator doc = ''farmtable'') InvalidArgument) (\<lambda>_.
       thenE (checkE (xc_Platform (doc_Collection doc) = platform_str PlatformFarmtable) FailedPrecondition) (\<lambda>_.
       Inr (doc, [], k)))))
     else Inl InvalidArgument)"

text \<open>
  \<open>ImportCollection\<close>: the users are looked up before the transaction of the store begins, so
  the two see databases of their own. A dry run writes nothing.
\<close>

record ImportCollectionRequest =
  rq_Data :: string
  rq_Name :: "string option"
  rq_DryRun :: bool

definition srv_ImportCollection ::
  "lib \<Rightarrow> doc_codec \<Rightarrow> env \<Rightarrow> ctx \<Rightarrow> ImportCollectionRequest \<Rightarrow> db \<Rightarrow> db
     \<Rightarrow> code + (string option \<times> import_stats \<times> import_warning list \<times> db)" where
  "srv_ImportCollection L J e c req d0 d =
    thenE (RequireIdentity c) (\<lambda>_.
    thenE (RequireScope c ScopeCollectionAdmin) (\<lambda>_.
    thenE (read_document L J e (rq_Name req) (rq_Data req) (d_next d)) (\<lambda>(doc, ws, k).
    thenE (import_document L e (rq_Name req) (rq_DryRun req) doc k d0) (\<lambda>(p, stats, ws', k').
    if rq_DryRun req then Inr (None, stats, ws @ ws', d)
    else thenE (with_code (\<lambda>_. Internal) (ImportCollection e p (d\<lparr>d_next := k'\<rparr>))) (\<lambda>(coll, d').
      Inr (Some (uuid_String L (co_id coll)), stats, ws @ ws', d'))))))"

end
