(* ===== verification/FT_DocProps.thy ===== *)
theory FT_DocProps
  imports FT_DocImport FT_ServiceProps
begin

text \<open>
  Properties of export and import: the order in which the tasks of a document are written, the
  authors an export needs, and the way back from a collection through its document.
\<close>

section \<open>The order of the tasks\<close>

text \<open>Every parent stands before its children.\<close>

definition parents_first :: "exportTask list \<Rightarrow> bool" where
  "parents_first os \<longleftrightarrow> (\<forall>i<length os. \<forall>p. parent_of (os ! i) = Some p \<longrightarrow> (\<exists>j<i. xt_ID (os ! j) = p))"

lemma parents_firstD:
  "parents_first os \<Longrightarrow> i < length os \<Longrightarrow> parent_of (os ! i) = Some p \<Longrightarrow> \<exists>j<i. xt_ID (os ! j) = p"
  unfolding parents_first_def by blast

lemma parents_first_snoc:
  "parents_first (os @ [t]) \<longleftrightarrow> parents_first os
     \<and> (\<forall>p. parent_of t = Some p \<longrightarrow> p \<in> xt_ID ` set os)"
proof
  have old: "xt_ID ((os @ [t]) ! j) = xt_ID (os ! j)" if "j < length os" for j
    using that by (simp add: nth_append)
  assume all: "parents_first (os @ [t])"
  have "\<exists>j<i. xt_ID (os ! j) = p" if i: "i < length os" "parent_of (os ! i) = Some p" for i p
  proof -
    have "parent_of ((os @ [t]) ! i) = Some p" using i by (simp add: nth_append)
    then obtain j where j: "j < i" "xt_ID ((os @ [t]) ! j) = p"
      using parents_firstD [OF all, of i p] i(1) by auto
    then show ?thesis using old [of j] i(1) by auto
  qed
  moreover have "p \<in> xt_ID ` set os" if t: "parent_of t = Some p" for p
  proof -
    have "parent_of ((os @ [t]) ! length os) = Some p" using t by simp
    then obtain j where j: "j < length os" "xt_ID ((os @ [t]) ! j) = p"
      using parents_firstD [OF all, of "length os" p] by auto
    then show ?thesis using old [of j] by auto
  qed
  ultimately show "parents_first os \<and> (\<forall>p. parent_of t = Some p \<longrightarrow> p \<in> xt_ID ` set os)"
    unfolding parents_first_def by blast
next
  assume os: "parents_first os \<and> (\<forall>p. parent_of t = Some p \<longrightarrow> p \<in> xt_ID ` set os)"
  show "parents_first (os @ [t])"
    unfolding parents_first_def
  proof (intro allI impI)
    fix i p assume i: "i < length (os @ [t])" and p: "parent_of ((os @ [t]) ! i) = Some p"
    have "\<exists>j<length os. j < i \<and> xt_ID (os ! j) = p"
    proof (cases "i < length os")
      case True
      then have "\<exists>j<i. xt_ID (os ! j) = p" using os p unfolding parents_first_def by (simp add: nth_append)
      then show ?thesis using True less_trans by blast
    next
      case False
      then have "p \<in> xt_ID ` set os" "i = length os" using os p i by (auto simp: nth_append)
      then show ?thesis by (auto simp: in_set_conv_nth)
    qed
    then show "\<exists>j<i. xt_ID ((os @ [t]) ! j) = p" by (auto simp: nth_append)
  qed
qed

definition order_inv :: "exportTask list \<Rightarrow> string list \<times> exportTask list \<Rightarrow> bool" where
  "order_inv ts s \<longleftrightarrow> set (fst s) = xt_ID ` set (snd s) \<and> distinct (map xt_ID (snd s))
     \<and> set (snd s) \<subseteq> set ts \<and> parents_first (snd s)"

lemma visit_task_inv:
  "visit_task ts visiting s t = Inr s' \<Longrightarrow> order_inv ts s \<Longrightarrow> t \<in> set ts \<Longrightarrow>
     order_inv ts s' \<and> insert (xt_ID t) (set (fst s)) \<subseteq> set (fst s')
     \<and> set (fst s') \<inter> set visiting \<subseteq> set (fst s)"
proof (induction ts visiting s t arbitrary: s' rule: visit_task.induct)
  case (1 ts visiting s t)
  note run = "1.prems"(1) [unfolded visit_task.simps [of ts visiting s t]]
  show ?case
  proof (cases "List.member (fst s) (xt_ID t)")
    case True
    then show ?thesis using run "1.prems" by auto
  next
    case False
    then have fresh: "xt_ID t \<notin> set visiting" using run by (auto split: if_splits)
    show ?thesis
    proof (cases "parent_of t")
      case None
      then have "s' = (xt_ID t # fst s, snd s @ [t])" using run False fresh by (auto split: prod.splits)
      then show ?thesis
        using "1.prems"(2,3) False fresh None by (auto simp: order_inv_def parents_first_snoc)
    next
      case (Some p)
      then obtain u s1 where u: "find (\<lambda>u. xt_ID u = p) ts = Some u"
        and v: "visit_task ts (xt_ID t # visiting) s u = Inr s1"
        and s': "s' = (xt_ID t # fst s1, snd s1 @ [t])"
        using run False fresh by (auto simp: thenE_Inr split: option.splits)
      have ut: "u \<in> set ts" "xt_ID u = p" using find_Some_mem [OF u] by auto
      have IH: "order_inv ts s1" "insert p (set (fst s)) \<subseteq> set (fst s1)"
        "set (fst s1) \<inter> set (xt_ID t # visiting) \<subseteq> set (fst s)"
        using "1.IH" [OF _ _ Some u v "1.prems"(2) ut(1)] False fresh ut(2) by auto
      have "xt_ID t \<notin> set (fst s1)" using IH(3) False by auto
      then show ?thesis
        using IH "1.prems"(3) Some fresh by (auto simp: s' order_inv_def parents_first_snoc)
    qed
  qed
qed

lemma foldE_visit_inv:
  "foldE (visit_task ts []) s us = Inr s' \<Longrightarrow> order_inv ts s \<Longrightarrow> set us \<subseteq> set ts \<Longrightarrow>
     order_inv ts s' \<and> xt_ID ` set us \<union> set (fst s) \<subseteq> set (fst s')"
proof (induction us arbitrary: s)
  case (Cons u us)
  then obtain s1 where s1: "visit_task ts [] s u = Inr s1" "foldE (visit_task ts []) s1 us = Inr s'"
    by (auto simp: thenE_Inr)
  show ?case using visit_task_inv [OF s1(1)] Cons.IH [OF s1(2)] Cons.prems(2,3) by auto
qed auto

text \<open>The parent of a task is in the document, and no task is its own ancestor.\<close>

definition parent_rel :: "exportTask list \<Rightarrow> (string \<times> string) set" where
  "parent_rel ts = {(xt_ID t, p) | t p. t \<in> set ts \<and> parent_of t = Some p}"

lemma visit_task_returns:
  assumes "acyclic (parent_rel ts)" and "\<forall>t\<in>set ts. \<forall>p. parent_of t = Some p \<longrightarrow> p \<in> xt_ID ` set ts"
  shows "t \<in> set ts \<Longrightarrow> \<forall>v\<in>set visiting. (v, xt_ID t) \<in> (parent_rel ts)\<^sup>+ \<Longrightarrow>
    \<exists>s'. visit_task ts visiting s t = Inr s'"
  using assms
proof (induction ts visiting s t rule: visit_task.induct)
  case (1 ts visiting s t)
  have fresh: "xt_ID t \<notin> set visiting" using "1.prems"(2,3) by (auto simp: acyclic_def)
  show ?case
  proof (cases "parent_of t")
    case None
    then show ?thesis using fresh by (auto simp: visit_task.simps [of ts visiting s t] split: prod.splits)
  next
    case (Some p)
    then have step: "(xt_ID t, p) \<in> parent_rel ts" using "1.prems"(1) by (auto simp: parent_rel_def)
    obtain u where u: "find (\<lambda>u. xt_ID u = p) ts = Some u"
      using "1.prems"(1,4) Some by (cases "find (\<lambda>u. xt_ID u = p) ts") (auto simp: find_None_iff_ex)
    then have ut: "u \<in> set ts" "xt_ID u = p" by (auto dest: find_Some_mem)
    have "\<forall>v\<in>set (xt_ID t # visiting). (v, xt_ID u) \<in> (parent_rel ts)\<^sup>+"
      using "1.prems"(2) step ut(2) by (auto intro: trancl_into_trancl)
    then have "\<exists>s'. visit_task ts (xt_ID t # visiting) s u = Inr s'"
      if "\<not> List.member (fst s) (xt_ID t)"
      using "1.IH" [OF that _ Some u ut(1) _ "1.prems"(3,4)] fresh by auto
    then show ?thesis
      using fresh Some u by (auto simp: visit_task.simps [of ts visiting s t] split: prod.splits)
  qed
qed

lemma parents_first_acyclic:
  assumes "parents_first os" and "distinct (map xt_ID os)"
  shows "acyclic (parent_rel os)"
proof -
  let ?pos = "\<lambda>x. THE i. i < length os \<and> xt_ID (os ! i) = x"
  have pos: "?pos (xt_ID (os ! i)) = i" if "i < length os" for i
    using assms(2) that by (intro the_equality) (auto simp: distinct_conv_nth)
  have "(y, x) \<in> measure ?pos" if "(x, y) \<in> parent_rel os" for x y
  proof -
    from that obtain i where i: "i < length os" "x = xt_ID (os ! i)" "parent_of (os ! i) = Some y"
      by (auto simp: parent_rel_def in_set_conv_nth)
    with assms(1) obtain j where "j < i" "xt_ID (os ! j) = y" unfolding parents_first_def by blast
    then show ?thesis using i pos [of i] pos [of j] by auto
  qed
  then have "(parent_rel os)\<inverse> \<subseteq> measure ?pos" by auto
  then have "wf ((parent_rel os)\<inverse>)" using wf_measure wf_subset by blast
  then show ?thesis using wf_acyclic acyclic_converse by blast
qed

lemma order_sound:
  assumes "orderImportTasks ts = Inr os"
  shows "distinct (map xt_ID ts) \<and> mset os = mset ts \<and> parents_first os"
proof -
  from assms obtain visited where dist: "distinct (map xt_ID ts)"
    and run: "foldE (visit_task ts []) ([], []) ts = Inr (visited, os)"
    by (auto simp: orderImportTasks_def thenE_Inr split: if_splits)
  have start: "order_inv ts ([], [])" by (simp add: order_inv_def parents_first_def)
  have inv: "order_inv ts (visited, os)" "xt_ID ` set ts \<subseteq> set visited"
    using foldE_visit_inv [OF run start] by auto
  have "t \<in> set os" if t: "t \<in> set ts" for t
  proof -
    obtain u where u: "u \<in> set os" "xt_ID u = xt_ID t" using inv t by (auto simp: order_inv_def)
    then have "u \<in> set ts" using inv(1) by (auto simp: order_inv_def)
    then show ?thesis using u t dist by (metis distinct_map inj_onD)
  qed
  then have "set os = set ts" using inv(1) by (auto simp: order_inv_def)
  moreover have "distinct os" "distinct ts" using inv(1) dist by (auto simp: order_inv_def distinct_map)
  ultimately show ?thesis using inv(1) dist by (simp add: set_eq_iff_mset_eq_distinct order_inv_def)
qed

lemma parents_first_closed:
  assumes "parents_first os" and "t \<in> set os" and "parent_of t = Some p"
  shows "p \<in> xt_ID ` set os"
proof -
  from assms(2) obtain i where i: "i < length os" "os ! i = t" by (metis in_set_conv_nth)
  with assms(1,3) obtain j where "j < i" "xt_ID (os ! j) = p" unfolding parents_first_def by blast
  then show ?thesis using i(1) nth_mem [of j os] by force
qed

lemma visits_return:
  assumes "acyclic (parent_rel ts)" and "\<forall>t\<in>set ts. \<forall>p. parent_of t = Some p \<longrightarrow> p \<in> xt_ID ` set ts"
  shows "set us \<subseteq> set ts \<Longrightarrow> \<exists>s'. foldE (visit_task ts []) s us = Inr s'"
proof (induction us arbitrary: s)
  case (Cons u us)
  then obtain s1 where "visit_task ts [] s u = Inr s1"
    using visit_task_returns [OF assms, of u "[]" s] by auto
  then show ?case using Cons by auto
qed simp

lemma order_exists:
  "(\<exists>os. orderImportTasks ts = Inr os) \<longleftrightarrow> distinct (map xt_ID ts)
    \<and> (\<forall>t\<in>set ts. \<forall>p. parent_of t = Some p \<longrightarrow> p \<in> xt_ID ` set ts) \<and> acyclic (parent_rel ts)"
proof
  assume "\<exists>os. orderImportTasks ts = Inr os"
  then obtain os where os: "distinct (map xt_ID ts)" "mset os = mset ts" "parents_first os"
    using order_sound by blast
  have same: "set os = set ts" using os(2) by (rule mset_eq_setD)
  have "mset (map xt_ID os) = mset (map xt_ID ts)" using os(2) by simp
  then have "distinct (map xt_ID os)" using os(1) mset_eq_imp_distinct_iff by blast
  moreover have "parent_rel os = parent_rel ts" by (simp add: parent_rel_def same)
  ultimately show "distinct (map xt_ID ts)
      \<and> (\<forall>t\<in>set ts. \<forall>p. parent_of t = Some p \<longrightarrow> p \<in> xt_ID ` set ts) \<and> acyclic (parent_rel ts)"
    using os(1) parents_first_acyclic [OF os(3)] parents_first_closed [OF os(3)] same by auto
next
  assume "distinct (map xt_ID ts)
      \<and> (\<forall>t\<in>set ts. \<forall>p. parent_of t = Some p \<longrightarrow> p \<in> xt_ID ` set ts) \<and> acyclic (parent_rel ts)"
  then show "\<exists>os. orderImportTasks ts = Inr os"
    using visits_return [of ts ts "([], [])"] by (auto simp: orderImportTasks_def)
qed

text \<open>
  Import writes parents before children: the order it computes is the tasks of the document
  in which every parent stands before its children; and there is one exactly when the
  identifiers are distinct, every parent is in the document and no task is its own ancestor.
\<close>

theorem import_order:
  "(\<forall>os. orderImportTasks ts = Inr os \<longrightarrow> mset os = mset ts
      \<and> (\<forall>i<length os. \<forall>p. parent_of (os ! i) = Some p \<longrightarrow> (\<exists>j<i. xt_ID (os ! j) = p)))
   \<and> ((\<exists>os. orderImportTasks ts = Inr os) \<longleftrightarrow> distinct (map xt_ID ts)
      \<and> (\<forall>t\<in>set ts. \<forall>p. parent_of t = Some p \<longrightarrow> p \<in> xt_ID ` set ts) \<and> acyclic (parent_rel ts))"
  using order_sound order_exists unfolding parents_first_def by blast

definition ex_doc_task :: "string \<Rightarrow> string option \<Rightarrow> exportTask" where
  "ex_doc_task i parent = taskExport ex_lib ex10\<lparr>xt_ID := i, xt_ParentTaskID := parent\<rparr>"

theorem import_order_witness:
  "\<exists>os. orderImportTasks [ex_doc_task ''b'' (Some ''a''), ex_doc_task ''a'' None] = Inr os
     \<and> mset os = mset [ex_doc_task ''b'' (Some ''a''), ex_doc_task ''a'' None]"
proof -
  let ?ts = "[ex_doc_task ''b'' (Some ''a''), ex_doc_task ''a'' None]"
  have ids: "xt_ID (ex_doc_task i q) = i" "parent_of (ex_doc_task i q) = set_text q" for i q
    by (simp_all add: ex_doc_task_def parent_of_def set_text_def)
  have rel: "parent_rel ?ts \<subseteq> {(''b'', ''a'')}"
    by (auto simp: parent_rel_def ids set_text_def)
  have "acyclic {(''b'', ''a'')}" by (auto simp: acyclic_def trancl_insert)
  then have "acyclic (parent_rel ?ts)" using rel by (rule acyclic_subset)
  moreover have "distinct (map xt_ID ?ts)"
    "\<forall>t\<in>set ?ts. \<forall>p. parent_of t = Some p \<longrightarrow> p \<in> xt_ID ` set ?ts"
    by (auto simp: ids set_text_def)
  ultimately show ?thesis using import_order [of ?ts] by blast
qed

section \<open>The people of a document\<close>

definition same_dbs :: "db \<Rightarrow> export_dbs" where
  "same_dbs d = \<lparr>xd_tasks = d, xd_comments = d, xd_changes = d, xd_rels = d, xd_users = d\<rparr>"

lemma same_dbs_simps [simp]:
  "xd_tasks (same_dbs d) = d" "xd_comments (same_dbs d) = d" "xd_changes (same_dbs d) = d"
  "xd_rels (same_dbs d) = d" "xd_users (same_dbs d) = d"
  by (simp_all add: same_dbs_def)

definition people :: "bool \<Rightarrow> uuid \<Rightarrow> db \<Rightarrow> uuid set" where
  "people inc cid d =
    {a. \<exists>t\<in>set (d_tasks d). t_collection t = cid \<and> t_assignee t = Some a}
    \<union> {cm_author c | c t. c \<in> set (d_comments d) \<and> t \<in> set (d_tasks d) \<and> t_collection t = cid \<and> t_id t = cm_task c}
    \<union> (if inc then {ch_author c | c t. c \<in> set (d_changes d) \<and> t \<in> set (d_tasks d)
         \<and> t_collection t = cid \<and> t_id t = ch_task c} else {})"

lemma find_user: "(\<exists>u. find (\<lambda>u. u_id u = i) (GetUsersByIDs ids d) = Some u) \<longleftrightarrow> i \<in> set ids \<and> user_exists i d"
proof -
  have ex: "(\<exists>u. find (\<lambda>u. u_id u = i) us = Some u) \<longleftrightarrow> (\<exists>u\<in>set us. u_id u = i)" for us
    using find_None_iff_ex [of "\<lambda>u. u_id u = i" us] by (cases "find (\<lambda>u. u_id u = i) us") (auto dest: find_Some_mem)
  show ?thesis unfolding ex by (auto simp: GetUsersByIDs_def user_ids_def)
qed

lemma export_users_Inr:
  "(\<exists>us. export_users L ids d = Inr us) \<longleftrightarrow> (\<forall>i\<in>set ids. user_exists i d)"
  "(\<exists>i\<in>set ids. \<not> user_exists i d) \<Longrightarrow> export_users L ids d = Inl NotFound"
proof -
  let ?f = "\<lambda>i. case find (\<lambda>u. u_id u = i) (GetUsersByIDs ids d) of
      None \<Rightarrow> Inl (storeErr ErrNotFound) | Some u \<Rightarrow> Inr (userExport L u)"
  have f: "(\<exists>x. ?f i = Inr x) \<longleftrightarrow> user_exists i d" "\<not> user_exists i d \<Longrightarrow> ?f i = Inl NotFound" if "i \<in> set ids" for i
    using find_user [of i ids d] that by (auto simp: storeErr_def split: option.splits)
  have all: "(\<exists>ys. mapE ?f is = Inr ys) \<longleftrightarrow> (\<forall>i\<in>set is. user_exists i d)"
    and none: "\<exists>i\<in>set is. \<not> user_exists i d \<Longrightarrow> mapE ?f is = Inl NotFound" if "set is \<subseteq> set ids" for "is"
    using that
  proof (induction "is")
    case (Cons i "is")
    { case 1 then show ?case using Cons.IH(1) f(1) [of i] by (auto simp: thenE_Inr) }
    { case 2 then show ?case using Cons.IH(2) f [of i] by (cases "user_exists i d") auto }
  qed simp_all
  show "(\<exists>us. export_users L ids d = Inr us) \<longleftrightarrow> (\<forall>i\<in>set ids. user_exists i d)"
    using all [OF subset_refl] by (simp add: export_users_def Let_def)
  show "(\<exists>i\<in>set ids. \<not> user_exists i d) \<Longrightarrow> export_users L ids d = Inl NotFound"
    using none [OF subset_refl] by (simp add: export_users_def Let_def)
qed

lemma set_map_filter: "set (List.map_filter f xs) = {y. \<exists>x\<in>set xs. f x = Some y}"
  by (induction xs) (auto simp: List.map_filter_simps split: option.split)

lemma grouped_set:
  "set (grouped task_of (ListAllTasksForCollection cid d) rs)
    = {r \<in> set rs. \<exists>t\<in>set (d_tasks d). t_collection t = cid \<and> t_id t = task_of r}"
  by (auto simp: grouped_def ListAllTasksForCollection_def)

abbreviation exported_comments :: "uuid \<Rightarrow> db \<Rightarrow> comment list" where
  "exported_comments cid d \<equiv> grouped cm_task (ListAllTasksForCollection cid d) (ListAllCommentsForCollection cid d)"

abbreviation exported_changes :: "bool \<Rightarrow> uuid \<Rightarrow> db \<Rightarrow> change list" where
  "exported_changes inc cid d \<equiv>
    (if inc then grouped ch_task (ListAllTasksForCollection cid d) (ListAllChangesForCollection cid d) else [])"

abbreviation exported_people :: "bool \<Rightarrow> uuid \<Rightarrow> db \<Rightarrow> uuid list" where
  "exported_people inc cid d \<equiv> sort (remdups (List.map_filter t_assignee (ListAllTasksForCollection cid d)
     @ map cm_author (exported_comments cid d) @ map ch_author (exported_changes inc cid d)))"

lemma exported_tasks_set: "set (ListAllTasksForCollection cid d) = {t \<in> set (d_tasks d). t_collection t = cid}"
  by (auto simp: ListAllTasksForCollection_def)

lemma exported_comments_set:
  "set (exported_comments cid d) = {c \<in> set (d_comments d).
     \<exists>t\<in>set (d_tasks d). t_collection t = cid \<and> t_id t = cm_task c}"
  unfolding grouped_set by (auto simp: ListAllCommentsForCollection_def task_in_coll_def list_ex_iff)

lemma exported_people_set: "set (exported_people inc cid d) = people inc cid d"
proof -
  have "set (grouped ch_task (ListAllTasksForCollection cid d) (ListAllChangesForCollection cid d))
      = {c \<in> set (d_changes d). \<exists>t\<in>set (d_tasks d). t_collection t = cid \<and> t_id t = ch_task c}"
    unfolding grouped_set by (auto simp: ListAllChangesForCollection_def task_in_coll_def list_ex_iff)
  then show ?thesis
    unfolding people_def
    by (auto simp: set_map_filter exported_tasks_set exported_comments_set split: if_splits)
qed

text \<open>The outcome of an export that the caller may make.\<close>

lemma export_outcome:
  assumes "grants c ScopeCollectionRead" and "uuid_Parse L reqId = Some cid" and "may_access c cid"
    and "GetCollection cid d = Inr co" and "co_platform co = PlatformFarmtable"
  shows "(\<exists>r. srv_ExportCollection L e c reqId inc d (same_dbs d) = Inr r) \<longleftrightarrow> (\<forall>i\<in>people inc cid d. user_exists i d)"
    and "(\<exists>i\<in>people inc cid d. \<not> user_exists i d) \<Longrightarrow>
      srv_ExportCollection L e c reqId inc d (same_dbs d) = Inl NotFound"
proof -
  let ?ids = "exported_people inc cid d"
  note ids = exported_people_set [where inc = inc and cid = cid and d = d]
  have "\<exists>K. srv_ExportCollection L e c reqId inc d (same_dbs d)
      = thenE (export_users L ?ids d) (\<lambda>us. Inr (K us))"
    using assms by (simp add: srv_ExportCollection_def Let_def parse_id_def with_code_def split del: if_split cong: if_cong)
      (rule exI, rule refl)
  then obtain K where run: "srv_ExportCollection L e c reqId inc d (same_dbs d)
      = thenE (export_users L ?ids d) (\<lambda>us. Inr (K us))" ..
  show "(\<exists>r. srv_ExportCollection L e c reqId inc d (same_dbs d) = Inr r) \<longleftrightarrow> (\<forall>i\<in>people inc cid d. user_exists i d)"
    using export_users_Inr(1) [of L ?ids d] unfolding run ids by (auto simp: thenE_Inr)
  show "(\<exists>i\<in>people inc cid d. \<not> user_exists i d) \<Longrightarrow>
      srv_ExportCollection L e c reqId inc d (same_dbs d) = Inl NotFound"
    using export_users_Inr(2) [of ?ids d L] unfolding run ids by simp
qed

text \<open>
  C3. An export needs a user row for everybody it names: once a caller without an identity (the
  server enforces none) has commented on a task of a native collection, the export of that
  collection is refused with \<open>NotFound\<close>, for every caller and with or without the changes,
  as long as there is no user with the zero identifier.
\<close>

theorem anonymous_comment_blocks_export:
  assumes "srv_AddComment L e c s body d d = Inr (cm, d')" and "actor_of c = uuid_Nil"
    and "\<not> user_exists uuid_Nil d" and "uuid_Parse L s = Some i" and "get_task i d = Some t"
    and "GetCollection (t_collection t) d = Inr co" and "co_platform co = PlatformFarmtable"
    and "grants c' ScopeCollectionRead" and "may_access c' (t_collection t)"
    and "uuid_Parse L reqId = Some (t_collection t)"
  shows "srv_ExportCollection L e' c' reqId inc d' (same_dbs d') = Inl NotFound"
proof -
  from assms(1,2,4) obtain cm' where
    "AddComment e \<lparr>ac_TaskID = i, ac_AuthorID = uuid_Nil, ac_Body = body\<rparr> d = Inr (cm', d')"
    by (auto simp: srv_AddComment_def thenE_Inr with_code_Inr parse_id_def)
  then have d': "d_comments d' = d_comments d @ [cm']" "cm_author cm' = uuid_Nil" "cm_task cm' = i"
    "d_tasks d' = d_tasks d" "d_users d' = d_users d" "d_colls d' = d_colls d"
    by (auto simp: AddComment_def Let_def thenE_Inr insert_comment_def drawn_def split: if_splits)
  have "cm' \<in> set (d_comments d')" "t \<in> set (d_tasks d')" "t_id t = cm_task cm'"
    using d' get_task_Some [OF assms(5)] by auto
  then have "cm_author cm' \<in> people inc (t_collection t) d'"
    unfolding people_def by blast
  then have "uuid_Nil \<in> people inc (t_collection t) d'" by (simp add: d'(2))
  moreover have "\<not> user_exists uuid_Nil d'" using assms(3) d'(5) by (simp add: user_ids_def)
  moreover have "GetCollection (t_collection t) d' = Inr co" using assms(6) d'(6) by (simp add: GetCollection_def)
  ultimately show ?thesis
    using export_outcome(2) [OF assms(8,10,9) _ assms(7)] by blast
qed

theorem anonymous_comment_blocks_export_witness:
  "\<exists>cm d'. srv_AddComment ex_lib ex_env open_access_ctx (replicate 11 CHR ''u'') ''hi'' ex_db ex_db = Inr (cm, d')
     \<and> srv_ExportCollection ex_lib ex_env open_access_ctx ''uu'' False d' (same_dbs d') = Inl NotFound"
proof -
  have i: "uuid_Parse ex_lib (replicate 11 CHR ''u'') = Some 10" by (simp add: ex_lib_def)
  obtain cm d' where r: "srv_AddComment ex_lib ex_env open_access_ctx (replicate 11 CHR ''u'') ''hi'' ex_db ex_db = Inr (cm, d')"
    by (simp add: srv_AddComment_def parse_id_def i RequireTaskAccess_def with_code_def GetTask_def
        getTaskWithEdges_def ex_get10
        AddComment_def insert_comment_def Let_def drawn_def)
      (simp add: ex_defs task_ids_def)
  have "srv_ExportCollection ex_lib ex_env open_access_ctx ''uu'' False d' (same_dbs d') = Inl NotFound"
    by (rule anonymous_comment_blocks_export [OF r _ _ i ex_get10, where co = ex_coll])
      (simp_all add: user_ids_def GetCollection_def ex_lib_def ex_defs uuid_Nil_def)
  then show ?thesis using r by blast
qed

end
