(* ===== verification/FT_DocTrip.thy ===== *)
theory FT_DocTrip
  imports FT_DocProps
begin

text \<open>
  The way back: the document of an export, read by an import, gives the rows of the collection
  again, under new identifiers.
\<close>

section \<open>Mappings\<close>

lemma map_of_fold_update:
  "map_of (fold (\<lambda>(i, t) m. AList.update (f t) i m) xs m0) k =
    (case map_of (rev (map (\<lambda>(i, t). (f t, i)) xs)) k of None \<Rightarrow> map_of m0 k | Some v \<Rightarrow> Some v)"
proof (induction xs arbitrary: m0)
  case (Cons x xs)
  obtain i t where x: "x = (i, t)" by (cases x)
  show ?case
    using Cons [of "AList.update (f t) i m0"]
    by (auto simp: x update_conv' map_add_def split: option.split)
qed simp

lemma with_ids_nth: "j < length xs \<Longrightarrow> with_ids e k xs ! j = (uuid_at e (k + j), xs ! j)"
  by (simp add: with_ids_def nth_enumerate_eq)

lemma length_with_ids [simp]: "length (with_ids e k xs) = length xs"
  by (simp add: with_ids_def)

lemma snd_with_ids [simp]: "map snd (with_ids e k xs) = xs"
  by (rule nth_equalityI) (simp_all add: with_ids_nth)

lemma set_snd_with_ids: "snd ` set (with_ids e k xs) = set xs"
  using snd_with_ids [of e k xs] by (metis set_map)

lemma task_mapping_at:
  assumes "distinct (map xt_ID ts)" and "j < length ts"
  shows "map_of (task_mapping e k ts) (xt_ID (ts ! j)) = Some (uuid_at e (k + j))"
proof -
  let ?kv = "map (\<lambda>(i, t). (xt_ID t, i)) (with_ids e k ts)"
  have keys: "map fst ?kv = map xt_ID ts"
    by (rule nth_equalityI) (simp_all add: with_ids_nth)
  have "?kv ! j = (xt_ID (ts ! j), uuid_at e (k + j))" using assms(2) by (simp add: with_ids_nth)
  then have "(xt_ID (ts ! j), uuid_at e (k + j)) \<in> set (rev ?kv)"
    using assms(2) by (metis length_map length_with_ids nth_mem set_rev)
  moreover have "distinct (map fst (rev ?kv))" using assms(1) keys by (simp add: rev_map [symmetric])
  ultimately have "map_of (rev ?kv) (xt_ID (ts ! j)) = Some (uuid_at e (k + j))" by simp
  then show ?thesis unfolding task_mapping_def map_of_fold_update by simp
qed

lemma task_mapping_dom: "set (map fst (task_mapping e k ts)) = xt_ID ` set ts"
proof -
  have "fst ` set (fold (\<lambda>(i, t) m. AList.update (xt_ID t) i m) xs m0) = fst ` set m0 \<union> xt_ID ` set (map snd xs)"
    for xs :: "(uuid \<times> exportTask) list" and m0
  proof (induction xs arbitrary: m0)
    case (Cons x xs)
    obtain i t where x: "x = (i, t)" by (cases x)
    show ?case using Cons [of "AList.update (xt_ID t) i m0"] by (simp add: x dom_update insert_commute)
  qed simp
  then show ?thesis unfolding task_mapping_def by (simp add: set_snd_with_ids)
qed

section \<open>Users\<close>

lemma resolve_user_ok:
  assumes "uuid_Parse L (xu_ID u) \<noteq> None"
  shows "\<exists>s'. resolve_user L e req dry d s u = Inr s'
    \<and> fst ` set (ui_mapping s') = (if xu_ID u \<in> set req then insert (xu_ID u) (fst ` set (ui_mapping s)) else fst ` set (ui_mapping s))"
  using assms
  by (auto simp: resolve_user_def Let_def parse_id_def dom_update split: list.split)

lemma resolve_users_ok:
  assumes "\<forall>u\<in>set us. uuid_Parse L (xu_ID u) \<noteq> None"
  shows "\<exists>s'. foldE (resolve_user L e req dry d) s us = Inr s'
    \<and> fst ` set (ui_mapping s') = fst ` set (ui_mapping s) \<union> (xu_ID ` set us \<inter> set req)"
  using assms
proof (induction us arbitrary: s)
  case (Cons u us)
  obtain s1 where s1: "resolve_user L e req dry d s u = Inr s1"
    "fst ` set (ui_mapping s1) = (if xu_ID u \<in> set req then insert (xu_ID u) (fst ` set (ui_mapping s)) else fst ` set (ui_mapping s))"
    using resolve_user_ok [of L u e req dry d s] Cons.prems by auto
  have "\<forall>u\<in>set us. uuid_Parse L (xu_ID u) \<noteq> None" using Cons.prems by simp
  from Cons.IH [OF this, of s1] obtain s2 where "foldE (resolve_user L e req dry d) s1 us = Inr s2"
    "fst ` set (ui_mapping s2) = fst ` set (ui_mapping s1) \<union> (xu_ID ` set us \<inter> set req)" by blast
  then show ?case using s1 by auto
qed simp

lemma resolveImportUsers_ok:
  assumes "\<forall>u\<in>set us. uuid_Parse L (xu_ID u) \<noteq> None"
  shows "\<exists>s. resolveImportUsers L e us (map xu_ID us) dry k d = Inr s
    \<and> fst ` set (ui_mapping s) = xu_ID ` set us"
proof -
  obtain s where "foldE (resolve_user L e (map xu_ID us) dry d) \<lparr>ui_mapping = [], ui_create = [],
      ui_matched = 0, ui_created = 0, ui_warnings = [], ui_next = k\<rparr> us = Inr s"
    "fst ` set (ui_mapping s) = xu_ID ` set us"
    using resolve_users_ok [OF assms, of e "map xu_ID us" dry d] by fastforce
  then show ?thesis by (auto simp: resolveImportUsers_def)
qed

section \<open>Rows\<close>

text \<open>
  What the import asks of a stored task: a declared stage, a hold reason only in the stages that
  have one, and accepted URLs.
\<close>

definition importable :: "lib \<Rightarrow> env \<Rightarrow> task \<Rightarrow> bool" where
  "importable L e t \<longleftrightarrow> declared_stage (t_stage t)
     \<and> validateImportedTaskState e (t_stage t) (t_hold t) (t_start t) = Inr ()
     \<and> validateImportedTaskURLs (tables L) (url_Parse L) (t_prs t)
         (sanitizeRemoteData (tables L) (url_Parse L) (t_remote t))"

text \<open>The imported row of a task under renamings of the tasks and of the users.\<close>

definition reimported :: "lib \<Rightarrow> (uuid \<Rightarrow> uuid) \<Rightarrow> (uuid \<Rightarrow> uuid) \<Rightarrow> task \<Rightarrow> ImportTask" where
  "reimported L tm um t =
    \<lparr>im_ID = tm (t_id t), im_Title = t_title t, im_Description = t_description t,
     im_Phase = phaseForStage (t_stage t), im_Stage = t_stage t, im_HoldReason = t_hold t,
     im_NativeLabel = t_native_label t, im_Type = t_type t, im_Priority = t_priority t,
     im_Rank = t_rank t, im_AssigneeID = map_option um (t_assignee t),
     im_ParentTaskID = map_option tm (t_parent t), im_StartDate = t_start t, im_DueDate = t_due t,
     im_ClosedAt = t_closed t, im_CreatedAt = t_created t, im_UpdatedAt = t_updated t,
     im_AcceptanceCriteria = t_acceptance t, im_Labels = t_labels t, im_Repo = t_repo t,
     im_Branch = t_branch t, im_CIStatus = t_ci t, im_PullRequests = t_prs t,
     im_RemoteData = sanitizeRemoteData (tables L) (url_Parse L)
       (sanitizeRemoteData (tables L) (url_Parse L) (t_remote t)), im_Version = ''1''\<rparr>"

lemma set_text_enum [simp]:
  "set_text (map_option hold_reason_str h) = map_option hold_reason_str h"
  "set_text (map_option priority_str p) = map_option priority_str p"
  "set_text (map_option ci_status_str c) = map_option ci_status_str c"
  by (auto simp: set_text_def hold_reason_str_def split: option.split hold_reason.split)

lemma importedTask_export:
  assumes "importable L e t"
    and tm: "map_of tmap (uuid_String L (t_id t)) = Some (tm (t_id t))"
    and par: "\<And>p. t_parent t = Some p \<Longrightarrow> map_of tmap (uuid_String L p) = Some (tm p)"
    and um: "\<And>a. t_assignee t = Some a \<Longrightarrow> map_of umap (uuid_String L a) = Some (um a)"
    and ne: "\<And>u. uuid_String L u \<noteq> []"
  shows "importedTask L e tmap umap b 2 n (taskExport L t) = Inr (reimported L tm um t, None)"
proof -
  have stage: "declared_stage (t_stage t)" "stage_of_str (stage_str (t_stage t)) = t_stage t"
    using assms(1) declared_normal by (auto simp: importable_def normal_stage_def)
  have filled: "set_text (map_option (uuid_String L) v) = map_option (uuid_String L) v" for v
    using ne by (auto simp: set_text_def split: option.split)
  have migrate: "migrateTaskState e (taskExport L t) b 2 = Inr (phaseForStage (t_stage t), t_stage t, t_hold t, [])"
    using stage by (auto simp: migrateTaskState_def taskExport_def Let_def split: option.split)
  have "mapped_opt umap (xt_AssigneeID (taskExport L t)) = Inr (map_option um (t_assignee t))"
    "mapped_opt tmap (xt_ParentTaskID (taskExport L t)) = Inr (map_option tm (t_parent t))"
    using um par by (auto simp: mapped_opt_def taskExport_def filled mapped_def split: option.split)
  moreover have "parse_opt parseTaskPriority (xt_Priority (taskExport L t)) = Inr (t_priority t)"
    "parse_opt parseTaskCIStatus (xt_CIStatus (taskExport L t)) = Inr (t_ci t)"
    by (auto simp: parse_opt_def taskExport_def split: option.split)
  ultimately show ?thesis
    using assms(1) tm
    by (simp add: importedTask_def migrate mapped_def importable_def reimported_def)
      (simp add: taskExport_def)
qed

lemma import_ones:
  assumes "\<And>t n. t \<in> set ts \<Longrightarrow> importedTask L e tmap umap (oldBlockedByEvidence (doc_Relationships doc) (xt_ID t))
      (doc_FormatVersion doc) n t = Inr (f t, None)"
  shows "foldE (import_one L e tmap umap doc) s ts = Inr (s\<lparr>ir_tasks := ir_tasks s @ map f ts\<rparr>)"
  using assms
proof (induction ts arbitrary: s)
  case (Cons t ts)
  have "import_one L e tmap umap doc s t = Inr (s\<lparr>ir_tasks := ir_tasks s @ [f t]\<rparr>)"
    using Cons.prems [of t "uuid_at e (ir_next s)"] by (simp add: import_one_def)
  then show ?case using Cons by simp
qed simp

section \<open>The document of an export\<close>

text \<open>What is known of the document of a successful export on one database.\<close>

lemma export_users_ids:
  assumes "export_users L ids d = Inr us" shows "map xu_ID us = map (uuid_String L) ids"
proof (rule nth_equalityI)
  have rel: "list_all2 (\<lambda>i u. (case find (\<lambda>x. u_id x = i) (GetUsersByIDs ids d) of
      None \<Rightarrow> Inl (storeErr ErrNotFound) | Some x \<Rightarrow> Inr (userExport L x)) = Inr u) ids us"
    using assms by (simp add: export_users_def Let_def mapE_Inr_iff)
  then show "length (map xu_ID us) = length (map (uuid_String L) ids)" by (simp add: list_all2_lengthD)
  show "map xu_ID us ! j = map (uuid_String L) ids ! j" if "j < length (map xu_ID us)" for j
  proof -
    have "(case find (\<lambda>x. u_id x = ids ! j) (GetUsersByIDs ids d) of
      None \<Rightarrow> Inl (storeErr ErrNotFound) | Some x \<Rightarrow> Inr (userExport L x)) = Inr (us ! j)" and j: "j < length us" "j < length ids"
      using rel that by (auto simp: list_all2_conv_all_nth)
    then obtain y where y: "find (\<lambda>x. u_id x = ids ! j) (GetUsersByIDs ids d) = Some y" "us ! j = userExport L y"
      by (cases "find (\<lambda>x. u_id x = ids ! j) (GetUsersByIDs ids d)") simp_all
    then have "u_id y = ids ! j" using find_Some_mem [OF y(1)] by simp
    then show ?thesis using j y(2) by (simp add: userExport_def)
  qed
qed

lemma export_document:
  assumes "srv_ExportCollection L e c reqId inc d (same_dbs d) = Inr (doc, n)" and "uuid_Parse L reqId = Some cid"
  shows "doc_FormatVersion doc = 2 \<and> doc_Tasks doc = map (taskExport L) (ListAllTasksForCollection cid d)
    \<and> doc_Comments doc = map (commentExport L) (grouped cm_task (ListAllTasksForCollection cid d)
        (ListAllCommentsForCollection cid d))
    \<and> doc_Relationships doc = map (relExport L) (filter (\<lambda>r. task_in_coll cid (r_src r) d \<and> task_in_coll cid (r_tgt r) d)
        (ListAllRelationshipsForCollection cid d))
    \<and> doc_Changes doc = map (changeExport L) (if inc then grouped ch_task (ListAllTasksForCollection cid d)
        (ListAllChangesForCollection cid d) else [])
    \<and> (\<exists>co. GetCollection cid d = Inr co \<and> doc_Collection doc = collExport L co)
    \<and> xu_ID ` set (doc_Users doc) = uuid_String L ` people inc cid d"
proof -
  let ?ts = "ListAllTasksForCollection cid d"
  have inside: "task_in_coll cid i d \<longleftrightarrow> i \<in> t_id ` set ?ts" for i
    by (auto simp: task_in_coll_def list_ex_iff exported_tasks_set)
  from assms obtain co us where co: "GetCollection cid d = Inr co"
    and us: "export_users L (exported_people inc cid d) d = Inr us"
    and doc: "doc = \<lparr>doc_FormatVersion = 2, doc_ExportedAt = now e, doc_Generator = ''farmtable'',
          doc_Collection = collExport L co, doc_Users = us, doc_Tasks = map (taskExport L) ?ts,
          doc_Comments = map (commentExport L) (exported_comments cid d),
          doc_Relationships = map (relExport L) (filter (\<lambda>r. task_in_coll cid (r_src r) d
            \<and> task_in_coll cid (r_tgt r) d) (ListAllRelationshipsForCollection cid d)),
          doc_Changes = map (changeExport L) (exported_changes inc cid d)\<rparr>"
    unfolding srv_ExportCollection_def Let_def inside
    by (clarsimp simp: thenE_Inr with_code_Inr parse_id_def simp del: thenE_checkE cong: if_cong)
  have "set (map xu_ID us) = set (map (uuid_String L) (exported_people inc cid d))"
    using export_users_ids [OF us] by simp
  then have "xu_ID ` set us = uuid_String L ` people inc cid d"
    by (simp add: exported_people_set [symmetric])
  then show ?thesis using co by (simp add: doc)
qed

section \<open>The import of it\<close>

lemma mapE_ok: "(\<And>x. x \<in> set xs \<Longrightarrow> f x = Inr (g x)) \<Longrightarrow> mapE f xs = Inr (map g xs)"
  by (induction xs) auto

lemma mapE_exists: "(\<And>x. x \<in> set xs \<Longrightarrow> \<exists>y. f x = Inr y) \<Longrightarrow> \<exists>ys. mapE f xs = Inr ys"
proof (induction xs)
  case (Cons x xs)
  then obtain y ys where "f x = Inr y" "mapE f xs = Inr ys" by (metis list.set_intros)
  then show ?case by simp
qed simp

lemma filled_id [simp]:
  assumes "\<And>u. uuid_String L u \<noteq> []"
  shows "set_text (map_option (uuid_String L) v) = map_option (uuid_String L) v"
  using assms by (auto simp: set_text_def split: option.split)

lemma validate_export:
  assumes laws: "uuid_laws L" "\<And>u. uuid_String L u \<noteq> []"
    and tasks: "\<forall>t\<in>set ts. declared_stage (t_stage t) \<and> (\<forall>a. t_assignee t = Some a \<longrightarrow> a \<in> P)"
    and comments: "\<forall>c\<in>set cs. cm_task c \<in> t_id ` set ts \<and> cm_author c \<in> P"
    and rels: "\<forall>r\<in>set rs. r_src r \<in> t_id ` set ts \<and> r_tgt r \<in> t_id ` set ts"
    and changes: "\<forall>h\<in>set hs. ch_task h \<in> t_id ` set ts \<and> ch_author h \<in> P"
    and users: "xu_ID ` set (doc_Users doc) = uuid_String L ` P"
    and doc: "doc_FormatVersion doc = 2" "doc_Tasks doc = map (taskExport L) ts" "doc_Comments doc = map (commentExport L) cs"
      "doc_Relationships doc = map (relExport L) rs" "doc_Changes doc = map (changeExport L) hs"
    and ids: "set ids = uuid_String L ` t_id ` set ts"
  shows "validateImportReferences L doc ids = Inr (map xu_ID (doc_Users doc))"
proof -
  let ?us = "map xu_ID (doc_Users doc)"
  have parse: "parse_id L (uuid_String L i) = Inr i" for i using laws(1) by (simp add: parse_id_def uuid_laws_def)
  have us: "set ?us = uuid_String L ` P" using users by simp
  have "\<exists>i. parse_id L x = Inr i" if "x \<in> set ?us" for x using that us parse by auto
  then have "\<exists>is. mapE (parse_id L) ?us = Inr is"
    by (intro mapE_exists) blast
  moreover have "validate_task (doc_FormatVersion doc) ?us x = Inr ()" if "x \<in> set (doc_Tasks doc)" for x
    using that tasks us laws(2)
    by (auto simp: doc validate_task_def taskExport_def known_def split: option.split)
  then have "mapE (validate_task (doc_FormatVersion doc) ?us) (doc_Tasks doc) = Inr (map (\<lambda>_. ()) (doc_Tasks doc))"
    by (rule mapE_ok)
  moreover have "mapE (validate_comment L ids ?us) (doc_Comments doc) = Inr (map (\<lambda>_. ()) (doc_Comments doc))"
    using comments us ids by (intro mapE_ok) (auto simp: doc validate_comment_def commentExport_def parse known_def)
  moreover have "mapE (validate_rel L ids) (doc_Relationships doc) = Inr (map (\<lambda>_. ()) (doc_Relationships doc))"
    using rels ids by (intro mapE_ok) (auto simp: doc validate_rel_def relExport_def parse known_def)
  moreover have "mapE (validate_change L ids ?us) (doc_Changes doc) = Inr (map (\<lambda>_. ()) (doc_Changes doc))"
    using changes us ids by (intro mapE_ok) (auto simp: doc validate_change_def changeExport_def parse known_def)
  ultimately show ?thesis by (auto simp: validateImportReferences_def Let_def)
qed

lemma String_inj: "uuid_laws L \<Longrightarrow> uuid_String L a = uuid_String L b \<longleftrightarrow> a = b"
  unfolding uuid_laws_def by (metis option.inject)

lemma parent_of_export:
  assumes "\<And>u. uuid_String L u \<noteq> []"
  shows "parent_of (taskExport L t) = map_option (uuid_String L) (t_parent t)"
  using assms by (auto simp: parent_of_def taskExport_def split: option.split)

lemma id_of_export: "xt_ID (taskExport L t) = uuid_String L (t_id t)"
  by (simp add: taskExport_def)

lemma acyclic_export:
  assumes "uuid_laws L" and "\<And>u. uuid_String L u \<noteq> []"
    and "acyclic {(t_id t, p) | t p. t \<in> set ts \<and> t_parent t = Some p}" (is "acyclic ?r")
  shows "acyclic (parent_rel (map (taskExport L) ts))"
proof -
  have "?r \<subseteq> (\<lambda>t. (t_id t, the (t_parent t))) ` set ts" by force
  then have "finite ?r" using finite_subset by blast
  then have "wf ?r" using assms(3) by (rule finite_acyclic_wf)
  moreover have "inj (uuid_String L)" using String_inj [OF assms(1)] by (simp add: inj_def)
  ultimately have "acyclic (map_prod (uuid_String L) (uuid_String L) ` ?r)"
    by (intro wf_acyclic wf_map_prod_image)
  moreover have "parent_rel (map (taskExport L) ts) \<subseteq> map_prod (uuid_String L) (uuid_String L) ` ?r"
  proof (rule subrelI)
    fix a b assume "(a, b) \<in> parent_rel (map (taskExport L) ts)"
    then obtain t where t: "t \<in> set ts" "a = uuid_String L (t_id t)" "parent_of (taskExport L t) = Some b"
      by (auto simp: parent_rel_def id_of_export)
    then obtain q where "t_parent t = Some q" "b = uuid_String L q" by (auto simp: parent_of_export [OF assms(2)])
    then have "(t_id t, q) \<in> ?r" "(a, b) = map_prod (uuid_String L) (uuid_String L) (t_id t, q)" using t by auto
    then show "(a, b) \<in> map_prod (uuid_String L) (uuid_String L) ` ?r" by (rule rev_image_eqI)
  qed
  ultimately show ?thesis by (rule acyclic_subset)
qed

lemma order_export:
  assumes laws: "uuid_laws L" "\<And>u. uuid_String L u \<noteq> []" and dist: "distinct (map t_id ts)"
    and closed: "\<And>t p. t \<in> set ts \<Longrightarrow> t_parent t = Some p \<Longrightarrow> p \<in> t_id ` set ts"
    and acyc: "acyclic {(t_id t, p) | t p. t \<in> set ts \<and> t_parent t = Some p}"
  obtains ts' where "orderImportTasks (map (taskExport L) ts) = Inr (map (taskExport L) ts')" "mset ts' = mset ts"
proof -
  let ?f = "taskExport L"
  note id = id_of_export [of L]
  have "distinct (map xt_ID (map ?f ts))"
    using dist String_inj [OF laws(1)] by (auto simp: distinct_map inj_on_def id)
  moreover have "\<forall>x\<in>set (map ?f ts). \<forall>p. parent_of x = Some p \<longrightarrow> p \<in> xt_ID ` set (map ?f ts)"
  proof (intro ballI allI impI)
    fix x p assume "x \<in> set (map ?f ts)" "parent_of x = Some p"
    then obtain t q where "t \<in> set ts" "t_parent t = Some q" "p = uuid_String L q"
      by (auto simp: parent_of_export [OF laws(2)])
    moreover from this obtain u where "u \<in> set ts" "t_id u = q" using closed by blast
    ultimately show "p \<in> xt_ID ` set (map ?f ts)" by (force simp: id)
  qed
  ultimately obtain os where os: "orderImportTasks (map ?f ts) = Inr os"
    using order_exists [of "map ?f ts"] acyclic_export [OF laws acyc] by blast
  let ?g = "inv_into (set ts) ?f"
  have inj: "inj_on ?f (set ts)"
  proof (rule inj_onI)
    fix a b assume "a \<in> set ts" "b \<in> set ts" "?f a = ?f b"
    then have "t_id a = t_id b" using id String_inj [OF laws(1)] by metis
    then show "a = b" using dist \<open>a \<in> set ts\<close> \<open>b \<in> set ts\<close> by (auto simp: distinct_map inj_on_def)
  qed
  have m: "mset os = mset (map ?f ts)" using order_sound [OF os] by simp
  then have "set os = ?f ` set ts" using mset_eq_setD by fastforce
  then have "map ?f (map ?g os) = os" unfolding map_map by (intro map_idI) (simp add: f_inv_into_f)
  moreover have "mset (map ?g os) = mset ts"
  proof -
    have "mset (map ?g os) = image_mset ?g (mset (map ?f ts))" by (simp only: mset_map [of ?g os] m)
    also have "\<dots> = mset (map (?g \<circ> ?f) ts)" by (simp add: image_mset.compositionality)
    also have "map (?g \<circ> ?f) ts = ts" using inj by (intro map_idI) (simp add: inv_into_f_f)
    finally show ?thesis .
  qed
  ultimately show thesis using os that by metis
qed

text \<open>The rows that refer to tasks and users, under the renamings.\<close>

lemma imported_rels:
  assumes "uuid_laws L" and "\<And>r. r \<in> set rs \<Longrightarrow> map_of tmap (uuid_String L (r_src r)) = Some (tm (r_src r))
      \<and> map_of tmap (uuid_String L (r_tgt r)) = Some (tm (r_tgt r))"
  shows "\<exists>xs. mapE (importedRelationship L tmap) (with_ids e k (map (relExport L) rs)) = Inr xs
    \<and> (\<lambda>r. (ire_SourceTaskID r, ire_TargetTaskID r, ire_Type r)) ` set xs
        = (\<lambda>r. (tm (r_src r), tm (r_tgt r), r_type r)) ` set rs"
proof -
  have parse: "parse_id L (uuid_String L i) = Inr i" for i using assms(1) by (simp add: parse_id_def uuid_laws_def)
  let ?g = "\<lambda>x. \<lparr>ire_ID = fst x, ire_SourceTaskID = the (map_of tmap (xr_SourceTaskID (snd x))),
      ire_TargetTaskID = the (map_of tmap (xr_TargetTaskID (snd x))),
      ire_Type = the (parseRelationshipType (xr_Type (snd x)))\<rparr>"
  let ?xs = "with_ids e k (map (relExport L) rs)"
  have mem: "snd x \<in> relExport L ` set rs" if "x \<in> set ?xs" for x
    using that set_snd_with_ids [of e k "map (relExport L) rs"] by (metis imageI set_map)
  have run: "mapE (importedRelationship L tmap) ?xs = Inr (map ?g ?xs)"
  proof (rule mapE_ok)
    fix x assume "x \<in> set ?xs"
    then obtain r where "r \<in> set rs" "snd x = relExport L r" using mem by blast
    then show "importedRelationship L tmap x = Inr (?g x)"
      using assms(2) [of r] parse by (cases x) (simp add: importedRelationship_def relExport_def mapped_def)
  qed
  have "(\<lambda>r. (ire_SourceTaskID r, ire_TargetTaskID r, ire_Type r)) ` set (map ?g ?xs)
      = (\<lambda>x. (the (map_of tmap (xr_SourceTaskID x)), the (map_of tmap (xr_TargetTaskID x)),
          the (parseRelationshipType (xr_Type x)))) ` (snd ` set ?xs)"
    by (simp add: image_image)
  also have "\<dots> = (\<lambda>r. (tm (r_src r), tm (r_tgt r), r_type r)) ` set rs"
    unfolding set_snd_with_ids set_map image_image by (rule image_cong) (simp_all add: assms(2) relExport_def)
  finally show ?thesis using run by (intro exI conjI)
qed

lemma imported_comments:
  assumes "uuid_laws L" and "\<And>m. m \<in> set cs \<Longrightarrow> map_of tmap (uuid_String L (cm_task m)) = Some (tm (cm_task m))
      \<and> map_of umap (uuid_String L (cm_author m)) = Some (um (cm_author m))"
  shows "\<exists>xs. mapE (importedComment L tmap umap) (with_ids e k (map (commentExport L) cs)) = Inr xs
    \<and> (\<lambda>m. (ico_TaskID m, ico_AuthorID m, ico_Body m)) ` set xs
        = (\<lambda>m. (tm (cm_task m), um (cm_author m), cm_body m)) ` set cs"
proof -
  have parse: "parse_id L (uuid_String L i) = Inr i" for i using assms(1) by (simp add: parse_id_def uuid_laws_def)
  let ?g = "\<lambda>x. \<lparr>ico_ID = fst x, ico_TaskID = the (map_of tmap (xm_TaskID (snd x))),
      ico_AuthorID = the (map_of umap (xm_AuthorID (snd x))), ico_Body = xm_Body (snd x),
      ico_CreatedAt = xm_CreatedAt (snd x), ico_UpdatedAt = xm_UpdatedAt (snd x)\<rparr>"
  let ?xs = "with_ids e k (map (commentExport L) cs)"
  have mem: "snd x \<in> commentExport L ` set cs" if "x \<in> set ?xs" for x
    using that set_snd_with_ids [of e k "map (commentExport L) cs"] by (metis imageI set_map)
  have run: "mapE (importedComment L tmap umap) ?xs = Inr (map ?g ?xs)"
  proof (rule mapE_ok)
    fix x assume "x \<in> set ?xs"
    then obtain m where "m \<in> set cs" "snd x = commentExport L m" using mem by blast
    then show "importedComment L tmap umap x = Inr (?g x)"
      using assms(2) [of m] parse by (cases x) (simp add: importedComment_def commentExport_def mapped_def)
  qed
  have "(\<lambda>m. (ico_TaskID m, ico_AuthorID m, ico_Body m)) ` set (map ?g ?xs)
      = (\<lambda>x. (the (map_of tmap (xm_TaskID x)), the (map_of umap (xm_AuthorID x)), xm_Body x)) ` (snd ` set ?xs)"
    by (simp add: image_image)
  also have "\<dots> = (\<lambda>m. (tm (cm_task m), um (cm_author m), cm_body m)) ` set cs"
    unfolding set_snd_with_ids set_map image_image by (rule image_cong) (simp_all add: assms(2) commentExport_def)
  finally show ?thesis using run by (intro exI conjI)
qed

lemma imported_changes:
  assumes "uuid_laws L" and "\<And>h. h \<in> set hs \<Longrightarrow> map_of tmap (uuid_String L (ch_task h)) \<noteq> None
      \<and> map_of umap (uuid_String L (ch_author h)) \<noteq> None"
  shows "\<exists>xs. mapE (importedChange L tmap umap) (with_ids e k (map (changeExport L) hs)) = Inr xs"
proof (rule mapE_exists)
  fix x assume x: "x \<in> set (with_ids e k (map (changeExport L) hs))"
  have parse: "parse_id L (uuid_String L i) = Inr i" for i using assms(1) by (simp add: parse_id_def uuid_laws_def)
  have "snd x \<in> changeExport L ` set hs"
    using x set_snd_with_ids [of e k "map (changeExport L) hs"] by (metis imageI set_map)
  then obtain h where "h \<in> set hs" "snd x = changeExport L h" by blast
  then show "\<exists>y. importedChange L tmap umap x = Inr y"
    using assms(2) [of h] parse by (cases x) (auto simp: importedChange_def changeExport_def mapped_def)
qed

text \<open>The renaming of the tasks that an import draws.\<close>

definition task_renaming :: "lib \<Rightarrow> env \<Rightarrow> nat \<Rightarrow> task list \<Rightarrow> uuid \<Rightarrow> uuid" where
  "task_renaming L e k ts i = the (map_of (task_mapping e k (map (taskExport L) ts)) (uuid_String L i))"

lemma task_renaming_at:
  assumes "uuid_laws L" and "distinct (map t_id ts)" and "j < length ts"
  shows "map_of (task_mapping e k (map (taskExport L) ts)) (uuid_String L (t_id (ts ! j))) = Some (uuid_at e (k + j))"
proof -
  have "distinct (map xt_ID (map (taskExport L) ts))"
    using assms(2) String_inj [OF assms(1)] by (auto simp: distinct_map inj_on_def id_of_export)
  from task_mapping_at [OF this, of j e k] show ?thesis using assms(3) by (simp add: id_of_export)
qed

lemma task_renaming_of:
  assumes "uuid_laws L" and "distinct (map t_id ts)" and "i \<in> t_id ` set ts"
  shows "map_of (task_mapping e k (map (taskExport L) ts)) (uuid_String L i) = Some (task_renaming L e k ts i)"
proof -
  from assms(3) obtain j where "j < length ts" "i = t_id (ts ! j)" by (auto simp: in_set_conv_nth)
  then show ?thesis using task_renaming_at [OF assms(1,2), of j e k] by (simp add: task_renaming_def)
qed

lemma task_renaming_inj:
  assumes "uuid_laws L" and "distinct (map t_id ts)" and "inj (uuid_at e)"
  shows "inj_on (task_renaming L e k ts) (t_id ` set ts)"
proof (rule inj_onI)
  fix a b assume ab: "a \<in> t_id ` set ts" "b \<in> t_id ` set ts" "task_renaming L e k ts a = task_renaming L e k ts b"
  then obtain i j where ij: "i < length ts" "a = t_id (ts ! i)" "j < length ts" "b = t_id (ts ! j)"
    by (auto simp: in_set_conv_nth)
  have "task_renaming L e k ts a = uuid_at e (k + i)" "task_renaming L e k ts b = uuid_at e (k + j)"
    using task_renaming_at [OF assms(1,2), of _ e k] ij by (simp_all add: task_renaming_def)
  then show "a = b" using ab(3) assms(3) ij by (simp add: inj_eq)
qed

text \<open>A document that lists stored rows, with everybody it names among its users.\<close>

definition lists_rows ::
  "lib \<Rightarrow> exportDocument \<Rightarrow> task list \<Rightarrow> comment list \<Rightarrow> rel list \<Rightarrow> change list \<Rightarrow> uuid set \<Rightarrow> bool" where
  "lists_rows L doc ts cs rs hs P \<longleftrightarrow>
     doc_FormatVersion doc = 2 \<and> doc_Tasks doc = map (taskExport L) ts
     \<and> doc_Comments doc = map (commentExport L) cs \<and> doc_Relationships doc = map (relExport L) rs
     \<and> doc_Changes doc = map (changeExport L) hs \<and> xu_ID ` set (doc_Users doc) = uuid_String L ` P
     \<and> (\<forall>t\<in>set ts. \<forall>a. t_assignee t = Some a \<longrightarrow> a \<in> P)
     \<and> (\<forall>c\<in>set cs. cm_task c \<in> t_id ` set ts \<and> cm_author c \<in> P)
     \<and> (\<forall>r\<in>set rs. r_src r \<in> t_id ` set ts \<and> r_tgt r \<in> t_id ` set ts)
     \<and> (\<forall>h\<in>set hs. ch_task h \<in> t_id ` set ts \<and> ch_author h \<in> P)"

text \<open>The parts of the import of such a document.\<close>

lemma listed_users:
  assumes "uuid_laws L" and "xu_ID ` set us = uuid_String L ` P"
  shows "\<exists>u um. resolveImportUsers L e us (map xu_ID us) dry k d = Inr u
    \<and> (\<forall>a\<in>P. map_of (ui_mapping u) (uuid_String L a) = Some (um a))"
proof -
  have "uuid_Parse L (xu_ID x) \<noteq> None" if x: "x \<in> set us" for x
  proof -
    have "xu_ID x \<in> uuid_String L ` P" using x assms(2) by blast
    then obtain a where "xu_ID x = uuid_String L a" by blast
    then show ?thesis using assms(1) by (simp add: uuid_laws_def)
  qed
  then obtain u where u: "resolveImportUsers L e us (map xu_ID us) dry k d = Inr u"
    "fst ` set (ui_mapping u) = xu_ID ` set us"
    using resolveImportUsers_ok [of us L e dry k d] by blast
  define um where "um a = the (map_of (ui_mapping u) (uuid_String L a))" for a
  have "map_of (ui_mapping u) (uuid_String L a) = Some (um a)" if a: "a \<in> P" for a
  proof -
    have "uuid_String L a \<in> fst ` set (ui_mapping u)" using a u(2) assms(2) by simp
    then show ?thesis by (cases "map_of (ui_mapping u) (uuid_String L a)") (auto simp: um_def map_of_eq_None_iff)
  qed
  then show ?thesis using u(1) by blast
qed

lemma listed_tasks:
  assumes "uuid_laws L" and ne: "\<And>u. uuid_String L u \<noteq> []" and dist: "distinct (map t_id ts)"
    and rows: "lists_rows L doc ts cs rs hs P"
    and closed: "\<And>t p. t \<in> set ts \<Longrightarrow> t_parent t = Some p \<Longrightarrow> p \<in> t_id ` set ts"
    and imp: "\<And>t. t \<in> set ts \<Longrightarrow> importable L e t" and sub: "set ts' \<subseteq> set ts"
    and um: "\<forall>a\<in>P. map_of umap (uuid_String L a) = Some (um a)"
  shows "foldE (import_one L e (task_mapping e k (doc_Tasks doc)) umap doc) s (map (taskExport L) ts')
    = Inr (s\<lparr>ir_tasks := ir_tasks s @ map (reimported L (task_renaming L e k ts) um) ts'\<rparr>)"
proof -
  let ?f = "\<lambda>x. reimported L (task_renaming L e k ts) um (inv_into (set ts) (taskExport L) x)"
  have inj: "inj_on (taskExport L) (set ts)"
  proof (rule inj_onI)
    fix a b assume ab: "a \<in> set ts" "b \<in> set ts" "taskExport L a = taskExport L b"
    then have "uuid_String L (t_id a) = uuid_String L (t_id b)" using id_of_export [of L] by metis
    then have "t_id a = t_id b" using String_inj [OF assms(1)] by blast
    then show "a = b" using dist ab(1,2) by (auto simp: distinct_map dest: inj_onD)
  qed
  have f: "?f (taskExport L t) = reimported L (task_renaming L e k ts) um t" if "t \<in> set ts" for t
    using that inj by simp
  have one: "importedTask L e (task_mapping e k (doc_Tasks doc)) umap b (doc_FormatVersion doc) n (taskExport L t)
      = Inr (?f (taskExport L t), None)" if t: "t \<in> set ts" for t b n
  proof -
    have "importedTask L e (task_mapping e k (doc_Tasks doc)) umap b 2 n (taskExport L t)
        = Inr (reimported L (task_renaming L e k ts) um t, None)"
    proof (rule importedTask_export [OF imp [OF t]])
      show "map_of umap (uuid_String L a) = Some (um a)" if "t_assignee t = Some a" for a
        using that t rows um by (auto simp: lists_rows_def)
      show "map_of (task_mapping e k (doc_Tasks doc)) (uuid_String L p) = Some (task_renaming L e k ts p)"
        if "t_parent t = Some p" for p
        using task_renaming_of [OF assms(1) dist closed [OF t that]] rows by (simp add: lists_rows_def)
      show "map_of (task_mapping e k (doc_Tasks doc)) (uuid_String L (t_id t)) = Some (task_renaming L e k ts (t_id t))"
        using task_renaming_of [OF assms(1) dist] t rows by (simp add: lists_rows_def)
    qed (rule ne)
    then show ?thesis using f [OF t] rows by (simp add: lists_rows_def)
  qed
  have "foldE (import_one L e (task_mapping e k (doc_Tasks doc)) umap doc) s (map (taskExport L) ts')
    = Inr (s\<lparr>ir_tasks := ir_tasks s @ map ?f (map (taskExport L) ts')\<rparr>)"
    using one sub by (intro import_ones) auto
  moreover have "map ?f (map (taskExport L) ts') = map (reimported L (task_renaming L e k ts) um) ts'"
    using f sub by auto
  ultimately show ?thesis by simp
qed

lemma import_listed:
  assumes laws: "uuid_laws L" and ne: "\<And>u. uuid_String L u \<noteq> []" and dist: "distinct (map t_id ts)"
    and rows: "lists_rows L doc ts cs rs hs P"
    and closed: "\<And>t p. t \<in> set ts \<Longrightarrow> t_parent t = Some p \<Longrightarrow> p \<in> t_id ` set ts"
    and acyc: "acyclic {(t_id t, p) | t p. t \<in> set ts \<and> t_parent t = Some p}"
    and imp: "\<And>t. t \<in> set ts \<Longrightarrow> importable L e t"
    and name: "ic_Name (import_collection name L (doc_Collection doc)) \<noteq> []"
  shows "\<exists>p stats ws k' um. import_document L e name dry doc k d = Inr (p, stats, ws, k')
    \<and> mset (ip_Tasks p) = mset (map (reimported L (task_renaming L e k ts) um) ts)
    \<and> (\<lambda>r. (ire_SourceTaskID r, ire_TargetTaskID r, ire_Type r)) ` set (ip_Relationships p)
        = (\<lambda>r. (task_renaming L e k ts (r_src r), task_renaming L e k ts (r_tgt r), r_type r)) ` set rs
    \<and> (\<lambda>m. (ico_TaskID m, ico_AuthorID m, ico_Body m)) ` set (ip_Comments p)
        = (\<lambda>m. (task_renaming L e k ts (cm_task m), um (cm_author m), cm_body m)) ` set cs"
proof -
  let ?tm = "task_renaming L e k ts" and ?tmap = "task_mapping e k (doc_Tasks doc)"
  from rows have doc: "doc_FormatVersion doc = 2" "doc_Tasks doc = map (taskExport L) ts"
    "doc_Comments doc = map (commentExport L) cs" "doc_Relationships doc = map (relExport L) rs"
    "doc_Changes doc = map (changeExport L) hs" "xu_ID ` set (doc_Users doc) = uuid_String L ` P"
    by (simp_all add: lists_rows_def)
  have tm: "map_of ?tmap (uuid_String L i) = Some (?tm i)" if "i \<in> t_id ` set ts" for i
    using task_renaming_of [OF laws dist that] by (simp add: doc)
  have "parse_id L (xt_ID x) = Inr (the (uuid_Parse L (xt_ID x)))" if "x \<in> set (doc_Tasks doc)" for x
    using that laws by (auto simp: doc id_of_export parse_id_def uuid_laws_def)
  then have parse: "mapE (\<lambda>t. parse_id L (xt_ID t)) (doc_Tasks doc) = Inr (map (\<lambda>t. the (uuid_Parse L (xt_ID t))) (doc_Tasks doc))"
    by (rule mapE_ok)
  obtain ts' where order: "orderImportTasks (doc_Tasks doc) = Inr (map (taskExport L) ts')" and ts': "mset ts' = mset ts"
    using closed by (rule order_export [OF laws ne dist _ acyc]) (simp_all add: doc(2))
  have sub: "set ts' \<subseteq> set ts" using mset_eq_setD [OF ts'] by simp
  have ids: "set (map fst ?tmap) = uuid_String L ` t_id ` set ts"
    unfolding task_mapping_dom doc(2) by (simp add: image_image id_of_export)
  have refs: "validateImportReferences L doc (map fst ?tmap) = Inr (map xu_ID (doc_Users doc))"
    using rows imp by (intro validate_export [OF laws ne _ _ _ _ doc(6,1-5) ids])
      (auto simp: lists_rows_def importable_def)
  obtain u um where users: "resolveImportUsers L e (doc_Users doc) (map xu_ID (doc_Users doc)) dry
        (k + length (doc_Tasks doc)) d = Inr u"
    and um: "\<forall>a\<in>P. map_of (ui_mapping u) (uuid_String L a) = Some (um a)"
    using listed_users [OF laws doc(6)] by blast
  obtain xs where xs: "mapE (importedComment L ?tmap (ui_mapping u)) (with_ids e (ui_next u) (doc_Comments doc)) = Inr xs"
    "(\<lambda>m. (ico_TaskID m, ico_AuthorID m, ico_Body m)) ` set xs
        = (\<lambda>m. (?tm (cm_task m), um (cm_author m), cm_body m)) ` set cs"
    using imported_comments [OF laws, of cs ?tmap ?tm "ui_mapping u" um e "ui_next u"] rows um tm
    by (auto simp: lists_rows_def)
  obtain ys where ys: "mapE (importedRelationship L ?tmap)
        (with_ids e (ui_next u + length (doc_Comments doc)) (doc_Relationships doc)) = Inr ys"
    "(\<lambda>r. (ire_SourceTaskID r, ire_TargetTaskID r, ire_Type r)) ` set ys
        = (\<lambda>r. (?tm (r_src r), ?tm (r_tgt r), r_type r)) ` set rs"
    using imported_rels [OF laws, of rs ?tmap ?tm e "ui_next u + length (doc_Comments doc)"] rows tm
    by (auto simp: lists_rows_def)
  obtain zs where zs: "mapE (importedChange L ?tmap (ui_mapping u)) (with_ids e
        (ui_next u + length (doc_Comments doc) + length (doc_Relationships doc)) (doc_Changes doc)) = Inr zs"
  proof -
    have "map_of ?tmap (uuid_String L (ch_task h)) \<noteq> None \<and> map_of (ui_mapping u) (uuid_String L (ch_author h)) \<noteq> None"
      if "h \<in> set hs" for h
      using that rows um tm by (auto simp: lists_rows_def)
    then show ?thesis
      using imported_changes [OF laws, of hs ?tmap "ui_mapping u" e] doc(5) that by auto
  qed
  note tasks = listed_tasks [OF laws ne dist rows closed imp sub um]
  have "\<exists>p stats ws k'. import_document L e name dry doc k d = Inr (p, stats, ws, k')
    \<and> ip_Tasks p = map (reimported L ?tm um) ts' \<and> ip_Relationships p = ys \<and> ip_Comments p = xs"
    using parse order name refs users xs(1) ys(1) zs tasks
    by (simp add: import_document_def Let_def)
  then obtain p stats ws k' where run: "import_document L e name dry doc k d = Inr (p, stats, ws, k')"
    and p: "ip_Tasks p = map (reimported L ?tm um) ts'" "ip_Relationships p = ys" "ip_Comments p = xs" by blast
  have "mset (ip_Tasks p) = mset (map (reimported L ?tm um) ts)" by (simp add: p(1) ts')
  then show ?thesis using run xs(2) ys(2) unfolding p(2,3) [symmetric] by (intro exI conjI)
qed



end
