(* ===== verification/FT_Labels.thy ===== *)
theory FT_Labels
  imports FT_Utf8 FT_Model "HOL-Library.AList"
begin

text \<open>
  The mapping between GitHub labels and the values of a task
  (\<open>internal/platform/github/labels.go\<close>, \<open>config.go\<close>): the tables a \<open>LabelMapper\<close> is built
  with, the lookups in both directions, and the labels to add and to remove when a value
  changes. Go visits a map in any order; the maps of the configuration are lists of entries in
  the order of the visit. A missing stage is \<open>None\<close>.
\<close>

section \<open>Strings\<close>

text \<open>\<open>utf8.AppendRune\<close>.\<close>

definition byte_of :: "nat \<Rightarrow> char" where "byte_of n = char_of n"

definition EncodeRune :: "nat \<Rightarrow> string" where
  "EncodeRune r =
    (if r < 128 then [byte_of r]
     else if r < 2048 then [byte_of (192 + r div 64), byte_of (128 + r mod 64)]
     else if in_range 55296 57343 r \<or> 1114111 < r then map byte_of [239, 191, 189]
     else if r < 65536 then
       [byte_of (224 + r div 4096), byte_of (128 + r div 64 mod 64), byte_of (128 + r mod 64)]
     else [byte_of (240 + r div 262144), byte_of (128 + r div 4096 mod 64),
           byte_of (128 + r div 64 mod 64), byte_of (128 + r mod 64)])"

text \<open>\<open>strings.ToLower\<close>.\<close>

definition lower :: "unicode \<Rightarrow> string \<Rightarrow> string" where
  "lower U s = concat (map (\<lambda>r. EncodeRune (ToLower U r)) (runes s))"

text \<open>
  \<open>strings.EqualFold\<close> with an ASCII text: outside ASCII only the long s and the Kelvin sign
  fold to an ASCII letter.
\<close>

definition fold_rune :: "nat \<Rightarrow> nat" where
  "fold_rune r = (if in_range 65 90 r then r + 32 else if r = 383 then 115 else if r = 8490 then 107 else r)"

definition EqualFold :: "string \<Rightarrow> string \<Rightarrow> bool" where
  "EqualFold s t \<longleftrightarrow> map fold_rune (runes s) = map fold_rune (runes t)"

definition has_prefix :: "string \<Rightarrow> string \<Rightarrow> bool" where
  "has_prefix s p \<longleftrightarrow> take (length p) s = p"

definition trim_prefix :: "string \<Rightarrow> string \<Rightarrow> string" where
  "trim_prefix s p = (if has_prefix s p then drop (length p) s else s)"

section \<open>Configuration\<close>

record LabelConfig =
  lc_Enabled :: bool
  lc_Stages :: "(string \<times> string) list"
  lc_Priorities :: "(string \<times> string) list"
  lc_Types :: "(string \<times> string) list"
  lc_PushPrefix :: string
  lc_AutoCreateLabels :: bool

definition DefaultConfig :: LabelConfig where
  "DefaultConfig = \<lparr>lc_Enabled = True, lc_Stages = [], lc_Priorities = [], lc_Types = [],
     lc_PushPrefix = ''ft:'', lc_AutoCreateLabels = True\<rparr>"

section \<open>The tables\<close>

definition stagePrecedence :: "stage list" where
  "stagePrecedence = [StageWorking, StageInReview, StageInQa, StageDeploying, StageAccepted,
     StageTriage, StageCompleted, StageWontFix, StageDuplicate, StageCancelled]"

definition allStages :: "stage list" where
  "allStages = [StageTriage, StageAccepted, StageWorking, StageInReview, StageInQa, StageDeploying,
     StageCompleted, StageWontFix, StageDuplicate, StageCancelled]"

definition defaultPriorityMap :: "(string \<times> priority) list" where
  "defaultPriorityMap = [(''urgent'', PriorityUrgent), (''high'', PriorityHigh),
     (''normal'', PriorityNormal), (''low'', PriorityLow)]"

definition defaultTypeLabels :: "(string \<times> string) list" where
  "defaultTypeLabels = [(''bug'', ''bug''), (''feature'', ''feature''), (''task'', ''task''), (''design'', ''design'')]"

record LabelMapper =
  lm_config :: LabelConfig
  lm_enabled :: bool
  lm_stageToLabel :: "(stage \<times> string) list"
  lm_priorityToLabel :: "(priority \<times> string) list"
  lm_typeToLabel :: "(string \<times> string) list"
  lm_labelToStage :: "(string \<times> stage) list"
  lm_labelToPriority :: "(string \<times> priority) list"
  lm_labelToType :: "(string \<times> string) list"

definition push_prefix :: "LabelConfig \<Rightarrow> string" where
  "push_prefix cfg = (if lc_PushPrefix cfg = [] then ''ft:'' else lc_PushPrefix cfg)"

definition stage_label :: "LabelConfig \<Rightarrow> stage \<Rightarrow> string" where
  "stage_label cfg s = push_prefix cfg @ ''stage/'' @ stage_str s"

definition priority_label :: "priority \<Rightarrow> string" where
  "priority_label p = ''priority:'' @ priority_str p"

text \<open>\<open>task.PriorityValidator\<close>.\<close>

definition priority_of_str :: "string \<Rightarrow> priority option" where
  "priority_of_str s = map_of defaultPriorityMap s"

text \<open>The writes of a loop over the entries of a map, into a map.\<close>

definition put_all :: "('k \<times> 'v) list \<Rightarrow> ('k \<times> 'v) list \<Rightarrow> ('k \<times> 'v) list" where
  "put_all kvs m = fold (\<lambda>(k, v) m. AList.update k v m) kvs m"

text \<open>The entries a configured label adds, when its value is a declared one.\<close>

definition config_stages :: "unicode \<Rightarrow> LabelConfig \<Rightarrow> (string \<times> stage) list" where
  "config_stages U cfg = map (\<lambda>(label, st). (lower U label, stage_of_str st))
     (filter (\<lambda>(label, st). declared_stage (stage_of_str st)) (lc_Stages cfg))"

definition config_priorities :: "unicode \<Rightarrow> LabelConfig \<Rightarrow> (string \<times> priority) list" where
  "config_priorities U cfg = List.map_filter
     (\<lambda>(label, p). map_option (\<lambda>q. (lower U label, q)) (priority_of_str p)) (lc_Priorities cfg)"

definition NewLabelMapper :: "unicode \<Rightarrow> LabelConfig \<Rightarrow> LabelMapper" where
  "NewLabelMapper U cfg =
    (let stages = map (\<lambda>s. (lower U (stage_str s), s)) allStages @ config_stages U cfg;
         prios = defaultPriorityMap @ config_priorities U cfg in
     \<lparr>lm_config = cfg, lm_enabled = lc_Enabled cfg,
      lm_stageToLabel = put_all (map (\<lambda>(_, s). (s, stage_label cfg s)) stages) [],
      lm_priorityToLabel = put_all (map (\<lambda>(_, p). (p, priority_label p)) prios) [],
      lm_typeToLabel = put_all (map (\<lambda>(label, ty). (ty, label)) defaultTypeLabels
        @ map (\<lambda>(label, ty). (ty, lower U label)) (lc_Types cfg)) [],
      lm_labelToStage = put_all stages [],
      lm_labelToPriority = put_all prios [],
      lm_labelToType = put_all (defaultTypeLabels @ map (\<lambda>(label, ty). (lower U label, ty)) (lc_Types cfg)) []\<rparr>)"

section \<open>From labels to values\<close>

definition stripForMatch :: "unicode \<Rightarrow> LabelMapper \<Rightarrow> string \<Rightarrow> string" where
  "stripForMatch U m raw =
    (let s = lower U (TrimSpace raw);
         p0 = lower U (lc_PushPrefix (lm_config m));
         p = (if p0 = [] then ''ft:'' else p0);
         s1 = (if has_prefix s p then drop (length p) s else s)
     in trim_prefix (trim_prefix (trim_prefix s1 ''stage/'') ''priority/'') ''priority:'')"

text \<open>The values of the labels that have one, in the order of the labels.\<close>

definition mapped_labels :: "unicode \<Rightarrow> LabelMapper \<Rightarrow> (string \<times> 'v) list \<Rightarrow> string list \<Rightarrow> 'v list" where
  "mapped_labels U m tab labels = List.map_filter (\<lambda>raw. map_of tab (stripForMatch U m raw)) labels"

definition first_of :: "'a list \<Rightarrow> 'a option" where
  "first_of xs = (case xs of [] \<Rightarrow> None | x # _ \<Rightarrow> Some x)"

definition MapLabelsToStage :: "unicode \<Rightarrow> LabelMapper \<Rightarrow> string list \<Rightarrow> stage option" where
  "MapLabelsToStage U m labels =
    (if \<not> lm_enabled m then None
     else let candidates = mapped_labels U m (lm_labelToStage m) labels in
       case find (\<lambda>s. List.member candidates s) stagePrecedence of
         Some s \<Rightarrow> Some s
       | None \<Rightarrow> first_of candidates)"

definition MapLabelsToPriority :: "unicode \<Rightarrow> LabelMapper \<Rightarrow> string list \<Rightarrow> priority option" where
  "MapLabelsToPriority U m labels =
    (if \<not> lm_enabled m then None else first_of (mapped_labels U m (lm_labelToPriority m) labels))"

definition MapLabelsToType :: "unicode \<Rightarrow> LabelMapper \<Rightarrow> string list \<Rightarrow> string option" where
  "MapLabelsToType U m labels =
    (if \<not> lm_enabled m then None else first_of (mapped_labels U m (lm_labelToType m) labels))"

definition IssueToPhaseStage ::
  "unicode \<Rightarrow> LabelMapper \<Rightarrow> string \<Rightarrow> string \<Rightarrow> string list \<Rightarrow> phase \<times> stage" where
  "IssueToPhaseStage U m state stateReason labels =
    (case MapLabelsToStage U m labels of
       Some s \<Rightarrow> (github_phaseForStage s, s)
     | None \<Rightarrow>
         if EqualFold state ''closed'' then
           (if EqualFold stateReason ''not_planned'' then (PhaseClosed, StageWontFix)
            else (PhaseClosed, StageCompleted))
         else (github_phaseForStage StageAccepted, StageAccepted))"

section \<open>From values to labels\<close>

text \<open>The empty label stands for none.\<close>

definition StageToLabel :: "LabelMapper \<Rightarrow> stage \<Rightarrow> string" where
  "StageToLabel m s =
    (if \<not> lm_enabled m then []
     else case map_of (lm_stageToLabel m) s of Some l \<Rightarrow> l | None \<Rightarrow> stage_label (lm_config m) s)"

definition PriorityToLabel :: "LabelMapper \<Rightarrow> priority \<Rightarrow> string" where
  "PriorityToLabel m p =
    (if \<not> lm_enabled m then []
     else case map_of (lm_priorityToLabel m) p of Some l \<Rightarrow> l | None \<Rightarrow> priority_label p)"

definition TypeToLabel :: "LabelMapper \<Rightarrow> string \<Rightarrow> string" where
  "TypeToLabel m ty =
    (if \<not> lm_enabled m then [] else case map_of (lm_typeToLabel m) ty of Some l \<Rightarrow> l | None \<Rightarrow> [])"

text \<open>The current labels of the kind that are not the new one go; the new one comes if it is missing.\<close>

definition stale_labels :: "unicode \<Rightarrow> LabelMapper \<Rightarrow> (string \<times> 'v) list \<Rightarrow> string \<Rightarrow> string list \<Rightarrow> string list" where
  "stale_labels U m tab newLabel current =
    filter (\<lambda>raw. map_of tab (stripForMatch U m raw) \<noteq> None \<and> raw \<noteq> newLabel) current"

definition missing_label :: "string \<Rightarrow> string list \<Rightarrow> string list" where
  "missing_label newLabel current = (if List.member current newLabel then [] else [newLabel])"

definition StageLabelSwap :: "unicode \<Rightarrow> LabelMapper \<Rightarrow> string list \<Rightarrow> stage \<Rightarrow> string list \<times> string list" where
  "StageLabelSwap U m current newStage =
    (if \<not> lm_enabled m then ([], [])
     else let l = StageToLabel m newStage
       in (missing_label l current, stale_labels U m (lm_labelToStage m) l current))"

definition PriorityLabelSwap ::
  "unicode \<Rightarrow> LabelMapper \<Rightarrow> string list \<Rightarrow> priority \<Rightarrow> string list \<times> string list" where
  "PriorityLabelSwap U m current newPriority =
    (if \<not> lm_enabled m then ([], [])
     else let l = PriorityToLabel m newPriority
       in (missing_label l current, stale_labels U m (lm_labelToPriority m) l current))"

definition TypeLabelSwap :: "unicode \<Rightarrow> LabelMapper \<Rightarrow> string list \<Rightarrow> string \<Rightarrow> string list \<times> string list" where
  "TypeLabelSwap U m current newType =
    (if \<not> lm_enabled m then ([], [])
     else let l = TypeToLabel m newType
       in (if l = [] then [] else missing_label l current,
           stale_labels U m (lm_labelToType m) l current))"

end
