(* ===== verification/FT_LabelProps.thy ===== *)
theory FT_LabelProps
  imports FT_Labels
begin

text \<open>
  Labels and values agree: the labels that a change of stage leaves on an issue map back to that
  stage, whatever else is on the issue.
\<close>

section \<open>Strings\<close>

text \<open>What \<open>unicode.ToLower\<close> does on ASCII.\<close>

definition lowers_ascii :: "unicode \<Rightarrow> bool" where
  "lowers_ascii U \<longleftrightarrow> (\<forall>r<128. ToLower U r = (if in_range 65 90 r then r + 32 else r))"

definition graphic :: "string \<Rightarrow> bool" where
  "graphic s \<longleftrightarrow> list_all (\<lambda>c. in_range 33 126 (of_char c)) s"

lemma graphic_simps [simp]:
  "graphic []" "graphic (c # s) \<longleftrightarrow> in_range 33 126 (of_char c) \<and> graphic s"
  "graphic (s @ t) \<longleftrightarrow> graphic s \<and> graphic t"
  by (simp_all add: graphic_def)

lemma graphic_ascii: "graphic s \<Longrightarrow> ascii_text s"
  by (induction s) (simp_all add: in_range_def)

lemma graphic_not_space: "in_range 33 126 r \<Longrightarrow> \<not> IsSpace r"
  by (auto simp: IsSpace_def in_range_def)

lemma TrimSpace_graphic: "graphic s \<Longrightarrow> TrimSpace s = s"
proof -
  assume g: "graphic s"
  have "dropWhile (\<lambda>c. IsSpace (fst c)) cs = cs" if "\<forall>c\<in>set cs. \<not> IsSpace (fst c)" for cs :: "(nat \<times> string) list"
    using that by (cases cs) simp_all
  moreover have "\<forall>c\<in>set (rune_chunks s). \<not> IsSpace (fst c)"
    using g by (auto simp: rune_chunks_ascii [OF graphic_ascii] graphic_def list_all_iff intro!: graphic_not_space)
  then have "\<forall>c\<in>set (rune_chunks s). \<not> IsSpace (fst c)" "\<forall>c\<in>set (rev (rune_chunks s)). \<not> IsSpace (fst c)"
    by simp_all
  ultimately show ?thesis by (simp only: TrimSpace_def rev_rev_ident rune_chunks_bytes)
qed

lemma lower_ascii: "lowers_ascii U \<Longrightarrow> ascii_text s \<Longrightarrow> lower U s = map lower_char s"
proof (induction s)
  case (Cons c s)
  have "EncodeRune (ToLower U (of_char c)) = [lower_char c]"
    using Cons.prems by (auto simp: lowers_ascii_def EncodeRune_def lower_char_def byte_of_def in_range_def)
  then show ?case using Cons by (simp add: lower_def runes_ascii)
qed (simp add: lower_def runes_def)

lemma trim_prefix_append [simp]: "trim_prefix (p @ s) p = s"
  by (simp add: trim_prefix_def has_prefix_def)

section \<open>The tables\<close>

lemma map_of_put_all: "map_of (put_all kvs m) k = (case map_of (rev kvs) k of None \<Rightarrow> map_of m k | Some v \<Rightarrow> Some v)"
  unfolding put_all_def
  by (induction kvs arbitrary: m) (auto simp: update_conv' map_add_def split: option.split)

lemma map_of_rev_same:
  assumes "(k, v) \<in> set kvs" and "\<And>w. (k, w) \<in> set kvs \<Longrightarrow> w = v"
  shows "map_of (rev kvs) k = Some v"
proof (cases "map_of (rev kvs) k")
  case None
  then have "k \<notin> fst ` set kvs" by (simp add: map_of_eq_None_iff)
  then show ?thesis using assms(1) by force
next
  case (Some w)
  then have "(k, w) \<in> set kvs" by (metis map_of_SomeD set_rev)
  then show ?thesis using Some assms(2) by simp
qed

text \<open>No configured label gives the name of a stage to another stage.\<close>

definition keeps_names :: "unicode \<Rightarrow> LabelConfig \<Rightarrow> bool" where
  "keeps_names U cfg \<longleftrightarrow>
     list_all (\<lambda>(label, st). list_all (\<lambda>s. label = stage_str s \<longrightarrow> st = s) allStages) (config_stages U cfg)"

lemma set_allStages: "set allStages = {s. declared_stage s}"
proof -
  have "s \<in> set allStages \<longleftrightarrow> declared_stage s" for s
    by (cases s) (simp_all add: allStages_def declared_stage_def)
  then show ?thesis by blast
qed

lemma set_stagePrecedence: "set stagePrecedence = set allStages"
  by (auto simp: stagePrecedence_def allStages_def)

lemma lower_stage_str: "lowers_ascii U \<Longrightarrow> declared_stage s \<Longrightarrow> lower U (stage_str s) = stage_str s"
  by (cases s) (simp_all add: lower_ascii stage_str_def declared_stage_def lower_char_def in_range_def)

lemma stage_name_lookup:
  assumes "lowers_ascii U" and "keeps_names U cfg" and "declared_stage s"
  shows "map_of (lm_labelToStage (NewLabelMapper U cfg)) (stage_str s) = Some s"
proof -
  let ?kvs = "map (\<lambda>s. (lower U (stage_str s), s)) allStages @ config_stages U cfg"
  have s: "s \<in> set allStages" using assms(3) by (simp add: set_allStages)
  have "map_of (rev ?kvs) (stage_str s) = Some s"
  proof (rule map_of_rev_same)
    show "(stage_str s, s) \<in> set ?kvs" using s lower_stage_str [OF assms(1,3)] by force
    show "w = s" if "(stage_str s, w) \<in> set ?kvs" for w
    proof (cases "(stage_str s, w) \<in> set (config_stages U cfg)")
      case True
      then show ?thesis using assms(2) s by (auto simp: keeps_names_def list_all_iff)
    next
      case False
      then have "w \<in> set allStages" "lower U (stage_str w) = stage_str s" using that by auto
      then have "declared_stage w" "stage_str w = stage_str s"
        using lower_stage_str [OF assms(1)] by (simp_all add: set_allStages)
      then show ?thesis using assms(3) by (metis stage_str_inj declared_normal)
    qed
  qed
  then show ?thesis by (simp add: NewLabelMapper_def Let_def map_of_put_all)
qed

lemma stage_label_of: "lc_Enabled cfg \<Longrightarrow> declared_stage s \<Longrightarrow> StageToLabel (NewLabelMapper U cfg) s = stage_label cfg s"
proof -
  assume en: "lc_Enabled cfg" and s: "declared_stage s"
  let ?kvs = "map (\<lambda>(_, s). (s, stage_label cfg s)) (map (\<lambda>s. (lower U (stage_str s), s)) allStages @ config_stages U cfg)"
  have "map_of (rev ?kvs) s = Some (stage_label cfg s)"
    using s by (intro map_of_rev_same) (auto simp: image_iff set_allStages)
  then show ?thesis
    using en by (simp add: StageToLabel_def NewLabelMapper_def Let_def map_of_put_all)
qed

section \<open>The label of a stage\<close>

lemma strip_stage_label:
  assumes "lowers_ascii U" and "graphic (push_prefix cfg)" and "declared_stage s" and "lm_config m = cfg"
  shows "stripForMatch U m (stage_label cfg s) = stage_str s"
proof -
  have gs: "graphic (stage_str s)" "map lower_char (stage_str s) = stage_str s"
    using assms(3) by (cases s; simp add: stage_str_def declared_stage_def in_range_def lower_char_def)+
  have g: "graphic (stage_label cfg s)"
    using assms(2) gs by (simp add: stage_label_def in_range_def)
  have low: "lower U (TrimSpace (stage_label cfg s)) = map lower_char (push_prefix cfg) @ ''stage/'' @ stage_str s"
    unfolding TrimSpace_graphic [OF g] lower_ascii [OF assms(1) graphic_ascii [OF g]]
    using gs(2) by (simp add: stage_label_def lower_char_def in_range_def)
  have "(if lower U (lc_PushPrefix cfg) = [] then ''ft:'' else lower U (lc_PushPrefix cfg)) = map lower_char (push_prefix cfg)"
  proof (cases "lc_PushPrefix cfg = []")
    case True
    then show ?thesis by (simp add: push_prefix_def lower_def runes_def lower_char_def in_range_def)
  next
    case False
    then have "lower U (lc_PushPrefix cfg) = map lower_char (lc_PushPrefix cfg)"
      using assms(2) by (intro lower_ascii [OF assms(1)] graphic_ascii) (simp add: push_prefix_def)
    then show ?thesis using False by (simp add: push_prefix_def)
  qed
  then have "stripForMatch U m (stage_label cfg s)
      = trim_prefix (trim_prefix (trim_prefix (''stage/'' @ stage_str s) ''stage/'') ''priority/'') ''priority:''"
    by (simp only: stripForMatch_def Let_def low assms(4)) (simp add: has_prefix_def)
  also have "\<dots> = stage_str s"
    unfolding trim_prefix_append
    using assms(3) by (cases s) (simp_all add: trim_prefix_def has_prefix_def stage_str_def declared_stage_def)
  finally show ?thesis .
qed

lemma mapped_labels_set: "set (mapped_labels U m tab ls) = {v. \<exists>raw\<in>set ls. map_of tab (stripForMatch U m raw) = Some v}"
  unfolding mapped_labels_def by (induction ls) (auto simp: List.map_filter_simps split: option.split)

lemma one_candidate:
  assumes "lm_enabled m" and "declared_stage s" and "set (mapped_labels U m (lm_labelToStage m) ls) = {s}"
  shows "MapLabelsToStage U m ls = Some s"
proof -
  let ?c = "mapped_labels U m (lm_labelToStage m) ls"
  have "find (\<lambda>x. List.member ?c x) stagePrecedence = Some s"
  proof (cases "find (\<lambda>x. List.member ?c x) stagePrecedence")
    case None
    then show ?thesis
      using assms(2,3) by (auto simp: find_None_iff_ex set_stagePrecedence set_allStages)
  next
    case (Some x)
    then show ?thesis using find_Some_mem [OF Some] assms(3) by simp
  qed
  then show ?thesis using assms(1) by (simp only: MapLabelsToStage_def Let_def if_False not_True_eq_False option.case)
qed

section \<open>A change of stage\<close>

lemma swap_candidates:
  assumes "lowers_ascii U" and "graphic (push_prefix cfg)" and "keeps_names U cfg" and "declared_stage s"
    and "m = NewLabelMapper U cfg"
    and "set ls = {l \<in> set current. l \<notin> set (stale_labels U m (lm_labelToStage m) (stage_label cfg s) current)}
      \<union> set (missing_label (stage_label cfg s) current)"
  shows "set (mapped_labels U m (lm_labelToStage m) ls) = {s}"
proof -
  let ?l = "stage_label cfg s"
  have own: "map_of (lm_labelToStage m) (stripForMatch U m ?l) = Some s"
    using stage_name_lookup [OF assms(1,3,4)] strip_stage_label [OF assms(1,2,4), of m]
    by (simp add: assms(5)) (simp add: NewLabelMapper_def Let_def)
  have "?l \<in> set ls" using assms(6) by (auto simp: stale_labels_def missing_label_def)
  moreover have "v = s" if raw: "raw \<in> set ls" "map_of (lm_labelToStage m) (stripForMatch U m raw) = Some v" for raw v
  proof -
    have "raw = ?l" using raw assms(6) by (auto simp: stale_labels_def missing_label_def split: if_splits)
    then show ?thesis using raw(2) own by simp
  qed
  ultimately show ?thesis using own unfolding mapped_labels_set by blast
qed


lemma lowers_ascii_ascii: "lowers_ascii ascii"
  by (simp add: lowers_ascii_def ascii_def)

lemma default_config [simp]:
  "lc_Enabled DefaultConfig" "graphic (push_prefix DefaultConfig)" "keeps_names U DefaultConfig"
  by (simp_all add: DefaultConfig_def push_prefix_def keeps_names_def config_stages_def in_range_def)


end
