(* ===== verification/FT_GitHub.thy ===== *)
theory FT_GitHub
  imports FT_Labels FT_GoText FT_ListTasks FT_Tasks FT_Rows
begin

text \<open>
  The GraphQL client of the GitHub adapter (\<open>internal/platform/github/graphql_queries.go\<close>): the
  issues as the client reads them, its queries and mutations, and the loops over the pages of a
  connection. GitHub is a parameter: a record of functions on a state of any type, one for each
  query and mutation the client sends; no answer stands for an error. The context of a request
  ends after \<open>gh_queries\<close> pages of one loop, and an ended context is an error of the client.
\<close>

section \<open>Data\<close>

record subIssueNode =
  si_ID :: string
  si_Number :: int
  si_Title :: string
  si_State :: string
  si_Labels :: "string list"

record issueNode =
  in_ID :: string
  in_Number :: int
  in_Title :: string
  in_Body :: string
  in_State :: string
  in_StateReason :: "string option"
  in_CreatedAt :: time
  in_UpdatedAt :: time
  in_ClosedAt :: "time option"
  in_URL :: string
  in_Labels :: "string list"
  in_Assignees :: "(string \<times> string) list"
  in_Milestone :: "string option"
  in_SubIssues :: "subIssueNode list"
  in_SubIssuesTotal :: int
  in_Summary :: "int \<times> int \<times> int"
  in_Parent :: "(string \<times> int) option"

record issueCommentNode =
  cn_ID :: string
  cn_Body :: string
  cn_CreatedAt :: time
  cn_UpdatedAt :: time
  cn_Login :: string

text \<open>A page of a connection: the nodes, \<open>hasNextPage\<close> and \<open>endCursor\<close>.\<close>

type_synonym 'a gpage = "'a list \<times> bool \<times> string"

record 's github =
  q_issues :: "string list \<Rightarrow> string list option \<Rightarrow> int \<Rightarrow> string option \<Rightarrow> 's \<Rightarrow> issueNode gpage option \<times> 's"
  q_issue :: "int \<Rightarrow> 's \<Rightarrow> issueNode option \<times> 's"
  q_comments :: "int \<Rightarrow> int \<Rightarrow> string option \<Rightarrow> 's \<Rightarrow> issueCommentNode gpage option \<times> 's"
  q_repository :: "'s \<Rightarrow> string option \<times> 's"
  q_labels :: "string option \<Rightarrow> 's \<Rightarrow> (string \<times> string) gpage option \<times> 's"
  m_createIssue :: "string \<Rightarrow> string \<Rightarrow> string option \<Rightarrow> string list option \<Rightarrow> 's \<Rightarrow> issueNode option \<times> 's"
  m_updateIssue :: "string \<Rightarrow> string option \<Rightarrow> string option \<Rightarrow> 's \<Rightarrow> issueNode option \<times> 's"
  m_setAssignees :: "string \<Rightarrow> string list \<Rightarrow> 's \<Rightarrow> unit option \<times> 's"
  m_closeIssue :: "string \<Rightarrow> string \<Rightarrow> 's \<Rightarrow> issueNode option \<times> 's"
  m_addComment :: "string \<Rightarrow> string \<Rightarrow> 's \<Rightarrow> issueCommentNode option \<times> 's"
  m_addSubIssue :: "string \<Rightarrow> string \<Rightarrow> 's \<Rightarrow> unit option \<times> 's"
  m_removeSubIssue :: "string \<Rightarrow> string \<Rightarrow> 's \<Rightarrow> unit option \<times> 's"
  m_addLabels :: "string \<Rightarrow> string list \<Rightarrow> 's \<Rightarrow> unit option \<times> 's"
  m_removeLabels :: "string \<Rightarrow> string list \<Rightarrow> 's \<Rightarrow> unit option \<times> 's"

text \<open>
  A store: the client with its repository, the label mapper, the collection it serves, and the
  functions of libraries it calls (\<open>uuid.NewSHA1\<close> in the URL name space, the RFC 3339 text of
  an instant). Its fields that change are the identifiers cached on first use; with GitHub
  behind it they are the state of an operation.
\<close>

record 's gh =
  gh_api :: "'s github"
  gh_tables :: unicode
  gh_sha1 :: "string \<Rightarrow> uuid"
  gh_rfc3339 :: "time \<Rightarrow> string"
  gh_queries :: nat
  gh_owner :: string
  gh_repo :: string
  gh_mapper :: LabelMapper
  gh_collection :: uuid

record 's gh_state =
  gs_remote :: 's
  gs_repoID :: "string option"
  gs_labelIndex :: "(string \<times> string) list option"

section \<open>Steps\<close>

type_synonym ('s, 'a) act = "'s gh_state \<Rightarrow> (store_err + 'a) \<times> 's gh_state"

definition returnG :: "'a \<Rightarrow> ('s, 'a) act" where "returnG x s = (Inr x, s)"

definition failG :: "store_err \<Rightarrow> ('s, 'a) act" where "failG e s = (Inl e, s)"

definition bindG :: "('s, 'a) act \<Rightarrow> ('a \<Rightarrow> ('s, 'b) act) \<Rightarrow> ('s, 'b) act" where
  "bindG m k s = (case m s of (Inl e, s') \<Rightarrow> (Inl e, s') | (Inr x, s') \<Rightarrow> k x s')"

definition liftG :: "store_err + 'a \<Rightarrow> ('s, 'a) act" where "liftG v s = (v, s)"

text \<open>One request; an error is wrapped in a text.\<close>

definition askG :: "('s \<Rightarrow> 'a option \<times> 's) \<Rightarrow> ('s, 'a) act" where
  "askG q s = (case q (gs_remote s) of (v, r) \<Rightarrow> (optE ErrOther v, s\<lparr>gs_remote := r\<rparr>))"

text \<open>A request whose error is dropped.\<close>

definition tellG :: "('s \<Rightarrow> unit option \<times> 's) \<Rightarrow> ('s, unit) act" where
  "tellG q s = (Inr (), s\<lparr>gs_remote := snd (q (gs_remote s))\<rparr>)"

lemma run_steps [simp]:
  "returnG x s = (Inr x, s)" "failG e s = (Inl e, s)" "liftG v s = (v, s)"
  "bindG (returnG x) k = k x" "bindG (failG e) k = failG e"
  "bindG (liftG (Inr x)) k = k x" "bindG (liftG (Inl e)) k = failG e"
  by (simp_all add: returnG_def failG_def liftG_def bindG_def fun_eq_iff)

lemma bindG_Inr [ok_elims]:
  "bindG m k s = (Inr y, s') \<longleftrightarrow> (\<exists>x s1. m s = (Inr x, s1) \<and> k x s1 = (Inr y, s'))"
  by (auto simp: bindG_def split: prod.splits sum.splits)

lemma bindG_run [simp]: "m s = (Inr x, s1) \<Longrightarrow> bindG m k s = k x s1" "m s = (Inl e, s1) \<Longrightarrow> bindG m k s = (Inl e, s1)"
  by (simp_all add: bindG_def)

section \<open>Queries\<close>

text \<open>The loop over the pages, with a limit that is none when it is not positive.\<close>

fun list_pages ::
  "nat \<Rightarrow> (string option \<Rightarrow> ('s, 'a gpage) act) \<Rightarrow> int \<Rightarrow> string option \<Rightarrow> 'a list \<Rightarrow> ('s, 'a list) act" where
  "list_pages 0 query limit cursor acc = failG ErrOther"
| "list_pages (Suc n) query limit cursor acc =
    bindG (query cursor) (\<lambda>(nodes, more, endCursor).
    let found = acc @ nodes in
    if 0 < limit \<and> limit \<le> int (length found) then returnG (take (nat limit) found)
    else if \<not> more then returnG found
    else list_pages n query limit (Some endCursor) found)"

definition page_size :: "int \<Rightarrow> int" where
  "page_size limit = (if 0 < limit \<and> limit < 100 then limit else 100)"

definition listIssues :: "'s gh \<Rightarrow> string list \<Rightarrow> string list \<Rightarrow> int \<Rightarrow> ('s, issueNode list) act" where
  "listIssues G states labels limit =
    list_pages (gh_queries G)
      (\<lambda>cursor. askG (q_issues (gh_api G) states (if labels = [] then None else Some labels)
         (page_size limit) cursor)) limit None []"

definition getIssue :: "'s gh \<Rightarrow> int \<Rightarrow> ('s, issueNode) act" where
  "getIssue G number = askG (q_issue (gh_api G) number)"

definition listIssueComments :: "'s gh \<Rightarrow> int \<Rightarrow> int \<Rightarrow> ('s, issueCommentNode list) act" where
  "listIssueComments G number limit =
    list_pages (gh_queries G) (\<lambda>cursor. askG (q_comments (gh_api G) number (page_size limit) cursor)) limit None []"

definition listSubIssues :: "'s gh \<Rightarrow> int \<Rightarrow> ('s, subIssueNode list) act" where
  "listSubIssues G number = bindG (getIssue G number) (\<lambda>i. returnG (in_SubIssues i))"

definition listRepoLabels :: "'s gh \<Rightarrow> ('s, (string \<times> string) list) act" where
  "listRepoLabels G = list_pages (gh_queries G) (\<lambda>cursor. askG (q_labels (gh_api G) cursor)) 0 None []"

section \<open>Mutations\<close>

definition createIssue :: "'s gh \<Rightarrow> string \<Rightarrow> string \<Rightarrow> string \<Rightarrow> string list \<Rightarrow> ('s, issueNode) act" where
  "createIssue G repoID title body labelIDs =
    askG (m_createIssue (gh_api G) repoID title (if body = [] then None else Some body)
      (if labelIDs = [] then None else Some labelIDs))"

definition updateIssue :: "'s gh \<Rightarrow> string \<Rightarrow> string option \<Rightarrow> string option \<Rightarrow> ('s, issueNode) act" where
  "updateIssue G issueID title body = askG (m_updateIssue (gh_api G) issueID title body)"

definition closeIssue :: "'s gh \<Rightarrow> string \<Rightarrow> string \<Rightarrow> ('s, issueNode) act" where
  "closeIssue G issueID reason = askG (m_closeIssue (gh_api G) issueID reason)"

text \<open>The two label mutations of a swap, each sent when it has labels, errors dropped.\<close>

definition swapLabels :: "'s gh \<Rightarrow> string \<Rightarrow> string list \<Rightarrow> string list \<Rightarrow> ('s, unit) act" where
  "swapLabels G issueID addIDs removeIDs =
    bindG (if removeIDs = [] then returnG () else tellG (m_removeLabels (gh_api G) issueID removeIDs)) (\<lambda>_.
    if addIDs = [] then returnG () else tellG (m_addLabels (gh_api G) issueID addIDs))"

section \<open>Remote data\<close>

definition issue_remote_id :: "'s gh \<Rightarrow> int \<Rightarrow> string" where
  "issue_remote_id G number = gh_owner G @ ''/'' @ gh_repo G @ ''#'' @ itoa number"

definition issueBuildRemoteData :: "'s gh \<Rightarrow> issueNode \<Rightarrow> jmap" where
  "issueBuildRemoteData G i =
    [(''platform'', JStr ''github''), (''remote_id'', JStr (issue_remote_id G (in_Number i))),
     (''remote_url'', JStr (in_URL i)), (''node_id'', JStr (in_ID i)), (''html_url'', JStr (in_URL i)),
     (''number'', JNum (in_Number i)), (''created_at'', JStr (gh_rfc3339 G (in_CreatedAt i))),
     (''updated_at'', JStr (gh_rfc3339 G (in_UpdatedAt i))), (''labels'', JStrs (in_Labels i))]
    @ (case in_StateReason i of None \<Rightarrow> [] | Some r \<Rightarrow> [(''state_reason'', JStr r)])
    @ (case in_Milestone i of None \<Rightarrow> [] | Some m \<Rightarrow> [(''milestone'', JStr m)])
    @ (case in_Parent i of None \<Rightarrow> []
       | Some (pid, n) \<Rightarrow> [(''parent'', JMap [(''node_id'', JStr pid), (''number'', JNum n)])])
    @ (if in_SubIssues i = [] then []
       else [(''sub_issues'', JMaps (map (\<lambda>s. [(''number'', JNum (si_Number s)), (''title'', JStr (si_Title s)),
           (''state'', JStr (si_State s))]) (in_SubIssues i)))])
    @ [(''sub_issues_summary'', JMap (case in_Summary i of (t, c, p) \<Rightarrow>
         [(''total'', JNum t), (''completed'', JNum c), (''percent_completed'', JNum p)]))]"

end
