(* ===== verification/FT_PassThrough.thy ===== *)
theory FT_PassThrough
  imports FT_GitHub
begin

text \<open>
  The store that has no database and answers from GitHub
  (\<open>internal/platform/github/passthrough.go\<close>): issues as tasks, and the operations of the
  store interface as sequences of requests.
\<close>

section \<open>Identifiers\<close>

definition deterministicUUID :: "'s gh \<Rightarrow> string \<Rightarrow> uuid" where
  "deterministicUUID G s = gh_sha1 G (''github:user:'' @ s)"

definition issueUUID :: "'s gh \<Rightarrow> int \<Rightarrow> uuid" where
  "issueUUID G number = deterministicUUID G (''github:'' @ issue_remote_id G number)"

definition commentUUID :: "'s gh \<Rightarrow> string \<Rightarrow> uuid" where
  "commentUUID G i = deterministicUUID G (''github:comment:'' @ i)"

definition userUUID :: "'s gh \<Rightarrow> string \<Rightarrow> uuid" where
  "userUUID G login = deterministicUUID G (''github:user:'' @ login)"

section \<open>Cached identifiers\<close>

definition ensureRepoID :: "'s gh \<Rightarrow> ('s, string) act" where
  "ensureRepoID G s =
    (case gs_repoID s of
       Some i \<Rightarrow> (Inr i, s)
     | None \<Rightarrow> bindG (askG (q_repository (gh_api G))) (\<lambda>i s'. (Inr i, s'\<lparr>gs_repoID := Some i\<rparr>)) s)"

definition label_index :: "'s gh \<Rightarrow> (string \<times> string) list \<Rightarrow> (string \<times> string) list" where
  "label_index G ls = fold (\<lambda>(name, i) m. AList.update (lower (gh_tables G) name) i m) ls []"

definition ensureLabelIndex :: "'s gh \<Rightarrow> ('s, (string \<times> string) list) act" where
  "ensureLabelIndex G s =
    (case gs_labelIndex s of
       Some m \<Rightarrow> (Inr m, s)
     | None \<Rightarrow> bindG (listRepoLabels G) (\<lambda>ls s'.
         (Inr (label_index G ls), s'\<lparr>gs_labelIndex := Some (label_index G ls)\<rparr>)) s)"

definition labelNameToID :: "'s gh \<Rightarrow> (string \<times> string) list \<Rightarrow> string \<Rightarrow> string option" where
  "labelNameToID G idx name = map_of idx (lower (gh_tables G) name)"

definition labelNamesToIDs :: "'s gh \<Rightarrow> (string \<times> string) list \<Rightarrow> string list \<Rightarrow> string list" where
  "labelNamesToIDs G idx names = List.map_filter (labelNameToID G idx) names"

section \<open>An issue as a task\<close>

definition unix_seconds :: "time \<Rightarrow> int" where "unix_seconds t = t div one_second"

definition issueToTask :: "'s gh \<Rightarrow> issueNode \<Rightarrow> task" where
  "issueToTask G i =
    (let labels = in_Labels i; U = gh_tables G; m = gh_mapper G;
         (ph, st) = IssueToPhaseStage U m (in_State i)
           (case in_StateReason i of None \<Rightarrow> [] | Some r \<Rightarrow> r) labels in
     \<lparr>t_id = issueUUID G (in_Number i), t_title = in_Title i, t_description = in_Body i,
      t_collection = gh_collection G, t_phase = ph, t_stage = st, t_hold = None,
      t_native_label = stage_str st,
      t_type = (case MapLabelsToType U m labels of None \<Rightarrow> [] | Some ty \<Rightarrow> ty),
      t_priority = MapLabelsToPriority U m labels, t_rank = None,
      t_assignee = (case in_Assignees i of [] \<Rightarrow> None | (_, login) # _ \<Rightarrow> Some (userUUID G login)),
      t_parent = map_option (\<lambda>p. issueUUID G (snd p)) (in_Parent i), t_start = None, t_due = None,
      t_closed = (if in_State i = ''CLOSED'' then Some (case in_ClosedAt i of Some c \<Rightarrow> c | None \<Rightarrow> in_UpdatedAt i)
                  else None),
      t_created = in_CreatedAt i, t_updated = in_UpdatedAt i, t_acceptance = None,
      t_remote = Some (issueBuildRemoteData G i), t_labels = labels, t_repo = [], t_branch = [],
      t_ci = None, t_prs = [], t_version = itoa (unix_seconds (in_UpdatedAt i))\<rparr>)"

text \<open>The rows of a pass-through store have no relationships.\<close>

definition edgeless :: "task \<Rightarrow> etask" where
  "edgeless t = \<lparr>e_task = t, e_src = [], e_tgt = []\<rparr>"

section \<open>Reading\<close>

definition open_state :: "string list" where "open_state = [''OPEN'']"
definition both_states :: "string list" where "both_states = [''OPEN'', ''CLOSED'']"

definition list_keeps :: "ListTasksParams \<Rightarrow> task \<Rightarrow> bool" where
  "list_keeps p t \<longleftrightarrow> (lt_Priority p = None \<or> t_priority t = lt_Priority p)
     \<and> (case lt_Type p of None \<Rightarrow> True | Some ty \<Rightarrow> t_type t = ty)
     \<and> (lt_AssigneeID p = None \<or> t_assignee t = lt_AssigneeID p)
     \<and> (lt_Unassigned p \<longrightarrow> t_assignee t = None)"

definition list_states :: "phase option \<Rightarrow> string list" where
  "list_states p = (case p of None \<Rightarrow> both_states | Some PhaseClosed \<Rightarrow> [''CLOSED''] | _ \<Rightarrow> open_state)"

definition gh_ListTasks :: "'s gh \<Rightarrow> ListTasksParams \<Rightarrow> ('s, etask list \<times> nat) act" where
  "gh_ListTasks G p =
    (let stageFilter = (case lt_Stage p of None \<Rightarrow> []
           | Some s \<Rightarrow> let l = StageToLabel (gh_mapper G) s in if l = [] then [] else [l]);
         limit = (if lt_Limit p \<le> 0 then 50 else lt_Limit p) in
     bindG (listIssues G (list_states (lt_Phase p)) (stageFilter @ lt_Labels p) limit) (\<lambda>issues.
     let tasks = filter (list_keeps p) (map (issueToTask G) issues)
     in returnG (map edgeless tasks, length tasks)))"

definition find_issue :: "'s gh \<Rightarrow> uuid \<Rightarrow> issueNode list \<Rightarrow> issueNode option" where
  "find_issue G i issues = find (\<lambda>x. issueUUID G (in_Number x) = i) issues"

definition getIssueByTaskID :: "'s gh \<Rightarrow> uuid \<Rightarrow> ('s, issueNode) act" where
  "getIssueByTaskID G i =
    bindG (listIssues G both_states [] 200) (\<lambda>issues. liftG (optE ErrNotFound (find_issue G i issues)))"

definition gh_GetTask :: "'s gh \<Rightarrow> uuid \<Rightarrow> ('s, etask) act" where
  "gh_GetTask G i =
    bindG (listIssues G both_states [] 200) (\<lambda>issues.
    bindG (liftG (optE ErrNotFound (find_issue G i issues))) (\<lambda>x. returnG (edgeless (issueToTask G x))))"

section \<open>Sub-issues\<close>

definition MaxSubIssueDepth :: nat where "MaxSubIssueDepth = 8"
definition MaxSubIssuesPerParent :: int where "MaxSubIssuesPerParent = 100"

definition findIssueByNumber :: "issueNode list \<Rightarrow> int \<Rightarrow> issueNode option" where
  "findIssueByNumber issues n = find (\<lambda>x. in_Number x = n) issues"

text \<open>The loop along the parents; \<open>seen\<close> are the numbers on the way.\<close>

function issue_depth :: "issueNode list \<Rightarrow> int list \<Rightarrow> nat \<Rightarrow> issueNode \<Rightarrow> nat" where
  "issue_depth issues seen depth current =
    (case in_Parent current of
       None \<Rightarrow> depth
     | Some (_, n) \<Rightarrow>
         if List.member seen n then depth
         else (case findIssueByNumber issues n of
             None \<Rightarrow> Suc depth
           | Some parent \<Rightarrow> issue_depth issues (n # seen) (Suc depth) parent))"
  by pat_completeness auto
termination
proof (relation "measure (\<lambda>(issues, seen, _, _). card (in_Number ` set issues - set seen))", goal_cases)
  case (2 issues seen depth current p i n parent)
  then have "parent \<in> set issues" "in_Number parent = n" "n \<notin> set seen"
    by (auto simp: findIssueByNumber_def dest: find_Some_mem)
  then have "in_Number ` set issues - set (n # seen) \<subset> in_Number ` set issues - set seen" by auto
  then show ?case by (simp add: psubset_card_mono)
qed simp

declare issue_depth.simps [simp del]

definition issueDepth :: "issueNode list \<Rightarrow> issueNode \<Rightarrow> nat" where
  "issueDepth issues i = issue_depth issues [in_Number i] 1 i"

definition checkSubIssueLimits :: "'s gh \<Rightarrow> issueNode \<Rightarrow> ('s, unit) act" where
  "checkSubIssueLimits G parent =
    (if MaxSubIssuesPerParent \<le> in_SubIssuesTotal parent then failG ErrOther
     else bindG (listIssues G both_states [] 200) (\<lambda>issues.
       liftG (checkE (issueDepth issues parent < MaxSubIssueDepth) ErrOther)))"

section \<open>Creating and updating\<close>

definition create_labels :: "'s gh \<Rightarrow> CreateTaskParams \<Rightarrow> string list" where
  "create_labels G p =
    (let sl = StageToLabel (gh_mapper G) (ct_Stage p);
         pl = (case ct_Priority p of None \<Rightarrow> [] | Some q \<Rightarrow> PriorityToLabel (gh_mapper G) q) in
     (if sl = [] then [] else [sl]) @ (if pl = [] then [] else [pl]) @ ct_Labels p)"

definition gh_CreateTask :: "'s gh \<Rightarrow> CreateTaskParams \<Rightarrow> ('s, etask) act" where
  "gh_CreateTask G p =
    bindG (ensureRepoID G) (\<lambda>repoID.
    bindG (ensureLabelIndex G) (\<lambda>idx.
    bindG (case ct_ParentTaskID p of
        None \<Rightarrow> returnG None
      | Some q \<Rightarrow> bindG (getIssueByTaskID G q) (\<lambda>parent.
          bindG (checkSubIssueLimits G parent) (\<lambda>_. returnG (Some parent)))) (\<lambda>parent.
    bindG (createIssue G repoID (ct_Title p) (ct_Description p) (labelNamesToIDs G idx (create_labels G p))) (\<lambda>issue.
    case parent of
      None \<Rightarrow> returnG (edgeless (issueToTask G issue))
    | Some q \<Rightarrow>
        bindG (askG (m_addSubIssue (gh_api G) (in_ID q) (in_ID issue))) (\<lambda>_.
        returnG (edgeless (issueToTask G (issue\<lparr>in_Parent := Some (in_ID q, in_Number q)\<rparr>))))))))"

text \<open>One swap of \<open>UpdateTask\<close>: the index, then the two mutations.\<close>

definition gh_swap :: "'s gh \<Rightarrow> issueNode \<Rightarrow> string list \<times> string list \<Rightarrow> ('s, unit) act" where
  "gh_swap G target swap =
    bindG (ensureLabelIndex G) (\<lambda>idx.
    swapLabels G (in_ID target) (labelNamesToIDs G idx (fst swap)) (labelNamesToIDs G idx (snd swap)))"

text \<open>The node identifier of the user with this UUID, among all assignees of the issues.\<close>

definition assignee_node :: "'s gh \<Rightarrow> issueNode list \<Rightarrow> uuid \<Rightarrow> string option" where
  "assignee_node G issues u =
    map_option fst (find (\<lambda>a. userUUID G (snd a) = u) (concat (map in_Assignees issues)))"

definition gh_set_parent :: "'s gh \<Rightarrow> UpdateTaskParams \<Rightarrow> issueNode \<Rightarrow> issueNode \<Rightarrow> ('s, issueNode) act" where
  "gh_set_parent G p target updated =
    (if \<not> ut_ClearParent p \<and> ut_ParentTaskID p = None then returnG updated
     else bindG (case in_Parent target of
         None \<Rightarrow> returnG updated
       | Some (old, _) \<Rightarrow> bindG (askG (m_removeSubIssue (gh_api G) old (in_ID target))) (\<lambda>_.
           returnG (updated\<lparr>in_Parent := None\<rparr>))) (\<lambda>updated.
       case ut_ParentTaskID p of
         None \<Rightarrow> returnG updated
       | Some q \<Rightarrow>
           bindG (getIssueByTaskID G q) (\<lambda>parent.
           bindG (checkSubIssueLimits G parent) (\<lambda>_.
           bindG (askG (m_addSubIssue (gh_api G) (in_ID parent) (in_ID target))) (\<lambda>_.
           returnG (updated\<lparr>in_Parent := Some (in_ID parent, in_Number parent)\<rparr>))))))"

definition gh_UpdateTask :: "'s gh \<Rightarrow> uuid \<Rightarrow> UpdateTaskParams \<Rightarrow> ('s, etask) act" where
  "gh_UpdateTask G i p =
    bindG (listIssues G both_states [] 200) (\<lambda>issues.
    bindG (liftG (optE ErrNotFound (find_issue G i issues))) (\<lambda>target.
    let U = gh_tables G; m = gh_mapper G; current = in_Labels target in
    bindG (updateIssue G (in_ID target) (ut_Title p) (ut_Description p)) (\<lambda>updated.
    bindG (case ut_Stage p of None \<Rightarrow> returnG () | Some s \<Rightarrow> gh_swap G target (StageLabelSwap U m current s)) (\<lambda>_.
    bindG (case ut_Priority p of None \<Rightarrow> returnG () | Some q \<Rightarrow> gh_swap G target (PriorityLabelSwap U m current q)) (\<lambda>_.
    bindG (case ut_Type p of None \<Rightarrow> returnG () | Some ty \<Rightarrow> gh_swap G target (TypeLabelSwap U m current ty)) (\<lambda>_.
    bindG (if ut_AddLabels p = [] then returnG () else gh_swap G target (ut_AddLabels p, [])) (\<lambda>_.
    bindG (if ut_RemoveLabels p = [] then returnG () else gh_swap G target ([], ut_RemoveLabels p)) (\<lambda>_.
    bindG (case ut_AssigneeID p of None \<Rightarrow> returnG ()
      | Some u \<Rightarrow> tellG (m_setAssignees (gh_api G) (in_ID target)
          (case assignee_node G issues u of None \<Rightarrow> [] | Some a \<Rightarrow> [a]))) (\<lambda>_.
    bindG (gh_set_parent G p target updated) (\<lambda>updated.
    returnG (edgeless (issueToTask G updated))))))))))))"

section \<open>Claiming and closing\<close>

definition hasExternalUnavailableLabel :: "unicode \<Rightarrow> string list \<Rightarrow> bool" where
  "hasExternalUnavailableLabel U labels =
    list_ex (\<lambda>raw. List.member [''blocked'', ''waiting_for_input'', ''deferred'', ''scheduled'']
      (trim_prefix (trim_prefix (lower U (TrimSpace raw)) ''ft:'') ''stage/'')) labels"

definition hasOpenSubIssue :: "issueNode \<Rightarrow> bool" where
  "hasOpenSubIssue i = list_ex (\<lambda>c. EqualFold (si_State c) ''open'') (in_SubIssues i)"

definition issueUnavailableForClaim :: "'s gh \<Rightarrow> issueNode \<Rightarrow> task \<Rightarrow> bool" where
  "issueUnavailableForClaim G i t \<longleftrightarrow> t_stage t \<noteq> StageAccepted \<or> t_hold t \<noteq> None
     \<or> hasExternalUnavailableLabel (gh_tables G) (t_labels t) \<or> hasOpenSubIssue i"

definition gh_ClaimTask :: "'s gh \<Rightarrow> uuid \<Rightarrow> ('s, etask) act" where
  "gh_ClaimTask G i =
    bindG (listIssues G open_state [] 200) (\<lambda>issues.
    bindG (liftG (optE ErrNotFound (find_issue G i issues))) (\<lambda>target.
    let current = issueToTask G target in
    if t_assignee current \<noteq> None then failG ErrAlreadyClaimed
    else if issueUnavailableForClaim G target current then failG ErrUnavailable
    else bindG (gh_swap G target (StageLabelSwap (gh_tables G) (gh_mapper G) (in_Labels target) StageWorking)) (\<lambda>_.
      bindG (getIssue G (in_Number target)) (\<lambda>refreshed.
      returnG (edgeless (issueToTask G refreshed))))))"

definition gh_CloseTask :: "'s gh \<Rightarrow> uuid \<Rightarrow> stage \<Rightarrow> ('s, etask) act" where
  "gh_CloseTask G i st =
    bindG (listIssues G open_state [] 200) (\<lambda>issues.
    bindG (liftG (optE ErrNotFound (find_issue G i issues))) (\<lambda>target.
    bindG (closeIssue G (in_ID target)
        (if st = StageWontFix \<or> st = StageCancelled then ''NOT_PLANNED'' else ''COMPLETED'')) (\<lambda>closed.
    returnG (edgeless (issueToTask G closed)))))"

definition gh_ComputeAvailability :: "'s gh \<Rightarrow> task \<Rightarrow> TaskAvailability" where
  "gh_ComputeAvailability G t =
    (let rs = (if t_stage t = StageTriage then [ReasonTriage] else [])
           @ (if IsTerminalStage (t_stage t) then [ReasonTerminal] else [])
           @ (if t_hold t \<noteq> None \<or> hasExternalUnavailableLabel (gh_tables G) (t_labels t) then [ReasonHeld] else [])
     in \<lparr>Available = (rs = []), Reasons = rs\<rparr>)"

section \<open>Collections and comments\<close>

definition syntheticCollection :: "'s gh \<Rightarrow> env \<Rightarrow> collection" where
  "syntheticCollection G e =
    \<lparr>co_id = gh_collection G, co_name = gh_owner G @ ''/'' @ gh_repo G,
     co_description = ''GitHub Issues: '' @ gh_owner G @ ''/'' @ gh_repo G @ '' (pass-through)'',
     co_platform = PlatformGithub, co_remote_id = [], co_remote = None, co_created = now e, co_updated = now e\<rparr>"

definition gh_AddComment :: "'s gh \<Rightarrow> AddCommentParams \<Rightarrow> ('s, comment) act" where
  "gh_AddComment G p =
    bindG (getIssueByTaskID G (ac_TaskID p)) (\<lambda>issue.
    bindG (askG (m_addComment (gh_api G) (in_ID issue) (ac_Body p))) (\<lambda>n.
    returnG \<lparr>cm_id = commentUUID G (cn_ID n), cm_task = ac_TaskID p, cm_author = ac_AuthorID p,
      cm_body = cn_Body n, cm_created = cn_CreatedAt n, cm_updated = cn_UpdatedAt n\<rparr>))"

definition gh_ListComments :: "'s gh \<Rightarrow> ListCommentsParams \<Rightarrow> ('s, comment list \<times> nat) act" where
  "gh_ListComments G p =
    bindG (listIssues G both_states [] 200) (\<lambda>issues.
    let number = (case find_issue G (lm_TaskID p) issues of None \<Rightarrow> 0 | Some x \<Rightarrow> in_Number x) in
    if number = 0 then failG ErrNotFound
    else bindG (listIssueComments G number (if lm_Limit p \<le> 0 then 50 else lm_Limit p)) (\<lambda>nodes.
      let cs = map (\<lambda>n. \<lparr>cm_id = commentUUID G (cn_ID n), cm_task = lm_TaskID p,
           cm_author = userUUID G (cn_Login n), cm_body = cn_Body n, cm_created = cn_CreatedAt n,
           cm_updated = cn_UpdatedAt n\<rparr>) nodes
      in returnG (cs, length cs)))"

end
