(* ===== verification/FT_IssueTree.thy ===== *)
theory FT_IssueTree
  imports FT_PassThrough
begin

text \<open>
  Ready and blocked issues (\<open>internal/platform/github/treewalk.go\<close> and the graph queries of
  \<open>passthrough.go\<close>). The tree has nodes that several places point to: a node is an address
  into a list of nodes, the map of the tree leads from a number to an address, and children are
  addresses. The order in which Go visits that map is a parameter of the walk. The reason texts
  of the results, which nothing reads, are left out.
\<close>

section \<open>The tree\<close>

record issueTreeNode =
  tn_Number :: int
  tn_Title :: string
  tn_State :: string
  tn_Stage :: "stage option"
  tn_Labels :: "string list"
  tn_Children :: "nat list"

record tree =
  tr_heap :: "issueTreeNode list"
  tr_nodes :: "(int \<times> nat) list"

definition alloc :: "issueTreeNode \<Rightarrow> tree \<Rightarrow> nat \<times> tree" where
  "alloc n T = (length (tr_heap T),
     T\<lparr>tr_heap := tr_heap T @ [n], tr_nodes := AList.update (tn_Number n) (length (tr_heap T)) (tr_nodes T)\<rparr>)"

definition update_node :: "nat \<Rightarrow> (issueTreeNode \<Rightarrow> issueTreeNode) \<Rightarrow> tree \<Rightarrow> tree" where
  "update_node a f T = T\<lparr>tr_heap := (tr_heap T)[a := f (tr_heap T ! a)]\<rparr>"

text \<open>A sub-issue of the node at \<open>a\<close>: a node that exists takes the state and labels read here.\<close>

definition add_child :: "unicode \<Rightarrow> LabelMapper \<Rightarrow> nat \<Rightarrow> subIssueNode \<Rightarrow> tree \<Rightarrow> tree" where
  "add_child U m a s T =
    (let st = MapLabelsToStage U m (si_Labels s);
         (c, T') = (case map_of (tr_nodes T) (si_Number s) of
             Some c \<Rightarrow> (c, update_node c
               (\<lambda>n. n\<lparr>tn_State := si_State s, tn_Stage := st, tn_Labels := si_Labels s\<rparr>) T)
           | None \<Rightarrow> alloc \<lparr>tn_Number = si_Number s, tn_Title = si_Title s, tn_State = si_State s,
               tn_Stage = st, tn_Labels = si_Labels s, tn_Children = []\<rparr> T) in
     update_node a (\<lambda>n. n\<lparr>tn_Children := tn_Children n @ [c]\<rparr>) T')"

definition add_issue :: "unicode \<Rightarrow> LabelMapper \<Rightarrow> issueNode \<Rightarrow> tree \<Rightarrow> tree" where
  "add_issue U m i T =
    (let (a, T') = alloc \<lparr>tn_Number = in_Number i, tn_Title = in_Title i, tn_State = in_State i,
           tn_Stage = MapLabelsToStage U m (in_Labels i), tn_Labels = in_Labels i, tn_Children = []\<rparr> T in
     fold (add_child U m a) (in_SubIssues i) T')"

definition buildIssueTree :: "unicode \<Rightarrow> LabelMapper \<Rightarrow> issueNode list \<Rightarrow> tree" where
  "buildIssueTree U m issues = fold (add_issue U m) issues \<lparr>tr_heap = [], tr_nodes = []\<rparr>"

text \<open>The nodes the map leads to, and the children of a node.\<close>

definition tree_nodes :: "tree \<Rightarrow> issueTreeNode list" where
  "tree_nodes T = map (\<lambda>(_, a). tr_heap T ! a) (tr_nodes T)"

definition children :: "tree \<Rightarrow> issueTreeNode \<Rightarrow> issueTreeNode list" where
  "children T n = map (\<lambda>a. tr_heap T ! a) (tn_Children n)"

section \<open>The walks\<close>

definition open_children :: "tree \<Rightarrow> issueTreeNode \<Rightarrow> issueTreeNode list" where
  "open_children T n = filter (\<lambda>c. tn_State c = ''OPEN'') (children T n)"

definition node_ready :: "unicode \<Rightarrow> bool \<Rightarrow> tree \<Rightarrow> issueTreeNode \<Rightarrow> bool" where
  "node_ready U includeUnblocked T n \<longleftrightarrow>
     tn_State n = ''OPEN'' \<and> open_children T n = []
     \<and> (if tn_Stage n = Some StageAccepted then \<not> hasExternalUnavailableLabel U (tn_Labels n)
        else includeUnblocked \<and> tn_Children n \<noteq> []
          \<and> tn_Stage n \<notin> {Some StageCompleted, Some StageWontFix, Some StageDuplicate, Some StageCancelled})"

type_synonym visit_order = "issueTreeNode list \<Rightarrow> issueTreeNode list"

definition computeReady :: "unicode \<Rightarrow> visit_order \<Rightarrow> bool \<Rightarrow> tree \<Rightarrow> issueTreeNode list" where
  "computeReady U visit includeUnblocked T = filter (node_ready U includeUnblocked T) (visit (tree_nodes T))"

text \<open>A blocked node with the nodes that block it; none for one whose labels make it unavailable.\<close>

definition node_blocked :: "unicode \<Rightarrow> tree \<Rightarrow> issueTreeNode \<Rightarrow> (issueTreeNode \<times> issueTreeNode list) option" where
  "node_blocked U T n =
    (if tn_State n \<noteq> ''OPEN'' then None
     else if hasExternalUnavailableLabel U (tn_Labels n) then Some (n, [])
     else if open_children T n \<noteq> [] then Some (n, open_children T n) else None)"

definition computeBlocked :: "unicode \<Rightarrow> visit_order \<Rightarrow> tree \<Rightarrow> (issueTreeNode \<times> issueTreeNode list) list" where
  "computeBlocked U visit T = List.map_filter (node_blocked U T) (visit (tree_nodes T))"

section \<open>The graph queries of the store\<close>

definition limited :: "int \<Rightarrow> 'a list \<Rightarrow> 'a list" where
  "limited limit xs = (if 0 < limit \<and> limit < int (length xs) then take (nat limit) xs else xs)"

definition gh_GetReadyTasks ::
  "'s gh \<Rightarrow> visit_order \<Rightarrow> GetReadyTasksParams \<Rightarrow> ('s, ReadyTaskResult list \<times> nat) act" where
  "gh_GetReadyTasks G visit p =
    bindG (listIssues G open_state [] 0) (\<lambda>issues.
    let T = buildIssueTree (gh_tables G) (gh_mapper G) issues;
        ready = computeReady (gh_tables G) visit (gr_IncludeUnblockedOpen p) T;
        rs = limited (gr_Limit p) (List.map_filter (\<lambda>n. map_option
           (\<lambda>i. \<lparr>rt_Task = edgeless (issueToTask G i), rt_BlockersResolved = 0\<rparr>)
           (findIssueByNumber issues (tn_Number n))) ready)
    in returnG (rs, length rs))"

definition gh_GetBlockedTasks ::
  "'s gh \<Rightarrow> visit_order \<Rightarrow> GetBlockedTasksParams \<Rightarrow> ('s, BlockedTaskResult list \<times> nat) act" where
  "gh_GetBlockedTasks G visit p =
    bindG (listIssues G open_state [] 0) (\<lambda>issues.
    let T = buildIssueTree (gh_tables G) (gh_mapper G) issues;
        blocked = computeBlocked (gh_tables G) visit T;
        rs = limited (gb_Limit p) (List.map_filter (\<lambda>(n, by). map_option
           (\<lambda>i. \<lparr>bt_Task = edgeless (issueToTask G i),
             bt_Blockers = map (\<lambda>b. \<lparr>bi_TaskID = issueUUID G (tn_Number b), bi_Name = tn_Title b,
               bi_Phase = PhaseOpen, bi_Stage = (case tn_Stage b of None \<Rightarrow> StageOther [] | Some s \<Rightarrow> s)\<rparr>) by\<rparr>)
           (findIssueByNumber issues (tn_Number n))) blocked)
    in returnG (rs, length rs))"

end
