(* ===== verification/FT_MultiStore.thy ===== *)
theory FT_MultiStore
  imports FT_IssueTree FT_Import
begin

text \<open>
  The store of the server (\<open>internal/store/multistore.go\<close>): the database, and a pass-through store
  for each external collection, made on the first request for the collection from its linked
  account (\<open>internal/platform/github/resolver.go\<close>). Requests are served one after the other; the
  race of two first requests is \<open>register\<close>. A map of Go is visited in the order of its list.
\<close>

section \<open>State\<close>

record 's platform_store =
  ps_gh :: "'s gh"
  ps_repoID :: "string option"
  ps_labelIndex :: "(string \<times> string) list option"

record 's multi =
  mu_db :: db
  mu_remote :: 's
  mu_platforms :: "(uuid \<times> 's platform_store) list"

text \<open>
  The world outside: GitHub as a client with a token sees a repository, and the library
  functions of a pass-through store.
\<close>

record 's world =
  w_api :: "string \<Rightarrow> string \<Rightarrow> string \<Rightarrow> 's github"
  w_tables :: unicode
  w_sha1 :: "string \<Rightarrow> uuid"
  w_rfc3339 :: "time \<Rightarrow> string"
  w_queries :: nat

type_synonym 's resolver =
  "platform \<Rightarrow> string \<Rightarrow> string \<Rightarrow> uuid \<Rightarrow> store_err + 's platform_store option"

record 's multi_config =
  mc_resolver :: "'s resolver option"
  mc_encryptor :: encryptor
  mc_env :: env
  mc_nulls_first :: bool
  mc_visit :: visit_order

section \<open>Making a pass-through store\<close>

fun split_slash :: "string \<Rightarrow> string \<Rightarrow> (string \<times> string) option" where
  "split_slash acc [] = None"
| "split_slash acc (c # s) = (if c = CHR ''/'' then Some (acc, s) else split_slash (acc @ [c]) s)"

definition ParseOwnerRepo :: "string \<Rightarrow> (string \<times> string) option" where
  "ParseOwnerRepo remoteID =
    (case split_slash [] remoteID of
       None \<Rightarrow> None
     | Some (owner, repo) \<Rightarrow> if owner = [] \<or> repo = [] then None else Some (owner, repo))"

definition NewPassThroughStore :: "'s world \<Rightarrow> string \<Rightarrow> string \<Rightarrow> string \<Rightarrow> uuid \<Rightarrow> 's platform_store" where
  "NewPassThroughStore W tok owner repo cid =
    \<lparr>ps_gh = \<lparr>gh_api = w_api W tok owner repo, gh_tables = w_tables W, gh_sha1 = w_sha1 W,
       gh_rfc3339 = w_rfc3339 W, gh_queries = w_queries W, gh_owner = owner, gh_repo = repo,
       gh_mapper = NewLabelMapper (w_tables W) DefaultConfig, gh_collection = cid\<rparr>,
     ps_repoID = None, ps_labelIndex = None\<rparr>"

definition NewPlatformResolver :: "'s world \<Rightarrow> 's resolver" where
  "NewPlatformResolver W p tok remoteID cid =
    (if p \<noteq> PlatformGithub then Inr None
     else case ParseOwnerRepo remoteID of
         None \<Rightarrow> Inl ErrOther
       | Some (owner, repo) \<Rightarrow> Inr (Some (NewPassThroughStore W tok owner repo cid)))"

section \<open>The store of a collection\<close>

definition accounts_of :: "uuid \<Rightarrow> ListLinkedAccountsParams" where
  "accounts_of cid = \<lparr>la_CollectionID = Some cid, la_Platform = None, la_Status = None, la_Limit = 0,
     la_LastID = None\<rparr>"

definition lazyResolve :: "'s multi_config \<Rightarrow> uuid \<Rightarrow> db \<Rightarrow> 's platform_store option" where
  "lazyResolve M cid d =
    (case mc_resolver M of
       None \<Rightarrow> None
     | Some resolve \<Rightarrow>
        (case GetCollection cid d of
           Inl _ \<Rightarrow> None
         | Inr coll \<Rightarrow>
            if co_platform coll = PlatformFarmtable then None
            else (case ListLinkedAccounts (mc_encryptor M) (accounts_of cid) d of
                Inr (account # _, _) \<Rightarrow>
                  (case resolve (co_platform coll) (a_token account) (co_remote_id coll) cid of
                     Inr (Some s) \<Rightarrow> Some s | _ \<Rightarrow> None)
              | _ \<Rightarrow> None)))"

text \<open>The write of the cache, after a second look: a store that came first stays.\<close>

definition register :: "uuid \<Rightarrow> 's platform_store \<Rightarrow> (uuid \<times> 's platform_store) list \<Rightarrow> (uuid \<times> 's platform_store) list" where
  "register cid s ps = (case map_of ps cid of Some _ \<Rightarrow> ps | None \<Rightarrow> ps @ [(cid, s)])"

definition RegisterPlatform :: "uuid \<Rightarrow> 's platform_store \<Rightarrow> 's multi \<Rightarrow> 's multi" where
  "RegisterPlatform cid s mu = mu\<lparr>mu_platforms := AList.update cid s (mu_platforms mu)\<rparr>"

datatype target = Primary | Platform uuid

definition storeForCtx :: "'s multi_config \<Rightarrow> uuid \<Rightarrow> 's multi \<Rightarrow> target \<times> 's multi" where
  "storeForCtx M cid mu =
    (case map_of (mu_platforms mu) cid of
       Some _ \<Rightarrow> (Platform cid, mu)
     | None \<Rightarrow>
        (case lazyResolve M cid (mu_db mu) of
           None \<Rightarrow> (Primary, mu)
         | Some s \<Rightarrow> (Platform cid, mu\<lparr>mu_platforms := register cid s (mu_platforms mu)\<rparr>)))"

section \<open>Running an operation on a store\<close>

type_synonym ('s, 'a) mact = "'s multi \<Rightarrow> (store_err + 'a) \<times> 's multi"

definition on_db :: "(db \<Rightarrow> store_err + ('a \<times> db)) \<Rightarrow> ('s, 'a) mact" where
  "on_db f mu = (case f (mu_db mu) of Inl e \<Rightarrow> (Inl e, mu) | Inr (x, d) \<Rightarrow> (Inr x, mu\<lparr>mu_db := d\<rparr>))"

definition read_db :: "(db \<Rightarrow> store_err + 'a) \<Rightarrow> ('s, 'a) mact" where
  "read_db f mu = (f (mu_db mu), mu)"

definition on_platform :: "uuid \<Rightarrow> ('s gh \<Rightarrow> ('s, 'a) act) \<Rightarrow> ('s, 'a) mact" where
  "on_platform cid f mu =
    (case map_of (mu_platforms mu) cid of
       None \<Rightarrow> (Inl ErrOther, mu)
     | Some ps \<Rightarrow>
        (case f (ps_gh ps) \<lparr>gs_remote = mu_remote mu, gs_repoID = ps_repoID ps, gs_labelIndex = ps_labelIndex ps\<rparr> of
           (r, s) \<Rightarrow> (r, mu\<lparr>mu_remote := gs_remote s, mu_platforms := AList.update cid
              (ps\<lparr>ps_repoID := gs_repoID s, ps_labelIndex := gs_labelIndex s\<rparr>) (mu_platforms mu)\<rparr>)))"

definition dispatch :: "target \<Rightarrow> ('s, 'a) mact \<Rightarrow> ('s gh \<Rightarrow> ('s, 'a) act) \<Rightarrow> ('s, 'a) mact" where
  "dispatch tgt prim plat = (case tgt of Primary \<Rightarrow> prim | Platform cid \<Rightarrow> on_platform cid plat)"

definition route_coll :: "'s multi_config \<Rightarrow> uuid \<Rightarrow> ('s, 'a) mact \<Rightarrow> ('s gh \<Rightarrow> ('s, 'a) act) \<Rightarrow> ('s, 'a) mact" where
  "route_coll M cid prim plat mu = (case storeForCtx M cid mu of (tgt, mu') \<Rightarrow> dispatch tgt prim plat mu')"

text \<open>The registered stores are asked one by one; the first that has the task ends the scan.\<close>

fun scan_stores :: "uuid \<Rightarrow> uuid list \<Rightarrow> ('s, uuid) mact" where
  "scan_stores i [] mu = (Inl ErrNotFound, mu)"
| "scan_stores i (cid # cids) mu =
    (case on_platform cid (\<lambda>G. gh_GetTask G i) mu of
       (Inr _, mu') \<Rightarrow> (Inr cid, mu') | (Inl _, mu') \<Rightarrow> scan_stores i cids mu')"

definition storeForTask :: "'s multi_config \<Rightarrow> uuid \<Rightarrow> ('s, target) mact" where
  "storeForTask M i mu =
    (case GetTask i (mu_db mu) of
       Inr t \<Rightarrow> (case storeForCtx M (t_collection (e_task t)) mu of (tgt, mu') \<Rightarrow> (Inr tgt, mu'))
     | Inl _ \<Rightarrow>
        (case scan_stores i (map fst (mu_platforms mu)) mu of
           (Inl e, mu') \<Rightarrow> (Inl e, mu')
         | (Inr cid, mu') \<Rightarrow> (case storeForCtx M cid mu' of (tgt, mu'') \<Rightarrow> (Inr tgt, mu''))))"

definition route_task :: "'s multi_config \<Rightarrow> uuid \<Rightarrow> ('s, 'a) mact \<Rightarrow> ('s gh \<Rightarrow> ('s, 'a) act) \<Rightarrow> ('s, 'a) mact" where
  "route_task M i prim plat mu =
    (case storeForTask M i mu of
       (Inl e, mu') \<Rightarrow> (Inl e, mu') | (Inr tgt, mu') \<Rightarrow> dispatch tgt prim plat mu')"

definition unsupported :: "'s gh \<Rightarrow> ('s, 'a) act" where
  "unsupported G = failG ErrNotImplemented"

section \<open>Task operations\<close>

definition ms_CreateTask :: "'s multi_config \<Rightarrow> CreateTaskParams \<Rightarrow> ('s, etask) mact" where
  "ms_CreateTask M p =
    route_coll M (ct_CollectionID p) (on_db (CreateTask (mc_env M) p)) (\<lambda>G. gh_CreateTask G p)"

definition ms_InsertTasksAfter :: "'s multi_config \<Rightarrow> InsertTasksAfterParams \<Rightarrow> ('s, InsertTasksAfterResult) mact" where
  "ms_InsertTasksAfter M p =
    route_coll M (it_CollectionID p) (on_db (InsertTasksAfter (mc_env M) p)) unsupported"

definition ms_GetTask :: "'s multi_config \<Rightarrow> uuid \<Rightarrow> ('s, etask) mact" where
  "ms_GetTask M i = route_task M i (read_db (GetTask i)) (\<lambda>G. gh_GetTask G i)"

definition ms_ListTasks :: "'s multi_config \<Rightarrow> ListTasksParams \<Rightarrow> ('s, etask list \<times> nat) mact" where
  "ms_ListTasks M p =
    (case lt_CollectionID p of
       None \<Rightarrow> read_db (ListTasks (mc_nulls_first M) p)
     | Some cid \<Rightarrow> route_coll M cid (read_db (ListTasks (mc_nulls_first M) p)) (\<lambda>G. gh_ListTasks G p))"

definition ms_ListAllTasksForCollection :: "'s multi_config \<Rightarrow> uuid \<Rightarrow> ('s, task list) mact" where
  "ms_ListAllTasksForCollection M cid =
    route_coll M cid (read_db (\<lambda>d. Inr (ListAllTasksForCollection cid d))) unsupported"

definition ms_UpdateTask :: "'s multi_config \<Rightarrow> uuid \<Rightarrow> UpdateTaskParams \<Rightarrow> uuid \<Rightarrow> ('s, etask) mact" where
  "ms_UpdateTask M i p actor =
    route_task M i (on_db (UpdateTask_serial (mc_env M) i p actor)) (\<lambda>G. gh_UpdateTask G i p)"

definition ms_ClaimTask :: "'s multi_config \<Rightarrow> uuid \<Rightarrow> uuid \<Rightarrow> string \<Rightarrow> ('s, etask) mact" where
  "ms_ClaimTask M i assignee version =
    route_task M i (on_db (ClaimTask_serial (mc_env M) i assignee version)) (\<lambda>G. gh_ClaimTask G i)"

definition ms_CloseTask :: "'s multi_config \<Rightarrow> uuid \<Rightarrow> stage \<Rightarrow> string \<Rightarrow> uuid \<Rightarrow> ('s, etask) mact" where
  "ms_CloseTask M i st version actor =
    route_task M i (on_db (CloseTask_serial (mc_env M) i st version actor)) (\<lambda>G. gh_CloseTask G i st)"

definition ms_DeleteTask :: "'s multi_config \<Rightarrow> uuid \<Rightarrow> ('s, unit) mact" where
  "ms_DeleteTask M i =
    route_task M i (on_db (\<lambda>d. thenE (DeleteTask i d) (\<lambda>d'. Inr ((), d')))) unsupported"

text \<open>
  The availability of a task that was read before. Every store has the method the routing asks
  for, so the fallback of the source for stores without it does not run.
\<close>

definition ms_ComputeAvailability :: "'s multi_config \<Rightarrow> etask \<Rightarrow> ('s, TaskAvailability) mact" where
  "ms_ComputeAvailability M t =
    route_coll M (t_collection (e_task t)) (read_db (\<lambda>d. ComputeAvailability (mc_env M) d t))
      (\<lambda>G. returnG (gh_ComputeAvailability G (e_task t)))"

section \<open>Comments, changes, relationships\<close>

definition ms_AddComment :: "'s multi_config \<Rightarrow> AddCommentParams \<Rightarrow> ('s, comment) mact" where
  "ms_AddComment M p =
    route_task M (ac_TaskID p) (on_db (AddComment (mc_env M) p)) (\<lambda>G. gh_AddComment G p)"

text \<open>A pass-through store finds no comment by its identifier, so only the database answers.\<close>

definition ms_GetComment :: "uuid \<Rightarrow> ('s, comment) mact" where
  "ms_GetComment i mu = (case GetComment i (mu_db mu) of Inr c \<Rightarrow> (Inr c, mu) | Inl _ \<Rightarrow> (Inl ErrNotFound, mu))"

definition ms_ListComments :: "'s multi_config \<Rightarrow> ListCommentsParams \<Rightarrow> ('s, comment list \<times> nat) mact" where
  "ms_ListComments M p =
    route_task M (lm_TaskID p) (read_db (ListComments p)) (\<lambda>G. gh_ListComments G p)"

definition ms_ListAllCommentsForTask :: "'s multi_config \<Rightarrow> uuid \<Rightarrow> ('s, comment list) mact" where
  "ms_ListAllCommentsForTask M i =
    route_task M i (read_db (\<lambda>d. Inr (ListAllCommentsForTask i d))) unsupported"

definition ms_ListAllCommentsForCollection :: "'s multi_config \<Rightarrow> uuid \<Rightarrow> ('s, comment list) mact" where
  "ms_ListAllCommentsForCollection M cid =
    route_coll M cid (read_db (\<lambda>d. Inr (ListAllCommentsForCollection cid d))) unsupported"

definition ms_ListChanges :: "'s multi_config \<Rightarrow> ListChangesParams \<Rightarrow> ('s, change list \<times> nat) mact" where
  "ms_ListChanges M p = route_task M (lh_TaskID p) (read_db (ListChanges p)) unsupported"

definition ms_ListAllChangesForTask :: "'s multi_config \<Rightarrow> uuid \<Rightarrow> ('s, change list) mact" where
  "ms_ListAllChangesForTask M i =
    route_task M i (read_db (\<lambda>d. Inr (ListAllChangesForTask i d))) unsupported"

definition ms_ListAllChangesForCollection :: "'s multi_config \<Rightarrow> uuid \<Rightarrow> ('s, change list) mact" where
  "ms_ListAllChangesForCollection M cid =
    route_coll M cid (read_db (\<lambda>d. Inr (ListAllChangesForCollection cid d))) unsupported"

definition ms_ListAllRelationshipsForCollection :: "'s multi_config \<Rightarrow> uuid \<Rightarrow> ('s, rel list) mact" where
  "ms_ListAllRelationshipsForCollection M cid =
    route_coll M cid (read_db (\<lambda>d. Inr (ListAllRelationshipsForCollection cid d))) unsupported"

section \<open>Graph queries\<close>

definition ms_GetReadyTasks :: "'s multi_config \<Rightarrow> GetReadyTasksParams \<Rightarrow> ('s, ReadyTaskResult list \<times> nat) mact" where
  "ms_GetReadyTasks M p =
    (case gr_CollectionID p of
       None \<Rightarrow> read_db (GetReadyTasks (mc_env M) p)
     | Some cid \<Rightarrow> route_coll M cid (read_db (GetReadyTasks (mc_env M) p))
         (\<lambda>G. gh_GetReadyTasks G (mc_visit M) p))"

definition ms_GetBlockedTasks :: "'s multi_config \<Rightarrow> GetBlockedTasksParams \<Rightarrow> ('s, BlockedTaskResult list \<times> nat) mact" where
  "ms_GetBlockedTasks M p =
    (case gb_CollectionID p of
       None \<Rightarrow> read_db (GetBlockedTasks p)
     | Some cid \<Rightarrow> route_coll M cid (read_db (GetBlockedTasks p))
         (\<lambda>G. gh_GetBlockedTasks G (mc_visit M) p))"

section \<open>Operations of the database\<close>

text \<open>
  Collections, users, tokens, linked accounts and imports always go to the database; the ones
  here are those whose effect the routing sees.
\<close>

definition ms_ImportCollection :: "'s multi_config \<Rightarrow> ImportCollectionParams \<Rightarrow> ('s, collection) mact" where
  "ms_ImportCollection M p = on_db (ImportCollection (mc_env M) p)"

definition ms_CreateCollection :: "'s multi_config \<Rightarrow> CreateCollectionParams \<Rightarrow> ('s, collection) mact" where
  "ms_CreateCollection M p = on_db (CreateCollection (mc_env M) p)"

definition ms_CreateLinkedAccount :: "'s multi_config \<Rightarrow> CreateLinkedAccountParams \<Rightarrow> ('s, account) mact" where
  "ms_CreateLinkedAccount M p = on_db (CreateLinkedAccount (mc_encryptor M) (mc_env M) p)"

definition ms_UpdateLinkedAccount ::
  "'s multi_config \<Rightarrow> uuid \<Rightarrow> UpdateLinkedAccountParams \<Rightarrow> ('s, account) mact" where
  "ms_UpdateLinkedAccount M i p = on_db (UpdateLinkedAccount (mc_encryptor M) (mc_env M) i p)"

definition ms_DeleteLinkedAccount :: "uuid \<Rightarrow> ('s, unit) mact" where
  "ms_DeleteLinkedAccount i = on_db (\<lambda>d. thenE (DeleteLinkedAccount i d) (\<lambda>d'. Inr ((), d')))"

end
