(* ===== verification/FT_MultiProps.thy ===== *)
theory FT_MultiProps
  imports FT_MultiStore FT_StoreSteps FT_LabelProps
begin

text \<open>
  Routing: a collection of the native platform is served by the database alone; an external one
  by the pass-through store made from its linked account.
\<close>

section \<open>What an operation does to the state of the routing\<close>

text \<open>
  An operation of the composed store keeps the platforms of the collections, and the stores it
  registers are for collections that are not native.
\<close>

definition native :: "uuid \<Rightarrow> db \<Rightarrow> bool" where
  "native cid d \<longleftrightarrow> (\<exists>co. GetCollection cid d = Inr co \<and> co_platform co = PlatformFarmtable)"

definition external :: "uuid \<Rightarrow> db \<Rightarrow> bool" where
  "external cid d \<longleftrightarrow> (\<exists>co. GetCollection cid d = Inr co \<and> co_platform co \<noteq> PlatformFarmtable)"

lemma external_not_native: "external cid d \<Longrightarrow> \<not> native cid d"
  by (auto simp: external_def native_def)

lemma platforms_kept_run: "store_step\<^sup>*\<^sup>* d d' \<Longrightarrow> platforms_kept d d'"
  by (rule platforms.R_run)

lemma external_kept: "store_step\<^sup>*\<^sup>* d d' \<Longrightarrow> external cid d \<Longrightarrow> external cid d'"
  using platforms_kept_run unfolding external_def platforms_kept_def GetCollection_def optE_Inr by metis

lemma native_kept: "store_step\<^sup>*\<^sup>* d d' \<Longrightarrow> native cid d \<Longrightarrow> native cid d'"
  using platforms_kept_run unfolding native_def platforms_kept_def GetCollection_def optE_Inr by metis

text \<open>The clients of the registered stores.\<close>

definition stores :: "'s multi \<Rightarrow> uuid \<rightharpoonup> 's gh" where
  "stores mu cid = map_option ps_gh (map_of (mu_platforms mu) cid)"

definition routed_ok :: "'s multi \<Rightarrow> bool" where
  "routed_ok mu \<longleftrightarrow> (\<forall>cid\<in>dom (stores mu). external cid (mu_db mu))"

text \<open>An action whose writes of the database are steps of the store, and that registers nothing.\<close>

definition tame :: "('s, 'a) mact \<Rightarrow> bool" where
  "tame f \<longleftrightarrow> (\<forall>mu. store_step\<^sup>*\<^sup>* (mu_db mu) (mu_db (snd (f mu)))
     \<and> stores (snd (f mu)) = stores mu)"

lemma tame_read [intro]: "tame (read_db f)"
  by (simp add: tame_def read_db_def)

lemma tame_on_db: "(\<And>d x d'. f d = Inr (x, d') \<Longrightarrow> store_step d d') \<Longrightarrow> tame (on_db f)"
  by (auto simp: tame_def on_db_def stores_def split: sum.split prod.split)

lemma on_platform_state:
  "mu_db (snd (on_platform cid f mu)) = mu_db mu" "stores (snd (on_platform cid f mu)) = stores mu"
  by (auto simp: on_platform_def stores_def fun_eq_iff update_conv' split: option.split prod.split)

lemma tame_platform [intro]: "tame (on_platform cid f)"
  by (simp add: tame_def on_platform_state)

lemma read_db_state [simp]: "snd (read_db f mu) = mu"
  by (simp add: read_db_def)

lemma tame_dispatch: "tame prim \<Longrightarrow> tame (dispatch tgt prim plat)"
  by (auto simp: dispatch_def split: target.split)

lemma scan_state:
  "mu_db (snd (scan_stores i cids mu)) = mu_db mu \<and> stores (snd (scan_stores i cids mu)) = stores mu"
proof (induction cids arbitrary: mu)
  case (Cons cid cids)
  obtain r mu1 where r: "on_platform cid (\<lambda>G. gh_GetTask G i) mu = (r, mu1)"
    by (cases "on_platform cid (\<lambda>G. gh_GetTask G i) mu")
  have "mu_db mu1 = mu_db mu" "stores mu1 = stores mu"
    using on_platform_state [of cid "\<lambda>G. gh_GetTask G i" mu] unfolding r by simp_all
  then show ?case using Cons.IH [of mu1] by (simp add: r split: sum.split)
qed simp

text \<open>The invariant of the routing, with the run of the database.\<close>

definition routes :: "'s multi \<Rightarrow> 's multi \<Rightarrow> bool" where
  "routes mu mu' \<longleftrightarrow> store_step\<^sup>*\<^sup>* (mu_db mu) (mu_db mu') \<and> stores mu \<subseteq>\<^sub>m stores mu'
     \<and> (routed_ok mu \<longrightarrow> routed_ok mu')"

lemma routes_refl [simp, intro]: "routes mu mu"
  by (simp add: routes_def)

lemma routes_trans: "routes a b \<Longrightarrow> routes b c \<Longrightarrow> routes a c"
  unfolding routes_def by (meson rtranclp_trans map_le_trans)

lemma routes_same: "mu_db mu' = mu_db mu \<Longrightarrow> stores mu' = stores mu \<Longrightarrow> routes mu mu'"
  by (simp add: routes_def routed_ok_def)

lemma tame_routes: "tame f \<Longrightarrow> routes mu (snd (f mu))"
  using external_kept unfolding tame_def routes_def routed_ok_def by (metis map_le_refl)

lemma storeForCtx_routes: "routes mu (snd (storeForCtx M cid mu))"
proof (cases "map_of (mu_platforms mu) cid = None \<and> lazyResolve M cid (mu_db mu) \<noteq> None")
  case True
  then obtain s where s: "lazyResolve M cid (mu_db mu) = Some s" "map_of (mu_platforms mu) cid = None" by auto
  then have "external cid (mu_db mu)"
    by (auto simp: lazyResolve_def external_def split: option.splits sum.splits if_splits)
  then show ?thesis using s
    by (auto simp: storeForCtx_def routes_def routed_ok_def register_def stores_def map_le_def map_add_def
        split: if_splits option.splits)
next
  case False
  then show ?thesis by (auto simp: storeForCtx_def split: option.split)
qed

lemma snd_case_prod: "snd (case p of (a, b) \<Rightarrow> (f a, b)) = snd p"
  by (cases p) simp

lemma storeForTask_routes: "routes mu (snd (storeForTask M i mu))"
proof (cases "GetTask i (mu_db mu)")
  case (Inr t)
  then show ?thesis by (simp add: storeForTask_def snd_case_prod storeForCtx_routes)
next
  case (Inl e)
  obtain r mu1 where r: "scan_stores i (map fst (mu_platforms mu)) mu = (r, mu1)"
    by (cases "scan_stores i (map fst (mu_platforms mu)) mu")
  then have "routes mu mu1" using scan_state [of i "map fst (mu_platforms mu)" mu] by (simp add: routes_same)
  then show ?thesis
    by (cases r) (simp_all add: storeForTask_def Inl r snd_case_prod routes_trans [OF _ storeForCtx_routes])
qed

lemma dispatch_routes: "tame prim \<Longrightarrow> routes mu (snd (dispatch tgt prim plat mu))"
  by (intro tame_routes tame_dispatch)

lemma route_coll_routes: "tame prim \<Longrightarrow> routes mu (snd (route_coll M cid prim plat mu))"
  using routes_trans [OF storeForCtx_routes [of mu M cid] dispatch_routes]
  by (simp add: route_coll_def split_beta)

lemma route_task_routes:
  assumes "tame prim" shows "routes mu (snd (route_task M i prim plat mu))"
proof -
  obtain r mu1 where r: "storeForTask M i mu = (r, mu1)" by (cases "storeForTask M i mu")
  then have "routes mu mu1" using storeForTask_routes [of mu M i] by simp
  then show ?thesis using routes_trans [OF _ dispatch_routes [OF assms]]
    by (cases r) (simp_all add: route_task_def r)
qed

section \<open>Steps of the composed store\<close>

inductive multi_step :: "'s multi_config \<Rightarrow> 's multi \<Rightarrow> 's multi \<Rightarrow> bool" for M where
  create: "multi_step M mu (snd (ms_CreateTask M ctp mu))"
| insert_after: "multi_step M mu (snd (ms_InsertTasksAfter M itp mu))"
| get: "multi_step M mu (snd (ms_GetTask M i mu))"
| list: "multi_step M mu (snd (ms_ListTasks M ltp mu))"
| list_all: "multi_step M mu (snd (ms_ListAllTasksForCollection M i mu))"
| update: "multi_step M mu (snd (ms_UpdateTask M i utp a mu))"
| claim: "multi_step M mu (snd (ms_ClaimTask M i a v mu))"
| close: "multi_step M mu (snd (ms_CloseTask M i st v a mu))"
| delete: "multi_step M mu (snd (ms_DeleteTask M i mu))"
| availability: "multi_step M mu (snd (ms_ComputeAvailability M t mu))"
| comment: "multi_step M mu (snd (ms_AddComment M acp mu))"
| get_comment: "multi_step M mu (snd (ms_GetComment i mu))"
| comments: "multi_step M mu (snd (ms_ListComments M lmp mu))"
| task_comments: "multi_step M mu (snd (ms_ListAllCommentsForTask M i mu))"
| coll_comments: "multi_step M mu (snd (ms_ListAllCommentsForCollection M i mu))"
| changes: "multi_step M mu (snd (ms_ListChanges M lhp mu))"
| task_changes: "multi_step M mu (snd (ms_ListAllChangesForTask M i mu))"
| coll_changes: "multi_step M mu (snd (ms_ListAllChangesForCollection M i mu))"
| coll_rels: "multi_step M mu (snd (ms_ListAllRelationshipsForCollection M i mu))"
| ready: "multi_step M mu (snd (ms_GetReadyTasks M grp mu))"
| blocked: "multi_step M mu (snd (ms_GetBlockedTasks M gbp mu))"
| database: "store_step (mu_db mu) d \<Longrightarrow> multi_step M mu (mu\<lparr>mu_db := d\<rparr>)"
| remote: "multi_step M mu (mu\<lparr>mu_remote := r\<rparr>)"

lemma serial_steps:
  "UpdateTask_serial e i up a d = Inr (et, d') \<Longrightarrow> store_step d d'"
  "ClaimTask_serial e i u v d = Inr (et, d') \<Longrightarrow> store_step d d'"
  "CloseTask_serial e i st v a d = Inr (et, d') \<Longrightarrow> store_step d d'"
  "thenE (DeleteTask i d) (\<lambda>d'. Inr ((), d')) = Inr (x, d') \<Longrightarrow> store_step d d'"
proof -
  show "store_step d d'" if "UpdateTask_serial e i up a d = Inr (et, d')"
    using that store_step.update [of e i up a d d et d']
    by (auto simp: UpdateTask_serial_def UpdateTask_def split: sum.splits store_err.splits if_splits)
  show "store_step d d'" if "ClaimTask_serial e i u v d = Inr (et, d')"
    using that by (auto simp: ClaimTask_serial_def ClaimTask_def split: option.splits intro: store_step.claim)
  show "store_step d d'" if "CloseTask_serial e i st v a d = Inr (et, d')"
    using that by (auto simp: CloseTask_serial_def CloseTask_def IsTerminalStage_def
        split: option.splits if_splits intro: store_step.close)
  show "store_step d d'" if "thenE (DeleteTask i d) (\<lambda>d'. Inr ((), d')) = Inr (x, d')"
    using that by (auto simp: thenE_Inr intro: store_step.delete)
qed

lemmas ms_task_ops = ms_CreateTask_def ms_InsertTasksAfter_def ms_GetTask_def ms_ListTasks_def
  ms_ListAllTasksForCollection_def ms_UpdateTask_def ms_ClaimTask_def ms_CloseTask_def ms_DeleteTask_def
  ms_ComputeAvailability_def

lemmas ms_row_ops = ms_AddComment_def ms_ListComments_def ms_ListAllCommentsForTask_def
  ms_ListAllCommentsForCollection_def ms_ListChanges_def ms_ListAllChangesForTask_def
  ms_ListAllChangesForCollection_def ms_ListAllRelationshipsForCollection_def
  ms_GetReadyTasks_def ms_GetBlockedTasks_def

lemma multi_step_routes: "multi_step M mu mu' \<Longrightarrow> routes mu mu'"
proof (induction rule: multi_step.induct)
  case (database mu d)
  have "stores (mu\<lparr>mu_db := d\<rparr>) = stores mu" by (simp add: stores_def fun_eq_iff)
  then show ?case using external_kept [OF r_into_rtranclp [of store_step, OF database]] database
    by (simp add: routes_def routed_ok_def r_into_rtranclp)
next
  case (get_comment mu i)
  show ?case by (simp add: ms_GetComment_def split: sum.split)
next
  case (remote mu r)
  show ?case by (simp add: routes_same stores_def fun_eq_iff)
qed (auto simp: ms_task_ops ms_row_ops split: option.split
      intro!: route_coll_routes route_task_routes tame_on_db tame_read
      intro: serial_steps store_step.create store_step.insert_after store_step.comment)

lemma multi_run_routes: "(multi_step M)\<^sup>*\<^sup>* mu mu' \<Longrightarrow> routes mu mu'"
  by (induction rule: rtranclp_induct) (auto intro: routes_trans multi_step_routes)

section \<open>Native tasks\<close>

lemma native_not_registered:
  assumes "(multi_step M)\<^sup>*\<^sup>* mu0 mu" and "mu_platforms mu0 = []" and "native cid (mu_db mu)"
  shows "map_of (mu_platforms mu) cid = None"
proof -
  have "routed_ok mu0" using assms(2) by (auto simp: routed_ok_def stores_def)
  then have "routed_ok mu" using multi_run_routes [OF assms(1)] by (simp add: routes_def)
  then have "stores mu cid = None" using assms(3) external_not_native unfolding routed_ok_def by blast
  then show ?thesis by (simp add: stores_def)
qed

lemma native_primary:
  assumes "map_of (mu_platforms mu) cid = None" and "native cid (mu_db mu)"
  shows "storeForCtx M cid mu = (Primary, mu)"
proof -
  have "lazyResolve M cid (mu_db mu) = None"
    using assms(2) by (auto simp: lazyResolve_def native_def split: option.split)
  then show ?thesis using assms(1) by (simp add: storeForCtx_def)
qed

text \<open>
  C4. The tasks of a native collection are served by the database: after any run from the start of
  the server, in which external collections were used too, each operation on such a task is the
  operation of the database, with its answer and its error, and asks no platform; and the
  database has only taken steps of the store.
\<close>

theorem native_tasks_served_by_database:
  assumes "(multi_step M)\<^sup>*\<^sup>* mu0 mu" and "mu_platforms mu0 = []"
    and "GetTask i (mu_db mu) = Inr t" and "native (t_collection (e_task t)) (mu_db mu)"
  shows "store_step\<^sup>*\<^sup>* (mu_db mu0) (mu_db mu)
    \<and> ms_GetTask M i mu = (Inr t, mu)
    \<and> ms_UpdateTask M i up a mu = on_db (UpdateTask_serial (mc_env M) i up a) mu
    \<and> ms_ClaimTask M i u v mu = on_db (ClaimTask_serial (mc_env M) i u v) mu
    \<and> ms_CloseTask M i st v a mu = on_db (CloseTask_serial (mc_env M) i st v a) mu
    \<and> ms_DeleteTask M i mu = on_db (\<lambda>d. thenE (DeleteTask i d) (\<lambda>d'. Inr ((), d'))) mu
    \<and> ms_ComputeAvailability M t mu = (ComputeAvailability (mc_env M) (mu_db mu) t, mu)
    \<and> (ac_TaskID cp = i \<longrightarrow> ms_AddComment M cp mu = on_db (AddComment (mc_env M) cp) mu)
    \<and> (lm_TaskID lp = i \<longrightarrow> ms_ListComments M lp mu = (ListComments lp (mu_db mu), mu))
    \<and> (lh_TaskID hp = i \<longrightarrow> ms_ListChanges M hp mu = (ListChanges hp (mu_db mu), mu))"
proof -
  have ctx: "storeForCtx M (t_collection (e_task t)) mu = (Primary, mu)"
    by (rule native_primary [OF native_not_registered [OF assms(1,2,4)] assms(4)])
  then have coll: "route_coll M (t_collection (e_task t)) prim plat mu = prim mu" for prim plat
    by (simp add: route_coll_def dispatch_def)
  have "storeForTask M i mu = (Inr Primary, mu)" by (simp add: storeForTask_def assms(3) ctx)
  then have task: "route_task M i prim plat mu = prim mu" for prim plat
    by (simp add: route_task_def dispatch_def)
  show ?thesis using multi_run_routes [OF assms(1)]
    by (simp add: ms_task_ops ms_row_ops task coll read_db_def assms(3) routes_def)
qed

section \<open>External collections\<close>

text \<open>
  The first account linked to an external collection serves it for the life of the server: the
  first request makes a client with the token of the oldest account, whatever its status, and
  no later step - the account deleted, revoked or given a new token - changes that client.
\<close>

theorem first_account_serves:
  assumes "map_of (mu_platforms mu) cid = None" and "mc_resolver M = Some (NewPlatformResolver W)"
    and "GetCollection cid (mu_db mu) = Inr co" and "co_platform co = PlatformGithub"
    and "ParseOwnerRepo (co_remote_id co) = Some (ow, rp)"
    and "ListLinkedAccounts (mc_encryptor M) (accounts_of cid) (mu_db mu) = Inr (a # as, n)"
    and "storeForCtx M cid mu = (tgt, mu1)" and "(multi_step M)\<^sup>*\<^sup>* mu1 mu2"
  shows "tgt = Platform cid \<and> fst (storeForCtx M cid mu2) = Platform cid
    \<and> (\<exists>ps. map_of (mu_platforms mu2) cid = Some ps \<and> gh_api (ps_gh ps) = w_api W (a_token a) ow rp)"
proof -
  let ?s = "NewPassThroughStore W (a_token a) ow rp cid"
  have "lazyResolve M cid (mu_db mu) = Some ?s"
    using assms(2-6) by (simp add: lazyResolve_def NewPlatformResolver_def)
  then have "tgt = Platform cid" and "stores mu1 cid = Some (ps_gh ?s)"
    using assms(1,7) by (auto simp: storeForCtx_def register_def stores_def map_add_def)
  moreover from this(2) have "stores mu2 cid = Some (ps_gh ?s)"
    using multi_run_routes [OF assms(8)] unfolding routes_def by (metis domI map_le_def)
  ultimately show ?thesis by (auto simp: stores_def storeForCtx_def NewPassThroughStore_def)
qed

text \<open>
  After a start of the server the tasks of an external collection are unknown until the
  collection is used: with no store registered, a task that the database does not have is not
  found, and no platform is asked.
\<close>

theorem external_tasks_unknown_after_start:
  assumes "mu_platforms mu = []" and "GetTask i (mu_db mu) = Inl e"
  shows "ms_GetTask M i mu = (Inl ErrNotFound, mu) \<and> ms_UpdateTask M i up a mu = (Inl ErrNotFound, mu)
    \<and> ms_ClaimTask M i u v mu = (Inl ErrNotFound, mu) \<and> ms_CloseTask M i st v a mu = (Inl ErrNotFound, mu)"
proof -
  have "storeForTask M i mu = (Inl ErrNotFound, mu)" by (simp add: storeForTask_def assms)
  then show ?thesis by (simp add: ms_task_ops route_task_def)
qed

section \<open>Instances\<close>

text \<open>A GitHub that answers no request.\<close>

definition ex_github :: "string \<Rightarrow> unit github" where
  "ex_github tok = \<lparr>q_issues = (\<lambda>_ _ _ _ s. (None, s)), q_issue = (\<lambda>_ s. (None, s)),
     q_comments = (\<lambda>_ _ _ s. (None, s)), q_repository = (\<lambda>s. (Some tok, s)), q_labels = (\<lambda>_ s. (None, s)),
     m_createIssue = (\<lambda>_ _ _ _ s. (None, s)), m_updateIssue = (\<lambda>_ _ _ s. (None, s)),
     m_setAssignees = (\<lambda>_ _ s. (None, s)), m_closeIssue = (\<lambda>_ _ s. (None, s)),
     m_addComment = (\<lambda>_ _ s. (None, s)), m_addSubIssue = (\<lambda>_ _ s. (None, s)),
     m_removeSubIssue = (\<lambda>_ _ s. (None, s)), m_addLabels = (\<lambda>_ _ s. (None, s)),
     m_removeLabels = (\<lambda>_ _ s. (None, s))\<rparr>"

definition ex_world :: "unit world" where
  "ex_world = \<lparr>w_api = (\<lambda>tok _ _. ex_github tok), w_tables = ascii, w_sha1 = length, w_rfc3339 = (\<lambda>_. []),
     w_queries = 1\<rparr>"

definition ex_config :: "unit multi_config" where
  "ex_config = \<lparr>mc_resolver = Some (NewPlatformResolver ex_world), mc_encryptor = None,
     mc_env = ex_env, mc_nulls_first = False, mc_visit = id\<rparr>"

definition ex_account :: account where
  "ex_account = \<lparr>a_id = 30, a_collection = 2, a_platform = PlatformGithub, a_token = ''t'', a_method = AuthMethodPat,
     a_scopes = [], a_remote_user = [], a_status = StatusRevoked, a_created = 0, a_updated = 0,
     a_expires = None, a_refresh = [], a_token_expiry = None, a_granted = [], a_validated = None\<rparr>"

definition ex_linked :: db where
  "ex_linked = ex_db\<lparr>d_colls := [ex_coll, ex_coll\<lparr>co_id := 2, co_platform := PlatformGithub,
     co_remote_id := ''o/r''\<rparr>], d_accounts := [ex_account]\<rparr>"

definition ex_multi :: "unit multi" where
  "ex_multi = \<lparr>mu_db = ex_linked, mu_remote = (), mu_platforms = []\<rparr>"

lemma ex_linked_first:
  "ListLinkedAccounts None (accounts_of 2) ex_linked = Inr ([ex_account], 1)"
  by (simp add: ListLinkedAccounts_def accounts_of_def ex_linked_def ex_account_def ex_db_def keyset_page_def
      account_cursor_def opt_eq_def limit_rows_def decryptLinkedAccount_def)

theorem native_tasks_served_by_database_witness:
  "ms_GetTask ex_config 10 ex_multi = (GetTask 10 ex_linked, ex_multi)"
proof -
  have mu: "mu_db ex_multi = ex_linked" by (simp add: ex_multi_def)
  have "(multi_step ex_config)\<^sup>*\<^sup>* ex_multi ex_multi" by (rule rtranclp.rtrancl_refl)
  moreover have "mu_platforms ex_multi = []" by (simp add: ex_multi_def)
  moreover obtain t where t: "GetTask 10 (mu_db ex_multi) = Inr t" "t_collection (e_task t) = 1"
  proof -
    have "get_task 10 ex_linked = Some ex10" by (simp add: get_task_def ex_linked_def ex_db_def)
    then show ?thesis using that by (simp add: mu GetTask_def getTaskWithEdges_def with_edges_def)
  qed
  moreover have "native (t_collection (e_task t)) (mu_db ex_multi)"
    by (simp add: t(2) mu native_def GetCollection_def ex_linked_def ex_defs)
  ultimately show ?thesis using native_tasks_served_by_database [of ex_config ex_multi ex_multi 10 t] t(1)
    by (simp add: mu)
qed

theorem first_account_serves_witness:
  "\<exists>(mu :: unit multi) (ps :: unit platform_store). mu_db mu = ex_linked\<lparr>d_accounts := []\<rparr> \<and> map_of (mu_platforms mu) 2 = Some ps
    \<and> gh_api (ps_gh ps) = ex_github ''t''"
proof -
  let ?cid = "2 :: uuid"
  define mu1 where "mu1 = snd (storeForCtx ex_config ?cid ex_multi)"
  have coll: "GetCollection ?cid ex_linked = Inr (ex_coll\<lparr>co_id := 2, co_platform := PlatformGithub, co_remote_id := ''o/r''\<rparr>)"
    by (simp add: GetCollection_def ex_linked_def ex_defs)
  have db: "mu_db mu1 = ex_linked" unfolding mu1_def storeForCtx_def
    by (simp add: ex_multi_def split: option.split)
  have "DeleteLinkedAccount 30 ex_linked = Inr (ex_linked\<lparr>d_accounts := []\<rparr>)"
    by (simp add: DeleteLinkedAccount_def delete_account_def ex_linked_def ex_account_def)
  then have "multi_step ex_config mu1 (mu1\<lparr>mu_db := ex_linked\<lparr>d_accounts := []\<rparr>\<rparr>)"
    by (intro multi_step.database) (simp add: db store_step.unlink)
  then have run: "(multi_step ex_config)\<^sup>*\<^sup>* mu1 (mu1\<lparr>mu_db := ex_linked\<lparr>d_accounts := []\<rparr>\<rparr>)" by blast
  let ?mu2 = "mu1\<lparr>mu_db := ex_linked\<lparr>d_accounts := []\<rparr>\<rparr>"
  have first: "ListLinkedAccounts (mc_encryptor ex_config) (accounts_of ?cid) (mu_db ex_multi) = Inr ([ex_account], 1)"
    using ex_linked_first by (simp add: ex_config_def ex_multi_def)
  have "storeForCtx ex_config ?cid ex_multi = (fst (storeForCtx ex_config ?cid ex_multi), mu1)"
    by (simp add: mu1_def)
  from first_account_serves [OF _ _ _ _ _ first this run, of ex_world _ "''o''" "''r''"] coll
  have "\<exists>ps. map_of (mu_platforms ?mu2) ?cid = Some ps \<and> gh_api (ps_gh ps) = w_api ex_world (a_token ex_account) ''o'' ''r''"
    by (simp add: ex_multi_def ex_config_def ParseOwnerRepo_def)
  then obtain ps where "map_of (mu_platforms ?mu2) ?cid = Some ps" "gh_api (ps_gh ps) = ex_github ''t''"
    by (auto simp: ex_world_def ex_account_def)
  then show ?thesis by (intro exI [of _ ?mu2] exI [of _ ps]) simp
qed

theorem external_tasks_unknown_after_start_witness:
  "ms_GetTask ex_config 99 ex_multi = (Inl ErrNotFound, ex_multi)"
proof -
  have "GetTask 99 (mu_db ex_multi) = Inl ErrNotFound"
    by (simp add: ex_multi_def GetTask_def getTaskWithEdges_def with_edges_def get_task_def ex_linked_def ex_defs)
  then show ?thesis using external_tasks_unknown_after_start [of ex_multi 99 ErrNotFound] by (simp add: ex_multi_def)
qed

end
