(* ===== verification/FT_GitHubProps.thy ===== *)
theory FT_GitHubProps
  imports FT_IssueTree FT_LabelProps
begin

text \<open>
  What the GitHub adapter promises when GitHub keeps its own promises: the pages of a listing are
  read to the end or to the limit, a task is found, claimed and closed as its issue says.
\<close>

section \<open>Pages\<close>

text \<open>
  A query serves a list when its pages, each from the cursor that the page before it ended
  with, are the pieces of the list; reading does not change the state.
\<close>

inductive serves :: "(string option \<Rightarrow> ('s, 'a gpage) act) \<Rightarrow> 's gh_state \<Rightarrow> string option \<Rightarrow> 'a list \<Rightarrow> nat \<Rightarrow> bool"
  for query s where
  last: "query c s = (Inr (ns, False, e), s) \<Longrightarrow> serves query s c ns 1"
| more: "query c s = (Inr (ns, True, e), s) \<Longrightarrow> serves query s (Some e) xs k \<Longrightarrow> serves query s c (ns @ xs) (Suc k)"

definition up_to :: "int \<Rightarrow> 'a list \<Rightarrow> 'a list" where
  "up_to limit xs = (if 0 < limit then take (nat limit) xs else xs)"

lemma list_pages_complete:
  assumes "serves query s c xs k" and "k \<le> n" and "0 < limit \<longrightarrow> int (length acc) < limit"
  shows "list_pages n query limit c acc s = (Inr (up_to limit (acc @ xs)), s)"
  using assms
proof (induction arbitrary: n acc rule: serves.induct)
  case (last c ns e)
  then obtain m where "n = Suc m" by (cases n) auto
  then show ?case using last by (auto simp: up_to_def Let_def)
next
  case (more c ns e xs k)
  then obtain m where m: "n = Suc m" "k \<le> m" by (cases n) auto
  show ?case
  proof (cases "0 < limit \<and> limit \<le> int (length (acc @ ns))")
    case True
    then have "take (nat limit) (acc @ ns @ xs) = take (nat limit) (acc @ ns)"
      by (metis append_assoc append_Nil2 diff_is_0_eq' nat_le_iff take0 take_append)
    then show ?thesis using True more.hyps(1) m by (simp add: up_to_def Let_def)
  next
    case False
    then show ?thesis using more.IH [OF m(2), of "acc @ ns"] more.hyps(1) m(1) by (auto simp: not_le Let_def)
  qed
qed

text \<open>GitHub lists the issues \<open>xs\<close> for these states and labels, in pages of 100.\<close>

definition lists_issues :: "'s gh \<Rightarrow> 's gh_state \<Rightarrow> string list \<Rightarrow> issueNode list \<Rightarrow> bool" where
  "lists_issues G s states xs \<longleftrightarrow> (\<exists>k\<le>gh_queries G.
     serves (\<lambda>c. askG (q_issues (gh_api G) states None 100 c)) s None xs k)"

lemma listIssues_200: "lists_issues G s states xs \<Longrightarrow> listIssues G states [] 200 s = (Inr (take 200 xs), s)"
  by (auto simp: lists_issues_def listIssues_def page_size_def list_pages_complete up_to_def)

lemma listIssues_all: "lists_issues G s states xs \<Longrightarrow> listIssues G states [] 0 s = (Inr xs, s)"
  by (auto simp: lists_issues_def listIssues_def page_size_def list_pages_complete up_to_def)

text \<open>
  A task of an external collection is read from the 200 issues that GitHub lists first: its
  issue is the first of them with its identifier, and a task whose issue comes later is not found.
\<close>

theorem external_task_lookup:
  assumes "lists_issues G s both_states xs"
  shows "gh_GetTask G i s =
    (case find_issue G i (take 200 xs) of
       None \<Rightarrow> (Inl ErrNotFound, s) | Some x \<Rightarrow> (Inr (edgeless (issueToTask G x)), s))"
  using listIssues_200 [OF assms] by (simp add: gh_GetTask_def split: option.split)

section \<open>Claiming and closing\<close>

text \<open>An issue can be claimed when it is unassigned, accepted, not held and has no open sub-issue.\<close>

definition issue_claimable :: "'s gh \<Rightarrow> issueNode \<Rightarrow> bool" where
  "issue_claimable G x \<longleftrightarrow> in_Assignees x = [] \<and> \<not> issueUnavailableForClaim G x (issueToTask G x)"

lemma assignee_of_issue:
  "t_assignee (issueToTask G x) = (case in_Assignees x of [] \<Rightarrow> None | (_, login) # _ \<Rightarrow> Some (userUUID G login))"
  by (simp add: issueToTask_def Let_def split: prod.split)

text \<open>
  The claim of an external task, on every branch before its first write: not found outside the
  200 open issues that GitHub lists first, already claimed when the issue has an assignee,
  unavailable when it is not accepted, held by a label or has an open sub-issue. Only then are
  the labels changed and the issue read again.
\<close>

theorem external_claim:
  assumes "lists_issues G s open_state xs"
  shows "gh_ClaimTask G i s =
    (case find_issue G i (take 200 xs) of
       None \<Rightarrow> (Inl ErrNotFound, s)
     | Some x \<Rightarrow>
        if in_Assignees x \<noteq> [] then (Inl ErrAlreadyClaimed, s)
        else if \<not> issue_claimable G x then (Inl ErrUnavailable, s)
        else bindG (gh_swap G x (StageLabelSwap (gh_tables G) (gh_mapper G) (in_Labels x) StageWorking))
          (\<lambda>_. bindG (getIssue G (in_Number x)) (\<lambda>y. returnG (edgeless (issueToTask G y)))) s)"
  using listIssues_200 [OF assms]
  by (simp add: gh_ClaimTask_def assignee_of_issue issue_claimable_def Let_def split: option.split list.split)

text \<open>
  A claim needs its label: when the repository has none of the labels that the change to
  \<open>working\<close> names, a claim answers with success and changes nothing, so the issue is still
  accepted and unassigned and the next claim of any user succeeds as well.
\<close>

theorem claim_without_working_label:
  assumes "lists_issues G s open_state xs" and "find_issue G i (take 200 xs) = Some x" and "issue_claimable G x"
    and "gs_labelIndex s = Some idx" and "getIssue G (in_Number x) s = (Inr x, s)"
    and "StageLabelSwap (gh_tables G) (gh_mapper G) (in_Labels x) StageWorking = (add, remove)"
    and "labelNamesToIDs G idx add = []" and "labelNamesToIDs G idx remove = []"
  shows "gh_ClaimTask G i s = (Inr (edgeless (issueToTask G x)), s)
    \<and> t_stage (issueToTask G x) = StageAccepted \<and> t_assignee (issueToTask G x) = None"
proof -
  have "gh_swap G x (add, remove) s = (Inr (), s)"
    using assms(4,7,8) by (simp add: gh_swap_def ensureLabelIndex_def bindG_def swapLabels_def)
  then have "gh_ClaimTask G i s = (Inr (edgeless (issueToTask G x)), s)"
    using assms(2,3,5,6) listIssues_200 [OF assms(1)]
    by (simp add: gh_ClaimTask_def assignee_of_issue issue_claimable_def)
  then show ?thesis
    using assms(3) by (simp add: issue_claimable_def issueUnavailableForClaim_def assignee_of_issue)
qed

lemma labelled_stage:
  assumes "MapLabelsToStage (gh_tables G) (gh_mapper G) (in_Labels y) = Some st"
  shows "t_stage (issueToTask G y) = st" "t_phase (issueToTask G y) = phaseForStage st"
  using assms by (simp_all add: issueToTask_def IssueToPhaseStage_def github_phaseForStage_eq Let_def)

text \<open>
  Closing does not touch the labels, and labels come before the state of an issue: an issue that
  was claimed, so that it has the label of the stage \<open>working\<close>, is answered in phase
  \<open>in_progress\<close> and stage \<open>working\<close> after it was closed, whatever terminal stage the close asked
  for; only its closing time shows that it is closed.
\<close>

theorem closed_issue_keeps_its_label:
  assumes "lists_issues G s open_state xs" and "find_issue G i (take 200 xs) = Some x"
    and "\<And>reason. closeIssue G (in_ID x) reason s = (Inr y, s')"
    and "in_Labels y = in_Labels x" and "in_State y = ''CLOSED''"
    and "MapLabelsToStage (gh_tables G) (gh_mapper G) (in_Labels x) = Some StageWorking"
  shows "\<exists>et. gh_CloseTask G i st s = (Inr et, s') \<and> t_stage (e_task et) = StageWorking
    \<and> t_phase (e_task et) = PhaseInProgress \<and> t_closed (e_task et) \<noteq> None"
proof -
  have "gh_CloseTask G i st s = (Inr (edgeless (issueToTask G y)), s')"
    using assms(2,3) listIssues_200 [OF assms(1)] by (simp add: gh_CloseTask_def)
  moreover have "t_stage (issueToTask G y) = StageWorking" "t_phase (issueToTask G y) = PhaseInProgress"
    using labelled_stage [of G y StageWorking] assms(4,6) by (simp_all add: phaseForStage_def)
  moreover have "t_closed (issueToTask G y) \<noteq> None"
    using assms(5) by (simp add: issueToTask_def Let_def split: prod.split)
  ultimately show ?thesis by (auto simp: edgeless_def)
qed

section \<open>Instances\<close>

text \<open>A GitHub with one issue, that answers a close with the issue closed.\<close>

definition ex_issue :: "string list \<Rightarrow> string \<Rightarrow> issueNode" where
  "ex_issue labels state = \<lparr>in_ID = ''n'', in_Number = 1, in_Title = ''a'', in_Body = [], in_State = state,
     in_StateReason = None, in_CreatedAt = 0, in_UpdatedAt = 0, in_ClosedAt = None, in_URL = [],
     in_Labels = labels, in_Assignees = [], in_Milestone = None, in_SubIssues = [], in_SubIssuesTotal = 0,
     in_Summary = (0, 0, 0), in_Parent = None\<rparr>"

definition ex_hub :: "string list \<Rightarrow> unit github" where
  "ex_hub labels = \<lparr>q_issues = (\<lambda>_ _ _ _ s. (Some ([ex_issue labels ''OPEN''], False, []), s)),
     q_issue = (\<lambda>_ s. (Some (ex_issue labels ''OPEN''), s)),
     q_comments = (\<lambda>_ _ _ s. (None, s)), q_repository = (\<lambda>s. (None, s)), q_labels = (\<lambda>_ s. (None, s)),
     m_createIssue = (\<lambda>_ _ _ _ s. (None, s)), m_updateIssue = (\<lambda>_ _ _ s. (None, s)),
     m_setAssignees = (\<lambda>_ _ s. (None, s)), m_closeIssue = (\<lambda>_ _ s. (Some (ex_issue labels ''CLOSED''), s)),
     m_addComment = (\<lambda>_ _ s. (None, s)), m_addSubIssue = (\<lambda>_ _ s. (None, s)),
     m_removeSubIssue = (\<lambda>_ _ s. (None, s)), m_addLabels = (\<lambda>_ _ s. (None, s)),
     m_removeLabels = (\<lambda>_ _ s. (None, s))\<rparr>"

definition ex_gh :: "string list \<Rightarrow> unit gh" where
  "ex_gh labels = \<lparr>gh_api = ex_hub labels, gh_tables = ascii, gh_sha1 = (\<lambda>_. 5), gh_rfc3339 = (\<lambda>_. []), gh_queries = 1,
     gh_owner = ''o'', gh_repo = ''r'', gh_mapper = NewLabelMapper ascii DefaultConfig, gh_collection = 2\<rparr>"

definition ex_state :: "unit gh_state" where
  "ex_state = \<lparr>gs_remote = (), gs_repoID = None, gs_labelIndex = Some []\<rparr>"

lemma ex_lists: "lists_issues (ex_gh labels) s states [ex_issue labels ''OPEN'']"
  unfolding lists_issues_def
  by (intro exI [of _ 1] conjI serves.last) (simp_all add: ex_gh_def ex_hub_def askG_def)

lemma ex_find: "find_issue (ex_gh labels) 5 (take 200 [ex_issue labels ''OPEN'']) = Some (ex_issue labels ''OPEN'')"
  by (simp add: find_issue_def issueUUID_def deterministicUUID_def ex_gh_def)

lemma ex_issue_simps [simp]:
  "in_Labels (ex_issue labels st) = labels" "in_State (ex_issue labels st) = st"
  "in_Assignees (ex_issue labels st) = []" "in_SubIssues (ex_issue labels st) = []"
  "gh_tables (ex_gh labels) = ascii" "gh_mapper (ex_gh labels) = NewLabelMapper ascii DefaultConfig"
  by (simp_all add: ex_issue_def ex_gh_def)

theorem external_task_lookup_witness:
  "gh_GetTask (ex_gh []) 5 ex_state
    = (Inr (edgeless (issueToTask (ex_gh []) (ex_issue [] ''OPEN''))), ex_state)"
  by (simp only: external_task_lookup [OF ex_lists] ex_find option.case)

lemma ex_unlabelled: "MapLabelsToStage ascii m [] = None"
proof -
  have "find (\<lambda>s. False) xs = None" for xs :: "stage list" by (induction xs) simp_all
  then show ?thesis
    by (simp add: MapLabelsToStage_def mapped_labels_def List.map_filter_simps first_of_def)
qed

lemma ex_stage_label:
  assumes "declared_stage st"
  shows "MapLabelsToStage ascii (NewLabelMapper ascii DefaultConfig) [stage_label DefaultConfig st] = Some st"
proof (rule one_candidate)
  have "lm_config (NewLabelMapper ascii DefaultConfig) = DefaultConfig"
    by (simp add: NewLabelMapper_def Let_def)
  then show "set (mapped_labels ascii (NewLabelMapper ascii DefaultConfig)
      (lm_labelToStage (NewLabelMapper ascii DefaultConfig)) [stage_label DefaultConfig st]) = {st}"
    using strip_stage_label [OF lowers_ascii_ascii default_config(2) assms]
      stage_name_lookup [OF lowers_ascii_ascii default_config(3) assms]
    by (simp add: mapped_labels_set)
qed (use assms in \<open>simp_all add: NewLabelMapper_def DefaultConfig_def Let_def\<close>)

lemma ex_working:
  "MapLabelsToStage ascii (NewLabelMapper ascii DefaultConfig) [stage_label DefaultConfig StageWorking] = Some StageWorking"
  by (rule ex_stage_label) (simp add: declared_stage_def)

lemma ex_claimable: "issue_claimable (ex_gh []) (ex_issue [] ''OPEN'')"
proof -
  have "t_stage (issueToTask (ex_gh []) (ex_issue [] ''OPEN'')) = StageAccepted"
    by (simp add: issueToTask_def IssueToPhaseStage_def ex_unlabelled EqualFold_def runes_ascii ascii_text_def
        fold_rune_def in_range_def Let_def)
  moreover have "t_hold (issueToTask (ex_gh []) (ex_issue [] ''OPEN'')) = None"
    "t_labels (issueToTask (ex_gh []) (ex_issue [] ''OPEN'')) = []"
    by (simp_all add: issueToTask_def Let_def split: prod.split)
  ultimately show ?thesis
    by (simp add: issue_claimable_def issueUnavailableForClaim_def hasExternalUnavailableLabel_def
        hasOpenSubIssue_def)
qed

theorem external_claim_witness:
  "gh_ClaimTask (ex_gh [stage_label DefaultConfig StageWorking]) 5 ex_state = (Inl ErrUnavailable, ex_state)"
proof -
  let ?l = "[stage_label DefaultConfig StageWorking]"
  have "t_stage (issueToTask (ex_gh ?l) (ex_issue ?l ''OPEN'')) = StageWorking"
    using labelled_stage [of "ex_gh ?l" "ex_issue ?l ''OPEN''"] ex_working by simp
  then have "\<not> issue_claimable (ex_gh ?l) (ex_issue ?l ''OPEN'')"
    by (simp add: issue_claimable_def issueUnavailableForClaim_def)
  then show ?thesis by (simp only: external_claim [OF ex_lists] ex_find option.case) simp
qed

theorem claim_without_working_label_witness:
  "snd (gh_ClaimTask (ex_gh []) 5 ex_state) = ex_state"
proof -
  have swap: "StageLabelSwap ascii (NewLabelMapper ascii DefaultConfig) [] StageWorking
      = ([stage_label DefaultConfig StageWorking], [])"
    using stage_label_of [OF default_config(1), of StageWorking ascii]
    by (simp add: StageLabelSwap_def missing_label_def stale_labels_def declared_stage_def NewLabelMapper_def
        DefaultConfig_def Let_def)
  have "getIssue (ex_gh []) (in_Number (ex_issue [] ''OPEN'')) ex_state = (Inr (ex_issue [] ''OPEN''), ex_state)"
    by (simp add: getIssue_def askG_def ex_gh_def ex_hub_def)
  from claim_without_working_label [OF ex_lists ex_find ex_claimable _ this, of "[]"] swap
  show ?thesis by (simp add: ex_state_def labelNamesToIDs_def labelNameToID_def List.map_filter_simps)
qed

theorem closed_issue_keeps_its_label_witness:
  "\<exists>et. gh_CloseTask (ex_gh [stage_label DefaultConfig StageWorking]) 5 StageCompleted ex_state = (Inr et, ex_state)
    \<and> t_phase (e_task et) = PhaseInProgress"
proof -
  let ?l = "[stage_label DefaultConfig StageWorking]"
  have "closeIssue (ex_gh ?l) (in_ID (ex_issue ?l ''OPEN'')) reason ex_state = (Inr (ex_issue ?l ''CLOSED''), ex_state)" for reason
    by (simp add: closeIssue_def askG_def ex_gh_def ex_hub_def)
  from closed_issue_keeps_its_label [OF ex_lists ex_find this, of StageCompleted] show ?thesis
    using ex_working by auto
qed

end
