(* ===== verification/FT_TreeProps.thy ===== *)
theory FT_TreeProps
  imports FT_GitHubProps
begin

text \<open>
  The tree of issues is what GitHub says: when the entries of an issue, as an issue of the
  repository and as a sub-issue of others, agree, the nodes have its state and labels, and the
  children of a listed issue are its sub-issues. A task that is listed as ready can be claimed.
\<close>

section \<open>The heap\<close>

abbreviation node :: "tree \<Rightarrow> nat \<Rightarrow> issueTreeNode" where
  "node T a \<equiv> tr_heap T ! a"

abbreviation size_of :: "tree \<Rightarrow> nat" where
  "size_of T \<equiv> length (tr_heap T)"

definition kids :: "tree \<Rightarrow> nat \<Rightarrow> int list" where
  "kids T a = map (\<lambda>c. tn_Number (node T c)) (tn_Children (node T a))"

text \<open>A node has the state, the labels and the stage of its number.\<close>

definition node_ok :: "unicode \<Rightarrow> LabelMapper \<Rightarrow> (int \<Rightarrow> string) \<Rightarrow> (int \<Rightarrow> string list) \<Rightarrow> nat \<Rightarrow> issueTreeNode \<Rightarrow> bool" where
  "node_ok U m S L k n \<longleftrightarrow> tn_State n = S (tn_Number n) \<and> tn_Labels n = L (tn_Number n)
     \<and> tn_Stage n = MapLabelsToStage U m (L (tn_Number n)) \<and> (\<forall>c\<in>set (tn_Children n). c < k)"

definition tree_ok :: "unicode \<Rightarrow> LabelMapper \<Rightarrow> (int \<Rightarrow> string) \<Rightarrow> (int \<Rightarrow> string list) \<Rightarrow> tree \<Rightarrow> bool" where
  "tree_ok U m S L T \<longleftrightarrow> (\<forall>a<size_of T. node_ok U m S L (size_of T) (node T a))
     \<and> distinct (map fst (tr_nodes T))
     \<and> (\<forall>k a. map_of (tr_nodes T) k = Some a \<longrightarrow> a < size_of T \<and> tn_Number (node T a) = k)"

text \<open>What a change of the tree keeps, outside the node at \<open>a\<close>.\<close>

definition grows :: "nat \<Rightarrow> tree \<Rightarrow> tree \<Rightarrow> bool" where
  "grows a T T' \<longleftrightarrow> size_of T \<le> size_of T' \<and> (\<forall>b<size_of T. tn_Number (node T' b) = tn_Number (node T b))
     \<and> (\<forall>b<size_of T. b \<noteq> a \<longrightarrow> tn_Children (node T' b) = tn_Children (node T b))"

lemma grows_trans: "grows a T T1 \<Longrightarrow> grows a T1 T2 \<Longrightarrow> grows a T T2"
  unfolding grows_def by (metis order_trans order_less_le_trans)

lemma grows_kids:
  assumes "grows a T T'" and "tree_ok U m S L T" and "b < size_of T" and "b \<noteq> a"
  shows "kids T' b = kids T b"
proof -
  have "\<forall>c\<in>set (tn_Children (node T b)). c < size_of T"
    using assms(2,3) by (simp add: tree_ok_def node_ok_def)
  then show ?thesis using assms(1,3,4) by (simp add: grows_def kids_def)
qed

lemma node_ok_mono: "node_ok U m S L k n \<Longrightarrow> k \<le> k' \<Longrightarrow> node_ok U m S L k' n"
  by (force simp: node_ok_def)

lemma alloc_ok:
  assumes "tree_ok U m S L T" and "node_ok U m S L (size_of T) n"
  shows "tree_ok U m S L (snd (alloc n T))" "grows (size_of T) T (snd (alloc n T))"
    "map_of (tr_nodes (snd (alloc n T))) = (map_of (tr_nodes T))(tn_Number n \<mapsto> size_of T)"
  using assms by (auto simp: alloc_def tree_ok_def grows_def nth_append update_conv' less_Suc_eq distinct_update
      intro: node_ok_mono split: if_splits)

lemma update_node_ok:
  assumes "tree_ok U m S L T" and "a < size_of T" and "node_ok U m S L (size_of T) (f (node T a))"
    and "tn_Number (f (node T a)) = tn_Number (node T a)"
  shows "tree_ok U m S L (update_node a f T)" "grows a T (update_node a f T)"
  using assms by (auto simp: update_node_def tree_ok_def grows_def nth_list_update)

lemma update_node_keeps:
  assumes "\<And>n. tn_Number (f n) = tn_Number n" and "\<And>n. tn_Children (f n) = tn_Children n"
  shows "grows a T (update_node c f T)"
  using assms by (cases "c < size_of T") (auto simp: update_node_def grows_def nth_list_update)

section \<open>Building\<close>

text \<open>The node of a sub-issue, found or made.\<close>

lemma child_node:
  assumes ok: "tree_ok U m S L T" and a: "a < size_of T"
    and s: "si_State s = S (si_Number s)" "si_Labels s = L (si_Number s)"
    and c: "(c, T1) = (case map_of (tr_nodes T) (si_Number s) of
             Some c \<Rightarrow> (c, update_node c
               (\<lambda>n. n\<lparr>tn_State := si_State s, tn_Stage := MapLabelsToStage U m (si_Labels s), tn_Labels := si_Labels s\<rparr>) T)
           | None \<Rightarrow> alloc \<lparr>tn_Number = si_Number s, tn_Title = si_Title s, tn_State = si_State s,
               tn_Stage = MapLabelsToStage U m (si_Labels s), tn_Labels = si_Labels s, tn_Children = []\<rparr> T)"
  shows "tree_ok U m S L T1 \<and> (\<forall>b. grows b T T1 \<or> size_of T \<le> b) \<and> grows a T T1 \<and> c < size_of T1
    \<and> tn_Number (node T1 c) = si_Number s \<and> map_of (tr_nodes T) \<subseteq>\<^sub>m map_of (tr_nodes T1)
    \<and> tn_Children (node T1 a) = tn_Children (node T a)"
proof (cases "map_of (tr_nodes T) (si_Number s)")
  case None
  let ?n = "\<lparr>tn_Number = si_Number s, tn_Title = si_Title s, tn_State = si_State s,
     tn_Stage = MapLabelsToStage U m (si_Labels s), tn_Labels = si_Labels s, tn_Children = []\<rparr>"
  have T1: "c = size_of T" "T1 = snd (alloc ?n T)" using c None by (simp_all add: alloc_def)
  have "node_ok U m S L (size_of T) ?n" using s by (simp add: node_ok_def)
  from alloc_ok [OF ok this] show ?thesis using a None
    by (auto simp: T1 alloc_def grows_def nth_append map_le_def)
next
  case (Some c0)
  let ?f = "\<lambda>n. n\<lparr>tn_State := si_State s, tn_Stage := MapLabelsToStage U m (si_Labels s), tn_Labels := si_Labels s\<rparr>"
  have T1: "c = c0" "T1 = update_node c0 ?f T" using c Some by simp_all
  have c0: "c0 < size_of T" "tn_Number (node T c0) = si_Number s"
    using ok Some by (auto simp: tree_ok_def)
  moreover have "node_ok U m S L (size_of T) (?f (node T c0))"
    using ok c0 s by (auto simp: tree_ok_def node_ok_def)
  ultimately have "tree_ok U m S L T1" unfolding T1 by (intro update_node_ok(1) [OF ok]) simp_all
  moreover have "grows b T T1" for b unfolding T1 by (rule update_node_keeps) simp_all
  moreover have "tn_Children (node T1 a) = tn_Children (node T a)"
    using a by (cases "c0 = a") (simp_all add: T1 update_node_def)
  moreover have "c < size_of T1" "tn_Number (node T1 c) = si_Number s" "tr_nodes T1 = tr_nodes T"
    using c0 by (simp_all add: T1 update_node_def)
  ultimately show ?thesis by simp
qed

lemma add_child_ok:
  assumes ok: "tree_ok U m S L T" and a: "a < size_of T"
    and s: "si_State s = S (si_Number s)" "si_Labels s = L (si_Number s)"
  shows "tree_ok U m S L (add_child U m a s T) \<and> grows a T (add_child U m a s T)
    \<and> kids (add_child U m a s T) a = kids T a @ [si_Number s]
    \<and> map_of (tr_nodes T) \<subseteq>\<^sub>m map_of (tr_nodes (add_child U m a s T))"
proof -
  obtain c T1 where c: "(c, T1) = (case map_of (tr_nodes T) (si_Number s) of
             Some c \<Rightarrow> (c, update_node c
               (\<lambda>n. n\<lparr>tn_State := si_State s, tn_Stage := MapLabelsToStage U m (si_Labels s), tn_Labels := si_Labels s\<rparr>) T)
           | None \<Rightarrow> alloc \<lparr>tn_Number = si_Number s, tn_Title = si_Title s, tn_State = si_State s,
               tn_Stage = MapLabelsToStage U m (si_Labels s), tn_Labels = si_Labels s, tn_Children = []\<rparr> T)"
    by (rule that [OF prod.collapse])
  let ?f = "\<lambda>n. n\<lparr>tn_Children := tn_Children n @ [c]\<rparr>"
  have T2: "add_child U m a s T = update_node a ?f T1"
    unfolding add_child_def Let_def c [symmetric] by simp
  from child_node [OF ok a s c] have one: "tree_ok U m S L T1" "grows a T T1" "c < size_of T1"
    "tn_Number (node T1 c) = si_Number s" "map_of (tr_nodes T) \<subseteq>\<^sub>m map_of (tr_nodes T1)"
    "tn_Children (node T1 a) = tn_Children (node T a)" by simp_all
  have a1: "a < size_of T1" using a one(2) by (simp add: grows_def)
  have "node_ok U m S L (size_of T1) (?f (node T1 a))"
    using one(1,3) a1 by (auto simp: tree_ok_def node_ok_def)
  note two = update_node_ok [where f = ?f, OF one(1) a1 this, simplified]
  have old: "\<forall>b\<in>set (tn_Children (node T a)). b < size_of T" using ok a by (simp add: tree_ok_def node_ok_def)
  have "kids (update_node a ?f T1) a = map (\<lambda>b. tn_Number (node T1 b)) (tn_Children (node T a) @ [c])"
    using a1 one(3,6) by (auto simp: kids_def update_node_def nth_list_update)
  also have "\<dots> = kids T a @ [si_Number s]"
    using old one(2,4) by (simp add: kids_def grows_def)
  finally show ?thesis unfolding T2
    using two grows_trans [OF one(2) two(2)] one(5) by (simp add: update_node_def)
qed

lemma add_children_ok:
  assumes "tree_ok U m S L T" and "a < size_of T"
    and "\<forall>s\<in>set ss. si_State s = S (si_Number s) \<and> si_Labels s = L (si_Number s)"
  shows "tree_ok U m S L (fold (add_child U m a) ss T) \<and> grows a T (fold (add_child U m a) ss T)
    \<and> kids (fold (add_child U m a) ss T) a = kids T a @ map si_Number ss
    \<and> map_of (tr_nodes T) \<subseteq>\<^sub>m map_of (tr_nodes (fold (add_child U m a) ss T))"
  using assms
proof (induction ss arbitrary: T)
  case Nil
  then show ?case by (simp add: grows_def)
next
  case (Cons s ss)
  let ?T = "add_child U m a s T"
  have one: "tree_ok U m S L ?T" "grows a T ?T" "kids ?T a = kids T a @ [si_Number s]"
    "map_of (tr_nodes T) \<subseteq>\<^sub>m map_of (tr_nodes ?T)"
    using add_child_ok [OF Cons.prems(1,2), of s] Cons.prems(3) by simp_all
  have "a < size_of ?T" using one(2) Cons.prems(2) by (simp add: grows_def)
  from Cons.IH [OF one(1) this] Cons.prems(3) one show ?case
    using grows_trans map_le_trans by (fastforce simp: List.fold_simps)
qed

text \<open>The node that a listed issue has, with the numbers of its sub-issues.\<close>

definition has_node :: "tree \<Rightarrow> issueNode \<Rightarrow> bool" where
  "has_node T i \<longleftrightarrow> (\<exists>a. map_of (tr_nodes T) (in_Number i) = Some a \<and> kids T a = map si_Number (in_SubIssues i))"

definition entries_agree :: "(int \<Rightarrow> string) \<Rightarrow> (int \<Rightarrow> string list) \<Rightarrow> issueNode \<Rightarrow> bool" where
  "entries_agree S L i \<longleftrightarrow> in_State i = S (in_Number i) \<and> in_Labels i = L (in_Number i)
     \<and> (\<forall>s\<in>set (in_SubIssues i). si_State s = S (si_Number s) \<and> si_Labels s = L (si_Number s))"

lemma add_issue_ok:
  assumes ok: "tree_ok U m S L T" and i: "entries_agree S L i"
  shows "tree_ok U m S L (add_issue U m i T) \<and> has_node (add_issue U m i T) i
    \<and> (\<forall>j. has_node T j \<and> in_Number j \<noteq> in_Number i \<longrightarrow> has_node (add_issue U m i T) j)"
proof -
  let ?n = "\<lparr>tn_Number = in_Number i, tn_Title = in_Title i, tn_State = in_State i,
     tn_Stage = MapLabelsToStage U m (in_Labels i), tn_Labels = in_Labels i, tn_Children = []\<rparr>"
  let ?T1 = "snd (alloc ?n T)" and ?a = "size_of T"
  let ?T2 = "fold (add_child U m ?a) (in_SubIssues i) ?T1"
  have T2: "add_issue U m i T = ?T2" by (simp add: add_issue_def alloc_def)
  have "node_ok U m S L (size_of T) ?n" using i by (simp add: node_ok_def entries_agree_def)
  note one = alloc_ok [OF ok this]
  have a: "?a < size_of ?T1" "kids ?T1 ?a = []" by (simp_all add: alloc_def kids_def)
  have two: "tree_ok U m S L ?T2" "grows ?a ?T1 ?T2" "kids ?T2 ?a = map si_Number (in_SubIssues i)"
    "map_of (tr_nodes ?T1) \<subseteq>\<^sub>m map_of (tr_nodes ?T2)"
    using add_children_ok [OF one(1) a(1), of "in_SubIssues i"] i a(2) by (simp_all add: entries_agree_def)
  have "has_node ?T2 j" if j: "has_node T j" "in_Number j \<noteq> in_Number i" for j
  proof -
    from j(1) obtain b where b: "map_of (tr_nodes T) (in_Number j) = Some b" "kids T b = map si_Number (in_SubIssues j)"
      by (auto simp: has_node_def)
    then have lt: "b < size_of T" using ok by (auto simp: tree_ok_def)
    have "kids ?T2 b = kids T b"
      using grows_kids [OF grows_trans [OF one(2) two(2)] ok lt] lt by simp
    moreover have "map_of (tr_nodes ?T1) (in_Number j) = Some b" using one(3) b(1) j(2) by simp
    then have "map_of (tr_nodes ?T2) (in_Number j) = Some b" using two(4) by (metis domI map_le_def)
    ultimately show ?thesis using b(2) by (auto simp: has_node_def)
  qed
  moreover have "map_of (tr_nodes ?T1) (in_Number i) = Some ?a" using one(3) by simp
  then have "map_of (tr_nodes ?T2) (in_Number i) = Some ?a" using two(4) by (metis domI map_le_def)
  then have "has_node ?T2 i" using two(3) by (simp only: has_node_def) blast
  ultimately show ?thesis unfolding T2 using two(1) by blast
qed

lemma buildIssueTree_ok:
  assumes "\<forall>i\<in>set issues. entries_agree S L i" and "distinct (map in_Number issues)"
  shows "tree_ok U m S L (buildIssueTree U m issues) \<and> (\<forall>i\<in>set issues. has_node (buildIssueTree U m issues) i)"
  using assms
proof (induction issues rule: rev_induct)
  case Nil
  then show ?case by (simp add: buildIssueTree_def tree_ok_def)
next
  case (snoc i issues)
  let ?T = "buildIssueTree U m issues"
  have "buildIssueTree U m (issues @ [i]) = add_issue U m i ?T" by (simp add: buildIssueTree_def)
  moreover have "tree_ok U m S L ?T" "\<forall>j\<in>set issues. has_node ?T j" "\<forall>j\<in>set issues. in_Number j \<noteq> in_Number i"
    using snoc by (auto simp: rev_image_eqI)
  ultimately show ?case using add_issue_ok [of U m S L ?T i] snoc.prems(1) by auto
qed

section \<open>Ready issues\<close>

lemma tree_node_at:
  assumes "tree_ok U m S L T" and "n \<in> set (tree_nodes T)"
  obtains a where "n = node T a" "map_of (tr_nodes T) (tn_Number n) = Some a" "a < size_of T"
proof -
  from assms(2) obtain k a where ka: "(k, a) \<in> set (tr_nodes T)" "n = node T a" by (auto simp: tree_nodes_def)
  then have "map_of (tr_nodes T) k = Some a" using assms(1) by (simp add: tree_ok_def)
  then show ?thesis using that [of a] ka(2) assms(1) by (auto simp: tree_ok_def)
qed

lemma ready_claimable:
  assumes T: "tree_ok U m S L T" "has_node T i" and i: "entries_agree S L i"
    and n: "n \<in> set (tree_nodes T)" "tn_Number n = in_Number i" "node_ready U False T n"
    and G: "gh_tables G = U" "gh_mapper G = m"
    and st: "\<forall>s\<in>set (in_SubIssues i). si_State s \<in> {''OPEN'', ''CLOSED''}"
  shows "\<not> issueUnavailableForClaim G i (issueToTask G i)"
proof -
  from tree_node_at [OF T(1) n(1)] obtain a where a: "n = node T a"
    "map_of (tr_nodes T) (in_Number i) = Some a" "a < size_of T" using n(2) by metis
  then have kids: "kids T a = map si_Number (in_SubIssues i)" using T(2) by (auto simp: has_node_def)
  have nok: "node_ok U m S L (size_of T) n" using T(1) a by (simp add: tree_ok_def)
  have ready: "tn_Stage n = Some StageAccepted" "\<not> hasExternalUnavailableLabel U (tn_Labels n)" "open_children T n = []"
    using n(3) by (auto simp: node_ready_def split: if_splits)
  have labels: "tn_Labels n = in_Labels i" "MapLabelsToStage U m (in_Labels i) = Some StageAccepted"
    using nok i ready(1) n(2) by (auto simp: node_ok_def entries_agree_def)
  have "\<not> EqualFold (si_State s) ''open''" if s: "s \<in> set (in_SubIssues i)" for s
  proof -
    from s have "si_Number s \<in> set (kids T a)" by (simp add: kids)
    then obtain c where c: "c \<in> set (tn_Children n)" "tn_Number (node T c) = si_Number s"
      by (auto simp: kids_def a(1))
    have "tn_State (node T c) = S (si_Number s)" using c nok T(1) by (auto simp: node_ok_def tree_ok_def)
    moreover have "tn_State (node T c) \<noteq> ''OPEN''"
      using ready(3) c(1) by (auto simp: open_children_def children_def filter_empty_conv)
    ultimately have "si_State s = ''CLOSED''" using i s st by (auto simp: entries_agree_def)
    then show ?thesis by (simp add: EqualFold_def runes_ascii ascii_text_def fold_rune_def in_range_def)
  qed
  then have "\<not> hasOpenSubIssue i" by (simp add: hasOpenSubIssue_def list_ex_iff)
  moreover have "t_stage (issueToTask G i) = StageAccepted"
    using labelled_stage [of G i StageAccepted] labels(2) G by simp
  moreover have "t_hold (issueToTask G i) = None" "t_labels (issueToTask G i) = in_Labels i"
    by (simp_all add: issueToTask_def Let_def split: prod.split)
  ultimately show ?thesis using ready(2) labels(1) G by (simp add: issueUnavailableForClaim_def)
qed


definition ex_ready :: GetReadyTasksParams where
  "ex_ready = \<lparr>gr_CollectionID = None, gr_AssigneeID = None, gr_Unassigned = False, gr_MinPriority = None,
     gr_IncludeUnblockedOpen = False, gr_Limit = 0, gr_Offset = 0\<rparr>"

abbreviation accepted_label :: string where
  "accepted_label \<equiv> stage_label DefaultConfig StageAccepted"

lemma ex_accepted_ready:
  "gh_GetReadyTasks (ex_gh [accepted_label]) id ex_ready ex_state
    = (Inr ([\<lparr>rt_Task = edgeless (issueToTask (ex_gh [accepted_label]) (ex_issue [accepted_label] ''OPEN'')),
        rt_BlockersResolved = 0\<rparr>], 1), ex_state)"
proof -
  have stage: "MapLabelsToStage ascii (NewLabelMapper ascii DefaultConfig) [accepted_label] = Some StageAccepted"
    by (rule ex_stage_label) (simp add: declared_stage_def)
  have free: "\<not> hasExternalUnavailableLabel ascii [accepted_label]"
    by (simp add: hasExternalUnavailableLabel_def stage_label_def push_prefix_def DefaultConfig_def stage_str_def
        TrimSpace_graphic lower_ascii [OF lowers_ascii_ascii] ascii_text_def in_range_def lower_char_def
        trim_prefix_def has_prefix_def)
  have tree: "buildIssueTree ascii (NewLabelMapper ascii DefaultConfig) [ex_issue [accepted_label] ''OPEN'']
      = \<lparr>tr_heap = [\<lparr>tn_Number = 1, tn_Title = ''a'', tn_State = ''OPEN'', tn_Stage = Some StageAccepted,
          tn_Labels = [accepted_label], tn_Children = []\<rparr>], tr_nodes = [(1, 0)]\<rparr>"
    by (simp add: buildIssueTree_def add_issue_def alloc_def stage) (simp add: ex_issue_def)
  show ?thesis
    using listIssues_all [OF ex_lists [where s = ex_state and states = open_state and labels = "[accepted_label]"]] free
    by (simp add: gh_GetReadyTasks_def tree computeReady_def tree_nodes_def node_ready_def open_children_def
        children_def ex_ready_def limited_def List.map_filter_simps findIssueByNumber_def)
       (simp add: ex_issue_def)
qed


text \<open>The converse fails: an open issue without labels can be claimed and is never listed as ready.\<close>

lemma unlabelled_claimable_not_ready:
  "issue_claimable (ex_gh []) (ex_issue [] ''OPEN'')
    \<and> gh_GetReadyTasks (ex_gh []) id ex_ready ex_state = (Inr ([], 0), ex_state)"
proof -
  have tree: "buildIssueTree ascii (NewLabelMapper ascii DefaultConfig) [ex_issue [] ''OPEN'']
      = \<lparr>tr_heap = [\<lparr>tn_Number = 1, tn_Title = ''a'', tn_State = ''OPEN'', tn_Stage = None,
          tn_Labels = [], tn_Children = []\<rparr>], tr_nodes = [(1, 0)]\<rparr>"
    by (simp add: buildIssueTree_def add_issue_def alloc_def ex_unlabelled) (simp add: ex_issue_def)
  show ?thesis
    using listIssues_all [OF ex_lists [where s = ex_state and states = open_state and labels = "[]"]] ex_claimable
    by (simp add: gh_GetReadyTasks_def tree computeReady_def tree_nodes_def node_ready_def
        ex_ready_def limited_def List.map_filter_simps)
qed

end
