(* ===== verification/FT_MessageTypes.thy ===== *)
theory FT_MessageTypes
  imports FT_Convert FT_StoreSteps
begin

text \<open>
  The messages of tasks are well typed: whatever run of the store made the rows, every
  enumeration field of a task message holds a defined number that reads back as the stored value.
\<close>

definition defined :: "int list \<Rightarrow> int \<Rightarrow> bool" where
  "defined names n \<longleftrightarrow> n \<noteq> 0 \<and> n \<in> set names"

definition RelationshipType_names :: "int list" where "RelationshipType_names = [0, 1, 2, 3, 4]"
definition AvailabilityReason_names :: "int list" where "AvailabilityReason_names = [0, 1, 2, 3, 4, 5]"

definition message_typed :: "lib \<Rightarrow> pb_task \<Rightarrow> bool" where
  "message_typed L m \<longleftrightarrow> defined TaskPhase_names (pt_Phase m) \<and> defined TaskStage_names (pt_Stage m)
     \<and> (case pt_Priority m of None \<Rightarrow> True | Some p \<Rightarrow> defined TaskPriority_names p)
     \<and> (case pt_HoldReason m of None \<Rightarrow> True | Some h \<Rightarrow> defined TaskHoldReason_names h)
     \<and> defined Platform_names (pt_Platform m)
     \<and> list_all (\<lambda>r. defined RelationshipType_names (fst r)) (pt_Relationships m)
     \<and> list_all (defined AvailabilityReason_names) (pav_Reasons (pt_Availability m))
     \<and> (case pt_CodeContext m of None \<Rightarrow> True
        | Some cc \<Rightarrow> (case pcc_CiStatus cc of None \<Rightarrow> True | Some s \<Rightarrow> s \<in> set CIStatus_names))
     \<and> (case pt_RemoteUrl m of None \<Rightarrow> True | Some u \<Rightarrow> u \<noteq> [] \<and> validateURLField (url_Parse L) u)"

lemmas names_defs = defined_def TaskPhase_names_def TaskStage_names_def TaskPriority_names_def
  TaskHoldReason_names_def RelationshipType_names_def AvailabilityReason_names_def CIStatus_names_def Platform_names_def

lemma defined_phase: "defined TaskPhase_names (phaseToProto p)"
  by (cases p) (simp_all add: names_defs phaseToProto_def)

lemma defined_stage: "declared_stage st \<Longrightarrow> defined TaskStage_names (stageToProto st) \<and> StageFromProto (stageToProto st) = st"
  by (cases st) (simp_all add: names_defs stageToProto_def StageFromProto_def declared_stage_def)

lemma defined_priority: "defined TaskPriority_names (priorityToProto p)"
  by (cases p) (simp_all add: names_defs priorityToProto_def)

lemma defined_hold: "defined TaskHoldReason_names (holdReasonToProto h)"
  by (cases h) (simp_all add: names_defs holdReasonToProto_def)

lemma defined_relationship: "defined RelationshipType_names (relationshipTypeToProto r)"
  "defined RelationshipType_names (invertRelationshipType (relationshipTypeToProto r))"
  by (cases r; simp add: names_defs relationshipTypeToProto_def invertRelationshipType_def)+

lemma defined_reason: "defined AvailabilityReason_names (availabilityReasonToProto a)"
  by (cases a) (simp_all add: names_defs availabilityReasonToProto_def)

lemma defined_ci: "ciStatusToProto c \<in> set CIStatus_names"
  by (cases c) (simp_all add: names_defs ciStatusToProto_def)

lemma defined_platform: "defined Platform_names (platformStringToProto s)" "defined Platform_names 1"
  by (simp_all add: names_defs platformStringToProto_def)

lemma message_typed_taskToProto:
  assumes "declared_stage (t_stage (e_task et))"
  shows "message_typed L (taskToProto L tnow et)"
proof -
  have "set (relationships_to_proto L et) = (\<lambda>r. (relationshipTypeToProto (r_type r), uuid_String L (r_tgt r))) ` set (e_src et)
      \<union> (\<lambda>r. (invertRelationshipType (relationshipTypeToProto (r_type r)), uuid_String L (r_src r))) ` set (e_tgt et)"
    by (simp add: relationships_to_proto_def)
  then have rels: "list_all (\<lambda>r. defined RelationshipType_names (fst r)) (relationships_to_proto L et)"
    by (auto simp: list_all_iff defined_relationship)
  have reasons: "list_all (defined AvailabilityReason_names) (pav_Reasons (availabilityToProto a))" for a
    by (simp add: availabilityToProto_def list_all_iff defined_reason)
  show ?thesis unfolding message_typed_def taskToProto_def Let_def
    using assms rels reasons
    by (simp add: defined_phase defined_stage defined_priority defined_hold defined_ci defined_platform
        code_context_def split: option.split)
qed

text \<open>
  C26. The messages of tasks are well typed: along every run of the store, concurrent clients
  included, from a database whose stages are declared, every task message of the server has a
  defined number in each of its enumeration fields - so that no client sees \<open>UNSPECIFIED\<close> - its
  stage reads back as the stored one, and a remote URL it carries is an accepted URL.
\<close>

theorem task_messages_typed:
  assumes "store_step\<^sup>*\<^sup>* d d'" and "stages_ok d" and "t \<in> set (d_tasks d')"
  shows "message_typed L (taskToProto L tnow (with_edges d' t))
    \<and> StageFromProto (pt_Stage (taskToProto L tnow (with_edges d' t))) = t_stage t"
proof -
  have "declared_stage (t_stage t)"
    using declared.R_run [OF assms(1)] assms(2,3) by (simp add: stages_ok_def)
  then show ?thesis
    using message_typed_taskToProto [of "with_edges d' t" L tnow] defined_stage
    by (simp add: with_edges_def taskToProto_def Let_def)
qed

theorem task_messages_typed_witness:
  "message_typed ex_lib (taskToProto ex_lib 0 (with_edges ex_db (ex_task 12 PhaseClosed StageCompleted)))"
proof -
  have "stages_ok ex_db" by (simp add: stages_ok_def ex_defs declared_stage_def)
  moreover have "ex_task 12 PhaseClosed StageCompleted \<in> set (d_tasks ex_db)" by (simp add: ex_db_def)
  ultimately show ?thesis using task_messages_typed [of ex_db ex_db] by blast
qed

end
