(* ===== verification/FT_Session.thy ===== *)
theory FT_Session
  imports FT_Auth FT_Convert FT_Labels
begin

text \<open>
  Web sessions (\<open>internal/serverapp/session.go\<close>, \<open>authmode.go\<close>): the endpoints that open, show
  and close a session, and the middleware that turns a session cookie into the headers of the
  token it holds. The cookie library signs and encrypts the values of a session; here a request
  comes without a cookie, with one that does not decode, or with the values of a session.
\<close>

section \<open>Requests and replies\<close>

record session =
  s_token :: "string option"
  s_user_id :: "string option"
  s_user_name :: "string option"
  s_user_email :: "string option"
  s_user_type :: "string option"

definition empty_session :: session where
  "empty_session = \<lparr>s_token = None, s_user_id = None, s_user_name = None, s_user_email = None, s_user_type = None\<rparr>"

datatype cookie = NoCookie | BadCookie | Cookie session

record http_request =
  rq_method :: string
  rq_header :: md
  rq_cookie :: cookie
  rq_tls :: bool

text \<open>The cookie of a reply: the values saved, with the \<open>Secure\<close> flag, or its removal.\<close>

datatype set_cookie = SaveCookie session bool | DropCookie bool

datatype http_body = NoBody | ErrorBody string | OkBody | InfoBody string string string string

record http_reply =
  rp_status :: nat
  rp_body :: http_body
  rp_cookie :: "set_cookie option"

definition reply_error :: "nat \<Rightarrow> string \<Rightarrow> http_reply" where
  "reply_error n msg = \<lparr>rp_status = n, rp_body = ErrorBody msg, rp_cookie = None\<rparr>"

text \<open>\<open>Header.Get\<close>: the first value, or the empty string.\<close>

definition Header_Get :: "md \<Rightarrow> string \<Rightarrow> string" where
  "Header_Get h name = (case h name of [] \<Rightarrow> [] | v # _ \<Rightarrow> v)"

definition isSecureRequest :: "http_request \<Rightarrow> bool" where
  "isSecureRequest r \<longleftrightarrow> rq_tls r \<or> EqualFold (Header_Get (rq_header r) ''x-forwarded-proto'') ''https''"

text \<open>\<open>store.Get\<close>, and \<open>store.New\<close> after an error: a session with the values of the cookie.\<close>

definition open_session :: "http_request \<Rightarrow> session" where
  "open_session r = (case rq_cookie r of Cookie s \<Rightarrow> s | _ \<Rightarrow> empty_session)"

definition str_val :: "string option \<Rightarrow> string" where
  "str_val v = (case v of None \<Rightarrow> [] | Some s \<Rightarrow> s)"

section \<open>The session endpoints\<close>

text \<open>
  A manager: the token lookup, and what the cookie library can encode (it refuses values over
  4096 bytes).
\<close>

record session_manager =
  sm_lookup :: "token_lookup option"
  sm_encodes :: "session \<Rightarrow> bool"

type_synonym sha = "string \<Rightarrow> string"

definition expired_at :: "time \<Rightarrow> TokenLookupResult \<Rightarrow> bool" where
  "expired_at tnow r = (case tl_ExpiresAt r of None \<Rightarrow> False | Some t \<Rightarrow> t < tnow)"

text \<open>
  The reply to a login, and the token whose use is recorded. The body is the token of the
  decoded request, or none when it is not a JSON object of the first 4096 bytes.
\<close>

definition session_handleLogin ::
  "session_manager \<Rightarrow> sha \<Rightarrow> lib \<Rightarrow> time \<Rightarrow> http_request \<Rightarrow> string option \<Rightarrow> http_reply \<times> uuid option" where
  "session_handleLogin sm sha256 L tnow r body =
    (case body of
       None \<Rightarrow> (reply_error 400 ''invalid request body'', None)
     | Some tok \<Rightarrow>
        if tok = [] then (reply_error 400 ''token is required'', None)
        else (case sm_lookup sm of
            None \<Rightarrow> (reply_error 503 ''authentication not configured'', None)
          | Some look \<Rightarrow>
             (case look (hex_encode (sha256 tok)) of
                Inl _ \<Rightarrow> (reply_error 401 ''invalid token'', None)
              | Inr res \<Rightarrow>
                  if expired_at tnow res then (reply_error 401 ''token expired'', None)
                  else let uid = uuid_String L (tl_UserID res);
                      s = (open_session r)\<lparr>s_token := Some tok, s_user_id := Some uid\<rparr> in
                    (if \<not> sm_encodes sm s then reply_error 500 ''failed to create session''
                     else \<lparr>rp_status = 200, rp_body = InfoBody uid [] [] [],
                       rp_cookie = Some (SaveCookie s (isSecureRequest r))\<rparr>, Some (tl_TokenID res)))))"

definition handleGetSession :: "session_manager \<Rightarrow> sha \<Rightarrow> time \<Rightarrow> http_request \<Rightarrow> http_reply" where
  "handleGetSession sm sha256 tnow r =
    (case rq_cookie r of
       Cookie s \<Rightarrow>
        if str_val (s_token s) = [] then reply_error 401 ''not authenticated''
        else if (case sm_lookup sm of None \<Rightarrow> False
            | Some look \<Rightarrow> (case look (hex_encode (sha256 (str_val (s_token s)))) of
                Inl _ \<Rightarrow> True | Inr res \<Rightarrow> expired_at tnow res))
        then (reply_error 401 ''session expired'')\<lparr>rp_cookie := Some (DropCookie (isSecureRequest r))\<rparr>
        else \<lparr>rp_status = 200, rp_body = InfoBody (str_val (s_user_id s)) (str_val (s_user_name s))
               (str_val (s_user_email s)) (str_val (s_user_type s)), rp_cookie = None\<rparr>
     | _ \<Rightarrow> reply_error 401 ''not authenticated'')"

definition handleLogout :: "http_request \<Rightarrow> http_reply" where
  "handleLogout r = \<lparr>rp_status = 200, rp_body = OkBody, rp_cookie = Some (DropCookie (isSecureRequest r))\<rparr>"

definition handleSession ::
  "session_manager \<Rightarrow> sha \<Rightarrow> lib \<Rightarrow> time \<Rightarrow> http_request \<Rightarrow> string option \<Rightarrow> http_reply \<times> uuid option" where
  "handleSession sm sha256 L tnow r body =
    (if rq_method r = ''POST'' then session_handleLogin sm sha256 L tnow r body
     else if rq_method r = ''GET'' then (handleGetSession sm sha256 tnow r, None)
     else if rq_method r = ''DELETE'' then (handleLogout r, None)
     else (reply_error 405 ''Method not allowed'', None))"

section \<open>From the cookie to the headers\<close>

definition SessionToBearerMiddleware :: "http_request \<Rightarrow> http_request" where
  "SessionToBearerMiddleware r =
    (if Header_Get (rq_header r) ''authorization'' \<noteq> [] then r
     else case rq_cookie r of
         BadCookie \<Rightarrow> r
       | _ \<Rightarrow>
          let tok = str_val (s_token (open_session r)) in
          if tok = [] then r
          else r\<lparr>rq_header := (rq_header r)(''authorization'' := [''Bearer '' @ tok], ''x-farmtable-token'' := [tok])\<rparr>)"

section \<open>How users are authenticated\<close>

datatype AuthMode = AuthModeToken | AuthModeOAuth | AuthModeProxy

definition AuthMode_String :: "AuthMode \<Rightarrow> string" where
  "AuthMode_String m = (case m of AuthModeToken \<Rightarrow> ''token'' | AuthModeOAuth \<Rightarrow> ''oauth'' | AuthModeProxy \<Rightarrow> ''proxy'')"

definition ParseAuthMode :: "unicode \<Rightarrow> string \<Rightarrow> AuthMode option" where
  "ParseAuthMode U s =
    (let t = lower U (TrimSpace s) in
     if t = ''token'' \<or> t = [] then Some AuthModeToken
     else if t = ''oauth'' then Some AuthModeOAuth
     else if t = ''proxy'' then Some AuthModeProxy else None)"

text \<open>
  The checks of \<open>cmd/farmtable-server\<close> on its environment: the lookup of the interceptors (over
  the store on \<open>d\<close>) and the mode, or none when the server does not start.
\<close>

record environment =
  ev_TOKEN :: string
  ev_OPEN_ACCESS :: string
  ev_AUTH_MODE :: string
  ev_IAP_AUDIENCE :: string

definition server_auth :: "unicode \<Rightarrow> environment \<Rightarrow> db \<Rightarrow> (token_lookup option \<times> AuthMode) option" where
  "server_auth U v d =
    (case ParseAuthMode U (ev_AUTH_MODE v) of
       None \<Rightarrow> None
     | Some m \<Rightarrow>
        if m = AuthModeProxy \<and> ev_IAP_AUDIENCE v = [] then None
        else Some (if ev_OPEN_ACCESS v = ''1'' \<or> ev_TOKEN v = [] then None
                   else Some (StoreTokenLookup_LookupByHash d), m))"

section \<open>What a session is worth\<close>

lemma authenticate_token_only:
  "extractToken m = extractToken m' \<Longrightarrow> authenticate look sha256 tnow meth (Some m) c = authenticate look sha256 tnow meth (Some m') c"
  by (cases look) (simp_all add: authenticate_def Let_def)

lemma middleware_token:
  assumes "rq_cookie r = Cookie s" and "s_token s = Some tok" and "tok \<noteq> []"
    and "Header_Get (rq_header r) ''authorization'' = []"
  shows "extractToken (rq_header (SessionToBearerMiddleware r)) = tok"
  using assms by (simp add: SessionToBearerMiddleware_def open_session_def str_val_def extractToken_def)

text \<open>
  C22. A session has the rights of its token and no more: a login succeeds exactly with a stored,
  live token, and a later request that carries the session it saved, and no credentials of its
  own, is treated by the interceptors - whatever the store holds by then - as a request with
  that token. A request with credentials of its own is passed on as it is.
\<close>

theorem session_is_its_token:
  assumes "sm_lookup sm = Some (StoreTokenLookup_LookupByHash d)" and "db_ok d" and "sm_encodes sm = (\<lambda>_. True)"
    and "session_handleLogin sm sha256 L tnow r (Some tok) = (rep, use)"
  shows "(rp_status rep = 200 \<longleftrightarrow> tok \<noteq> [] \<and>
      (\<exists>k\<in>set (d_tokens d). k_hash k = HashToken sha256 tok \<and> \<not> token_expired tnow k))
    \<and> (rp_status rep = 200 \<longrightarrow> (\<exists>s sec. rp_cookie rep = Some (SaveCookie s sec)
        \<and> (\<forall>r' look tnow' meth c. rq_cookie r' = Cookie s \<longrightarrow>
           authenticate look sha256 tnow' meth (Some (rq_header (SessionToBearerMiddleware r'))) c =
             (if Header_Get (rq_header r') ''authorization'' = []
              then authenticate look sha256 tnow' meth (Some (bearer_md tok)) c
              else authenticate look sha256 tnow' meth (Some (rq_header r')) c))))"
proof (cases "tok \<noteq> [] \<and> (\<exists>k\<in>set (d_tokens d). k_hash k = HashToken sha256 tok \<and> \<not> token_expired tnow k)")
  case True
  then obtain k where k: "k \<in> set (d_tokens d)" "k_hash k = HashToken sha256 tok" "\<not> token_expired tnow k" by blast
  have look: "StoreTokenLookup_LookupByHash d (hex_encode (sha256 tok)) = Inr \<lparr>tl_UserID = k_user k, tl_TokenID = k_id k,
      tl_ExpiresAt = k_expires k, tl_Scopes = k_scopes k, tl_CollectionIDs = k_collections k\<rparr>"
    using StoreTokenLookup_Inr [OF assms(2)] k(1,2) unfolding HashToken_def by blast
  let ?s = "(open_session r)\<lparr>s_token := Some tok, s_user_id := Some (uuid_String L (k_user k))\<rparr>"
  have rep: "rp_status rep = 200" "rp_cookie rep = Some (SaveCookie ?s (isSecureRequest r))"
    using assms(1,3,4) True look k(3)
    by (auto simp: session_handleLogin_def expired_at_def token_expired_def Let_def)
  have "authenticate l sha256 t' meth (Some (rq_header (SessionToBearerMiddleware r'))) c =
      (if Header_Get (rq_header r') ''authorization'' = [] then authenticate l sha256 t' meth (Some (bearer_md tok)) c
       else authenticate l sha256 t' meth (Some (rq_header r')) c)"
    if "rq_cookie r' = Cookie ?s" for r' l t' meth c
  proof (cases "Header_Get (rq_header r') ''authorization'' = []")
    case open_request: True
    have "extractToken (rq_header (SessionToBearerMiddleware r')) = tok"
      using True by (intro middleware_token [OF that _ _ open_request]) simp_all
    then show ?thesis using open_request authenticate_token_only by (simp add: extract_bearer)
  qed (simp add: SessionToBearerMiddleware_def)
  then show ?thesis using True rep by blast
next
  case False
  have "rp_status rep \<noteq> 200"
  proof (cases "StoreTokenLookup_LookupByHash d (hex_encode (sha256 tok))")
    case (Inr res)
    then obtain k where "k \<in> set (d_tokens d)" "k_hash k = HashToken sha256 tok" "tl_ExpiresAt res = k_expires k"
      using StoreTokenLookup_Inr [OF assms(2)] unfolding HashToken_def by auto
    then have "tok = [] \<or> expired_at tnow res" using False by (auto simp: expired_at_def token_expired_def)
    then show ?thesis using assms(1,4) Inr
      by (cases "tok = []") (auto simp: session_handleLogin_def reply_error_def)
  next
    case (Inl err)
    then show ?thesis using assms(1,4)
      by (cases "tok = []") (auto simp: session_handleLogin_def reply_error_def)
  qed
  then show ?thesis using False by blast
qed

definition ex_manager :: session_manager where
  "ex_manager = \<lparr>sm_lookup = Some (StoreTokenLookup_LookupByHash (ex_db\<lparr>d_tokens := [ex_token]\<rparr>)), sm_encodes = (\<lambda>_. True)\<rparr>"

definition ex_request :: http_request where
  "ex_request = \<lparr>rq_method = ''POST'', rq_header = (\<lambda>_. []), rq_cookie = NoCookie, rq_tls = True\<rparr>"

theorem session_is_its_token_witness:
  "rp_status (fst (session_handleLogin ex_manager (\<lambda>s. s) ex_lib 9 ex_request (Some ''t''))) = 200
    \<and> rp_status (fst (session_handleLogin ex_manager (\<lambda>s. s) ex_lib 10 ex_request (Some ''t''))) \<noteq> 200"
proof -
  have m: "sm_lookup ex_manager = Some (StoreTokenLookup_LookupByHash (ex_db\<lparr>d_tokens := [ex_token]\<rparr>))"
    "sm_encodes ex_manager = (\<lambda>_. True)" by (simp_all add: ex_manager_def)
  note login = session_is_its_token [OF m(1) ex_tokens_ok m(2) prod.collapse [symmetric]]
  show ?thesis
    using login [where r = ex_request and tok = "''t''" and tnow = 9 and ?sha256.0 = "\<lambda>s. s" and L = ex_lib]
      login [where r = ex_request and tok = "''t''" and tnow = 10 and ?sha256.0 = "\<lambda>s. s" and L = ex_lib]
    by (simp add: ex_token_def HashToken_def hex_digit_def byte_def token_expired_def)
qed

text \<open>
  Without a shared token the server is open to everybody: when \<open>FARMTABLE_TOKEN\<close> is not set,
  the interceptors admit every request as it is, also in the modes \<open>oauth\<close> and \<open>proxy\<close>.
\<close>

theorem login_mode_without_token_is_open:
  assumes "server_auth U v d = Some (look, m)" and "ev_TOKEN v = []"
  shows "authenticate look sha256 tnow meth md c = Inr (c, None)"
  using assms by (auto simp: server_auth_def authenticate_def split: option.splits if_splits)

theorem login_mode_without_token_is_open_witness:
  "\<exists>look. server_auth ascii \<lparr>ev_TOKEN = [], ev_OPEN_ACCESS = [], ev_AUTH_MODE = [], ev_IAP_AUDIENCE = []\<rparr> ex_db
       = Some (look, AuthModeToken)
     \<and> authenticate look (\<lambda>s. s) 0 ''m'' None open_access_ctx = Inr (open_access_ctx, None)"
proof -
  let ?v = "\<lparr>ev_TOKEN = [], ev_OPEN_ACCESS = [], ev_AUTH_MODE = [], ev_IAP_AUDIENCE = []\<rparr>"
  have "server_auth ascii ?v ex_db = Some (None, AuthModeToken)"
    by (simp add: server_auth_def ParseAuthMode_def TrimSpace_def lower_def runes_def)
  then show ?thesis using login_mode_without_token_is_open [of ascii ?v ex_db None AuthModeToken] by simp
qed

end
