(* ===== verification/FT_Login.thy ===== *)
theory FT_Login
  imports FT_Session
begin

text \<open>
  Logins of people: accounts found or made by e-mail (\<open>internal/serverapp/provisioning.go\<close>), the
  Google OAuth flow (\<open>oauth.go\<close>), the assertions of the IAP proxy (\<open>iapauth.go\<close>) and the
  middleware that opens a session for them (\<open>unified.go\<close>). Google, the signature check of a JWT
  and random bytes are parameters.
\<close>

section \<open>Finding or making a user\<close>

fun split_on :: "char \<Rightarrow> string \<Rightarrow> string list" where
  "split_on sep [] = [[]]"
| "split_on sep (c # s) =
    (case split_on sep s of
       [] \<Rightarrow> [[c]]
     | w # ws \<Rightarrow> if c = sep then [] # w # ws else (c # w) # ws)"

definition NewUserProvisioner :: "unicode \<Rightarrow> string \<Rightarrow> string list" where
  "NewUserProvisioner U allowedDomains =
    filter (\<lambda>d. d \<noteq> []) (map (\<lambda>d. lower U (TrimSpace d)) (split_on (CHR '','') allowedDomains))"

datatype prov_err = ErrDomainNotAllowed | ErrProvision

text \<open>The text behind the first \<open>@\<close>, or none.\<close>

fun after_at :: "string \<Rightarrow> string option" where
  "after_at [] = None"
| "after_at (c # s) = (if c = CHR ''@'' then Some s else after_at s)"

definition checkDomain :: "unicode \<Rightarrow> string list \<Rightarrow> string \<Rightarrow> prov_err + unit" where
  "checkDomain U domains email =
    (if domains = [] then Inr ()
     else case after_at email of
         None \<Rightarrow> Inl ErrProvision
       | Some d \<Rightarrow> checkE (List.member domains (lower U d)) ErrDomainNotAllowed)"

definition before_at :: "string \<Rightarrow> string" where
  "before_at s = takeWhile (\<lambda>c. c \<noteq> CHR ''@'') s"

definition derived_name :: "string \<Rightarrow> string \<Rightarrow> string" where
  "derived_name email displayName =
    (if displayName \<noteq> [] then displayName
     else if before_at email \<noteq> email \<and> before_at email \<noteq> [] then before_at email else email)"

text \<open>The user, whether it was created, and the database.\<close>

definition FindOrCreateByEmail ::
  "unicode \<Rightarrow> string list \<Rightarrow> env \<Rightarrow> string \<Rightarrow> string \<Rightarrow> db \<Rightarrow> prov_err + (user \<times> bool \<times> db)" where
  "FindOrCreateByEmail U domains e email0 displayName d =
    (let email = lower U (TrimSpace email0) in
     thenE (checkE (email \<noteq> []) ErrProvision) (\<lambda>_.
     thenE (checkDomain U domains email) (\<lambda>_.
     let users = GetUserByEmail email d in
     case find (\<lambda>u. u_status u = ''active'') users of
       Some u \<Rightarrow> Inr (u, False, d)
     | None \<Rightarrow>
        (case users of
           u # _ \<Rightarrow> Inr (u, False, d)
         | [] \<Rightarrow>
            (case CreateUser e \<lparr>cu_DisplayName = derived_name email displayName, cu_Email = Some email,
                 cu_Type = ''human'', cu_Status = ''active''\<rparr> d of
               Inl _ \<Rightarrow> Inl ErrProvision
             | Inr (u, d') \<Rightarrow> Inr (u, True, d'))))))"

definition one_minute :: time where "one_minute = 60 * one_second"
definition one_hour :: time where "one_hour = 3600 * one_second"

definition CreateSessionToken :: "sha \<Rightarrow> string \<Rightarrow> env \<Rightarrow> uuid \<Rightarrow> string \<Rightarrow> db \<Rightarrow> store_err + (string \<times> db)" where
  "CreateSessionToken sha256 raw e uid userType d =
    thenE (CreateAPIToken sha256 raw e \<lparr>ck_UserID = uid, ck_Name = ''session-auth'',
        ck_ExpiresAt = Some (now e + 24 * one_hour), ck_Scopes = DefaultScopesForUserType userType,
        ck_CollectionIDs = []\<rparr> d) (\<lambda>((_, rawToken), d'). Inr (rawToken, d'))"

text \<open>The values of a session after a login, with a new token when one could be made.\<close>

definition login_session :: "lib \<Rightarrow> user \<Rightarrow> string \<Rightarrow> session \<Rightarrow> session" where
  "login_session L u email s = s\<lparr>s_user_id := Some (uuid_String L (u_id u)), s_user_name := Some (u_name u),
     s_user_email := Some email, s_user_type := Some (u_type u)\<rparr>"

definition new_token :: "sha \<Rightarrow> string \<Rightarrow> env \<Rightarrow> user \<Rightarrow> session \<times> db \<Rightarrow> session \<times> db" where
  "new_token sha256 raw e u = (\<lambda>(s, d).
    (case CreateSessionToken sha256 raw e (u_id u) (u_type u) d of
       Inl _ \<Rightarrow> (s, d) | Inr (tok, d') \<Rightarrow> (s\<lparr>s_token := Some tok\<rparr>, d')))"

section \<open>Login with Google\<close>

record oauth_state =
  os_CreatedAt :: time
  os_Redirect :: string
  os_CodeVerifier :: string

record google_user =
  gu_Email :: string
  gu_EmailVerified :: bool
  gu_Name :: string

text \<open>Google: the exchange of a code with its verifier, and the user of the token it gives.\<close>

record google =
  g_exchange :: "string \<Rightarrow> string \<Rightarrow> string option"
  g_userinfo :: "string \<Rightarrow> google_user option"

record oauth_manager =
  om_configured :: bool
  om_pending :: "(string \<times> oauth_state) list"

definition has_infix :: "string \<Rightarrow> string \<Rightarrow> bool" where
  "has_infix s w \<longleftrightarrow> list_ex (\<lambda>i. take (length w) (drop i s) = w) [0..<Suc (length s)]"

definition isValidRedirect :: "string \<Rightarrow> bool" where
  "isValidRedirect uri \<longleftrightarrow> uri \<noteq> [] \<and> has_prefix uri ''/'' \<and> \<not> has_prefix uri ''//'' \<and> \<not> has_infix uri ''://''"

definition state_window :: time where "state_window = 10 * one_minute"

definition CleanExpiredOAuthStates :: "time \<Rightarrow> oauth_manager \<Rightarrow> oauth_manager" where
  "CleanExpiredOAuthStates tnow om =
    om\<lparr>om_pending := filter (\<lambda>(_, st). tnow - state_window \<le> os_CreatedAt st) (om_pending om)\<rparr>"

text \<open>
  The start of a login: where the browser is sent, with the state and the verifier, or an error
  status. The random state is none when the system has no random bytes.
\<close>

definition oauth_handleLogin ::
  "time \<Rightarrow> string option \<Rightarrow> string \<Rightarrow> string \<Rightarrow> oauth_manager \<Rightarrow> (nat + string \<times> string) \<times> oauth_manager" where
  "oauth_handleLogin tnow randomState verifier redirect_uri om =
    (if \<not> om_configured om then (Inl 503, om)
     else let om1 = CleanExpiredOAuthStates tnow om in
       case randomState of
         None \<Rightarrow> (Inl 500, om1)
       | Some st \<Rightarrow> (Inr (st, verifier),
           om1\<lparr>om_pending := AList.update st \<lparr>os_CreatedAt = tnow,
             os_Redirect = (if isValidRedirect redirect_uri then redirect_uri else ''/''),
             os_CodeVerifier = verifier\<rparr> (om_pending om1)\<rparr>))"

record callback =
  cb_state :: string
  cb_error :: string
  cb_code :: string

text \<open>The end of a login: an error status, or the destination with the session that is saved.\<close>

definition oauth_handleCallback ::
  "unicode \<Rightarrow> string list \<Rightarrow> sha \<Rightarrow> string \<Rightarrow> lib \<Rightarrow> google \<Rightarrow> session_manager \<Rightarrow> env \<Rightarrow> http_request \<Rightarrow> callback
    \<Rightarrow> oauth_manager \<Rightarrow> db \<Rightarrow> (nat + string \<times> session) \<times> oauth_manager \<times> db" where
  "oauth_handleCallback U domains sha256 raw L goog sm e r cb om d =
    (if \<not> om_configured om then (Inl 503, om, d)
     else case map_of (om_pending om) (cb_state cb) of
         None \<Rightarrow> (Inl 400, om, d)
       | Some pending \<Rightarrow>
          let om' = om\<lparr>om_pending := AList.delete (cb_state cb) (om_pending om)\<rparr> in
          if state_window < now e - os_CreatedAt pending then (Inl 400, om', d)
          else if cb_error cb \<noteq> [] then (Inl 400, om', d)
          else if cb_code cb = [] then (Inl 400, om', d)
          else (case g_exchange goog (cb_code cb) (os_CodeVerifier pending) of
              None \<Rightarrow> (Inl 500, om', d)
            | Some tok \<Rightarrow>
               (case g_userinfo goog tok of
                  None \<Rightarrow> (Inl 500, om', d)
                | Some info \<Rightarrow>
                    if \<not> gu_EmailVerified info then (Inl 403, om', d)
                    else (case FindOrCreateByEmail U domains e (gu_Email info) (gu_Name info) d of
                        Inl ErrDomainNotAllowed \<Rightarrow> (Inl 403, om', d)
                      | Inl ErrProvision \<Rightarrow> (Inl 500, om', d)
                      | Inr (u, _, d1) \<Rightarrow>
                          (case new_token sha256 raw e u (login_session L u (gu_Email info) (open_session r), d1) of
                             (s, d2) \<Rightarrow>
                              if \<not> sm_encodes sm s then (Inl 500, om', d2)
                              else (Inr (if os_Redirect pending = [] then ''/'' else os_Redirect pending, s), om', d2))))))"

section \<open>Assertions of the proxy\<close>

record iap_claims =
  ic_Issuer :: string
  ic_Subject :: string
  ic_Audience :: "string list"
  ic_IssuedAt :: "time option"
  ic_Expiry :: "time option"
  ic_Email :: string
  ic_HD :: string

text \<open>
  The authenticator: its audience and issuer, and what the JWT library does: the key identifier
  of a well-formed ES256 token, and its claims when the signature is that of the key.
\<close>

record 'key iap =
  ia_Audience :: string
  ia_Issuer :: string
  ia_kid :: "string \<Rightarrow> string option"
  ia_verify :: "string \<Rightarrow> 'key \<Rightarrow> iap_claims option"

definition resolveIssuer :: "'key iap \<Rightarrow> string" where
  "resolveIssuer a = (if ia_Issuer a \<noteq> [] then ia_Issuer a else ''https://cloud.google.com/iap'')"

definition iapClockSkew :: time where "iapClockSkew = 30 * one_second"

definition validateClaims :: "'key iap \<Rightarrow> iap_claims \<Rightarrow> time \<Rightarrow> bool" where
  "validateClaims a cl tnow \<longleftrightarrow>
     ic_Issuer cl = resolveIssuer a \<and> List.member (ic_Audience cl) (ia_Audience a)
     \<and> (case ic_Expiry cl of None \<Rightarrow> False | Some t \<Rightarrow> \<not> t + iapClockSkew < tnow)
     \<and> (case ic_IssuedAt cl of None \<Rightarrow> True | Some t \<Rightarrow> \<not> tnow + iapClockSkew < t)
     \<and> ic_Subject cl \<noteq> [] \<and> ic_Email cl \<noteq> []"

definition stripIAPPrefix :: "string \<Rightarrow> string" where
  "stripIAPPrefix s = trim_prefix s ''accounts.google.com:''"

text \<open>The cached keys, with the times of the last success and the last attempt, zero times before.\<close>

record 'key jwks =
  jw_keys :: "(string \<times> 'key) list"
  jw_lastFetched :: "time option"
  jw_lastAttempted :: "time option"

definition jwksRefreshInterval :: time where "jwksRefreshInterval = one_hour"
definition jwksDebounceInterval :: time where "jwksDebounceInterval = 5 * one_second"

text \<open>
  One fetch at a time; the answer of the endpoint is the list of keys with their identifiers, or
  none for an error. The result is false on an error.
\<close>

definition jwks_refresh :: "time \<Rightarrow> (string \<times> 'key) list option \<Rightarrow> 'key jwks \<Rightarrow> bool \<times> 'key jwks" where
  "jwks_refresh tnow answer c =
    (if (case jw_lastAttempted c of None \<Rightarrow> False | Some t \<Rightarrow> tnow - t < jwksDebounceInterval) then (True, c)
     else let c1 = c\<lparr>jw_lastAttempted := Some tnow\<rparr> in
       case answer of
         None \<Rightarrow> (False, c1)
       | Some ks \<Rightarrow> (True, c1\<lparr>jw_keys := put_all (filter (\<lambda>(kid, _). kid \<noteq> []) ks) [], jw_lastFetched := Some tnow\<rparr>))"

text \<open>
  A key that is cached is used at once, and an old cache is refreshed after it; a key that is not
  is looked up again after a refresh.
\<close>

definition GetKey :: "time \<Rightarrow> (string \<times> 'key) list option \<Rightarrow> string \<Rightarrow> 'key jwks \<Rightarrow> 'key option \<times> 'key jwks" where
  "GetKey tnow answer kid c =
    (case map_of (jw_keys c) kid of
       Some k \<Rightarrow> (Some k, if (case jw_lastFetched c of None \<Rightarrow> True | Some t \<Rightarrow> jwksRefreshInterval < tnow - t)
          then snd (jwks_refresh tnow answer c) else c)
     | None \<Rightarrow>
        (case jwks_refresh tnow answer c of
           (ok, c') \<Rightarrow> (if ok then map_of (jw_keys c') kid else None, c')))"

text \<open>No assertion is \<open>Inr None\<close>; the identity is the subject, the e-mail and the domain.\<close>

definition Authenticate ::
  "unicode \<Rightarrow> 'key iap \<Rightarrow> time \<Rightarrow> (string \<times> 'key) list option \<Rightarrow> http_request \<Rightarrow> 'key jwks
    \<Rightarrow> (unit + (string \<times> string \<times> string) option) \<times> 'key jwks" where
  "Authenticate U a tnow answer r c =
    (let assertion = Header_Get (rq_header r) ''x-goog-iap-jwt-assertion'' in
     if assertion = [] then (Inr None, c)
     else case ia_kid a assertion of
         None \<Rightarrow> (Inl (), c)
       | Some kid \<Rightarrow>
          if kid = [] then (Inl (), c)
          else (case GetKey tnow answer kid c of
              (None, c') \<Rightarrow> (Inl (), c')
            | (Some key, c') \<Rightarrow>
               (case ia_verify a assertion key of
                  None \<Rightarrow> (Inl (), c')
                | Some cl \<Rightarrow>
                    if \<not> validateClaims a cl tnow then (Inl (), c')
                    else (Inr (Some (stripIAPPrefix (ic_Subject cl), lower U (stripIAPPrefix (ic_Email cl)), ic_HD cl)), c'))))"

text \<open>
  The middleware of the proxy: an error status, or the request as the next handler sees it, with
  the cookie of the reply. The session of a request is one object, so the handlers behind the
  middleware see the values it has just set.
\<close>

definition iapMiddleware ::
  "unicode \<Rightarrow> 'key iap \<Rightarrow> string list \<Rightarrow> session_manager option \<Rightarrow> sha \<Rightarrow> string \<Rightarrow> lib \<Rightarrow> env
    \<Rightarrow> (string \<times> 'key) list option \<Rightarrow> http_request \<Rightarrow> 'key jwks \<Rightarrow> db
    \<Rightarrow> (nat + http_request \<times> set_cookie option) \<times> 'key jwks \<times> db" where
  "iapMiddleware U a domains sm sha256 raw L e answer r c d =
    (case Authenticate U a (now e) answer r c of
       (Inl _, c') \<Rightarrow> (Inl 401, c', d)
     | (Inr None, c') \<Rightarrow> (Inr (r, None), c', d)
     | (Inr (Some (_, email, _)), c') \<Rightarrow>
        (case FindOrCreateByEmail U domains e email email d of
           Inl _ \<Rightarrow> (Inl 500, c', d)
         | Inr (u, _, d1) \<Rightarrow>
            (case sm of
               None \<Rightarrow> (Inr (r, None), c', d1)
             | Some m \<Rightarrow>
                let s0 = login_session L u email (open_session r);
                    (s, d2) = (if s_token s0 \<noteq> None then (s0, d1) else new_token sha256 raw e u (s0, d1))
                in (Inr (r\<lparr>rq_cookie := Cookie s\<rparr>,
                      if sm_encodes m s then Some (SaveCookie s (isSecureRequest r)) else None), c', d2))))"

end
