(* ===== verification/FT_LoginProps.thy ===== *)
theory FT_LoginProps
  imports FT_Login FT_StoreSteps FT_LabelProps
begin

text \<open>
  What a login proves: users are found by their e-mail and made once, a login with Google uses a
  state once and in time, and a session opened by the proxy stands for the user of its token.
\<close>

section \<open>Users\<close>

lemma GetUserByEmail_set: "u \<in> set (GetUserByEmail email d) \<longleftrightarrow> u \<in> set (d_users d) \<and> u_email u = Some email"
  by (auto simp: GetUserByEmail_def)

lemma CreateUser_Inr:
  "CreateUser e p d = Inr (u, d') \<Longrightarrow>
    u_email u = cu_Email p \<and> u_status u = cu_Status p \<and> u_type u = cu_Type p \<and> u_name u = cu_DisplayName p
    \<and> d_users d' = d_users d @ [u] \<and> d_tasks d' = d_tasks d \<and> d_tokens d' = d_tokens d"
  by (auto simp: CreateUser_def Let_def thenE_Inr insert_user_def drawn_def split: if_splits)

lemma FindOrCreate_checks:
  "FindOrCreateByEmail U domains e email name d = Inr v \<Longrightarrow>
    lower U (TrimSpace email) \<noteq> [] \<and> checkDomain U domains (lower U (TrimSpace email)) = Inr ()"
  unfolding FindOrCreateByEmail_def Let_def thenE_Inr checkE_def by (auto split: if_splits)

lemma first_by_email:
  assumes "GetUserByEmail email d = []" and "d_users d' = d_users d @ [u]" and "u_email u = Some email"
  shows "GetUserByEmail email d' = [u]"
proof -
  have "filter (\<lambda>u. u_email u = Some email) (d_users d) = []"
    using assms(1) GetUserByEmail_set [of _ email d] by (auto simp: filter_empty_conv)
  then show ?thesis using assms(2,3) by (simp add: GetUserByEmail_def)
qed

lemma provisioning_type:
  assumes "FindOrCreateByEmail U domains e email name d = Inr (u, True, d')"
  shows "u_type u = ''human''"
  using assms FindOrCreate_checks [OF assms]
  by (auto simp: FindOrCreateByEmail_def Let_def split: option.splits list.splits sum.splits dest: CreateUser_Inr)

text \<open>
  Provisioning by e-mail finds or makes one account: the user has the trimmed, lower-cased
  address, whose domain is allowed; an account that exists is returned as it is - an active one
  when there is one, an inactive one otherwise - and the next login gets the same user without
  making another.
\<close>

theorem provisioning:
  assumes "FindOrCreateByEmail U domains e email name d = Inr (u, created, d')"
  shows "u \<in> set (d_users d') \<and> u_email u = Some (lower U (TrimSpace email))
    \<and> checkDomain U domains (lower U (TrimSpace email)) = Inr ()
    \<and> (created \<longrightarrow> u_type u = ''human'' \<and> u_status u = ''active'' \<and> d_users d' = d_users d @ [u])
    \<and> (\<not> created \<longrightarrow> d' = d)
    \<and> (\<forall>e' name'. FindOrCreateByEmail U domains e' email name' d' = Inr (u, False, d'))"
proof -
  let ?m = "lower U (TrimSpace email)" and ?us = "GetUserByEmail (lower U (TrimSpace email)) d"
  have ok: "?m \<noteq> []" "checkDomain U domains ?m = Inr ()"
    using FindOrCreate_checks [OF assms] by simp_all
  show ?thesis
  proof (cases "?us")
    case Nil
    then obtain p where p: "CreateUser e p d = Inr (u, d')" "created" "cu_Email p = Some ?m"
      "cu_Type p = ''human''" "cu_Status p = ''active''"
      using assms ok by (auto simp: FindOrCreateByEmail_def Let_def split: sum.splits)
    note u = CreateUser_Inr [OF p(1)]
    have "GetUserByEmail ?m d' = [u]" using first_by_email [OF Nil, of d' u] u p(3) by simp
    then show ?thesis using ok u p by (simp add: FindOrCreateByEmail_def)
  next
    case (Cons v vs)
    define w where "w = (case find (\<lambda>u. u_status u = ''active'') ?us of Some w \<Rightarrow> w | None \<Rightarrow> v)"
    have same: "FindOrCreateByEmail U domains e' email name' d = Inr (w, False, d)" for e' name'
      using ok Cons by (simp add: FindOrCreateByEmail_def w_def del: find.simps split: option.split)
    then have "u = w" "\<not> created" "d' = d" using assms by simp_all
    moreover have "w \<in> set ?us"
      unfolding w_def using Cons by (auto split: option.split dest: find_Some_mem simp del: find.simps)
    ultimately show ?thesis using same ok GetUserByEmail_set by simp
  qed
qed

section \<open>Login with Google\<close>

inductive oauth_reach :: "oauth_manager \<Rightarrow> bool" where
  start: "oauth_reach \<lparr>om_configured = b, om_pending = []\<rparr>"
| login: "oauth_reach om \<Longrightarrow> oauth_reach (snd (oauth_handleLogin t rs v uri om))"
| finish: "oauth_reach om \<Longrightarrow>
    oauth_reach (fst (snd (oauth_handleCallback U domains sha256 raw L goog sm e r cb om d)))"

definition pending_ok :: "oauth_manager \<Rightarrow> bool" where
  "pending_ok om \<longleftrightarrow> distinct (map fst (om_pending om)) \<and> (\<forall>st\<in>snd ` set (om_pending om). isValidRedirect (os_Redirect st))"

lemma set_update_subset: "set (AList.update k v xs) \<subseteq> insert (k, v) (set xs)"
  by (induction xs) auto

lemma pending_ok_filter: "pending_ok om \<Longrightarrow> pending_ok (om\<lparr>om_pending := filter P (om_pending om)\<rparr>)"
  by (auto simp: pending_ok_def distinct_map_filter)

lemma pending_ok_update:
  "pending_ok om \<Longrightarrow> isValidRedirect (os_Redirect st) \<Longrightarrow> pending_ok (om\<lparr>om_pending := AList.update k st (om_pending om)\<rparr>)"
  using set_update_subset [of k st "om_pending om"] by (fastforce simp: pending_ok_def distinct_update)

lemma pending_ok_delete: "pending_ok om \<Longrightarrow> pending_ok (om\<lparr>om_pending := AList.delete k (om_pending om)\<rparr>)"
  unfolding AList.delete_eq by (rule pending_ok_filter)

lemma isValidRedirect_root: "isValidRedirect ''/''"
  by (simp add: isValidRedirect_def has_prefix_def has_infix_def)

lemma callback_manager:
  "fst (snd (oauth_handleCallback U domains sha256 raw L goog sm e r cb om d)) \<in>
    {om, om\<lparr>om_pending := AList.delete (cb_state cb) (om_pending om)\<rparr>}"
  by (auto simp: oauth_handleCallback_def Let_def split: option.split sum.split prov_err.split prod.split)

lemma oauth_reach_ok: "oauth_reach om \<Longrightarrow> pending_ok om"
proof (induction rule: oauth_reach.induct)
  case (start b)
  show ?case by (simp add: pending_ok_def)
next
  case (login om t rs v uri)
  have "pending_ok (CleanExpiredOAuthStates t om)"
    unfolding CleanExpiredOAuthStates_def by (rule pending_ok_filter [OF login.IH])
  then show ?case using login.IH
    by (auto simp: oauth_handleLogin_def Let_def isValidRedirect_root split: option.split intro!: pending_ok_update)
next
  case (finish om U domains sha256 raw L goog sm e r cb d)
  then show ?case using callback_manager pending_ok_delete by (metis insertE singletonD)
qed

text \<open>
  C12. A login with Google uses its state once and in time: when a callback opens a session, its state
  was pending for at most ten minutes, the code was exchanged with the verifier of that state, the
  address was verified by Google and its domain is allowed; the browser goes to a path that
  passed the redirect check; and a second callback with the same state is refused.
\<close>

theorem google_login:
  assumes "oauth_reach om"
    and "oauth_handleCallback U domains sha256 raw L goog sm e r cb om d = (Inr (dest, s), om', d')"
  shows "\<exists>st tok info. map_of (om_pending om) (cb_state cb) = Some st \<and> now e - os_CreatedAt st \<le> state_window
    \<and> g_exchange goog (cb_code cb) (os_CodeVerifier st) = Some tok \<and> g_userinfo goog tok = Some info
    \<and> gu_EmailVerified info \<and> checkDomain U domains (lower U (TrimSpace (gu_Email info))) = Inr ()
    \<and> s_user_email s = Some (gu_Email info) \<and> isValidRedirect dest
    \<and> fst (oauth_handleCallback U domains sha256 raw' L goog sm e' r' cb om' d') = Inl 400"
proof -
  from assms(2) obtain st where st: "om_configured om" "map_of (om_pending om) (cb_state cb) = Some st"
    "now e - os_CreatedAt st \<le> state_window" "cb_code cb \<noteq> []" "cb_error cb = []"
    by (auto simp: oauth_handleCallback_def Let_def not_less split: option.splits if_splits)
  with assms(2) obtain tok where tok: "g_exchange goog (cb_code cb) (os_CodeVerifier st) = Some tok"
    by (auto simp: oauth_handleCallback_def Let_def split: option.splits)
  with assms(2) st obtain info where info: "g_userinfo goog tok = Some info" "gu_EmailVerified info"
    by (auto simp: oauth_handleCallback_def Let_def split: option.splits if_splits)
  with assms(2) st tok obtain u b d1 where u: "FindOrCreateByEmail U domains e (gu_Email info) (gu_Name info) d = Inr (u, b, d1)"
    by (auto simp: oauth_handleCallback_def Let_def split: sum.splits prov_err.splits)
  have "\<exists>s2 d2. new_token sha256 raw e u (login_session L u (gu_Email info) (open_session r), d1) = (s2, d2)
      \<and> s = s2 \<and> dest = (if os_Redirect st = [] then ''/'' else os_Redirect st)
      \<and> om' = om\<lparr>om_pending := AList.delete (cb_state cb) (om_pending om)\<rparr>"
    using assms(2) st tok info u by (auto simp: oauth_handleCallback_def Let_def split: prod.splits if_splits)
  then obtain s2 d2 where s2: "new_token sha256 raw e u (login_session L u (gu_Email info) (open_session r), d1) = (s2, d2)"
    and dest: "s = s2" "dest = (if os_Redirect st = [] then ''/'' else os_Redirect st)"
      "om' = om\<lparr>om_pending := AList.delete (cb_state cb) (om_pending om)\<rparr>" by blast
  have "s_user_email s = Some (gu_Email info)"
    using s2 dest(1) by (auto simp: new_token_def login_session_def split: sum.splits)
  moreover have "isValidRedirect dest"
    using oauth_reach_ok [OF assms(1)] map_of_SomeD [OF st(2)] isValidRedirect_root dest(2)
    by (force simp: pending_ok_def)
  moreover have "fst (oauth_handleCallback U domains sha256 raw' L goog sm e' r' cb om' d') = Inl 400"
    using st(1) by (simp add: oauth_handleCallback_def dest(3) delete_conv')
  moreover have "checkDomain U domains (lower U (TrimSpace (gu_Email info))) = Inr ()"
    using FindOrCreate_checks [OF u] by simp
  ultimately show ?thesis using st tok info by blast
qed

text \<open>A browser reads a backslash as a slash: this path leads to another host and passes the check.\<close>

lemma backslash_redirect: "isValidRedirect (CHR ''/'' # CHR 0x5C # ''evil.com'')"
  by (simp add: isValidRedirect_def has_prefix_def has_infix_def)

section \<open>The proxy\<close>

lemma db_ok_FindOrCreate:
  assumes "FindOrCreateByEmail U domains e email name d = Inr (u, b, d')" and "db_ok d"
  shows "db_ok d'"
proof (cases "GetUserByEmail (lower U (TrimSpace email)) d")
  case Nil
  then obtain p where "CreateUser e p d = Inr (u, d')"
    using assms(1) FindOrCreate_checks [OF assms(1)]
    by (auto simp: FindOrCreateByEmail_def Let_def split: sum.splits)
  then show ?thesis using assms(2) integrity.R_CreateUser by blast
next
  case (Cons v vs)
  then have "d' = d" using assms(1) FindOrCreate_checks [OF assms(1)]
    by (auto simp: FindOrCreateByEmail_def Let_def simp del: find.simps split: option.splits)
  then show ?thesis using assms(2) by simp
qed

lemma new_token_admits:
  assumes "new_token sha256 raw e u (s0, d1) = (s, d2)" and "s_token s0 = None" and "s_token s = Some tok"
    and "db_ok d1" and "\<not> isUnauthenticatedEndpoint meth" and "t \<le> now e + 24 * one_hour"
    and "extractToken m = tok"
  shows "\<exists>i. authenticate (Some (StoreTokenLookup_LookupByHash d2)) sha256 t meth (Some m) c
    = Inr (c\<lparr>c_user := Some (u_id u), c_enforced := True, c_scopes := DefaultScopesForUserType (u_type u),
        c_collections := []\<rparr>, Some i)"
proof -
  let ?p = "\<lparr>ck_UserID = u_id u, ck_Name = ''session-auth'', ck_ExpiresAt = Some (now e + 24 * one_hour),
     ck_Scopes = DefaultScopesForUserType (u_type u), ck_CollectionIDs = []\<rparr>"
  from assms(1-3) obtain k where k: "CreateAPIToken sha256 raw e ?p d1 = Inr ((k, tok), d2)"
    by (auto simp: new_token_def CreateSessionToken_def thenE_Inr split: sum.splits prod.splits)
  note kp = CreateAPIToken_Inr [OF k]
  have ok: "db_ok d2" by (rule db_ok_CreateAPIToken [OF k assms(4)])
  have "k \<in> set (d_tokens d2)" "k_hash k = HashToken sha256 (extractToken m)" "tok \<noteq> []"
    using kp assms(7) by simp_all
  then show ?thesis using authenticate_known [OF ok assms(5), of k sha256 m t c] kp assms(6,7)
    by (auto simp: token_expired_def token_ctx_def)
qed

lemma iapMiddleware_session:
  assumes "Authenticate U a (now e) answer r c = (Inr (Some (sub, email, hdom)), c1)"
    and "FindOrCreateByEmail U domains e email email d = Inr (u, b, d1)"
    and "iapMiddleware U a domains (Some m) sha256 raw L e answer r c d = (Inr (r', ck), c', d')"
  shows "\<exists>s. (s, d') = (if s_token (open_session r) \<noteq> None then (login_session L u email (open_session r), d1)
      else new_token sha256 raw e u (login_session L u email (open_session r), d1))
    \<and> r' = r\<lparr>rq_cookie := Cookie s\<rparr>"
  using assms by (auto simp: iapMiddleware_def login_session_def Let_def split: prod.splits if_splits)

text \<open>
  The first request through the proxy. For an identity the proxy asserts, and a browser whose
  session holds no token, the request goes on as the user of that e-mail address: the middleware
  has stored a token of the user, and for 24 hours the interceptors admit the request with the
  identity of the user and the default scopes of its type.
\<close>

theorem proxy_first_request:
  assumes "Authenticate U a (now e) answer r c = (Inr (Some (sub, email, hdom)), c1)"
    and "FindOrCreateByEmail U domains e email email d = Inr (u, b, d1)"
    and "iapMiddleware U a domains (Some m) sha256 raw L e answer r c d = (Inr (r', ck), c', d')"
    and "db_ok d" and "s_token (open_session r) = None" and "Header_Get (rq_header r) ''authorization'' = []"
    and "rq_cookie r' = Cookie s" and "s_token s = Some tok"
    and "\<not> isUnauthenticatedEndpoint meth" and "t \<le> now e + 24 * one_hour"
  shows "\<exists>i. authenticate (Some (StoreTokenLookup_LookupByHash d')) sha256 t meth
      (Some (rq_header (SessionToBearerMiddleware r'))) x
    = Inr (x\<lparr>c_user := Some (u_id u), c_enforced := True, c_scopes := DefaultScopesForUserType (u_type u),
        c_collections := []\<rparr>, Some i)"
proof -
  let ?s0 = "login_session L u email (open_session r)"
  have run: "new_token sha256 raw e u (?s0, d1) = (s, d')" and r': "r' = r\<lparr>rq_cookie := Cookie s\<rparr>"
    using iapMiddleware_session [OF assms(1-3)] assms(5,7) by auto
  have none: "s_token ?s0 = None" using assms(5) by (simp add: login_session_def)
  then have "tok \<noteq> []" using run assms(8) CreateAPIToken_Inr
    by (fastforce simp: new_token_def CreateSessionToken_def thenE_Inr split: sum.splits prod.splits)
  then have "extractToken (rq_header (SessionToBearerMiddleware r')) = tok"
    using assms(6,8) by (intro middleware_token) (simp_all add: r')
  then show ?thesis
    using new_token_admits [OF run none assms(8) db_ok_FindOrCreate [OF assms(2,4)] assms(9,10)] by blast
qed

text \<open>
  A session outlives the identity of the proxy: when the session of the browser holds a token, the
  middleware keeps it, so that the reply names the user the proxy asserts while every request
  runs as the user of the token - another one, when two people use the browser - and is refused
  from the day after, when the token has expired.
\<close>

theorem proxy_session_keeps_first_user:
  assumes "Authenticate U a (now e) answer r c = (Inr (Some (sub, email, hdom)), c1)"
    and "FindOrCreateByEmail U domains e email email d = Inr (u, b, d1)"
    and "iapMiddleware U a domains (Some m) sha256 raw L e answer r c d = (Inr (r', ck), c', d')"
    and "db_ok d'" and "s_token (open_session r) = Some tok" and "tok \<noteq> []"
    and "Header_Get (rq_header r) ''authorization'' = []"
    and "k \<in> set (d_tokens d')" and "k_hash k = HashToken sha256 tok" and "\<not> isUnauthenticatedEndpoint meth"
  shows "(\<exists>s. rq_cookie r' = Cookie s \<and> s_user_id s = Some (uuid_String L (u_id u)) \<and> s_user_email s = Some email)
    \<and> authenticate (Some (StoreTokenLookup_LookupByHash d')) sha256 t meth
        (Some (rq_header (SessionToBearerMiddleware r'))) x
      = (if token_expired t k then Inl Unauthenticated
         else Inr (x\<lparr>c_user := Some (k_user k), c_enforced := True, c_scopes := k_scopes k,
             c_collections := k_collections k\<rparr>, Some (k_id k)))"
proof -
  let ?s = "login_session L u email (open_session r)"
  have r': "r' = r\<lparr>rq_cookie := Cookie ?s\<rparr>" using iapMiddleware_session [OF assms(1-3)] assms(5) by auto
  have "s_token ?s = Some tok" using assms(5) by (simp add: login_session_def)
  then have "extractToken (rq_header (SessionToBearerMiddleware r')) = tok"
    using assms(6,7) by (intro middleware_token) (simp_all add: r')
  then have "authenticate (Some (StoreTokenLookup_LookupByHash d')) sha256 t meth
        (Some (rq_header (SessionToBearerMiddleware r'))) x
      = (if token_expired t k then Inl Unauthenticated else Inr (token_ctx k x, Some (k_id k)))"
    using authenticate_known [OF assms(4,10,8), of sha256 "rq_header (SessionToBearerMiddleware r')" t x] assms(6,9)
    by simp
  then show ?thesis using r' by (simp add: token_ctx_def login_session_def)
qed

section \<open>Instances\<close>

lemma ex_mail: "lower ascii (TrimSpace ''a@b'') = ''a@b''" "lower ascii ''b'' = ''b''"
  by (simp_all add: TrimSpace_graphic lower_ascii [OF lowers_ascii_ascii] ascii_text_def in_range_def lower_char_def)

lemma ex_provision:
  "\<exists>u d'. FindOrCreateByEmail ascii [''b''] ex_env ''a@b'' [] ex_db = Inr (u, True, d') \<and> u_name u = ''a''"
  by (simp add: FindOrCreateByEmail_def ex_mail checkDomain_def derived_name_def before_at_def GetUserByEmail_def
      CreateUser_def insert_user_def drawn_def fresh_uuid_def user_ids_def checkE_def Let_def ex_defs)

theorem provisioning_witness:
  "\<exists>u d'. FindOrCreateByEmail ascii [''b''] ex_env ''a@b'' [] ex_db = Inr (u, True, d')
    \<and> FindOrCreateByEmail ascii [''b''] ex_env ''a@b'' [] d' = Inr (u, False, d')"
  using ex_provision provisioning by blast

definition ex_google :: google where
  "ex_google = \<lparr>g_exchange = (\<lambda>_ _. Some ''x''), g_userinfo = (\<lambda>_. Some \<lparr>gu_Email = ''a@b'', gu_EmailVerified = True, gu_Name = []\<rparr>)\<rparr>"

definition ex_om :: oauth_manager where
  "ex_om = snd (oauth_handleLogin 0 (Some ''s'') ''v'' ''/tasks'' \<lparr>om_configured = True, om_pending = []\<rparr>)"

definition ex_callback :: callback where
  "ex_callback = \<lparr>cb_state = ''s'', cb_error = [], cb_code = ''c''\<rparr>"

lemma ex_callback_runs:
  "\<exists>s om' d'. oauth_handleCallback ascii [''b''] (\<lambda>s. s) ''r'' ex_lib ex_google ex_manager ex_env ex_request ex_callback
     ex_om ex_db = (Inr (''/tasks'', s), om', d')"
proof -
  obtain u d1 where u: "FindOrCreateByEmail ascii [''b''] ex_env ''a@b'' [] ex_db = Inr (u, True, d1)"
    using ex_provision by blast
  have "om_pending ex_om = [(''s'', \<lparr>os_CreatedAt = 0, os_Redirect = ''/tasks'', os_CodeVerifier = ''v''\<rparr>)]"
    "om_configured ex_om"
    by (simp_all add: ex_om_def oauth_handleLogin_def CleanExpiredOAuthStates_def isValidRedirect_def
        has_prefix_def has_infix_def)
  then show ?thesis using u
    by (simp add: oauth_handleCallback_def ex_callback_def ex_google_def ex_env_def state_window_def one_minute_def
        one_second_def ex_manager_def split: prod.split)
qed

theorem google_login_witness:
  "\<exists>om' d'. fst (oauth_handleCallback ascii [''b''] (\<lambda>s. s) ''q'' ex_lib ex_google ex_manager ex_env ex_request
     ex_callback om' d') = Inl 400"
proof -
  have reach: "oauth_reach ex_om"
    unfolding ex_om_def by (rule oauth_reach.login [OF oauth_reach.start])
  obtain s om' d' where run: "oauth_handleCallback ascii [''b''] (\<lambda>s. s) ''r'' ex_lib ex_google ex_manager ex_env ex_request
     ex_callback ex_om ex_db = (Inr (''/tasks'', s), om', d')" using ex_callback_runs by blast
  show ?thesis using google_login [OF reach run, of "''q''" ex_env ex_request] by blast
qed

definition ex_claims :: iap_claims where
  "ex_claims = \<lparr>ic_Issuer = ''https://cloud.google.com/iap'', ic_Subject = ''accounts.google.com:1'', ic_Audience = [''aud''],
     ic_IssuedAt = None, ic_Expiry = Some 5000000000, ic_Email = ''accounts.google.com:a@b'', ic_HD = []\<rparr>"

definition ex_iap :: "unit iap" where
  "ex_iap = \<lparr>ia_Audience = ''aud'', ia_Issuer = [], ia_kid = (\<lambda>_. Some ''k''), ia_verify = (\<lambda>_ _. Some ex_claims)\<rparr>"

definition ex_jwks :: "unit jwks" where
  "ex_jwks = \<lparr>jw_keys = [(''k'', ())], jw_lastFetched = Some 5000000000, jw_lastAttempted = None\<rparr>"

definition ex_asserted :: "cookie \<Rightarrow> http_request" where
  "ex_asserted ck = \<lparr>rq_method = ''POST'', rq_header = (\<lambda>h. if h = ''x-goog-iap-jwt-assertion'' then [''j''] else []),
     rq_cookie = ck, rq_tls = True\<rparr>"

lemma ex_authenticate:
  "Authenticate ascii ex_iap (now ex_env) None (ex_asserted ck) ex_jwks = (Inr (Some (''1'', ''a@b'', [])), ex_jwks)"
  by (simp add: Authenticate_def ex_asserted_def Header_Get_def ex_iap_def GetKey_def ex_jwks_def validateClaims_def
      resolveIssuer_def ex_claims_def stripIAPPrefix_def trim_prefix_def has_prefix_def ex_env_def iapClockSkew_def
      jwksRefreshInterval_def one_hour_def one_second_def Let_def)
    (simp add: lower_ascii [OF lowers_ascii_ascii] ascii_text_def in_range_def lower_char_def)

lemma ex_provision_proxy:
  obtains u d1 where "FindOrCreateByEmail ascii [] ex_env ''a@b'' ''a@b'' (ex_db\<lparr>d_tokens := ts\<rparr>) = Inr (u, True, d1)"
    "d_tokens d1 = ts" "u_id u = 1000" "user_exists 1000 d1"
proof -
  have "\<exists>u d1. FindOrCreateByEmail ascii [] ex_env ''a@b'' ''a@b'' (ex_db\<lparr>d_tokens := ts\<rparr>) = Inr (u, True, d1)
     \<and> d_tokens d1 = ts \<and> u_id u = 1000 \<and> user_exists 1000 d1"
    by (simp add: FindOrCreateByEmail_def ex_mail checkDomain_def derived_name_def GetUserByEmail_def
        CreateUser_def insert_user_def drawn_def fresh_uuid_def user_ids_def checkE_def Let_def ex_defs)
  then show ?thesis using that by blast
qed

theorem proxy_first_request_witness:
  "\<exists>r' i d'. authenticate (Some (StoreTokenLookup_LookupByHash d')) (\<lambda>s. s) 0 ''m''
      (Some (rq_header (SessionToBearerMiddleware r'))) open_access_ctx
    = Inr (open_access_ctx\<lparr>c_user := Some 1000, c_enforced := True, c_scopes := [ScopeWildcard], c_collections := []\<rparr>, Some i)"
proof -
  obtain u d1 where u: "FindOrCreateByEmail ascii [] ex_env ''a@b'' ''a@b'' (ex_db\<lparr>d_tokens := []\<rparr>) = Inr (u, True, d1)"
    "d_tokens d1 = []" "u_id u = 1000" "user_exists 1000 d1" by (rule ex_provision_proxy)
  then have type: "u_type u = ''human''" using provisioning_type [OF u(1)] by simp
  have db: "ex_db\<lparr>d_tokens := []\<rparr> = ex_db" by (simp add: ex_db_def)
  let ?r = "ex_asserted NoCookie" and ?s0 = "login_session ex_lib u ''a@b'' empty_session"
  have "\<exists>s d2. new_token (\<lambda>s. s) ''r'' ex_env u (?s0, d1) = (s, d2) \<and> s_token s = Some ''ft_72''"
    using u(2-4) by (simp add: new_token_def CreateSessionToken_def CreateAPIToken_def insert_token_def drawn_def
        HashToken_def hex_digit_def byte_def Let_def)
  then obtain s d2 where s: "new_token (\<lambda>s. s) ''r'' ex_env u (?s0, d1) = (s, d2)" "s_token s = Some ''ft_72''" by blast
  have run: "iapMiddleware ascii ex_iap [] (Some ex_manager) (\<lambda>s. s) ''r'' ex_lib ex_env None ?r ex_jwks ex_db
      = (Inr (?r\<lparr>rq_cookie := Cookie s\<rparr>, Some (SaveCookie s True)), ex_jwks, d2)"
    using u(1) s(1) unfolding db iapMiddleware_def ex_authenticate
    by (simp add: ex_asserted_def open_session_def login_session_def empty_session_def ex_manager_def isSecureRequest_def)
  have empty: "s_token (open_session ?r) = None" "Header_Get (rq_header ?r) ''authorization'' = []"
    by (simp_all add: ex_asserted_def open_session_def empty_session_def Header_Get_def)
  have "rq_cookie (?r\<lparr>rq_cookie := Cookie s\<rparr>) = Cookie s" "\<not> isUnauthenticatedEndpoint ''m''"
    "0 \<le> now ex_env + 24 * one_hour"
    by (simp_all add: isUnauthenticatedEndpoint_def ex_env_def one_hour_def one_second_def)
  from proxy_first_request [OF ex_authenticate u(1) [unfolded db] run ex_db_ok empty this(1) s(2) this(2,3)] show ?thesis
    using u(3) type by (simp add: DefaultScopesForUserType_def) blast
qed

theorem proxy_session_keeps_first_user_witness:
  "\<exists>r' d'. authenticate (Some (StoreTokenLookup_LookupByHash d')) (\<lambda>s. s) 0 ''m''
      (Some (rq_header (SessionToBearerMiddleware r'))) open_access_ctx
    = Inr (open_access_ctx\<lparr>c_user := Some 7, c_enforced := True, c_scopes := [''task:read''], c_collections := [1]\<rparr>, Some 30)"
proof -
  obtain u d1 where u: "FindOrCreateByEmail ascii [] ex_env ''a@b'' ''a@b'' (ex_db\<lparr>d_tokens := [ex_token]\<rparr>) = Inr (u, True, d1)"
    "d_tokens d1 = [ex_token]" "u_id u = 1000" "user_exists 1000 d1" by (rule ex_provision_proxy)
  let ?r = "ex_asserted (Cookie (empty_session\<lparr>s_token := Some ''t''\<rparr>))"
  obtain r' ck c' where run: "iapMiddleware ascii ex_iap [] (Some ex_manager) (\<lambda>s. s) ''r'' ex_lib ex_env None ?r ex_jwks
      (ex_db\<lparr>d_tokens := [ex_token]\<rparr>) = (Inr (r', ck), c', d1)"
    using u(1) unfolding iapMiddleware_def ex_authenticate
    by (simp add: ex_asserted_def open_session_def login_session_def Let_def)
  have "s_token (open_session ?r) = Some ''t''" "Header_Get (rq_header ?r) ''authorization'' = []"
    "k_hash ex_token = HashToken (\<lambda>s. s) ''t''" "\<not> isUnauthenticatedEndpoint ''m''" "ex_token \<in> set (d_tokens d1)"
    using u(2) by (simp_all add: ex_asserted_def open_session_def Header_Get_def ex_token_def HashToken_def hex_digit_def
        byte_def isUnauthenticatedEndpoint_def)
  from proxy_session_keeps_first_user [OF ex_authenticate u(1) run db_ok_FindOrCreate [OF u(1) ex_tokens_ok] this(1) _ this(2,5,3,4), of 0 open_access_ctx]
  show ?thesis by (auto simp: ex_token_def token_expired_def)
qed

end
