(* ===== verification/FT_LinkFlow.thy ===== *)
theory FT_LinkFlow
  imports FT_Login
begin

text \<open>
  Linking a collection to an account of another platform (\<open>internal/serverapp/linkflows.go\<close>):
  the OAuth flows of GitHub, Jira and Linear, with the states that are pending between the
  redirect to the platform and the callback. The platforms are parameters.
\<close>

section \<open>Configuration\<close>

text \<open>An OAuth application: its scopes, and the tokens a code is exchanged for.\<close>

record platform_oauth =
  po_scopes :: "string list"
  po_exchange :: "string \<Rightarrow> (string \<times> string \<times> time option) option"

record PlatformOAuthConfig =
  oc_GitHub :: "platform_oauth option"
  oc_Jira :: "platform_oauth option"
  oc_Linear :: "platform_oauth option"

record link_state =
  ls_CollectionID :: uuid
  ls_Platform :: string
  ls_CreatedAt :: time

type_synonym pending = "(string \<times> link_state) list"

definition stateMaxAge :: time where "stateMaxAge = 10 * one_minute"

section \<open>The two ends of a flow\<close>

text \<open>The handlers of the platforms are copies of each other, here one function of the platform.\<close>

definition link_connect ::
  "platform_oauth option \<Rightarrow> string \<Rightarrow> lib \<Rightarrow> time \<Rightarrow> string option \<Rightarrow> string \<Rightarrow> string \<Rightarrow> pending
    \<Rightarrow> (nat + string) \<times> pending" where
  "link_connect cfg plat L tnow randomState httpMethod collection_id pending =
    (if httpMethod \<noteq> ''GET'' then (Inl 405, pending)
     else case cfg of
         None \<Rightarrow> (Inl 503, pending)
       | Some _ \<Rightarrow>
          (case uuid_Parse L collection_id of
             None \<Rightarrow> (Inl 400, pending)
           | Some cid \<Rightarrow>
              (case randomState of
                 None \<Rightarrow> (Inl 500, pending)
               | Some st \<Rightarrow> (Inr st, AList.update st
                   \<lparr>ls_CollectionID = cid, ls_Platform = plat, ls_CreatedAt = tnow\<rparr> pending))))"

definition link_params :: "platform_oauth \<Rightarrow> string \<Rightarrow> uuid \<Rightarrow> string \<times> string \<times> time option \<Rightarrow> CreateLinkedAccountParams" where
  "link_params cfg plat cid = (\<lambda>(access, refresh, expiry).
    \<lparr>cl_CollectionID = cid, cl_Platform = plat, cl_AuthToken = access, cl_AuthMethod = ''oauth'', cl_Scopes = [],
     cl_RemoteUserID = [], cl_ExpiresAt = None, cl_RefreshToken = refresh, cl_TokenExpiry = expiry,
     cl_ScopesGranted = po_scopes cfg\<rparr>)"

definition link_callback ::
  "platform_oauth option \<Rightarrow> string \<Rightarrow> encryptor \<Rightarrow> env \<Rightarrow> string \<Rightarrow> string \<Rightarrow> string \<Rightarrow> pending \<Rightarrow> db
    \<Rightarrow> (nat + account) \<times> pending \<times> db" where
  "link_callback cfg0 plat x e httpMethod st code pending d =
    (if httpMethod \<noteq> ''GET'' then (Inl 405, pending, d)
     else case cfg0 of
         None \<Rightarrow> (Inl 503, pending, d)
       | Some cfg \<Rightarrow>
          (case map_of pending st of
             None \<Rightarrow> (Inl 400, pending, d)
           | Some ls \<Rightarrow>
              let pending' = AList.delete st pending in
              if stateMaxAge < now e - ls_CreatedAt ls then (Inl 400, pending', d)
              else if ls_Platform ls \<noteq> plat then (Inl 400, pending', d)
              else if code = [] then (Inl 400, pending', d)
              else (case po_exchange cfg code of
                  None \<Rightarrow> (Inl 500, pending', d)
                | Some tok \<Rightarrow>
                   (case CreateLinkedAccount x e (link_params cfg plat (ls_CollectionID ls) tok) d of
                      Inl _ \<Rightarrow> (Inl 500, pending', d)
                    | Inr (la, d') \<Rightarrow> (Inr la, pending', d')))))"

definition handleGitHubInstall where "handleGitHubInstall cfgs = link_connect (oc_GitHub cfgs) ''github''"
definition handleGitHubCallback where "handleGitHubCallback cfgs = link_callback (oc_GitHub cfgs) ''github''"
definition handleJiraConnect where "handleJiraConnect cfgs = link_connect (oc_Jira cfgs) ''jira''"
definition handleJiraCallback where "handleJiraCallback cfgs = link_callback (oc_Jira cfgs) ''jira''"
definition handleLinearConnect where "handleLinearConnect cfgs = link_connect (oc_Linear cfgs) ''linear''"
definition handleLinearCallback where "handleLinearCallback cfgs = link_callback (oc_Linear cfgs) ''linear''"

definition CleanExpiredStates :: "time \<Rightarrow> pending \<Rightarrow> pending" where
  "CleanExpiredStates tnow pending = filter (\<lambda>(_, ls). tnow - stateMaxAge \<le> ls_CreatedAt ls) pending"

definition FormatPlatformAuthURL :: "lib \<Rightarrow> string \<Rightarrow> string \<Rightarrow> uuid \<Rightarrow> string option" where
  "FormatPlatformAuthURL L baseURL plat cid =
    (if plat = ''github'' then Some (baseURL @ ''/api/link/github/install?collection_id='' @ uuid_String L cid)
     else if plat = ''jira'' then Some (baseURL @ ''/api/link/jira/connect?collection_id='' @ uuid_String L cid)
     else if plat = ''linear'' then Some (baseURL @ ''/api/link/linear/connect?collection_id='' @ uuid_String L cid)
     else None)"

section \<open>Runs\<close>

text \<open>
  A run of the flows: the pending states, the connects so far (state, collection, platform, time)
  and the accounts made with the state that made them. The database of a callback is any, since
  other requests come between; the states are random and none is drawn twice.
\<close>

inductive link_run ::
  "PlatformOAuthConfig \<Rightarrow> pending \<Rightarrow> (string \<times> uuid \<times> string \<times> time) list \<Rightarrow> (string \<times> account \<times> time) list \<Rightarrow> bool"
  for cfgs where
  start: "link_run cfgs [] [] []"
| connect: "link_run cfgs ps hist made \<Longrightarrow> (cfg, plat) \<in> {(oc_GitHub cfgs, ''github''), (oc_Jira cfgs, ''jira''), (oc_Linear cfgs, ''linear'')} \<Longrightarrow>
    link_connect cfg plat L t (Some st) m cid_text ps = (Inr st, ps') \<Longrightarrow> st \<notin> fst ` set hist \<Longrightarrow>
    uuid_Parse L cid_text = Some cid \<Longrightarrow> link_run cfgs ps' (hist @ [(st, cid, plat, t)]) made"
| callback: "link_run cfgs ps hist made \<Longrightarrow> (cfg, plat) \<in> {(oc_GitHub cfgs, ''github''), (oc_Jira cfgs, ''jira''), (oc_Linear cfgs, ''linear'')} \<Longrightarrow>
    link_callback cfg plat x e m st code ps d = (Inr la, ps', d') \<Longrightarrow> link_run cfgs ps' hist (made @ [(st, la, now e)])"
| refused: "link_run cfgs ps hist made \<Longrightarrow> link_callback cfg plat x e m st code ps d = (Inl err, ps', d') \<Longrightarrow> link_run cfgs ps' hist made"
| clean: "link_run cfgs ps hist made \<Longrightarrow> link_run cfgs (CleanExpiredStates t ps) hist made"

end
