(* ===== verification/FT_LinkProps.thy ===== *)
theory FT_LinkProps
  imports FT_LinkFlow FT_LoginProps FT_MultiProps
begin

text \<open>
  What the link flows promise: an account is made for the collection and the platform of one
  connect, in time and once. What they do not ask is who connects.
\<close>

section \<open>Accounts come from connects\<close>

definition traced :: "pending \<Rightarrow> (string \<times> uuid \<times> string \<times> time) list \<Rightarrow> (string \<times> account \<times> time) list \<Rightarrow> bool" where
  "traced ps hist made \<longleftrightarrow> distinct (map fst ps) \<and> distinct (map fst hist) \<and> distinct (map fst made)
     \<and> fst ` set ps \<inter> fst ` set made = {} \<and> fst ` set made \<subseteq> fst ` set hist
     \<and> (\<forall>(st, ls)\<in>set ps. (st, ls_CollectionID ls, ls_Platform ls, ls_CreatedAt ls) \<in> set hist)
     \<and> (\<forall>(st, la, t)\<in>set made. \<exists>plat t0. (st, a_collection la, plat, t0) \<in> set hist
          \<and> account_platform plat = Some (a_platform la) \<and> t - t0 \<le> stateMaxAge)"

lemma link_connect_Inr:
  "link_connect cfg plat L t (Some st) m cid_text ps = (Inr v, ps') \<Longrightarrow> uuid_Parse L cid_text = Some cid \<Longrightarrow>
    ps' = AList.update st \<lparr>ls_CollectionID = cid, ls_Platform = plat, ls_CreatedAt = t\<rparr> ps"
  by (auto simp: link_connect_def split: if_splits option.splits)

lemma link_callback_pending: "fst (snd (link_callback cfg plat x e m st code ps d)) \<in> {ps, AList.delete st ps}"
  by (auto simp: link_callback_def Let_def split: option.split sum.split prod.split)

lemma CreateLinkedAccount_Inr:
  "CreateLinkedAccount x e p d = Inr (la, d') \<Longrightarrow> a_collection la = cl_CollectionID p
    \<and> account_platform (cl_Platform p) = Some (a_platform la) \<and> a_id la = fresh_uuid e d
    \<and> a_token la = (if cl_AuthToken p \<noteq> [] then enc_auth x (cl_AuthToken p) else cl_AuthToken p)
    \<and> a_refresh la = (if cl_RefreshToken p \<noteq> [] then enc_refresh x (cl_RefreshToken p) else cl_RefreshToken p)
    \<and> d_accounts d' = d_accounts d @ [la] \<and> d_colls d' = d_colls d"
  by (auto simp: CreateLinkedAccount_def Let_def thenE_Inr insert_account_def drawn_def split: option.splits if_splits)

lemma link_callback_Inr:
  assumes "link_callback cfg0 plat x e m st code ps d = (Inr la, ps', d')"
  shows "\<exists>cfg ls tok. cfg0 = Some cfg \<and> map_of ps st = Some ls \<and> now e - ls_CreatedAt ls \<le> stateMaxAge \<and> ls_Platform ls = plat
    \<and> po_exchange cfg code = Some tok \<and> ps' = AList.delete st ps
    \<and> CreateLinkedAccount x e (link_params cfg plat (ls_CollectionID ls) tok) d = Inr (la, d')"
  using assms by (auto simp: link_callback_def Let_def not_less split: option.splits sum.splits if_splits)

lemma traced_less:
  "traced ps hist made \<Longrightarrow> traced (filter P ps) hist made"
  by (auto simp: traced_def distinct_map_filter)

lemma link_run_traced: "link_run cfgs ps hist made \<Longrightarrow> traced ps hist made"
proof (induction rule: link_run.induct)
  case start
  show ?case by (simp add: traced_def)
next
  case (connect ps hist made cfg plat L t st m cid_text ps' cid)
  let ?ls = "\<lparr>ls_CollectionID = cid, ls_Platform = plat, ls_CreatedAt = t\<rparr>"
  have ps': "ps' = AList.update st ?ls ps" using link_connect_Inr connect.hyps(3,5) by blast
  have "\<forall>(s, ls)\<in>set ps'. (s, ls_CollectionID ls, ls_Platform ls, ls_CreatedAt ls) \<in> set (hist @ [(st, cid, plat, t)])"
    using connect.IH set_update_subset [of st ?ls ps] unfolding ps' traced_def by fastforce
  moreover have "fst ` set ps' \<inter> fst ` set made = {}" "distinct (map fst ps')"
    using connect.IH connect.hyps(4) unfolding ps' traced_def by (auto simp: dom_update distinct_update)
  moreover have "\<forall>(s, la, u)\<in>set made. \<exists>pl t0. (s, a_collection la, pl, t0) \<in> set (hist @ [(st, cid, plat, t)])
      \<and> account_platform pl = Some (a_platform la) \<and> u - t0 \<le> stateMaxAge"
    using connect.IH unfolding traced_def by fastforce
  ultimately show ?case using connect.IH connect.hyps(4) unfolding traced_def by auto
next
  case (callback ps hist made cfg plat x e m st code d la ps' d')
  from link_callback_Inr [OF callback.hyps(3)] obtain cfg' ls tok where ls: "map_of ps st = Some ls"
    "now e - ls_CreatedAt ls \<le> stateMaxAge" "ls_Platform ls = plat" "ps' = AList.delete st ps"
    and la: "CreateLinkedAccount x e (link_params cfg' plat (ls_CollectionID ls) tok) d = Inr (la, d')" by blast
  have h: "(st, ls_CollectionID ls, plat, ls_CreatedAt ls) \<in> set hist"
    using callback.IH map_of_SomeD [OF ls(1)] ls(3) unfolding traced_def by auto
  have "a_collection la = ls_CollectionID ls" "account_platform plat = Some (a_platform la)"
    using CreateLinkedAccount_Inr [OF la] by (simp_all add: link_params_def split: prod.splits)
  then have new: "\<exists>pl t0. (st, a_collection la, pl, t0) \<in> set hist \<and> account_platform pl = Some (a_platform la)
      \<and> now e - t0 \<le> stateMaxAge" using h ls(2) by auto
  have "st \<in> fst ` set ps" using map_of_SomeD [OF ls(1)] by (metis fst_conv image_eqI)
  then have fresh: "st \<notin> fst ` set made" using callback.IH unfolding traced_def by blast
  have known: "st \<in> fst ` set hist" using h by (metis fst_conv image_eqI)
  have "traced ps' hist made" unfolding ls(4) AList.delete_eq by (rule traced_less [OF callback.IH])
  moreover have "st \<notin> fst ` set ps'" by (auto simp: ls(4) AList.delete_eq)
  ultimately show ?case using new fresh known unfolding traced_def by auto
next
  case (refused ps hist made cfg plat x e m st code d err ps' d')
  then have "ps' \<in> {ps, AList.delete st ps}" using link_callback_pending by (metis fst_conv snd_conv)
  then show ?case using refused.IH traced_less by (auto simp: AList.delete_eq)
next
  case (clean ps hist made t)
  show ?case unfolding CleanExpiredStates_def by (rule traced_less [OF clean.IH])
qed

text \<open>
  C14. A linked account comes from one connect: along every run of the flows, each account that was
  made belongs to the collection of the connect that drew its state, on the platform of that
  connect, within ten minutes of it; no state makes two accounts, and none is used on another
  platform.
\<close>

theorem linked_accounts_traced:
  assumes "link_run cfgs ps hist made"
  shows "distinct (map fst made)
    \<and> (\<forall>(st, la, t)\<in>set made. \<exists>plat t0. (st, a_collection la, plat, t0) \<in> set hist
         \<and> account_platform plat = Some (a_platform la) \<and> t - t0 \<le> stateMaxAge)"
  using link_run_traced [OF assms] by (simp add: traced_def)

section \<open>Nobody is asked who connects\<close>

text \<open>The nonces and the cipher of an encryptor are those of the library.\<close>

definition encryptor_ok :: "encryptor \<Rightarrow> bool" where
  "encryptor_ok x \<longleftrightarrow> (case x of None \<Rightarrow> True
     | Some (g, n1, n2) \<Rightarrow> gcm_ok g \<and> length n1 = nonce_size \<and> length n2 = nonce_size)"

lemma decrypt_created:
  assumes "encryptor_ok x" and "CreateLinkedAccount x e p d = Inr (la, d')"
    and "\<not> IsEncrypted (cl_AuthToken p)" and "\<not> IsEncrypted (cl_RefreshToken p)"
  shows "decryptLinkedAccount x la = Inr (la\<lparr>a_token := cl_AuthToken p, a_refresh := cl_RefreshToken p\<rparr>)"
proof (cases x)
  case None
  then show ?thesis using CreateLinkedAccount_Inr [OF assms(2)] by (auto simp: decryptLinkedAccount_def enc_auth_def enc_refresh_def)
next
  case (Some gn)
  obtain g n1 n2 where x: "x = Some (g, n1, n2)" using Some by (cases gn) auto
  have dec: "Decrypt g (Encrypt g n1 (cl_AuthToken p)) = Inr (cl_AuthToken p)"
    "Decrypt g (Encrypt g n2 (cl_RefreshToken p)) = Inr (cl_RefreshToken p)"
    using assms(1,3,4) x by (auto simp: encryptor_ok_def intro: Decrypt_Encrypt)
  have "Encrypt g n v = [] \<longleftrightarrow> v = []" for n v by (simp add: Encrypt_def encryptedPrefix_def)
  then show ?thesis using CreateLinkedAccount_Inr [OF assms(2)] dec
    by (auto simp: decryptLinkedAccount_def x enc_auth_def enc_refresh_def)
qed

text \<open>
  C13. A stranger can take over an external collection that is not linked yet: the two requests of the
  GitHub flow carry no credentials and none is looked at, and from then on the server reaches the
  repository of the collection with the token of whoever made them, for every user.
\<close>

theorem stranger_links_collection:
  assumes "link_connect (oc_GitHub cfgs) ''github'' L t (Some st) ''GET'' cid_text ps = (Inr st, ps1)"
    and "uuid_Parse L cid_text = Some cid"
    and "link_callback (oc_GitHub cfgs) ''github'' x e ''GET'' st code ps1 d = (Inr la, ps2, d')"
    and "GetCollection cid d = Inr co" and "co_platform co = PlatformGithub"
    and "ParseOwnerRepo (co_remote_id co) = Some (ow, rp)" and "\<forall>a\<in>set (d_accounts d). a_collection a \<noteq> cid"
    and "mu_db mu = d'" and "map_of (mu_platforms mu) cid = None"
    and "mc_resolver M = Some (NewPlatformResolver W)" and "mc_encryptor M = x" and "encryptor_ok x"
    and "oc_GitHub cfgs = Some cfg" and "po_exchange cfg code = Some (access, refresh, expiry)"
    and "\<not> IsEncrypted access" and "\<not> IsEncrypted refresh"
  shows "storeForCtx M cid mu = (Platform cid,
    mu\<lparr>mu_platforms := mu_platforms mu @ [(cid, NewPassThroughStore W access ow rp cid)]\<rparr>)"
proof -
  have ps1: "map_of ps1 st = Some \<lparr>ls_CollectionID = cid, ls_Platform = ''github'', ls_CreatedAt = t\<rparr>"
    using link_connect_Inr [OF assms(1,2)] by (simp add: update_conv')
  from link_callback_Inr [OF assms(3)] ps1 assms(13,14) have la:
    "CreateLinkedAccount x e (link_params cfg ''github'' cid (access, refresh, expiry)) d = Inr (la, d')" by auto
  note acc = CreateLinkedAccount_Inr [OF la, unfolded link_params_def, simplified]
  have none: "filter (\<lambda>a. a_collection a = cid) (d_accounts d) = []"
    using assms(7) by (simp add: filter_empty_conv)
  have "decryptLinkedAccount x la = Inr (la\<lparr>a_token := access, a_refresh := refresh\<rparr>)"
    using decrypt_created [OF assms(12) la] assms(15,16) by (simp add: link_params_def)
  then have "ListLinkedAccounts x (accounts_of cid) d' = Inr ([la\<lparr>a_token := access, a_refresh := refresh\<rparr>], 1)"
    using acc none by (simp add: ListLinkedAccounts_def accounts_of_def opt_eq_def keyset_page_def account_cursor_def
        limit_rows_def Let_def eq_commute)
  moreover have "GetCollection cid d' = Inr co" using assms(4) acc by (simp add: GetCollection_def)
  ultimately have "lazyResolve M cid (mu_db mu) = Some (NewPassThroughStore W access ow rp cid)"
    using assms(5,6,8,10,11) by (simp add: lazyResolve_def NewPlatformResolver_def)
  then show ?thesis using assms(9) by (simp add: storeForCtx_def register_def)
qed

section \<open>Instances\<close>

definition ex_oauth :: platform_oauth where
  "ex_oauth = \<lparr>po_scopes = [''repo''], po_exchange = (\<lambda>_. Some (''t'', [], None))\<rparr>"

definition ex_platforms :: PlatformOAuthConfig where
  "ex_platforms = \<lparr>oc_GitHub = Some ex_oauth, oc_Jira = None, oc_Linear = None\<rparr>"

definition ex_unlinked :: db where
  "ex_unlinked = ex_linked\<lparr>d_accounts := []\<rparr>"

lemma ex_connect:
  "link_connect (oc_GitHub ex_platforms) ''github'' ex_lib 0 (Some ''s'') ''GET'' ''abc'' []
    = (Inr ''s'', [(''s'', \<lparr>ls_CollectionID = 2, ls_Platform = ''github'', ls_CreatedAt = 0\<rparr>)])"
  by (simp add: link_connect_def ex_platforms_def ex_lib_def)

lemma ex_link:
  "\<exists>la d'. link_callback (oc_GitHub ex_platforms) ''github'' None ex_env ''GET'' ''s'' ''c''
      [(''s'', \<lparr>ls_CollectionID = 2, ls_Platform = ''github'', ls_CreatedAt = 0\<rparr>)] ex_unlinked = (Inr la, [], d')"
  by (simp add: link_callback_def ex_platforms_def ex_oauth_def link_params_def CreateLinkedAccount_def
      account_platform_def account_method_def insert_account_def drawn_def enc_auth_def ex_unlinked_def ex_linked_def
      ex_env_def stateMaxAge_def one_minute_def one_second_def coll_ids_def Let_def ex_db_def ex_coll_def)

theorem linked_accounts_traced_witness:
  "\<exists>la. link_run ex_platforms [] [(''s'', 2, ''github'', 0)] [(''s'', la, 5000000000)] \<and> a_collection la = 2"
proof -
  obtain la d' where la: "link_callback (oc_GitHub ex_platforms) ''github'' None ex_env ''GET'' ''s'' ''c''
      [(''s'', \<lparr>ls_CollectionID = 2, ls_Platform = ''github'', ls_CreatedAt = 0\<rparr>)] ex_unlinked = (Inr la, [], d')"
    using ex_link by blast
  have "uuid_Parse ex_lib ''abc'' = Some 2" by (simp add: ex_lib_def)
  from link_run.callback [OF link_run.connect [OF link_run.start _ ex_connect _ this] _ la]
  have run: "link_run ex_platforms [] [(''s'', 2, ''github'', 0)] [(''s'', la, 5000000000)]" by (simp add: ex_env_def)
  show ?thesis using run linked_accounts_traced [OF run] by auto
qed

theorem stranger_links_collection_witness:
  "\<exists>mu :: unit multi. fst (storeForCtx ex_config 2 mu) = Platform 2"
proof -
  obtain la d' where la: "link_callback (oc_GitHub ex_platforms) ''github'' None ex_env ''GET'' ''s'' ''c''
      [(''s'', \<lparr>ls_CollectionID = 2, ls_Platform = ''github'', ls_CreatedAt = 0\<rparr>)] ex_unlinked = (Inr la, [], d')"
    using ex_link by blast
  let ?mu = "\<lparr>mu_db = d', mu_remote = (), mu_platforms = []\<rparr>"
  let ?co = "ex_coll\<lparr>co_id := 2, co_platform := PlatformGithub, co_remote_id := ''o/r''\<rparr>"
  have facts: "uuid_Parse ex_lib ''abc'' = Some 2" "GetCollection 2 ex_unlinked = Inr ?co"
    "co_platform ?co = PlatformGithub" "ParseOwnerRepo (co_remote_id ?co) = Some (''o'', ''r'')"
    "\<forall>a\<in>set (d_accounts ex_unlinked). a_collection a \<noteq> 2" "mu_db ?mu = d'" "map_of (mu_platforms ?mu) 2 = None"
    "mc_resolver ex_config = Some (NewPlatformResolver ex_world)" "mc_encryptor ex_config = None" "encryptor_ok None"
    "oc_GitHub ex_platforms = Some ex_oauth" "po_exchange ex_oauth ''c'' = Some (''t'', [], None)"
    "\<not> IsEncrypted ''t''" "\<not> IsEncrypted []"
    by (simp_all add: ex_lib_def GetCollection_def ex_unlinked_def ex_linked_def ex_coll_def ParseOwnerRepo_def
        ex_config_def encryptor_ok_def ex_platforms_def ex_oauth_def IsEncrypted_def encryptedPrefix_def)
  show ?thesis
    using stranger_links_collection [OF ex_connect facts(1) la facts(2-14)]
    by (intro exI [of _ ?mu]) simp
qed

end
