(* ===== verification/FT_Credentials.thy ===== *)
theory FT_Credentials
  imports FT_Login
begin

text \<open>
  The background services that keep linked accounts alive: the refresh of OAuth tokens
  (\<open>internal/serverapp/tokenrefresh.go\<close>) and the check of stored credentials (\<open>credmonitor.go\<close>).
  One run of a service is a function of the database; the platforms are parameters.
\<close>

section \<open>Refreshing tokens\<close>

text \<open>The answer to a refresh token: an error text, or the new access token, refresh token and expiry.\<close>

type_synonym token_source = "string \<Rightarrow> string + (string \<times> string \<times> time option)"

record PlatformRefreshConfigs =
  rc_GitHub :: "token_source option"
  rc_Jira :: "token_source option"
  rc_Linear :: "token_source option"

definition defaultRefreshInterval :: time where "defaultRefreshInterval = 30 * one_minute"
definition refreshWindow :: time where "refreshWindow = 15 * one_minute"

definition configForPlatform :: "PlatformRefreshConfigs \<Rightarrow> platform \<Rightarrow> token_source option" where
  "configForPlatform cfgs p = (case p of PlatformGithub \<Rightarrow> rc_GitHub cfgs | PlatformJira \<Rightarrow> rc_Jira cfgs
     | PlatformLinear \<Rightarrow> rc_Linear cfgs | _ \<Rightarrow> None)"

definition isDefinitiveAuthError :: "string \<Rightarrow> bool" where
  "isDefinitiveAuthError msg \<longleftrightarrow> has_infix msg ''401'' \<or> has_infix msg ''403''
     \<or> has_infix msg ''unauthorized'' \<or> has_infix msg ''forbidden''"

definition no_account_change :: UpdateLinkedAccountParams where
  "no_account_change = \<lparr>ul_AuthToken = None, ul_RefreshToken = None, ul_TokenExpiry = None, ul_ClearTokenExpiry = False,
     ul_Status = None, ul_ScopesGranted = None, ul_LastValidatedAt = None\<rparr>"

text \<open>The text of a store error is a parameter.\<close>

definition refreshAccount ::
  "PlatformRefreshConfigs \<Rightarrow> (store_err \<Rightarrow> string) \<Rightarrow> encryptor \<Rightarrow> env \<Rightarrow> account \<Rightarrow> db \<Rightarrow> string + db" where
  "refreshAccount cfgs errtext x e acct d =
    (case configForPlatform cfgs (a_platform acct) of
       None \<Rightarrow> Inl (''no OAuth config for platform '' @ platform_str (a_platform acct))
     | Some source \<Rightarrow>
        (case source (a_refresh acct) of
           Inl msg \<Rightarrow> Inl (''refreshing token: '' @ msg)
         | Inr (access, refresh, expiry) \<Rightarrow>
            (case UpdateLinkedAccount x e (a_id acct) (no_account_change\<lparr>ul_AuthToken := Some access,
                 ul_RefreshToken := (if refresh \<noteq> [] \<and> refresh \<noteq> a_refresh acct then Some refresh else None),
                 ul_TokenExpiry := expiry\<rparr>) d of
               Inl err \<Rightarrow> Inl (''updating account: '' @ errtext err)
             | Inr (_, d') \<Rightarrow> Inr d')))"

definition refresh_due :: "time \<Rightarrow> account \<Rightarrow> bool" where
  "refresh_due tnow acct \<longleftrightarrow> a_method acct = AuthMethodOauth \<and> a_refresh acct \<noteq> []
     \<and> (case a_token_expiry acct of None \<Rightarrow> False | Some t \<Rightarrow> \<not> tnow + refreshWindow < t)"

text \<open>An account whose refresh failed for good is marked as expired; the store errors are only logged.\<close>

definition set_status :: "string \<Rightarrow> encryptor \<Rightarrow> env \<Rightarrow> uuid \<Rightarrow> db \<Rightarrow> db" where
  "set_status s x e i d =
    (case UpdateLinkedAccount x e i (no_account_change\<lparr>ul_Status := Some s\<rparr>) d of Inl _ \<Rightarrow> d | Inr (_, d') \<Rightarrow> d')"

definition refresh_one ::
  "PlatformRefreshConfigs \<Rightarrow> (store_err \<Rightarrow> string) \<Rightarrow> encryptor \<Rightarrow> env \<Rightarrow> account \<Rightarrow> db \<Rightarrow> db" where
  "refresh_one cfgs errtext x e acct d =
    (if \<not> refresh_due (now e) acct then d
     else case refreshAccount cfgs errtext x e acct d of
         Inr d' \<Rightarrow> d'
       | Inl msg \<Rightarrow> if isDefinitiveAuthError msg then set_status ''expired'' x e (a_id acct) d else d)"

definition active_accounts :: ListLinkedAccountsParams where
  "active_accounts = \<lparr>la_CollectionID = None, la_Platform = None, la_Status = Some ''active'', la_Limit = 0, la_LastID = None\<rparr>"

definition refreshAll :: "PlatformRefreshConfigs \<Rightarrow> (store_err \<Rightarrow> string) \<Rightarrow> encryptor \<Rightarrow> env \<Rightarrow> db \<Rightarrow> db" where
  "refreshAll cfgs errtext x e d =
    (case ListLinkedAccounts x active_accounts d of
       Inl _ \<Rightarrow> d | Inr (accts, _) \<Rightarrow> fold (refresh_one cfgs errtext x e) accts d)"

section \<open>Checking credentials\<close>

text \<open>What the validators make of the status of the answer, none when there was no answer.\<close>

definition validateGitHubToken :: "nat option \<Rightarrow> bool" where
  "validateGitHubToken status = (case status of None \<Rightarrow> False | Some n \<Rightarrow> n \<noteq> 401 \<and> n \<noteq> 403 \<and> n < 400)"

definition validateJiraToken :: "nat option \<Rightarrow> bool" where
  "validateJiraToken status = (case status of None \<Rightarrow> False | Some n \<Rightarrow> n \<noteq> 401 \<and> n \<noteq> 403 \<and> n < 400)"

definition validateLinearToken :: "nat option \<Rightarrow> bool" where
  "validateLinearToken status = (case status of None \<Rightarrow> False | Some n \<Rightarrow> n \<noteq> 401 \<and> n \<noteq> 403)"

text \<open>The validators of the platforms, given what each platform answers to a token.\<close>

type_synonym validators = "platform \<Rightarrow> (string \<Rightarrow> bool) option"

definition default_validators :: "(platform \<Rightarrow> string \<Rightarrow> nat option) \<Rightarrow> validators" where
  "default_validators answer p = (case p of
     PlatformGithub \<Rightarrow> Some (\<lambda>tok. validateGitHubToken (answer p tok))
   | PlatformJira \<Rightarrow> Some (\<lambda>tok. validateJiraToken (answer p tok))
   | PlatformLinear \<Rightarrow> Some (\<lambda>tok. validateLinearToken (answer p tok)) | _ \<Rightarrow> None)"

definition checkAccount :: "validators \<Rightarrow> encryptor \<Rightarrow> env \<Rightarrow> account \<Rightarrow> db \<Rightarrow> store_err + db" where
  "checkAccount vs x e acct d =
    (case vs (a_platform acct) of
       None \<Rightarrow> Inr d
     | Some valid \<Rightarrow> thenE (UpdateLinkedAccount x e (a_id acct)
         (if valid (a_token acct) then no_account_change\<lparr>ul_LastValidatedAt := Some (now e)\<rparr>
          else no_account_change\<lparr>ul_Status := Some ''expired'', ul_LastValidatedAt := Some (now e)\<rparr>) d) (\<lambda>(_, d'). Inr d'))"

definition check_one :: "validators \<Rightarrow> encryptor \<Rightarrow> env \<Rightarrow> account \<Rightarrow> db \<Rightarrow> db" where
  "check_one vs x e acct d = (case checkAccount vs x e acct d of Inl _ \<Rightarrow> d | Inr d' \<Rightarrow> d')"

definition checkAll :: "validators \<Rightarrow> encryptor \<Rightarrow> env \<Rightarrow> db \<Rightarrow> db" where
  "checkAll vs x e d =
    (case ListLinkedAccounts x active_accounts d of
       Inl _ \<Rightarrow> d | Inr (accts, _) \<Rightarrow> fold (check_one vs x e) accts d)"

definition CheckAccountNow :: "lib \<Rightarrow> validators \<Rightarrow> encryptor \<Rightarrow> env \<Rightarrow> string \<Rightarrow> db \<Rightarrow> store_err + db" where
  "CheckAccountNow L vs x e accountID d =
    (case uuid_Parse L accountID of
       None \<Rightarrow> Inl ErrOther
     | Some i \<Rightarrow> thenE (GetLinkedAccount x i d) (\<lambda>acct. checkAccount vs x e acct d))"

section \<open>What a run changes\<close>

text \<open>The runs of the two services, with other clocks, answers and configurations each time.\<close>

inductive service_run :: "encryptor \<Rightarrow> db \<Rightarrow> db \<Rightarrow> bool" for x where
  idle: "service_run x d d"
| refresh: "service_run x d d1 \<Longrightarrow> service_run x d (refreshAll cfgs errtext x e d1)"
| check: "service_run x d d1 \<Longrightarrow> service_run x d (checkAll vs x e d1)"

definition account_of :: "uuid \<Rightarrow> db \<Rightarrow> account option" where
  "account_of i d = find (\<lambda>a. a_id a = i) (d_accounts d)"

definition account_ids :: "db \<Rightarrow> uuid list" where
  "account_ids d = map a_id (d_accounts d)"

lemma update_account_rows:
  assumes "update_account e j f d = Inr (a, d')"
  shows "account_ids d' = account_ids d" "i \<noteq> j \<Longrightarrow> account_of i d' = account_of i d"
    "\<exists>b. account_of j d = Some b \<and> account_of j d' = Some ((f b)\<lparr>a_id := a_id b, a_collection := a_collection b,
       a_platform := a_platform b, a_created := a_created b, a_updated := now e\<rparr>)"
proof -
  define g where "g = (\<lambda>a. (f a)\<lparr>a_id := a_id a, a_collection := a_collection a, a_platform := a_platform a,
     a_created := a_created a, a_updated := now e\<rparr>)"
  define h where "h = (\<lambda>a. if a_id a = j then g a else a)"
  obtain b where b: "account_of j d = Some b" and d': "d_accounts d' = map h (d_accounts d)"
    using assms by (auto simp: update_account_def account_of_def g_def h_def Let_def split: option.splits)
  have id: "a_id (h a) = a_id a" for a by (simp add: h_def g_def)
  have row: "account_of i d' = map_option h (account_of i d)" for i
    unfolding account_of_def d' by (rule find_map_same_key) (rule id)
  show "account_ids d' = account_ids d" by (simp add: account_ids_def d' id)
  show "account_of i d' = account_of i d" if "i \<noteq> j"
  proof (cases "account_of i d")
    case (Some c)
    then have "a_id c = i" unfolding account_of_def by (auto dest: find_Some_mem)
    then show ?thesis using row Some that by (simp add: h_def)
  qed (simp add: row)
  have "a_id b = j" using b unfolding account_of_def by (auto dest: find_Some_mem)
  then have "account_of j d' = Some (g b)" using row b by (simp add: h_def)
  then show "\<exists>b. account_of j d = Some b \<and> account_of j d' = Some ((f b)\<lparr>a_id := a_id b, a_collection := a_collection b,
       a_platform := a_platform b, a_created := a_created b, a_updated := now e\<rparr>)" using b by (auto simp: g_def)
qed

lemma UpdateLinkedAccount_rows:
  assumes "UpdateLinkedAccount x e j p d = Inr (a, d')"
  shows "account_ids d' = account_ids d" "i \<noteq> j \<Longrightarrow> account_of i d' = account_of i d"
    "\<exists>b c. account_of j d = Some b \<and> account_of j d' = Some c
       \<and> a_status c = (case ul_Status p of None \<Rightarrow> a_status b | Some s \<Rightarrow> (case account_status_of s of None \<Rightarrow> a_status b | Some st \<Rightarrow> st))"
proof -
  obtain f where u: "update_account e j f d = Inr (a, d')"
    and f: "\<And>b. a_status (f b) = (case ul_Status p of None \<Rightarrow> a_status b
       | Some s \<Rightarrow> (case account_status_of s of None \<Rightarrow> a_status b | Some st \<Rightarrow> st))"
    using assms by (simp add: UpdateLinkedAccount_def split: if_splits)
  show "account_ids d' = account_ids d" "i \<noteq> j \<Longrightarrow> account_of i d' = account_of i d"
    using update_account_rows(1,2) [OF u] by simp_all
  show "\<exists>b c. account_of j d = Some b \<and> account_of j d' = Some c
       \<and> a_status c = (case ul_Status p of None \<Rightarrow> a_status b | Some s \<Rightarrow> (case account_status_of s of None \<Rightarrow> a_status b | Some st \<Rightarrow> st))"
    using update_account_rows(3) [OF u] f by force
qed

text \<open>A step on an account keeps the other rows, and the identifiers of all.\<close>

definition only_row :: "uuid \<Rightarrow> db \<Rightarrow> db \<Rightarrow> bool" where
  "only_row j d d' \<longleftrightarrow> account_ids d' = account_ids d \<and> (\<forall>i. i \<noteq> j \<longrightarrow> account_of i d' = account_of i d)"

lemma only_row_refl [simp]: "only_row j d d"
  by (simp add: only_row_def)

lemma only_row_update: "UpdateLinkedAccount x e j p d = Inr (a, d') \<Longrightarrow> only_row j d d'"
  using UpdateLinkedAccount_rows(1,2) by (simp add: only_row_def)

lemma only_row_check: "only_row (a_id acct) d (check_one vs x e acct d)"
  by (auto simp: check_one_def checkAccount_def thenE_Inr split: option.split sum.split intro: only_row_update)

lemma only_row_refresh: "only_row (a_id acct) d (refresh_one cfgs errtext x e acct d)"
  by (auto simp: refresh_one_def refreshAccount_def set_status_def split: option.splits sum.splits prod.splits
      intro: only_row_update)

lemma only_rows_fold:
  assumes "\<And>acct d. only_row (a_id acct) d (f acct d)"
  shows "account_ids (fold f accts d) = account_ids d"
    and "i \<notin> a_id ` set accts \<Longrightarrow> account_of i (fold f accts d) = account_of i d"
  using assms by (induction accts arbitrary: d) (simp_all add: only_row_def)

text \<open>The accounts a service looks at: the active ones, each once.\<close>

lemma decrypt_keeps: "decryptLinkedAccount x a = Inr b \<Longrightarrow> a_id b = a_id a \<and> a_status b = a_status a
    \<and> a_platform b = a_platform a \<and> a_method b = a_method a \<and> a_token_expiry b = a_token_expiry a"
  by (auto simp: decryptLinkedAccount_def split: option.splits sum.splits prod.splits if_splits)

lemma listed_active:
  assumes "ListLinkedAccounts x active_accounts d = Inr (accts, n)" and "distinct (account_ids d)"
  shows "distinct (map a_id accts)"
    "acct \<in> set accts \<Longrightarrow> \<exists>a. account_of (a_id acct) d = Some a \<and> a_status a = StatusActive \<and> a_token_expiry acct = a_token_expiry a"
proof -
  let ?rows = "sort_key (\<lambda>a. (a_created a, a_id a)) (filter (\<lambda>a. a_status a = StatusActive) (d_accounts d))"
  have run: "list_all2 (\<lambda>a b. decryptLinkedAccount x a = Inr b) ?rows accts"
    using assms(1)
    by (simp add: ListLinkedAccounts_def active_accounts_def account_status_of_def opt_eq_def keyset_page_def
        account_cursor_def limit_rows_def thenE_Inr mapE_Inr_iff eq_commute [of "StatusActive"] Let_def)
  then have ids: "map a_id accts = map a_id ?rows"
    by (induction rule: list_all2_induct) (simp_all add: decrypt_keeps)
  show "distinct (map a_id accts)"
    unfolding ids using assms(2) by (auto simp: account_ids_def distinct_map intro: inj_on_subset)
  assume "acct \<in> set accts"
  then obtain a where a: "a \<in> set ?rows" "decryptLinkedAccount x a = Inr acct"
    using run by (metis (mono_tags, lifting) in_set_conv_nth list_all2_conv_all_nth)
  then have "account_of (a_id acct) d = Some a"
    using assms(2) decrypt_keeps [OF a(2)] unfolding account_of_def account_ids_def
    by (intro find_distinct_key [THEN trans [rotated]]) auto
  then show "\<exists>a. account_of (a_id acct) d = Some a \<and> a_status a = StatusActive \<and> a_token_expiry acct = a_token_expiry a"
    using a decrypt_keeps [OF a(2)] by auto
qed

section \<open>Services\<close>

lemma service_rows:
  assumes "distinct (account_ids d)"
  shows "account_ids (refreshAll cfgs errtext x e d) = account_ids d" "account_ids (checkAll vs x e d) = account_ids d"
    and "account_of i d = Some a \<Longrightarrow> a_status a \<noteq> StatusActive \<Longrightarrow> account_of i (refreshAll cfgs errtext x e d) = Some a"
    and "account_of i d = Some a \<Longrightarrow> a_status a \<noteq> StatusActive \<Longrightarrow> account_of i (checkAll vs x e d) = Some a"
proof -
  have out: "i \<notin> a_id ` set accts"
    if "account_of i d = Some a" "a_status a \<noteq> StatusActive" "ListLinkedAccounts x active_accounts d = Inr (accts, n)" for i accts n
    using listed_active(2) [OF that(3) assms] that(1,2) by fastforce
  show "account_ids (refreshAll cfgs errtext x e d) = account_ids d" "account_ids (checkAll vs x e d) = account_ids d"
    by (auto simp: refreshAll_def checkAll_def split: sum.split intro: only_rows_fold(1) only_row_refresh only_row_check)
  show "account_of i (refreshAll cfgs errtext x e d) = Some a" if "account_of i d = Some a" "a_status a \<noteq> StatusActive"
    using that out [OF that] only_rows_fold(2) [of "refresh_one cfgs errtext x e", OF only_row_refresh]
    by (auto simp: refreshAll_def split: sum.split)
  show "account_of i (checkAll vs x e d) = Some a" if "account_of i d = Some a" "a_status a \<noteq> StatusActive"
    using that out [OF that] only_rows_fold(2) [of "check_one vs x e", OF only_row_check]
    by (auto simp: checkAll_def split: sum.split)
qed

lemma service_run_inactive:
  assumes "service_run x d d'" and "distinct (account_ids d)" and "account_of i d = Some a" and "a_status a \<noteq> StatusActive"
  shows "account_of i d' = Some a \<and> account_ids d' = account_ids d"
  using assms by (induction rule: service_run.induct) (simp_all add: service_rows)

lemma check_one_expires:
  assumes "vs (a_platform acct) = Some valid" and "\<not> valid (a_token acct)" and "account_of (a_id acct) d \<noteq> None"
  shows "\<exists>c. account_of (a_id acct) (check_one vs x e acct d) = Some c \<and> a_status c = StatusExpired"
proof -
  let ?p = "no_account_change\<lparr>ul_Status := Some ''expired'', ul_LastValidatedAt := Some (now e)\<rparr>"
  obtain a d' where run: "UpdateLinkedAccount x e (a_id acct) ?p d = Inr (a, d')"
    using assms(3) by (auto simp: UpdateLinkedAccount_def account_status_of_def update_account_def account_of_def Let_def
        no_account_change_def)
  then have "check_one vs x e acct d = d'" using assms(1,2) by (simp add: check_one_def checkAccount_def)
  then show ?thesis using UpdateLinkedAccount_rows(3) [OF run] by (auto simp: account_status_of_def no_account_change_def)
qed

lemma fold_check_expires:
  assumes "acct \<in> set accts" and "distinct (map a_id accts)" and "account_of (a_id acct) d \<noteq> None"
    and "vs (a_platform acct) = Some valid" and "\<not> valid (a_token acct)"
  shows "\<exists>c. account_of (a_id acct) (fold (check_one vs x e) accts d) = Some c \<and> a_status c = StatusExpired"
proof -
  obtain xs ys where split: "accts = xs @ acct # ys" using split_list [OF assms(1)] by blast
  then have out: "a_id acct \<notin> a_id ` set xs" "a_id acct \<notin> a_id ` set ys" using assms(2) by auto
  note keep = only_rows_fold(2) [of "check_one vs x e", OF only_row_check]
  have "account_of (a_id acct) (fold (check_one vs x e) xs d) \<noteq> None" using keep [OF out(1)] assms(3) by simp
  then show ?thesis using check_one_expires [where valid = valid and vs = vs and acct = acct, OF assms(4,5)] keep [OF out(2)] by (simp add: split)
qed

text \<open>
  One failed check is final: when the validator of a platform refuses the token of an active
  account - and the default ones refuse it also when there is no answer at all - the account is
  expired after the check, and no later run of the monitor or of the refresher makes it active
  again.
\<close>

theorem failed_check_is_final:
  assumes "distinct (account_ids d)" and "ListLinkedAccounts x active_accounts d = Inr (accts, n)"
    and "acct \<in> set accts" and "a_platform acct \<in> {PlatformGithub, PlatformJira, PlatformLinear}"
    and "answer (a_platform acct) (a_token acct) = None"
    and "service_run x (checkAll (default_validators answer) x e d) d'"
  shows "\<exists>a. account_of (a_id acct) d' = Some a \<and> a_status a = StatusExpired"
proof -
  let ?vs = "default_validators answer"
  obtain valid where valid: "?vs (a_platform acct) = Some valid" "\<not> valid (a_token acct)"
    using assms(4,5) by (auto simp: default_validators_def validateGitHubToken_def validateJiraToken_def validateLinearToken_def)
  have "account_of (a_id acct) d \<noteq> None" using listed_active(2) [OF assms(2,1,3)] by auto
  then obtain c where c: "account_of (a_id acct) (checkAll ?vs x e d) = Some c" "a_status c = StatusExpired"
    using fold_check_expires [of acct accts d ?vs valid x e] assms(2,3) listed_active(1) [OF assms(2,1)] valid
    by (auto simp: checkAll_def)
  moreover have "distinct (account_ids (checkAll ?vs x e d))" using assms(1) service_rows(2) by simp
  ultimately show ?thesis using service_run_inactive [OF assms(6)] by force
qed

text \<open>
  The refresher leaves a gap: it looks every 30 minutes and only at tokens that expire within 15,
  so a token that expires between the two is left alone by this run and is expired, with its
  account still active, before the next one.
\<close>

theorem refresh_gap:
  assumes "distinct (account_ids d)" and "account_of i d = Some a" and "a_token_expiry a = Some expiry"
    and "now e + refreshWindow < expiry" and "expiry < now e + defaultRefreshInterval"
    and "a_status a = StatusActive" and "now e' = now e + defaultRefreshInterval"
  shows "account_of i (refreshAll cfgs errtext x e d) = Some a \<and> expiry < now e'"
proof (cases "ListLinkedAccounts x active_accounts d")
  case (Inl err)
  then show ?thesis using assms by (simp add: refreshAll_def)
next
  case (Inr r)
  obtain accts n where r: "ListLinkedAccounts x active_accounts d = Inr (accts, n)" using Inr by (cases r) auto
  have idle: "refresh_one cfgs errtext x e acct d1 = d1" if "acct \<in> set accts" "a_id acct = i" for acct d1
    using listed_active(2) [OF r assms(1) that(1)] that(2) assms(2-4) by (auto simp: refresh_one_def refresh_due_def)
  have "account_of i (fold (refresh_one cfgs errtext x e) as d1) = account_of i d1" if "set as \<subseteq> set accts" for as d1
    using that
  proof (induction as arbitrary: d1)
    case (Cons acct as)
    have "account_of i (refresh_one cfgs errtext x e acct d1) = account_of i d1"
      using idle Cons.prems only_row_refresh [of acct d1] by (cases "a_id acct = i") (auto simp: only_row_def)
    then show ?case using Cons by simp
  qed simp
  then show ?thesis using assms r by (simp add: refreshAll_def)
qed

text \<open>The server starts the refresher without configurations: it then refreshes nothing.\<close>

lemma refresher_without_configs:
  "refreshAll \<lparr>rc_GitHub = None, rc_Jira = None, rc_Linear = None\<rparr> errtext x e d = d"
proof -
  have quiet: "\<not> isDefinitiveAuthError (''no OAuth config for platform '' @ platform_str p)" for p
    by (cases p) (simp_all add: isDefinitiveAuthError_def has_infix_def platform_str_def upt_rec)
  have "refresh_one \<lparr>rc_GitHub = None, rc_Jira = None, rc_Linear = None\<rparr> errtext x e acct d1 = d1" for acct d1
    using quiet by (auto simp: refresh_one_def refreshAccount_def configForPlatform_def split: platform.split)
  then have "fold (refresh_one \<lparr>rc_GitHub = None, rc_Jira = None, rc_Linear = None\<rparr> errtext x e) accts d1 = d1" for accts d1
    by (induction accts arbitrary: d1) simp_all
  then show ?thesis by (simp add: refreshAll_def split: sum.split)
qed

section \<open>Instances\<close>

definition ex_oauth_account :: account where
  "ex_oauth_account = \<lparr>a_id = 30, a_collection = 1, a_platform = PlatformGithub, a_token = ''t'', a_method = AuthMethodOauth,
     a_scopes = [], a_remote_user = [], a_status = StatusActive, a_created = 0, a_updated = 0,
     a_expires = None, a_refresh = ''r'', a_token_expiry = Some 1205000000000, a_granted = [], a_validated = None\<rparr>"

abbreviation ex_accounts :: db where
  "ex_accounts \<equiv> ex_db\<lparr>d_accounts := [ex_oauth_account]\<rparr>"

theorem failed_check_is_final_witness:
  "\<exists>a. account_of 30 (refreshAll \<lparr>rc_GitHub = None, rc_Jira = None, rc_Linear = None\<rparr> (\<lambda>_. []) None ex_env (checkAll (default_validators (\<lambda>_ _. None)) None ex_env ex_accounts)) = Some a
     \<and> a_status a = StatusExpired"
proof -
  have "ListLinkedAccounts None active_accounts ex_accounts = Inr ([ex_oauth_account], 1)"
    by (simp add: ListLinkedAccounts_def active_accounts_def account_status_of_def opt_eq_def keyset_page_def
        account_cursor_def limit_rows_def decryptLinkedAccount_def ex_oauth_account_def)
  from failed_check_is_final [OF _ this _ _ _ service_run.refresh [OF service_run.idle]] show ?thesis
    by (simp add: account_ids_def) (simp add: ex_oauth_account_def)
qed

theorem refresh_gap_witness:
  "account_of 30 (refreshAll \<lparr>rc_GitHub = None, rc_Jira = None, rc_Linear = None\<rparr> (\<lambda>_. []) None ex_env ex_accounts) = Some ex_oauth_account"
  using refresh_gap [of ex_accounts 30 ex_oauth_account 1205000000000 ex_env "ex_env\<lparr>now := 1805000000000\<rparr>"]
  by (simp add: account_ids_def account_of_def ex_oauth_account_def ex_env_def refreshWindow_def defaultRefreshInterval_def
      one_minute_def one_second_def)

end
