(* ===== verification/FT_Decompose.thy ===== *)
theory FT_Decompose
  imports FT_ServiceRows FT_Session
begin

text \<open>
  The parts of \<open>internal/decomposer\<close> that run in one goroutine: reading the plan out of the
  answer of a language model (\<open>parser.go\<close>), the prompt (\<open>prompt.go\<close>) and the client that
  writes the tasks of a plan with the RPCs of the service (\<open>writer.go\<close>). Decoding JSON into
  the structs, the text of the built-in prompt and the model itself are parameters.
\<close>

section \<open>Plans\<close>

record Subtask =
  sub_Slug :: string
  sub_Title :: string
  sub_Description :: string
  sub_Terminal :: bool

record Group =
  gr_Num :: int
  gr_Tasks :: "Subtask list"

record DecompositionResult =
  dr_Terminal :: "bool option"
  dr_Groups :: "Group list"

datatype plan_err =
    NoObject | NoClosingBrace | BadJson | NoGroups | NotAscending | NoTasks
  | EmptySlug | DuplicateSlug | EmptyTitle | EmptyDescription

fun IndexByte :: "string \<Rightarrow> char \<Rightarrow> nat option" where
  "IndexByte [] c = None"
| "IndexByte (x # xs) c = (if x = c then Some 0 else map_option Suc (IndexByte xs c))"

fun LastIndexByte :: "string \<Rightarrow> char \<Rightarrow> nat option" where
  "LastIndexByte [] c = None"
| "LastIndexByte (x # xs) c =
    (case LastIndexByte xs c of
       Some i \<Rightarrow> Some (Suc i) | None \<Rightarrow> if x = c then Some 0 else None)"

definition extractJSON :: "string \<Rightarrow> plan_err + string" where
  "extractJSON raw =
    (case IndexByte raw (CHR ''{'') of
       None \<Rightarrow> Inl NoObject
     | Some i \<Rightarrow>
        (case LastIndexByte raw (CHR ''}'') of
           None \<Rightarrow> Inl NoClosingBrace
         | Some j \<Rightarrow>
             if j \<le> i then Inl NoClosingBrace
             else Inr (drop i (List.take (j + 1) raw))))"

text \<open>The inner loop of \<open>validateResult\<close>, with the map of the slugs seen as a list.\<close>

definition check_task :: "string list \<Rightarrow> Subtask \<Rightarrow> plan_err + string list" where
  "check_task slugs t =
    (if sub_Slug t = [] then Inl EmptySlug
     else if List.member slugs (sub_Slug t) then Inl DuplicateSlug
     else if sub_Title t = [] then Inl EmptyTitle
     else if sub_Description t = [] then Inl EmptyDescription
     else Inr (sub_Slug t # slugs))"

definition check_group :: "string list \<times> int \<Rightarrow> Group \<Rightarrow> plan_err + (string list \<times> int)" where
  "check_group s g =
    (if gr_Num g < snd s then Inl NotAscending
     else if gr_Tasks g = [] then Inl NoTasks
     else thenE (foldE check_task (fst s) (gr_Tasks g)) (\<lambda>slugs. Inr (slugs, gr_Num g)))"

definition validateResult :: "DecompositionResult \<Rightarrow> plan_err + unit" where
  "validateResult r =
    (if dr_Terminal r = Some True then Inr ()
     else if dr_Groups r = [] then Inl NoGroups
     else thenE (foldE check_group ([], - 1) (dr_Groups r)) (\<lambda>_. Inr ()))"

text \<open>\<open>unmarshal\<close> is \<open>json.Unmarshal\<close> into a \<open>DecompositionResult\<close>.\<close>

definition ParseResult :: "(string \<Rightarrow> DecompositionResult option) \<Rightarrow> string \<Rightarrow> plan_err + DecompositionResult" where
  "ParseResult unmarshal raw =
    thenE (extractJSON raw) (\<lambda>js.
    thenE (optE BadJson (unmarshal js)) (\<lambda>r.
    thenE (validateResult r) (\<lambda>_. Inr r)))"

section \<open>The prompt\<close>

record Message =
  ms_Role :: string
  ms_Content :: string

definition newline :: string where "newline = [CHR 0x0A]"

fun Join :: "string list \<Rightarrow> string \<Rightarrow> string" where
  "Join [] sep = []"
| "Join [x] sep = x"
| "Join (x # y # ys) sep = x @ sep @ Join (y # ys) sep"

definition level_part :: "nat \<times> string \<Rightarrow> string" where
  "level_part = (\<lambda>(i, parent). ''### Level '' @ itoa (int i) @ newline @ parent @ newline)"

definition BuildPrompt :: "string \<Rightarrow> string \<Rightarrow> string list \<Rightarrow> string \<Rightarrow> int \<Rightarrow> Message list" where
  "BuildPrompt defaultSystemPrompt systemPrompt contextChain taskText depth =
    [\<lparr>ms_Role = ''system'', ms_Content = (if systemPrompt = [] then defaultSystemPrompt else systemPrompt)\<rparr>,
     \<lparr>ms_Role = ''user'', ms_Content =
        Join ((if contextChain = [] then []
               else [''## Parent Task Chain (for context)'' @ newline]
                 @ map level_part (zip [0..<length contextChain] contextChain) @ [''---'' @ newline])
              @ [''## Task to Decompose (depth '' @ itoa depth @ '')'' @ newline @ newline @ taskText]) newline\<rparr>]"

section \<open>The client that writes tasks\<close>

record GRPCWriter =
  gw_collectionID :: string
  gw_token :: string
  gw_iapToken :: string

text \<open>The metadata \<open>authCtx\<close> puts on a call, as the server reads it.\<close>

definition authCtx :: "GRPCWriter \<Rightarrow> md" where
  "authCtx w =
    (\<lambda>_. [])(''authorization'' := [bearer @ (if gw_iapToken w \<noteq> [] then gw_iapToken w else gw_token w)],
             ''x-farmtable-token'' := [gw_token w])"

text \<open>The arguments of \<open>TaskWriter.CreateTask\<close>.\<close>

record new_task_args =
  nt_name :: string
  nt_description :: string
  nt_parent :: string
  nt_blockedBy :: "string list"

definition stage_triage_number :: int where "stage_triage_number = 1"

definition CreateTask_request :: "GRPCWriter \<Rightarrow> new_task_args \<Rightarrow> CreateTaskRequest" where
  "CreateTask_request w q =
    \<lparr>rc_Name = nt_name q, rc_CollectionId = gw_collectionID w, rc_Description = nt_description q,
     rc_AcceptanceCriteria = None, rc_Stage = Some stage_triage_number, rc_Priority = None,
     rc_Type = [], rc_AssigneeIds = [], rc_Labels = [],
     rc_ParentTaskId = (if nt_parent q \<noteq> [] then Some (nt_parent q) else None),
     rc_DueDate = None, rc_StartDate = None, rc_HoldReason = None, rc_Rank = None,
     rc_BlocksTaskIds = [], rc_BlockedByTaskIds = nt_blockedBy q, rc_Repo = [], rc_Branch = []\<rparr>"

datatype write_err = Refused code | Unreachable

text \<open>
  A call goes through the interceptor of a server with the token lookup \<open>lk\<close>, which reads
  the database, to its handler. \<open>serve_create\<close> is the call of \<open>GRPCWriter.CreateTask\<close>, with
  the identifier it returns and the database after it; the environment \<open>e\<close> is the server's
  clock and source of identifiers during the call. The answer of a call that the server
  served may be lost on the way, and a call may never arrive.
\<close>

type_synonym db_lookup = "db \<Rightarrow> token_lookup option"

definition gw_call :: "db_lookup \<Rightarrow> sha \<Rightarrow> GRPCWriter \<Rightarrow> time \<Rightarrow> string \<Rightarrow> db \<Rightarrow> (ctx \<Rightarrow> code + 'a) \<Rightarrow> code + 'a" where
  "gw_call lk sha256 w tnow meth d handler =
    TokenAuthInterceptor (lk d) sha256 tnow (''/farmtable.v1.FarmTableService/'' @ meth)
      (Some (authCtx w)) open_access_ctx handler"

definition serve_create ::
  "lib \<Rightarrow> db_lookup \<Rightarrow> sha \<Rightarrow> GRPCWriter \<Rightarrow> env \<Rightarrow> new_task_args \<Rightarrow> db \<Rightarrow> code + (string \<times> db)" where
  "serve_create L lk sha256 w e q d =
    gw_call lk sha256 w (now e) ''CreateTask'' d
      (\<lambda>c. thenE (srv_CreateTask L e c (CreateTask_request w q) d) (\<lambda>(t, _, d'). Inr (pt_Id t, d')))"

inductive grpc_create ::
  "lib \<Rightarrow> db_lookup \<Rightarrow> sha \<Rightarrow> GRPCWriter \<Rightarrow> new_task_args \<Rightarrow> db \<Rightarrow> write_err + string \<Rightarrow> db \<Rightarrow> bool"
  for L lk sha256 w where
  answered: "serve_create L lk sha256 w e q d = Inr (i, d') \<Longrightarrow> grpc_create L lk sha256 w q d (Inr i) d'"
| refused: "serve_create L lk sha256 w e q d = Inl c \<Longrightarrow> grpc_create L lk sha256 w q d (Inl (Refused c)) d"
| not_sent: "grpc_create L lk sha256 w q d (Inl Unreachable) d"
| answer_lost: "serve_create L lk sha256 w e q d = Inr (i, d') \<Longrightarrow> grpc_create L lk sha256 w q d (Inl Unreachable) d'"

inductive_cases grpc_createE: "grpc_create L lk sha256 w q d r d'"

section \<open>Finding the collection\<close>

definition hex_digit :: "char \<Rightarrow> bool" where
  "hex_digit c \<longleftrightarrow> (CHR ''0'' \<le> c \<and> c \<le> CHR ''9'') \<or> (CHR ''a'' \<le> c \<and> c \<le> CHR ''f'')
     \<or> (CHR ''A'' \<le> c \<and> c \<le> CHR ''F'')"

definition isUUID :: "string \<Rightarrow> bool" where
  "isUUID s \<longleftrightarrow> length s = 36
     \<and> list_all (\<lambda>i. if i \<in> {8, 13, 18, 23} then s ! i = CHR ''-'' else hex_digit (s ! i)) [0..<36]"

datatype resolve_err = ListFailed code | CollectionNotFound

text \<open>
  The loop over the pages of \<open>ListCollections\<close>, on a database that stays as it is;
  \<open>equalFold\<close> is \<open>strings.EqualFold\<close>.
\<close>

partial_function (option) resolve_pages ::
  "(cursor page_token \<Rightarrow> code + (pb_collection page \<times> cursor option)) \<Rightarrow> (string \<Rightarrow> string \<Rightarrow> bool) \<Rightarrow> string
    \<Rightarrow> cursor page_token \<Rightarrow> (resolve_err + string) option" where
  "resolve_pages lst equalFold flag tok =
    (case lst tok of
       Inl k \<Rightarrow> Some (Inl (ListFailed k))
     | Inr (pg, nxt) \<Rightarrow>
        (case find (\<lambda>c. equalFold (pc_Name c) flag) (pg_Items pg) of
           Some c \<Rightarrow> Some (Inr (pc_Id c))
         | None \<Rightarrow>
            (case nxt of
               None \<Rightarrow> Some (Inl CollectionNotFound)
             | Some cur \<Rightarrow> resolve_pages lst equalFold flag (PageToken cur))))"

definition ResolveCollection ::
  "lib \<Rightarrow> db_lookup \<Rightarrow> sha \<Rightarrow> (string \<Rightarrow> string \<Rightarrow> bool) \<Rightarrow> GRPCWriter \<Rightarrow> time \<Rightarrow> string \<Rightarrow> db
    \<Rightarrow> (resolve_err + string) option" where
  "ResolveCollection L lk sha256 equalFold w tnow flag d =
    (if isUUID flag then Some (Inr flag)
     else resolve_pages
       (\<lambda>tok. gw_call lk sha256 w tnow ''ListCollections'' d (\<lambda>c. srv_ListCollections L c None 100 tok d))
       equalFold flag NoToken)"

definition gw_CreateCollection ::
  "lib \<Rightarrow> db_lookup \<Rightarrow> sha \<Rightarrow> GRPCWriter \<Rightarrow> env \<Rightarrow> string \<Rightarrow> db \<Rightarrow> code + (string \<times> db)" where
  "gw_CreateCollection L lk sha256 w e name d =
    gw_call lk sha256 w (now e) ''CreateCollection'' d
      (\<lambda>c. thenE (srv_CreateCollection L e c
             \<lparr>rn_Name = name, rn_Description = [], rn_Platform = None, rn_RemoteId = None\<rparr> d)
             (\<lambda>(co, d'). Inr (pc_Id co, d')))"

text \<open>\<open>resolveOrCreateCollection\<close> of the command: every error of the search leads to a new collection.\<close>

definition resolveOrCreateCollection ::
  "lib \<Rightarrow> db_lookup \<Rightarrow> sha \<Rightarrow> (string \<Rightarrow> string \<Rightarrow> bool) \<Rightarrow> GRPCWriter \<Rightarrow> env \<Rightarrow> string \<Rightarrow> db
    \<Rightarrow> (code + (string \<times> db)) option" where
  "resolveOrCreateCollection L lk sha256 equalFold w e flag d =
    (case ResolveCollection L lk sha256 equalFold w (now e) flag d of
       None \<Rightarrow> None
     | Some (Inr i) \<Rightarrow> Some (Inr (i, d))
     | Some (Inl _) \<Rightarrow> Some (gw_CreateCollection L lk sha256 w e flag d))"

text \<open>The title of the root task: the first line without the marks of a heading.\<close>

definition deriveTitle :: "string \<Rightarrow> string" where
  "deriveTitle s =
    (let title = dropWhile (\<lambda>c. c = CHR ''#'' \<or> c = CHR '' '')
                   (TrimSpace (takeWhile (\<lambda>c. c \<noteq> CHR 0x0A) s));
         title = (if 100 < length title then List.take 97 title @ ''...'' else title)
     in if title = [] then ''Decomposition Root'' else title)"

end
