(* ===== verification/FT_Engine.thy ===== *)
theory FT_Engine
  imports FT_Decompose
begin

text \<open>
  The engine of the decomposer (\<open>internal/decomposer/engine.go\<close>): goroutines that ask the
  model for a plan, write its tasks, and start a goroutine for each task that is to be
  decomposed further. A goroutine is a value of \<open>gor\<close>: running at a program point, waiting
  in \<open>wg.Wait\<close> for the goroutines it started, or returned. What the goroutines share, the
  semaphore, the context, the counters and the server's database, is a record, and \<open>gstep\<close>
  is one step of any goroutine. The answers of the model and of the writer are not determined.
\<close>

record EngineConfig =
  ec_SystemPrompt :: string
  ec_MaxDepth :: int
  ec_Concurrency :: int

record Engine =
  en_systemPrompt :: string
  en_maxDepth :: int
  en_concurrency :: int

definition NewEngine :: "EngineConfig \<Rightarrow> Engine" where
  "NewEngine cfg =
    \<lparr>en_systemPrompt = ec_SystemPrompt cfg,
     en_maxDepth = (if ec_MaxDepth cfg \<le> 0 then 3 else ec_MaxDepth cfg),
     en_concurrency = (if ec_Concurrency cfg \<le> 0 then 4 else ec_Concurrency cfg)\<rparr>"

text \<open>What the engine takes from outside: the built-in prompt and \<open>json.Unmarshal\<close>.\<close>

record plan_lib =
  pl_prompt :: string
  pl_unmarshal :: "string \<Rightarrow> DecompositionResult option"

datatype llm_reply = Response string | LLMError int | OtherLLMError

definition IsTransient :: "int \<Rightarrow> bool" where
  "IsTransient statusCode \<longleftrightarrow> statusCode = 429 \<or> 500 \<le> statusCode"

definition transient :: "llm_reply \<Rightarrow> bool" where
  "transient r = (case r of LLMError c \<Rightarrow> IsTransient c | _ \<Rightarrow> False)"

datatype 'e engine_err = CreatingRoot 'e | ContextDone | LLMFailed | CreatingTask 'e

definition maxRetries :: nat where "maxRetries = 3"

section \<open>Goroutines\<close>

record job =
  jb_text :: string
  jb_chain :: "string list"
  jb_parent :: string
  jb_depth :: nat

text \<open>
  The program points of \<open>Run\<close> and \<open>decompose\<close>: before the root task is written, at the
  entry, asleep before a retry, before the semaphore, in the call of the model (with the
  number of the attempt and whether it is the corrective prompt), and in the loop that writes
  the tasks (what is left of the group, the groups after it, the identifiers of the group
  before and of this one, and all tasks written so far).
\<close>

datatype point =
    Rooting string
  | Entered
  | Backoff "Message list" nat bool
  | Acquire "Message list" nat bool
  | InCall "Message list" nat bool
  | Creating "Subtask list" "Group list" "string list" "string list" "(Subtask \<times> string) list"

datatype 'e gor = Run job point | Waiting "'e gor list" "'e engine_err option" | End "'e engine_err option"

record 'w shared =
  sh_slots :: nat
  sh_cancelled :: bool
  sh_totalTasks :: int
  sh_terminalTasks :: int
  sh_maxDepthSeen :: int
  sh_world :: 'w

definition corrective_message :: Message where
  "corrective_message = \<lparr>ms_Role = ''user'', ms_Content =
     ''Your previous response was not valid JSON. Please respond with ONLY the JSON object as specified in the system prompt, with no other text, markdown fences, or commentary.''\<rparr>"

definition prompt_of :: "plan_lib \<Rightarrow> Engine \<Rightarrow> job \<Rightarrow> Message list" where
  "prompt_of P E j = BuildPrompt (pl_prompt P) (en_systemPrompt E) (jb_chain j) (jb_text j) (int (jb_depth j))"

text \<open>A failure of the model ends the goroutine; in the corrective retry the task just becomes a leaf.\<close>

definition llm_failed :: "bool \<Rightarrow> 'e engine_err \<Rightarrow> 'e gor" where
  "llm_failed corrective err = (if corrective then End None else End (Some err))"

definition enter :: "plan_lib \<Rightarrow> Engine \<Rightarrow> bool \<Rightarrow> job \<Rightarrow> 'e gor" where
  "enter P E cancelled j =
    (if en_maxDepth E \<le> int (jb_depth j) then End None
     else if cancelled then End (Some ContextDone)
     else Run j (Acquire (prompt_of P E j) 0 False))"

text \<open>Where the goroutine is after the \<open>k\<close>-th attempt got the reply \<open>r\<close>.\<close>

definition after_reply :: "plan_lib \<Rightarrow> job \<Rightarrow> Message list \<Rightarrow> nat \<Rightarrow> bool \<Rightarrow> llm_reply \<Rightarrow> 'e gor" where
  "after_reply P j msgs k corrective r =
    (case r of
       Response txt \<Rightarrow>
        (case ParseResult (pl_unmarshal P) txt of
           Inl _ \<Rightarrow> if corrective then End None else Run j (Acquire (msgs @ [corrective_message]) 0 True)
         | Inr res \<Rightarrow>
             if dr_Terminal res = Some True then End None
             else Run j (Creating [] (dr_Groups res) [] [] []))
     | _ \<Rightarrow>
        if transient r \<and> k < maxRetries then Run j (Backoff msgs (k + 1) corrective)
        else llm_failed corrective LLMFailed)"

definition judged_terminal :: "plan_lib \<Rightarrow> llm_reply \<Rightarrow> bool" where
  "judged_terminal P r =
    (case r of Response txt \<Rightarrow>
       (case ParseResult (pl_unmarshal P) txt of Inr res \<Rightarrow> dr_Terminal res = Some True | _ \<Rightarrow> False)
     | _ \<Rightarrow> False)"

definition task_args :: "job \<Rightarrow> Subtask \<Rightarrow> string list \<Rightarrow> new_task_args" where
  "task_args j st prev = \<lparr>nt_name = sub_Title st, nt_description = sub_Description st,
     nt_parent = jb_parent j, nt_blockedBy = prev\<rparr>"

definition root_args :: "string \<Rightarrow> string \<Rightarrow> new_task_args" where
  "root_args title inputText = \<lparr>nt_name = title, nt_description = inputText, nt_parent = [], nt_blockedBy = []\<rparr>"

definition child_job :: "job \<Rightarrow> Subtask \<times> string \<Rightarrow> job" where
  "child_job j c = \<lparr>jb_text = sub_Description (fst c), jb_chain = jb_chain j @ [jb_text j],
     jb_parent = snd c, jb_depth = jb_depth j + 1\<rparr>"

definition children :: "job \<Rightarrow> (Subtask \<times> string) list \<Rightarrow> 'e gor list" where
  "children j allCreated =
    map (\<lambda>c. Run (child_job j c) Entered) (filter (\<lambda>c. \<not> sub_Terminal (fst c)) allCreated)"

definition wrote :: "bool \<Rightarrow> 'w \<Rightarrow> 'w shared \<Rightarrow> 'w shared" where
  "wrote term w s = s\<lparr>sh_world := w, sh_totalTasks := int32 (sh_totalTasks s + 1),
     sh_terminalTasks := (if term then int32 (sh_terminalTasks s + 1) else sh_terminalTasks s)\<rparr>"

text \<open>
  A successful write, as the engine sees it: the identifier it got, the arguments, and the
  depth in the plan, 0 for the root.
\<close>

record creation =
  cr_id :: string
  cr_args :: new_task_args
  cr_depth :: nat

section \<open>Steps\<close>

inductive gstep ::
  "plan_lib \<Rightarrow> Engine \<Rightarrow> (new_task_args \<Rightarrow> 'w \<Rightarrow> 'e + string \<Rightarrow> 'w \<Rightarrow> bool)
    \<Rightarrow> 'w shared \<Rightarrow> 'e gor \<Rightarrow> creation option \<Rightarrow> 'w shared \<Rightarrow> 'e gor \<Rightarrow> bool"
  for P E create where
  root_written:
    "create (root_args title (jb_text j)) (sh_world s) (Inr i) w \<Longrightarrow>
     gstep P E create s (Run j (Rooting title))
       (Some \<lparr>cr_id = i, cr_args = root_args title (jb_text j), cr_depth = 0\<rparr>)
       (wrote False w s) (Run (j\<lparr>jb_parent := i\<rparr>) Entered)"
| root_failed:
    "create (root_args title (jb_text j)) (sh_world s) (Inl err) w \<Longrightarrow>
     gstep P E create s (Run j (Rooting title)) None (s\<lparr>sh_world := w\<rparr>) (End (Some (CreatingRoot err)))"
| entry:
    "gstep P E create s (Run j Entered) None
       (s\<lparr>sh_maxDepthSeen := max (sh_maxDepthSeen s) (int32 (int (jb_depth j)))\<rparr>)
       (enter P E (sh_cancelled s) j)"
| slept:
    "gstep P E create s (Run j (Backoff msgs k c)) None s (Run j (Acquire msgs k c))"
| sleep_cancelled:
    "sh_cancelled s \<Longrightarrow>
     gstep P E create s (Run j (Backoff msgs k c)) None s (llm_failed c ContextDone)"
| acquired:
    "int (sh_slots s) < en_concurrency E \<Longrightarrow>
     gstep P E create s (Run j (Acquire msgs k c)) None
       (s\<lparr>sh_slots := sh_slots s + 1\<rparr>) (Run j (InCall msgs k c))"
| acquire_cancelled:
    "sh_cancelled s \<Longrightarrow>
     gstep P E create s (Run j (Acquire msgs k c)) None s (llm_failed c ContextDone)"
| call_returned:
    "gstep P E create s (Run j (InCall msgs k c)) None
       (s\<lparr>sh_slots := sh_slots s - 1, sh_terminalTasks :=
            (if judged_terminal P r then int32 (sh_terminalTasks s + 1) else sh_terminalTasks s)\<rparr>)
       (after_reply P j msgs k c r)"
| task_written:
    "create (task_args j st prev) (sh_world s) (Inr i) w \<Longrightarrow>
     gstep P E create s (Run j (Creating (st # sts) gs prev cur made))
       (Some \<lparr>cr_id = i, cr_args = task_args j st prev, cr_depth = jb_depth j + 1\<rparr>)
       (wrote (sub_Terminal st) w s) (Run j (Creating sts gs prev (cur @ [i]) (made @ [(st, i)])))"
| task_failed:
    "create (task_args j st prev) (sh_world s) (Inl err) w \<Longrightarrow>
     gstep P E create s (Run j (Creating (st # sts) gs prev cur made)) None
       (s\<lparr>sh_world := w\<rparr>) (End (Some (CreatingTask err)))"
| next_group:
    "gstep P E create s (Run j (Creating [] (g # gs) prev cur made)) None
       s (Run j (Creating (gr_Tasks g) gs cur [] made))"
| spawned:
    "gstep P E create s (Run j (Creating [] [] prev cur made)) None s (Waiting (children j made) None)"
| child:
    "gstep P E create s g l s' g' \<Longrightarrow>
     gstep P E create s (Waiting (xs @ g # ys) err) l s' (Waiting (xs @ g' # ys) err)"
| child_returned:
    "gstep P E create s (Waiting (xs @ End r # ys) err) None
       s (Waiting (xs @ ys) (case err of None \<Rightarrow> r | Some _ \<Rightarrow> err))"
| all_returned:
    "gstep P E create s (Waiting [] err) None s (End err)"

text \<open>A step of the program: of a goroutine, or the signal handler cancels the context.\<close>

inductive engine_step ::
  "plan_lib \<Rightarrow> Engine \<Rightarrow> (new_task_args \<Rightarrow> 'w \<Rightarrow> 'e + string \<Rightarrow> 'w \<Rightarrow> bool)
    \<Rightarrow> 'w shared \<times> 'e gor \<Rightarrow> creation option \<Rightarrow> 'w shared \<times> 'e gor \<Rightarrow> bool"
  for P E create where
  goroutine: "gstep P E create s g l s' g' \<Longrightarrow> engine_step P E create (s, g) l (s', g')"
| interrupted: "\<not> sh_cancelled s \<Longrightarrow> engine_step P E create (s, g) None (s\<lparr>sh_cancelled := True\<rparr>, g)"

definition Run_start :: "string \<Rightarrow> string \<Rightarrow> 'w \<Rightarrow> 'w shared \<times> 'e gor" where
  "Run_start inputText rootTitle w =
    (\<lparr>sh_slots = 0, sh_cancelled = False, sh_totalTasks = 0, sh_terminalTasks = 0,
      sh_maxDepthSeen = 0, sh_world = w\<rparr>,
     Run \<lparr>jb_text = inputText, jb_chain = [], jb_parent = [], jb_depth = 0\<rparr> (Rooting rootTitle))"

text \<open>The runs of a configuration, with the tasks written so far in their order.\<close>

inductive engine_run ::
  "plan_lib \<Rightarrow> Engine \<Rightarrow> (new_task_args \<Rightarrow> 'w \<Rightarrow> 'e + string \<Rightarrow> 'w \<Rightarrow> bool)
    \<Rightarrow> 'w shared \<times> 'e gor \<Rightarrow> creation list \<Rightarrow> 'w shared \<times> 'e gor \<Rightarrow> bool"
  for P E create x where
  begun: "engine_run P E create x [] x"
| more: "engine_run P E create x tr y \<Longrightarrow> engine_step P E create y l z
    \<Longrightarrow> engine_run P E create x (tr @ (case l of None \<Rightarrow> [] | Some c \<Rightarrow> [c])) z"

section \<open>Counting\<close>

fun calls :: "'e gor \<Rightarrow> nat" where
  "calls (Run j pt) = (case pt of InCall _ _ _ \<Rightarrow> 1 | _ \<Rightarrow> 0)"
| "calls (Waiting gs err) = sum_list (map calls gs)"
| "calls (End r) = 0"

end
