(* ===== verification/FT_EngineProps.thy ===== *)
theory FT_EngineProps
  imports FT_Engine "HOL-Library.Multiset_Order"
begin

text \<open>
  What holds of every run of the decomposer: it ends, whatever the model and the writer
  answer; the semaphore bounds the calls and blocks no one for ever; and the tasks it writes
  form a tree of bounded depth in which each group of subtasks waits for the group before it.
\<close>

section \<open>Every run ends\<close>

text \<open>
  The weight of a goroutine is a multiset of triples: the levels below it, how far it is in
  \<open>decompose\<close>, and the tasks left to write. A step replaces triples by smaller ones.
\<close>

definition attempt_weight :: "nat \<Rightarrow> bool \<Rightarrow> nat" where
  "attempt_weight k c = (if c then 1 else 14) + 3 * (maxRetries - k)"

definition point_weight :: "nat \<Rightarrow> nat \<Rightarrow> point \<Rightarrow> nat \<times> nat \<times> nat" where
  "point_weight D d pt =
    (case pt of
       Rooting t \<Rightarrow> (D - d, 31, 0)
     | Entered \<Rightarrow> if D \<le> d then (0, 0, 1) else (D - d, 30, 0)
     | Backoff m k c \<Rightarrow> (D - d, attempt_weight k c + 3, 0)
     | Acquire m k c \<Rightarrow> (D - d, attempt_weight k c + 2, 0)
     | InCall m k c \<Rightarrow> (D - d, attempt_weight k c + 1, 0)
     | Creating sts gs prev cur made \<Rightarrow>
         (D - d, 1, length sts + sum_list (map (\<lambda>g. Suc (length (gr_Tasks g))) gs)))"

fun weight :: "nat \<Rightarrow> 'e gor \<Rightarrow> (nat \<times> nat \<times> nat) multiset" where
  "weight D (Run j pt) = {#point_weight D (jb_depth j) pt#}"
| "weight D (Waiting gs err) = {#(0, 0, 1)#} + sum_list (map (weight D) gs)"
| "weight D (End r) = {#(0, 0, 0)#}"

lemma less_of_single:
  fixes y :: "nat \<times> nat \<times> nat"
  assumes "\<forall>x\<in>#M. x < y"
  shows "M < {#y#}"
proof -
  have "multp (<) ({#} + M) ({#} + {#y#})"
    by (rule one_step_implies_multp) (use assms in auto)
  then show ?thesis by (simp add: less_multiset_def)
qed

lemma weight_child_jobs:
  "y \<in> set (children j made) \<Longrightarrow> x \<in># weight D y \<Longrightarrow>
    x = (if D \<le> jb_depth j + 1 then (0, 0, 1) else (D - (jb_depth j + 1), 30, 0))"
  by (auto simp: children_def child_job_def point_weight_def split: if_splits)

lemma weight_spawned:
  "weight D (Waiting (children j made) None) < {#point_weight D (jb_depth j) (Creating [] [] prev cur made)#}"
  by (rule less_of_single)
     (auto simp: point_weight_def less_prod_def dest!: weight_child_jobs split: if_splits)

lemma weight_enter:
  assumes "D = nat (en_maxDepth E)" and "0 < en_maxDepth E"
  shows "weight D (enter P E cancelled j) < {#point_weight D (jb_depth j) Entered#}"
  using assms
  by (intro less_of_single)
     (auto simp: enter_def point_weight_def attempt_weight_def maxRetries_def less_prod_def split: if_splits)

lemma weight_after_reply:
  "weight D (after_reply P j msgs k c r) < {#point_weight D (jb_depth j) (InCall msgs k c)#}"
  by (intro less_of_single)
     (auto simp: after_reply_def llm_failed_def point_weight_def attempt_weight_def maxRetries_def
        less_prod_def split: llm_reply.splits sum.splits if_splits)

lemma weight_decreases:
  assumes "gstep P E create s g l s' g'" and "D = nat (en_maxDepth E)" and "0 < en_maxDepth E"
  shows "weight D g' < weight D g"
  using assms
proof (induction rule: gstep.induct)
  case (entry s j)
  then show ?case unfolding weight.simps by (rule weight_enter)
next
  case (call_returned s j msgs k c r)
  show ?case unfolding weight.simps by (rule weight_after_reply)
next
  case (spawned s j prev cur made)
  show ?case unfolding weight.simps(1) by (rule weight_spawned)
next
  case (child s g l s' g' xs ys err)
  then show ?case by simp
next
  case (child_returned s xs r ys err)
  have "sum_list (map (weight D) (xs @ ys)) < sum_list (map (weight D) (xs @ End r # ys))"
    by (simp add: add.assoc)
  then show ?case by simp
qed (auto intro!: less_of_single simp: llm_failed_def point_weight_def attempt_weight_def
      maxRetries_def less_prod_def split: if_splits)

definition run_measure :: "Engine \<Rightarrow> 'w shared \<times> 'e gor \<Rightarrow> nat \<times> (nat \<times> nat \<times> nat) multiset" where
  "run_measure E x = (if sh_cancelled (fst x) then 0 else 1, weight (nat (en_maxDepth E)) (snd x))"

lemma gstep_cancelled: "gstep P E create s g l s' g' \<Longrightarrow> sh_cancelled s' = sh_cancelled s"
  by (induction rule: gstep.induct) (simp_all add: wrote_def)

lemma engine_step_decreases:
  "engine_step P E create x l y \<Longrightarrow> 0 < en_maxDepth E \<Longrightarrow> run_measure E y < run_measure E x"
  by (induction rule: engine_step.induct)
     (auto simp: run_measure_def less_prod_def gstep_cancelled intro: weight_decreases)

lemma NewEngine_positive: "0 < en_maxDepth (NewEngine cfg)" "0 < en_concurrency (NewEngine cfg)"
  by (simp_all add: NewEngine_def)

text \<open>
  C40. There is no infinite run of the engine from any state, whatever the model answers and
  whatever the writer does: the depth limit and the limited retries bound it.
\<close>

theorem engine_terminates:
  "wf {(y, x). \<exists>l. engine_step P (NewEngine cfg) create x l y}"
proof (rule wf_subset)
  show "wf (inv_image {(a, b). a < b} (run_measure (NewEngine cfg)))"
    by (rule wf_inv_image) (rule wf)
qed (auto simp: inv_image_def dest: engine_step_decreases [OF _ NewEngine_positive(1)])

section \<open>The semaphore\<close>

lemma gstep_slots:
  "gstep P E create s g l s' g' \<Longrightarrow> calls g \<le> sh_slots s
    \<Longrightarrow> calls g' \<le> sh_slots s' \<and> sh_slots s' + calls g = sh_slots s + calls g'
      \<and> (int (sh_slots s) \<le> en_concurrency E \<longrightarrow> int (sh_slots s') \<le> en_concurrency E)"
  by (induction rule: gstep.induct)
     (auto simp: wrote_def enter_def llm_failed_def after_reply_def children_def comp_def
       split: llm_reply.splits sum.splits)

lemma calls_le: "g \<in> set gs \<Longrightarrow> calls g \<le> sum_list (map calls gs)"
  by (simp add: member_le_sum_list)

lemma some_calls: "0 < sum_list (map calls gs) \<Longrightarrow> \<exists>g\<in>set gs. 0 < calls g"
  by (induction gs) auto

lemma engine_run_invariant:
  assumes "engine_run P E create x tr z" and "I x"
    and "\<And>y l z. I y \<Longrightarrow> engine_step P E create y l z \<Longrightarrow> I z"
  shows "I z"
  using assms by (induction rule: engine_run.induct) blast+

definition slots_ok :: "Engine \<Rightarrow> 'w shared \<times> 'e gor \<Rightarrow> bool" where
  "slots_ok E x \<longleftrightarrow> sh_slots (fst x) = calls (snd x) \<and> int (sh_slots (fst x)) \<le> en_concurrency E"

lemma slots_ok_step: "slots_ok E x \<Longrightarrow> engine_step P E create x l y \<Longrightarrow> slots_ok E y"
  by (erule engine_step.cases) (auto simp: slots_ok_def dest!: gstep_slots)

lemma engine_run_slots:
  assumes "engine_run P (NewEngine cfg) create (Run_start inputText title w) tr y"
  shows "slots_ok (NewEngine cfg) y"
  using assms
proof (rule engine_run_invariant)
  show "slots_ok (NewEngine cfg) (Run_start inputText title w)"
    using NewEngine_positive(2) [of cfg] by (simp add: slots_ok_def Run_start_def)
qed (rule slots_ok_step)

text \<open>
  The interface of the writer, \<open>TaskWriter\<close>: a call of \<open>CreateTask\<close> comes back, with an
  identifier or an error.
\<close>

locale task_writer =
  fixes create :: "new_task_args \<Rightarrow> 'w \<Rightarrow> 'e + string \<Rightarrow> 'w \<Rightarrow> bool"
  assumes returns: "\<exists>r w'. create q w r w'"
begin

lemma written_or_failed:
  obtains i w' where "create q w (Inr i) w'" | err w' where "create q w (Inl err) w'"
  using returns by (metis sum.exhaust)

text \<open>A goroutine can go on unless it, or all it waits for, stands before a full semaphore.\<close>

lemma goroutine_progress:
  assumes "int (sh_slots s) < en_concurrency E \<or> 0 < calls g" and "\<forall>r. g \<noteq> End r"
  shows "\<exists>l s' g'. gstep P E create s g l s' g'"
  using assms
proof (induction g)
  case (Run j pt)
  show ?case
  proof (cases pt)
    case (Rooting t)
    then show ?thesis
      using written_or_failed [of "root_args t (jb_text j)" "sh_world s"]
      by (metis root_written root_failed)
  next
    case (Acquire m k c)
    with Run.prems show ?thesis by (auto intro: acquired)
  next
    case (Creating sts gs prev cur made)
    show ?thesis
    proof (cases sts)
      case Nil
      then show ?thesis using Creating by (cases gs) (auto intro: next_group spawned)
    next
      case (Cons st sts')
      then show ?thesis
        using Creating written_or_failed [of "task_args j st prev" "sh_world s"]
        by (metis task_written task_failed)
    qed
  qed (auto intro: entry slept call_returned)
next
  case (Waiting gs err)
  show ?case
  proof (cases "\<exists>r. End r \<in> set gs")
    case True
    then obtain r xs ys where "gs = xs @ End r # ys" by (auto dest: split_list)
    then show ?thesis by (auto intro: child_returned)
  next
    case False
    show ?thesis
    proof (cases gs)
      case Nil
      then show ?thesis by (auto intro: all_returned)
    next
      case (Cons g0 rest)
      from Waiting.prems Cons obtain g where g: "g \<in> set gs"
        "int (sh_slots s) < en_concurrency E \<or> 0 < calls g"
        by (cases "int (sh_slots s) < en_concurrency E") (auto dest: some_calls)
      with Waiting.IH [OF g(1)] False obtain l s' g' where "gstep P E create s g l s' g'" by blast
      moreover from g(1) obtain xs ys where "gs = xs @ g # ys" by (auto dest: split_list)
      ultimately show ?thesis by (auto intro: child)
    qed
  qed
qed (simp)

lemma engine_progress:
  assumes "engine_run P (NewEngine cfg) create (Run_start inputText title w) tr (s, g)"
    and "\<forall>r. g \<noteq> End r"
  shows "\<exists>l y. engine_step P (NewEngine cfg) create (s, g) l y"
proof -
  have "int (sh_slots s) < en_concurrency (NewEngine cfg) \<or> 0 < calls g"
    using engine_run_slots [OF assms(1)] NewEngine_positive(2) [of cfg] by (auto simp: slots_ok_def)
  then show ?thesis using goroutine_progress [OF _ assms(2)] by (metis engine_step.goroutine)
qed

end

interpretation grpc: task_writer "grpc_create L lk sha256 w" for L lk sha256 w
  by unfold_locales (auto intro: grpc_create.not_sent)

text \<open>
  C31. The semaphore does its work without a deadlock: at every moment of a run against the
  service at most the configured number of calls of the model is out, and while \<open>Run\<close> has
  not returned some goroutine can go on.
\<close>

theorem engine_calls_bounded:
  assumes "engine_run P (NewEngine cfg) (grpc_create L lk sha256 w) (Run_start inputText title d) tr (s, g)"
  shows "int (calls g) \<le> en_concurrency (NewEngine cfg)
    \<and> ((\<exists>r. g = End r) \<or> (\<exists>l y. engine_step P (NewEngine cfg) (grpc_create L lk sha256 w) (s, g) l y))"
  using engine_run_slots [OF assms] grpc.engine_progress [OF assms] by (auto simp: slots_ok_def)

end
