(* ===== verification/FT_PlanProps.thy ===== *)
theory FT_PlanProps
  imports FT_EngineProps
begin

text \<open>
  The tasks a run of the decomposer writes, in the order of the writes. With the identifiers
  the server hands out distinct, they form a tree of bounded depth, and the tasks under one
  parent come in groups each of which is blocked by exactly the group before it.
\<close>

section \<open>Valid plans\<close>

lemma foldE_check_task: "foldE check_task slugs ts = Inr s' \<Longrightarrow> distinct slugs \<Longrightarrow>
    s' = rev (map sub_Slug ts) @ slugs \<and> distinct s'
    \<and> (\<forall>t\<in>set ts. sub_Slug t \<noteq> [] \<and> sub_Title t \<noteq> [] \<and> sub_Description t \<noteq> [])"
  by (induction ts arbitrary: slugs) (auto simp: check_task_def thenE_Inr split: if_splits)

lemma foldE_check_group:
  "foldE check_group (slugs, n) gs = Inr r \<Longrightarrow> distinct slugs \<Longrightarrow>
    distinct (slugs @ concat (map (\<lambda>g. map sub_Slug (gr_Tasks g)) gs))
    \<and> sorted (n # map gr_Num gs) \<and> (\<forall>g\<in>set gs. gr_Tasks g \<noteq> []
        \<and> (\<forall>t\<in>set (gr_Tasks g). sub_Slug t \<noteq> [] \<and> sub_Title t \<noteq> [] \<and> sub_Description t \<noteq> []))"
proof (induction gs arbitrary: slugs n)
  case (Cons g gs)
  from Cons.prems(1) obtain s1 where s1: "foldE check_task slugs (gr_Tasks g) = Inr s1"
    and rest: "foldE check_group (s1, gr_Num g) gs = Inr r" and g: "n \<le> gr_Num g" "gr_Tasks g \<noteq> []"
    by (auto simp: check_group_def [of "(slugs, n)" g] thenE_Inr split: if_splits)
  note t = foldE_check_task [OF s1 Cons.prems(2)]
  then have "distinct s1" by blast
  note ih = Cons.IH [OF rest this]
  have "distinct (slugs @ concat (map (\<lambda>g. map sub_Slug (gr_Tasks g)) (g # gs)))"
    using conjunct1 [OF ih] by (rule iffD1 [OF mset_eq_imp_distinct_iff, rotated]) (use t in simp)
  moreover have "sorted (n # map gr_Num (g # gs))" using g(1) ih by auto
  ultimately show ?case using t g(2) ih by simp
qed simp

text \<open>What an answer of the model must be to count as a plan.\<close>

lemma ParseResult_plan:
  assumes "ParseResult unmarshal raw = Inr r" and "dr_Terminal r \<noteq> Some True"
  shows "dr_Groups r \<noteq> [] \<and> sorted (map gr_Num (dr_Groups r))
    \<and> distinct (concat (map (\<lambda>g. map sub_Slug (gr_Tasks g)) (dr_Groups r)))
    \<and> (\<forall>g\<in>set (dr_Groups r). gr_Tasks g \<noteq> []
        \<and> (\<forall>t\<in>set (gr_Tasks g). sub_Slug t \<noteq> [] \<and> sub_Title t \<noteq> [] \<and> sub_Description t \<noteq> []))"
proof -
  from assms obtain s where "foldE check_group ([], - 1) (dr_Groups r) = Inr s" "dr_Groups r \<noteq> []"
    by (auto simp: ParseResult_def validateResult_def thenE_Inr split: if_splits)
  with foldE_check_group [of "[]" "- 1" "dr_Groups r" s] show ?thesis by auto
qed

section \<open>The shape of what is written\<close>

abbreviation cr_parent :: "creation \<Rightarrow> string" where
  "cr_parent c \<equiv> nt_parent (cr_args c)"

definition ids :: "creation list \<Rightarrow> string set" where "ids tr = cr_id ` set tr"

definition below :: "string \<Rightarrow> creation list \<Rightarrow> creation list" where
  "below p tr = filter (\<lambda>c. cr_parent c = p) tr"

text \<open>The next write after \<open>pre\<close>: the root first, every other task under a task written before.\<close>

definition entry_ok :: "int \<Rightarrow> creation list \<Rightarrow> creation \<Rightarrow> bool" where
  "entry_ok D pre c \<longleftrightarrow>
    (if pre = [] then cr_depth c = 0 \<and> cr_parent c = [] \<and> nt_blockedBy (cr_args c) = []
     else (\<exists>p\<in>set pre. cr_id p = cr_parent c \<and> cr_depth c = cr_depth p + 1) \<and> int (cr_depth c) \<le> D)"

fun chained :: "string list \<Rightarrow> creation list list \<Rightarrow> bool" where
  "chained prev [] = True"
| "chained prev (g # gs) \<longleftrightarrow> (\<forall>c\<in>set g. nt_blockedBy (cr_args c) = prev) \<and> chained (map cr_id g) gs"

definition layered :: "creation list \<Rightarrow> bool" where
  "layered cs \<longleftrightarrow> (\<exists>gs. cs = concat gs \<and> [] \<notin> set gs \<and> chained [] gs)"

definition last_ids :: "creation list list \<Rightarrow> string list" where
  "last_ids gs = (if gs = [] then [] else map cr_id (last gs))"

lemma chained_snoc:
  "chained prev (gs @ [g]) \<longleftrightarrow> chained prev gs
    \<and> (\<forall>c\<in>set g. nt_blockedBy (cr_args c) = (if gs = [] then prev else map cr_id (last gs)))"
  by (induction gs arbitrary: prev) auto

lemma below_snoc [simp]: "below p (tr @ [c]) = below p tr @ (if cr_parent c = p then [c] else [])"
  by (simp add: below_def)

lemma ids_snoc [simp]: "ids (tr @ [c]) = insert (cr_id c) (ids tr)" "ids [] = {}"
  by (simp_all add: ids_def)

definition at :: "creation list \<Rightarrow> string \<Rightarrow> nat \<Rightarrow> bool" where
  "at tr i d \<longleftrightarrow> (\<exists>p\<in>set tr. cr_id p = i \<and> cr_depth p = d)"

lemma at_snoc: "at tr i d \<Longrightarrow> at (tr @ [c]) i d" by (auto simp: at_def)

section \<open>The invariant of the goroutines\<close>

text \<open>
  The loop that writes: \<open>gss\<close> are the finished groups under the parent and \<open>now_made\<close> the
  part of the current one.
\<close>

definition writing_ok ::
  "creation list \<Rightarrow> job \<Rightarrow> Subtask list \<Rightarrow> Group list \<Rightarrow> string list \<Rightarrow> string list \<Rightarrow> bool" where
  "writing_ok tr j sts gs prev cur \<longleftrightarrow> (\<forall>g\<in>set gs. gr_Tasks g \<noteq> [])
     \<and> (\<exists>gss now_made. below (jb_parent j) tr = concat gss @ now_made \<and> [] \<notin> set gss
          \<and> chained [] gss \<and> prev = last_ids gss \<and> cur = map cr_id now_made
          \<and> (\<forall>c\<in>set now_made. nt_blockedBy (cr_args c) = prev)
          \<and> (sts = [] \<longrightarrow> now_made \<noteq> [] \<or> gss = []))"

fun gor_ok :: "int \<Rightarrow> creation list \<Rightarrow> 'e gor \<Rightarrow> bool" where
  "gor_ok D tr (Run j pt) \<longleftrightarrow> at tr (jb_parent j) (jb_depth j) \<and>
    (case pt of
       Rooting t \<Rightarrow> False
     | Entered \<Rightarrow> below (jb_parent j) tr = []
     | Creating sts gs prev cur made \<Rightarrow> int (jb_depth j) < D \<and> writing_ok tr j sts gs prev cur
         \<and> (\<forall>m\<in>set made. at tr (snd m) (jb_depth j + 1) \<and> below (snd m) tr = [])
     | _ \<Rightarrow> int (jb_depth j) < D \<and> below (jb_parent j) tr = [])"
| "gor_ok D tr (Waiting gs err) \<longleftrightarrow> list_all (gor_ok D tr) gs"
| "gor_ok D tr (End r) \<longleftrightarrow> True"

text \<open>The tasks under which a goroutine, or one it has still to start, will write.\<close>

fun owned :: "'e gor \<Rightarrow> string list" where
  "owned (Run j pt) = jb_parent j # (case pt of Creating sts gs prev cur made \<Rightarrow> map snd made | _ \<Rightarrow> [])"
| "owned (Waiting gs err) = concat (map owned gs)"
| "owned (End r) = []"

lemma gor_ok_frame:
  "gor_ok D tr g \<Longrightarrow> cr_parent c \<notin> set (owned g) \<Longrightarrow> gor_ok D (tr @ [c]) g"
proof (induction g)
  case (Run j pt)
  then show ?case by (cases pt) (auto simp: at_snoc writing_ok_def)
next
  case (Waiting gs err)
  then show ?case by (auto simp: list_all_iff)
qed simp

abbreviation written :: "creation option \<Rightarrow> creation list" where
  "written l \<equiv> (case l of None \<Rightarrow> [] | Some c \<Rightarrow> [c])"

lemma owned_children: "concat (map owned (children j made)) = map snd (filter (\<lambda>c. \<not> sub_Terminal (fst c)) made)"
  by (induction made) (auto simp: children_def child_job_def)

lemma distinct_filter_snd: "distinct (map snd made) \<Longrightarrow> distinct (map snd (filter P made))"
  by (induction made) auto

lemma gor_ok_children:
  assumes "\<forall>m\<in>set made. at tr (snd m) (jb_depth j + 1) \<and> below (snd m) tr = []"
  shows "list_all (gor_ok D tr) (children j made)"
  using assms by (auto simp: children_def child_job_def list_all_iff)

text \<open>One task more of the current group.\<close>

lemma writing_ok_write:
  assumes "writing_ok tr j (st # sts) gs prev cur" and "cr_args c = task_args j st prev"
  shows "writing_ok (tr @ [c]) j sts gs prev (cur @ [cr_id c])"
proof -
  from assms(1) obtain gss now_made where w: "below (jb_parent j) tr = concat gss @ now_made"
    "[] \<notin> set gss" "chained [] gss" "prev = last_ids gss" "cur = map cr_id now_made"
    "\<forall>c\<in>set now_made. nt_blockedBy (cr_args c) = prev" "\<forall>g\<in>set gs. gr_Tasks g \<noteq> []"
    by (auto simp: writing_ok_def)
  with assms(2) have "below (jb_parent j) (tr @ [c]) = concat gss @ (now_made @ [c])"
      "\<forall>c\<in>set (now_made @ [c]). nt_blockedBy (cr_args c) = prev"
    by (auto simp: task_args_def)
  with w show ?thesis unfolding writing_ok_def
    by (intro conjI exI [of _ gss] exI [of _ "now_made @ [c]"]) auto
qed

lemma writing_ok_next_group:
  assumes "writing_ok tr j [] (g # gs) prev cur"
  shows "writing_ok tr j (gr_Tasks g) gs cur []"
proof -
  from assms obtain gss now_made where w: "below (jb_parent j) tr = concat gss @ now_made"
    "[] \<notin> set gss" "chained [] gss" "prev = last_ids gss" "cur = map cr_id now_made"
    "\<forall>c\<in>set now_made. nt_blockedBy (cr_args c) = prev" "now_made \<noteq> [] \<or> gss = []"
    "\<forall>g\<in>set (g # gs). gr_Tasks g \<noteq> []"
    by (auto simp: writing_ok_def)
  show ?thesis
  proof (cases "now_made = []")
    case True
    with w show ?thesis unfolding writing_ok_def
      by (intro conjI exI [of _ "[]"] exI [of _ "[]"]) (auto simp: last_ids_def)
  next
    case False
    with w show ?thesis unfolding writing_ok_def
      by (intro conjI exI [of _ "gss @ [now_made]"] exI [of _ "[]"])
         (auto simp: last_ids_def chained_snoc)
  qed
qed

lemma writing_ok_layered:
  assumes "writing_ok tr j sts gs prev cur"
  shows "layered (below (jb_parent j) tr)"
proof -
  from assms obtain gss now_made where w: "below (jb_parent j) tr = concat gss @ now_made"
    "[] \<notin> set gss" "chained [] gss" "\<forall>c\<in>set now_made. nt_blockedBy (cr_args c) = last_ids gss"
    by (auto simp: writing_ok_def)
  show ?thesis
  proof (cases "now_made = []")
    case True
    with w show ?thesis by (auto simp: layered_def)
  next
    case False
    with w show ?thesis unfolding layered_def
      by (intro exI [of _ "gss @ [now_made]"]) (auto simp: chained_snoc last_ids_def)
  qed
qed

lemma writing_ok_begin:
  assumes "below (jb_parent j) tr = []" and "ParseResult unmarshal raw = Inr r" and "dr_Terminal r \<noteq> Some True"
  shows "writing_ok tr j [] (dr_Groups r) [] []"
  using assms(1) ParseResult_plan [OF assms(2,3)]
  unfolding writing_ok_def by (auto intro!: exI [of _ "[]"] simp: last_ids_def)

section \<open>Steps\<close>

lemma task_args_simps [simp]:
  "nt_parent (task_args j st prev) = jb_parent j" "nt_blockedBy (task_args j st prev) = prev"
  by (simp_all add: task_args_def)

text \<open>What a step that writes \<open>c\<close> does to the tasks: it adds one under a task it owns.\<close>

definition adds :: "int \<Rightarrow> creation list \<Rightarrow> string list \<Rightarrow> creation option \<Rightarrow> bool" where
  "adds D tr own l \<longleftrightarrow> (\<forall>c. l = Some c \<longrightarrow> cr_parent c \<in> set own \<and> at tr (cr_parent c) (cr_depth c - 1)
     \<and> 0 < cr_depth c \<and> int (cr_depth c) \<le> D \<and> layered (below (cr_parent c) (tr @ [c])))"

definition fresh :: "creation list \<Rightarrow> creation option \<Rightarrow> bool" where
  "fresh tr l \<longleftrightarrow> (\<forall>c. l = Some c \<longrightarrow> cr_id c \<notin> ids tr)"

definition closed_under :: "creation list \<Rightarrow> bool" where
  "closed_under tr \<longleftrightarrow> (\<forall>c\<in>set tr. cr_parent c = [] \<or> cr_parent c \<in> ids tr)"

lemma below_fresh: "closed_under tr \<Longrightarrow> i \<notin> ids tr \<Longrightarrow> i \<noteq> [] \<Longrightarrow> below i tr = []"
  by (auto simp: closed_under_def below_def filter_empty_conv)

lemma disjoint_frame: "G' \<subseteq> G \<union> N \<Longrightarrow> G \<inter> Q = {} \<Longrightarrow> Q \<subseteq> I \<Longrightarrow> N \<inter> I = {} \<Longrightarrow> G' \<inter> Q = {}"
  by blast

lemma at_ids: "at tr i d \<Longrightarrow> i \<in> ids tr" by (auto simp: at_def ids_def)

lemma gstep_plan:
  assumes "gstep P E create s g l s' g'" and "gor_ok (en_maxDepth E) tr g"
    and "distinct (owned g)" and "set (owned g) \<subseteq> ids tr" and "fresh tr l" and "closed_under tr"
    and "\<forall>c. l = Some c \<longrightarrow> cr_id c \<noteq> []"
  shows "gor_ok (en_maxDepth E) (tr @ written l) g' \<and> distinct (owned g')
    \<and> set (owned g') \<subseteq> set (owned g) \<union> set (map cr_id (written l))
    \<and> adds (en_maxDepth E) tr (owned g) l"
  using assms
proof (induction rule: gstep.induct)
  case (task_written j st prev s i w sts gs cur made)
  let ?c = "\<lparr>cr_id = i, cr_args = task_args j st prev, cr_depth = jb_depth j + 1\<rparr>"
  from task_written.prems have ok: "writing_ok tr j (st # sts) gs prev cur" "i \<notin> ids tr" "i \<noteq> []"
    and here: "at tr (jb_parent j) (jb_depth j)" "int (jb_depth j) < en_maxDepth E"
    and made: "\<forall>m\<in>set made. at tr (snd m) (jb_depth j + 1) \<and> below (snd m) tr = []"
    and own: "distinct (jb_parent j # map snd made)" "snd ` set made \<subseteq> ids tr" "jb_parent j \<in> ids tr"
    by (auto simp: fresh_def)
  have w: "writing_ok (tr @ [?c]) j sts gs prev (cur @ [i])"
    using writing_ok_write [OF ok(1), of ?c] by simp
  have "\<forall>m\<in>set (made @ [(st, i)]). at (tr @ [?c]) (snd m) (jb_depth j + 1) \<and> below (snd m) (tr @ [?c]) = []"
    using made own ok(2,3) below_fresh [OF task_written.prems(5) ok(2,3)]
    by (auto simp: at_snoc) (auto simp: at_def)
  with w here own ok(2) writing_ok_layered [OF w] show ?case
    by (auto simp: at_snoc adds_def image_iff subset_iff)
next
  case (next_group s j g gs prev cur made)
  then show ?case by (auto simp: adds_def writing_ok_next_group)
next
  case (spawned s j prev cur made)
  then show ?case
    using gor_ok_children [of made tr j "en_maxDepth E"]
    by (auto simp: adds_def owned_children distinct_filter_snd)
next
  case (child s g l s' g' xs ys err)
  let ?tr = "tr @ written l"
  from child.prems have g: "gor_ok (en_maxDepth E) tr g" "distinct (owned g)" "set (owned g) \<subseteq> ids tr" by auto
  note ih = child.IH [OF g child.prems(4-6)]
  have others: "gor_ok (en_maxDepth E) ?tr x" if x: "x \<in> set xs \<union> set ys" for x
  proof (cases l)
    case None
    with child.prems(1) x show ?thesis by (auto simp: list_all_iff)
  next
    case (Some c)
    with ih have "cr_parent c \<in> set (owned g)" by (auto simp: adds_def)
    with child.prems(2) x have "cr_parent c \<notin> set (owned x)" by auto
    moreover from child.prems(1) x have "gor_ok (en_maxDepth E) tr x" by (auto simp: list_all_iff)
    ultimately show ?thesis using Some by (simp add: gor_ok_frame)
  qed
  have new: "set (map cr_id (written l)) \<inter> ids tr = {}"
    using child.prems(4) by (auto simp: fresh_def split: option.splits)
  have "set (owned g') \<inter> ((\<Union>x\<in>set xs. set (owned x)) \<union> (\<Union>x\<in>set ys. set (owned x))) = {}"
    by (rule disjoint_frame [where G = "set (owned g)", OF _ _ _ new]) (use ih child.prems(2,3) in auto)
  note apart = this
  show ?case
  proof (intro conjI)
    show "gor_ok (en_maxDepth E) ?tr (Waiting (xs @ g' # ys) err)" using ih others by (auto simp: list_all_iff)
    show "distinct (owned (Waiting (xs @ g' # ys) err))" using ih child.prems(2) apart by auto
    show "set (owned (Waiting (xs @ g' # ys) err))
        \<subseteq> set (owned (Waiting (xs @ g # ys) err)) \<union> set (map cr_id (written l))" using ih by auto
    show "adds (en_maxDepth E) tr (owned (Waiting (xs @ g # ys) err)) l" using ih by (auto simp: adds_def)
  qed
next
  case (call_returned s j msgs k c r)
  then show ?case
    by (auto simp: adds_def after_reply_def llm_failed_def split: llm_reply.splits sum.splits
       intro: writing_ok_begin)
qed (auto simp: adds_def enter_def llm_failed_def list_all_iff)

section \<open>Runs\<close>

definition entries_ok :: "int \<Rightarrow> creation list \<Rightarrow> bool" where
  "entries_ok D tr \<longleftrightarrow> (\<forall>k<length tr. entry_ok D (List.take k tr) (tr ! k))"

lemma entries_ok_snoc: "entries_ok D (tr @ [c]) \<longleftrightarrow> entries_ok D tr \<and> entry_ok D tr c"
  by (auto simp: entries_ok_def nth_append less_Suc_eq)

definition plan_inv :: "int \<Rightarrow> creation list \<Rightarrow> 'e gor \<Rightarrow> bool" where
  "plan_inv D tr g \<longleftrightarrow> entries_ok D tr \<and> closed_under tr \<and> (\<forall>p. layered (below p tr))
     \<and> (tr = [] \<and> (\<exists>j t. g = Run j (Rooting t) \<and> jb_depth j = 0)
        \<or> gor_ok D tr g \<and> distinct (owned g) \<and> set (owned g) \<subseteq> ids tr)"

lemma layered_Nil [simp]: "layered []" by (auto simp: layered_def intro: exI [of _ "[]"])

lemma plan_inv_write:
  assumes "entries_ok D tr" "closed_under tr" "\<forall>p. layered (below p tr)" and "adds D tr own (Some c)"
  shows "entries_ok D (tr @ [c])" "closed_under (tr @ [c])" "\<forall>p. layered (below p (tr @ [c]))"
proof -
  from assms(4) have a: "at tr (cr_parent c) (cr_depth c - 1)" "0 < cr_depth c" "int (cr_depth c) \<le> D"
    "layered (below (cr_parent c) (tr @ [c]))" by (auto simp: adds_def)
  from a(1) have "tr \<noteq> []" by (auto simp: at_def)
  with a assms(1) show "entries_ok D (tr @ [c])" by (auto simp: entries_ok_snoc entry_ok_def at_def)
  from at_ids [OF a(1)] assms(2) show "closed_under (tr @ [c])" by (auto simp: closed_under_def)
  from a(4) assms(3) show "\<forall>p. layered (below p (tr @ [c]))" by simp
qed

lemma root_layered: "nt_blockedBy (cr_args c) = [] \<Longrightarrow> layered [c]"
  unfolding layered_def by (rule exI [of _ "[[c]]"]) simp

lemma plan_inv_gstep:
  assumes "gstep P E create s g l s' g'" and "plan_inv (en_maxDepth E) tr g"
    and "distinct ([] # map cr_id (tr @ written l))"
  shows "plan_inv (en_maxDepth E) (tr @ written l) g'"
proof (cases "tr = [] \<and> (\<exists>j t. g = Run j (Rooting t) \<and> jb_depth j = 0)")
  case True
  then obtain j t where "g = Run j (Rooting t)" "jb_depth j = 0" "tr = []" by blast
  with assms(1,3) show ?thesis
    by (cases rule: gstep.cases)
       (auto simp: plan_inv_def entries_ok_def entry_ok_def closed_under_def below_def root_args_def
         at_def ids_def root_layered)
next
  case False
  with assms(2) have g: "gor_ok (en_maxDepth E) tr g" "distinct (owned g)" "set (owned g) \<subseteq> ids tr"
    and t: "entries_ok (en_maxDepth E) tr" "closed_under tr" "\<forall>p. layered (below p tr)"
    by (auto simp: plan_inv_def)
  from assms(3) have "fresh tr l" "\<forall>c. l = Some c \<longrightarrow> cr_id c \<noteq> []"
    by (auto simp: fresh_def ids_def split: option.splits)
  note st = gstep_plan [OF assms(1) g this(1) t(2) this(2)]
  show ?thesis
  proof (cases l)
    case None
    with st t g(3) show ?thesis by (auto simp: plan_inv_def)
  next
    case (Some c)
    with st have "adds (en_maxDepth E) tr (owned g) (Some c)" by simp
    note w = plan_inv_write [OF t this]
    from st w Some g(3) show ?thesis by (auto simp: plan_inv_def)
  qed
qed

lemma engine_run_plan:
  assumes "engine_run P E create x tr y" and "plan_inv (en_maxDepth E) [] (snd x)"
    and "distinct ([] # map cr_id tr)"
  shows "plan_inv (en_maxDepth E) tr (snd y)"
  using assms
proof (induction rule: engine_run.induct)
  case (more tr y l z)
  then have "plan_inv (en_maxDepth E) tr (snd y)" by simp
  from more.hyps(2) this more.prems(2) show ?case
    by (cases rule: engine_step.cases) (auto dest: plan_inv_gstep)
qed simp

text \<open>
  The tasks of any run of the decomposer, also an interrupted or failed one, in the order of
  their creation and with distinct, non-empty identifiers: the first is the root; every other
  one lies directly under a task created before it, at a depth within the limit; and under
  every task the subtasks fall into non-empty groups, the first without blockers and each
  further one blocked by exactly the tasks of the group before it.
\<close>

theorem decomposition_is_layered_tree:
  assumes "engine_run P (NewEngine cfg) create (Run_start inputText title w) tr (s, g)"
    and "distinct ([] # map cr_id tr)"
  shows "entries_ok (en_maxDepth (NewEngine cfg)) tr
    \<and> layered (filter (\<lambda>c. nt_parent (cr_args c) = p) tr)"
proof -
  have "plan_inv (en_maxDepth (NewEngine cfg)) [] (snd (Run_start inputText title w))"
    by (simp add: plan_inv_def Run_start_def entries_ok_def closed_under_def below_def)
  from engine_run_plan [OF assms(1) this assms(2)] show ?thesis
    by (auto simp: plan_inv_def below_def)
qed

end
