(* ===== verification/FT_PlanStore.thy ===== *)
theory FT_PlanStore
  imports FT_PlanProps FT_ServiceProps "HOL-Library.Sublist"
begin

text \<open>
  The decomposer against the service: what the tasks of a plan are in the database.
\<close>

section \<open>One task\<close>

lemma add_rels_keep:
  "foldE (add_rel e ty i) d xs = Inr d' \<Longrightarrow>
    set (d_rels d) \<subseteq> set (d_rels d') \<and> (\<forall>x\<in>set xs. rel_exists i x ty d')"
proof (induction xs arbitrary: d)
  case (Cons x xs)
  from Cons.prems obtain d1 where one: "add_rel e ty i d x = Inr d1" and rest: "foldE (add_rel e ty i) d1 xs = Inr d'"
    by (auto simp: thenE_Inr)
  from one have "set (d_rels d) \<subseteq> set (d_rels d1)" "rel_exists i x ty d1"
    by (auto simp: add_rel_def insert_rel_def drawn_def rel_exists_def split: if_splits)
  with Cons.IH [OF rest] show ?case by (auto simp: rel_exists_def list_ex_iff)
qed simp

lemma rel_exists_mono: "rel_exists s t ty d \<Longrightarrow> set (d_rels d) \<subseteq> set (d_rels d') \<Longrightarrow> rel_exists s t ty d'"
  by (auto simp: rel_exists_def list_ex_iff)

lemma find_snoc: "find P xs = None \<Longrightarrow> P x \<Longrightarrow> find P (xs @ [x]) = Some x"
  by (induction xs) (simp_all split: if_splits)

lemma CreateTask_rels:
  assumes "CreateTask e p d = Inr (et, d')"
  shows "e_task et = new_task e (fresh_uuid e d) p \<and> \<not> task_exists (fresh_uuid e d) d
    \<and> set (d_rels d) \<subseteq> set (d_rels d')
    \<and> (\<forall>b\<in>set (ct_BlockedByTaskIDs p). rel_exists (fresh_uuid e d) b TypeBlockedBy d')"
proof -
  let ?i = "fresh_uuid e d"
  from assms obtain d1 d2 where ins: "insert_task (new_task e ?i p) (drawn d) = Inr d1"
    and rels: "foldE (add_rel e TypeBlocks ?i) d1 (ct_BlocksTaskIDs p) = Inr d2"
      "foldE (add_rel e TypeBlockedBy ?i) d2 (ct_BlockedByTaskIDs p) = Inr d'"
    and get: "getTaskWithEdges ?i d' = Inr et"
    by (auto simp: CreateTask_def Let_def thenE_Inr)
  from ins have new: "\<not> task_exists ?i d" "d_rels d1 = d_rels d"
    by (auto simp: insert_task_def drawn_def task_exists_def new_task_def split: if_splits)
  from new(1) have "find (\<lambda>t. t_id t = ?i) (d_tasks d) = None"
    using get_task_None [of ?i d] by (simp add: get_task_def)
  then have "get_task ?i d' = Some (new_task e ?i p)"
    unfolding get_task_def CreateTask_row [OF assms]
    by (rule find_snoc) (simp add: new_task_def)
  with get have "e_task et = new_task e ?i p" by (auto simp: getTaskWithEdges_def with_edges_def)
  with new add_rels_keep [OF rels(1)] add_rels_keep [OF rels(2)] show ?thesis by auto
qed

section \<open>One call\<close>

text \<open>
  What the row \<open>t\<close> of the task \<open>c\<close> holds: the arguments of the call, and a dependency on
  every blocker.
\<close>

definition row_of :: "lib \<Rightarrow> db \<Rightarrow> creation \<Rightarrow> task \<Rightarrow> bool" where
  "row_of L d c t \<longleftrightarrow> cr_id c = uuid_String L (t_id t) \<and> t_title t = nt_name (cr_args c)
     \<and> t_description t = nt_description (cr_args c)
     \<and> (if nt_parent (cr_args c) = [] then t_parent t = None
        else t_parent t \<noteq> None \<and> t_parent t = uuid_Parse L (nt_parent (cr_args c)))
     \<and> (\<forall>b\<in>set (nt_blockedBy (cr_args c)). \<exists>u. uuid_Parse L b = Some u \<and> rel_exists (t_id t) u TypeBlockedBy d)"

definition untouched :: "task \<Rightarrow> bool" where
  "untouched t \<longleftrightarrow> t_stage t = StageTriage \<and> t_phase t = PhaseOpen \<and> t_assignee t = None \<and> t_hold t = None"

lemma create_stage_triage: "create_stage c (Some stage_triage_number) = Inr (st, ph) \<Longrightarrow> st = StageTriage \<and> ph = PhaseOpen"
  by (auto simp: create_stage_def stage_triage_number_def thenE_Inr Let_def StageFromProto_def phaseForStage_def
      split: if_splits)

lemma mapE_parse: "mapE (parse_id L) bs = Inr us \<Longrightarrow> b \<in> set bs \<Longrightarrow> \<exists>u\<in>set us. uuid_Parse L b = Some u"
  unfolding mapE_Inr_iff
  by (auto simp: list_all2_conv_all_nth in_set_conv_nth parse_id_def)

lemma no_values: "first_id L [] = Inr None" "read_hold None = Inr None"
  by (simp_all add: first_id_def parse_opt_id_def read_hold_def read_enum_unless_0_def read_enum_def)

lemma pt_Id_row: "pt_Id (srv_taskToProto L e d et) = uuid_String L (t_id (e_task et))"
  by (simp add: srv_taskToProto_def taskToProto_def Let_def split: sum.split)

lemma serve_create_effect:
  assumes "serve_create L lk sha256 w e q d = Inr (i, d')"
  shows "\<exists>t. d_tasks d' = d_tasks d @ [t] \<and> \<not> task_exists (t_id t) d \<and> set (d_rels d) \<subseteq> set (d_rels d')
    \<and> untouched t \<and> (\<forall>k. row_of L d' \<lparr>cr_id = i, cr_args = q, cr_depth = k\<rparr> t)"
proof -
  from assms obtain c t evs where srv: "srv_CreateTask L e c (CreateTask_request w q) d = Inr (t, evs, d')"
    and i: "i = pt_Id t"
    by (auto simp: serve_create_def gw_call_def TokenAuthInterceptor_def thenE_Inr)
  from srv obtain p et st ph where
    run: "CreateTask e p d = Inr (et, d')" and t: "t = srv_taskToProto L e d' et"
    and p: "ct_Title p = nt_name q" "ct_Description p = nt_description q" "ct_AssigneeID p = None"
      "ct_HoldReason p = None" "ct_Stage p = st" "ct_Phase p = ph"
    and stage: "create_stage c (Some stage_triage_number) = Inr (st, ph)"
    and parent: "parse_opt_id L (if nt_parent q \<noteq> [] then Some (nt_parent q) else None) = Inr (ct_ParentTaskID p)"
    and blockers: "mapE (parse_id L) (nt_blockedBy q) = Inr (ct_BlockedByTaskIDs p)"
    unfolding srv_CreateTask_def Let_def CreateTask_request_def
    by (clarsimp simp: thenE_Inr with_code_Inr no_values)
  note rels = CreateTask_rels [OF run]
  let ?t = "new_task e (fresh_uuid e d) p"
  have "i = uuid_String L (t_id ?t)"
    using i t rels by (simp add: pt_Id_row)
  moreover have "if nt_parent q = [] then t_parent ?t = None
      else t_parent ?t \<noteq> None \<and> t_parent ?t = uuid_Parse L (nt_parent q)"
    using parent
    by (cases "ct_ParentTaskID p") (auto simp: new_task_def parse_opt_id_def parse_id_def thenE_Inr split: if_splits)
  moreover have "\<exists>u. uuid_Parse L b = Some u \<and> rel_exists (t_id ?t) u TypeBlockedBy d'"
      if "b \<in> set (nt_blockedBy q)" for b
    using mapE_parse [OF blockers that] rels by (auto simp: new_task_def)
  moreover have "t_title ?t = nt_name q" "t_description ?t = nt_description q" using p by (simp_all add: new_task_def)
  ultimately have "row_of L d' \<lparr>cr_id = i, cr_args = q, cr_depth = k\<rparr> ?t" for k
    unfolding row_of_def creation.select_convs by blast
  moreover have "untouched ?t"
    using p create_stage_triage [OF stage] by (simp add: untouched_def new_task_def)
  ultimately show ?thesis
    using CreateTask_row [OF run] rels by (intro exI [of _ ?t]) (simp add: new_task_def)
qed

section \<open>A run\<close>

text \<open>A step of the engine changes the server only by one call of the writer.\<close>

lemma gstep_world:
  "gstep P E create s g l s' g' \<Longrightarrow> sh_world s' = sh_world s \<and> l = None
    \<or> (\<exists>q r. create q (sh_world s) r (sh_world s')
         \<and> (case r of Inl err \<Rightarrow> l = None | Inr i \<Rightarrow> \<exists>k. l = Some \<lparr>cr_id = i, cr_args = q, cr_depth = k\<rparr>))"
  by (induction rule: gstep.induct) (fastforce simp: wrote_def)+

definition recorded :: "lib \<Rightarrow> db \<Rightarrow> creation list \<Rightarrow> db \<Rightarrow> bool" where
  "recorded L d0 tr d \<longleftrightarrow> (\<exists>ts us. d_tasks d = d_tasks d0 @ ts \<and> list_all untouched ts
     \<and> distinct (map t_id (d_tasks d)) \<and> subseq us ts \<and> list_all2 (row_of L d) tr us)"

lemma row_of_mono: "row_of L d c t \<Longrightarrow> set (d_rels d) \<subseteq> set (d_rels d') \<Longrightarrow> row_of L d' c t"
  unfolding row_of_def by (blast intro: rel_exists_mono)

lemma recorded_serve:
  assumes "recorded L d0 tr d" and "serve_create L lk sha256 w e q d = Inr (i, d')"
  shows "recorded L d0 tr d'" and "recorded L d0 (tr @ [\<lparr>cr_id = i, cr_args = q, cr_depth = k\<rparr>]) d'"
proof -
  from assms(1) obtain ts us where r: "d_tasks d = d_tasks d0 @ ts" "list_all untouched ts"
    "distinct (map t_id (d_tasks d))" "subseq us ts" "list_all2 (row_of L d) tr us"
    by (auto simp: recorded_def)
  from serve_create_effect [OF assms(2)] obtain t where t: "d_tasks d' = d_tasks d @ [t]"
    "\<not> task_exists (t_id t) d" "set (d_rels d) \<subseteq> set (d_rels d')" "untouched t"
    "row_of L d' \<lparr>cr_id = i, cr_args = q, cr_depth = k\<rparr> t" by blast
  have rows: "list_all2 (row_of L d') tr us"
    using r(5) by (rule list_all2_mono) (rule row_of_mono [OF _ t(3)])
  have base: "d_tasks d' = d_tasks d0 @ (ts @ [t])" "list_all untouched (ts @ [t])"
      "distinct (map t_id (d_tasks d'))"
    using r(1-3) t by (auto simp: task_ids_def)
  show "recorded L d0 tr d'" unfolding recorded_def
    using base rows r(4) by (intro exI [of _ "ts @ [t]"] exI [of _ us]) auto
  show "recorded L d0 (tr @ [\<lparr>cr_id = i, cr_args = q, cr_depth = k\<rparr>]) d'" unfolding recorded_def
    using base rows r(4) t(5)
    by (intro exI [of _ "ts @ [t]"] exI [of _ "us @ [t]"]) (auto intro: list_all2_appendI)
qed

lemma recorded_create:
  assumes "grpc_create L lk sha256 w q d r d'" and "recorded L d0 tr d"
  shows "recorded L d0 tr d' \<and> (\<forall>i k. r = Inr i \<longrightarrow> recorded L d0 (tr @ [\<lparr>cr_id = i, cr_args = q, cr_depth = k\<rparr>]) d')"
  using assms(1)
  by (cases rule: grpc_create.cases) (auto intro: recorded_serve [OF assms(2)] assms(2))

lemma recorded_run:
  assumes "engine_run P E (grpc_create L lk sha256 w) x tr y" and "recorded L d0 [] (sh_world (fst x))"
  shows "recorded L d0 tr (sh_world (fst y))"
  using assms
proof (induction rule: engine_run.induct)
  case (more tr y l z)
  then have ih: "recorded L d0 tr (sh_world (fst y))" by simp
  from more.hyps(2) show ?case
  proof (cases rule: engine_step.cases)
    case (goroutine s g s' g')
    from gstep_world [OF goroutine(3)] show ?thesis
    proof
      assume "sh_world s' = sh_world s \<and> l = None"
      with ih goroutine show ?thesis by simp
    next
      assume "\<exists>q r. grpc_create L lk sha256 w q (sh_world s) r (sh_world s')
        \<and> (case r of Inl err \<Rightarrow> l = None | Inr i \<Rightarrow> \<exists>k. l = Some \<lparr>cr_id = i, cr_args = q, cr_depth = k\<rparr>)"
      then obtain q r where c: "grpc_create L lk sha256 w q (sh_world s) r (sh_world s')"
        "case r of Inl err \<Rightarrow> l = None | Inr i \<Rightarrow> \<exists>k. l = Some \<lparr>cr_id = i, cr_args = q, cr_depth = k\<rparr>" by blast
      from recorded_create [OF c(1)] ih goroutine(1) c(2) show ?thesis
        unfolding goroutine(2) by (cases r) auto
    qed
  next
    case (interrupted s g)
    with ih show ?thesis by simp
  qed
qed simp

lemma subseq_keeps_distinct: "distinct ys \<Longrightarrow> subseq xs ys \<Longrightarrow> distinct xs"
  by (auto simp: subseq_conv_nths)

lemma recorded_distinct:
  assumes "recorded L d0 tr d" and "uuid_laws L" and "uuid_Parse L [] = None"
  shows "distinct ([] # map cr_id tr)"
proof -
  from assms(1) obtain ts us where r: "d_tasks d = d_tasks d0 @ ts" "distinct (map t_id (d_tasks d))"
    "subseq us ts" "list_all2 (row_of L d) tr us" by (auto simp: recorded_def)
  from r(1,2) have "distinct (map t_id ts)" by simp
  then have us: "distinct (map t_id us)" by (rule subseq_keeps_distinct) (rule subseq_map [OF r(3)])
  have ids: "map cr_id tr = map (uuid_String L) (map t_id us)"
    using r(4) by (induction rule: list_all2_induct) (auto simp: row_of_def)
  have "inj (uuid_String L)" using assms(2) unfolding uuid_laws_def by (metis injI option.inject)
  moreover have "[] \<noteq> uuid_String L u" for u using assms(2,3) unfolding uuid_laws_def by (metis option.distinct(1))
  moreover have "distinct (map (uuid_String L) (map t_id us))"
    by (subst distinct_map) (auto intro: us inj_on_subset [OF calculation(1)])
  ultimately show ?thesis unfolding ids by auto
qed


section \<open>An example\<close>

definition ex_writer :: GRPCWriter where
  "ex_writer = \<lparr>gw_collectionID = ''uu'', gw_token = ''t'', gw_iapToken = []\<rparr>"

definition ex_plan_env :: env where "ex_plan_env = \<lparr>now = 5, uuid_at = (\<lambda>n. 20 + n)\<rparr>"

definition ex_sub :: "string \<Rightarrow> Subtask" where
  "ex_sub n = \<lparr>sub_Slug = n, sub_Title = n, sub_Description = n, sub_Terminal = True\<rparr>"

definition ex_plan :: DecompositionResult where
  "ex_plan = \<lparr>dr_Terminal = None, dr_Groups =
     [\<lparr>gr_Num = 1, gr_Tasks = [ex_sub ''a'']\<rparr>, \<lparr>gr_Num = 2, gr_Tasks = [ex_sub ''b'']\<rparr>]\<rparr>"

definition ex_plan_lib :: plan_lib where
  "ex_plan_lib = \<lparr>pl_prompt = ''p'', pl_unmarshal = (\<lambda>_. Some ex_plan)\<rparr>"

definition ex_job :: job where
  "ex_job = \<lparr>jb_text = ''x'', jb_chain = [], jb_parent = uuid_String ex_lib 20, jb_depth = 0\<rparr>"

definition ex_row :: "uuid \<Rightarrow> string \<Rightarrow> string \<Rightarrow> uuid option \<Rightarrow> task" where
  "ex_row i n desc par = \<lparr>t_id = i, t_title = n, t_description = desc, t_collection = 1,
     t_phase = PhaseOpen, t_stage = StageTriage, t_hold = None,
     t_native_label = stage_str StageTriage, t_type = [], t_priority = None, t_rank = None,
     t_assignee = None, t_parent = par, t_start = None, t_due = None, t_closed = None,
     t_created = 5, t_updated = 5, t_acceptance = None, t_remote = None, t_labels = [],
     t_repo = [], t_branch = [], t_ci = None, t_prs = [], t_version = ''1''\<rparr>"

definition ex_d1 :: db where
  "ex_d1 = ex_db\<lparr>d_tasks := d_tasks ex_db @ [ex_row 20 ''r'' ''x'' None], d_next := 1\<rparr>"
definition ex_d2 :: db where
  "ex_d2 = ex_d1\<lparr>d_tasks := d_tasks ex_d1 @ [ex_row 21 ''a'' ''a'' (Some 20)], d_next := 2\<rparr>"
definition ex_d3 :: db where
  "ex_d3 = ex_d2\<lparr>d_tasks := d_tasks ex_d2 @ [ex_row 22 ''b'' ''b'' (Some 20)], d_next := 4,
     d_rels := d_rels ex_d2 @ [\<lparr>r_id = 23, r_src = 22, r_tgt = 21, r_type = TypeBlockedBy\<rparr>]\<rparr>"

definition ex_params :: "string \<Rightarrow> string \<Rightarrow> uuid option \<Rightarrow> uuid list \<Rightarrow> CreateTaskParams" where
  "ex_params n desc par bs = ex_create_params\<lparr>ct_Title := n, ct_Description := desc,
     ct_ParentTaskID := par, ct_BlockedByTaskIDs := bs\<rparr>"

lemmas ex_plan_defs = ex_params_def ex_create_params_def ex_plan_env_def ex_row_def ex_d1_def ex_d2_def
  ex_d3_def ex_defs

lemma ex_rows:
  "\<exists>et. CreateTask ex_plan_env (ex_params ''r'' ''x'' None []) ex_db = Inr (et, ex_d1)"
  "\<exists>et. CreateTask ex_plan_env (ex_params ''a'' ''a'' (Some 20) []) ex_d1 = Inr (et, ex_d2)"
  "\<exists>et. CreateTask ex_plan_env (ex_params ''b'' ''b'' (Some 20) [21]) ex_d2 = Inr (et, ex_d3)"
  by (auto simp: CreateTask_def ex_plan_defs Let_def new_task_def fresh_uuid_def drawn_def
      insert_task_def task_ids_def coll_ids_def validateTaskStateForWrite_def IsTerminalStage_def
      declared_stage_def getTaskWithEdges_def get_task_def add_rel_def insert_rel_def rel_exists_def)

definition ex_args :: "string \<Rightarrow> string \<Rightarrow> uuid option \<Rightarrow> uuid list \<Rightarrow> new_task_args" where
  "ex_args n desc par bs = \<lparr>nt_name = n, nt_description = desc,
     nt_parent = (case par of None \<Rightarrow> [] | Some p \<Rightarrow> uuid_String ex_lib p),
     nt_blockedBy = map (uuid_String ex_lib) bs\<rparr>"

lemma mapE_parse_printed: "uuid_laws L \<Longrightarrow> mapE (parse_id L) (map (uuid_String L) us) = Inr us"
  by (induction us) (simp_all add: parse_id_def uuid_laws_def)

lemma ex_texts_ok: "n \<in> {''a'', ''b'', ''r'', ''x''} \<Longrightarrow> validateTaskName n = Inr () \<and> validateTaskDescription n = Inr ()"
proof -
  assume n: "n \<in> {''a'', ''b'', ''r'', ''x''}"
  then have r: "runes n = map of_char n" by (auto intro: runes_ascii)
  from n have l: "length n = 1" by auto
  from n have "TrimSpace n \<noteq> []" unfolding TrimSpace_Nil_iff r by (auto simp: IsSpace_def in_range_def)
  with r l show ?thesis
    by (simp add: validateTaskName_def validateTaskDescription_def RuneCountInString_def
        maxTaskNameLength_def maxTaskDescriptionLength_def)
qed

lemma ex_serve:
  assumes "\<exists>et. CreateTask ex_plan_env (ex_params n desc par bs) d = Inr (et, d')"
    and "n \<in> {''a'', ''b'', ''r'', ''x''}" "desc \<in> {''a'', ''b'', ''r'', ''x''}"
  shows "grpc_create ex_lib (\<lambda>_. None) (\<lambda>s. s) ex_writer (ex_args n desc par bs) d
    (Inr (uuid_String ex_lib (20 + d_next d))) d'"
proof (rule grpc_create.answered)
  from assms(1) obtain et where et: "CreateTask ex_plan_env (ex_params n desc par bs) d = Inr (et, d')" ..
  have i: "t_id (e_task et) = 20 + d_next d"
    using CreateTask_rels [OF et] by (simp add: new_task_def fresh_uuid_def ex_plan_env_def)
  have par: "parse_opt_id ex_lib None = Inr None" "parse_opt_id ex_lib (Some (uuid_String ex_lib u)) = Inr (Some u)"
    "uuid_String ex_lib u \<noteq> []" for u
    by (simp_all add: parse_opt_id_def parse_id_def ex_lib_def)
  have p: "\<lparr>ct_Title = n, ct_Description = desc, ct_CollectionID = 1, ct_Phase = PhaseOpen,
      ct_Stage = StageTriage, ct_HoldReason = None, ct_NativeLabel = stage_str StageTriage, ct_Type = [],
      ct_Priority = None, ct_Rank = None, ct_AssigneeID = None, ct_ParentTaskID = par,
      ct_AcceptanceCriteria = None, ct_RemoteData = None, ct_Labels = [], ct_StartDate = None,
      ct_DueDate = None, ct_BlocksTaskIDs = [], ct_BlockedByTaskIDs = bs, ct_Repo = [], ct_Branch = []\<rparr>
      = ex_params n desc par bs" for par by (simp add: ex_params_def ex_create_params_def)
  have coll: "parse_id ex_lib ''uu'' = Inr 1" by (simp add: parse_id_def ex_lib_def)
  have stage: "create_stage open_access_ctx (Some stage_triage_number) = Inr (StageTriage, PhaseOpen)"
    by (simp add: create_stage_def stage_triage_number_def validateDefinedEnum_def TaskStage_names_def
        StageFromProto_def phaseForStage_def Let_def)
  show "serve_create ex_lib (\<lambda>_. None) (\<lambda>s. s) ex_writer ex_plan_env (ex_args n desc par bs) d
      = Inr (uuid_String ex_lib (20 + d_next d), d')"
    using ex_texts_ok assms(2,3) et i mapE_parse_printed [OF ex_lib_laws]
    by (cases par)
       (simp_all add: serve_create_def gw_call_def TokenAuthInterceptor_def authenticate_def srv_CreateTask_def
        CreateTask_request_def ex_args_def ex_writer_def coll stage no_values read_enum_def par
        p with_code_def Let_def pt_Id_row del: One_nat_def)
qed

definition ex_cfg :: EngineConfig where
  "ex_cfg = \<lparr>ec_SystemPrompt = [], ec_MaxDepth = 0, ec_Concurrency = 1\<rparr>"

definition ex_uid :: "uuid \<Rightarrow> string" where "ex_uid = uuid_String ex_lib"

definition ex_trace :: "creation list" where
  "ex_trace = [\<lparr>cr_id = ex_uid 20, cr_args = root_args ''r'' ''x'', cr_depth = 0\<rparr>,
     \<lparr>cr_id = ex_uid 21, cr_args = task_args ex_job (ex_sub ''a'') [], cr_depth = 1\<rparr>,
     \<lparr>cr_id = ex_uid 22, cr_args = task_args ex_job (ex_sub ''b'') [ex_uid 21], cr_depth = 1\<rparr>]"

abbreviation ex_step ::
  "db shared \<times> write_err gor \<Rightarrow> creation option \<Rightarrow> db shared \<times> write_err gor \<Rightarrow> bool" where
  "ex_step \<equiv> engine_step ex_plan_lib (NewEngine ex_cfg) (grpc_create ex_lib (\<lambda>_. None) (\<lambda>s. s) ex_writer)"

abbreviation ex_run_to :: "creation list \<Rightarrow> db shared \<times> write_err gor \<Rightarrow> bool" where
  "ex_run_to \<equiv> engine_run ex_plan_lib (NewEngine ex_cfg) (grpc_create ex_lib (\<lambda>_. None) (\<lambda>s. s) ex_writer)
     (Run_start ''x'' ''r'' ex_db)"

definition ex_sh :: "nat \<Rightarrow> int \<Rightarrow> int \<Rightarrow> db \<Rightarrow> db shared" where
  "ex_sh n tot term d = \<lparr>sh_slots = n, sh_cancelled = False, sh_totalTasks = tot, sh_terminalTasks = term,
     sh_maxDepthSeen = 0, sh_world = d\<rparr>"

abbreviation ex_prompt :: "Message list" where
  "ex_prompt \<equiv> prompt_of ex_plan_lib (NewEngine ex_cfg) ex_job"

lemma quiet:
  "engine_run P E create x tr (s, g) \<Longrightarrow> gstep P E create s g None s' g' \<Longrightarrow> s'' = s' \<Longrightarrow> g'' = g'
    \<Longrightarrow> engine_run P E create x tr (s'', g'')"
  using engine_run.more [of P E create x tr "(s, g)" None "(s', g')"] by (simp add: engine_step.goroutine)

lemma made:
  "engine_run P E create x tr (s, g) \<Longrightarrow> gstep P E create s g (Some c) s' g' \<Longrightarrow> s'' = s' \<Longrightarrow> g'' = g'
    \<Longrightarrow> tr' = tr @ [c] \<Longrightarrow> engine_run P E create x tr' (s'', g'')"
  using engine_run.more [of P E create x tr "(s, g)" "Some c" "(s', g')"] by (simp add: engine_step.goroutine)

lemma ex_next: "d_next ex_db = 0" "d_next ex_d1 = 1" "d_next ex_d2 = 2"
  by (simp_all add: ex_db_def ex_d1_def ex_d2_def)

lemma ex_writes:
  "grpc_create ex_lib (\<lambda>_. None) (\<lambda>s. s) ex_writer (root_args ''r'' ''x'') ex_db (Inr (ex_uid 20)) ex_d1"
  "grpc_create ex_lib (\<lambda>_. None) (\<lambda>s. s) ex_writer (task_args ex_job (ex_sub ''a'') []) ex_d1 (Inr (ex_uid 21)) ex_d2"
  "grpc_create ex_lib (\<lambda>_. None) (\<lambda>s. s) ex_writer (task_args ex_job (ex_sub ''b'') [ex_uid 21]) ex_d2 (Inr (ex_uid 22)) ex_d3"
  using ex_serve [OF ex_rows(1)] ex_serve [OF ex_rows(2)] ex_serve [OF ex_rows(3)]
  by (simp_all add: ex_args_def root_args_def task_args_def ex_job_def ex_sub_def ex_uid_def
      ex_next)

lemmas ex_run_defs = ex_sh_def ex_job_def ex_trace_def wrote_def int32_def ex_uid_def NewEngine_def ex_cfg_def
  enter_def

lemma ex_begun: "ex_run_to [] (ex_sh 0 0 0 ex_db, Run (ex_job\<lparr>jb_parent := []\<rparr>) (Rooting ''r''))"
  using engine_run.begun [where x = "Run_start ''x'' ''r'' ex_db"]
  by (simp add: Run_start_def ex_sh_def ex_job_def)

lemma ex_text: "jb_text (ex_job\<lparr>jb_parent := p\<rparr>) = ''x''" "sh_world (ex_sh a b c d) = d"
  by (simp_all add: ex_job_def ex_sh_def)

lemma ex_calling: "ex_run_to [ex_trace ! 0] (ex_sh 1 1 0 ex_d1, Run ex_job (InCall ex_prompt 0 False))"
proof -
  have "ex_run_to [ex_trace ! 0] (ex_sh 0 1 0 ex_d1, Run ex_job Entered)"
    by (rule made [OF ex_begun gstep.root_written [where i = "ex_uid 20" and w = ex_d1]]) (simp_all add: ex_text ex_writes, simp_all add: ex_run_defs)
  then have "ex_run_to [ex_trace ! 0] (ex_sh 0 1 0 ex_d1, Run ex_job (Acquire ex_prompt 0 False))"
    by (rule quiet [OF _ gstep.entry]) (simp_all add: ex_run_defs)
  then show ?thesis by (rule quiet [OF _ gstep.acquired]) (simp_all add: ex_run_defs)
qed

lemma ex_answer: "ParseResult (pl_unmarshal ex_plan_lib) ''{}'' = Inr ex_plan"
  by (simp add: ParseResult_def extractJSON_def ex_plan_lib_def ex_plan_def validateResult_def check_group_def
      check_task_def ex_sub_def)

lemma ex_done: "ex_run_to ex_trace (ex_sh 0 3 2 ex_d3, End None)"
proof -
  let ?a = "(ex_sub ''a'', ex_uid 21)" and ?b = "(ex_sub ''b'', ex_uid 22)"
  let ?g1 = "\<lparr>gr_Num = 1, gr_Tasks = [ex_sub ''a'']\<rparr>" and ?g2 = "\<lparr>gr_Num = 2, gr_Tasks = [ex_sub ''b'']\<rparr>"
  have "ex_run_to [ex_trace ! 0] (ex_sh 0 1 0 ex_d1, Run ex_job (Creating [] [?g1, ?g2] [] [] []))"
    by (rule quiet [OF ex_calling gstep.call_returned [where r = "Response ''{}''"]])
       (simp_all add: after_reply_def judged_terminal_def ex_answer, simp_all add: ex_plan_def ex_sh_def)
  then have "ex_run_to [ex_trace ! 0] (ex_sh 0 1 0 ex_d1, Run ex_job (Creating [ex_sub ''a''] [?g2] [] [] []))"
    by (rule quiet [OF _ gstep.next_group]) simp_all
  then have "ex_run_to [ex_trace ! 0, ex_trace ! 1]
      (ex_sh 0 2 1 ex_d2, Run ex_job (Creating [] [?g2] [] [ex_uid 21] [?a]))"
    by (rule made [OF _ gstep.task_written [where i = "ex_uid 21" and w = ex_d2]])
       (simp_all add: ex_text ex_writes, simp_all add: ex_run_defs ex_sub_def)
  then have "ex_run_to [ex_trace ! 0, ex_trace ! 1]
      (ex_sh 0 2 1 ex_d2, Run ex_job (Creating [ex_sub ''b''] [] [ex_uid 21] [] [?a]))"
    by (rule quiet [OF _ gstep.next_group]) simp_all
  then have "ex_run_to ex_trace (ex_sh 0 3 2 ex_d3, Run ex_job (Creating [] [] [ex_uid 21] [ex_uid 22] [?a, ?b]))"
    by (rule made [OF _ gstep.task_written [where i = "ex_uid 22" and w = ex_d3]])
       (simp_all add: ex_text ex_writes, simp_all add: ex_run_defs ex_sub_def)
  then have "ex_run_to ex_trace (ex_sh 0 3 2 ex_d3, Waiting [] None)"
    by (rule quiet [OF _ gstep.spawned]) (simp_all add: children_def ex_sub_def)
  then show ?thesis by (rule quiet [OF _ gstep.all_returned]) simp_all
qed


theorem engine_calls_bounded_witness:
  "int (calls (Run ex_job (InCall ex_prompt 0 False) :: write_err gor)) \<le> en_concurrency (NewEngine ex_cfg)"
  using engine_calls_bounded [OF ex_calling] by simp

end
