(* ===== verification/FT_Mcp.thy ===== *)
theory FT_Mcp
  imports Complex_Main FT_ServiceWrites FT_ServiceRows FT_Graph FT_Labels FT_Login FT_Decompose
begin

text \<open>
  The MCP adapter (\<open>internal/mcp/server.go\<close>): tools whose handlers parse their arguments,
  make one call of the service, after one of \<open>ListCollections\<close> where no collection is named,
  and turn the answer into a JSON value. The libraries are parameters: \<open>time.Parse\<close>, the format
  of time stamps, and the text of page tokens and of stored values.
\<close>

section \<open>Arguments\<close>

datatype arg = ArgString string | ArgBool bool | ArgNumber rat | ArgOther

type_synonym args = "(string \<times> arg) list"

record mcp_lib =
  ml_lib :: lib
  ml_cursor :: "string \<Rightarrow> task_cursor page_token"
  ml_token :: "task_cursor \<Rightarrow> string"
  ml_time :: "string \<Rightarrow> string \<Rightarrow> time option"
  ml_format :: "time \<Rightarrow> string"
  ml_text :: "rendered \<Rightarrow> string"

datatype tool_err = MissingParam | InvalidValue | NoCollection | Rpc code

definition optString :: "args \<Rightarrow> string \<Rightarrow> string" where
  "optString a key = (case map_of a key of Some (ArgString s) \<Rightarrow> s | _ \<Rightarrow> [])"

definition optBool :: "args \<Rightarrow> string \<Rightarrow> bool" where
  "optBool a key = (case map_of a key of Some (ArgBool b) \<Rightarrow> b | _ \<Rightarrow> False)"

definition optFloat :: "args \<Rightarrow> string \<Rightarrow> rat" where
  "optFloat a key = (case map_of a key of Some (ArgNumber x) \<Rightarrow> x | _ \<Rightarrow> 0)"

text \<open>A number from JSON is finite, so the tests for NaN and infinity are vacuous.\<close>

definition optBoundedPositiveInt32 :: "args \<Rightarrow> string \<Rightarrow> int \<Rightarrow> tool_err + int option" where
  "optBoundedPositiveInt32 a key mx =
    (let v = optFloat a key in
     if v = 0 then Inr None
     else if v < 0 \<or> of_int \<lfloor>v\<rfloor> \<noteq> v then Inl InvalidValue
     else if of_int mx < v then Inl InvalidValue
     else Inr (Some \<lfloor>v\<rfloor>))"

definition requiredString :: "args \<Rightarrow> string \<Rightarrow> tool_err + string" where
  "requiredString a key = (let v = optString a key in if v = [] then Inl MissingParam else Inr v)"

definition splitCSV :: "string \<Rightarrow> string list" where
  "splitCSV s = filter (\<lambda>p. p \<noteq> []) (map TrimSpace (split_on (CHR '','') s))"

text \<open>The idiom \<open>if v := optString(req, key); v != ""\<close>, also with a parser.\<close>

definition str_opt :: "args \<Rightarrow> string \<Rightarrow> string option" where
  "str_opt a key = (let v = optString a key in if v = [] then None else Some v)"

definition read_opt :: "(string \<Rightarrow> tool_err + 'a) \<Rightarrow> args \<Rightarrow> string \<Rightarrow> tool_err + 'a option" where
  "read_opt f a key = (case str_opt a key of None \<Rightarrow> Inr None | Some v \<Rightarrow> thenE (f v) (\<lambda>x. Inr (Some x)))"

definition csv :: "args \<Rightarrow> string \<Rightarrow> string list" where
  "csv a key = (case str_opt a key of None \<Rightarrow> [] | Some v \<Rightarrow> splitCSV v)"

section \<open>Names of enumerations\<close>

definition phaseNames :: "(int \<times> string) list" where
  "phaseNames = [(1, ''OPEN''), (2, ''IN_PROGRESS''), (3, ''ON_HOLD''), (4, ''CLOSED'')]"

definition stageValues :: "(string \<times> int) list" where
  "stageValues = [(''triage'', 1), (''accepted'', 2), (''working'', 4), (''in_review'', 5), (''in_qa'', 6),
     (''deploying'', 7), (''completed'', 12), (''wont_fix'', 13), (''duplicate'', 14), (''cancelled'', 15)]"

definition stageNames :: "(int \<times> string) list" where
  "stageNames = [(1, ''triage''), (2, ''accepted''), (4, ''working''), (5, ''in_review''), (6, ''in_qa''),
     (7, ''deploying''), (12, ''completed''), (13, ''wont_fix''), (14, ''duplicate''), (15, ''cancelled'')]"

definition priorityNames :: "(int \<times> string) list" where
  "priorityNames = [(1, ''URGENT''), (2, ''HIGH''), (3, ''NORMAL''), (4, ''LOW'')]"

definition priorityValues :: "(string \<times> int) list" where
  "priorityValues = [(''URGENT'', 1), (''HIGH'', 2), (''NORMAL'', 3), (''LOW'', 4)]"

definition sortFieldValues :: "(string \<times> int) list" where
  "sortFieldValues = [(''created'', 1), (''updated'', 2), (''priority'', 3), (''due_date'', 4)]"

definition sortOrderValues :: "(string \<times> int) list" where
  "sortOrderValues = [(''asc'', 1), (''desc'', 2)]"

definition platformNames :: "(int \<times> string) list" where
  "platformNames = [(1, ''farmtable''), (2, ''github''), (3, ''linear''), (4, ''jira''), (5, ''asana''), (6, ''beads'')]"

definition availabilityReasonNames :: "(int \<times> string) list" where
  "availabilityReasonNames = [(1, ''triage''), (2, ''terminal''), (3, ''held''), (4, ''blocked_by_dependency''),
     (5, ''future_start_date'')]"

text \<open>A lookup in a Go map gives the empty string for a missing key.\<close>

definition name_of :: "(int \<times> string) list \<Rightarrow> int \<Rightarrow> string" where
  "name_of tab n = (case map_of tab n of None \<Rightarrow> [] | Some s \<Rightarrow> s)"

definition upper :: "unicode \<Rightarrow> string \<Rightarrow> string" where
  "upper U s = concat (map (\<lambda>r. EncodeRune (ToUpper U r)) (runes s))"

definition parsePhase :: "unicode \<Rightarrow> string \<Rightarrow> tool_err + int" where
  "parsePhase U s =
    (let u = upper U s in
     if u = ''OPEN'' then Inr 1 else if u = ''IN_PROGRESS'' then Inr 2
     else if u = ''CLOSED'' then Inr 4 else Inl InvalidValue)"

definition parseStage :: "unicode \<Rightarrow> string \<Rightarrow> tool_err + int" where
  "parseStage U s = optE InvalidValue (map_of stageValues (lower U s))"

definition parsePriority :: "unicode \<Rightarrow> string \<Rightarrow> tool_err + int" where
  "parsePriority U s = optE InvalidValue (map_of priorityValues (upper U s))"

definition date_layouts :: "string list" where
  "date_layouts = [''2006-01-02T15:04:05Z07:00'', ''2006-01-02T15:04:05Z'', ''2006-01-02'']"

definition parseDate :: "mcp_lib \<Rightarrow> string \<Rightarrow> tool_err + time" where
  "parseDate M s = optE InvalidValue
    (case List.map_filter (\<lambda>layout. ml_time M layout s) date_layouts of [] \<Rightarrow> None | t # _ \<Rightarrow> Some t)"

section \<open>Answers\<close>

definition nilIfEmpty :: "string option \<Rightarrow> jval" where
  "nilIfEmpty s = (case s of None \<Rightarrow> JNull | Some v \<Rightarrow> if v = [] then JNull else JStr v)"

definition nilIfZeroPriority :: "int option \<Rightarrow> jval" where
  "nilIfZeroPriority p = (case p of None \<Rightarrow> JNull | Some n \<Rightarrow> if n = 0 then JNull else JStr (name_of priorityNames n))"

definition formatTimestamp :: "mcp_lib \<Rightarrow> time option \<Rightarrow> jval" where
  "formatTimestamp M ts = (case ts of None \<Rightarrow> JNull | Some t \<Rightarrow> if t = 0 then JNull else JStr (ml_format M t))"

text \<open>The service sends users of tasks, comments and changes with their identifier only.\<close>

definition userToMap :: "string \<Rightarrow> jval" where
  "userToMap uid = JMap [(''id'', JStr uid), (''name'', JStr []), (''type'', JStr [])]"

definition relationship_names :: "(int \<times> string) list" where
  "relationship_names = [(0, ''RELATIONSHIP_TYPE_UNSPECIFIED''), (1, ''RELATIONSHIP_TYPE_BLOCKS''),
     (2, ''RELATIONSHIP_TYPE_BLOCKED_BY''), (3, ''RELATIONSHIP_TYPE_RELATED''), (4, ''RELATIONSHIP_TYPE_DUPLICATE'')]"

definition relationshipsToList :: "(int \<times> string) list \<Rightarrow> jval" where
  "relationshipsToList rs = JList (map (\<lambda>(ty, tgt).
     JMap [(''type'', JStr (name_of relationship_names ty)), (''target_task_id'', JStr tgt)]) rs)"

definition ci_names :: "(int \<times> string) list" where
  "ci_names = [(1, ''pending''), (2, ''running''), (3, ''passed''), (4, ''failed'')]"

definition pr_status_names :: "(int \<times> string) list" where
  "pr_status_names = [(0, ''unspecified''), (1, ''open''), (2, ''merged''), (3, ''closed'')]"

definition codeContextToMap :: "pb_code_context option \<Rightarrow> jval" where
  "codeContextToMap cc =
    (case cc of None \<Rightarrow> JNull
     | Some x \<Rightarrow> JMap
        [(''repo'', nilIfEmpty (pcc_Repo x)), (''branch'', nilIfEmpty (pcc_Branch x)),
         (''ci_status'', case pcc_CiStatus x of None \<Rightarrow> JNull
            | Some n \<Rightarrow> if n = 0 then JNull else JStr (name_of ci_names n)),
         (''commit_shas'', JNull),
         (''pull_requests'', if pcc_PullRequests x = [] then JNull
            else JMaps (map (\<lambda>pr. [(''id'', JStr (pq_Id pr)), (''url'', JStr (pq_Url pr)),
                   (''status'', JStr (name_of pr_status_names (pq_Status pr)))]) (pcc_PullRequests x)))])"

definition taskToMap :: "mcp_lib \<Rightarrow> pb_task \<Rightarrow> bool \<Rightarrow> jmap" where
  "taskToMap M t short =
    [(''id'', JStr (pt_Id t)), (''name'', JStr (pt_Name t)),
     (''phase'', JStr (name_of phaseNames (pt_Phase t))),
     (''stage'', JStr (name_of stageNames (pt_Stage t))),
     (''priority'', nilIfZeroPriority (pt_Priority t)), (''type'', nilIfEmpty (pt_Type t)),
     (''assignees'', JList (map userToMap (pt_Assignees t))),
     (''collection_id'', JStr (pt_CollectionId t)),
     (''updated_at'', formatTimestamp M (Some (pt_UpdatedAt t)))]
    @ (if short then [] else
    [(''description'', nilIfEmpty (pt_Description t)),
     (''acceptance_criteria'', nilIfEmpty (pt_Acceptance t)),
     (''native_status'', nilIfEmpty (pt_NativeStatus t)), (''creator'', JNull),
     (''start_date'', formatTimestamp M (pt_StartDate t)), (''due_date'', formatTimestamp M (pt_DueDate t)),
     (''parent_task_id'', nilIfEmpty (pt_ParentTaskId t)),
     (''relationships'', relationshipsToList (pt_Relationships t)),
     (''labels'', if pt_Labels t = [] then JNull else JStrs (pt_Labels t)),
     (''code_context'', codeContextToMap (pt_CodeContext t)),
     (''platform'', JStr (name_of platformNames (pt_Platform t))),
     (''created_at'', formatTimestamp M (Some (pt_CreatedAt t))),
     (''closed_at'', formatTimestamp M (pt_ClosedAt t)), (''version'', JStr (pt_Version t))])"

definition commentToMap :: "mcp_lib \<Rightarrow> pb_comment \<Rightarrow> jval" where
  "commentToMap M c = JMap
    [(''id'', JStr (pcm_Id c)), (''task_id'', JStr (pcm_TaskId c)), (''author'', userToMap (pcm_Author c)),
     (''body'', JStr (pcm_Body c)), (''created_at'', formatTimestamp M (Some (pcm_CreatedAt c))),
     (''updated_at'', formatTimestamp M (Some (pcm_UpdatedAt c)))]"

definition changeToMap :: "mcp_lib \<Rightarrow> pb_change \<Rightarrow> jval" where
  "changeToMap M c =
    (let v = (\<lambda>x. case x of None \<Rightarrow> JNull | Some r \<Rightarrow> JStr (ml_text M r)) in JMap
    [(''id'', JStr (pch_Id c)), (''task_id'', JStr (pch_TaskId c)), (''field'', JStr (pch_Field c)),
     (''old_value'', v (pch_OldValue c)), (''new_value'', v (pch_NewValue c)),
     (''changed_by'', userToMap (pch_ChangedBy c)),
     (''changed_at'', formatTimestamp M (Some (pch_ChangedAt c))), (''reason'', JNull)])"

fun dependencyNodeToMap :: "dep_node \<Rightarrow> jval" where
  "dependencyNodeToMap (DepNode t down up) = JMap
    ([(''id'', JStr (pt_Id t)), (''name'', JStr (pt_Name t)),
      (''phase'', JStr (name_of phaseNames (pt_Phase t))), (''stage'', JStr (name_of stageNames (pt_Stage t)))]
     @ (if down = [] then [] else [(''blocks'', JList (map dependencyNodeToMap down))])
     @ (if up = [] then [] else [(''blocked_by'', JList (map dependencyNodeToMap up))]))"

definition availabilityToMap :: "pb_availability \<Rightarrow> jval" where
  "availabilityToMap a = JMap [(''available'', JBool (pav_Available a)),
     (''reasons'', JStrs (List.map_filter (map_of availabilityReasonNames) (pav_Reasons a)))]"

end
