(* ===== verification/FT_McpTools.thy ===== *)
theory FT_McpTools
  imports FT_Mcp
begin

text \<open>
  The handlers of the MCP tools. A call reaches the service through its interceptor with the
  token of the adapter; the environment of a call is the server's clock and identifiers, and
  the listing that finds the collection may see another database than the call itself.
\<close>

record backend =
  be_lookup :: db_lookup
  be_sha :: sha
  be_nulls_first :: bool
  be_pool :: "pool option"

text \<open>The adapter keeps only its tokens.\<close>

record mcp_server =
  mp_token :: string
  mp_iapToken :: string

definition contextWithAuth :: "string \<Rightarrow> string \<Rightarrow> md" where
  "contextWithAuth tok iapToken =
    (\<lambda>_. [])(''authorization'' := [bearer @ (if iapToken \<noteq> [] then iapToken else tok)],
             ''x-farmtable-token'' := [tok])"

definition mcp_authCtx :: "mcp_server \<Rightarrow> md" where
  "mcp_authCtx S = (if mp_token S = [] then (\<lambda>_. []) else contextWithAuth (mp_token S) (mp_iapToken S))"

definition rpc_call :: "backend \<Rightarrow> mcp_server \<Rightarrow> env \<Rightarrow> string \<Rightarrow> db \<Rightarrow> (ctx \<Rightarrow> code + 'a) \<Rightarrow> tool_err + 'a" where
  "rpc_call B S e meth d handler =
    (case TokenAuthInterceptor (be_lookup B d) (be_sha B) (now e)
        (''/farmtable.v1.FarmTableService/'' @ meth) (Some (mcp_authCtx S)) open_access_ctx handler of
       Inl k \<Rightarrow> Inl (Rpc k) | Inr x \<Rightarrow> Inr x)"

text \<open>The named collection, or the only one the caller sees on the first page.\<close>

definition mcp_resolveCollection :: "mcp_lib \<Rightarrow> backend \<Rightarrow> mcp_server \<Rightarrow> env \<Rightarrow> args \<Rightarrow> db \<Rightarrow> string" where
  "mcp_resolveCollection M B S e a dl =
    (let explicit = optString a ''collection'' in
     if explicit \<noteq> [] then explicit
     else (case rpc_call B S e ''ListCollections'' dl
             (\<lambda>c. srv_ListCollections (ml_lib M) c None 0 NoToken dl) of
         Inr (pg, _) \<Rightarrow> (case pg_Items pg of [co] \<Rightarrow> pc_Id co | _ \<Rightarrow> [])
       | Inl _ \<Rightarrow> []))"

definition some_str :: "string \<Rightarrow> string option" where
  "some_str s = (if s = [] then None else Some s)"

section \<open>Reading tools\<close>

definition none_or :: "'a option \<Rightarrow> 'a \<Rightarrow> 'a" where
  "none_or v dflt = (case v of None \<Rightarrow> dflt | Some x \<Rightarrow> x)"

definition list_request :: "mcp_lib \<Rightarrow> string \<Rightarrow> args \<Rightarrow> tool_err + ListTasksRequest" where
  "list_request M coll a =
    (let U = tables (ml_lib M) in
     thenE (read_opt (parsePhase U) a ''phase'') (\<lambda>phase.
     thenE (mapE (parseStage U) (csv a ''stage'')) (\<lambda>stages.
     thenE (read_opt (parsePriority U) a ''priority'') (\<lambda>priority.
     thenE (read_opt (\<lambda>v. optE InvalidValue (map_of sortFieldValues v)) a ''sort'') (\<lambda>sf.
     thenE (read_opt (\<lambda>v. optE InvalidValue (map_of sortOrderValues v)) a ''order'') (\<lambda>so.
     thenE (optBoundedPositiveInt32 a ''limit'' 200) (\<lambda>lim.
     Inr \<lparr>rl_CollectionId = some_str coll, rl_Phase = phase, rl_Stages = stages,
       rl_Assignee = str_opt a ''assignee'', rl_Priority = priority, rl_Type = str_opt a ''type'',
       rl_Labels = csv a ''labels'', rl_ParentTaskId = str_opt a ''parent'',
       rl_SortField = none_or sf 0, rl_SortOrder = none_or so 0, rl_PageSize = none_or lim 0,
       rl_PageToken = ml_cursor M (optString a ''cursor'')\<rparr>)))))))"

definition handleTaskList :: "mcp_lib \<Rightarrow> backend \<Rightarrow> mcp_server \<Rightarrow> env \<Rightarrow> args \<Rightarrow> db \<Rightarrow> db \<Rightarrow> tool_err + jval" where
  "handleTaskList M B S e a dl d =
    thenE (list_request M (mcp_resolveCollection M B S e a dl) a) (\<lambda>r.
    thenE (rpc_call B S e ''ListTasks'' d (\<lambda>c. srv_ListTasks (ml_lib M) e (be_nulls_first B) c r d)) (\<lambda>(pg, nxt).
    Inr (JMap [(''items'', JMaps (map (\<lambda>t. taskToMap M t (\<not> optBool a ''full'')) (pg_Items pg))),
      (''next_cursor'', nilIfEmpty (map_option (ml_token M) nxt)),
      (''has_more'', JBool (pg_HasMore pg)), (''total_count'', JNum (pg_TotalCount pg))])))"

text \<open>Here the collection only is part of the request, which the service does not read.\<close>

definition handleTaskGet :: "mcp_lib \<Rightarrow> backend \<Rightarrow> mcp_server \<Rightarrow> env \<Rightarrow> args \<Rightarrow> db \<Rightarrow> tool_err + jval" where
  "handleTaskGet M B S e a d =
    thenE (requiredString a ''id'') (\<lambda>i.
    let withComments = optBool a ''with_comments''; withChanges = optBool a ''with_changes'' in
    thenE (rpc_call B S e ''GetTask'' d (\<lambda>c. srv_GetTask (ml_lib M) e c i withComments withChanges d))
      (\<lambda>(t, cs, hs).
    Inr (JMap (taskToMap M t False
      @ (if withComments \<and> cs \<noteq> [] then [(''comments'', JList (map (commentToMap M) cs))] else [])
      @ (if withChanges \<and> hs \<noteq> [] then [(''changes'', JList (map (changeToMap M) hs))] else [])))))"

text \<open>
  The search looks at one page of 200 tasks. Its loop appends before it compares with the limit,
  so a limit of 0 gives one result.
\<close>

fun take_matches :: "('a \<Rightarrow> bool) \<Rightarrow> int \<Rightarrow> int \<Rightarrow> 'a list \<Rightarrow> 'a list" where
  "take_matches P mx n [] = []"
| "take_matches P mx n (x # xs) =
    (if P x then x # (if mx \<le> n + 1 then [] else take_matches P mx (n + 1) xs)
     else take_matches P mx n xs)"

definition handleTaskSearch :: "mcp_lib \<Rightarrow> backend \<Rightarrow> mcp_server \<Rightarrow> env \<Rightarrow> args \<Rightarrow> db \<Rightarrow> db \<Rightarrow> tool_err + jval" where
  "handleTaskSearch M B S e a dl d =
    (let U = tables (ml_lib M); coll = mcp_resolveCollection M B S e a dl in
     thenE (requiredString a ''query'') (\<lambda>query.
     let maxResults = (let v = optFloat a ''limit'' in if 0 < v then \<lfloor>v\<rfloor> else 20) in
     thenE (read_opt (parsePhase U) a ''phase'') (\<lambda>phase.
     thenE (rpc_call B S e ''ListTasks'' d (\<lambda>c. srv_ListTasks (ml_lib M) e (be_nulls_first B) c
        \<lparr>rl_CollectionId = some_str coll, rl_Phase = phase, rl_Stages = [], rl_Assignee = None,
          rl_Priority = None, rl_Type = None, rl_Labels = [], rl_ParentTaskId = None,
          rl_SortField = 0, rl_SortOrder = 0, rl_PageSize = 200, rl_PageToken = NoToken\<rparr> d)) (\<lambda>(pg, _).
     let items = take_matches (\<lambda>t. contains (lower U (pt_Name t)) (lower U query)) maxResults 0 (pg_Items pg) in
     Inr (JMap [(''items'', JMaps (map (\<lambda>t. taskToMap M t True) items)),
       (''total_count'', JNum (int (length items)))])))))"

definition tree_direction :: "unicode \<Rightarrow> string option \<Rightarrow> tool_err + int" where
  "tree_direction U v =
    (case v of None \<Rightarrow> Inr 3
     | Some s \<Rightarrow> let l = lower U s in
         if l = ''up'' then Inr 1 else if l = ''down'' then Inr 2
         else if l = ''both'' then Inr 3 else Inl InvalidValue)"

definition handleTaskTree :: "mcp_lib \<Rightarrow> backend \<Rightarrow> mcp_server \<Rightarrow> env \<Rightarrow> args \<Rightarrow> db \<Rightarrow> tool_err + jval" where
  "handleTaskTree M B S e a d =
    thenE (requiredString a ''id'') (\<lambda>i.
    thenE (tree_direction (tables (ml_lib M)) (str_opt a ''direction'')) (\<lambda>dir.
    thenE (optBoundedPositiveInt32 a ''max_depth'' 20) (\<lambda>depth.
    thenE (rpc_call B S e ''GetDependencyTree'' d
        (\<lambda>c. srv_GetDependencyTree (ml_lib M) e c i (none_or depth 5) dir d)) (\<lambda>root.
    Inr (case root of None \<Rightarrow> JNull | Some n \<Rightarrow> dependencyNodeToMap n)))))"

definition ready_item :: "mcp_lib \<Rightarrow> pb_task \<times> int \<Rightarrow> jmap" where
  "ready_item M = (\<lambda>(t, resolved).
    [(''id'', JStr (pt_Id t)), (''name'', JStr (pt_Name t)),
     (''phase'', JStr (name_of phaseNames (pt_Phase t))), (''stage'', JStr (name_of stageNames (pt_Stage t))),
     (''priority'', nilIfZeroPriority (pt_Priority t)),
     (''assignees'', JList (map userToMap (pt_Assignees t))), (''blockers_resolved'', JNum resolved),
     (''updated_at'', formatTimestamp M (Some (pt_UpdatedAt t))),
     (''availability'', availabilityToMap (pt_Availability t))])"

definition handleTaskReady :: "mcp_lib \<Rightarrow> backend \<Rightarrow> mcp_server \<Rightarrow> env \<Rightarrow> args \<Rightarrow> db \<Rightarrow> db \<Rightarrow> tool_err + jval" where
  "handleTaskReady M B S e a dl d =
    (let coll = mcp_resolveCollection M B S e a dl in
     thenE (read_opt (parsePriority (tables (ml_lib M))) a ''min_priority'') (\<lambda>minp.
     thenE (optBoundedPositiveInt32 a ''limit'' 200) (\<lambda>lim.
     thenE (rpc_call B S e ''GetReadyTasks'' d (\<lambda>c. srv_GetReadyTasks (ml_lib M) e (be_nulls_first B) (be_pool B) c
        \<lparr>ry_CollectionId = some_str coll, ry_Assignee = str_opt a ''assignee'', ry_MinPriority = minp,
          ry_IncludeUnblockedOpen = optBool a ''include_unblocked'', ry_PageSize = none_or lim 50,
          ry_PageToken = NoToken\<rparr> d)) (\<lambda>(pg, _).
     Inr (JMap [(''items'', JMaps (map (ready_item M) (pg_Items pg))),
       (''total_count'', JNum (pg_TotalCount pg))])))))"

definition handleTaskCriticalPath :: "mcp_lib \<Rightarrow> backend \<Rightarrow> mcp_server \<Rightarrow> env \<Rightarrow> args \<Rightarrow> db \<Rightarrow> db \<Rightarrow> tool_err + jval" where
  "handleTaskCriticalPath M B S e a dl d =
    (let coll = mcp_resolveCollection M B S e a dl in
     if coll = [] then Inl NoCollection
     else thenE (rpc_call B S e ''GetCriticalPath'' d (\<lambda>c. srv_GetCriticalPath (ml_lib M) e (be_nulls_first B)
         (be_pool B) c coll (str_opt a ''root'') d)) (\<lambda>p.
     Inr (JMap ([(''path'', JMaps (map (\<lambda>n. [(''id'', JStr (pn_Id n)), (''name'', JStr (pn_Name n)),
            (''stage'', JStr (name_of stageNames (pn_Stage n))), (''depth'', JNum (pn_Depth n))]) (pcp_Path p))),
          (''total_depth'', JNum (pcp_TotalDepth p))]
        @ (case pcp_Bottleneck p of None \<Rightarrow> []
           | Some (i, n, k) \<Rightarrow> [(''bottleneck'', JMap [(''id'', JStr i), (''name'', JStr n), (''fan_out'', JNum k),
               (''reason'', JStr (''blocks '' @ itoa k @ '' tasks directly''))])])))))"

section \<open>Writing tools\<close>

text \<open>A date argument: \<open>none\<close> clears the field of an update.\<close>

definition cleared :: "args \<Rightarrow> string \<Rightarrow> bool" where
  "cleared a key = (case str_opt a key of None \<Rightarrow> False | Some v \<Rightarrow> EqualFold v ''none'')"

definition create_request :: "mcp_lib \<Rightarrow> string \<Rightarrow> args \<Rightarrow> tool_err + CreateTaskRequest" where
  "create_request M coll a =
    (let U = tables (ml_lib M) in
     thenE (checkE (coll \<noteq> []) NoCollection) (\<lambda>_.
     thenE (requiredString a ''name'') (\<lambda>name.
     thenE (read_opt (parseStage U) a ''stage'') (\<lambda>stage.
     thenE (read_opt (parsePriority U) a ''priority'') (\<lambda>priority.
     thenE (read_opt (parseDate M) a ''due_date'') (\<lambda>due.
     thenE (read_opt (parseDate M) a ''start_date'') (\<lambda>start_date.
     Inr \<lparr>rc_Name = name, rc_CollectionId = coll, rc_Description = optString a ''description'',
       rc_AcceptanceCriteria = str_opt a ''acceptance_criteria'', rc_Stage = stage, rc_Priority = priority,
       rc_Type = optString a ''type'', rc_AssigneeIds = csv a ''assignees'', rc_Labels = csv a ''labels'',
       rc_ParentTaskId = str_opt a ''parent'', rc_DueDate = due, rc_StartDate = start_date,
       rc_HoldReason = None, rc_Rank = None, rc_BlocksTaskIds = csv a ''blocks'',
       rc_BlockedByTaskIds = csv a ''blocked_by'', rc_Repo = [], rc_Branch = []\<rparr>)))))))"

definition handleTaskCreate :: "mcp_lib \<Rightarrow> backend \<Rightarrow> mcp_server \<Rightarrow> env \<Rightarrow> args \<Rightarrow> db \<Rightarrow> db \<Rightarrow> tool_err + jval \<times> db" where
  "handleTaskCreate M B S e a dl d =
    thenE (create_request M (mcp_resolveCollection M B S e a dl) a) (\<lambda>r.
    thenE (rpc_call B S e ''CreateTask'' d (\<lambda>c. srv_CreateTask (ml_lib M) e c r d)) (\<lambda>(t, _, d').
    Inr (JMap (taskToMap M t False), d')))"

definition read_unless :: "bool \<Rightarrow> (tool_err + 'a option) \<Rightarrow> tool_err + 'a option" where
  "read_unless b m = (if b then Inr None else m)"

definition update_request :: "mcp_lib \<Rightarrow> args \<Rightarrow> tool_err + UpdateTaskRequest" where
  "update_request M a =
    (let U = tables (ml_lib M); clr = cleared a in
     thenE (requiredString a ''id'') (\<lambda>i.
     thenE (read_opt (parseStage U) a ''stage'') (\<lambda>stage.
     thenE (read_opt (parsePriority U) a ''priority'') (\<lambda>priority.
     thenE (read_unless (clr ''due_date'') (read_opt (parseDate M) a ''due_date'')) (\<lambda>due.
     thenE (read_unless (clr ''start_date'') (read_opt (parseDate M) a ''start_date'')) (\<lambda>start_date.
     Inr \<lparr>ru_Id = i, ru_Name = str_opt a ''name'', ru_Description = str_opt a ''description'',
       ru_AcceptanceCriteria = str_opt a ''acceptance_criteria'', ru_Stage = stage,
       ru_Priority = priority, ru_Type = str_opt a ''type'',
       ru_AssigneeIds = (if clr ''assignees'' then [] else csv a ''assignees''),
       ru_ClearAssignees = clr ''assignees'', ru_DueDate = due, ru_ClearDueDate = clr ''due_date'',
       ru_StartDate = start_date, ru_ClearStartDate = clr ''start_date'',
       ru_HoldReason = None, ru_ClearHoldReason = False, ru_Rank = None, ru_ClearRank = False,
       ru_ParentTaskId = (if clr ''parent'' then None else str_opt a ''parent''),
       ru_ClearParent = clr ''parent'', ru_AddLabels = csv a ''add_labels'',
       ru_RemoveLabels = csv a ''remove_labels'', ru_AddBlocks = csv a ''add_blocks'',
       ru_AddBlockedBy = csv a ''add_blocked_by'', ru_RemoveRelationships = csv a ''remove_relationships'',
       ru_Repo = None, ru_Branch = None, ru_AddPullRequests = [], ru_CiStatus = None,
       ru_RemoteId = None, ru_RemoteUrl = None, ru_Reason = str_opt a ''reason'',
       ru_Version = str_opt a ''version''\<rparr>))))))"

definition handleTaskUpdate ::
  "mcp_lib \<Rightarrow> backend \<Rightarrow> mcp_server \<Rightarrow> env \<Rightarrow> args \<Rightarrow> db \<Rightarrow> db \<times> db \<Rightarrow> db \<times> db \<Rightarrow> tool_err + jval \<times> db" where
  "handleTaskUpdate M B S e a d0 try1 try2 =
    thenE (update_request M a) (\<lambda>r.
    thenE (rpc_call B S e ''UpdateTask'' d0 (\<lambda>c. srv_UpdateTask (ml_lib M) e c r d0 try1 try2)) (\<lambda>(t, _, d').
    Inr (JMap (taskToMap M t False), d')))"

text \<open>The stage of a claim is parsed, sent, and not read by the service.\<close>

definition handleTaskClaim ::
  "mcp_lib \<Rightarrow> backend \<Rightarrow> mcp_server \<Rightarrow> env \<Rightarrow> args \<Rightarrow> db \<Rightarrow> db \<times> db \<times> db \<Rightarrow> db \<times> db \<times> db \<Rightarrow> tool_err + jval \<times> db" where
  "handleTaskClaim M B S e a d0 try1 try2 =
    thenE (requiredString a ''id'') (\<lambda>i.
    thenE (read_opt (parseStage (tables (ml_lib M))) a ''stage'') (\<lambda>_.
    thenE (rpc_call B S e ''ClaimTask'' d0 (\<lambda>c. srv_ClaimTask (ml_lib M) e c
       \<lparr>rk_Id = i, rk_Version = str_opt a ''version'', rk_AssigneeId = None\<rparr> d0 try1 try2)) (\<lambda>(t, _, d').
    Inr (JMap (taskToMap M t False @ [(''claimed_at'', formatTimestamp M (Some (now e)))]), d'))))"

definition handleTaskClose ::
  "mcp_lib \<Rightarrow> backend \<Rightarrow> mcp_server \<Rightarrow> env \<Rightarrow> args \<Rightarrow> db \<Rightarrow> db \<times> db \<Rightarrow> db \<times> db \<Rightarrow> tool_err + jval \<times> db" where
  "handleTaskClose M B S e a d0 try1 try2 =
    thenE (requiredString a ''id'') (\<lambda>i.
    thenE (read_opt (parseStage (tables (ml_lib M))) a ''stage'') (\<lambda>stage.
    thenE (rpc_call B S e ''CloseTask'' d0 (\<lambda>c. srv_CloseTask (ml_lib M) e c
       \<lparr>rx_Id = i, rx_Stage = stage, rx_Version = str_opt a ''version''\<rparr> d0 try1 try2)) (\<lambda>(t, _, d').
    Inr (JMap (taskToMap M t False), d'))))"

end
