(* ===== verification/FT_McpProps.thy ===== *)
theory FT_McpProps
  imports FT_McpTools FT_ServiceProps FT_LabelProps FT_MessageTypes FT_Auth
begin

text \<open>
  What holds of the MCP tools. A call reaches the service with the context of the adapter's
  token, so that a tool that writes is one step of the service and what holds of the runs of
  the service holds of the clients of an adapter; the names that the tools print are names
  they read; a search looks at one page.
\<close>

section \<open>Tools as steps of the service\<close>

inductive tool_call :: "mcp_lib \<Rightarrow> backend \<Rightarrow> mcp_server \<Rightarrow> env \<Rightarrow> db \<Rightarrow> db \<Rightarrow> bool" for M B S e d where
  create: "handleTaskCreate M B S e a dl d = Inr (r, d') \<Longrightarrow> tool_call M B S e d d'"
| update: "handleTaskUpdate M B S e a d (d, d) (d, d) = Inr (r, d') \<Longrightarrow> tool_call M B S e d d'"
| claim: "handleTaskClaim M B S e a d (d, d, d) (d, d, d) = Inr (r, d') \<Longrightarrow> tool_call M B S e d d'"
| close: "handleTaskClose M B S e a d (d, d) (d, d) = Inr (r, d') \<Longrightarrow> tool_call M B S e d d'"

text \<open>The service reads the token of the adapter, never the token of a proxy in front of it.\<close>

lemma extract_mcp: "extractToken (mcp_authCtx S) = mp_token S"
  by (simp add: extractToken_def mcp_authCtx_def contextWithAuth_def)

definition backed :: "backend \<Rightarrow> bool" where
  "backed B \<longleftrightarrow> (\<forall>d. be_lookup B d = Some (StoreTokenLookup_LookupByHash d))"

definition calls_with :: "backend \<Rightarrow> mcp_server \<Rightarrow> env \<Rightarrow> db \<Rightarrow> token \<Rightarrow> bool" where
  "calls_with B S e d k \<longleftrightarrow> mp_token S \<noteq> [] \<and> k \<in> set (d_tokens d)
     \<and> k_hash k = HashToken (be_sha B) (mp_token S) \<and> \<not> token_expired (now e) k"

lemma rpc_call_Inr:
  assumes "backed B" and "db_ok d"
    and "rpc_call B S e meth d h = Inr x" and "meth \<notin> {''GetVersion'', ''GetStatus''}"
  shows "\<exists>k. calls_with B S e d k \<and> h (token_ctx k open_access_ctx) = Inr x"
proof -
  have "\<not> isUnauthenticatedEndpoint (''/farmtable.v1.FarmTableService/'' @ meth)"
    using assms(4) by (simp add: isUnauthenticatedEndpoint_def)
  note known = authenticate_store [OF assms(2) this]
  from assms(1,3) obtain c' u where "authenticate (Some (StoreTokenLookup_LookupByHash d)) (be_sha B) (now e)
      (''/farmtable.v1.FarmTableService/'' @ meth) (Some (mcp_authCtx S)) open_access_ctx = Inr (c', u)"
    and h: "h c' = Inr x"
    by (auto simp: rpc_call_def backed_def TokenAuthInterceptor_def thenE_Inr split: sum.splits)
  then show ?thesis unfolding known by (auto simp: extract_mcp calls_with_def)
qed

lemma tool_call_is_rpc:
  assumes "backed B" and "db_ok d" and "tool_call M B S e d d'"
  shows "\<exists>k. calls_with B S e d k \<and> rpc_step (ml_lib M) (token_ctx k open_access_ctx) d d'"
  using assms(3)
proof cases
  case (create a dl r)
  then show ?thesis
    by (fastforce simp: handleTaskCreate_def thenE_Inr dest!: rpc_call_Inr [OF assms(1,2)] intro: rpc_step.create)
next
  case (update a r)
  then show ?thesis
    by (fastforce simp: handleTaskUpdate_def thenE_Inr dest!: rpc_call_Inr [OF assms(1,2)] intro: rpc_step.update)
next
  case (claim a r)
  then show ?thesis
    by (fastforce simp: handleTaskClaim_def thenE_Inr dest!: rpc_call_Inr [OF assms(1,2)] intro: rpc_step.claim)
next
  case (close a r)
  then show ?thesis
    by (fastforce simp: handleTaskClose_def thenE_Inr dest!: rpc_call_Inr [OF assms(1,2)] intro: rpc_step.close)
qed

text \<open>
  A run of tool calls, each by some adapter whose token, in the database of that moment, is one
  that \<open>P\<close> holds of.
\<close>

inductive tool_run :: "mcp_lib \<Rightarrow> backend \<Rightarrow> (token \<Rightarrow> bool) \<Rightarrow> db \<Rightarrow> db \<Rightarrow> bool" for M B P where
  start: "tool_run M B P d d"
| call: "tool_run M B P d d1 \<Longrightarrow> tool_call M B S e d1 d2 \<Longrightarrow>
    (\<And>k. calls_with B S e d1 k \<Longrightarrow> P k) \<Longrightarrow> tool_run M B P d d2"

lemma tool_run_is_service_run:
  assumes "tool_run M B P d d'" and "backed B" and "db_ok d" and "stages_ok d"
  shows "service_run (ml_lib M) (\<lambda>c. \<exists>k. P k \<and> c = token_ctx k open_access_ctx) d d' \<and> db_ok d'"
  using assms(1,3)
proof (induction rule: tool_run.induct)
  case (start d)
  then show ?case by (simp add: service_run_def)
next
  case (call d d1 S e d2)
  then have ok: "db_ok d1" by blast
  obtain k where k: "calls_with B S e d1 k" "rpc_step (ml_lib M) (token_ctx k open_access_ctx) d1 d2"
    using tool_call_is_rpc [OF assms(2) ok call.hyps(2)] by blast
  then have "P k" using call.hyps(3) by blast
  moreover have "db_ok d2" using integrity.R_rpc_step [OF k(2)] ok by blast
  ultimately show ?case
    using call.IH call.prems k(2) unfolding service_run_def by (blast intro: rtranclp.rtrancl_into_rtrancl)
qed

section \<open>Adapters of agents\<close>

lemma service_run_mono:
  assumes "service_run L ok d d'" and "\<And>c. ok c \<Longrightarrow> ok' c"
  shows "service_run L ok' d d'"
  using assms(1) unfolding service_run_def
  by (rule rtranclp_mono [THEN predicate2D, rotated]) (use assms(2) in blast)

definition agent_token :: "uuid set \<Rightarrow> token \<Rightarrow> bool" where
  "agent_token C k \<longleftrightarrow> k_scopes k = DefaultScopesForUserType ''agent''
     \<and> k_collections k \<noteq> [] \<and> set (k_collections k) \<subseteq> C"

lemma agent_token_ctx:
  assumes "agent_token C k"
  shows "agent_ctx (token_ctx k c)" and "cid \<notin> C \<Longrightarrow> \<not> may_access (token_ctx k c) cid"
  using assms by (auto simp: agent_token_def agent_ctx_def token_ctx_def may_access_def)

lemma agent_tools_keep:
  assumes "tool_run M B (agent_token C) d d'" and "backed B" and "db_ok d" and "stages_ok d"
  shows "stages_kept d d'" and "cid \<notin> C \<Longrightarrow> collection_kept cid d d'"
proof -
  note run = tool_run_is_service_run [OF assms, THEN conjunct1]
  have "service_run (ml_lib M) agent_ctx d d'"
    using run by (rule service_run_mono) (auto intro: agent_token_ctx)
  then show "stages_kept d d'" using agents.R_service_run assms(3,4) by blast
  show "collection_kept cid d d'" if "cid \<notin> C"
  proof -
    have "service_run (ml_lib M) (\<lambda>c. \<not> may_access c cid) d d'"
      using run by (rule service_run_mono) (use that in \<open>auto dest: agent_token_ctx(2)\<close>)
    then show ?thesis using scoped.R_service_run assms(3,4) by blast
  qed
qed

lemma foreign_kept_task: "foreign_kept cid (Some t) y \<Longrightarrow> t_collection t = cid \<Longrightarrow> y = Some t"
  by simp


definition ex_mcp_lib :: mcp_lib where
  "ex_mcp_lib = \<lparr>ml_lib = ex_lib, ml_cursor = (\<lambda>_. NoToken), ml_token = (\<lambda>_. []),
     ml_time = (\<lambda>_ _. None), ml_format = (\<lambda>_. []), ml_text = (\<lambda>_. [])\<rparr>"

definition ex_backend :: backend where
  "ex_backend = \<lparr>be_lookup = (\<lambda>d. Some (StoreTokenLookup_LookupByHash d)), be_sha = (\<lambda>s. s),
     be_nulls_first = True, be_pool = None\<rparr>"

definition ex_server :: mcp_server where
  "ex_server = \<lparr>mp_token = ''t'', mp_iapToken = []\<rparr>"

definition ex_mcp_db :: db where
  "ex_mcp_db = ex_db\<lparr>d_tokens := [ex_token\<lparr>k_expires := None, k_scopes := DefaultScopesForUserType ''agent''\<rparr>]\<rparr>"

lemma ex_mcp_ok: "db_ok ex_mcp_db" "stages_ok ex_mcp_db"
  by (simp_all add: ex_mcp_db_def db_ok_def tasks_ok_def rels_ok_def changes_ok_def comments_ok_def colls_ok_def
      users_ok_def tokens_ok_def accounts_ok_def task_ids_def coll_ids_def user_ids_def
      rel_key_def ex_defs ex_token_def stages_ok_def declared_stage_def)

lemma ex_mcp_store: "\<exists>et. CreateTask ex_env ex_create_params ex_mcp_db = Inr (et, ex_after ex_mcp_db)"
  by (auto simp: ex_mcp_db_def ex_token_def CreateTask_def ex_create_params_def ex_after_def ex_defs Let_def
      new_task_def fresh_uuid_def drawn_def insert_task_def task_ids_def coll_ids_def user_ids_def
      validateTaskStateForWrite_def IsTerminalStage_def declared_stage_def getTaskWithEdges_def
      get_task_def)

lemma ex_mcp_rpc:
  assumes "RequireIdentity c = Inr u" and "grants c ScopeTaskWrite" and "may_access c 1"
  shows "\<exists>t evs. srv_CreateTask ex_lib ex_env c ex_create_req ex_mcp_db = Inr (t, evs, ex_after ex_mcp_db)"
proof -
  have names: "validateTaskName ''n'' = Inr ()" "validateTaskDescription [] = Inr ()"
    using ex_texts by (simp_all add: validateTaskName_Inr validateTaskDescription_Inr)
  show ?thesis
    using assms ex_mcp_store names
    by (auto simp add: srv_CreateTask_def ex_create_req_def parse_id_def create_stage_def read_enum_def
        first_id_def parse_opt_id_def read_hold_def read_enum_unless_0_def with_code_def
        ex_lib_def Let_def ex_create_params_def)
qed

definition ex_args :: args where
  "ex_args = [(''collection'', ArgString ''uu''), (''name'', ArgString ''n'')]"

lemma ex_create_request: "create_request ex_mcp_lib (mcp_resolveCollection ex_mcp_lib B S e ex_args dl) ex_args
    = Inr ex_create_req"
  by (simp add: create_request_def mcp_resolveCollection_def ex_args_def Let_def optString_def requiredString_def
      read_opt_def str_opt_def csv_def ex_create_req_def checkE_def thenE_def)

lemma ex_tool_call: "tool_call ex_mcp_lib ex_backend ex_server ex_env ex_mcp_db (ex_after ex_mcp_db)"
proof -
  let ?k = "ex_token\<lparr>k_expires := None, k_scopes := DefaultScopesForUserType ''agent''\<rparr>"
  let ?c = "token_ctx ?k open_access_ctx"
  have auth: "authenticate (Some (StoreTokenLookup_LookupByHash ex_mcp_db)) (\<lambda>s. s) (now ex_env)
      ''/farmtable.v1.FarmTableService/CreateTask'' (Some (mcp_authCtx ex_server)) open_access_ctx = Inr (?c, Some 30)"
    unfolding authenticate_store [OF ex_mcp_ok(1), of "''/farmtable.v1.FarmTableService/CreateTask''",
        unfolded isUnauthenticatedEndpoint_def, simplified]
    by (simp add: extract_mcp ex_server_def ex_mcp_db_def ex_token_def HashToken_def FT_Rows.hex_digit_def byte_def
        token_expired_def)
  have "RequireIdentity ?c = Inr 7" "grants ?c ScopeTaskWrite" "may_access ?c 1"
    by (simp_all add: RequireIdentity_Inr token_ctx_def ex_token_def DefaultScopesForUserType_def
        grants_def may_access_def uuid_Nil_def scope_defs)
  then obtain t evs where "srv_CreateTask ex_lib ex_env ?c ex_create_req ex_mcp_db = Inr (t, evs, ex_after ex_mcp_db)"
    using ex_mcp_rpc by blast
  then have "handleTaskCreate ex_mcp_lib ex_backend ex_server ex_env ex_args ex_mcp_db ex_mcp_db
      = Inr (JMap (taskToMap ex_mcp_lib t False), ex_after ex_mcp_db)"
    using auth unfolding handleTaskCreate_def ex_create_request
    by (simp add: rpc_call_def TokenAuthInterceptor_def ex_backend_def ex_mcp_lib_def)
  then show ?thesis by (rule tool_call.create)
qed


section \<open>Names\<close>

text \<open>What \<open>unicode.ToUpper\<close> does on ASCII.\<close>

definition uppers_ascii :: "unicode \<Rightarrow> bool" where
  "uppers_ascii U \<longleftrightarrow> (\<forall>r<128. ToUpper U r = (if in_range 97 122 r then r - 32 else r))"

definition upper_char :: "char \<Rightarrow> char" where
  "upper_char c = (if in_range 97 122 (of_char c :: nat) then byte_of (of_char c - 32) else c)"

lemma upper_ascii: "uppers_ascii U \<Longrightarrow> ascii_text s \<Longrightarrow> upper U s = map upper_char s"
proof (induction s)
  case (Cons c s)
  have "EncodeRune (ToUpper U (of_char c)) = [upper_char c]"
    using Cons.prems by (auto simp: uppers_ascii_def EncodeRune_def upper_char_def byte_of_def in_range_def)
  then show ?case using Cons by (simp add: upper_def runes_ascii)
qed (simp add: upper_def runes_def)

lemma parseStage_name:
  assumes "lowers_ascii U" and "declared_stage s"
  shows "parseStage U (name_of stageNames (stageToProto s)) = Inr (stageToProto s)"
  using assms(2)
  by (cases s) (simp_all add: declared_stage_def stageToProto_def name_of_def stageNames_def parseStage_def
      lower_ascii [OF assms(1)] ascii_text_def lower_char_def in_range_def stageValues_def)

lemma parsePriority_name:
  assumes "uppers_ascii U"
  shows "parsePriority U (name_of priorityNames (priorityToProto p)) = Inr (priorityToProto p)"
  by (cases p) (simp_all add: priorityToProto_def name_of_def priorityNames_def parsePriority_def
      upper_ascii [OF assms] ascii_text_def upper_char_def in_range_def priorityValues_def)

lemma parsePhase_name:
  assumes "uppers_ascii U"
  shows "parsePhase U (name_of phaseNames (phaseToProto p))
    = (if p = PhaseOnHold then Inl InvalidValue else Inr (phaseToProto p))"
  by (cases p) (simp_all add: phaseToProto_def name_of_def phaseNames_def parsePhase_def Let_def
      upper_ascii [OF assms] ascii_text_def upper_char_def in_range_def)

text \<open>
  What the tools print of a stored task they read: the stage and the priority of every task
  read back as the numbers of its row, and so does the phase, except that \<open>ON_HOLD\<close>, which is
  printed, is refused.
\<close>

theorem printed_names_read_back:
  assumes "lowers_ascii U" and "uppers_ascii U" and "declared_stage (t_stage t)"
  shows "\<exists>stage phase. let m = taskToMap M (taskToProto L tnow (with_edges d t)) short in
      map_of m ''stage'' = Some (JStr stage) \<and> parseStage U stage = Inr (stageToProto (t_stage t))
    \<and> map_of m ''phase'' = Some (JStr phase)
    \<and> parsePhase U phase = (if t_phase t = PhaseOnHold then Inl InvalidValue else Inr (phaseToProto (t_phase t)))
    \<and> (case t_priority t of None \<Rightarrow> map_of m ''priority'' = Some JNull
       | Some p \<Rightarrow> \<exists>s. map_of m ''priority'' = Some (JStr s) \<and> parsePriority U s = Inr (priorityToProto p))"
proof -
  have "priorityToProto p \<noteq> 0" for p by (cases p) (simp_all add: priorityToProto_def)
  then show ?thesis
    using parseStage_name [OF assms(1,3)] parsePhase_name [OF assms(2)] parsePriority_name [OF assms(2)]
    by (auto simp: taskToMap_def taskToProto_def with_edges_def Let_def nilIfZeroPriority_def split: option.split)
qed

theorem printed_names_read_back_witness:
  "\<exists>phase. map_of (taskToMap ex_mcp_lib (taskToProto ex_lib 0 (with_edges ex_db (ex_task 12 PhaseOnHold StageWorking))) True)
       ''phase'' = Some (JStr phase) \<and> parsePhase ascii phase = Inl InvalidValue"
proof -
  have "lowers_ascii ascii" "uppers_ascii ascii"
    by (simp_all add: lowers_ascii_def uppers_ascii_def ascii_def)
  moreover have "declared_stage (t_stage (ex_task 12 PhaseOnHold StageWorking))"
    by (simp add: ex_task_def declared_stage_def)
  ultimately show ?thesis
    using printed_names_read_back [of ascii "ex_task 12 PhaseOnHold StageWorking" ex_mcp_lib ex_lib 0 ex_db True]
    by (auto simp: Let_def ex_task_def)
qed

section \<open>Searching\<close>

lemma take_matches_eq: "take_matches P mx n xs = List.take (nat (max 1 (mx - n))) (filter P xs)"
proof (induction xs arbitrary: n)
  case (Cons x xs)
  show ?case
  proof (cases "P x \<and> n + 1 < mx")
    case True
    then have "nat (max 1 (mx - n)) = Suc (nat (max 1 (mx - (n + 1))))"
      by (simp add: max_def Suc_nat_eq_nat_zadd1 del: Suc_as_int)
    with True show ?thesis by (simp add: Cons.IH)
  next
    case False
    then have "P x \<Longrightarrow> max 1 (mx - n) = 1" by simp
    with False show ?thesis by (cases "P x") (simp_all add: Cons.IH)
  qed
qed simp

definition search_hits :: "mcp_lib \<Rightarrow> args \<Rightarrow> pb_task list \<Rightarrow> pb_task list" where
  "search_hits M a items =
    (let U = tables (ml_lib M); lim = optFloat a ''limit'' in
     List.take (nat (max 1 (if 0 < lim then \<lfloor>lim\<rfloor> else 20)))
       (filter (\<lambda>t. contains (lower U (pt_Name t)) (lower U (optString a ''query''))) items))"

text \<open>A search answers with the first matches on the first page of 200 tasks.\<close>

lemma search_answer:
  assumes "backed B" and "db_ok d" and "handleTaskSearch M B S e a dl d = Inr r"
  shows "\<exists>k phase pg nxt. calls_with B S e d k
    \<and> srv_ListTasks (ml_lib M) e (be_nulls_first B) (token_ctx k open_access_ctx)
        \<lparr>rl_CollectionId = some_str (mcp_resolveCollection M B S e a dl), rl_Phase = phase, rl_Stages = [],
          rl_Assignee = None, rl_Priority = None, rl_Type = None, rl_Labels = [], rl_ParentTaskId = None,
          rl_SortField = 0, rl_SortOrder = 0, rl_PageSize = 200, rl_PageToken = NoToken\<rparr> d = Inr (pg, nxt)
    \<and> r = JMap [(''items'', JMaps (map (\<lambda>t. taskToMap M t True) (search_hits M a (pg_Items pg)))),
        (''total_count'', JNum (int (length (search_hits M a (pg_Items pg)))))]"
proof -
  from assms(3) obtain phase pg nxt where
    call: "rpc_call B S e ''ListTasks'' d (\<lambda>c. srv_ListTasks (ml_lib M) e (be_nulls_first B) c
        \<lparr>rl_CollectionId = some_str (mcp_resolveCollection M B S e a dl), rl_Phase = phase, rl_Stages = [],
          rl_Assignee = None, rl_Priority = None, rl_Type = None, rl_Labels = [], rl_ParentTaskId = None,
          rl_SortField = 0, rl_SortOrder = 0, rl_PageSize = 200, rl_PageToken = NoToken\<rparr> d) = Inr (pg, nxt)"
    and r: "r = JMap [(''items'', JMaps (map (\<lambda>t. taskToMap M t True) (search_hits M a (pg_Items pg)))),
        (''total_count'', JNum (int (length (search_hits M a (pg_Items pg)))))]"
    by (auto simp: handleTaskSearch_def Let_def thenE_Inr requiredString_def take_matches_eq search_hits_def
        split: if_splits)
  from rpc_call_Inr [OF assms(1,2) call] r show ?thesis by fastforce
qed

end
