(* ===== verification/FT_Sync.thy ===== *)
theory FT_Sync
  imports FT_ListTasks FT_TaskFacts FT_Convert
begin

text \<open>
  What the sync adapters of \<open>internal/platform\<close> share: the index of the tasks of a collection
  by the identifier on the platform, and the step that updates the task of an item or creates
  one. Both adapters have their own copy of these functions. No other client writes between the
  calls of a sync; the environment of the calls is one for a sync.
\<close>

section \<open>Results and errors\<close>

record SyncResult =
  sy_Created :: nat
  sy_Updated :: nat
  sy_Errors :: nat

definition no_result :: SyncResult where
  "no_result = \<lparr>sy_Created = 0, sy_Updated = 0, sy_Errors = 0\<rparr>"

text \<open>\<open>RemoteFailed\<close> stands for every error of the platform's client.\<close>

datatype adapter_err = RemoteFailed | IndexFailed store_err | NoRemoteID | TooManySubIssues | TooDeep

section \<open>The index by remote identifier\<close>

definition listing :: "uuid \<Rightarrow> nat \<Rightarrow> task_cursor \<Rightarrow> ListTasksParams" where
  "listing coll limit c = \<lparr>lt_CollectionID = Some coll, lt_Phase = None, lt_Stage = None,
     lt_AssigneeID = None, lt_Unassigned = False, lt_Priority = None, lt_Type = None, lt_Labels = [],
     lt_ParentTaskID = None, lt_SortField = [], lt_SortOrder = [], lt_Limit = int limit, lt_Cursor = c\<rparr>"

text \<open>The walk over the pages of \<open>ListTasks\<close>; a page that is not full is the last.\<close>

partial_function (option) list_all_pages ::
  "(task_cursor \<Rightarrow> store_err + (etask list \<times> nat)) \<Rightarrow> nat \<Rightarrow> task_cursor \<Rightarrow> etask list
    \<Rightarrow> (store_err + etask list) option" where
  "list_all_pages lst limit c acc =
    (case lst c of
       Inl e \<Rightarrow> Some (Inl e)
     | Inr (page, _) \<Rightarrow>
         if length page < limit then Some (Inr (acc @ page))
         else let t = e_task (last page) in
           list_all_pages lst limit (TCursor (t_id t) (SVTime (t_created t))) (acc @ page))"

definition index_put :: "(string \<rightharpoonup> uuid) \<Rightarrow> etask \<Rightarrow> (string \<rightharpoonup> uuid)" where
  "index_put m et = (case jstring (t_remote (e_task et)) ''remote_id'' of None \<Rightarrow> m
     | Some rid \<Rightarrow> m(rid \<mapsto> t_id (e_task et)))"

definition buildRemoteIDIndex :: "bool \<Rightarrow> uuid \<Rightarrow> db \<Rightarrow> (store_err + (string \<rightharpoonup> uuid)) option" where
  "buildRemoteIDIndex nf coll d =
    (case list_all_pages (\<lambda>c. ListTasks nf (listing coll 200 c) d) 200 TNoCursor [] of
       None \<Rightarrow> None
     | Some (Inl e) \<Rightarrow> Some (Inl e)
     | Some (Inr ets) \<Rightarrow> Some (Inr (foldl index_put Map.empty ets)))"

section \<open>Updating or creating the task of an item\<close>

text \<open>\<open>created\<close> is what follows the creation of a task.\<close>

definition upsert ::
  "env \<Rightarrow> (string \<rightharpoonup> uuid) \<Rightarrow> (etask \<Rightarrow> db \<Rightarrow> db) \<Rightarrow> string \<Rightarrow> CreateTaskParams \<Rightarrow> UpdateTaskParams
    \<Rightarrow> SyncResult \<times> db \<Rightarrow> SyncResult \<times> db" where
  "upsert e idx created rid cp up = (\<lambda>(r, d).
    (case idx rid of
       Some i \<Rightarrow> (case UpdateTask_serial e i up uuid_Nil d of
           Inl _ \<Rightarrow> (r\<lparr>sy_Errors := sy_Errors r + 1\<rparr>, d)
         | Inr (_, d') \<Rightarrow> (r\<lparr>sy_Updated := sy_Updated r + 1\<rparr>, d'))
     | None \<Rightarrow> (case CreateTask e cp d of
           Inl _ \<Rightarrow> (r\<lparr>sy_Errors := sy_Errors r + 1\<rparr>, d)
         | Inr (et, d') \<Rightarrow> (r\<lparr>sy_Created := sy_Created r + 1\<rparr>, created et d'))))"

definition no_update :: UpdateTaskParams where
  "no_update = \<lparr>ut_Title = None, ut_Description = None, ut_Phase = None, ut_Stage = None,
     ut_HoldReason = None, ut_ClearHoldReason = False, ut_NativeLabel = None, ut_Type = None,
     ut_Priority = None, ut_Rank = None, ut_ClearRank = False, ut_ClearPriority = False,
     ut_AssigneeID = None, ut_ClearAssignee = False, ut_ParentTaskID = None, ut_ClearParent = False,
     ut_AcceptanceCriteria = None, ut_ClearAcceptance = False, ut_RemoteData = None,
     ut_Version = [], ut_StartDate = None, ut_ClearStartDate = False, ut_DueDate = None,
     ut_ClearDueDate = False, ut_AddLabels = [], ut_RemoveLabels = [], ut_AddBlocks = [],
     ut_AddBlockedBy = [], ut_RemoveRelationships = [], ut_Repo = None, ut_Branch = None,
     ut_ClearRepo = False, ut_ClearBranch = False, ut_AddPullRequests = [], ut_CIStatus = None,
     ut_ClearCIStatus = False, ut_Reason = None\<rparr>"

text \<open>What the library code of the adapters computes: UUIDs from texts and the text of instants.\<close>

record sync_lib =
  sl_sha1 :: "string \<Rightarrow> uuid"
  sl_rfc3339 :: "time \<Rightarrow> string"

text \<open>An entry that the code puts into a map only when there is a value.\<close>

definition entry :: "string \<Rightarrow> jval option \<Rightarrow> jmap" where
  "entry k v = (case v of None \<Rightarrow> [] | Some x \<Rightarrow> [(k, x)])"

definition unless_empty :: "string \<Rightarrow> jval option" where
  "unless_empty s = (if s = [] then None else Some (JStr s))"

lemma entry_simps [simp]: "entry k None = []" "entry k (Some x) = [(k, x)]"
  by (simp_all add: entry_def)

lemma key_entry: "q \<in> fst ` set (entry k v) \<longleftrightarrow> q = k \<and> v \<noteq> None"
  by (cases v) simp_all

lemma distinct_entry: "distinct (map fst (entry k v))"
  by (cases v) simp_all

lemma distinct_entries: "distinct (map fst (entry k v @ m)) \<longleftrightarrow> (v = None \<or> k \<notin> fst ` set m) \<and> distinct (map fst m)"
  by (cases v) auto

end
