(* ===== verification/FT_SyncProps.thy ===== *)
theory FT_SyncProps
  imports FT_Sync FT_ServiceProps
begin

text \<open>
  What a sync does to the collection, proved once for both adapters in the locale
  \<open>adapter_sync\<close>: its parameters are the conversions of an adapter, its laws say that they name
  the collection and the remote identifier, and that a row written with them mirrors the item.
\<close>

section \<open>The index\<close>

definition remote_id_of :: "task \<Rightarrow> string option" where
  "remote_id_of t = jstring (t_remote t) ''remote_id''"

text \<open>The task \<open>t\<close> under \<open>k\<close> is one of the collection with the remote identifier \<open>r\<close>.\<close>

definition task_at :: "uuid \<Rightarrow> string \<Rightarrow> db \<Rightarrow> uuid \<Rightarrow> task \<Rightarrow> bool" where
  "task_at coll r d k t \<longleftrightarrow> get_task k d = Some t \<and> t_collection t = coll \<and> remote_id_of t = Some r"

definition index_ok :: "uuid \<Rightarrow> (string \<rightharpoonup> uuid) \<Rightarrow> db \<Rightarrow> bool" where
  "index_ok coll idx d \<longleftrightarrow> (\<forall>r. case idx r of
     None \<Rightarrow> \<not> (\<exists>k t. task_at coll r d k t) | Some k \<Rightarrow> \<exists>t. task_at coll r d k t)"

lemma ListTasks_listing:
  assumes "db_ok d"
  shows "\<exists>n. ListTasks nf (listing coll L (task_cursor_of False c)) d
    = Inr (map (with_edges d) (ListTasks_page nf (listing coll L TNoCursor) ByCreated False d L c), n)"
proof -
  have "list_preds \<lparr>lt_CollectionID = Some coll, lt_Phase = None, lt_Stage = None, lt_AssigneeID = None,
      lt_Unassigned = False, lt_Priority = None, lt_Type = None, lt_Labels = [], lt_ParentTaskID = None,
      lt_SortField = sf, lt_SortOrder = so, lt_Limit = n, lt_Cursor = x\<rparr> = (\<lambda>t. t_collection t = coll)" for sf so n x
    by (auto simp: fun_eq_iff list_preds_def opt_eq_def)
  then show ?thesis
    by (cases c) (auto simp: ListTasks_page_def ListTasks_def field_name_def sort_field_of_def Let_def
        task_cursor_of_def comp_def with_edges_def listing_def)
qed

lemma list_all_pages_rest:
  assumes ok: "db_ok d" and L: "0 < L"
    and "set_option c \<subseteq> page_key ByCreated False ` set (listed (listing coll L TNoCursor) d)"
  shows "list_all_pages (\<lambda>c. ListTasks nf (listing coll L c) d) L (task_cursor_of False c) acc
    = Some (Inr (acc @ map (with_edges d) (after_cursor (page_key ByCreated False) c
        (sort_key (page_key ByCreated False) (listed (listing coll L TNoCursor) d)))))"
  using assms(3)
proof (induction "length (after_cursor (page_key ByCreated False) c
    (sort_key (page_key ByCreated False) (listed (listing coll L TNoCursor) d)))" arbitrary: c acc rule: less_induct)
  case less
  let ?key = "page_key ByCreated False" and ?p = "listing coll L TNoCursor"
  let ?rest = "\<lambda>c. after_cursor ?key c (sort_key ?key (listed ?p d))"
  define page where "page = ListTasks_page nf ?p ByCreated False d L c"
  have step: "if length page < L then ?rest c = page
    else ?rest c = page @ ?rest (Some (?key (last page))) \<and> length page = L \<and> ?key (last page) \<in> ?key ` set (listed ?p d)"
    using task_pages.page_step [OF ok L less.prems, of nf] by (simp add: page_def cong: if_cong)
  obtain n where n: "ListTasks nf (listing coll L (task_cursor_of False c)) d = Inr (map (with_edges d) page, n)"
    using ListTasks_listing [OF ok] unfolding page_def by blast
  show ?case
  proof (cases "length page < L")
    case True
    then show ?thesis using step n by (subst list_all_pages.simps) simp
  next
    case False
    then have ne: "page \<noteq> []" using L by auto
    let ?c = "Some (?key (last page))"
    have cur: "task_cursor_of False ?c = TCursor (t_id (last page)) (SVTime (t_created (last page)))"
      by (simp add: task_cursor_of_def page_key_def order_sign_def sort_time_def)
    have "length (?rest ?c) < length (?rest c)" using step False ne by (auto simp: neq_Nil_conv)
    then have "list_all_pages (\<lambda>c. ListTasks nf (listing coll L c) d) L (task_cursor_of False ?c) (acc @ map (with_edges d) page)
        = Some (Inr ((acc @ map (with_edges d) page) @ map (with_edges d) (?rest ?c)))"
      by (rule less.hyps) (use step False in simp_all)
    then show ?thesis
      using step False n ne by (subst list_all_pages.simps) (simp add: cur Let_def last_map with_edges_def)
  qed
qed

lemma list_all_pages_complete:
  assumes "db_ok d" and "0 < L"
  shows "\<exists>ets. list_all_pages (\<lambda>c. ListTasks nf (listing coll L c) d) L TNoCursor [] = Some (Inr (map (with_edges d) ets))
    \<and> set ets = {t \<in> set (d_tasks d). t_collection t = coll}"
proof -
  have "task_cursor_of False None = TNoCursor" by (simp add: task_cursor_of_def)
  with list_all_pages_rest [OF assms, of None coll nf "[]"] show ?thesis
    by (intro exI [of _ "sort_key (page_key ByCreated False) (listed (listing coll L TNoCursor) d)"])
      (auto simp: after_cursor_def listed_def list_preds_def listing_def opt_eq_def)
qed

lemma foldl_index_put:
  "foldl index_put m (map (with_edges d) ts) r = (case map_of (List.map_filter
     (\<lambda>t. map_option (\<lambda>q. (q, t_id t)) (remote_id_of t)) (rev ts)) r of None \<Rightarrow> m r | Some k \<Rightarrow> Some k)"
  by (induction ts rule: rev_induct)
    (auto simp: index_put_def remote_id_of_def with_edges_def List.map_filter_simps split: option.splits)

lemma buildRemoteIDIndex_ok:
  assumes "db_ok d"
  shows "\<exists>idx. buildRemoteIDIndex nf coll d = Some (Inr idx) \<and> index_ok coll idx d"
proof -
  obtain ts where ts: "list_all_pages (\<lambda>c. ListTasks nf (listing coll 200 c) d) 200 TNoCursor []
      = Some (Inr (map (with_edges d) ts))" "set ts = {t \<in> set (d_tasks d). t_collection t = coll}"
    using list_all_pages_complete [OF assms, of 200 nf coll] by auto
  let ?idx = "foldl index_put Map.empty (map (with_edges d) ts)"
  have in_ts: "task_at coll r d k t \<longleftrightarrow> t \<in> set ts \<and> t_id t = k \<and> remote_id_of t = Some r" for r k t
    using get_task_iff [OF assms] by (auto simp: task_at_def ts(2))
  have "index_ok coll ?idx d"
    unfolding index_ok_def
  proof
    fix r
    let ?m = "List.map_filter (\<lambda>t. map_option (\<lambda>q. (q, t_id t)) (remote_id_of t)) (rev ts)"
    have idx: "?idx r = map_of ?m r" unfolding foldl_index_put by (simp split: option.split)
    have m: "(r, k) \<in> set ?m \<longleftrightarrow> (\<exists>t. task_at coll r d k t)" for k
      by (auto simp: in_ts List.map_filter_def image_iff split: option.splits)
    show "case ?idx r of None \<Rightarrow> \<not> (\<exists>k t. task_at coll r d k t) | Some k \<Rightarrow> \<exists>t. task_at coll r d k t"
    proof (cases "map_of ?m r")
      case None
      then have "r \<notin> fst ` set ?m" by (simp add: map_of_eq_None_iff)
      then show ?thesis unfolding idx None using m by (force simp del: set_map)
    next
      case (Some k)
      then show ?thesis unfolding idx using m map_of_SomeD [OF Some] by auto
    qed
  qed
  with ts(1) show ?thesis by (auto simp: buildRemoteIDIndex_def)
qed

section \<open>Steps of a sync\<close>

text \<open>The row that a step writes, everything else as it was.\<close>

definition wrote_row :: "uuid \<Rightarrow> string \<Rightarrow> (task \<Rightarrow> bool) \<Rightarrow> db \<Rightarrow> db \<Rightarrow> uuid \<Rightarrow> bool" where
  "wrote_row coll r good d d' k \<longleftrightarrow> db_ok d' \<and> (\<exists>t. task_at coll r d' k t \<and> good t)
     \<and> (\<forall>j. j \<noteq> k \<longrightarrow> get_task j d' = get_task j d)"

lemma UpdateTask_serial_run:
  assumes "UpdateTask_serial e i p actor d = Inr (et, d')"
  shows "doUpdateTask e i p actor d d = Inr (et, d')"
  using assms by (auto simp: UpdateTask_serial_def UpdateTask_def split: sum.splits store_err.splits if_splits)

lemma upsert_updates:
  assumes "UpdateTask_serial e k p uuid_Nil d = Inr (et, d')" and "db_ok d" and "task_at coll r0 d k t0"
    and "\<And>old t u. good ((update_row p old t)\<lparr>t_updated := u\<rparr>)"
    and "\<And>old t u. remote_id_of ((update_row p old t)\<lparr>t_updated := u\<rparr>) = Some r"
  shows "wrote_row coll r good d d' k"
proof -
  note run = UpdateTask_serial_run [OF assms(1)]
  have ok: "db_ok d'" using integrity.R_doUpdateTask [OF run] assms(2) by blast
  from run assms(2) show ?thesis
  proof (rule doUpdateTask_effect)
    fix old t
    assume t: "get_task k d = Some t" and t': "get_task k d' = Some ((update_row p old t)\<lparr>t_updated := now e\<rparr>)"
      and others: "\<And>j. j \<noteq> k \<Longrightarrow> get_task j d' = get_task j d"
    have "t_collection t = coll" using t assms(3) by (simp add: task_at_def)
    then show ?thesis using t' others ok assms(4,5) by (auto simp: wrote_row_def task_at_def)
  qed
qed

lemma upsert_creates:
  assumes "CreateTask e p d = Inr (et, d')" and "db_ok d" and "ct_CollectionID p = coll"
    and "\<And>u. good (new_task e u p)" and "jstring (ct_RemoteData p) ''remote_id'' = Some r"
  shows "wrote_row coll r good d d' (fresh_uuid e d)" and "get_task (fresh_uuid e d) d = None"
proof -
  let ?k = "fresh_uuid e d"
  have row: "d_tasks d' = d_tasks d @ [new_task e ?k p]" using assms(1) by (rule CreateTask_row)
  have ok: "db_ok d'" using integrity.R_CreateTask [OF assms(1)] assms(2) by blast
  have fresh: "?k \<notin> task_ids d" using db_ok_distinct [OF ok] row by (auto simp: task_ids_def)
  then show "get_task ?k d = None" by (simp add: get_task_None)
  have "get_task ?k d' = Some (new_task e ?k p)" using fresh row by (rule get_task_append) simp
  moreover have "get_task j d' = get_task j d" if "j \<noteq> ?k" for j
    using that by (simp add: get_task_def row find_append split: option.split)
  moreover have "remote_id_of (new_task e ?k p) = Some r" "t_collection (new_task e ?k p) = coll"
    using assms(3,5) by (simp_all add: remote_id_of_def new_task_def)
  ultimately show "wrote_row coll r good d d' ?k" using ok assms(4) by (auto simp: wrote_row_def task_at_def)
qed

lemma updated_remote:
  assumes "ut_RemoteData p = Some m" and "distinct (map fst m)" and "map_of m ''remote_id'' = Some (JStr r)"
  shows "remote_id_of ((update_row p old t)\<lparr>t_updated := u\<rparr>) = Some r"
  using assms by (simp add: remote_id_of_def update_row_def jstring_def map_of_jmerge)

lemma merged_labels: "set (ut_AddLabels p) \<subseteq> set (t_labels ((update_row p old t)\<lparr>t_updated := u\<rparr>))"
  if "ut_RemoveLabels p = []"
  using that by (auto simp: update_row_def mergeLabels_def)

text \<open>
  The collection mirrors the items: each has exactly one task, which is like it; rows of other
  tasks are as they were, and there are no others.
\<close>

definition one_remote :: "uuid \<Rightarrow> db \<Rightarrow> bool" where
  "one_remote coll d \<longleftrightarrow> (\<forall>r k k' t t'. task_at coll r d k t \<longrightarrow> task_at coll r d k' t' \<longrightarrow> k = k')"

definition of_items :: "uuid \<Rightarrow> string set \<Rightarrow> task \<Rightarrow> bool" where
  "of_items coll rs t \<longleftrightarrow> t_collection t = coll \<and> remote_id_of t \<in> Some ` rs"

definition mirrored :: "uuid \<Rightarrow> ('i \<Rightarrow> string) \<Rightarrow> ('i \<Rightarrow> task \<Rightarrow> bool) \<Rightarrow> 'i list \<Rightarrow> db \<Rightarrow> db \<Rightarrow> bool" where
  "mirrored coll rid like items d0 d \<longleftrightarrow> db_ok d
     \<and> (\<forall>i\<in>set items. \<exists>k t. task_at coll (rid i) d k t \<and> like i t \<and> (\<forall>k' t'. task_at coll (rid i) d k' t' \<longrightarrow> k' = k))
     \<and> (\<forall>k t. get_task k d0 = Some t \<longrightarrow> \<not> of_items coll (rid ` set items) t \<longrightarrow> get_task k d = Some t)
     \<and> (\<forall>k t. get_task k d0 = None \<longrightarrow> get_task k d = Some t \<longrightarrow> of_items coll (rid ` set items) t)
     \<and> (\<forall>r k t. task_at coll r d0 k t \<longrightarrow> (\<exists>t'. task_at coll r d k t'))"

lemma mirroredD:
  assumes "mirrored coll rid like items d0 d"
  shows "db_ok d"
    and "get_task k d0 = Some t \<Longrightarrow> \<not> of_items coll (rid ` set items) t \<Longrightarrow> get_task k d = Some t"
    and "get_task k d0 = None \<Longrightarrow> get_task k d = Some t \<Longrightarrow> of_items coll (rid ` set items) t"
    and "task_at coll r d0 k t \<Longrightarrow> \<exists>t'. task_at coll r d k t'"
  using assms unfolding mirrored_def by blast+

lemma mirrored_Nil: "db_ok d \<Longrightarrow> mirrored coll rid like [] d d"
  by (auto simp: mirrored_def)

lemma mirrored_other:
  assumes "mirrored coll rid like items d0 d" and "r \<notin> rid ` set items"
  shows "task_at coll r d k t \<longleftrightarrow> task_at coll r d0 k t"
proof
  assume "task_at coll r d0 k t"
  moreover from this have "\<not> of_items coll (rid ` set items) t" using assms(2) by (auto simp: of_items_def task_at_def)
  ultimately show "task_at coll r d k t" using assms(1) unfolding mirrored_def task_at_def by blast
next
  assume t: "task_at coll r d k t"
  have not_item: "\<not> of_items coll (rid ` set items) t" using t assms(2) by (auto simp: of_items_def task_at_def)
  show "task_at coll r d0 k t"
  proof (cases "get_task k d0")
    case None
    then have "of_items coll (rid ` set items) t" using t assms(1) unfolding mirrored_def task_at_def by blast
    with not_item show ?thesis by contradiction
  next
    case (Some t0)
    show ?thesis
    proof (cases "of_items coll (rid ` set items) t0")
      case False
      then have "get_task k d = Some t0" using assms(1) Some unfolding mirrored_def by blast
      then show ?thesis using t Some by (auto simp: task_at_def)
    next
      case True
      then obtain q where "q \<in> rid ` set items" "task_at coll q d0 k t0"
        using Some by (auto simp: of_items_def task_at_def)
      then obtain t' where "task_at coll q d k t'" using assms(1) unfolding mirrored_def by blast
      then show ?thesis using t \<open>q \<in> rid ` set items\<close> assms(2) by (auto simp: task_at_def)
    qed
  qed
qed

lemma wrote_row_at:
  assumes "wrote_row coll r good d d' k" and "j \<noteq> k"
  shows "task_at coll q d' j t \<longleftrightarrow> task_at coll q d j t"
  using assms by (simp add: wrote_row_def task_at_def)

lemma mirrored_step:
  assumes inv: "mirrored coll rid like items d0 d" and new: "rid x \<notin> rid ` set items"
    and w: "wrote_row coll (rid x) (like x) d d' k" and one: "one_remote coll d0"
    and k: "(\<exists>t. task_at coll (rid x) d0 k t)
      \<or> (get_task k d = None \<and> \<not> (\<exists>j t. task_at coll (rid x) d0 j t))"
  shows "mirrored coll rid like (items @ [x]) d0 d'"
proof -
  note others = wrote_row_at [OF w]
  obtain row where row: "task_at coll (rid x) d' k row" "like x row" and ok: "db_ok d'"
    using w by (auto simp: wrote_row_def)
  have atx: "task_at coll (rid x) d j t \<longleftrightarrow> task_at coll (rid x) d0 j t" for j t
    using inv new by (rule mirrored_other)
  have at_k: "q = rid x" if "task_at coll q d k t" for q t
  proof -
    have "get_task k d \<noteq> None" using that by (simp add: task_at_def)
    with k have "\<exists>s. task_at coll (rid x) d0 k s" by argo
    then obtain s where "task_at coll (rid x) d0 k s" ..
    then have "task_at coll (rid x) d k s" unfolding atx .
    then show ?thesis using that by (simp add: task_at_def)
  qed
  have old_k: "t_collection t = coll \<and> remote_id_of t = Some (rid x)" if t0: "get_task k d0 = Some t" for t
  proof -
    have "\<exists>t. task_at coll (rid x) d0 k t"
    proof (rule ccontr)
      assume no: "\<not> ?thesis"
      then have "get_task k d = None" using k by blast
      then have "of_items coll (rid ` set items) t" using mirroredD(2) [OF inv t0] by auto
      then obtain q where "task_at coll q d0 k t" using t0 by (auto simp: of_items_def task_at_def)
      then have "\<exists>t'. task_at coll q d k t'" by (rule mirroredD(4) [OF inv])
      then show False using \<open>get_task k d = None\<close> by (auto simp: task_at_def)
    qed
    then show ?thesis using t0 by (auto simp: task_at_def)
  qed
  have item: "\<exists>k t. task_at coll (rid i) d' k t \<and> like i t \<and> (\<forall>k' t'. task_at coll (rid i) d' k' t' \<longrightarrow> k' = k)"
    if "i \<in> set items" for i
  proof -
    from inv that obtain j t where j: "task_at coll (rid i) d j t" "like i t"
      "\<And>k' t'. task_at coll (rid i) d k' t' \<Longrightarrow> k' = j" unfolding mirrored_def by blast
    have ne: "rid i \<noteq> rid x" using new that by (metis image_eqI)
    then have "j \<noteq> k" using j(1) at_k by blast
    moreover have "k' = j" if "task_at coll (rid i) d' k' t'" for k' t'
      using that j(3) others [of k'] row(1) ne by (cases "k' = k") (auto simp: task_at_def)
    ultimately show ?thesis using j others by blast
  qed
  have "k' = k" if t': "task_at coll (rid x) d' k' t'" for k' t'
  proof (rule ccontr)
    assume "k' \<noteq> k"
    then have "task_at coll (rid x) d0 k' t'" using t' others atx by blast
    then show False using one k \<open>k' \<noteq> k\<close> unfolding one_remote_def by blast
  qed
  then have itemx: "\<exists>k t. task_at coll (rid x) d' k t \<and> like x t \<and> (\<forall>k' t'. task_at coll (rid x) d' k' t' \<longrightarrow> k' = k)"
    using row by blast
  have kept: "get_task j d' = Some t" if "get_task j d0 = Some t" "\<not> of_items coll (rid ` set (items @ [x])) t" for j t
  proof -
    have "j \<noteq> k" using that old_k by (auto simp: of_items_def)
    moreover have "get_task j d = Some t" using mirroredD(2) [OF inv that(1)] that(2) by (auto simp: of_items_def)
    ultimately show ?thesis using w by (simp add: wrote_row_def)
  qed
  have fresh: "of_items coll (rid ` set (items @ [x])) t" if "get_task j d0 = None" "get_task j d' = Some t" for j t
  proof (cases "j = k")
    case True
    then show ?thesis using that row(1) by (auto simp: task_at_def of_items_def)
  next
    case False
    then have "get_task j d = Some t" using w that(2) by (simp add: wrote_row_def)
    then have "of_items coll (rid ` set items) t" by (rule mirroredD(3) [OF inv that(1)])
    then show ?thesis by (auto simp: of_items_def)
  qed
  have stays: "\<exists>t'. task_at coll q d' j t'" if t0: "task_at coll q d0 j t" for q j t
  proof -
    obtain t' where t': "task_at coll q d j t'" using mirroredD(4) [OF inv t0] ..
    show ?thesis using t' others [of j] row at_k by (cases "j = k") auto
  qed
  show ?thesis unfolding mirrored_def using ok item itemx kept fresh stays by auto
qed

lemma mirrored_one:
  assumes "mirrored coll rid like items d0 d" and "one_remote coll d0"
  shows "one_remote coll d"
  unfolding one_remote_def
proof (intro allI impI)
  fix r k k' t t'
  assume t: "task_at coll r d k t" "task_at coll r d k' t'"
  show "k = k'"
  proof (cases "r \<in> rid ` set items")
    case True
    then show ?thesis using assms(1) t unfolding mirrored_def by blast
  next
    case False
    then show ?thesis using t assms(2) unfolding mirrored_other [OF assms(1) False] one_remote_def by blast
  qed
qed

locale adapter_sync =
  fixes rid :: "'i \<Rightarrow> string" and cp :: "'i \<Rightarrow> CreateTaskParams" and up :: "'i \<Rightarrow> UpdateTaskParams"
    and after_create :: "'i \<Rightarrow> etask \<Rightarrow> db \<Rightarrow> db" and coll :: uuid and mirrors :: "'i \<Rightarrow> task \<Rightarrow> bool"
    and relevant :: "'i \<Rightarrow> bool" and e :: env
    and step :: "(string \<rightharpoonup> uuid) \<Rightarrow> 'i \<Rightarrow> SyncResult \<times> db \<Rightarrow> SyncResult \<times> db"
  assumes names_coll: "ct_CollectionID (cp i) = coll"
    and new_remote: "jstring (ct_RemoteData (cp i)) ''remote_id'' = Some (rid i)"
    and upd_remote: "remote_id_of ((update_row (up i) old t)\<lparr>t_updated := u\<rparr>) = Some (rid i)"
    and new_mirrors: "mirrors i (new_task e k (cp i))"
    and upd_mirrors: "mirrors i ((update_row (up i) old t)\<lparr>t_updated := u\<rparr>)"
    and after_tasks: "d_tasks (after_create i et d) = d_tasks d"
    and after_ok: "db_ok d \<Longrightarrow> db_ok (after_create i et d)"
    and irrelevant: "\<not> relevant i \<Longrightarrow> step idx i s = s"
    and step_cases: "relevant i \<Longrightarrow> step idx i s = upsert e idx (after_create i) (rid i) (cp i) (up i) s
          \<or> step idx i s = ((fst s)\<lparr>sy_Errors := sy_Errors (fst s) + 1\<rparr>, snd s)"
begin

lemma step_writes:
  assumes "step idx i (r, d) = (r', d')" and "relevant i" and "db_ok d"
    and "\<And>k. idx (rid i) = Some k \<Longrightarrow> \<exists>t. task_at coll (rid i) d k t"
  shows "(sy_Errors r' = sy_Errors r + 1 \<and> sy_Created r' = sy_Created r \<and> sy_Updated r' = sy_Updated r \<and> d' = d)
    \<or> (sy_Errors r' = sy_Errors r \<and> (\<exists>k. wrote_row coll (rid i) (mirrors i) d d' k
        \<and> (case idx (rid i) of
             Some j \<Rightarrow> k = j \<and> sy_Updated r' = sy_Updated r + 1 \<and> sy_Created r' = sy_Created r
           | None \<Rightarrow> get_task k d = None \<and> sy_Created r' = sy_Created r + 1 \<and> sy_Updated r' = sy_Updated r)))"
proof (cases "step idx i (r, d) = (r\<lparr>sy_Errors := sy_Errors r + 1\<rparr>, d)")
  case True
  then show ?thesis using assms(1) by auto
next
  case False
  then have up: "(r', d') = upsert e idx (after_create i) (rid i) (cp i) (up i) (r, d)"
    using step_cases [OF assms(2), of idx "(r, d)"] assms(1) by auto
  show ?thesis
  proof (cases "idx (rid i)")
    case None
    have ne: "(r', d') \<noteq> (r\<lparr>sy_Errors := sy_Errors r + 1\<rparr>, d)" using False assms(1) by simp
    obtain et d1 where c: "CreateTask e (cp i) d = Inr (et, d1)"
      and rd: "r' = r\<lparr>sy_Created := sy_Created r + 1\<rparr>" "d' = after_create i et d1"
      using up ne by (cases "CreateTask e (cp i) d") (auto simp: upsert_def None)
    note w = upsert_creates [OF c assms(3) names_coll, of "mirrors i" "rid i", OF new_mirrors new_remote]
    have "get_task j d' = get_task j d1" for j unfolding rd(2) by (rule get_task_cong) (rule after_tasks)
    then have "wrote_row coll (rid i) (mirrors i) d d' (fresh_uuid e d)"
      using w(1) after_ok [of d1 i et] by (simp add: wrote_row_def task_at_def rd(2))
    then show ?thesis using None rd(1) w(2) by auto
  next
    case (Some j)
    then obtain t0 where t0: "task_at coll (rid i) d j t0" using assms(4) by blast
    have ne: "(r', d') \<noteq> (r\<lparr>sy_Errors := sy_Errors r + 1\<rparr>, d)" using False assms(1) by simp
    obtain et where c: "UpdateTask_serial e j (up i) uuid_Nil d = Inr (et, d')"
      and rd: "r' = r\<lparr>sy_Updated := sy_Updated r + 1\<rparr>"
      using up ne by (cases "UpdateTask_serial e j (up i) uuid_Nil d") (auto simp: upsert_def Some)
    show ?thesis
      using Some rd upsert_updates [OF c assms(3) t0, of "mirrors i" "rid i", OF upd_mirrors upd_remote] by auto
  qed
qed

text \<open>The whole fold, when it counts no error.\<close>

lemma step_counts:
  "sy_Created (fst (step idx i s)) + sy_Updated (fst (step idx i s)) + sy_Errors (fst (step idx i s))
     = sy_Created (fst s) + sy_Updated (fst s) + sy_Errors (fst s) + (if relevant i then 1 else 0)
   \<and> sy_Errors (fst s) \<le> sy_Errors (fst (step idx i s))"
proof (cases "relevant i")
  case True
  then show ?thesis
    using step_cases [OF True, of idx s]
    by (cases s) (auto simp: upsert_def split: option.splits sum.splits)
qed (simp add: irrelevant)

lemma sync_counts:
  "sy_Created (fst (fold (step idx) items s)) + sy_Updated (fst (fold (step idx) items s))
     + sy_Errors (fst (fold (step idx) items s))
   = sy_Created (fst s) + sy_Updated (fst s) + sy_Errors (fst s) + length (filter relevant items)
   \<and> sy_Errors (fst s) \<le> sy_Errors (fst (fold (step idx) items s))"
proof (induction items arbitrary: s)
  case (Cons i items)
  show ?case using step_counts [of idx i s] Cons.IH [of "step idx i s"] by (cases "relevant i") simp_all
qed simp

lemma sync_mirrors:
  assumes "db_ok d0" and "index_ok coll idx d0" and one: "one_remote coll d0"
    and "distinct (map rid items)" and "\<forall>i\<in>set items. relevant i"
    and "fold (step idx) items (no_result, d0) = (r, d)" and "sy_Errors r = 0"
  shows "mirrored coll rid mirrors items d0 d
    \<and> sy_Created r = length (filter (\<lambda>i. idx (rid i) = None) items)"
  using assms(4-)
proof (induction items arbitrary: r d rule: rev_induct)
  case Nil
  then show ?case using assms(1) by (auto simp: mirrored_Nil no_result_def)
next
  case (snoc x items)
  obtain r1 d1 where s1: "fold (step idx) items (no_result, d0) = (r1, d1)" by fastforce
  have s2: "step idx x (r1, d1) = (r, d)" using snoc.prems(3) s1 by simp
  have "sy_Errors r1 = 0" using step_counts [of idx x "(r1, d1)"] s2 snoc.prems(4) by simp
  then have inv: "mirrored coll rid mirrors items d0 d1"
    and n: "sy_Created r1 = length (filter (\<lambda>i. idx (rid i) = None) items)"
    using snoc.IH [OF _ _ s1] snoc.prems by auto
  have new: "rid x \<notin> rid ` set items" using snoc.prems(1) by auto
  have atx: "task_at coll (rid x) d1 k t \<longleftrightarrow> task_at coll (rid x) d0 k t" for k t using inv new by (rule mirrored_other)
  have idx0: "\<exists>t. task_at coll (rid x) d0 k t" if "idx (rid x) = Some k" for k
    using spec [OF assms(2) [unfolded index_ok_def], of "rid x"] that by simp
  have none0: "\<not> (\<exists>k t. task_at coll (rid x) d0 k t)" if "idx (rid x) = None"
    using spec [OF assms(2) [unfolded index_ok_def], of "rid x"] that by simp
  have "relevant x" using snoc.prems(2) by simp
  note writes = step_writes [OF s2 this mirroredD(1) [OF inv], unfolded atx, OF idx0]
  then obtain k where w: "wrote_row coll (rid x) (mirrors x) d1 d k"
    and k: "case idx (rid x) of Some j \<Rightarrow> k = j \<and> sy_Updated r = sy_Updated r1 + 1 \<and> sy_Created r = sy_Created r1
      | None \<Rightarrow> get_task k d1 = None \<and> sy_Created r = sy_Created r1 + 1 \<and> sy_Updated r = sy_Updated r1"
    using snoc.prems(4) \<open>sy_Errors r1 = 0\<close> by auto
  have "(\<exists>t. task_at coll (rid x) d0 k t) \<or> (get_task k d1 = None \<and> \<not> (\<exists>j t. task_at coll (rid x) d0 j t))"
    using k idx0 none0 by (cases "idx (rid x)") auto
  then have "mirrored coll rid mirrors (items @ [x]) d0 d" by (rule mirrored_step [OF inv new w one])
  then show ?case using n k by (auto split: option.splits)
qed

lemma sync_created_le:
  "sy_Created (fst (fold (step idx) items s))
    \<le> sy_Created (fst s) + length (filter (\<lambda>i. relevant i \<and> idx (rid i) = None) items)"
proof (induction items arbitrary: s)
  case (Cons i items)
  have "sy_Created (fst (step idx i s)) \<le> sy_Created (fst s) + (if relevant i \<and> idx (rid i) = None then 1 else 0)"
    using step_cases [of i idx s] irrelevant [of i idx s]
    by (cases s; cases "relevant i") (auto simp: upsert_def split: option.splits sum.splits)
  then show ?case using Cons.IH [of "step idx i s"] by (cases "relevant i \<and> idx (rid i) = None") auto
qed simp

text \<open>
  The index is not extended during a sync: without errors, every occurrence of an item that was
  not indexed at the start is a new task.
\<close>

lemma sync_created_eq:
  assumes "sy_Errors (fst (fold (step idx) items s)) = sy_Errors (fst s)"
  shows "sy_Created (fst (fold (step idx) items s))
    = sy_Created (fst s) + length (filter (\<lambda>i. relevant i \<and> idx (rid i) = None) items)"
  using assms
proof (induction items arbitrary: s)
  case (Cons i items)
  have le: "sy_Errors (fst s) \<le> sy_Errors (fst (step idx i s))"
    "sy_Errors (fst (step idx i s)) \<le> sy_Errors (fst (fold (step idx) items (step idx i s)))"
    using step_counts [of idx i s] sync_counts [of idx items "step idx i s"] by simp_all
  then have eq: "sy_Errors (fst (step idx i s)) = sy_Errors (fst s)" using Cons.prems by simp
  then have "sy_Created (fst (step idx i s)) = sy_Created (fst s) + (if relevant i \<and> idx (rid i) = None then 1 else 0)"
    using step_cases [of i idx s] irrelevant [of i idx s]
    by (cases s; cases "relevant i") (auto simp: upsert_def split: option.splits sum.splits)
  then show ?case using Cons.IH [of "step idx i s"] Cons.prems eq by (cases "relevant i \<and> idx (rid i) = None") auto
qed simp

lemma sync_db_ok: "db_ok (snd s) \<Longrightarrow> db_ok (snd (fold (step idx) items s))"
proof (induction items arbitrary: s)
  case (Cons i items)
  have "db_ok (snd (step idx i s))"
    using Cons.prems step_cases [of i idx s] irrelevant [of i idx s]
      integrity.R_CreateTask integrity.R_doUpdateTask [OF UpdateTask_serial_run] after_ok
    by (cases s; cases "relevant i") (auto simp: upsert_def split: option.splits sum.splits)
  then show ?case using Cons.IH by simp
qed simp

lemma sync_relevant: "fold (step idx) (filter relevant items) s = fold (step idx) items s"
  by (induction items arbitrary: s) (simp_all add: irrelevant)

text \<open>After a sync without errors, every item is in every index of the new database.\<close>

lemma mirrored_indexed:
  assumes "mirrored coll rid mirrors items d0 d" and "index_ok coll idx d" and "i \<in> set items"
  shows "idx (rid i) \<noteq> None"
proof
  assume "idx (rid i) = None"
  then have "\<not> (\<exists>k t. task_at coll (rid i) d k t)"
    using spec [OF assms(2) [unfolded index_ok_def], of "rid i"] by simp
  then show False using assms(1,3) unfolding mirrored_def by blast
qed

end

end
