(* ===== verification/FT_BeadsAdapter.thy ===== *)
theory FT_BeadsAdapter
  imports FT_Sync FT_Rows
begin

text \<open>
  The Beads adapter (\<open>internal/platform/beads/beads.go\<close>): issues as tasks, tasks as issues, and
  the sync of a collection. The storage of Beads is a record of its operations on a state of
  its own.
\<close>

section \<open>Issues\<close>

record bd_dependency =
  bd_IssueID :: string
  bd_DependsOnID :: string
  bd_DepType :: string
  bd_DepCreatedAt :: time
  bd_DepCreatedBy :: string
  bd_DepMetadata :: string
  bd_ThreadID :: string

record bd_comment =
  bdc_ID :: string
  bdc_Author :: string
  bdc_Text :: string

text \<open>\<open>Metadata\<close> is raw JSON; the value it denotes, \<open>None\<close> when it is empty.\<close>

record bd_issue =
  bi_ID :: string
  bi_Title :: string
  bi_Description :: string
  bi_Design :: string
  bi_AcceptanceCriteria :: string
  bi_Notes :: string
  bi_Status :: string
  bi_Priority :: int
  bi_IssueType :: string
  bi_Assignee :: string
  bi_Owner :: string
  bi_CreatedAt :: time
  bi_CreatedBy :: string
  bi_UpdatedAt :: time
  bi_StartedAt :: "time option"
  bi_ClosedAt :: "time option"
  bi_DueAt :: "time option"
  bi_DeferUntil :: "time option"
  bi_ExternalRef :: "string option"
  bi_SourceSystem :: string
  bi_Metadata :: "jval option"
  bi_Labels :: "string list"
  bi_Dependencies :: "bd_dependency list"
  bi_Comments :: "bd_comment list"

text \<open>The storage; \<open>CreateIssue\<close> gives the identifier the issue has afterwards.\<close>

record 'w bd_storage =
  bs_SearchIssues :: "'w \<Rightarrow> unit + bd_issue list"
  bs_GetLabels :: "string \<Rightarrow> 'w \<Rightarrow> unit + string list"
  bs_GetComments :: "string \<Rightarrow> 'w \<Rightarrow> unit + bd_comment list"
  bs_CreateIssue :: "bd_issue \<Rightarrow> 'w \<Rightarrow> unit + (string \<times> 'w)"
  bs_UpdateIssue :: "string \<Rightarrow> jmap \<Rightarrow> 'w \<Rightarrow> unit + 'w"
  bs_AddComment :: "string \<Rightarrow> string \<Rightarrow> string \<Rightarrow> 'w \<Rightarrow> unit + (string \<times> 'w)"

section \<open>Conversions\<close>

definition bd_statusToPhaseStage :: "string \<Rightarrow> phase \<times> stage" where
  "bd_statusToPhaseStage s =
    (if s = ''closed'' then (PhaseClosed, StageCompleted)
     else if s = ''in_progress'' then (PhaseInProgress, StageWorking)
     else (PhaseOpen, StageAccepted))"

definition bd_statusToHoldReason :: "string \<Rightarrow> hold_reason option" where
  "bd_statusToHoldReason s =
    (if s = ''blocked'' then Some HoldReasonWaitingForInput
     else if s = ''deferred'' then Some HoldReasonDeferred else None)"

definition bd_phaseStageToStatus :: "phase \<Rightarrow> stage \<Rightarrow> hold_reason option \<Rightarrow> string" where
  "bd_phaseStageToStatus p s h =
    (if p = PhaseClosed then ''closed''
     else if p = PhaseInProgress \<or> s = StageWorking then ''in_progress''
     else if h = Some HoldReasonDeferred then ''deferred''
     else if h = Some HoldReasonWaitingForInput then ''blocked''
     else ''open'')"

definition bd_priorityToFT :: "int \<Rightarrow> priority" where
  "bd_priorityToFT n = (if n = 0 then PriorityUrgent else if n = 1 then PriorityHigh
     else if n = 2 then PriorityNormal else PriorityLow)"

definition bd_priorityFromFT :: "priority \<Rightarrow> int" where
  "bd_priorityFromFT p = (case p of PriorityUrgent \<Rightarrow> 0 | PriorityHigh \<Rightarrow> 1 | PriorityNormal \<Rightarrow> 2
     | PriorityLow \<Rightarrow> 3)"

definition bd_priorityFromFTPtr :: "priority option \<Rightarrow> int" where
  "bd_priorityFromFTPtr p = (case p of None \<Rightarrow> 2 | Some x \<Rightarrow> bd_priorityFromFT x)"

definition bd_deterministicUUID :: "sync_lib \<Rightarrow> string \<Rightarrow> uuid" where
  "bd_deterministicUUID S s = sl_sha1 S (''beads:user:'' @ s)"

definition bd_dependency_map :: "sync_lib \<Rightarrow> bd_dependency \<Rightarrow> jmap" where
  "bd_dependency_map S dep =
    [(''issue_id'', JStr (bd_IssueID dep)), (''depends_on_id'', JStr (bd_DependsOnID dep)),
     (''type'', JStr (bd_DepType dep)), (''created_at'', JStr (sl_rfc3339 S (bd_DepCreatedAt dep))),
     (''created_by'', JStr (bd_DepCreatedBy dep)), (''metadata'', JStr (bd_DepMetadata dep)),
     (''thread_id'', JStr (bd_ThreadID dep))]"

definition bd_buildRemoteData :: "sync_lib \<Rightarrow> bd_issue \<Rightarrow> string \<Rightarrow> jmap" where
  "bd_buildRemoteData S i remoteID =
    (let at = map_option (JStr \<circ> sl_rfc3339 S) in
    [(''remote_id'', JStr remoteID), (''created_at'', JStr (sl_rfc3339 S (bi_CreatedAt i))),
     (''updated_at'', JStr (sl_rfc3339 S (bi_UpdatedAt i))), (''status'', JStr (bi_Status i)),
     (''priority'', JNum (bi_Priority i)), (''issue_type'', JStr (bi_IssueType i))]
    @ entry ''external_ref'' (map_option JStr (bi_ExternalRef i))
    @ entry ''source_system'' (unless_empty (bi_SourceSystem i))
    @ entry ''owner'' (unless_empty (bi_Owner i)) @ entry ''created_by'' (unless_empty (bi_CreatedBy i))
    @ entry ''design'' (unless_empty (bi_Design i)) @ entry ''notes'' (unless_empty (bi_Notes i))
    @ entry ''labels'' (if bi_Labels i = [] then None else Some (JStrs (bi_Labels i)))
    @ entry ''metadata'' (bi_Metadata i)
    @ entry ''due_at'' (at (bi_DueAt i)) @ entry ''defer_until'' (at (bi_DeferUntil i))
    @ entry ''started_at'' (at (bi_StartedAt i)) @ entry ''closed_at'' (at (bi_ClosedAt i))
    @ entry ''dependencies'' (if bi_Dependencies i = [] then None
        else Some (JMaps (map (bd_dependency_map S) (bi_Dependencies i)))))"

definition bd_extractRemoteID :: "jmap option \<Rightarrow> string" where
  "bd_extractRemoteID rd = (case jstring rd ''remote_id'' of None \<Rightarrow> [] | Some s \<Rightarrow> s)"

definition bd_assignee :: "sync_lib \<Rightarrow> bd_issue \<Rightarrow> uuid option" where
  "bd_assignee S i = (if bi_Assignee i = [] then None else Some (bd_deterministicUUID S (bi_Assignee i)))"

definition bd_acceptance :: "bd_issue \<Rightarrow> string option" where
  "bd_acceptance i = (if bi_AcceptanceCriteria i = [] then None else Some (bi_AcceptanceCriteria i))"

definition bd_IssueToCreateParams :: "sync_lib \<Rightarrow> bd_issue \<Rightarrow> uuid \<Rightarrow> string \<Rightarrow> CreateTaskParams" where
  "bd_IssueToCreateParams S i coll remoteID =
    \<lparr>ct_Title = bi_Title i, ct_Description = bi_Description i, ct_CollectionID = coll,
     ct_Phase = fst (bd_statusToPhaseStage (bi_Status i)),
     ct_Stage = snd (bd_statusToPhaseStage (bi_Status i)),
     ct_HoldReason = bd_statusToHoldReason (bi_Status i), ct_NativeLabel = bi_Status i,
     ct_Type = bi_IssueType i, ct_Priority = Some (bd_priorityToFT (bi_Priority i)), ct_Rank = None,
     ct_AssigneeID = bd_assignee S i, ct_ParentTaskID = None,
     ct_AcceptanceCriteria = bd_acceptance i,
     ct_RemoteData = Some (bd_buildRemoteData S i remoteID), ct_Labels = bi_Labels i,
     ct_StartDate = None, ct_DueDate = bi_DueAt i, ct_BlocksTaskIDs = [], ct_BlockedByTaskIDs = [],
     ct_Repo = [], ct_Branch = []\<rparr>"

definition bd_IssueToUpdateParams :: "sync_lib \<Rightarrow> bd_issue \<Rightarrow> string \<Rightarrow> UpdateTaskParams" where
  "bd_IssueToUpdateParams S i remoteID =
    (let hold = bd_statusToHoldReason (bi_Status i) in
     no_update\<lparr>ut_Title := Some (bi_Title i), ut_Description := Some (bi_Description i),
       ut_Phase := Some (fst (bd_statusToPhaseStage (bi_Status i))),
       ut_Stage := Some (snd (bd_statusToPhaseStage (bi_Status i))),
       ut_HoldReason := hold, ut_ClearHoldReason := (hold = None),
       ut_NativeLabel := Some (bi_Status i), ut_Type := Some (bi_IssueType i),
       ut_Priority := Some (bd_priorityToFT (bi_Priority i)),
       ut_RemoteData := Some (bd_buildRemoteData S i remoteID), ut_AddLabels := bi_Labels i,
       ut_AcceptanceCriteria := bd_acceptance i, ut_ClearAcceptance := (bd_acceptance i = None),
       ut_DueDate := bi_DueAt i, ut_ClearDueDate := (bi_DueAt i = None),
       ut_AssigneeID := bd_assignee S i, ut_ClearAssignee := (bd_assignee S i = None)\<rparr>)"

section \<open>Pushing\<close>

text \<open>\<open>id8\<close> is the text of the first eight digits of a UUID.\<close>

definition bd_TaskToIssue :: "(uuid \<Rightarrow> string) \<Rightarrow> task \<Rightarrow> bd_issue" where
  "bd_TaskToIssue id8 t =
    \<lparr>bi_ID = ''ft-'' @ id8 (t_id t), bi_Title = t_title t, bi_Description = t_description t,
     bi_Design = [], bi_AcceptanceCriteria = (case t_acceptance t of None \<Rightarrow> [] | Some a \<Rightarrow> a),
     bi_Notes = [], bi_Status = bd_phaseStageToStatus (t_phase t) (t_stage t) (t_hold t),
     bi_Priority = bd_priorityFromFTPtr (t_priority t), bi_IssueType = t_type t, bi_Assignee = [],
     bi_Owner = [], bi_CreatedAt = t_created t, bi_CreatedBy = [], bi_UpdatedAt = t_updated t,
     bi_StartedAt = None, bi_ClosedAt = None, bi_DueAt = t_due t, bi_DeferUntil = None,
     bi_ExternalRef = None, bi_SourceSystem = [], bi_Metadata = None, bi_Labels = [],
     bi_Dependencies = [], bi_Comments = []\<rparr>"

definition bd_TaskToIssueUpdates :: "task \<Rightarrow> jmap" where
  "bd_TaskToIssueUpdates t =
    [(''title'', JStr (t_title t)), (''description'', JStr (t_description t)),
     (''status'', JStr (bd_phaseStageToStatus (t_phase t) (t_stage t) (t_hold t))),
     (''priority'', JNum (bd_priorityFromFTPtr (t_priority t))), (''issue_type'', JStr (t_type t))]
    @ entry ''acceptance_criteria'' (map_option JStr (t_acceptance t))"

definition bd_PushTask :: "'w bd_storage \<Rightarrow> (uuid \<Rightarrow> string) \<Rightarrow> task \<Rightarrow> 'w \<Rightarrow> adapter_err + string \<times> 'w" where
  "bd_PushTask B id8 t w =
    (let existing = bd_extractRemoteID (t_remote t) in
     if existing \<noteq> [] then
       (case bs_UpdateIssue B existing (bd_TaskToIssueUpdates t) w of
          Inl _ \<Rightarrow> Inl RemoteFailed | Inr w' \<Rightarrow> Inr (existing, w'))
     else (case bs_CreateIssue B (bd_TaskToIssue id8 t) w of
          Inl _ \<Rightarrow> Inl RemoteFailed | Inr r \<Rightarrow> Inr r))"

definition bd_PushComment :: "'w bd_storage \<Rightarrow> comment \<Rightarrow> task \<Rightarrow> 'w \<Rightarrow> adapter_err + string \<times> 'w" where
  "bd_PushComment B c t w =
    (let issueID = bd_extractRemoteID (t_remote t) in
     if issueID = [] then Inl NoRemoteID
     else (case bs_AddComment B issueID ''farmtable'' (cm_body c) w of
          Inl _ \<Rightarrow> Inl RemoteFailed | Inr r \<Rightarrow> Inr r))"

section \<open>Syncing\<close>

text \<open>The comments of a new task; an error of one is dropped.\<close>

definition bd_add_comments :: "sync_lib \<Rightarrow> env \<Rightarrow> bd_comment list \<Rightarrow> etask \<Rightarrow> db \<Rightarrow> db" where
  "bd_add_comments S e cs et d = fold (\<lambda>c d.
     case AddComment e \<lparr>ac_TaskID = t_id (e_task et), ac_AuthorID = bd_deterministicUUID S (bdc_Author c),
        ac_Body = bdc_Text c\<rparr> d of
       Inl _ \<Rightarrow> d | Inr (_, d') \<Rightarrow> d') cs d"

definition bd_sync_issue ::
  "sync_lib \<Rightarrow> 'w bd_storage \<Rightarrow> 'w \<Rightarrow> env \<Rightarrow> uuid \<Rightarrow> (string \<rightharpoonup> uuid) \<Rightarrow> bd_issue
    \<Rightarrow> SyncResult \<times> db \<Rightarrow> SyncResult \<times> db" where
  "bd_sync_issue S B w e coll idx issue s =
    (case bs_GetLabels B (bi_ID issue) w of
       Inl _ \<Rightarrow> (fst s\<lparr>sy_Errors := sy_Errors (fst s) + 1\<rparr>, snd s)
     | Inr labels \<Rightarrow>
        (case bs_GetComments B (bi_ID issue) w of
           Inl _ \<Rightarrow> (fst s\<lparr>sy_Errors := sy_Errors (fst s) + 1\<rparr>, snd s)
         | Inr comments \<Rightarrow>
            let i = issue\<lparr>bi_Labels := labels, bi_Comments := comments\<rparr>; rid = bi_ID i in
            upsert e idx (bd_add_comments S e (bi_Comments i)) rid (bd_IssueToCreateParams S i coll rid)
              (bd_IssueToUpdateParams S i rid) s))"

definition bd_SyncCollection ::
  "sync_lib \<Rightarrow> 'w bd_storage \<Rightarrow> bool \<Rightarrow> 'w \<Rightarrow> env \<Rightarrow> uuid \<Rightarrow> db \<Rightarrow> ((SyncResult \<times> adapter_err option) \<times> db) option" where
  "bd_SyncCollection S B nf w e coll d =
    (case bs_SearchIssues B w of
       Inl _ \<Rightarrow> Some ((no_result, Some RemoteFailed), d)
     | Inr issues \<Rightarrow>
        (case buildRemoteIDIndex nf coll d of
           None \<Rightarrow> None
         | Some (Inl err) \<Rightarrow> Some ((no_result, Some (IndexFailed err)), d)
         | Some (Inr idx) \<Rightarrow>
             let (r, d') = fold (bd_sync_issue S B w e coll idx) issues (no_result, d) in
             Some ((r, None), d')))"

definition BeadsDependencyToRelationshipType :: "string \<Rightarrow> string" where
  "BeadsDependencyToRelationshipType ty =
    (if ty = ''blocks'' then ''blocks'' else if ty = ''related'' \<or> ty = ''discovered-from'' then ''relates_to''
     else if ty = ''parent-child'' then ''blocks'' else ''relates_to'')"

end
