(* ===== verification/FT_BeadsSync.thy ===== *)
theory FT_BeadsSync
  imports FT_BeadsAdapter FT_SyncProps
begin

text \<open>
  The sync of the Beads adapter is an instance of \<open>adapter_sync\<close>: its tasks mirror the issues,
  and a second run creates nothing. What a push and the sync after it do to the state of a task.
\<close>

section \<open>The instance\<close>

text \<open>The issue with what the two calls before its conversion add.\<close>

definition bd_fetched :: "'w bd_storage \<Rightarrow> 'w \<Rightarrow> bd_issue \<Rightarrow> bd_issue" where
  "bd_fetched B w i = i\<lparr>bi_Labels := (case bs_GetLabels B (bi_ID i) w of Inl _ \<Rightarrow> [] | Inr ls \<Rightarrow> ls),
     bi_Comments := (case bs_GetComments B (bi_ID i) w of Inl _ \<Rightarrow> [] | Inr cs \<Rightarrow> cs)\<rparr>"

definition bd_like :: "sync_lib \<Rightarrow> 'w bd_storage \<Rightarrow> 'w \<Rightarrow> bd_issue \<Rightarrow> task \<Rightarrow> bool" where
  "bd_like S B w i t \<longleftrightarrow> t_title t = bi_Title i \<and> t_description t = bi_Description i
     \<and> (t_phase t, t_stage t) = bd_statusToPhaseStage (bi_Status i)
     \<and> t_hold t = bd_statusToHoldReason (bi_Status i) \<and> t_native_label t = bi_Status i
     \<and> t_type t = bi_IssueType i \<and> t_priority t = Some (bd_priorityToFT (bi_Priority i))
     \<and> t_assignee t = bd_assignee S i \<and> t_acceptance t = bd_acceptance i \<and> t_due t = bi_DueAt i
     \<and> set (bi_Labels (bd_fetched B w i)) \<subseteq> set (t_labels t)"

lemma bd_fetched_simps [simp]:
  "bi_ID (bd_fetched B w i) = bi_ID i" "bi_Title (bd_fetched B w i) = bi_Title i"
  "bi_Description (bd_fetched B w i) = bi_Description i" "bi_Status (bd_fetched B w i) = bi_Status i"
  "bi_IssueType (bd_fetched B w i) = bi_IssueType i" "bi_Priority (bd_fetched B w i) = bi_Priority i"
  "bd_assignee S (bd_fetched B w i) = bd_assignee S i" "bd_acceptance (bd_fetched B w i) = bd_acceptance i"
  "bi_DueAt (bd_fetched B w i) = bi_DueAt i"
  by (simp_all add: bd_fetched_def bd_assignee_def bd_acceptance_def)

lemma map_of_bd_remote: "map_of (bd_buildRemoteData S i rid) ''remote_id'' = Some (JStr rid)"
  by (simp add: bd_buildRemoteData_def Let_def)

lemma distinct_bd_remote: "distinct (map fst (bd_buildRemoteData S i rid))"
  unfolding bd_buildRemoteData_def Let_def append_assoc
  by (simp add: distinct_entries distinct_entry key_entry image_Un del: map_append)

abbreviation bd_create_of :: "sync_lib \<Rightarrow> 'w bd_storage \<Rightarrow> 'w \<Rightarrow> uuid \<Rightarrow> bd_issue \<Rightarrow> CreateTaskParams" where
  "bd_create_of S B w coll i \<equiv> bd_IssueToCreateParams S (bd_fetched B w i) coll (bi_ID i)"

abbreviation bd_update_of :: "sync_lib \<Rightarrow> 'w bd_storage \<Rightarrow> 'w \<Rightarrow> bd_issue \<Rightarrow> UpdateTaskParams" where
  "bd_update_of S B w i \<equiv> bd_IssueToUpdateParams S (bd_fetched B w i) (bi_ID i)"

lemma bd_update_like: "bd_like S B w i ((update_row (bd_update_of S B w i) old t)\<lparr>t_updated := u\<rparr>)"
proof -
  have "set (bi_Labels (bd_fetched B w i)) \<subseteq> set (t_labels ((update_row (bd_update_of S B w i) old t)\<lparr>t_updated := u\<rparr>))"
    using merged_labels [of "bd_update_of S B w i"] by (simp add: bd_IssueToUpdateParams_def no_update_def Let_def)
  then show ?thesis
    by (cases "bd_statusToHoldReason (bi_Status i)"; cases "bd_assignee S i"; cases "bd_acceptance i"; cases "bi_DueAt i")
      (simp_all add: bd_like_def update_row_def bd_IssueToUpdateParams_def no_update_def Let_def set_if_def
        set_or_clear_def drops_deferral_def)
qed

lemma bd_add_comments_keeps:
  "d_tasks (bd_add_comments S e cs et d) = d_tasks d" "db_ok d \<Longrightarrow> db_ok (bd_add_comments S e cs et d)"
proof -
  have "d_tasks (bd_add_comments S e cs et d) = d_tasks d \<and> (db_ok d \<longrightarrow> db_ok (bd_add_comments S e cs et d))"
    unfolding bd_add_comments_def
  proof (induction cs arbitrary: d)
    case (Cons c cs)
    let ?add = "AddComment e \<lparr>ac_TaskID = t_id (e_task et), ac_AuthorID = bd_deterministicUUID S (bdc_Author c), ac_Body = bdc_Text c\<rparr> d"
    show ?case
    proof (cases ?add)
      case (Inr p)
      then obtain cm d1 where p: "?add = Inr (cm, d1)" by (cases p) auto
      then show ?thesis using Cons.IH [of d1] rows_only(1) [OF p] integrity.R_AddComment [OF p] by simp
    qed (use Cons.IH [of d] in simp)
  qed simp
  then show "d_tasks (bd_add_comments S e cs et d) = d_tasks d" "db_ok d \<Longrightarrow> db_ok (bd_add_comments S e cs et d)"
    by simp_all
qed

interpretation bd: adapter_sync bi_ID "bd_create_of S B w coll" "bd_update_of S B w"
    "\<lambda>i. bd_add_comments S e (bi_Comments (bd_fetched B w i))" coll "bd_like S B w" "\<lambda>_. True" e
    "bd_sync_issue S B w e coll"
  for S B w e coll
proof
  fix i et d old t u k idx and s :: "SyncResult \<times> db"
  show "ct_CollectionID (bd_create_of S B w coll i) = coll" by (simp add: bd_IssueToCreateParams_def)
  show "jstring (ct_RemoteData (bd_create_of S B w coll i)) ''remote_id'' = Some (bi_ID i)"
    by (simp add: bd_IssueToCreateParams_def jstring_def map_of_bd_remote)
  show "remote_id_of ((update_row (bd_update_of S B w i) old t)\<lparr>t_updated := u\<rparr>) = Some (bi_ID i)"
    by (rule updated_remote [OF _ distinct_bd_remote map_of_bd_remote]) (simp add: bd_IssueToUpdateParams_def Let_def)
  show "bd_like S B w i (new_task e k (bd_create_of S B w coll i))"
    by (simp add: bd_like_def new_task_def bd_IssueToCreateParams_def)
  show "bd_like S B w i ((update_row (bd_update_of S B w i) old t)\<lparr>t_updated := u\<rparr>)" by (rule bd_update_like)
  show "d_tasks (bd_add_comments S e (bi_Comments (bd_fetched B w i)) et d) = d_tasks d" by (rule bd_add_comments_keeps)
  show "db_ok (bd_add_comments S e (bi_Comments (bd_fetched B w i)) et d)" if "db_ok d" using that by (rule bd_add_comments_keeps)
  show "bd_sync_issue S B w e coll idx i s
      = upsert e idx (bd_add_comments S e (bi_Comments (bd_fetched B w i))) (bi_ID i) (bd_create_of S B w coll i)
          (bd_update_of S B w i) s
    \<or> bd_sync_issue S B w e coll idx i s = ((fst s)\<lparr>sy_Errors := sy_Errors (fst s) + 1\<rparr>, snd s)"
    by (simp add: bd_sync_issue_def bd_fetched_def Let_def split: sum.split)
qed simp


definition ex_bd_issue :: bd_issue where
  "ex_bd_issue = \<lparr>bi_ID = ''b1'', bi_Title = ''n'', bi_Description = [], bi_Design = [],
     bi_AcceptanceCriteria = [], bi_Notes = [], bi_Status = ''blocked'', bi_Priority = 1, bi_IssueType = ''bug'',
     bi_Assignee = [], bi_Owner = [], bi_CreatedAt = 0, bi_CreatedBy = [], bi_UpdatedAt = 0,
     bi_StartedAt = None, bi_ClosedAt = None, bi_DueAt = None, bi_DeferUntil = None, bi_ExternalRef = None,
     bi_SourceSystem = [], bi_Metadata = None, bi_Labels = [], bi_Dependencies = [], bi_Comments = []\<rparr>"

definition ex_beads :: "unit bd_storage" where
  "ex_beads = \<lparr>bs_SearchIssues = (\<lambda>_. Inr [ex_bd_issue]), bs_GetLabels = (\<lambda>_ _. Inr [''l'']),
     bs_GetComments = (\<lambda>_ _. Inr []), bs_CreateIssue = (\<lambda>i w. Inr (bi_ID i, w)),
     bs_UpdateIssue = (\<lambda>_ _ w. Inr w), bs_AddComment = (\<lambda>_ _ _ w. Inr ([], w))\<rparr>"

definition ex_sync_lib :: sync_lib where
  "ex_sync_lib = \<lparr>sl_sha1 = length, sl_rfc3339 = (\<lambda>_. [])\<rparr>"

lemma ex_no_remote: "\<not> task_at coll r ex_db k t"
  using get_task_Some [of k ex_db t] by (auto simp: task_at_def remote_id_of_def jstring_def ex_defs)

lemma ex_one_remote: "one_remote coll ex_db"
  using ex_no_remote by (simp add: one_remote_def)

lemma ex_empty_index: "index_ok coll idx ex_db \<Longrightarrow> idx = Map.empty"
  using ex_no_remote by (fastforce simp: index_ok_def fun_eq_iff split: option.splits)

lemma ex_beads_created:
  "\<exists>et d'. CreateTask ex_env (bd_create_of ex_sync_lib ex_beads () 1 ex_bd_issue) ex_db = Inr (et, d')"
  by (auto simp: bd_IssueToCreateParams_def bd_fetched_def bd_statusToPhaseStage_def bd_statusToHoldReason_def
      ex_bd_issue_def ex_beads_def CreateTask_def ex_defs Let_def new_task_def fresh_uuid_def drawn_def
      insert_task_def task_ids_def coll_ids_def user_ids_def validateTaskStateForWrite_def declared_stage_def
      getTaskWithEdges_def get_task_def)


section \<open>Pushing and syncing\<close>

text \<open>
  A push keeps of the state of a task what the next sync reads back only for three states: the
  others come back as accepted, working or completed - a task in review or QA as working, a
  task that will not be fixed as completed - and a reason to hold only for tasks not in work.
\<close>

lemma pushed_state_read_back:
  assumes "declared_stage s"
  shows "bd_statusToPhaseStage (bd_phaseStageToStatus p s h) = (p, s) \<longleftrightarrow>
      (p, s) \<in> {(PhaseClosed, StageCompleted), (PhaseInProgress, StageWorking), (PhaseOpen, StageAccepted)}"
    and "bd_statusToHoldReason (bd_phaseStageToStatus p s h) = h \<longleftrightarrow>
      h = None \<or> (p \<notin> {PhaseClosed, PhaseInProgress} \<and> s \<noteq> StageWorking)"
  by (cases p; cases h; cases s; case_tac "the h"; simp add: bd_statusToPhaseStage_def bd_statusToHoldReason_def bd_phaseStageToStatus_def)+

end
