(* ===== verification/FT_GitHubAdapter.thy ===== *)
theory FT_GitHubAdapter
  imports FT_Sync FT_PassThrough
begin

text \<open>
  The GitHub sync adapter (\<open>internal/platform/github/github.go\<close>): issues of the REST client as
  tasks, tasks as issue requests, the sync of a collection page by page, and the links of
  sub-issues, which need the GraphQL client. The REST client is a record of its calls.
\<close>

section \<open>Issues\<close>

record rest_issue =
  ri_Number :: int
  ri_Title :: string
  ri_Body :: string
  ri_State :: string
  ri_NodeID :: string
  ri_HTMLURL :: string
  ri_CreatedAt :: time
  ri_UpdatedAt :: time
  ri_Milestone :: "string option"
  ri_Labels :: "string list"
  ri_Assignee :: "string option"
  ri_IsPullRequest :: bool

record issue_request =
  iq_Title :: string
  iq_Body :: "string option"
  iq_State :: string
  iq_Labels :: "string list option"

text \<open>The calls; a listing takes the options \<open>Since\<close> and \<open>Page\<close> and gives \<open>NextPage\<close>.\<close>

record 'w rest =
  rs_ListByRepo :: "time option \<Rightarrow> nat \<Rightarrow> 'w \<Rightarrow> (unit + rest_issue list \<times> nat) \<times> 'w"
  rs_Edit :: "int \<Rightarrow> issue_request \<Rightarrow> 'w \<Rightarrow> (unit + int) \<times> 'w"
  rs_Create :: "issue_request \<Rightarrow> 'w \<Rightarrow> (unit + int) \<times> 'w"
  rs_CreateComment :: "int \<Rightarrow> string \<Rightarrow> 'w \<Rightarrow> (unit + int) \<times> 'w"

record 'w gh_adapter =
  ga_client :: "'w rest"
  ga_owner :: string
  ga_repo :: string

definition ga_remoteID :: "'w gh_adapter \<Rightarrow> int \<Rightarrow> string" where
  "ga_remoteID A number = ga_owner A @ ''/'' @ ga_repo A @ ''#'' @ itoa number"

section \<open>Conversions\<close>

definition issueStateToPhaseStage :: "string \<Rightarrow> phase \<times> stage" where
  "issueStateToPhaseStage s =
    (if s = ''closed'' then (PhaseClosed, StageCompleted) else (PhaseOpen, StageAccepted))"

definition phaseToIssueState :: "phase \<Rightarrow> string" where
  "phaseToIssueState p = (if p = PhaseClosed then ''closed'' else ''open'')"

definition ri_buildRemoteData :: "sync_lib \<Rightarrow> rest_issue \<Rightarrow> string \<Rightarrow> jmap" where
  "ri_buildRemoteData S i remoteID =
    [(''remote_id'', JStr remoteID), (''node_id'', JStr (ri_NodeID i)), (''html_url'', JStr (ri_HTMLURL i)),
     (''number'', JNum (ri_Number i)), (''created_at'', JStr (sl_rfc3339 S (ri_CreatedAt i))),
     (''updated_at'', JStr (sl_rfc3339 S (ri_UpdatedAt i)))]
    @ entry ''milestone'' (map_option JStr (ri_Milestone i))
    @ entry ''labels'' (if ri_Labels i = [] then None else Some (JStrs (ri_Labels i)))"

definition ri_deterministicUUID :: "sync_lib \<Rightarrow> string \<Rightarrow> uuid" where
  "ri_deterministicUUID S s = sl_sha1 S (''github:user:'' @ s)"

definition IssueToCreateParams :: "sync_lib \<Rightarrow> rest_issue \<Rightarrow> uuid \<Rightarrow> string \<Rightarrow> string \<Rightarrow> string \<Rightarrow> CreateTaskParams" where
  "IssueToCreateParams S i coll remoteID owner repo =
    \<lparr>ct_Title = ri_Title i, ct_Description = ri_Body i, ct_CollectionID = coll,
     ct_Phase = fst (issueStateToPhaseStage (ri_State i)),
     ct_Stage = snd (issueStateToPhaseStage (ri_State i)),
     ct_HoldReason = None, ct_NativeLabel = ri_State i, ct_Type = ''issue'', ct_Priority = None,
     ct_Rank = None, ct_AssigneeID = map_option (ri_deterministicUUID S) (ri_Assignee i),
     ct_ParentTaskID = None, ct_AcceptanceCriteria = None,
     ct_RemoteData = Some (ri_buildRemoteData S i remoteID), ct_Labels = ri_Labels i,
     ct_StartDate = None, ct_DueDate = None, ct_BlocksTaskIDs = [], ct_BlockedByTaskIDs = [],
     ct_Repo = owner @ ''/'' @ repo, ct_Branch = []\<rparr>"

definition IssueToUpdateParams :: "sync_lib \<Rightarrow> rest_issue \<Rightarrow> string \<Rightarrow> UpdateTaskParams" where
  "IssueToUpdateParams S i remoteID =
    no_update\<lparr>ut_Title := Some (ri_Title i), ut_Description := Some (ri_Body i),
       ut_Phase := Some (fst (issueStateToPhaseStage (ri_State i))),
       ut_Stage := Some (snd (issueStateToPhaseStage (ri_State i))),
       ut_NativeLabel := Some (ri_State i), ut_Type := Some ''issue'',
       ut_RemoteData := Some (ri_buildRemoteData S i remoteID), ut_AddLabels := ri_Labels i,
       ut_AssigneeID := map_option (ri_deterministicUUID S) (ri_Assignee i),
       ut_ClearAssignee := (ri_Assignee i = None)\<rparr>"

definition extractLabels :: "jmap option \<Rightarrow> string list" where
  "extractLabels rd =
    (case rd of None \<Rightarrow> []
     | Some m \<Rightarrow> (case map_of m ''labels'' of
         Some (JStrs ls) \<Rightarrow> ls
       | Some (JList vs) \<Rightarrow> List.map_filter (\<lambda>v. case v of JStr s \<Rightarrow> Some s | _ \<Rightarrow> None) vs
       | _ \<Rightarrow> []))"

text \<open>A number of JSON data is an \<open>int\<close>, a \<open>float64\<close> or a \<open>json.Number\<close>.\<close>

definition extractIssueNumber :: "jmap option \<Rightarrow> int" where
  "extractIssueNumber rd =
    (case rd of None \<Rightarrow> 0
     | Some m \<Rightarrow> (case map_of m ''number'' of Some (JNum n) \<Rightarrow> n | _ \<Rightarrow> 0))"

definition extractNodeID :: "jmap option \<Rightarrow> string option" where
  "extractNodeID rd = (case jstring rd ''node_id'' of None \<Rightarrow> None | Some s \<Rightarrow> if s = [] then None else Some s)"

definition TaskToIssueRequest :: "task \<Rightarrow> issue_request" where
  "TaskToIssueRequest t =
    \<lparr>iq_Title = t_title t, iq_Body = (if t_description t = [] then None else Some (t_description t)),
     iq_State = phaseToIssueState (t_phase t),
     iq_Labels = (if extractLabels (t_remote t) = [] then None else Some (extractLabels (t_remote t)))\<rparr>"

section \<open>Pushing\<close>

definition ga_PushTask :: "'w gh_adapter \<Rightarrow> task \<Rightarrow> 'w \<Rightarrow> (adapter_err + string) \<times> 'w" where
  "ga_PushTask A t w =
    (let n = extractIssueNumber (t_remote t);
         (r, w') = (if 0 < n then rs_Edit (ga_client A) n (TaskToIssueRequest t) w
                    else rs_Create (ga_client A) (TaskToIssueRequest t) w) in
     (case r of Inl _ \<Rightarrow> Inl RemoteFailed | Inr number \<Rightarrow> Inr (ga_remoteID A number), w'))"

definition ga_PushComment :: "'w gh_adapter \<Rightarrow> comment \<Rightarrow> task \<Rightarrow> 'w \<Rightarrow> (adapter_err + string) \<times> 'w" where
  "ga_PushComment A c t w =
    (let n = extractIssueNumber (t_remote t) in
     if n = 0 then (Inl NoRemoteID, w)
     else let (r, w') = rs_CreateComment (ga_client A) n (cm_body c) w in
       (case r of Inl _ \<Rightarrow> Inl RemoteFailed | Inr i \<Rightarrow> Inr (itoa i), w'))"

section \<open>Links of sub-issues\<close>

definition subIssueLinked :: "subIssueNode list \<Rightarrow> string \<Rightarrow> bool" where
  "subIssueLinked subs childID = list_ex (\<lambda>s. si_ID s = childID) subs"

definition task_by_id :: "task list \<Rightarrow> uuid \<Rightarrow> task option" where
  "task_by_id tasks i = find (\<lambda>t. t_id t = i) tasks"

function adapter_depth :: "task list \<Rightarrow> uuid list \<Rightarrow> nat \<Rightarrow> task \<Rightarrow> nat" where
  "adapter_depth tasks seen depth current =
    (case t_parent current of
       None \<Rightarrow> depth
     | Some p \<Rightarrow>
         if List.member seen p then depth
         else (case task_by_id tasks p of
             None \<Rightarrow> Suc depth
           | Some parent \<Rightarrow> adapter_depth tasks (p # seen) (Suc depth) parent))"
  by pat_completeness auto
termination
proof (relation "measure (\<lambda>(tasks, seen, _, _). card (t_id ` set tasks - set seen))", goal_cases)
  case (2 tasks seen depth current p parent)
  then have "parent \<in> set tasks" "t_id parent = p" "p \<notin> set seen"
    by (auto simp: task_by_id_def dest: find_Some_mem)
  then have "t_id ` set tasks - set (p # seen) \<subset> t_id ` set tasks - set seen" by auto
  then show ?case by (simp add: psubset_card_mono)
qed simp

declare adapter_depth.simps [simp del]

definition adapterTaskDepth :: "task list \<Rightarrow> task \<Rightarrow> nat" where
  "adapterTaskDepth tasks t = adapter_depth tasks [t_id t] 1 t"

definition link_child :: "'s gh \<Rightarrow> task list \<Rightarrow> task \<Rightarrow> 's gh_state \<Rightarrow> adapter_err option \<times> 's gh_state" where
  "link_child G tasks child s =
    (case Option.bind (t_parent child) (task_by_id tasks) of
       None \<Rightarrow> (None, s)
     | Some parent \<Rightarrow>
        (case (extractNodeID (t_remote parent), extractNodeID (t_remote child)) of
           (Some parentID, Some childID) \<Rightarrow>
             let n = extractIssueNumber (t_remote parent) in
             if n \<le> 0 then (None, s)
             else (case listSubIssues G n s of
                 (Inl _, s1) \<Rightarrow> (Some RemoteFailed, s1)
               | (Inr subs, s1) \<Rightarrow>
                   if subIssueLinked subs childID then (None, s1)
                   else if MaxSubIssuesPerParent \<le> int (length subs) then (Some TooManySubIssues, s1)
                   else if MaxSubIssueDepth \<le> adapterTaskDepth tasks parent then (Some TooDeep, s1)
                   else (case askG (m_addSubIssue (gh_api G) parentID childID) s1 of
                       (Inl _, s2) \<Rightarrow> (Some RemoteFailed, s2)
                     | (Inr _, s2) \<Rightarrow> (None, s2)))
         | _ \<Rightarrow> (None, s)))"

fun link_children :: "'s gh \<Rightarrow> task list \<Rightarrow> task list \<Rightarrow> 's gh_state \<Rightarrow> adapter_err option \<times> 's gh_state" where
  "link_children G tasks [] s = (None, s)"
| "link_children G tasks (c # cs) s =
    (case link_child G tasks c s of
       (None, s') \<Rightarrow> link_children G tasks cs s'
     | (Some e, s') \<Rightarrow> (Some e, s'))"

definition syncSubIssueLinks ::
  "'s gh \<Rightarrow> bool \<Rightarrow> uuid \<Rightarrow> db \<Rightarrow> 's gh_state \<Rightarrow> (adapter_err option \<times> 's gh_state) option" where
  "syncSubIssueLinks G nf coll d s =
    (case list_all_pages (\<lambda>c. ListTasks nf (listing coll 1000 c) d) 1000 TNoCursor [] of
       None \<Rightarrow> None
     | Some (Inl e) \<Rightarrow> Some (Some (IndexFailed e), s)
     | Some (Inr ets) \<Rightarrow> Some (link_children G (map e_task ets) (map e_task ets) s))"

section \<open>Syncing\<close>

definition ga_sync_issue ::
  "sync_lib \<Rightarrow> 'w gh_adapter \<Rightarrow> env \<Rightarrow> uuid \<Rightarrow> (string \<rightharpoonup> uuid) \<Rightarrow> rest_issue
    \<Rightarrow> SyncResult \<times> db \<Rightarrow> SyncResult \<times> db" where
  "ga_sync_issue S A e coll idx i s =
    (if ri_IsPullRequest i then s
     else let rid = ga_remoteID A (ri_Number i) in
       upsert e idx (\<lambda>_ d. d) rid (IssueToCreateParams S i coll rid (ga_owner A) (ga_repo A))
         (IssueToUpdateParams S i rid) s)"

text \<open>The loop over the pages; it ends when the answer names no next page.\<close>

partial_function (option) ga_sync_pages ::
  "(nat \<Rightarrow> 'w \<Rightarrow> (unit + rest_issue list \<times> nat) \<times> 'w) \<Rightarrow> (rest_issue \<Rightarrow> SyncResult \<times> db \<Rightarrow> SyncResult \<times> db)
    \<Rightarrow> nat \<Rightarrow> 'w \<Rightarrow> SyncResult \<times> db \<Rightarrow> ((SyncResult \<times> db) \<times> bool \<times> 'w) option" where
  "ga_sync_pages lst each page w s =
    (case lst page w of
       (Inl _, w') \<Rightarrow> Some (s, False, w')
     | (Inr (issues, nxt), w') \<Rightarrow>
         let s' = fold each issues s in
         if nxt = 0 then Some (s', True, w') else ga_sync_pages lst each nxt w' s')"

definition ga_SyncCollection ::
  "sync_lib \<Rightarrow> 'w gh_adapter \<Rightarrow> 's gh option \<Rightarrow> bool \<Rightarrow> time option \<Rightarrow> env \<Rightarrow> uuid \<Rightarrow> 'w \<Rightarrow> 's gh_state \<Rightarrow> db
    \<Rightarrow> ((SyncResult \<times> adapter_err option) \<times> db \<times> 'w \<times> 's gh_state) option" where
  "ga_SyncCollection S A gql nf since e coll w gs d =
    (case buildRemoteIDIndex nf coll d of
       None \<Rightarrow> None
     | Some (Inl err) \<Rightarrow> Some ((no_result, Some (IndexFailed err)), d, w, gs)
     | Some (Inr idx) \<Rightarrow>
        (case ga_sync_pages (rs_ListByRepo (ga_client A) since) (ga_sync_issue S A e coll idx) 0 w (no_result, d) of
           None \<Rightarrow> None
         | Some ((r, d'), False, w') \<Rightarrow> Some ((r, Some RemoteFailed), d', w', gs)
         | Some ((r, d'), True, w') \<Rightarrow>
            (case gql of
               None \<Rightarrow> Some ((r, None), d', w', gs)
             | Some G \<Rightarrow>
                (case syncSubIssueLinks G nf coll d' gs of
                   None \<Rightarrow> None
                 | Some (err, gs') \<Rightarrow> Some ((r, err), d', w', gs')))))"

end
