(* ===== verification/FT_GitHubSync.thy ===== *)
theory FT_GitHubSync
  imports FT_GitHubAdapter FT_SyncProps
begin

text \<open>
  The sync of the GitHub adapter is an instance of \<open>adapter_sync\<close>; the pages of the listing;
  and the links of sub-issues that a sync makes.
\<close>

section \<open>The instance\<close>

definition ri_like :: "sync_lib \<Rightarrow> rest_issue \<Rightarrow> task \<Rightarrow> bool" where
  "ri_like S i t \<longleftrightarrow> t_title t = ri_Title i \<and> t_description t = ri_Body i
     \<and> (t_phase t, t_stage t) = issueStateToPhaseStage (ri_State i) \<and> t_native_label t = ri_State i
     \<and> t_type t = ''issue'' \<and> t_assignee t = map_option (ri_deterministicUUID S) (ri_Assignee i)
     \<and> set (ri_Labels i) \<subseteq> set (t_labels t)"

lemma map_of_ri_remote: "map_of (ri_buildRemoteData S i rid) ''remote_id'' = Some (JStr rid)"
  by (simp add: ri_buildRemoteData_def)

lemma distinct_ri_remote: "distinct (map fst (ri_buildRemoteData S i rid))"
  unfolding ri_buildRemoteData_def append_assoc
  by (simp add: distinct_entries distinct_entry key_entry image_Un del: map_append)

abbreviation ga_id :: "'w gh_adapter \<Rightarrow> rest_issue \<Rightarrow> string" where
  "ga_id A i \<equiv> ga_remoteID A (ri_Number i)"

abbreviation ga_create_of :: "sync_lib \<Rightarrow> 'w gh_adapter \<Rightarrow> uuid \<Rightarrow> rest_issue \<Rightarrow> CreateTaskParams" where
  "ga_create_of S A coll i \<equiv> IssueToCreateParams S i coll (ga_id A i) (ga_owner A) (ga_repo A)"

abbreviation ga_update_of :: "sync_lib \<Rightarrow> 'w gh_adapter \<Rightarrow> rest_issue \<Rightarrow> UpdateTaskParams" where
  "ga_update_of S A i \<equiv> IssueToUpdateParams S i (ga_id A i)"

lemma ga_update_like: "ri_like S i ((update_row (ga_update_of S A i) old t)\<lparr>t_updated := u\<rparr>)"
proof -
  have "set (ri_Labels i) \<subseteq> set (t_labels ((update_row (ga_update_of S A i) old t)\<lparr>t_updated := u\<rparr>))"
    using merged_labels [of "ga_update_of S A i"] by (simp add: IssueToUpdateParams_def no_update_def)
  then show ?thesis
    by (cases "ri_Assignee i")
      (simp_all add: ri_like_def update_row_def IssueToUpdateParams_def no_update_def set_if_def
        set_or_clear_def drops_deferral_def)
qed

interpretation ga: adapter_sync "ga_id A" "ga_create_of S A coll" "ga_update_of S A"
    "\<lambda>_ _ d. d" coll "ri_like S" "\<lambda>i. \<not> ri_IsPullRequest i" e "ga_sync_issue S A e coll"
  for S A e coll
proof
  fix i old t u k idx and s :: "SyncResult \<times> db"
  show "ct_CollectionID (ga_create_of S A coll i) = coll" by (simp add: IssueToCreateParams_def)
  show "jstring (ct_RemoteData (ga_create_of S A coll i)) ''remote_id'' = Some (ga_id A i)"
    by (simp add: IssueToCreateParams_def jstring_def map_of_ri_remote)
  show "remote_id_of ((update_row (ga_update_of S A i) old t)\<lparr>t_updated := u\<rparr>) = Some (ga_id A i)"
    by (rule updated_remote [OF _ distinct_ri_remote map_of_ri_remote]) (simp add: IssueToUpdateParams_def)
  show "ri_like S i (new_task e k (ga_create_of S A coll i))"
    by (simp add: ri_like_def new_task_def IssueToCreateParams_def)
  show "ri_like S i ((update_row (ga_update_of S A i) old t)\<lparr>t_updated := u\<rparr>)" by (rule ga_update_like)
qed (simp_all add: ga_sync_issue_def Let_def)

section \<open>The pages of a sync\<close>

text \<open>The listing from a page on ends, and these are the issues it gives.\<close>

inductive rest_listing ::
  "(nat \<Rightarrow> 'w \<Rightarrow> (unit + rest_issue list \<times> nat) \<times> 'w) \<Rightarrow> nat \<Rightarrow> 'w \<Rightarrow> rest_issue list \<Rightarrow> 'w \<Rightarrow> bool" for lst where
  last_page: "lst p w = (Inr (issues, 0), w') \<Longrightarrow> rest_listing lst p w issues w'"
| next_page: "lst p w = (Inr (issues, n), w1) \<Longrightarrow> n \<noteq> 0 \<Longrightarrow> rest_listing lst n w1 rest w' \<Longrightarrow>
    rest_listing lst p w (issues @ rest) w'"

lemma ga_sync_pages_listing:
  "rest_listing lst p w issues w' \<Longrightarrow> ga_sync_pages lst each p w s = Some (fold each issues s, True, w')"
proof (induction arbitrary: s rule: rest_listing.induct)
  case (last_page p w issues w')
  then show ?case by (subst ga_sync_pages.simps) simp
next
  case (next_page p w issues n w1 rest w')
  then show ?case by (subst ga_sync_pages.simps) simp
qed

lemma syncSubIssueLinks_returns:
  assumes "db_ok d" shows "\<exists>err s'. syncSubIssueLinks G nf coll d s = Some (err, s')"
proof -
  obtain ets where "list_all_pages (\<lambda>c. ListTasks nf (listing coll 1000 c) d) 1000 TNoCursor [] = Some (Inr ets)"
    using list_all_pages_complete [OF assms, of 1000 nf coll] by auto
  then show ?thesis
    by (cases "link_children G (map e_task ets) (map e_task ets) s") (simp add: syncSubIssueLinks_def)
qed


definition ex_rest_issue :: rest_issue where
  "ex_rest_issue = \<lparr>ri_Number = 5, ri_Title = ''n'', ri_Body = [], ri_State = ''open'', ri_NodeID = [],
     ri_HTMLURL = [], ri_CreatedAt = 0, ri_UpdatedAt = 0, ri_Milestone = None, ri_Labels = [''l''],
     ri_Assignee = Some ''o'', ri_IsPullRequest = False\<rparr>"

definition ex_rest :: "unit gh_adapter" where
  "ex_rest = \<lparr>ga_client = \<lparr>rs_ListByRepo = (\<lambda>_ p w. (Inr (if p = 0 then ([ex_rest_issue\<lparr>ri_IsPullRequest := True\<rparr>], 2)
       else ([ex_rest_issue], 0)), w)), rs_Edit = (\<lambda>n _ w. (Inr n, w)), rs_Create = (\<lambda>_ w. (Inr 6, w)),
       rs_CreateComment = (\<lambda>_ _ w. (Inl (), w))\<rparr>, ga_owner = ''o'', ga_repo = ''r''\<rparr>"

definition ex_rest_lib :: sync_lib where
  "ex_rest_lib = \<lparr>sl_sha1 = length, sl_rfc3339 = (\<lambda>_. [])\<rparr>"

lemma ex_rest_listing: "rest_listing (rs_ListByRepo (ga_client ex_rest) None) 0 ()
    ([ex_rest_issue\<lparr>ri_IsPullRequest := True\<rparr>] @ [ex_rest_issue]) ()"
  by (rule rest_listing.next_page [where n = 2 and ?w1.0 = "()"], simp add: ex_rest_def, simp,
      rule rest_listing.last_page, simp add: ex_rest_def)

lemma ex_rest_no_remote: "\<not> task_at coll r ex_db k t"
  using get_task_Some [of k ex_db t] by (auto simp: task_at_def remote_id_of_def jstring_def ex_defs)

lemma ex_rest_created:
  "\<exists>et d'. CreateTask ex_env (ga_create_of ex_rest_lib ex_rest 1 ex_rest_issue) ex_db = Inr (et, d')"
  by (auto simp: IssueToCreateParams_def issueStateToPhaseStage_def ex_rest_issue_def ex_rest_def
      CreateTask_def ex_defs Let_def new_task_def fresh_uuid_def drawn_def
      insert_task_def task_ids_def coll_ids_def user_ids_def validateTaskStateForWrite_def declared_stage_def
      getTaskWithEdges_def get_task_def)

definition ex_gh_state :: "nat gh_state" where
  "ex_gh_state = \<lparr>gs_remote = 0, gs_repoID = None, gs_labelIndex = None\<rparr>"


end
