(* ===== verification/FT_RateLimit.thy ===== *)
theory FT_RateLimit
  imports FT_Labels FT_GoText
begin

text \<open>
  The transport under the GitHub clients (\<open>internal/platform/github/ratelimit.go\<close>): it waits
  until the rate limit is reset, sends a request at most four times, and doubles its delay or
  takes the delay the answer names. The network is a function on a state of its own; durations
  are nanoseconds in 64 bits.
\<close>

section \<open>Requests and answers\<close>

text \<open>
  The body of a request: none, a stream that is read once, with its content if reading and
  closing it succeeds, or one with \<open>GetBody\<close>, with what its calls give.
\<close>

datatype req_body = NoBody | Streamed "string option" | Replayable string "nat \<Rightarrow> string option"

text \<open>A body that cannot be read is \<open>None\<close>; \<open>hr_closed\<close> is a body that was drained or closed.\<close>

record http_resp =
  hr_status :: int
  hr_remaining :: string
  hr_reset :: string
  hr_retryAfter :: string
  hr_body :: "string option"
  hr_closed :: bool

datatype transport_err = BodyErr | NetErr

text \<open>
  What changes: the time of the reset, the network, the clock, and, to speak about them, the
  delays slept and the bodies sent.
\<close>

record 'w transport =
  tr_reset :: "time option"
  tr_net :: 'w
  tr_now :: time
  tr_sleeps :: "int list"
  tr_sent :: "string list"

definition gh_maxRetries :: nat where "gh_maxRetries = 3"
definition rateLimitRemainingFloor :: int where "rateLimitRemainingFloor = 10"
definition secondaryRateLimitDelay :: int where "secondaryRateLimitDelay = 60 * one_second"

text \<open>\<open>strconv.Atoi\<close> with its error, also \<open>strconv.ParseInt\<close> in base 10.\<close>

definition Atoi :: "string \<Rightarrow> int option" where
  "Atoi s =
    (let neg = (s \<noteq> [] \<and> hd s = CHR ''-'');
         ds = (if s \<noteq> [] \<and> (hd s = CHR ''-'' \<or> hd s = CHR ''+'') then tl s else s);
         v = (if neg then - int (atoi_nat ds) else int (atoi_nat ds))
     in if ds = [] \<or> \<not> list_all is_digit ds \<or> v < min_int64 \<or> max_int64 < v then None else Some v)"

definition sleep :: "int \<Rightarrow> 'w transport \<Rightarrow> 'w transport" where
  "sleep delay s = s\<lparr>tr_sleeps := tr_sleeps s @ [delay], tr_now := tr_now s + max 0 delay\<rparr>"

text \<open>The content and the replays of a request body.\<close>

definition ensureReplayableBody :: "req_body \<Rightarrow> transport_err + string \<times> (nat \<Rightarrow> string option)" where
  "ensureReplayableBody b =
    (case b of
       NoBody \<Rightarrow> Inr ([], \<lambda>_. Some [])
     | Streamed None \<Rightarrow> Inl BodyErr
     | Streamed (Some c) \<Rightarrow> Inr (c, \<lambda>_. Some c)
     | Replayable c get \<Rightarrow> Inr (c, get))"

definition waitIfNeeded :: "'w transport \<Rightarrow> 'w transport" where
  "waitIfNeeded s =
    (case tr_reset s of
       None \<Rightarrow> s
     | Some t \<Rightarrow> if 0 < t - tr_now s then sleep (t - tr_now s) s else s)"

definition recordRateLimit :: "http_resp \<Rightarrow> 'w transport \<Rightarrow> 'w transport" where
  "recordRateLimit r s =
    (case Atoi (hr_remaining r) of
       None \<Rightarrow> s
     | Some remaining \<Rightarrow>
         if rateLimitRemainingFloor \<le> remaining then s\<lparr>tr_reset := None\<rparr>
         else (case Atoi (hr_reset r) of
             None \<Rightarrow> s
           | Some secs \<Rightarrow> s\<lparr>tr_reset := Some (secs * one_second)\<rparr>))"

definition retryAfterDelay :: "http_resp \<Rightarrow> int" where
  "retryAfterDelay r = (case Atoi (hr_retryAfter r) of None \<Rightarrow> 0 | Some secs \<Rightarrow> wrap64 (secs * one_second))"

text \<open>The body is read and replaced; when it cannot be read it stays closed.\<close>

definition isSecondaryRateLimit :: "unicode \<Rightarrow> http_resp \<Rightarrow> bool \<times> http_resp" where
  "isSecondaryRateLimit U r =
    (case hr_body r of
       None \<Rightarrow> (False, r\<lparr>hr_closed := True\<rparr>)
     | Some b \<Rightarrow> (contains (lower U b) ''secondary rate limit'', r))"

definition drainAndClose :: "http_resp \<Rightarrow> http_resp" where
  "drainAndClose r = r\<lparr>hr_closed := True\<rparr>"

section \<open>The loop\<close>

text \<open>
  What the loop makes of an answer: the delay before the next attempt with the drained answer,
  or the answer to return.
\<close>

definition classify :: "unicode \<Rightarrow> int \<Rightarrow> http_resp \<Rightarrow> (int \<times> http_resp) + http_resp" where
  "classify U backoff r =
    (if hr_status r = 429 then
       let delay = retryAfterDelay r in Inl (if delay = 0 then backoff else delay, drainAndClose r)
     else let (secondary, r1) = (if hr_status r = 403 then isSecondaryRateLimit U r else (False, r)) in
       if secondary then Inl (secondaryRateLimitDelay, drainAndClose r1)
       else if 500 \<le> hr_status r then Inl (backoff, drainAndClose r1)
       else Inr r1)"

text \<open>\<open>attempt left\<close> has that many attempts left; attempt 0 is the first, without a delay.\<close>

fun attempt ::
  "unicode \<Rightarrow> (string \<Rightarrow> 'w \<Rightarrow> (unit + http_resp) \<times> 'w) \<Rightarrow> (nat \<Rightarrow> string option) \<Rightarrow> nat \<Rightarrow> nat \<Rightarrow> string \<Rightarrow> int
    \<Rightarrow> http_resp option \<Rightarrow> 'w transport \<Rightarrow> (transport_err + http_resp option) \<times> 'w transport" where
  "attempt U base get 0 n body backoff resp s = (Inr resp, s)"
| "attempt U base get (Suc left) n body backoff resp s =
    (let s1 = (if n = 0 then s else sleep backoff s);
         backoff1 = (if n = 0 then backoff else wrap64 (backoff * 2)) in
     (case (if n = 0 then Some body else get n) of
        None \<Rightarrow> (Inl BodyErr, s1)
      | Some b \<Rightarrow>
          (case base b (tr_net s1) of
             (Inl _, w) \<Rightarrow> (Inl NetErr, s1\<lparr>tr_net := w, tr_sent := tr_sent s1 @ [b]\<rparr>)
           | (Inr r, w) \<Rightarrow>
               let s2 = recordRateLimit r (s1\<lparr>tr_net := w, tr_sent := tr_sent s1 @ [b]\<rparr>) in
               (case classify U backoff1 r of
                  Inr r1 \<Rightarrow> (Inr (Some r1), s2)
                | Inl (delay, r1) \<Rightarrow> attempt U base get left (Suc n) b delay (Some r1) s2))))"

definition RoundTrip ::
  "unicode \<Rightarrow> (string \<Rightarrow> 'w \<Rightarrow> (unit + http_resp) \<times> 'w) \<Rightarrow> req_body \<Rightarrow> 'w transport
    \<Rightarrow> (transport_err + http_resp option) \<times> 'w transport" where
  "RoundTrip U base b s =
    (let s1 = waitIfNeeded s in
     case ensureReplayableBody b of
       Inl e \<Rightarrow> (Inl e, s1)
     | Inr (body, get) \<Rightarrow> attempt U base get (Suc gh_maxRetries) 0 body one_second None s1)"

section \<open>Bounds\<close>

declare attempt.simps [simp del]

lemma recordRateLimit_keeps [simp]:
  "tr_sent (recordRateLimit r s) = tr_sent s" "tr_sleeps (recordRateLimit r s) = tr_sleeps s"
  "tr_net (recordRateLimit r s) = tr_net s"
  by (simp_all add: recordRateLimit_def split: option.split)

lemma sleep_keeps [simp]:
  "tr_sent (sleep t s) = tr_sent s" "tr_sleeps (sleep t s) = tr_sleeps s @ [t]" "tr_net (sleep t s) = tr_net s"
  by (simp_all add: sleep_def)

text \<open>An answer that is not retried, and one that was drained for a retry.\<close>

definition final_answer :: "http_resp \<Rightarrow> bool" where
  "final_answer r \<longleftrightarrow> hr_status r \<noteq> 429 \<and> hr_status r < 500"

lemma classify_final: "classify U t r = Inr r1 \<Longrightarrow> final_answer r1"
  by (auto simp: classify_def final_answer_def Let_def isSecondaryRateLimit_def split: if_splits option.splits prod.splits)

lemma classify_retry: "classify U t r = Inl (t', r1) \<Longrightarrow> hr_closed r1 \<and> (t' = t \<or> t' = secondaryRateLimitDelay
    \<or> (t' = retryAfterDelay r \<and> t' \<noteq> 0))"
  by (auto simp: classify_def drainAndClose_def Let_def split: if_splits prod.splits)

text \<open>One attempt, as a case rule.\<close>

lemma attempt_cases:
  assumes "attempt U base get (Suc left) n body t resp s = (res, s')"
  defines "s1 \<equiv> if n = 0 then s else sleep t s" and "t1 \<equiv> if n = 0 then t else wrap64 (t * 2)"
  obtains (no_body) "n \<noteq> 0" "get n = None" "res = Inl BodyErr" "s' = s1"
  | (net) b w where "(if n = 0 then Some body else get n) = Some b" "base b (tr_net s1) = (Inl (), w)" "res = Inl NetErr"
      "s' = s1\<lparr>tr_net := w, tr_sent := tr_sent s1 @ [b]\<rparr>"
  | (answer) b w r r1 where "(if n = 0 then Some body else get n) = Some b" "base b (tr_net s1) = (Inr r, w)"
      "classify U t1 r = Inr r1" "res = Inr (Some r1)"
      "s' = recordRateLimit r (s1\<lparr>tr_net := w, tr_sent := tr_sent s1 @ [b]\<rparr>)"
  | (retry) b w r r1 t' where "(if n = 0 then Some body else get n) = Some b" "base b (tr_net s1) = (Inr r, w)"
      "classify U t1 r = Inl (t', r1)"
      "attempt U base get left (Suc n) b t' (Some r1)
         (recordRateLimit r (s1\<lparr>tr_net := w, tr_sent := tr_sent s1 @ [b]\<rparr>)) = (res, s')"
proof (cases "if n = 0 then Some body else get n")
  case None
  then show ?thesis using no_body assms(1) by (auto simp: attempt.simps s1_def Let_def split: if_splits)
next
  case (Some b)
  obtain a w where a: "base b (tr_net s1) = (a, w)" by fastforce
  show ?thesis
  proof (cases a)
    case (Inl u)
    then show ?thesis using net [OF Some] a assms(1) Some
      by (simp add: attempt.simps Let_def flip: s1_def t1_def)
  next
    case (Inr r)
    show ?thesis
    proof (cases "classify U t1 r")
      case (Inl p)
      obtain t' r1 where "p = (t', r1)" by fastforce
      then show ?thesis using retry [OF Some] a \<open>a = Inr r\<close> Inl assms(1) Some
        by (simp add: attempt.simps Let_def flip: s1_def t1_def)
    next
      case (Inr r1)
      then show ?thesis using answer [OF Some] a \<open>a = Inr r\<close> assms(1) Some
        by (simp add: attempt.simps Let_def flip: s1_def t1_def)
    qed
  qed
qed

lemma attempt_answers:
  assumes "attempt U base get left n body t resp s = (res, s')"
    and "\<And>r. resp = Some r \<Longrightarrow> hr_closed r" and "left = 0 \<Longrightarrow> resp \<noteq> None"
  shows "(\<exists>bs. tr_sent s' = tr_sent s @ bs \<and> length bs \<le> left)
    \<and> (case res of Inl _ \<Rightarrow> True | Inr None \<Rightarrow> False
       | Inr (Some r) \<Rightarrow> final_answer r \<or> (hr_closed r \<and> length (tr_sent s') = length (tr_sent s) + left))"
  using assms
proof (induction left arbitrary: n body t resp s)
  case 0
  then show ?case by (auto simp: attempt.simps split: option.split)
next
  case (Suc left)
  from Suc.prems(1) show ?case
  proof (cases rule: attempt_cases)
    case (retry b w r r1 t')
    let ?s1 = "if n = 0 then s else sleep t s"
    have "\<And>q. Some r1 = Some q \<Longrightarrow> hr_closed q" using classify_retry [OF retry(3)] by simp
    from Suc.IH [OF retry(4) this] obtain bs where "tr_sent s' = tr_sent s @ b # bs" "length bs \<le> left"
      "case res of Inl _ \<Rightarrow> True | Inr None \<Rightarrow> False
       | Inr (Some r) \<Rightarrow> final_answer r \<or> (hr_closed r \<and> length (tr_sent s') = length (tr_sent s) + Suc left)"
      by (auto split: if_splits sum.splits option.splits)
    then show ?thesis by (intro conjI exI [of _ "b # bs"]) simp_all
  qed (auto simp: classify_final split: if_splits)
qed

text \<open>Without a delay in an answer the delays at most double from a minute on.\<close>

definition names_no_delay :: "(string \<Rightarrow> 'w \<Rightarrow> (unit + http_resp) \<times> 'w) \<Rightarrow> bool" where
  "names_no_delay base \<longleftrightarrow> (\<forall>c w r w'. base c w = (Inr r, w') \<longrightarrow> retryAfterDelay r = 0)"

lemma classify_no_delay:
  assumes "classify U t r = Inl (t', r1)" and "retryAfterDelay r = 0"
  shows "t' = t \<or> t' = secondaryRateLimitDelay"
  using classify_retry [OF assms(1)] assms(2) by auto

lemma double_id: "0 \<le> t \<Longrightarrow> t \<le> secondaryRateLimitDelay * 2 ^ m \<Longrightarrow> m \<le> 2 \<Longrightarrow> wrap64 (t * 2) = t * 2"
proof -
  assume t: "0 \<le> t" "t \<le> secondaryRateLimitDelay * 2 ^ m" "m \<le> 2"
  then have "(2::int) ^ m \<le> 2 ^ 2" by (intro power_increasing) auto
  then have "t \<le> 240 * one_second" using t(2) by (simp add: secondaryRateLimitDelay_def one_second_def)
  then show ?thesis using t(1) by (intro wrap64_id) (simp_all add: min_int64_def max_int64_def one_second_def)
qed

lemma attempt_sleeps:
  assumes "attempt U base get left (Suc m) body t resp s = (res, s')" and "names_no_delay base"
    and "0 \<le> t" and "t \<le> secondaryRateLimitDelay * 2 ^ m" and "m + left \<le> 3"
  shows "\<exists>ts. tr_sleeps s' = tr_sleeps s @ ts \<and> sum_list ts \<le> secondaryRateLimitDelay * (2 ^ (m + left) - 2 ^ m)"
  using assms(1,3-)
proof (induction left arbitrary: m body t resp s)
  case 0
  then show ?case by (simp add: attempt.simps)
next
  case (Suc left)
  let ?S = secondaryRateLimitDelay
  have S: "0 < ?S" by (simp add: secondaryRateLimitDelay_def one_second_def)
  have "(2::int) ^ Suc m \<le> 2 ^ (m + Suc left)" by (rule power_increasing) simp_all
  then have "?S * 2 ^ Suc m \<le> ?S * 2 ^ (m + Suc left)" using S by simp
  then have one: "t \<le> ?S * (2 ^ (m + Suc left) - 2 ^ m)" using Suc.prems(3) by (simp add: algebra_simps)
  from Suc.prems(1) show ?case
  proof (cases rule: attempt_cases)
    case (retry b w r r1 t')
    have "t' = t * 2 \<or> t' = ?S"
      using classify_no_delay [OF retry(3)] assms(2) retry(2) double_id [OF Suc.prems(2,3)] Suc.prems(4)
      by (auto simp: names_no_delay_def)
    then have t': "0 \<le> t'" "t' \<le> ?S * 2 ^ Suc m"
      using Suc.prems(2,3) S one_le_power [of "2::int" "Suc m"] by (auto simp: algebra_simps)
    from Suc.IH [OF retry(4) t'] Suc.prems(4) obtain ts where
      "tr_sleeps s' = tr_sleeps s @ t # ts" "sum_list ts \<le> ?S * (2 ^ (Suc m + left) - 2 ^ Suc m)"
      by auto
    then show ?thesis using Suc.prems(3)
      by (intro exI [of _ "t # ts"]) (simp add: algebra_simps)
  qed (use one in auto)
qed


definition ex_transport :: "unit transport" where
  "ex_transport = \<lparr>tr_reset = Some 3, tr_net = (), tr_now = 1, tr_sleeps = [], tr_sent = []\<rparr>"

definition ex_busy :: "string \<Rightarrow> unit \<Rightarrow> (unit + http_resp) \<times> unit" where
  "ex_busy b w = (Inr \<lparr>hr_status = 503, hr_remaining = [], hr_reset = [], hr_retryAfter = [],
     hr_body = Some [], hr_closed = False\<rparr>, w)"


end
