(* ===== verification/FT_Cli.thy ===== *)
theory FT_Cli
  imports FT_McpTools FT_Rows
begin

text \<open>
  The machine the command line runs on and how a command reaches a server
  (\<open>internal/cli/config.go\<close>, \<open>config_cmd.go\<close>, \<open>input.go\<close>, \<open>errors.go\<close>, \<open>connect.go\<close>): the configuration
  file, the precedence of flags, environment and file, the exit status, the embedded server
  and its first run. Printed messages other than the codes of errors are not modelled.
\<close>

section \<open>The machine\<close>

datatype file_state = NoFile | Unreadable | File string

text \<open>
  \<open>m_writable\<close> holds of a path whose directory can be made and that can be written. The last two
  fields are what \<open>git credential fill\<close> and \<open>gcloud auth print-identity-token\<close> print.
\<close>

record machine =
  m_env :: "string \<Rightarrow> string"
  m_home :: string
  m_file :: "string \<Rightarrow> file_state"
  m_writable :: "string \<Rightarrow> bool"
  m_stdin :: "string option"
  m_terminal :: bool
  m_git :: "string option"
  m_gcloud :: "string \<Rightarrow> string option"

record globalFlags =
  gf_output :: string
  gf_collection :: string
  gf_server :: string
  gf_token :: string
  gf_iapAudience :: string

datatype grpc_err = Status code | AlreadyExists | Unavailable | OtherStatus | NoStatus

text \<open>An error a command ends with: the exit status and the code it prints.\<close>

datatype cli_err = ExitError nat string

definition grpcExitCode :: "grpc_err \<Rightarrow> nat" where
  "grpcExitCode err =
    (case err of
       Status k \<Rightarrow> (case k of Unauthenticated \<Rightarrow> 3 | NotFound \<Rightarrow> 4 | FailedPrecondition \<Rightarrow> 5 | Aborted \<Rightarrow> 5
         | InvalidArgument \<Rightarrow> 6 | PermissionDenied \<Rightarrow> 7 | _ \<Rightarrow> 1)
     | AlreadyExists \<Rightarrow> 5 | Unavailable \<Rightarrow> 8 | _ \<Rightarrow> 1)"

definition grpcErrorCode :: "grpc_err \<Rightarrow> string" where
  "grpcErrorCode err =
    (case err of
       Status k \<Rightarrow> (case k of Unauthenticated \<Rightarrow> ''AUTH_REQUIRED'' | NotFound \<Rightarrow> ''NOT_FOUND''
         | FailedPrecondition \<Rightarrow> ''CONFLICT'' | Aborted \<Rightarrow> ''CONFLICT''
         | InvalidArgument \<Rightarrow> ''VALIDATION_ERROR'' | PermissionDenied \<Rightarrow> ''PERMISSION_DENIED''
         | _ \<Rightarrow> ''INTERNAL_ERROR'')
     | AlreadyExists \<Rightarrow> ''ALREADY_CLAIMED'' | Unavailable \<Rightarrow> ''SERVER_UNAVAILABLE'' | _ \<Rightarrow> ''INTERNAL_ERROR'')"

definition handleGRPCError :: "grpc_err \<Rightarrow> cli_err" where
  "handleGRPCError err = ExitError (grpcExitCode err) (grpcErrorCode err)"

definition invalid :: cli_err where "invalid = ExitError 6 ''VALIDATION_ERROR''"

section \<open>The configuration file\<close>

record Config =
  cf_Server :: string
  cf_Token :: string
  cf_DefaultCollection :: string
  cf_Output :: string

definition no_config :: Config where
  "no_config = \<lparr>cf_Server = [], cf_Token = [], cf_DefaultCollection = [], cf_Output = []\<rparr>"

text \<open>\<open>filepath.Join\<close> of a clean home directory and a path.\<close>

definition in_home :: "machine \<Rightarrow> string \<Rightarrow> string" where
  "in_home m path =
    (if m_home m = [] then path else if m_home m = ''/'' then ''/'' @ path else m_home m @ ''/'' @ path)"

definition defaultConfigPath :: "machine \<Rightarrow> string" where
  "defaultConfigPath m =
    (let p = m_env m ''FARMTABLE_CONFIG'' in
     if p \<noteq> [] then p else in_home m ''.config/farmtable/config.toml'')"

definition nl :: char where "nl = CHR 0x0A"

definition trim_end :: "(char \<Rightarrow> bool) \<Rightarrow> string \<Rightarrow> string" where
  "trim_end P s = rev (dropWhile P (rev s))"

text \<open>
  \<open>bufio.Scanner\<close> over lines: a carriage return before the newline is dropped, the text behind the
  last newline is a line unless it is empty, and a line that fills the buffer ends the scan.
\<close>

definition without_cr :: "string \<Rightarrow> string" where
  "without_cr l = (if l \<noteq> [] \<and> last l = CHR 0x0D then butlast l else l)"

definition scanned_lines :: "string \<Rightarrow> string list" where
  "scanned_lines s =
    (let ls = split_on nl s; ls' = (if last ls = [] then butlast ls else ls) in
     map without_cr (takeWhile (\<lambda>l. length l < 65536) ls'))"

definition is_quote :: "char \<Rightarrow> bool" where
  "is_quote c \<longleftrightarrow> c = CHR 0x22 \<or> c = CHR 0x27"

definition parseConfigLine :: "string \<Rightarrow> (string \<times> string) option" where
  "parseConfigLine line =
    (if CHR ''='' \<in> set line then
       Some (TrimSpace (takeWhile (\<lambda>c. c \<noteq> CHR ''='') line),
         trim_end is_quote (dropWhile is_quote (TrimSpace (tl (dropWhile (\<lambda>c. c \<noteq> CHR ''='') line)))))
     else None)"

definition skipped_line :: "string \<Rightarrow> bool" where
  "skipped_line line \<longleftrightarrow> line = [] \<or> List.hd line = CHR ''#''"

definition config_line :: "Config \<Rightarrow> string \<Rightarrow> Config" where
  "config_line cfg l =
    (let line = TrimSpace l in
     if skipped_line line then cfg
     else case parseConfigLine line of None \<Rightarrow> cfg
       | Some (key, v) \<Rightarrow>
           if key = ''server'' then cfg\<lparr>cf_Server := v\<rparr>
           else if key = ''token'' then cfg\<lparr>cf_Token := v\<rparr>
           else if key = ''default_collection'' then cfg\<lparr>cf_DefaultCollection := v\<rparr>
           else if key = ''output'' then cfg\<lparr>cf_Output := v\<rparr>
           else cfg)"

definition LoadConfig :: "machine \<Rightarrow> Config" where
  "LoadConfig m =
    (case m_file m (defaultConfigPath m) of
       File s \<Rightarrow> foldl config_line no_config (scanned_lines s) | _ \<Rightarrow> no_config)"

text \<open>\<open>strconv.Quote\<close>. What \<open>IsPrint\<close> says of runes outside ASCII is a parameter.\<close>

definition hex_text :: "nat \<Rightarrow> nat \<Rightarrow> string" where
  "hex_text k r = map (\<lambda>i. FT_Rows.hex_digit (r div 16 ^ (k - 1 - i) mod 16)) [0..<k]"

definition short_escapes :: "(nat \<times> char) list" where
  "short_escapes = [(7, CHR ''a''), (8, CHR ''b''), (12, CHR ''f''), (10, CHR ''n''), (13, CHR ''r''),
     (9, CHR ''t''), (11, CHR ''v'')]"

definition is_print :: "(nat \<Rightarrow> bool) \<Rightarrow> nat \<Rightarrow> bool" where
  "is_print P r \<longleftrightarrow> (if r < 128 then in_range 32 126 r else P r)"

definition quote_rune :: "(nat \<Rightarrow> bool) \<Rightarrow> nat \<times> string \<Rightarrow> string" where
  "quote_rune P = (\<lambda>(r, bytes).
    let bs = CHR 0x5C in
    if r = RuneError \<and> length bytes = 1 then bs # CHR ''x'' # hex_text 2 (of_char (List.hd bytes))
    else if r = 34 \<or> r = 92 then bs # bytes
    else if is_print P r then bytes
    else case map_of short_escapes r of Some c \<Rightarrow> [bs, c]
     | None \<Rightarrow> if r < 32 \<or> r = 127 then bs # CHR ''x'' # hex_text 2 r
               else if r < 65536 then bs # CHR ''u'' # hex_text 4 r
               else bs # CHR ''U'' # hex_text 8 r)"

definition Quote :: "(nat \<Rightarrow> bool) \<Rightarrow> string \<Rightarrow> string" where
  "Quote P s = CHR 0x22 # concat (map (quote_rune P) (rune_chunks s)) @ [CHR 0x22]"

definition readLines :: "string \<Rightarrow> string list" where
  "readLines s = split_on nl (trim_end (\<lambda>c. c = nl) s)"

text \<open>The first line that sets the key is replaced.\<close>

definition sets_key :: "string \<Rightarrow> string \<Rightarrow> bool" where
  "sets_key key l =
    (let t = TrimSpace l in \<not> skipped_line t \<and> (case parseConfigLine t of None \<Rightarrow> False | Some (k, _) \<Rightarrow> k = key))"

fun replace_line :: "string \<Rightarrow> string \<Rightarrow> string list \<Rightarrow> string list option" where
  "replace_line key new [] = None"
| "replace_line key new (l # ls) =
    (if sets_key key l then Some (new # ls) else map_option ((#) l) (replace_line key new ls))"

definition set_line :: "string \<Rightarrow> string \<Rightarrow> string list \<Rightarrow> string list" where
  "set_line key new ls = (case replace_line key new ls of Some ls' \<Rightarrow> ls' | None \<Rightarrow> ls @ [new])"

definition join_lines :: "string list \<Rightarrow> string" where
  "join_lines ls = concat (map (\<lambda>l. l @ [nl]) ls)"

definition SaveConfigValue :: "(nat \<Rightarrow> bool) \<Rightarrow> string \<Rightarrow> string \<Rightarrow> machine \<Rightarrow> machine option" where
  "SaveConfigValue P key value m =
    (let path = defaultConfigPath m; new = key @ '' = '' @ Quote P value in
     if \<not> m_writable m path then None
     else case (case m_file m path of File s \<Rightarrow> Some (readLines s) | NoFile \<Rightarrow> Some [] | Unreadable \<Rightarrow> None) of
         None \<Rightarrow> None
       | Some ls \<Rightarrow> Some (m\<lparr>m_file := (m_file m)(path := File (join_lines (set_line key new ls)))\<rparr>))"

definition configKeys :: "string list" where
  "configKeys = [''server'', ''token'', ''default_collection'', ''output'']"

definition config_set :: "(nat \<Rightarrow> bool) \<Rightarrow> string \<Rightarrow> string \<Rightarrow> machine \<Rightarrow> cli_err + machine" where
  "config_set P key value m =
    (if \<not> List.member configKeys key then Inl invalid
     else optE (ExitError 1 ''INTERNAL_ERROR'') (SaveConfigValue P key value m))"

section \<open>Settings\<close>

definition first_set :: "string list \<Rightarrow> string" where
  "first_set vs = (case find (\<lambda>v. v \<noteq> []) vs of None \<Rightarrow> [] | Some v \<Rightarrow> v)"

definition resolveServer :: "machine \<Rightarrow> string \<Rightarrow> string" where
  "resolveServer m flagVal = first_set [flagVal, m_env m ''FARMTABLE_SERVER'', cf_Server (LoadConfig m)]"

definition resolveToken :: "machine \<Rightarrow> string \<Rightarrow> string" where
  "resolveToken m flagVal = first_set [flagVal, m_env m ''FARMTABLE_TOKEN'', cf_Token (LoadConfig m)]"

definition resolveIAPAudience :: "machine \<Rightarrow> string \<Rightarrow> string" where
  "resolveIAPAudience m flagVal = (if flagVal \<noteq> [] then flagVal else m_env m ''IAP_AUDIENCE'')"

definition cli_resolveCollection :: "machine \<Rightarrow> string \<Rightarrow> string" where
  "cli_resolveCollection m flagVal =
    first_set [flagVal, m_env m ''FARMTABLE_COLLECTION'', cf_DefaultCollection (LoadConfig m)]"

definition resolveOutput :: "machine \<Rightarrow> string \<Rightarrow> string" where
  "resolveOutput m flagVal = first_set [flagVal, m_env m ''FARMTABLE_OUTPUT'', cf_Output (LoadConfig m), ''json'']"

definition resolveDBPath :: "machine \<Rightarrow> string" where
  "resolveDBPath m = (let v = m_env m ''FARMTABLE_DB_PATH'' in if v \<noteq> [] then v else in_home m ''.farmtable/farmtable.db'')"

text \<open>The masked token that \<open>config show\<close> prints.\<close>

definition tokenDisplay :: "string \<Rightarrow> string" where
  "tokenDisplay tok =
    (if tok = [] then [] else if 8 < length tok then take 4 tok @ ''...'' @ drop (length tok - 4) tok else ''****'')"

definition config_show :: "machine \<Rightarrow> globalFlags \<Rightarrow> jmap" where
  "config_show m G =
    [(''server'', JStr (resolveServer m (gf_server G))),
     (''token'', JStr (tokenDisplay (resolveToken m (gf_token G)))),
     (''default_collection'', nilIfEmpty (Some (cli_resolveCollection m (gf_collection G)))),
     (''output'', JStr (resolveOutput m (gf_output G))),
     (''config_file'', JStr (defaultConfigPath m))]"

text \<open>
  A value of a flag: standard input, which is empty behind that, the content of a file, or the
  text itself.
\<close>

definition read_stdin :: "machine \<Rightarrow> (string \<times> machine) option" where
  "read_stdin m = map_option (\<lambda>s. (s, m\<lparr>m_stdin := Some []\<rparr>)) (m_stdin m)"

definition readInputValue :: "machine \<Rightarrow> string \<Rightarrow> (string \<times> machine) option" where
  "readInputValue m v =
    (if v = ''-'' then read_stdin m
     else if v \<noteq> [] \<and> List.hd v = CHR ''@'' then (case m_file m (tl v) of File s \<Rightarrow> Some (s, m) | _ \<Rightarrow> None)
     else Some (v, m))"

end
