(* ===== verification/FT_CliConnect.thy ===== *)
theory FT_CliConnect
  imports FT_Cli
begin

text \<open>
  How a command of the command line gets its client (\<open>internal/cli/connect.go\<close>, \<open>dashboard.go\<close>): the
  pass-through to GitHub, a server by address, or the embedded server over the local database,
  whose first start makes a user, a token and a collection. The database here is the one of the
  server that the client reaches.
\<close>

section \<open>Libraries\<close>

text \<open>
  Page tokens of listings, the format of times, \<open>time.ParseDuration\<close> and the printable runes are
  parameters besides those of the tools.
\<close>

record cli_lib =
  cl_mcp :: mcp_lib
  cl_print :: "nat \<Rightarrow> bool"
  cl_rows :: "string \<Rightarrow> cursor page_token"
  cl_rows_text :: "cursor \<Rightarrow> string"
  cl_int :: "string \<Rightarrow> int page_token"
  cl_int_text :: "int \<Rightarrow> string"
  cl_account_text :: "uuid option \<Rightarrow> string"
  cl_day :: "time \<Rightarrow> string"
  cl_clock :: "time \<Rightarrow> string"
  cl_rfc3339 :: "time \<Rightarrow> string"
  cl_duration :: "string \<Rightarrow> time option"

abbreviation cl_lib :: "cli_lib \<Rightarrow> lib" where "cl_lib C \<equiv> ml_lib (cl_mcp C)"

section \<open>Addresses\<close>

fun before_last :: "char \<Rightarrow> string \<Rightarrow> (string \<times> string) option" where
  "before_last c [] = None"
| "before_last c (x # s) =
    (case before_last c s of Some (a, b) \<Rightarrow> Some (x # a, b)
     | None \<Rightarrow> if x = c then Some ([], s) else None)"

text \<open>\<open>net.SplitHostPort\<close>: the host, or none where it returns an error.\<close>

definition SplitHostPort :: "string \<Rightarrow> string option" where
  "SplitHostPort addr =
    (case before_last (CHR '':'') addr of None \<Rightarrow> None
     | Some (a, port) \<Rightarrow>
         if a \<noteq> [] \<and> List.hd a = CHR ''['' then
           (let host = takeWhile (\<lambda>c. c \<noteq> CHR '']'') (tl a) in
            if a = CHR ''['' # host @ [CHR '']''] \<and> CHR ''['' \<notin> set host \<and> CHR ''['' \<notin> set port \<and> CHR '']'' \<notin> set port
            then Some host else None)
         else if CHR '':'' \<in> set a \<or> CHR ''['' \<in> set addr \<or> CHR '']'' \<in> set addr then None
         else Some a)"

definition isLocalhost :: "string \<Rightarrow> bool" where
  "isLocalhost addr =
    (let bracket = (\<lambda>c. c = CHR ''['' \<or> c = CHR '']'');
         host = (case SplitHostPort addr of None \<Rightarrow> addr | Some h \<Rightarrow> h);
         h = trim_end bracket (dropWhile bracket host) in
     h = ''localhost'' \<or> h = ''127.0.0.1'' \<or> h = ''::1'' \<or> h = [])"

definition dialServer_insecure :: "machine \<Rightarrow> string \<Rightarrow> bool" where
  "dialServer_insecure m server \<longleftrightarrow> m_env m ''FARMTABLE_INSECURE'' = ''1'' \<or> isLocalhost server"

section \<open>Credentials of a call\<close>

definition cli_authCtx :: "string \<Rightarrow> string \<Rightarrow> md" where
  "cli_authCtx iapToken tok =
    (if tok = [] then (\<lambda>_. [])
     else if iapToken \<noteq> [] then
       (\<lambda>_. [])(''authorization'' := [''Bearer '' @ iapToken], ''x-farmtable-token'' := [tok])
     else (\<lambda>_. [])(''authorization'' := [''Bearer '' @ tok], ''x-farmtable-token'' := [tok]))"

definition cli_creds :: "string \<Rightarrow> string \<Rightarrow> mcp_server" where
  "cli_creds tok iapToken = \<lparr>mp_token = tok, mp_iapToken = iapToken\<rparr>"

text \<open>The command line and the MCP adapter send the same metadata.\<close>

lemma cli_authCtx_is_mcp: "cli_authCtx iapToken tok = mcp_authCtx (cli_creds tok iapToken)"
  by (simp add: cli_authCtx_def mcp_authCtx_def cli_creds_def contextWithAuth_def bearer_def)

definition mintIAPToken :: "machine \<Rightarrow> string \<Rightarrow> string option" where
  "mintIAPToken m audience =
    (case m_gcloud m audience of None \<Rightarrow> None
     | Some printed \<Rightarrow> (let tok = TrimSpace printed in if tok = [] then None else Some tok))"

text \<open>The token the process keeps, or none where it cannot be had.\<close>

definition configureIAPAuth :: "machine \<Rightarrow> string \<Rightarrow> string \<Rightarrow> string option" where
  "configureIAPAuth m audienceFlag server =
    (let audience = resolveIAPAudience m audienceFlag in
     if audience = [] \<or> server = [] then Some [] else mintIAPToken m audience)"

definition resolveGitHubToken :: "machine \<Rightarrow> string" where
  "resolveGitHubToken m =
    (let tok = m_env m ''GITHUB_TOKEN'' in
     if tok \<noteq> [] then tok
     else case m_git m of None \<Rightarrow> []
       | Some printed \<Rightarrow> (case find (\<lambda>l. take 9 l = ''password='') (split_on nl printed) of
             None \<Rightarrow> [] | Some l \<Rightarrow> drop 9 l))"

section \<open>The embedded server\<close>

definition ensureDashboardToken :: "sha \<Rightarrow> env \<Rightarrow> uuid \<Rightarrow> string \<Rightarrow> db \<Rightarrow> store_err + db" where
  "ensureDashboardToken sha e userID rawToken d =
    (if rawToken = [] then Inr d
     else if list_ex (\<lambda>k. k_hash k = HashToken sha rawToken) (d_tokens d) then Inr d
     else insert_token \<lparr>k_id = fresh_uuid e d, k_hash = HashToken sha rawToken, k_name = ''dashboard-env'',
         k_user = userID, k_created = now e, k_expires = None, k_last_used = None, k_scopes = [],
         k_collections = []\<rparr> (drawn d))"

text \<open>
  The steps are not one transaction: a step that fails leaves what the steps before it wrote.
  \<open>rawBytes\<close> are the random bytes of a new token.
\<close>

definition after_store :: "store_err + db \<Rightarrow> machine \<Rightarrow> db \<Rightarrow> bool \<times> machine \<times> db" where
  "after_store r m d = (case r of Inl _ \<Rightarrow> (False, m, d) | Inr d' \<Rightarrow> (True, m, d'))"

definition ensureLocalUser :: "cli_lib \<Rightarrow> sha \<Rightarrow> string \<Rightarrow> env \<Rightarrow> string \<Rightarrow> machine \<Rightarrow> db \<Rightarrow> bool \<times> machine \<times> db" where
  "ensureLocalUser C sha rawBytes e tok m d =
    (case GetUserByName ''local'' d of
       Inr u \<Rightarrow> after_store (ensureDashboardToken sha e (u_id u) tok d) m d
     | Inl _ \<Rightarrow>
         (case CreateUser e \<lparr>cu_DisplayName = ''local'', cu_Email = None, cu_Type = ''agent'', cu_Status = ''active''\<rparr> d of
            Inl _ \<Rightarrow> (False, m, d)
          | Inr (u, d1) \<Rightarrow>
              (case CreateAPIToken sha rawBytes e \<lparr>ck_UserID = u_id u, ck_Name = ''local-embedded'',
                   ck_ExpiresAt = None, ck_Scopes = [], ck_CollectionIDs = []\<rparr> d1 of
                 Inl _ \<Rightarrow> (False, m, d1)
               | Inr ((_, rawToken), d2) \<Rightarrow>
                   (case SaveConfigValue (cl_print C) ''token'' rawToken m of
                      None \<Rightarrow> (False, m, d2)
                    | Some m' \<Rightarrow> after_store (ensureDashboardToken sha e (u_id u) tok d2) m' d2))))"

definition embedded :: "sha \<Rightarrow> backend" where
  "embedded sha = \<lparr>be_lookup = (\<lambda>d. Some (StoreTokenLookup_LookupByHash d)), be_sha = sha,
     be_nulls_first = True, be_pool = None\<rparr>"

definition cli_rpc :: "backend \<Rightarrow> mcp_server \<Rightarrow> env \<Rightarrow> string \<Rightarrow> db \<Rightarrow> (ctx \<Rightarrow> code + 'a) \<Rightarrow> cli_err + 'a" where
  "cli_rpc B S e meth d h =
    (case rpc_call B S e meth d h of
       Inr x \<Rightarrow> Inr x | Inl (Rpc k) \<Rightarrow> Inl (handleGRPCError (Status k)) | Inl _ \<Rightarrow> Inl (handleGRPCError NoStatus))"

definition ensureDefaultCollection :: "cli_lib \<Rightarrow> backend \<Rightarrow> mcp_server \<Rightarrow> env \<Rightarrow> db \<Rightarrow> cli_err + db" where
  "ensureDefaultCollection C B S e d =
    thenE (cli_rpc B S e ''ListCollections'' d (\<lambda>c. srv_ListCollections (cl_lib C) c None 0 NoToken d)) (\<lambda>(pg, _).
    if 0 < pg_TotalCount pg then Inr d
    else thenE (cli_rpc B S e ''CreateCollection'' d (\<lambda>c. srv_CreateCollection (cl_lib C) e c
        \<lparr>rn_Name = ''default'', rn_Description = [], rn_Platform = None, rn_RemoteId = None\<rparr> d)) (\<lambda>(_, d').
      Inr d'))"

text \<open>
  The token of the embedded server's own calls is read again behind \<open>ensureLocalUser\<close>, and never
  from the flag. The proxy token is the one an earlier connection of the process left.
\<close>

definition startEmbedded ::
  "cli_lib \<Rightarrow> sha \<Rightarrow> string \<Rightarrow> env \<Rightarrow> string \<Rightarrow> machine \<Rightarrow> db \<Rightarrow> bool \<times> machine \<times> db" where
  "startEmbedded C sha rawBytes e iapToken m d =
    (if \<not> m_writable m (resolveDBPath m) then (False, m, d)
     else case ensureLocalUser C sha rawBytes e (resolveToken m []) m d of
       (False, m', d') \<Rightarrow> (False, m', d')
     | (True, m', d') \<Rightarrow>
         (case ensureDefaultCollection C (embedded sha) (cli_creds (resolveToken m' []) iapToken) e d' of
            Inl _ \<Rightarrow> (False, m', d') | Inr d'' \<Rightarrow> (True, m', d'')))"

section \<open>Clients\<close>

datatype client = PassThrough string string string | Remote string bool | Embedded

definition startGitHubPassThrough :: "machine \<Rightarrow> string \<Rightarrow> client option" where
  "startGitHubPassThrough m repo =
    (let owner = takeWhile (\<lambda>c. c \<noteq> CHR ''/'') repo; name = tl (dropWhile (\<lambda>c. c \<noteq> CHR ''/'') repo);
         tok = resolveGitHubToken m in
     if CHR ''/'' \<notin> set repo \<or> owner = [] \<or> name = [] then None
     else if tok = [] then None
     else Some (PassThrough owner name tok))"

text \<open>
  The client, the proxy token of the process, and what the start of an embedded server changed;
  none where there is no client.
\<close>

definition newClient ::
  "cli_lib \<Rightarrow> sha \<Rightarrow> string \<Rightarrow> env \<Rightarrow> globalFlags \<Rightarrow> string \<Rightarrow> machine \<Rightarrow> db \<Rightarrow> (client \<times> string) option \<times> machine \<times> db" where
  "newClient C sha rawBytes e G iapToken m d =
    (let repo = m_env m ''FARMTABLE_GITHUB_REPO''; server = resolveServer m (gf_server G) in
     if repo \<noteq> [] then (map_option (\<lambda>c. (c, iapToken)) (startGitHubPassThrough m repo), m, d)
     else if server \<noteq> [] then
       (map_option (\<lambda>t. (Remote server (dialServer_insecure m server), t)) (configureIAPAuth m (gf_iapAudience G) server), m, d)
     else
       (case startEmbedded C sha rawBytes e iapToken m d of
          (True, m', d') \<Rightarrow> (Some (Embedded, iapToken), m', d') | (False, m', d') \<Rightarrow> (None, m', d')))"

definition no_server :: cli_err where "no_server = ExitError 8 ''SERVER_UNAVAILABLE''"

text \<open>
  A command: it reads its token, checks what it can before it connects, connects, and acts over the
  server it reached. What it does over the pass-through store is an argument. The database of a
  server by address is \<open>d\<close> with the backend \<open>B\<close>; its configuration is read again where it acts.
\<close>

definition run_command ::
  "cli_lib \<Rightarrow> sha \<Rightarrow> string \<Rightarrow> env \<Rightarrow> backend \<Rightarrow> globalFlags \<Rightarrow> (machine \<Rightarrow> cli_err + 'p)
   \<Rightarrow> (client \<Rightarrow> cli_err + 'a) \<Rightarrow> (backend \<Rightarrow> mcp_server \<Rightarrow> machine \<Rightarrow> 'p \<Rightarrow> db \<Rightarrow> cli_err + 'a \<times> db)
   \<Rightarrow> machine \<Rightarrow> db \<Rightarrow> (cli_err + 'a) \<times> machine \<times> db" where
  "run_command C sha rawBytes e B G before pass act m d =
    (let tok = resolveToken m (gf_token G) in
     case before m of Inl err \<Rightarrow> (Inl err, m, d)
     | Inr p \<Rightarrow>
         (case newClient C sha rawBytes e G [] m d of
            (None, m', d') \<Rightarrow> (Inl no_server, m', d')
          | (Some (PassThrough a b t, _), m', d') \<Rightarrow> (pass (PassThrough a b t), m', d')
          | (Some (Remote s i, iapToken), m', d') \<Rightarrow>
              (case act B (cli_creds tok iapToken) m' p d' of
                 Inl err \<Rightarrow> (Inl err, m', d') | Inr (x, d'') \<Rightarrow> (Inr x, m', d''))
          | (Some (Embedded, iapToken), m', d') \<Rightarrow>
              (case act (embedded sha) (cli_creds tok iapToken) m' p d' of
                 Inl err \<Rightarrow> (Inl err, m', d') | Inr (x, d'') \<Rightarrow> (Inr x, m', d''))))"

text \<open>The process ends with the status of its error.\<close>

definition exit_status :: "cli_err + 'a \<Rightarrow> nat" where
  "exit_status r = (case r of Inr _ \<Rightarrow> 0 | Inl (ExitError n _) \<Rightarrow> n)"

definition resolveCollectionFromServer ::
  "cli_lib \<Rightarrow> backend \<Rightarrow> mcp_server \<Rightarrow> env \<Rightarrow> machine \<Rightarrow> string \<Rightarrow> db \<Rightarrow> string" where
  "resolveCollectionFromServer C B S e m flagVal dl =
    (let named = cli_resolveCollection m flagVal in
     if named \<noteq> [] then named
     else case cli_rpc B S e ''ListCollections'' dl (\<lambda>c. srv_ListCollections (cl_lib C) c None 0 NoToken dl) of
         Inl _ \<Rightarrow> []
       | Inr (pg, _) \<Rightarrow> (case pg_Items pg of [co] \<Rightarrow> pc_Id co | _ \<Rightarrow> []))"

section \<open>The dashboard\<close>

text \<open>The dialect and the data source of the dashboard's store.\<close>

definition dashboardStoreOptions :: "machine \<Rightarrow> (string \<times> string) option" where
  "dashboardStoreOptions m =
    (let dbURL = m_env m ''FARMTABLE_DB_URL''; dbDialect = m_env m ''FARMTABLE_DB_DIALECT'';
         dbPassword = m_env m ''FARMTABLE_DB_PASSWORD'' in
     if dbURL \<noteq> [] then
       Some (if dbDialect = [] then ''postgres'' else dbDialect,
         if dbPassword \<noteq> [] \<and> \<not> contains dbURL ''password='' then dbURL @ '' password='' @ dbPassword else dbURL)
     else if m_writable m (resolveDBPath m) then Some (''sqlite3'', ''file:'' @ resolveDBPath m @ ''?_fk=1'')
     else None)"

text \<open>What the dashboard does before it listens: the token is read again, and there may be no lookup.\<close>

definition dashboard_start ::
  "cli_lib \<Rightarrow> sha \<Rightarrow> string \<Rightarrow> env \<Rightarrow> machine \<Rightarrow> db \<Rightarrow> bool \<times> machine \<times> db" where
  "dashboard_start C sha rawBytes e m d =
    (case dashboardStoreOptions m of None \<Rightarrow> (False, m, d)
     | Some (dialect, _) \<Rightarrow>
    (let open_access = (m_env m ''FARMTABLE_OPEN_ACCESS'' = ''1'');
         B = \<lparr>be_lookup = (\<lambda>d. if open_access then None else Some (StoreTokenLookup_LookupByHash d)), be_sha = sha,
              be_nulls_first = (dialect \<noteq> ''postgres''), be_pool = None\<rparr> in
     case ensureLocalUser C sha rawBytes e (resolveToken m []) m d of
       (False, m', d') \<Rightarrow> (False, m', d')
     | (True, m', d') \<Rightarrow>
         (case ensureDefaultCollection C B (cli_creds (resolveToken m' []) []) e d' of
            Inl _ \<Rightarrow> (False, m', d') | Inr d'' \<Rightarrow> (True, m', d''))))"

end
