(* ===== verification/FT_CliTasks.thy ===== *)
theory FT_CliTasks
  imports FT_CliConnect
begin

text \<open>
  The output of the command line (\<open>internal/cli/output.go\<close>) and the commands on tasks
  (\<open>internal/cli/task.go\<close>, \<open>enums.go\<close>). A command acts over the service with the credentials of its
  session; the listing that finds the collection may see another database than the call. What it
  prints is a list of JSON values, lines and rows of a table before they are laid out.
\<close>

datatype out = Json jval | JsonLine jval | Line string | Row "string list" | Note string

type_synonym outs = "out list"

section \<open>Output\<close>

definition dash :: string where "dash = [CHR 0xE2, CHR 0x80, CHR 0x94]"
definition ellipsis :: string where "ellipsis = [CHR 0xE2, CHR 0x80, CHR 0xA6]"

definition truncate_text :: "string \<Rightarrow> nat \<Rightarrow> string" where
  "truncate_text s mx = (if length s \<le> mx then s else take (mx - 1) s @ ellipsis)"

fun join_with :: "string \<Rightarrow> string list \<Rightarrow> string" where
  "join_with sep [] = []"
| "join_with sep [x] = x"
| "join_with sep (x # y # xs) = x @ sep @ join_with sep (y # xs)"

definition short_id :: "string \<Rightarrow> string" where "short_id i = take 8 i"

definition or_dash :: "string option \<Rightarrow> string" where
  "or_dash v = (case v of None \<Rightarrow> dash | Some s \<Rightarrow> if s = [] then dash else s)"

definition priority_cell :: "int option \<Rightarrow> string" where
  "priority_cell p = (case p of None \<Rightarrow> dash | Some n \<Rightarrow> if n = 0 then dash else name_of priorityNames n)"

definition userTypeNames :: "(int \<times> string) list" where
  "userTypeNames = [(1, ''HUMAN''), (2, ''AGENT''), (3, ''SERVICE_ACCOUNT'')]"

definition cli_userToMap :: "pb_user option \<Rightarrow> jval" where
  "cli_userToMap u =
    (case u of None \<Rightarrow> JNull
     | Some v \<Rightarrow> JMap ([(''id'', JStr (pu_Id v)), (''name'', JStr (pu_Name v)),
           (''type'', JStr (name_of userTypeNames (pu_Type v)))]
         @ (case pu_Email v of None \<Rightarrow> [] | Some s \<Rightarrow> if s = [] then [] else [(''email'', JStr s)])))"

text \<open>The service names users of tasks, comments and changes by their identifier only.\<close>

definition user_ref :: "string \<Rightarrow> pb_user option" where
  "user_ref uid = Some \<lparr>pu_Id = uid, pu_Name = [], pu_Type = 0, pu_Status = 0, pu_Email = None\<rparr>"

definition user_cell :: "pb_user option \<Rightarrow> string" where
  "user_cell u = (case u of None \<Rightarrow> dash | Some v \<Rightarrow> if pu_Name v = [] then pu_Id v else pu_Name v)"

definition identityStatusName :: "int \<Rightarrow> string" where
  "identityStatusName s = (if s = 1 then ''ACTIVE'' else if s = 2 then ''SUSPENDED''
     else if s = 3 then ''ARCHIVED'' else ''UNKNOWN'')"

definition userFullToMap :: "pb_user \<Rightarrow> jval" where
  "userFullToMap u = JMap
    [(''id'', JStr (pu_Id u)), (''name'', JStr (pu_Name u)), (''email'', nilIfEmpty (pu_Email u)),
     (''type'', JStr (name_of userTypeNames (pu_Type u))), (''status'', JStr (identityStatusName (pu_Status u)))]"

definition cli_codeContextToMap :: "pb_code_context option \<Rightarrow> jval" where
  "cli_codeContextToMap cc =
    (case cc of None \<Rightarrow> JNull
     | Some x \<Rightarrow> JMap
        [(''repo'', nilIfEmpty (pcc_Repo x)), (''branch'', nilIfEmpty (pcc_Branch x)),
         (''ci_status'', case pcc_CiStatus x of None \<Rightarrow> JNull
            | Some n \<Rightarrow> if n = 0 then JNull else JStr (name_of ci_names n)),
         (''commit_shas'', JNull),
         (''pull_requests'', if pcc_PullRequests x = [] then JNull
            else JMaps (map (\<lambda>pr. [(''id'', JStr (pq_Id pr)), (''url'', JStr (pq_Url pr)),
                   (''status'', JStr (name_of pr_status_names (pq_Status pr)))]) (pcc_PullRequests x)))])"

text \<open>The service sets no creator and no custom fields.\<close>

definition cli_taskToMap :: "mcp_lib \<Rightarrow> pb_task \<Rightarrow> bool \<Rightarrow> jmap" where
  "cli_taskToMap M t short =
    [(''id'', JStr (pt_Id t)), (''name'', JStr (pt_Name t)),
     (''phase'', JStr (name_of phaseNames (pt_Phase t))),
     (''stage'', JStr (name_of stageNames (pt_Stage t))),
     (''priority'', nilIfZeroPriority (pt_Priority t)), (''type'', nilIfEmpty (pt_Type t)),
     (''assignees'', JList (map (\<lambda>u. cli_userToMap (user_ref u)) (pt_Assignees t))),
     (''collection_id'', JStr (pt_CollectionId t)), (''remote_id'', nilIfEmpty (pt_RemoteId t)),
     (''remote_url'', nilIfEmpty (pt_RemoteUrl t)),
     (''updated_at'', formatTimestamp M (Some (pt_UpdatedAt t)))]
    @ (if short then [] else
    [(''description'', nilIfEmpty (pt_Description t)),
     (''acceptance_criteria'', nilIfEmpty (pt_Acceptance t)),
     (''native_status'', nilIfEmpty (pt_NativeStatus t)), (''creator'', cli_userToMap None),
     (''start_date'', formatTimestamp M (pt_StartDate t)), (''due_date'', formatTimestamp M (pt_DueDate t)),
     (''parent_task_id'', nilIfEmpty (pt_ParentTaskId t)),
     (''relationships'', relationshipsToList (pt_Relationships t)),
     (''labels'', if pt_Labels t = [] then JNull else JStrs (pt_Labels t)), (''custom_fields'', JList []),
     (''code_context'', cli_codeContextToMap (pt_CodeContext t)), (''remote_data'', JNull),
     (''platform'', JStr (name_of platformNames (pt_Platform t))),
     (''created_at'', formatTimestamp M (Some (pt_CreatedAt t))),
     (''closed_at'', formatTimestamp M (pt_ClosedAt t)), (''version'', JStr (pt_Version t))])"

definition cli_commentToMap :: "mcp_lib \<Rightarrow> pb_comment \<Rightarrow> jval" where
  "cli_commentToMap M c = JMap
    [(''id'', JStr (pcm_Id c)), (''task_id'', JStr (pcm_TaskId c)),
     (''author'', cli_userToMap (user_ref (pcm_Author c))), (''body'', JStr (pcm_Body c)),
     (''created_at'', formatTimestamp M (Some (pcm_CreatedAt c))),
     (''updated_at'', formatTimestamp M (Some (pcm_UpdatedAt c)))]"

definition cli_changeToMap :: "mcp_lib \<Rightarrow> pb_change \<Rightarrow> jval" where
  "cli_changeToMap M c =
    (let v = (\<lambda>x. case x of None \<Rightarrow> JNull | Some r \<Rightarrow> JStr (ml_text M r)) in JMap
    [(''id'', JStr (pch_Id c)), (''task_id'', JStr (pch_TaskId c)), (''field'', JStr (pch_Field c)),
     (''old_value'', v (pch_OldValue c)), (''new_value'', v (pch_NewValue c)),
     (''changed_by'', cli_userToMap (user_ref (pch_ChangedBy c))),
     (''changed_at'', formatTimestamp M (Some (pch_ChangedAt c))), (''reason'', JNull)])"

text \<open>A slice that never was appended to prints as \<open>null\<close>.\<close>

definition items_json :: "jval list \<Rightarrow> jval" where
  "items_json vs = (if vs = [] then JNull else JList vs)"

definition printList :: "jval list \<Rightarrow> string \<Rightarrow> 'a page \<Rightarrow> outs" where
  "printList vs nextCursor pg =
    [Json (JMap [(''items'', items_json vs), (''next_cursor'', nilIfEmpty (Some nextCursor)),
       (''has_more'', JBool (pg_HasMore pg)), (''total_count'', JNum (pg_TotalCount pg))])]"

text \<open>The four forms of a listing.\<close>

definition print_page ::
  "string \<Rightarrow> ('a \<Rightarrow> string) \<Rightarrow> ('a \<Rightarrow> jval) \<Rightarrow> outs \<Rightarrow> string \<Rightarrow> 'a page \<Rightarrow> outs" where
  "print_page output idf to_map table nextCursor pg =
    (if output = ''quiet'' then map (\<lambda>x. Line (idf x)) (pg_Items pg)
     else if output = ''jsonl'' then map (\<lambda>x. JsonLine (to_map x)) (pg_Items pg)
     else if output = ''table'' then table
     else printList (map to_map (pg_Items pg)) nextCursor pg)"

definition next_text :: "('c \<Rightarrow> string) \<Rightarrow> 'c option \<Rightarrow> string" where
  "next_text f n = (case n of None \<Rightarrow> [] | Some c \<Rightarrow> f c)"

definition showing :: "nat \<Rightarrow> int \<Rightarrow> outs" where
  "showing n all = (if 0 < all
     then [Note (nl # ''Showing '' @ itoa (int n) @ '' of '' @ itoa all @ '' tasks. Use --cursor to page.'')] else [])"

definition task_row :: "pb_task \<Rightarrow> out" where
  "task_row t = Row [short_id (pt_Id t), truncate_text (pt_Name t) 45, name_of phaseNames (pt_Phase t),
     name_of stageNames (pt_Stage t), priority_cell (pt_Priority t),
     truncate_text (case pt_Assignees t of [] \<Rightarrow> dash | u # _ \<Rightarrow> user_cell (user_ref u)) 15,
     or_dash (pt_RemoteId t)]"

definition printTaskTable :: "pb_task list \<Rightarrow> int \<Rightarrow> outs" where
  "printTaskTable ts totalCount =
    Row [''ID'', ''NAME'', ''PHASE'', ''STAGE'', ''PRI'', ''ASSIGNEE'', ''REMOTE''] # map task_row ts
    @ showing (length ts) totalCount"

definition print_task :: "mcp_lib \<Rightarrow> string \<Rightarrow> pb_task \<Rightarrow> outs" where
  "print_task M output t =
    (if output = ''quiet'' then [Line (pt_Id t)] else [Json (JMap (cli_taskToMap M t False))])"

section \<open>Flags\<close>

definition cli_parsePhase :: "unicode \<Rightarrow> string \<Rightarrow> cli_err + int" where
  "cli_parsePhase U s =
    (let u = upper U s in
     if u = ''OPEN'' then Inr 1 else if u = ''IN_PROGRESS'' then Inr 2
     else if u = ''CLOSED'' then Inr 4 else Inl invalid)"

definition cli_parseStage :: "unicode \<Rightarrow> string \<Rightarrow> cli_err + int" where
  "cli_parseStage U s = optE invalid (map_of stageValues (lower U s))"

definition cli_parsePriority :: "unicode \<Rightarrow> string \<Rightarrow> cli_err + int" where
  "cli_parsePriority U s = optE invalid (map_of priorityValues (upper U s))"

definition platformValues :: "(string \<times> int) list" where
  "platformValues = [(''farmtable'', 1), (''github'', 2), (''linear'', 3), (''jira'', 4), (''asana'', 5), (''beads'', 6)]"

definition parsePlatform :: "unicode \<Rightarrow> string \<Rightarrow> cli_err + int" where
  "parsePlatform U s = optE invalid (map_of platformValues (lower U s))"

definition ciStatusValues :: "(string \<times> int) list" where
  "ciStatusValues = [(''pending'', 1), (''running'', 2), (''passed'', 3), (''failed'', 4)]"

definition prStatusValues :: "(string \<times> int) list" where
  "prStatusValues = [(''open'', 1), (''merged'', 2), (''closed'', 3)]"

definition cli_parseDate :: "mcp_lib \<Rightarrow> string \<Rightarrow> cli_err + time" where
  "cli_parseDate M s = optE invalid
    (case List.map_filter (\<lambda>layout. ml_time M layout s) date_layouts of [] \<Rightarrow> None | t # _ \<Rightarrow> Some t)"

text \<open>A flag that is read when it is not empty.\<close>

definition flag_opt :: "(string \<Rightarrow> cli_err + 'a) \<Rightarrow> string \<Rightarrow> cli_err + 'a option" where
  "flag_opt f v = (if v = [] then Inr None else thenE (f v) (\<lambda>x. Inr (Some x)))"

definition table_flag :: "(string \<times> int) list \<Rightarrow> string \<Rightarrow> cli_err + int" where
  "table_flag tab v = optE invalid (map_of tab v)"

definition text_flag :: "machine \<Rightarrow> string \<Rightarrow> cli_err + string option \<times> machine" where
  "text_flag m v = (if v = [] then Inr (None, m)
     else thenE (optE (ExitError 1 ''INTERNAL_ERROR'') (readInputValue m v)) (\<lambda>(s, m'). Inr (Some s, m')))"

section \<open>Reading commands\<close>

definition cli_task_get ::
  "cli_lib \<Rightarrow> backend \<Rightarrow> mcp_server \<Rightarrow> env \<Rightarrow> string \<Rightarrow> string \<Rightarrow> bool \<Rightarrow> bool \<Rightarrow> db \<Rightarrow> cli_err + outs" where
  "cli_task_get C B S e output i withComments withChanges d =
    (let M = cl_mcp C in
     thenE (cli_rpc B S e ''GetTask'' d (\<lambda>c. srv_GetTask (cl_lib C) e c i withComments withChanges d)) (\<lambda>(t, cs, hs).
     Inr (if output = ''quiet'' then [Line (pt_Id t)]
          else if output = ''table'' then [Json (JMap (cli_taskToMap M t False))]
          else [Json (JMap (cli_taskToMap M t False
            @ (if withComments \<and> cs \<noteq> [] then [(''comments'', JList (map (cli_commentToMap M) cs))] else [])
            @ (if withChanges \<and> hs \<noteq> [] then [(''changes'', JList (map (cli_changeToMap M) hs))] else [])))])))"

record task_list_flags =
  fl_phase :: string
  fl_stages :: "string list"
  fl_assignee :: string
  fl_priority :: string
  fl_type :: string
  fl_labels :: "string list"
  fl_parent :: string
  fl_sort :: string
  fl_order :: string
  fl_full :: bool
  fl_limit :: int
  fl_cursor :: string

definition cli_list_request :: "mcp_lib \<Rightarrow> string \<Rightarrow> task_list_flags \<Rightarrow> cli_err + ListTasksRequest" where
  "cli_list_request M coll f =
    (let U = tables (ml_lib M) in
     thenE (flag_opt (cli_parsePhase U) (fl_phase f)) (\<lambda>phase.
     thenE (mapE (cli_parseStage U) (fl_stages f)) (\<lambda>stages.
     thenE (flag_opt (cli_parsePriority U) (fl_priority f)) (\<lambda>priority.
     thenE (flag_opt (table_flag sortFieldValues) (fl_sort f)) (\<lambda>sf.
     thenE (flag_opt (table_flag sortOrderValues) (fl_order f)) (\<lambda>so.
     Inr \<lparr>rl_CollectionId = some_str coll, rl_Phase = phase, rl_Stages = stages,
       rl_Assignee = some_str (fl_assignee f), rl_Priority = priority, rl_Type = some_str (fl_type f),
       rl_Labels = fl_labels f, rl_ParentTaskId = some_str (fl_parent f), rl_SortField = none_or sf 0,
       rl_SortOrder = none_or so 0, rl_PageSize = fl_limit f, rl_PageToken = ml_cursor M (fl_cursor f)\<rparr>))))))"

definition cli_task_list ::
  "cli_lib \<Rightarrow> backend \<Rightarrow> mcp_server \<Rightarrow> env \<Rightarrow> machine \<Rightarrow> string \<Rightarrow> string \<Rightarrow> task_list_flags \<Rightarrow> db \<Rightarrow> db \<Rightarrow> cli_err + outs" where
  "cli_task_list C B S e m collFlag output f dl d =
    (let M = cl_mcp C in
     thenE (cli_list_request M (resolveCollectionFromServer C B S e m collFlag dl) f) (\<lambda>r.
     thenE (cli_rpc B S e ''ListTasks'' d (\<lambda>c. srv_ListTasks (cl_lib C) e (be_nulls_first B) c r d)) (\<lambda>(pg, nxt).
     Inr (print_page output pt_Id (\<lambda>t. JMap (cli_taskToMap M t (\<not> fl_full f)))
       (printTaskTable (pg_Items pg) (pg_TotalCount pg)) (next_text (ml_token M) nxt) pg))))"

section \<open>Writing commands\<close>

record task_create_flags =
  fc_description :: string
  fc_acceptance :: string
  fc_stage :: string
  fc_priority :: string
  fc_type :: string
  fc_assignees :: "string list"
  fc_labels :: "string list"
  fc_parent :: string
  fc_due :: string
  fc_start :: string
  fc_blocks :: "string list"
  fc_blockedBy :: "string list"
  fc_repo :: string
  fc_branch :: string

definition cli_create_request :: "mcp_lib \<Rightarrow> machine \<Rightarrow> string \<Rightarrow> string \<Rightarrow> task_create_flags \<Rightarrow> cli_err + CreateTaskRequest" where
  "cli_create_request M m coll name f =
    (let U = tables (ml_lib M) in
     thenE (checkE (coll \<noteq> []) invalid) (\<lambda>_.
     thenE (text_flag m (fc_description f)) (\<lambda>(desc, m1).
     thenE (text_flag m1 (fc_acceptance f)) (\<lambda>(acceptance, _).
     thenE (flag_opt (cli_parseStage U) (fc_stage f)) (\<lambda>stage.
     thenE (flag_opt (cli_parsePriority U) (fc_priority f)) (\<lambda>priority.
     thenE (flag_opt (cli_parseDate M) (fc_due f)) (\<lambda>due.
     thenE (flag_opt (cli_parseDate M) (fc_start f)) (\<lambda>start_date.
     Inr \<lparr>rc_Name = name, rc_CollectionId = coll, rc_Description = none_or desc [],
       rc_AcceptanceCriteria = acceptance, rc_Stage = stage, rc_Priority = priority, rc_Type = fc_type f,
       rc_AssigneeIds = fc_assignees f, rc_Labels = fc_labels f, rc_ParentTaskId = some_str (fc_parent f),
       rc_DueDate = due, rc_StartDate = start_date, rc_HoldReason = None, rc_Rank = None,
       rc_BlocksTaskIds = fc_blocks f, rc_BlockedByTaskIds = fc_blockedBy f, rc_Repo = fc_repo f,
       rc_Branch = fc_branch f\<rparr>))))))))"

definition cli_task_create ::
  "cli_lib \<Rightarrow> backend \<Rightarrow> mcp_server \<Rightarrow> env \<Rightarrow> machine \<Rightarrow> string \<Rightarrow> string \<Rightarrow> string \<Rightarrow> task_create_flags \<Rightarrow> db \<Rightarrow> db
     \<Rightarrow> cli_err + outs \<times> db" where
  "cli_task_create C B S e m collFlag output name f dl d =
    thenE (cli_create_request (cl_mcp C) m (resolveCollectionFromServer C B S e m collFlag dl) name f) (\<lambda>r.
    thenE (cli_rpc B S e ''CreateTask'' d (\<lambda>c. srv_CreateTask (cl_lib C) e c r d)) (\<lambda>(t, _, d').
    Inr (print_task (cl_mcp C) output t, d')))"

record insert_flags =
  fi_steps :: "string list"
  fi_type :: string
  fi_priority :: string
  fi_labels :: "string list"
  fi_reason :: string

definition print_inserted :: "mcp_lib \<Rightarrow> string \<Rightarrow> pb_task list \<Rightarrow> pb_task \<Rightarrow> outs" where
  "print_inserted M output ts anchor =
    (if output = ''quiet'' then map (\<lambda>t. Line (pt_Id t)) ts
     else if output = ''jsonl'' then map (\<lambda>t. JsonLine (JMap (cli_taskToMap M t False))) ts
     else if output = ''table'' then printTaskTable ts (int (length ts))
     else [Json (JMap [(''inserted_tasks'', JMaps (map (\<lambda>t. cli_taskToMap M t False) ts)),
       (''anchor_task'', JMap (cli_taskToMap M anchor False))])])"

text \<open>That there is a step is checked before the command connects.\<close>

definition cli_insert_before :: "insert_flags \<Rightarrow> cli_err + unit" where
  "cli_insert_before f = checkE (fi_steps f \<noteq> []) invalid"

definition cli_task_insert_after ::
  "cli_lib \<Rightarrow> backend \<Rightarrow> mcp_server \<Rightarrow> env \<Rightarrow> machine \<Rightarrow> string \<Rightarrow> string \<Rightarrow> string \<Rightarrow> insert_flags \<Rightarrow> db \<Rightarrow> db
     \<Rightarrow> cli_err + outs \<times> db" where
  "cli_task_insert_after C B S e m collFlag output anchor f dl d =
    (let coll = resolveCollectionFromServer C B S e m collFlag dl in
     thenE (checkE (coll \<noteq> []) invalid) (\<lambda>_.
     thenE (cli_parsePriority (tables (cl_lib C)) (fi_priority f)) (\<lambda>pr.
     thenE (cli_rpc B S e ''InsertTasksAfter'' d (\<lambda>c. srv_InsertTasksAfter (cl_lib C) e c
       \<lparr>ri_AnchorTaskId = anchor,
         ri_Steps = map (\<lambda>s. \<lparr>ns_Name = s, ns_Description = [], ns_Type = fi_type f, ns_Priority = Some pr,
           ns_Labels = fi_labels f\<rparr>) (fi_steps f),
         ri_CollectionId = coll, ri_Reason = fi_reason f\<rparr> d)) (\<lambda>((ts, anch), _, d').
     Inr (print_inserted (cl_mcp C) output ts anch, d')))))"

text \<open>Flags that count as given when they are set, even to nothing, are options.\<close>

record task_update_flags =
  fu_name :: string
  fu_description :: string
  fu_acceptance :: string
  fu_stage :: string
  fu_priority :: string
  fu_type :: string
  fu_assignees :: "string list"
  fu_due :: "string option"
  fu_clearDue :: bool
  fu_start :: "string option"
  fu_clearStart :: bool
  fu_parent :: "string option"
  fu_addLabels :: "string list"
  fu_removeLabels :: "string list"
  fu_addBlocks :: "string list"
  fu_addBlockedBy :: "string list"
  fu_removeRels :: "string list"
  fu_repo :: string
  fu_clearRepo :: bool
  fu_branch :: string
  fu_clearBranch :: bool
  fu_addPRURL :: string
  fu_addPRStatus :: string
  fu_ci :: string
  fu_clearCI :: bool
  fu_remoteId :: "string option"
  fu_remoteUrl :: "string option"
  fu_reason :: string
  fu_version :: string

definition is_none :: "unicode \<Rightarrow> string \<Rightarrow> bool" where
  "is_none U v \<longleftrightarrow> lower U v = ''none''"

text \<open>A date flag of an update: the new date, and whether the date is cleared.\<close>

definition date_flag :: "mcp_lib \<Rightarrow> bool \<Rightarrow> string option \<Rightarrow> cli_err + time option \<times> bool" where
  "date_flag M clr v =
    (if clr then Inr (None, True)
     else case v of None \<Rightarrow> Inr (None, False)
       | Some s \<Rightarrow> if is_none (tables (ml_lib M)) s then Inr (None, True)
           else thenE (cli_parseDate M s) (\<lambda>t. Inr (Some t, False)))"

definition pr_flags :: "unicode \<Rightarrow> string \<Rightarrow> string \<Rightarrow> cli_err + pb_pull_request list" where
  "pr_flags U url status =
    (if url \<noteq> [] \<and> status \<noteq> [] then
       thenE (table_flag prStatusValues (lower U status)) (\<lambda>n. Inr [\<lparr>pq_Id = [], pq_Url = url, pq_Status = n\<rparr>])
     else if url \<noteq> [] \<or> status \<noteq> [] then Inl invalid
     else Inr [])"

definition ci_flag :: "unicode \<Rightarrow> bool \<Rightarrow> string \<Rightarrow> cli_err + int option" where
  "ci_flag U clr v = (if clr then Inr (Some 0) else flag_opt (\<lambda>s. table_flag ciStatusValues (lower U s)) v)"

definition clearable :: "bool \<Rightarrow> string \<Rightarrow> string option" where
  "clearable clr v = (if clr then Some [] else some_str v)"

definition cli_update_request :: "mcp_lib \<Rightarrow> machine \<Rightarrow> string \<Rightarrow> task_update_flags \<Rightarrow> cli_err + UpdateTaskRequest" where
  "cli_update_request M m i f =
    (let U = tables (ml_lib M);
         none_assignee = (case fu_assignees f of [a] \<Rightarrow> is_none U a | _ \<Rightarrow> False);
         none_parent = (case fu_parent f of None \<Rightarrow> False | Some p \<Rightarrow> is_none U p) in
     thenE (text_flag m (fu_description f)) (\<lambda>(desc, m1).
     thenE (text_flag m1 (fu_acceptance f)) (\<lambda>(acceptance, _).
     thenE (flag_opt (cli_parseStage U) (fu_stage f)) (\<lambda>stage.
     thenE (flag_opt (cli_parsePriority U) (fu_priority f)) (\<lambda>priority.
     thenE (date_flag M (fu_clearDue f) (fu_due f)) (\<lambda>(due, clearDue).
     thenE (date_flag M (fu_clearStart f) (fu_start f)) (\<lambda>(start_date, clearStart).
     thenE (pr_flags U (fu_addPRURL f) (fu_addPRStatus f)) (\<lambda>prs.
     thenE (ci_flag U (fu_clearCI f) (fu_ci f)) (\<lambda>ci.
     Inr \<lparr>ru_Id = i, ru_Name = some_str (fu_name f), ru_Description = desc,
       ru_AcceptanceCriteria = acceptance, ru_Stage = stage, ru_Priority = priority,
       ru_Type = some_str (fu_type f), ru_AssigneeIds = (if none_assignee then [] else fu_assignees f),
       ru_ClearAssignees = none_assignee, ru_DueDate = due, ru_ClearDueDate = clearDue,
       ru_StartDate = start_date, ru_ClearStartDate = clearStart, ru_HoldReason = None,
       ru_ClearHoldReason = False, ru_Rank = None, ru_ClearRank = False,
       ru_ParentTaskId = (if none_parent then None else fu_parent f), ru_ClearParent = none_parent,
       ru_AddLabels = fu_addLabels f, ru_RemoveLabels = fu_removeLabels f, ru_AddBlocks = fu_addBlocks f,
       ru_AddBlockedBy = fu_addBlockedBy f, ru_RemoveRelationships = fu_removeRels f,
       ru_Repo = clearable (fu_clearRepo f) (fu_repo f), ru_Branch = clearable (fu_clearBranch f) (fu_branch f),
       ru_AddPullRequests = prs, ru_CiStatus = ci, ru_RemoteId = fu_remoteId f, ru_RemoteUrl = fu_remoteUrl f,
       ru_Reason = some_str (fu_reason f), ru_Version = some_str (fu_version f)\<rparr>)))))))))"

definition cli_task_update ::
  "cli_lib \<Rightarrow> backend \<Rightarrow> mcp_server \<Rightarrow> env \<Rightarrow> machine \<Rightarrow> string \<Rightarrow> string \<Rightarrow> task_update_flags
     \<Rightarrow> db \<Rightarrow> db \<times> db \<Rightarrow> db \<times> db \<Rightarrow> cli_err + outs \<times> db" where
  "cli_task_update C B S e m output i f d0 try1 try2 =
    thenE (cli_update_request (cl_mcp C) m i f) (\<lambda>r.
    thenE (cli_rpc B S e ''UpdateTask'' d0 (\<lambda>c. srv_UpdateTask (cl_lib C) e c r d0 try1 try2)) (\<lambda>(t, _, d').
    Inr (print_task (cl_mcp C) output t, d')))"

text \<open>The stage and the reason of a claim are sent and not read by the service.\<close>

definition cli_task_claim ::
  "cli_lib \<Rightarrow> backend \<Rightarrow> mcp_server \<Rightarrow> env \<Rightarrow> string \<Rightarrow> string \<Rightarrow> string \<Rightarrow> string \<Rightarrow> string
     \<Rightarrow> db \<Rightarrow> db \<times> db \<times> db \<Rightarrow> db \<times> db \<times> db \<Rightarrow> cli_err + outs \<times> db" where
  "cli_task_claim C B S e output i assignee stage version d0 try1 try2 =
    thenE (flag_opt (cli_parseStage (tables (cl_lib C))) stage) (\<lambda>_.
    thenE (cli_rpc B S e ''ClaimTask'' d0 (\<lambda>c. srv_ClaimTask (cl_lib C) e c
       \<lparr>rk_Id = i, rk_Version = some_str version, rk_AssigneeId = some_str assignee\<rparr> d0 try1 try2)) (\<lambda>(t, _, d').
    Inr (if output = ''quiet'' then [Line (pt_Id t)]
         else [Json (JMap (cli_taskToMap (cl_mcp C) t True
           @ [(''claimed_at'', formatTimestamp (cl_mcp C) (Some (now e)))]))], d')))"

definition release_request :: "string \<Rightarrow> int \<Rightarrow> string \<Rightarrow> UpdateTaskRequest" where
  "release_request i st reason =
    \<lparr>ru_Id = i, ru_Name = None, ru_Description = None, ru_AcceptanceCriteria = None, ru_Stage = Some st,
     ru_Priority = None, ru_Type = None, ru_AssigneeIds = [], ru_ClearAssignees = True, ru_DueDate = None,
     ru_ClearDueDate = False, ru_StartDate = None, ru_ClearStartDate = False, ru_HoldReason = None,
     ru_ClearHoldReason = False, ru_Rank = None, ru_ClearRank = False, ru_ParentTaskId = None,
     ru_ClearParent = False, ru_AddLabels = [], ru_RemoveLabels = [], ru_AddBlocks = [], ru_AddBlockedBy = [],
     ru_RemoveRelationships = [], ru_Repo = None, ru_Branch = None, ru_AddPullRequests = [], ru_CiStatus = None,
     ru_RemoteId = None, ru_RemoteUrl = None, ru_Reason = some_str reason, ru_Version = None\<rparr>"

definition cli_task_release ::
  "cli_lib \<Rightarrow> backend \<Rightarrow> mcp_server \<Rightarrow> env \<Rightarrow> string \<Rightarrow> string \<Rightarrow> string \<Rightarrow> string
     \<Rightarrow> db \<Rightarrow> db \<times> db \<Rightarrow> db \<times> db \<Rightarrow> cli_err + outs \<times> db" where
  "cli_task_release C B S e output i stage reason d0 try1 try2 =
    thenE (cli_parseStage (tables (cl_lib C)) (if stage \<noteq> [] then stage else ''accepted'')) (\<lambda>st.
    thenE (cli_rpc B S e ''UpdateTask'' d0 (\<lambda>c. srv_UpdateTask (cl_lib C) e c (release_request i st reason) d0 try1 try2))
      (\<lambda>(t, _, d').
    Inr (print_task (cl_mcp C) output t, d')))"

text \<open>The reason and the original of a duplicate are sent and not read by the service.\<close>

definition cli_task_close ::
  "cli_lib \<Rightarrow> backend \<Rightarrow> mcp_server \<Rightarrow> env \<Rightarrow> string \<Rightarrow> string \<Rightarrow> string \<Rightarrow> string
     \<Rightarrow> db \<Rightarrow> db \<times> db \<Rightarrow> db \<times> db \<Rightarrow> cli_err + outs \<times> db" where
  "cli_task_close C B S e output i stage version d0 try1 try2 =
    thenE (flag_opt (cli_parseStage (tables (cl_lib C))) stage) (\<lambda>st.
    thenE (cli_rpc B S e ''CloseTask'' d0 (\<lambda>c. srv_CloseTask (cl_lib C) e c
       \<lparr>rx_Id = i, rx_Stage = st, rx_Version = some_str version\<rparr> d0 try1 try2)) (\<lambda>(t, _, d').
    Inr (print_task (cl_mcp C) output t, d')))"

end
