(* ===== verification/FT_CliGraph.thy ===== *)
theory FT_CliGraph
  imports FT_CliTasks FT_Watch
begin

text \<open>
  The graph commands of the command line (\<open>internal/cli/graph.go\<close>) and the command that watches
  tasks (\<open>watch.go\<close>). What a watch prints is a function of the events its stream delivers and of
  how the stream ends.
\<close>

section \<open>Ready and blocked tasks\<close>

definition availabilityReasonsToStrings :: "int list \<Rightarrow> string list" where
  "availabilityReasonsToStrings rs = List.map_filter (map_of availabilityReasonNames) rs"

definition cli_availabilityToMap :: "pb_availability \<Rightarrow> jval" where
  "cli_availabilityToMap a = JMap [(''available'', JBool (pav_Available a)),
     (''reasons'', JStrs (availabilityReasonsToStrings (pav_Reasons a)))]"

definition readyTaskToMap :: "mcp_lib \<Rightarrow> pb_task \<times> int \<Rightarrow> jval" where
  "readyTaskToMap M = (\<lambda>(t, resolved). JMap
    [(''id'', JStr (pt_Id t)), (''name'', JStr (pt_Name t)),
     (''phase'', JStr (name_of phaseNames (pt_Phase t))), (''stage'', JStr (name_of stageNames (pt_Stage t))),
     (''priority'', nilIfZeroPriority (pt_Priority t)),
     (''assignees'', JList (map (\<lambda>u. cli_userToMap (user_ref u)) (pt_Assignees t))),
     (''collection_id'', JStr (pt_CollectionId t)), (''blockers_resolved'', JNum resolved),
     (''updated_at'', formatTimestamp M (Some (pt_UpdatedAt t))),
     (''availability'', cli_availabilityToMap (pt_Availability t))])"

definition avail_cell :: "pb_availability \<Rightarrow> string" where
  "avail_cell a =
    (let rs = availabilityReasonsToStrings (pav_Reasons a) in
     if pav_Available a then ''yes'' else if rs \<noteq> [] then join_with '','' rs else ''no'')"

definition printReadyTable :: "(pb_task \<times> int) list \<Rightarrow> int \<Rightarrow> outs" where
  "printReadyTable items totalCount =
    Row [''ID'', ''NAME'', ''STAGE'', ''PRI'', ''AVAIL'', ''BLOCKERS_RESOLVED'']
    # map (\<lambda>(t, resolved). Row [short_id (pt_Id t), truncate_text (pt_Name t) 45,
        name_of stageNames (pt_Stage t), priority_cell (pt_Priority t), avail_cell (pt_Availability t),
        itoa resolved]) items
    @ showing (length items) totalCount"

definition nothing_ready :: "bool \<Rightarrow> out" where
  "nothing_ready includeUnblocked = Note (if includeUnblocked
     then ''No tasks are ready. Tasks may be unavailable due to: triage, terminal, held, blocked_by_dependency, or future_start_date. Use JSON output (-o json) to see per-task availability reasons.''
     else ''No available accepted tasks. Try --include-unblocked to also show unblocked open tasks that are not currently claimable.'')"

definition cli_ready ::
  "cli_lib \<Rightarrow> backend \<Rightarrow> mcp_server \<Rightarrow> env \<Rightarrow> machine \<Rightarrow> string \<Rightarrow> string \<Rightarrow> string \<Rightarrow> string \<Rightarrow> bool \<Rightarrow> int \<Rightarrow> string
     \<Rightarrow> db \<Rightarrow> db \<Rightarrow> cli_err + outs" where
  "cli_ready C B S e m collFlag output assignee minPriority includeUnblocked limit cursor dl d =
    (let coll = resolveCollectionFromServer C B S e m collFlag dl in
     thenE (flag_opt (cli_parsePriority (tables (cl_lib C))) minPriority) (\<lambda>minp.
     thenE (cli_rpc B S e ''GetReadyTasks'' d (\<lambda>c. srv_GetReadyTasks (cl_lib C) e (be_nulls_first B) (be_pool B) c
       \<lparr>ry_CollectionId = some_str coll, ry_Assignee = some_str assignee, ry_MinPriority = minp,
         ry_IncludeUnblockedOpen = includeUnblocked, ry_PageSize = limit, ry_PageToken = cl_int C cursor\<rparr> d))
       (\<lambda>(pg, nxt).
     Inr ((if pg_Items pg = [] then [nothing_ready includeUnblocked] else [])
       @ print_page output (\<lambda>x. pt_Id (fst x)) (readyTaskToMap (cl_mcp C))
           (printReadyTable (pg_Items pg) (pg_TotalCount pg)) (next_text (cl_int_text C) nxt) pg))))"

definition blockedTaskToMap :: "mcp_lib \<Rightarrow> pb_task \<times> pb_blocker list \<Rightarrow> jval" where
  "blockedTaskToMap M = (\<lambda>(t, bs). JMap
    [(''id'', JStr (pt_Id t)), (''name'', JStr (pt_Name t)),
     (''phase'', JStr (name_of phaseNames (pt_Phase t))), (''stage'', JStr (name_of stageNames (pt_Stage t))),
     (''priority'', nilIfZeroPriority (pt_Priority t)),
     (''assignees'', JList (map (\<lambda>u. cli_userToMap (user_ref u)) (pt_Assignees t))),
     (''collection_id'', JStr (pt_CollectionId t)), (''blocker_count'', JNum (int (length bs))),
     (''blocked_by'', items_json (map (\<lambda>b. JMap [(''task_id'', JStr (pbk_TaskId b)), (''name'', JStr (pbk_Name b)),
        (''phase'', JStr (name_of phaseNames (pbk_Phase b))),
        (''stage'', JStr (name_of stageNames (pbk_Stage b)))]) bs)),
     (''updated_at'', formatTimestamp M (Some (pt_UpdatedAt t)))])"

definition printBlockedTable :: "(pb_task \<times> pb_blocker list) list \<Rightarrow> int \<Rightarrow> outs" where
  "printBlockedTable items totalCount =
    Row [''ID'', ''NAME'', ''STAGE'', ''BLOCKER_COUNT'', ''BLOCKERS'']
    # map (\<lambda>(t, bs). Row [short_id (pt_Id t), truncate_text (pt_Name t) 45, name_of stageNames (pt_Stage t),
        itoa (int (length bs)), truncate_text (join_with '', '' (map (\<lambda>b. if pbk_Name b = [] then pbk_TaskId b
          else pbk_Name b) bs)) 60]) items
    @ showing (length items) totalCount"

definition cli_blocked ::
  "cli_lib \<Rightarrow> backend \<Rightarrow> mcp_server \<Rightarrow> env \<Rightarrow> machine \<Rightarrow> string \<Rightarrow> string \<Rightarrow> string \<Rightarrow> int \<Rightarrow> string
     \<Rightarrow> db \<Rightarrow> db \<Rightarrow> cli_err + outs" where
  "cli_blocked C B S e m collFlag output assignee limit cursor dl d =
    (let coll = resolveCollectionFromServer C B S e m collFlag dl in
     thenE (cli_rpc B S e ''GetBlockedTasks'' d (\<lambda>c. srv_GetBlockedTasks (cl_lib C) e (be_nulls_first B) (be_pool B) c
       \<lparr>rb_CollectionId = some_str coll, rb_Assignee = some_str assignee, rb_PageSize = limit,
         rb_PageToken = cl_int C cursor\<rparr> d)) (\<lambda>(pg, nxt).
     Inr (print_page output (\<lambda>x. pt_Id (fst x)) (blockedTaskToMap (cl_mcp C))
       (printBlockedTable (pg_Items pg) (pg_TotalCount pg)) (next_text (cl_int_text C) nxt) pg)))"

section \<open>The dependency tree\<close>

definition parseDirection :: "unicode \<Rightarrow> string \<Rightarrow> cli_err + int" where
  "parseDirection U s =
    (let l = lower U s in
     if l = ''up'' then Inr 1 else if l = ''down'' then Inr 2
     else if l = ''both'' \<or> l = [] then Inr 3 else Inl invalid)"

definition node_line :: "nat \<Rightarrow> pb_task \<Rightarrow> out" where
  "node_line depth t = Line (concat (replicate depth ''  '') @ short_id (pt_Id t) @ '' ''
     @ truncate_text (pt_Name t) 45 @ '' ['' @ name_of stageNames (pt_Stage t) @ '']'')"

fun printDependencyTree :: "nat \<Rightarrow> dep_node \<Rightarrow> outs" where
  "printDependencyTree depth (DepNode t down up) =
    node_line depth t # concat (map (printDependencyTree (Suc depth)) down)
      @ concat (map (printDependencyTree (Suc depth)) up)"

fun node_task :: "dep_node \<Rightarrow> pb_task" where "node_task (DepNode t _ _) = t"

definition cli_tree ::
  "cli_lib \<Rightarrow> backend \<Rightarrow> mcp_server \<Rightarrow> env \<Rightarrow> string \<Rightarrow> string \<Rightarrow> string \<Rightarrow> int \<Rightarrow> db \<Rightarrow> cli_err + outs" where
  "cli_tree C B S e output i direction maxDepth d =
    thenE (parseDirection (tables (cl_lib C)) direction) (\<lambda>dir.
    thenE (checkE (maxDepth \<le> 20) invalid) (\<lambda>_.
    thenE (cli_rpc B S e ''GetDependencyTree'' d (\<lambda>c. srv_GetDependencyTree (cl_lib C) e c i maxDepth dir d)) (\<lambda>root.
    Inr (if output = ''quiet'' then (case root of None \<Rightarrow> [] | Some n \<Rightarrow> [Line (pt_Id (node_task n))])
         else if output = ''table'' then (case root of None \<Rightarrow> [] | Some n \<Rightarrow> printDependencyTree 0 n)
         else [Json (case root of None \<Rightarrow> JNull | Some n \<Rightarrow> dependencyNodeToMap n)]))))"

section \<open>Critical path and bottlenecks\<close>

definition criticalPathNodesToList :: "pb_path_node list \<Rightarrow> jval" where
  "criticalPathNodesToList ns = JMaps (map (\<lambda>n. [(''id'', JStr (pn_Id n)), (''name'', JStr (pn_Name n)),
     (''stage'', JStr (name_of stageNames (pn_Stage n))), (''depth'', JNum (pn_Depth n))]) ns)"

text \<open>The service writes the reason of a bottleneck from its number of dependents.\<close>

definition bottleneck_reason :: "int \<Rightarrow> string" where
  "bottleneck_reason k = ''blocks '' @ itoa k @ '' tasks directly''"

definition bottleneckToMap :: "(string \<times> string \<times> int) option \<Rightarrow> jval" where
  "bottleneckToMap b =
    (case b of None \<Rightarrow> JNull
     | Some (i, n, k) \<Rightarrow> JMap [(''id'', JStr i), (''name'', JStr n), (''fan_out'', JNum k),
         (''reason'', JStr (bottleneck_reason k))])"

definition printCriticalPathTable :: "pb_critical_path \<Rightarrow> outs" where
  "printCriticalPathTable p =
    Row [''DEPTH'', ''ID'', ''NAME'', ''STAGE'']
    # map (\<lambda>n. Row [itoa (pn_Depth n), short_id (pn_Id n), truncate_text (pn_Name n) 45,
        name_of stageNames (pn_Stage n)]) (pcp_Path p)
    @ Note (nl # ''Total depth: '' @ itoa (pcp_TotalDepth p))
    # (case pcp_Bottleneck p of None \<Rightarrow> []
       | Some (_, n, k) \<Rightarrow> [Note (''Bottleneck: '' @ n @ '' '' @ dash @ '' '' @ bottleneck_reason k)])"

definition cli_critical_path ::
  "cli_lib \<Rightarrow> backend \<Rightarrow> mcp_server \<Rightarrow> env \<Rightarrow> machine \<Rightarrow> string \<Rightarrow> string \<Rightarrow> string \<Rightarrow> db \<Rightarrow> db \<Rightarrow> cli_err + outs" where
  "cli_critical_path C B S e m collFlag output rootId dl d =
    (let coll = resolveCollectionFromServer C B S e m collFlag dl in
     thenE (checkE (coll \<noteq> []) invalid) (\<lambda>_.
     thenE (cli_rpc B S e ''GetCriticalPath'' d (\<lambda>c. srv_GetCriticalPath (cl_lib C) e (be_nulls_first B) (be_pool B) c
       coll (some_str rootId) d)) (\<lambda>p.
     Inr (if output = ''quiet'' then map (\<lambda>n. Line (pn_Id n)) (pcp_Path p)
          else if output = ''table'' then printCriticalPathTable p
          else [Json (JMap [(''path'', criticalPathNodesToList (pcp_Path p)),
            (''total_depth'', JNum (pcp_TotalDepth p)), (''bottleneck'', bottleneckToMap (pcp_Bottleneck p))])]))))"

definition bottleneckTaskToMap :: "pb_bottleneck \<Rightarrow> jval" where
  "bottleneckTaskToMap b = JMap [(''id'', JStr (pbn_Id b)), (''name'', JStr (pbn_Name b)),
     (''stage'', JStr (name_of stageNames (pbn_Stage b))), (''downstream_count'', JNum (pbn_DownstreamCount b)),
     (''direct_dependents'', JNum (pbn_DirectDependents b))]"

definition printBottlenecksTable :: "pb_bottleneck list \<Rightarrow> outs" where
  "printBottlenecksTable items =
    Row [''ID'', ''NAME'', ''STAGE'', ''DOWNSTREAM'', ''DIRECT_DEPS'']
    # map (\<lambda>b. Row [short_id (pbn_Id b), truncate_text (pbn_Name b) 45, name_of stageNames (pbn_Stage b),
        itoa (pbn_DownstreamCount b), itoa (pbn_DirectDependents b)]) items"

definition cli_bottlenecks ::
  "cli_lib \<Rightarrow> backend \<Rightarrow> mcp_server \<Rightarrow> env \<Rightarrow> machine \<Rightarrow> string \<Rightarrow> string \<Rightarrow> int \<Rightarrow> db \<Rightarrow> db \<Rightarrow> cli_err + outs" where
  "cli_bottlenecks C B S e m collFlag output limit dl d =
    (let coll = resolveCollectionFromServer C B S e m collFlag dl in
     thenE (checkE (coll \<noteq> []) invalid) (\<lambda>_.
     thenE (checkE (limit \<le> 100) invalid) (\<lambda>_.
     thenE (cli_rpc B S e ''GetBottlenecks'' d (\<lambda>c. srv_GetBottlenecks (cl_lib C) e (be_nulls_first B) (be_pool B) c
       coll limit d)) (\<lambda>items.
     Inr (if output = ''quiet'' then map (\<lambda>b. Line (pbn_Id b)) items
          else if output = ''jsonl'' then map (\<lambda>b. JsonLine (bottleneckTaskToMap b)) items
          else if output = ''table'' then printBottlenecksTable items
          else [Json (JMap [(''items'', items_json (map bottleneckTaskToMap items))])])))))"

section \<open>Watching\<close>

record watch_flags =
  fw_stages :: "string list"
  fw_phase :: string
  fw_taskID :: string
  fw_assignee :: string
  fw_labels :: "string list"
  fw_priority :: string
  fw_includeInitial :: bool

definition watch_request :: "unicode \<Rightarrow> string \<Rightarrow> watch_flags \<Rightarrow> cli_err + WatchTasksRequest" where
  "watch_request U coll f =
    thenE (flag_opt (cli_parsePhase U) (fw_phase f)) (\<lambda>phase.
    thenE (mapE (cli_parseStage U) (fw_stages f)) (\<lambda>stages.
    thenE (flag_opt (cli_parsePriority U) (fw_priority f)) (\<lambda>priority.
    Inr \<lparr>rw_CollectionId = some_str coll, rw_Phase = phase, rw_Stages = stages,
      rw_Assignee = some_str (fw_assignee f), rw_Labels = fw_labels f, rw_TaskId = some_str (fw_taskID f),
      rw_Priority = priority, rw_IncludeInitial = fw_includeInitial f\<rparr>)))"

definition eventTypeNames :: "(int \<times> string) list" where
  "eventTypeNames = [(0, ''UNKNOWN''), (1, ''INITIAL''), (2, ''CREATED''), (3, ''UPDATED''), (4, ''CLOSED''),
     (5, ''DELETED''), (6, ''HEARTBEAT''), (7, ''SNAP_DONE'')]"

definition eventTypeName :: "int \<Rightarrow> string" where
  "eventTypeName n = (case map_of eventTypeNames n of None \<Rightarrow> ''UNKNOWN'' | Some s \<Rightarrow> s)"

text \<open>The service attaches no changes to an event.\<close>

definition eventToMap :: "mcp_lib \<Rightarrow> task_event \<Rightarrow> jval" where
  "eventToMap M ev = JMap
    ([(''event_type'', JStr (eventTypeName (ev_EventType ev))),
      (''timestamp'', formatTimestamp M (Some (ev_Timestamp ev))), (''sequence'', JNum (ev_Sequence ev))]
     @ (case ev_Task ev of None \<Rightarrow> [] | Some t \<Rightarrow> [(''task'', JMap (cli_taskToMap M t True))]))"

definition event_row :: "cli_lib \<Rightarrow> task_event \<Rightarrow> out" where
  "event_row C ev = Row ([cl_clock C (ev_Timestamp ev), eventTypeName (ev_EventType ev)]
     @ (case ev_Task ev of None \<Rightarrow> [dash, dash, dash]
        | Some t \<Rightarrow> [pt_Id t, truncate_text (pt_Name t) 30, name_of stageNames (pt_Stage t)]))"

definition print_event :: "cli_lib \<Rightarrow> string \<Rightarrow> task_event \<Rightarrow> out" where
  "print_event C output ev =
    (if output = ''jsonl'' then JsonLine (eventToMap (cl_mcp C) ev)
     else if output = ''table'' then event_row C ev
     else Json (eventToMap (cl_mcp C) ev))"

text \<open>How the stream ends: an interrupt or the end of the stream is no error.\<close>

datatype stream_end = Interrupted | EndOfStream | StreamError grpc_err

definition watch_end :: "stream_end \<Rightarrow> cli_err + unit" where
  "watch_end z = (case z of StreamError err \<Rightarrow> Inl (handleGRPCError err) | _ \<Rightarrow> Inr ())"

definition cli_watch :: "cli_lib \<Rightarrow> string \<Rightarrow> task_event list \<Rightarrow> stream_end \<Rightarrow> outs \<times> (cli_err + unit)" where
  "cli_watch C output events z =
    ((if output = ''table'' then [Row [''TIME'', ''EVENT'', ''TASK ID'', ''NAME'', ''STAGE'']] else [])
       @ map (print_event C output) events, watch_end z)"

end
