(* ===== verification/FT_CliRows.thy ===== *)
theory FT_CliRows
  imports FT_CliTasks FT_DocImport
begin

text \<open>
  The commands on collections, linked accounts, comments, changes and users that go over the
  service, and the status and version commands (\<open>internal/cli/collection.go\<close>, \<open>link.go\<close>, \<open>comment.go\<close>,
  \<open>change.go\<close>, \<open>user.go\<close>, \<open>status.go\<close>, \<open>version.go\<close>).
\<close>

section \<open>Collections\<close>

definition collectionToMap :: "mcp_lib \<Rightarrow> pb_collection \<Rightarrow> jval" where
  "collectionToMap M c = JMap
    [(''id'', JStr (pc_Id c)), (''name'', JStr (pc_Name c)), (''description'', nilIfEmpty (pc_Description c)),
     (''platform'', JStr (name_of platformNames (pc_Platform c))), (''remote_id'', nilIfEmpty (pc_RemoteId c)),
     (''created_at'', formatTimestamp M (Some (pc_CreatedAt c))),
     (''updated_at'', formatTimestamp M (Some (pc_UpdatedAt c)))]"

definition printCollectionTable :: "pb_collection list \<Rightarrow> outs" where
  "printCollectionTable cs = Row [''ID'', ''NAME'', ''PLATFORM'', ''REMOTE_ID'']
     # map (\<lambda>c. Row [short_id (pc_Id c), truncate_text (pc_Name c) 30, name_of platformNames (pc_Platform c),
         or_dash (pc_RemoteId c)]) cs"

definition print_one :: "string \<Rightarrow> string \<Rightarrow> jval \<Rightarrow> outs" where
  "print_one output i v = (if output = ''quiet'' then [Line i] else [Json v])"

definition cli_collection_list ::
  "cli_lib \<Rightarrow> backend \<Rightarrow> mcp_server \<Rightarrow> env \<Rightarrow> string \<Rightarrow> string \<Rightarrow> db \<Rightarrow> cli_err + outs" where
  "cli_collection_list C B S e output platform d =
    thenE (flag_opt (parsePlatform (tables (cl_lib C))) platform) (\<lambda>p.
    thenE (cli_rpc B S e ''ListCollections'' d (\<lambda>c. srv_ListCollections (cl_lib C) c p 0 NoToken d)) (\<lambda>(pg, nxt).
    Inr (print_page output pc_Id (collectionToMap (cl_mcp C)) (printCollectionTable (pg_Items pg))
      (next_text (cl_rows_text C) nxt) pg)))"

definition cli_collection_get ::
  "cli_lib \<Rightarrow> backend \<Rightarrow> mcp_server \<Rightarrow> env \<Rightarrow> string \<Rightarrow> string \<Rightarrow> db \<Rightarrow> cli_err + outs" where
  "cli_collection_get C B S e output i d =
    thenE (cli_rpc B S e ''GetCollection'' d (\<lambda>c. srv_GetCollection (cl_lib C) c i d)) (\<lambda>co.
    Inr (print_one output (pc_Id co) (collectionToMap (cl_mcp C) co)))"

definition cli_collection_create ::
  "cli_lib \<Rightarrow> backend \<Rightarrow> mcp_server \<Rightarrow> env \<Rightarrow> string \<Rightarrow> string \<Rightarrow> string \<Rightarrow> db \<Rightarrow> cli_err + outs \<times> db" where
  "cli_collection_create C B S e output name description d =
    thenE (cli_rpc B S e ''CreateCollection'' d (\<lambda>c. srv_CreateCollection (cl_lib C) e c
      \<lparr>rn_Name = name, rn_Description = description, rn_Platform = None, rn_RemoteId = None\<rparr> d)) (\<lambda>(co, d').
    Inr (print_one output (pc_Id co) (collectionToMap (cl_mcp C) co), d'))"

definition not_found :: cli_err where "not_found = ExitError 4 ''NOT_FOUND''"

text \<open>
  The loop over the pages of collections, each read by \<open>page\<close>. It ends when there is no further
  page; a server that always has one keeps it running.
\<close>

partial_function (option) find_collection ::
  "(cursor page_token \<Rightarrow> cli_err + (pb_collection page \<times> cursor page_token)) \<Rightarrow> string \<Rightarrow> cursor page_token
     \<Rightarrow> (cli_err + string) option" where
  "find_collection page arg tok =
    (case page tok of
       Inl err \<Rightarrow> Some (Inl err)
     | Inr (pg, nxt) \<Rightarrow>
         (case find (\<lambda>co. pc_Id co = arg \<or> pc_Name co = arg) (pg_Items pg) of
            Some co \<Rightarrow> Some (Inr (pc_Id co))
          | None \<Rightarrow> if \<not> pg_HasMore pg then Some (Inl not_found) else find_collection page arg nxt))"

definition collection_page ::
  "cli_lib \<Rightarrow> backend \<Rightarrow> mcp_server \<Rightarrow> env \<Rightarrow> db \<Rightarrow> cursor page_token \<Rightarrow> cli_err + (pb_collection page \<times> cursor page_token)" where
  "collection_page C B S e d tok =
    thenE (cli_rpc B S e ''ListCollections'' d (\<lambda>c. srv_ListCollections (cl_lib C) c None 200 tok d)) (\<lambda>(pg, nxt).
    Inr (pg, cl_rows C (next_text (cl_rows_text C) nxt)))"

definition resolveCollectionIDArg ::
  "cli_lib \<Rightarrow> backend \<Rightarrow> mcp_server \<Rightarrow> env \<Rightarrow> string \<Rightarrow> db \<Rightarrow> (cli_err + string) option" where
  "resolveCollectionIDArg C B S e arg d =
    (case rpc_call B S e ''GetCollection'' d (\<lambda>c. srv_GetCollection (cl_lib C) c arg d) of
       Inr _ \<Rightarrow> Some (Inr arg)
     | Inl (Rpc k) \<Rightarrow>
         if k \<noteq> InvalidArgument \<and> k \<noteq> NotFound then Some (Inl (handleGRPCError (Status k)))
         else find_collection (collection_page C B S e d) arg NoToken
     | Inl _ \<Rightarrow> Some (Inl (handleGRPCError NoStatus)))"

text \<open>
  An export writes the JSON text of the document to a file or to standard output, which gets a
  newline where the text has none. The warning is that relationships were left out.
\<close>

definition cli_collection_export ::
  "cli_lib \<Rightarrow> doc_codec \<Rightarrow> backend \<Rightarrow> mcp_server \<Rightarrow> env \<Rightarrow> machine \<Rightarrow> string \<Rightarrow> string \<Rightarrow> bool \<Rightarrow> db \<Rightarrow> export_dbs
     \<Rightarrow> (cli_err + string \<times> machine) option" where
  "cli_collection_export C J B S e m arg out_file includeChanges d ds =
    (case resolveCollectionIDArg C B S e arg d of
       None \<Rightarrow> None
     | Some r \<Rightarrow> Some
         (thenE r (\<lambda>i.
          thenE (cli_rpc B S e ''ExportCollection'' d (\<lambda>c. srv_ExportCollection (cl_lib C) e c i includeChanges d ds))
            (\<lambda>(doc, _).
          let text = j_Marshal J doc in
          if out_file \<noteq> [] then
            (if m_writable m out_file then Inr ([], m\<lparr>m_file := (m_file m)(out_file := File text)\<rparr>)
             else Inl (ExitError 1 ''IO_ERROR''))
          else Inr (if text = [] \<or> last text \<noteq> nl then text @ [nl] else text, m)))))"

definition readCollectionImportData :: "machine \<Rightarrow> string \<Rightarrow> string option" where
  "readCollectionImportData m arg =
    (if arg = ''-'' then m_stdin m
     else case m_file m (if arg \<noteq> [] \<and> List.hd arg = CHR ''@'' then tl arg else arg) of File s \<Rightarrow> Some s | _ \<Rightarrow> None)"

definition importCollectionResponseToMap :: "string option \<Rightarrow> import_stats \<Rightarrow> string list \<Rightarrow> bool \<Rightarrow> jval" where
  "importCollectionResponseToMap i st warnings dryRun = JMap
    [(''collection_id'', JStr (none_or i [])), (''dry_run'', JBool dryRun),
     (''stats'', JMap [(''users_matched'', JNum (is_UsersMatched st)), (''users_created'', JNum (is_UsersCreated st)),
        (''tasks'', JNum (is_Tasks st)), (''comments'', JNum (is_Comments st)),
        (''relationships'', JNum (is_Relationships st)), (''changes'', JNum (is_Changes st))]),
     (''warnings'', if warnings = [] then JNull else JStrs warnings)]"

text \<open>The file is read before the command connects. The text of a warning is a parameter.\<close>

definition cli_import_before :: "machine \<Rightarrow> string \<Rightarrow> cli_err + string" where
  "cli_import_before m arg = optE (ExitError 1 ''IO_ERROR'') (readCollectionImportData m arg)"

definition cli_collection_import ::
  "cli_lib \<Rightarrow> doc_codec \<Rightarrow> (import_warning \<Rightarrow> string) \<Rightarrow> backend \<Rightarrow> mcp_server \<Rightarrow> env \<Rightarrow> string \<Rightarrow> string \<Rightarrow> string
     \<Rightarrow> bool \<Rightarrow> db \<Rightarrow> db \<Rightarrow> cli_err + outs \<times> db" where
  "cli_collection_import C J wtext B S e output data name dryRun d0 d =
    thenE (cli_rpc B S e ''ImportCollection'' d (\<lambda>c. srv_ImportCollection (cl_lib C) J e c
      \<lparr>rq_Data = data, rq_Name = some_str name, rq_DryRun = dryRun\<rparr> d0 d)) (\<lambda>(i, st, ws, d').
    let warnings = map wtext ws in
    Inr (map Note warnings
      @ (if output = ''quiet'' then (if none_or i [] \<noteq> [] then [Line (none_or i [])] else [])
         else [Json (importCollectionResponseToMap i st warnings dryRun)]), d'))"

section \<open>Linked accounts\<close>

definition linkedAccountStatusNames :: "(int \<times> string) list" where
  "linkedAccountStatusNames = [(1, ''ACTIVE''), (2, ''EXPIRED''), (3, ''REVOKED'')]"

definition authMethodNames :: "(int \<times> string) list" where
  "authMethodNames = [(1, ''oauth2_pkce''), (2, ''api_key''), (3, ''pat''), (4, ''service_account''),
     (5, ''mcp_oauth''), (6, ''github_app''), (7, ''atlassian_connect''), (8, ''local_process'')]"

definition linkedAccountToMap :: "mcp_lib \<Rightarrow> pb_linked_account \<Rightarrow> jval" where
  "linkedAccountToMap M la = JMap
    [(''id'', JStr (pla_Id la)), (''collection_id'', JStr (pla_CollectionId la)),
     (''platform'', JStr (name_of platformNames (pla_Platform la))),
     (''auth_method'', JStr (name_of authMethodNames (pla_AuthMethod la))),
     (''scopes'', if pla_Scopes la = [] then JNull else JStrs (pla_Scopes la)),
     (''remote_user_id'', nilIfEmpty (pla_RemoteUserId la)),
     (''status'', JStr (name_of linkedAccountStatusNames (pla_Status la))),
     (''created_at'', formatTimestamp M (Some (pla_CreatedAt la))),
     (''updated_at'', formatTimestamp M (Some (pla_UpdatedAt la))),
     (''expires_at'', formatTimestamp M (pla_ExpiresAt la))]"

definition printLinkedAccountTable :: "pb_linked_account list \<Rightarrow> outs" where
  "printLinkedAccountTable las =
    Row [''ID'', ''COLLECTION'', ''PLATFORM'', ''METHOD'', ''STATUS'', ''REMOTE_USER'']
    # map (\<lambda>la. Row [short_id (pla_Id la), short_id (pla_CollectionId la), name_of platformNames (pla_Platform la),
        name_of authMethodNames (pla_AuthMethod la), name_of linkedAccountStatusNames (pla_Status la),
        truncate_text (let r = none_or (pla_RemoteUserId la) [] in if r = [] then ''-'' else r) 30]) las"

text \<open>The token of the platform: flag, environment, or the first line piped in.\<close>

definition resolveLinkToken :: "machine \<Rightarrow> string \<Rightarrow> string" where
  "resolveLinkToken m flagVal =
    (let v = m_env m ''FARMTABLE_LINK_TOKEN'' in
     if flagVal \<noteq> [] then flagVal else if v \<noteq> [] then v
     else if m_terminal m then []
     else case m_stdin m of None \<Rightarrow> [] | Some s \<Rightarrow> (case scanned_lines s of [] \<Rightarrow> [] | l # _ \<Rightarrow> TrimSpace l))"

definition inferAuthMethod :: "int \<Rightarrow> int" where
  "inferAuthMethod platform = (if platform = 3 \<or> platform = 4 then 2 else 3)"

definition inferScopes :: "int \<Rightarrow> string list" where
  "inferScopes platform = (if platform = 2 then [''repo'', ''read:org''] else [])"

text \<open>The platform and the token are read before the command connects.\<close>

definition cli_link_before :: "cli_lib \<Rightarrow> string \<Rightarrow> string \<Rightarrow> machine \<Rightarrow> cli_err + int \<times> string" where
  "cli_link_before C platform tokenFlag m =
    thenE (parsePlatform (tables (cl_lib C)) platform) (\<lambda>p.
    let tok = resolveLinkToken m tokenFlag in if tok = [] then Inl invalid else Inr (p, tok))"

definition link_collection ::
  "cli_lib \<Rightarrow> backend \<Rightarrow> mcp_server \<Rightarrow> env \<Rightarrow> machine \<Rightarrow> string \<Rightarrow> string \<Rightarrow> db \<Rightarrow> string" where
  "link_collection C B S e m collection collFlag dl =
    (let named = cli_resolveCollection m collection in
     if named \<noteq> [] then named else resolveCollectionFromServer C B S e m collFlag dl)"

definition cli_collection_link ::
  "cli_lib \<Rightarrow> encryptor \<Rightarrow> backend \<Rightarrow> mcp_server \<Rightarrow> env \<Rightarrow> machine \<Rightarrow> string \<Rightarrow> string \<Rightarrow> string \<Rightarrow> string
     \<Rightarrow> int \<times> string \<Rightarrow> db \<Rightarrow> db \<Rightarrow> cli_err + outs \<times> db" where
  "cli_collection_link C x B S e m collFlag output collection repo pt dl d =
    (let coll = link_collection C B S e m collection collFlag dl; platform = fst pt in
     thenE (checkE (coll \<noteq> []) invalid) (\<lambda>_.
     thenE (cli_rpc B S e ''CreateLinkedAccount'' d (\<lambda>c. srv_CreateLinkedAccount (cl_lib C) x e c
       \<lparr>rq_CollectionId = coll, rq_Platform = platform, rq_AuthMethod = inferAuthMethod platform,
         rq_AuthToken = snd pt, rq_Scopes = inferScopes platform, rq_RemoteUserId = repo, rq_ExpiresAt = None\<rparr> d))
       (\<lambda>(la, d').
     Inr (print_one output (pla_Id la) (linkedAccountToMap (cl_mcp C) la), d'))))"

definition list_accounts ::
  "cli_lib \<Rightarrow> encryptor \<Rightarrow> backend \<Rightarrow> mcp_server \<Rightarrow> env \<Rightarrow> string option \<Rightarrow> int option \<Rightarrow> db
     \<Rightarrow> cli_err + pb_linked_account page \<times> cursor option" where
  "list_accounts C x B S e coll platform d =
    cli_rpc B S e ''ListLinkedAccounts'' d (\<lambda>c. srv_ListLinkedAccounts (cl_lib C) x c
      \<lparr>rg_CollectionId = coll, rg_Platform = platform, rg_Status = None, rg_PageSize = 0,
        rg_PageToken = NoToken\<rparr> d)"

text \<open>Without an account, the only one of the collection is meant.\<close>

definition unlink_target ::
  "cli_lib \<Rightarrow> encryptor \<Rightarrow> backend \<Rightarrow> mcp_server \<Rightarrow> env \<Rightarrow> machine \<Rightarrow> string \<Rightarrow> string \<Rightarrow> string \<Rightarrow> db \<Rightarrow> db
     \<Rightarrow> cli_err + string" where
  "unlink_target C x B S e m collFlag collection accountID dl d =
    (if accountID \<noteq> [] then Inr accountID
     else let coll = link_collection C B S e m collection collFlag dl in
       thenE (checkE (coll \<noteq> []) invalid) (\<lambda>_.
       thenE (list_accounts C x B S e (Some coll) None d) (\<lambda>(pg, _).
       case pg_Items pg of [] \<Rightarrow> Inl not_found | [la] \<Rightarrow> Inr (pla_Id la) | _ \<Rightarrow> Inl invalid)))"

definition cli_collection_unlink ::
  "cli_lib \<Rightarrow> encryptor \<Rightarrow> backend \<Rightarrow> mcp_server \<Rightarrow> env \<Rightarrow> machine \<Rightarrow> string \<Rightarrow> string \<Rightarrow> string \<Rightarrow> string
     \<Rightarrow> db \<Rightarrow> db \<Rightarrow> db \<Rightarrow> db \<Rightarrow> cli_err + outs \<times> db" where
  "cli_collection_unlink C x B S e m collFlag output collection accountID dl dt d0 d =
    thenE (unlink_target C x B S e m collFlag collection accountID dl dt) (\<lambda>i.
    thenE (cli_rpc B S e ''DeleteLinkedAccount'' d0 (\<lambda>c. srv_DeleteLinkedAccount (cl_lib C) x c i d0 d)) (\<lambda>d'.
    Inr (print_one output i (JMap [(''deleted'', JBool True), (''account_id'', JStr i)]), d')))"

text \<open>A collection of the listing's own flag is taken as it is, also where it is not set at all.\<close>

definition cli_collection_links ::
  "cli_lib \<Rightarrow> encryptor \<Rightarrow> backend \<Rightarrow> mcp_server \<Rightarrow> env \<Rightarrow> machine \<Rightarrow> string \<Rightarrow> string \<Rightarrow> string \<Rightarrow> string
     \<Rightarrow> db \<Rightarrow> db \<Rightarrow> cli_err + outs" where
  "cli_collection_links C x B S e m collFlag output collection platform dl d =
    (let coll = link_collection C B S e m collection collFlag dl in
     thenE (flag_opt (parsePlatform (tables (cl_lib C))) platform) (\<lambda>p.
     thenE (list_accounts C x B S e (some_str coll) p d) (\<lambda>(pg, nxt).
     Inr (print_page output pla_Id (linkedAccountToMap (cl_mcp C)) (printLinkedAccountTable (pg_Items pg))
       (next_text (cl_rows_text C) nxt) pg))))"

section \<open>Comments and changes\<close>

text \<open>The body: an argument, a flag, or standard input; it is read before the command connects.\<close>

definition cli_comment_before :: "string option \<Rightarrow> string \<Rightarrow> machine \<Rightarrow> cli_err + string" where
  "cli_comment_before arg body m =
    thenE (case arg of Some a \<Rightarrow> Inr a
       | None \<Rightarrow> optE (ExitError 1 ''INTERNAL_ERROR'')
           (map_option fst (if body \<noteq> [] then readInputValue m body else read_stdin m))) (\<lambda>b.
    thenE (checkE (b \<noteq> []) invalid) (\<lambda>_. Inr b))"

definition cli_comment_add ::
  "cli_lib \<Rightarrow> backend \<Rightarrow> mcp_server \<Rightarrow> env \<Rightarrow> string \<Rightarrow> string \<Rightarrow> string \<Rightarrow> db \<Rightarrow> db \<Rightarrow> cli_err + outs \<times> db" where
  "cli_comment_add C B S e output i body d0 d =
    thenE (cli_rpc B S e ''AddComment'' d0 (\<lambda>c. srv_AddComment (cl_lib C) e c i body d0 d)) (\<lambda>(cm, d').
    Inr (print_one output (pcm_Id cm) (cli_commentToMap (cl_mcp C) cm), d'))"

definition time_cell :: "cli_lib \<Rightarrow> time \<Rightarrow> string" where
  "time_cell C t = (case formatTimestamp (cl_mcp C) (Some t) of JStr s \<Rightarrow> s | _ \<Rightarrow> ''<nil>'')"

definition printCommentTable :: "cli_lib \<Rightarrow> pb_comment list \<Rightarrow> outs" where
  "printCommentTable C cs = Row [''ID'', ''AUTHOR'', ''CREATED'', ''BODY'']
     # map (\<lambda>c. Row [short_id (pcm_Id c), truncate_text (user_cell (user_ref (pcm_Author c))) 15,
         time_cell C (pcm_CreatedAt c), truncate_text (pcm_Body c) 60]) cs"

text \<open>The order is checked and sent, and the service does not read it.\<close>

definition cli_comment_list ::
  "cli_lib \<Rightarrow> backend \<Rightarrow> mcp_server \<Rightarrow> env \<Rightarrow> string \<Rightarrow> string \<Rightarrow> int \<Rightarrow> string \<Rightarrow> string \<Rightarrow> db \<Rightarrow> cli_err + outs" where
  "cli_comment_list C B S e output i limit cursor order d =
    thenE (flag_opt (table_flag sortOrderValues) order) (\<lambda>_.
    thenE (cli_rpc B S e ''ListComments'' d (\<lambda>c. srv_ListComments (cl_lib C) c i limit (cl_rows C cursor) d)) (\<lambda>(pg, nxt).
    Inr (print_page output pcm_Id (cli_commentToMap (cl_mcp C)) (printCommentTable C (pg_Items pg))
      (next_text (cl_rows_text C) nxt) pg)))"

definition printChangeTable :: "cli_lib \<Rightarrow> pb_change list \<Rightarrow> outs" where
  "printChangeTable C cs =
    (let v = (\<lambda>x. case x of None \<Rightarrow> dash | Some r \<Rightarrow> ml_text (cl_mcp C) r) in
     Row [''ID'', ''FIELD'', ''OLD'', ''NEW'', ''CHANGED_BY'', ''CHANGED_AT'']
     # map (\<lambda>c. Row [short_id (pch_Id c), pch_Field c, truncate_text (v (pch_OldValue c)) 20,
         truncate_text (v (pch_NewValue c)) 20, truncate_text (user_cell (user_ref (pch_ChangedBy c))) 15,
         time_cell C (pch_ChangedAt c)]) cs)"

definition cli_change_list ::
  "cli_lib \<Rightarrow> backend \<Rightarrow> mcp_server \<Rightarrow> env \<Rightarrow> string \<Rightarrow> string \<Rightarrow> string \<Rightarrow> int \<Rightarrow> string \<Rightarrow> db \<Rightarrow> cli_err + outs" where
  "cli_change_list C B S e output i field limit cursor d =
    thenE (cli_rpc B S e ''ListChanges'' d (\<lambda>c. srv_ListChanges (cl_lib C) c i field limit (cl_rows C cursor) d))
      (\<lambda>(pg, nxt).
    Inr (print_page output pch_Id (cli_changeToMap (cl_mcp C)) (printChangeTable C (pg_Items pg))
      (next_text (cl_rows_text C) nxt) pg))"

section \<open>Users, status and version\<close>

definition cli_user_get ::
  "cli_lib \<Rightarrow> backend \<Rightarrow> mcp_server \<Rightarrow> env \<Rightarrow> string \<Rightarrow> string \<Rightarrow> db \<Rightarrow> cli_err + outs" where
  "cli_user_get C B S e output i d =
    thenE (cli_rpc B S e ''GetUser'' d (\<lambda>c. srv_GetUser (cl_lib C) c i d)) (\<lambda>u.
    Inr (print_one output (pu_Id u) (userFullToMap u)))"

definition printUserTable :: "pb_user list \<Rightarrow> outs" where
  "printUserTable us = Row [''ID'', ''NAME'', ''TYPE'', ''STATUS'', ''EMAIL'']
     # map (\<lambda>u. Row [short_id (pu_Id u), truncate_text (pu_Name u) 25, name_of userTypeNames (pu_Type u),
         identityStatusName (pu_Status u), or_dash (pu_Email u)]) us"

text \<open>This listing has no form of one line per user.\<close>

definition cli_user_list ::
  "cli_lib \<Rightarrow> backend \<Rightarrow> mcp_server \<Rightarrow> env \<Rightarrow> string \<Rightarrow> db \<Rightarrow> cli_err + outs" where
  "cli_user_list C B S e output d =
    thenE (cli_rpc B S e ''ListUsers'' d (\<lambda>c. srv_ListUsers (cl_lib C) c None 0 NoToken d)) (\<lambda>(pg, nxt).
    Inr (if output = ''quiet'' then map (\<lambda>u. Line (pu_Id u)) (pg_Items pg)
         else if output = ''table'' then printUserTable (pg_Items pg)
         else printList (map userFullToMap (pg_Items pg)) (next_text (cl_rows_text C) nxt) pg))"

definition cli_whoami ::
  "cli_lib \<Rightarrow> backend \<Rightarrow> mcp_server \<Rightarrow> env \<Rightarrow> string \<Rightarrow> db \<Rightarrow> cli_err + outs" where
  "cli_whoami C B S e output d =
    thenE (cli_rpc B S e ''WhoAmI'' d (\<lambda>c. srv_WhoAmI (cl_lib C) c d)) (\<lambda>u.
    Inr (print_one output (pu_Id u) (userFullToMap u)))"

text \<open>The server sends its version as its mode, and no platforms; the latency is measured in milliseconds.\<close>

definition status_map :: "machine \<Rightarrow> globalFlags \<Rightarrow> int \<Rightarrow> pb_status \<Rightarrow> jmap" where
  "status_map m G latency st =
    (let server = resolveServer m (gf_server G) in
     [(''server'', JStr (if server = [] then ''embedded'' else server)),
      (''server_version'', JStr (pst_Version st)), (''server_mode'', JStr (pst_Version st)), (''api_protocol'', JStr ''grpc''),
      (''status'', JStr (pst_Status st)), (''latency_ms'', JNum latency),
      (''uptime_seconds'', JNum (pst_UptimeSeconds st)), (''task_count'', JNum (pst_TaskCount st))]
     @ (case pst_AuthenticatedAs st of None \<Rightarrow> [] | Some u \<Rightarrow> [(''authenticated_as'', cli_userToMap (Some u))])
     @ [(''platforms'', JNull)])"

definition cli_status ::
  "cli_lib \<Rightarrow> string \<Rightarrow> time \<Rightarrow> backend \<Rightarrow> mcp_server \<Rightarrow> env \<Rightarrow> machine \<Rightarrow> globalFlags \<Rightarrow> int \<Rightarrow> db
     \<Rightarrow> cli_err + outs" where
  "cli_status C version startedAt B S e m G latency d =
    (let output = resolveOutput m (gf_output G); server = resolveServer m (gf_server G) in
     thenE (cli_rpc B S e ''GetStatus'' d (\<lambda>c. Inr (srv_GetStatus (cl_lib C) e version startedAt (be_nulls_first B) c d)))
       (\<lambda>st.
     Inr (if output = ''quiet'' then [Line (pst_Status st)]
          else if output = ''jsonl'' then [JsonLine (JMap (status_map m G latency st))]
          else if output = ''table'' then
            [Row [''SERVER'', if server = [] then ''embedded'' else server], Row [''VERSION'', pst_Version st],
             Row [''MODE'', pst_Version st], Row [''STATUS'', pst_Status st], Row [''LATENCY'', itoa latency @ ''ms''],
             Row [''UPTIME'', itoa (pst_UptimeSeconds st) @ ''s''], Row [''TASKS'', itoa (pst_TaskCount st)]]
            @ (case pst_AuthenticatedAs st of None \<Rightarrow> [] | Some u \<Rightarrow> [Row [''USER'', user_cell (Some u)]])
          else [Json (JMap (status_map m G latency st))])))"

text \<open>The version of the server is left out where the server does not answer.\<close>

definition cli_version :: "string \<Rightarrow> machine \<Rightarrow> globalFlags \<Rightarrow> string option \<Rightarrow> outs" where
  "cli_version cliVersion m G serverVersion =
    (let server = resolveServer m (gf_server G) in
     if resolveOutput m (gf_output G) = ''quiet'' then [Line cliVersion]
     else [Json (JMap [(''cli_version'', JStr cliVersion),
       (''server_version'', case serverVersion of None \<Rightarrow> JNull | Some v \<Rightarrow> JStr v),
       (''api_protocol'', JStr ''grpc''), (''server'', JStr (if server = [] then ''embedded'' else server))])])"

end
