(* ===== verification/FT_CliTokens.thy ===== *)
theory FT_CliTokens
  imports FT_CliTasks
begin

text \<open>
  The commands that open the local database themselves (\<open>internal/cli/token.go\<close>, \<open>user.go\<close>): no
  interceptor checks them. \<open>mergeScopes\<close> computes the scopes of a token from the flags of an update
  and refuses what would silently widen or narrow the token.
\<close>

section \<open>Merging scopes\<close>

datatype merge_err = ErrUnscopedToken | ErrWildcardToken | ErrEmptyScopes

definition mergeScopes :: "string list \<Rightarrow> string list \<Rightarrow> string list \<Rightarrow> string list \<Rightarrow> merge_err + string list" where
  "mergeScopes current add remove set_to =
    (if set_to \<noteq> [] then Inr (sort set_to)
     else if current = [] then Inl ErrUnscopedToken
     else if remove \<noteq> [] \<and> List.member current ScopeWildcard then Inl ErrWildcardToken
     else let scopeSet = filter (\<lambda>s. \<not> List.member remove s) (remdups (current @ add)) in
       if scopeSet = [] then Inl ErrEmptyScopes else Inr (sort scopeSet))"

definition merge_code :: "merge_err \<Rightarrow> cli_err" where
  "merge_code err = ExitError 6 (case err of ErrUnscopedToken \<Rightarrow> ''UNSCOPED_TOKEN''
     | ErrWildcardToken \<Rightarrow> ''WILDCARD_TOKEN'' | ErrEmptyScopes \<Rightarrow> ''EMPTY_SCOPES'')"

section \<open>The store\<close>

definition openDirectStore :: "machine \<Rightarrow> cli_err + unit" where
  "openDirectStore m = checkE (m_writable m (resolveDBPath m)) (ExitError 8 ''STORE_ERROR'')"

definition or_exit :: "cli_err \<Rightarrow> store_err + 'a \<Rightarrow> cli_err + 'a" where
  "or_exit err r = (case r of Inl _ \<Rightarrow> Inl err | Inr x \<Rightarrow> Inr x)"

definition parse_arg :: "cli_lib \<Rightarrow> string \<Rightarrow> string \<Rightarrow> cli_err + uuid" where
  "parse_arg C errCode s = optE (ExitError 6 errCode) (uuid_Parse (cl_lib C) s)"

section \<open>Tokens\<close>

definition token_scopes :: "string list \<Rightarrow> uuid \<Rightarrow> db \<Rightarrow> cli_err + string list" where
  "token_scopes scopes userID d =
    (if scopes \<noteq> [] then thenE (checkE (ValidateScopes scopes) (ExitError 6 ''INVALID_SCOPE'')) (\<lambda>_. Inr scopes)
     else thenE (or_exit (ExitError 1 ''USER_LOOKUP_FAILED'') (GetUser userID d)) (\<lambda>u.
       Inr (DefaultScopesForUserType (u_type u))))"

definition token_expiry :: "cli_lib \<Rightarrow> env \<Rightarrow> string \<Rightarrow> cli_err + time option" where
  "token_expiry C e expires =
    (if expires = [] then Inr None
     else thenE (optE (ExitError 6 ''INVALID_EXPIRES'') (cl_duration C expires)) (\<lambda>dur. Inr (Some (now e + dur))))"

definition created_token_map :: "cli_lib \<Rightarrow> token \<Rightarrow> string \<Rightarrow> jmap" where
  "created_token_map C k rawToken =
    [(''id'', JStr (uuid_String (cl_lib C) (k_id k))), (''user_id'', JStr (uuid_String (cl_lib C) (k_user k))),
     (''name'', JStr (k_name k)), (''token'', JStr rawToken)]
    @ (case k_expires k of None \<Rightarrow> [] | Some t \<Rightarrow> [(''expires_at'', JStr (cl_rfc3339 C t))])
    @ (if k_scopes k = [] then [] else [(''scopes'', JStrs (k_scopes k))])
    @ (if k_collections k = [] then []
       else [(''collection_ids'', JStrs (map (uuid_String (cl_lib C)) (k_collections k)))])"

definition cli_token_create ::
  "cli_lib \<Rightarrow> sha \<Rightarrow> string \<Rightarrow> env \<Rightarrow> machine \<Rightarrow> string \<Rightarrow> string \<Rightarrow> string \<Rightarrow> string \<Rightarrow> string list \<Rightarrow> string list
     \<Rightarrow> db \<Rightarrow> cli_err + outs \<times> db" where
  "cli_token_create C sha rawBytes e m output userArg name expires scopes collectionIDs d =
    thenE (parse_arg C ''INVALID_USER_ID'' userArg) (\<lambda>userID.
    thenE (openDirectStore m) (\<lambda>_.
    thenE (token_expiry C e expires) (\<lambda>expiresAt.
    thenE (token_scopes scopes userID d) (\<lambda>tokenScopes.
    thenE (mapE (parse_arg C ''INVALID_COLLECTION_ID'') collectionIDs) (\<lambda>cids.
    thenE (or_exit (ExitError 1 ''CREATE_FAILED'') (CreateAPIToken sha rawBytes e
      \<lparr>ck_UserID = userID, ck_Name = (if name = [] then ''cli-generated'' else name), ck_ExpiresAt = expiresAt,
        ck_Scopes = tokenScopes, ck_CollectionIDs = cids\<rparr> d)) (\<lambda>((k, rawToken), d').
    Inr (if output = ''quiet'' then [Line rawToken]
         else [Json (JMap (created_token_map C k rawToken)), Note ''Save this token''], d')))))))"

definition token_map :: "cli_lib \<Rightarrow> token \<times> user option \<Rightarrow> jval" where
  "token_map C = (\<lambda>(k, u). JMap
    ([(''id'', JStr (uuid_String (cl_lib C) (k_id k))), (''name'', JStr (k_name k)),
      (''user_id'', JStr (uuid_String (cl_lib C) (k_user k))), (''created_at'', JStr (cl_rfc3339 C (k_created k)))]
     @ (case u of None \<Rightarrow> [] | Some v \<Rightarrow> [(''user_name'', JStr (u_name v))])
     @ (case k_last_used k of None \<Rightarrow> [] | Some t \<Rightarrow> [(''last_used_at'', JStr (cl_rfc3339 C t))])
     @ (case k_expires k of None \<Rightarrow> [] | Some t \<Rightarrow> [(''expires_at'', JStr (cl_rfc3339 C t))])
     @ (if k_scopes k = [] then [] else [(''scopes'', JStrs (k_scopes k))])))"

definition token_row :: "cli_lib \<Rightarrow> token \<times> user option \<Rightarrow> out" where
  "token_row C = (\<lambda>(k, u). Row
    [short_id (uuid_String (cl_lib C) (k_id k)), truncate_text (k_name k) 20,
     truncate_text (case u of None \<Rightarrow> short_id (uuid_String (cl_lib C) (k_user k)) | Some v \<Rightarrow> u_name v) 15,
     cl_day C (k_created k), (case k_last_used k of None \<Rightarrow> ''never'' | Some t \<Rightarrow> cl_day C t),
     (case k_expires k of None \<Rightarrow> dash | Some t \<Rightarrow> cl_day C t)])"

definition cli_token_list :: "cli_lib \<Rightarrow> machine \<Rightarrow> string \<Rightarrow> db \<Rightarrow> cli_err + outs" where
  "cli_token_list C m output d =
    thenE (openDirectStore m) (\<lambda>_.
    let (ks, total) = ListAPITokens \<lparr>lk_UserID = None, lk_Limit = 200, lk_Cursor = NoCursor\<rparr> d in
    Inr (if output = ''quiet'' then map (\<lambda>(k, _). Line (uuid_String (cl_lib C) (k_id k))) ks
         else if output = ''table'' then
           Row [''ID'', ''NAME'', ''USER'', ''CREATED'', ''LAST_USED'', ''EXPIRES''] # map (token_row C) ks
         else printList (map (token_map C) ks) [] \<lparr>pg_Items = ks, pg_TotalCount = int32 (int total), pg_HasMore = False\<rparr>))"

definition token_flags_ok :: "string list \<Rightarrow> string list \<Rightarrow> string list \<Rightarrow> cli_err + unit" where
  "token_flags_ok add remove set_to =
    (if set_to \<noteq> [] \<and> (add \<noteq> [] \<or> remove \<noteq> []) then Inl (ExitError 6 ''CONFLICTING_FLAGS'')
     else if add = [] \<and> remove = [] \<and> set_to = [] then Inl (ExitError 6 ''NO_CHANGES'')
     else Inr ())"

definition merged :: "merge_err + string list \<Rightarrow> cli_err + string list" where
  "merged r = (case r of Inl err \<Rightarrow> Inl (merge_code err) | Inr ss \<Rightarrow> Inr ss)"

text \<open>The token is read and written in two statements, which may see different databases.\<close>

definition cli_token_update ::
  "cli_lib \<Rightarrow> machine \<Rightarrow> string \<Rightarrow> string \<Rightarrow> string list \<Rightarrow> string list \<Rightarrow> string list \<Rightarrow> db \<Rightarrow> db
     \<Rightarrow> cli_err + outs \<times> db" where
  "cli_token_update C m output tokenArg add remove set_to d0 d =
    thenE (parse_arg C ''INVALID_TOKEN_ID'' tokenArg) (\<lambda>tokenID.
    thenE (token_flags_ok add remove set_to) (\<lambda>_.
    thenE (openDirectStore m) (\<lambda>_.
    thenE (or_exit (ExitError 1 ''TOKEN_NOT_FOUND'') (GetAPIToken tokenID d0)) (\<lambda>(k, _).
    thenE (merged (mergeScopes (k_scopes k) add remove set_to)) (\<lambda>newScopes.
    thenE (checkE (ValidateScopes newScopes) (ExitError 6 ''INVALID_SCOPE'')) (\<lambda>_.
    thenE (or_exit (ExitError 1 ''UPDATE_FAILED'') (UpdateAPITokenScopes tokenID newScopes d)) (\<lambda>(k', d').
    let i = uuid_String (cl_lib C) (k_id k') in
    Inr (if output = ''quiet'' then [Line i]
         else [Json (JMap [(''id'', JStr i), (''name'', JStr (k_name k')),
             (''old_scopes'', if k_scopes k = [] then JNull else JStrs (k_scopes k)),
             (''new_scopes'', JStrs (k_scopes k'))]),
           Note (nl # ''Token '' @ short_id i @ '' scopes updated.'')], d'))))))))"

definition cli_token_revoke :: "cli_lib \<Rightarrow> machine \<Rightarrow> string \<Rightarrow> db \<Rightarrow> cli_err + outs \<times> db" where
  "cli_token_revoke C m tokenArg d =
    thenE (parse_arg C ''INVALID_TOKEN_ID'' tokenArg) (\<lambda>tokenID.
    thenE (openDirectStore m) (\<lambda>_.
    thenE (or_exit (ExitError 1 ''REVOKE_FAILED'') (RevokeAPIToken tokenID d)) (\<lambda>d'.
    Inr ([Line ''Token revoked.''], d'))))"

section \<open>Users\<close>

definition cli_user_create ::
  "cli_lib \<Rightarrow> env \<Rightarrow> machine \<Rightarrow> string \<Rightarrow> string \<Rightarrow> string \<Rightarrow> string \<Rightarrow> db \<Rightarrow> cli_err + outs \<times> db" where
  "cli_user_create C e m output name email userType d =
    thenE (openDirectStore m) (\<lambda>_.
    thenE (or_exit (ExitError 1 ''CREATE_FAILED'') (CreateUser e \<lparr>cu_DisplayName = name, cu_Email = some_str email,
        cu_Type = userType, cu_Status = ''active''\<rparr> d)) (\<lambda>(u, d').
    let i = uuid_String (cl_lib C) (u_id u) in
    Inr (if output = ''quiet'' then [Line i]
         else [Json (JMap ([(''id'', JStr i), (''name'', JStr (u_name u)), (''type'', JStr (u_type u)),
             (''status'', JStr (u_status u))]
           @ (case u_email u of None \<Rightarrow> [] | Some s \<Rightarrow> [(''email'', JStr s)])))], d')))"

end
