(* ===== verification/FT_CliConfig.thy ===== *)
theory FT_CliConfig
  imports FT_Cli FT_LabelProps
begin

text \<open>
  What the configuration file keeps: a value that was saved is the value that is loaded, and the
  other settings stay. It holds of values without quotes and backslashes, which
  \<open>parseConfigLine\<close> does not undo, and of files where the setting has one line at most, since
  \<open>SaveConfigValue\<close> writes the first line of a setting and \<open>LoadConfig\<close> reads the last.
\<close>

section \<open>ASCII texts\<close>

definition space_char :: "char \<Rightarrow> bool" where
  "space_char c \<longleftrightarrow> IsSpace (of_char c)"

lemma TrimSpace_ascii:
  assumes "ascii_text s"
  shows "TrimSpace s = trim_end space_char (dropWhile space_char s)"
proof -
  have "dropWhile (\<lambda>c. IsSpace (fst c)) (map (\<lambda>c. (of_char c, [c])) xs) = map (\<lambda>c. (of_char c, [c])) (dropWhile space_char xs)"
    for xs :: string by (induction xs) (simp_all add: space_char_def)
  moreover have "concat (map (snd \<circ> (\<lambda>c. (of_char c, [c]))) xs) = xs" for xs :: string
    by (induction xs) simp_all
  ultimately show ?thesis
    by (simp add: TrimSpace_def rune_chunks_ascii [OF assms] trim_end_def rev_map)
qed

lemma TrimSpace_both:
  assumes "ascii_text s" and "s \<noteq> []" and "\<not> space_char (List.hd s)" and "\<not> space_char (last s)"
  shows "TrimSpace s = s"
proof -
  have "dropWhile space_char s = s" using assms(2,3) by (cases s) simp_all
  moreover have "dropWhile space_char (rev s) = rev s"
    using assms(2,4) by (cases "rev s") (auto simp: last_rev [of "rev s", simplified] hd_rev)
  ultimately show ?thesis by (simp add: TrimSpace_ascii [OF assms(1)] trim_end_def)
qed

definition plain :: "string \<Rightarrow> bool" where
  "plain v \<longleftrightarrow> (\<forall>c\<in>set v. in_range 32 126 (of_char c) \<and> c \<noteq> CHR 0x22 \<and> c \<noteq> CHR 0x27 \<and> c \<noteq> CHR 0x5C)"

lemma plain_char: "plain v \<Longrightarrow> c \<in> set v \<Longrightarrow> in_range 32 126 (of_char c) \<and> c \<noteq> CHR 0x22 \<and> c \<noteq> CHR 0x27 \<and> c \<noteq> CHR 0x5C"
  unfolding plain_def by blast

lemma plain_ascii: "plain v \<Longrightarrow> ascii_text v"
  unfolding ascii_text_def list_all_iff by (auto dest!: plain_char simp: in_range_def)

lemma char_code: "of_char c = (of_char d :: nat) \<longleftrightarrow> c = d"
  by (metis char_of_char)

lemma Quote_plain: "plain v \<Longrightarrow> Quote P v = CHR 0x22 # v @ [CHR 0x22]"
proof -
  assume v: "plain v"
  have "quote_rune P (of_char c, [c]) = [c]" if "c \<in> set v" for c
  proof -
    have "in_range 32 126 (of_char c)" "c \<noteq> CHR 0x22" "c \<noteq> CHR 0x5C" using plain_char [OF v that] by blast+
    moreover from this have "of_char c \<noteq> (34::nat)" "of_char c \<noteq> (92::nat)"
      using char_code [of c "CHR 0x22"] char_code [of c "CHR 0x5C"] by simp_all
    ultimately show ?thesis by (simp add: quote_rune_def RuneError_def is_print_def in_range_def Let_def)
  qed
  then have "concat (map (\<lambda>c. quote_rune P (of_char c, [c])) v) = v"
    by (induction v) simp_all
  then show ?thesis by (simp add: Quote_def rune_chunks_ascii [OF plain_ascii [OF v]] o_def)
qed

section \<open>Settings and lines\<close>

definition cfg_get :: "string \<Rightarrow> Config \<Rightarrow> string" where
  "cfg_get key cfg = (if key = ''server'' then cf_Server cfg else if key = ''token'' then cf_Token cfg
     else if key = ''default_collection'' then cf_DefaultCollection cfg else cf_Output cfg)"

definition cfg_set :: "string \<Rightarrow> string \<Rightarrow> Config \<Rightarrow> Config" where
  "cfg_set key v cfg = (if key = ''server'' then cfg\<lparr>cf_Server := v\<rparr> else if key = ''token'' then cfg\<lparr>cf_Token := v\<rparr>
     else if key = ''default_collection'' then cfg\<lparr>cf_DefaultCollection := v\<rparr> else cfg\<lparr>cf_Output := v\<rparr>)"

definition line_value :: "string \<Rightarrow> string" where
  "line_value l = (case parseConfigLine (TrimSpace l) of None \<Rightarrow> [] | Some (_, v) \<Rightarrow> v)"

lemma config_eqI:
  assumes "\<And>k. k \<in> set configKeys \<Longrightarrow> cfg_get k c = cfg_get k c'"
  shows "c = (c' :: Config)"
  using assms [of "''server''"] assms [of "''token''"] assms [of "''default_collection''"] assms [of "''output''"]
  by (cases c; cases c') (simp add: configKeys_def cfg_get_def)

lemma cfg_get_set:
  assumes "k \<in> set configKeys" and "key \<in> set configKeys"
  shows "cfg_get k (cfg_set key v cfg) = (if k = key then v else cfg_get k cfg)"
  using assms by (auto simp: configKeys_def cfg_get_def cfg_set_def)

lemma cfg_get_line:
  assumes "k \<in> set configKeys"
  shows "cfg_get k (config_line cfg l) = (if sets_key k l then line_value l else cfg_get k cfg)"
  using assms
  by (auto simp: configKeys_def cfg_get_def config_line_def sets_key_def line_value_def Let_def split: option.splits)

lemma cfg_get_lines:
  assumes "k \<in> set configKeys"
  shows "cfg_get k (foldl config_line cfg ls)
    = (case filter (sets_key k) (rev ls) of [] \<Rightarrow> cfg_get k cfg | l # _ \<Rightarrow> line_value l)"
  by (induction ls rule: rev_induct) (simp_all add: cfg_get_line [OF assms])

lemma sets_key_unique: "sets_key k l \<Longrightarrow> sets_key k' l \<Longrightarrow> k = k'"
  by (auto simp: sets_key_def Let_def split: option.splits)

lemma replace_line_None: "replace_line key new ls = None \<longleftrightarrow> filter (sets_key key) ls = []"
  by (induction ls) auto

lemma replace_line_Some:
  "replace_line key new ls = Some ls' \<Longrightarrow>
     \<exists>xs l ys. ls = xs @ l # ys \<and> ls' = xs @ new # ys \<and> filter (sets_key key) xs = [] \<and> sets_key key l"
proof (induction ls arbitrary: ls')
  case (Cons l ls)
  show ?case
  proof (cases "sets_key key l")
    case True
    with Cons.prems show ?thesis by (intro exI [of _ "[]"] exI [of _ l] exI [of _ ls]) auto
  next
    case False
    with Cons.prems obtain ls'' where "replace_line key new ls = Some ls''" "ls' = l # ls''" by auto
    with Cons.IH obtain xs l' ys where "ls = xs @ l' # ys" "ls' = l # xs @ new # ys"
      "filter (sets_key key) xs = []" "sets_key key l'" by blast
    with False show ?thesis by (intro exI [of _ "l # xs"] exI [of _ l'] exI [of _ ys]) auto
  qed
qed simp

lemma set_line_sets:
  assumes "\<And>k. sets_key k new \<longleftrightarrow> k = key" and "length (filter (sets_key key) ls) \<le> 1"
  shows "filter (sets_key k) (set_line key new ls) = (if k = key then [new] else filter (sets_key k) ls)"
proof (cases "replace_line key new ls")
  case None
  then show ?thesis using replace_line_None [of key new ls] by (simp add: set_line_def assms(1))
next
  case (Some ls')
  from replace_line_Some [OF this] obtain xs l ys where ls: "ls = xs @ l # ys" "ls' = xs @ new # ys"
    "filter (sets_key key) xs = []" "sets_key key l" by blast
  then have "filter (sets_key key) ys = []" using assms(2) by simp
  moreover have "k \<noteq> key \<Longrightarrow> \<not> sets_key k l" using sets_key_unique ls(4) by blast
  ultimately show ?thesis using ls Some by (simp add: set_line_def assms(1))
qed

section \<open>The new line\<close>

lemma space_chars [simp]: "space_char (CHR '' '')" "\<not> space_char (CHR 0x22)"
  by (simp_all add: space_char_def IsSpace_def in_range_def)

lemma trim_end_keep: "s \<noteq> [] \<Longrightarrow> \<not> P (last s) \<Longrightarrow> trim_end P s = s"
  by (cases s rule: rev_cases) (simp_all add: trim_end_def)

lemma trim_end_snoc: "P c \<Longrightarrow> trim_end P (s @ [c]) = trim_end P s"
  by (simp add: trim_end_def)

lemma unquote_plain:
  assumes "plain v"
  shows "trim_end is_quote (dropWhile is_quote (CHR 0x22 # v @ [CHR 0x22])) = v"
proof (cases "v = []")
  case False
  have "\<not> is_quote c" if "c \<in> set v" for c
    using plain_char [OF assms that] by (simp add: is_quote_def)
  with False have "dropWhile is_quote (v @ [CHR 0x22]) = v @ [CHR 0x22]" "\<not> is_quote (last v)"
    by (cases v; simp)+
  then show ?thesis using False by (simp add: is_quote_def trim_end_snoc trim_end_keep)
qed (simp add: is_quote_def trim_end_def)

lemma key_props:
  assumes "key \<in> set configKeys"
  shows "ascii_text key" "key \<noteq> []" "CHR ''='' \<notin> set key" "\<not> space_char (List.hd key)" "\<not> space_char (last key)"
    "List.hd key \<noteq> CHR ''#''" "nl \<notin> set key" "CHR 0x0D \<notin> set key" "length key \<le> 18"
  using assms by (auto simp: configKeys_def space_char_def IsSpace_def in_range_def nl_def)

definition setting_line :: "string \<Rightarrow> string \<Rightarrow> string" where
  "setting_line key v = key @ '' = '' @ CHR 0x22 # v @ [CHR 0x22]"

lemma setting_line:
  assumes "key \<in> set configKeys" and "plain v"
  shows "sets_key k (setting_line key v) \<longleftrightarrow> k = key" and "line_value (setting_line key v) = v"
proof -
  note key = key_props [OF assms(1)]
  note v = plain_ascii [OF assms(2)]
  let ?l = "setting_line key v"
  have ends: "?l \<noteq> []" "List.hd ?l = List.hd key" "last ?l = CHR 0x22" using key(2) by (simp_all add: setting_line_def)
  have trim: "TrimSpace ?l = ?l"
    by (rule TrimSpace_both) (use key(1,4) v ends in \<open>simp_all add: setting_line_def\<close>)
  have front: "takeWhile (\<lambda>c. c \<noteq> CHR ''='') ?l = key @ '' ''"
    "tl (dropWhile (\<lambda>c. c \<noteq> CHR ''='') ?l) = '' '' @ CHR 0x22 # v @ [CHR 0x22]"
    using key(3) by (auto simp: setting_line_def takeWhile_append2 dropWhile_append2 takeWhile_append dropWhile_append)
  have "TrimSpace (key @ '' '') = key"
    using key(1,2,4,5) trim_end_keep [of key space_char]
    by (subst TrimSpace_ascii) (auto simp: trim_end_snoc dropWhile_append neq_Nil_conv)
  moreover have "TrimSpace ('' '' @ CHR 0x22 # v @ [CHR 0x22]) = CHR 0x22 # v @ [CHR 0x22]"
    using v by (subst TrimSpace_ascii) (simp_all add: trim_end_keep)
  ultimately have parse: "parseConfigLine ?l = Some (key, v)"
    using front unquote_plain [OF assms(2)] by (simp add: parseConfigLine_def) (simp add: setting_line_def)
  have kept: "\<not> skipped_line ?l" using ends key(6) by (simp add: skipped_line_def)
  show "sets_key k ?l \<longleftrightarrow> k = key" by (auto simp: sets_key_def trim Let_def kept parse)
  show "line_value ?l = v" by (simp add: line_value_def trim parse)
qed

section \<open>Lines of a file\<close>

lemma split_on_nonempty [simp]: "split_on c s \<noteq> []"
  by (induction s) (auto split: list.splits)

lemma split_on_all: "\<forall>l\<in>set (split_on c s). c \<notin> set l \<and> set l \<subseteq> set s"
proof (induction s)
  case (Cons x s)
  then show ?case by (cases "split_on c s") (auto simp: subset_iff)
qed simp

lemma split_on_in: "l \<in> set (split_on c s) \<Longrightarrow> c \<notin> set l \<and> set l \<subseteq> set s"
  using split_on_all by blast

lemma split_on_snoc: "split_on c (s @ [c]) = split_on c s @ [[]]"
proof (induction s)
  case (Cons x s)
  then show ?case by (cases "split_on c s") (auto split: list.splits)
qed simp

lemma split_on_line: "c \<notin> set l \<Longrightarrow> split_on c (l @ c # s) = l # split_on c s"
proof (induction l)
  case Nil
  then show ?case by (cases "split_on c s") simp_all
qed auto

lemma split_on_replicate: "split_on c (s @ replicate n c) = split_on c s @ replicate n []"
proof (induction n)
  case (Suc n)
  then show ?case using split_on_snoc [of c "s @ replicate n c"]
    by (simp add: replicate_append_same [symmetric] del: replicate_append_same)
qed simp

lemma trim_end_replicate: "\<exists>n. s = trim_end (\<lambda>x. x = c) s @ replicate n c"
proof (induction s rule: rev_induct)
  case (snoc x s)
  show ?case
  proof (cases "x = c")
    case True
    from snoc obtain n where "s = trim_end (\<lambda>x. x = c) s @ replicate n c" by blast
    then show ?thesis using True by (intro exI [of _ "Suc n"]) (simp add: trim_end_snoc flip: replicate_append_same)
  qed (intro exI [of _ 0], simp add: trim_end_def)
qed (simp add: trim_end_def)

lemma config_line_empty [simp]: "config_line cfg [] = cfg"
  by (simp add: config_line_def skipped_line_def TrimSpace_def Let_def)

lemma foldl_empty_lines [simp]: "foldl config_line cfg (replicate n []) = cfg"
  by (induction n) simp_all

definition tame_file :: "string \<Rightarrow> bool" where
  "tame_file s \<longleftrightarrow> CHR 0x0D \<notin> set s \<and> (\<forall>l\<in>set (split_on nl s). length l < 65536)"

lemma map_without_cr: "CHR 0x0D \<notin> set s \<Longrightarrow> set ls \<subseteq> set (split_on nl s) \<Longrightarrow> map without_cr ls = ls"
proof (rule map_idI)
  fix l assume "CHR 0x0D \<notin> set s" "set ls \<subseteq> set (split_on nl s)" "l \<in> set ls"
  then have "CHR 0x0D \<notin> set l" using split_on_in by blast
  then show "without_cr l = l" by (cases l rule: rev_cases) (auto simp: without_cr_def)
qed

lemma scanned_lines_tame:
  assumes "tame_file s"
  shows "foldl config_line cfg (scanned_lines s) = foldl config_line cfg (readLines s)"
proof -
  let ?ls = "split_on nl s" and ?ls' = "if last (split_on nl s) = [] then butlast (split_on nl s) else split_on nl s"
  have sub: "set ?ls' \<subseteq> set ?ls" by (auto dest: in_set_butlastD)
  then have short: "takeWhile (\<lambda>l. length l < 65536) ?ls' = ?ls'"
    using assms by (intro takeWhile_eq_all_conv [THEN iffD2]) (auto simp: tame_file_def)
  have "map without_cr ?ls' = ?ls'" using map_without_cr [OF _ sub] assms unfolding tame_file_def by blast
  then have "scanned_lines s = ?ls'" unfolding scanned_lines_def Let_def short .
  moreover have "foldl config_line cfg ?ls' = foldl config_line cfg ?ls"
  proof (cases "last ?ls = []")
    case True
    then have "?ls = butlast ?ls @ [[]]" by (metis append_butlast_last_id split_on_nonempty)
    then have "foldl config_line cfg ?ls = foldl config_line cfg (butlast ?ls)"
      by (metis config_line_empty foldl_Cons foldl_Nil foldl_append)
    with True show ?thesis by simp
  qed simp
  moreover obtain n where "s = trim_end (\<lambda>x. x = nl) s @ replicate n nl" using trim_end_replicate by blast
  then have "foldl config_line cfg ?ls = foldl config_line cfg (readLines s)"
    unfolding readLines_def using split_on_replicate [of nl "trim_end (\<lambda>c. c = nl) s" n]
    by (metis foldl_append foldl_empty_lines)
  ultimately show ?thesis by simp
qed

lemma readLines_tame:
  assumes "tame_file s" and "l \<in> set (readLines s)"
  shows "nl \<notin> set l" "CHR 0x0D \<notin> set l" "length l < 65536"
proof -
  obtain n where n: "s = trim_end (\<lambda>x. x = nl) s @ replicate n nl" using trim_end_replicate by blast
  have "set (split_on nl s) \<supseteq> set (readLines s)"
    unfolding readLines_def by (subst n, subst split_on_replicate) simp
  then have l: "l \<in> set (split_on nl s)" using assms(2) by blast
  show "nl \<notin> set l" "CHR 0x0D \<notin> set l" using split_on_in [OF l] assms(1) by (auto simp: tame_file_def)
  show "length l < 65536" using l assms(1) by (simp add: tame_file_def)
qed

lemma split_join_lines:
  "(\<And>l. l \<in> set ls \<Longrightarrow> nl \<notin> set l) \<Longrightarrow> split_on nl (join_lines ls) = ls @ [[]]"
  by (induction ls) (simp_all add: join_lines_def split_on_line)

lemma scanned_join_lines:
  assumes "\<And>l. l \<in> set ls \<Longrightarrow> nl \<notin> set l \<and> CHR 0x0D \<notin> set l \<and> length l < 65536"
  shows "scanned_lines (join_lines ls) = ls"
proof -
  have "split_on nl (join_lines ls) = ls @ [[]]" using assms by (intro split_join_lines) blast
  moreover have "takeWhile (\<lambda>l. length l < 65536) ls = ls" using assms by (simp add: takeWhile_eq_all_conv)
  moreover have "map without_cr ls = ls"
    by (rule map_idI) (use assms in \<open>auto simp: without_cr_def dest: last_in_set\<close>)
  ultimately show ?thesis by (simp add: scanned_lines_def del: takeWhile_eq_all_conv)
qed

lemma set_line_mem: "l \<in> set (set_line key new ls) \<Longrightarrow> l = new \<or> l \<in> set ls"
proof (cases "replace_line key new ls")
  case (Some ls')
  assume "l \<in> set (set_line key new ls)"
  then show ?thesis using replace_line_Some [OF Some] by (auto simp: set_line_def Some)
qed (auto simp: set_line_def)

section \<open>Saving and loading\<close>

definition setting_once :: "string \<Rightarrow> machine \<Rightarrow> bool" where
  "setting_once key m \<longleftrightarrow> (case m_file m (defaultConfigPath m) of
     File s \<Rightarrow> tame_file s \<and> length (filter (sets_key key) (readLines s)) \<le> 1 | _ \<Rightarrow> True)"

lemma SaveConfigValue_Some:
  assumes "SaveConfigValue P key v m = Some m'" and "plain v"
  obtains ls where "m' = m\<lparr>m_file := (m_file m)(defaultConfigPath m := File (join_lines (set_line key (setting_line key v) ls)))\<rparr>"
    and "m_file m (defaultConfigPath m) = NoFile \<and> ls = []
      \<or> (\<exists>s. m_file m (defaultConfigPath m) = File s \<and> ls = readLines s)"
  using assms(1) Quote_plain [OF assms(2), of P]
  by (auto simp: SaveConfigValue_def Let_def setting_line_def split: if_splits option.splits file_state.splits)

lemma defaultConfigPath_file [simp]: "defaultConfigPath (m\<lparr>m_file := f\<rparr>) = defaultConfigPath m"
  by (simp add: defaultConfigPath_def in_home_def Let_def)

lemma saved_setting_loaded:
  assumes "key \<in> set configKeys" and "plain v" and "length v < 65000" and "setting_once key m"
    and "SaveConfigValue P key v m = Some m'"
  shows "LoadConfig m' = cfg_set key v (LoadConfig m)"
proof -
  obtain ls where m': "m' = m\<lparr>m_file := (m_file m)(defaultConfigPath m := File (join_lines (set_line key (setting_line key v) ls)))\<rparr>"
    and was: "m_file m (defaultConfigPath m) = NoFile \<and> ls = []
      \<or> (\<exists>s. m_file m (defaultConfigPath m) = File s \<and> ls = readLines s)"
    by (rule SaveConfigValue_Some [OF assms(5,2)])
  have old: "LoadConfig m = foldl config_line no_config ls"
    using was assms(4) scanned_lines_tame by (auto simp: LoadConfig_def setting_once_def)
  have once: "length (filter (sets_key key) ls) \<le> 1" using was assms(4) by (auto simp: setting_once_def)
  note new = setting_line [OF assms(1,2)]
  have "c \<noteq> nl \<and> c \<noteq> CHR 0x0D" if "c \<in> set v" for c
    using plain_char [OF assms(2) that] by (auto simp: in_range_def nl_def)
  then have fresh: "nl \<notin> set (setting_line key v) \<and> CHR 0x0D \<notin> set (setting_line key v)
      \<and> length (setting_line key v) < 65536"
    using key_props(7-9) [OF assms(1)] assms(3) by (auto simp: setting_line_def nl_def)
  have "nl \<notin> set l \<and> CHR 0x0D \<notin> set l \<and> length l < 65536" if "l \<in> set (set_line key (setting_line key v) ls)" for l
    using set_line_mem [OF that] fresh was assms(4) readLines_tame [of _ l]
    by (auto simp: setting_once_def)
  then have "LoadConfig m' = foldl config_line no_config (set_line key (setting_line key v) ls)"
    by (simp add: LoadConfig_def m' scanned_join_lines)
  then show ?thesis
    using assms(1) set_line_sets [OF new(1) once]
    by (intro config_eqI) (simp add: cfg_get_set old cfg_get_lines new(2) flip: rev_filter)
qed

end
