(* ===== verification/FT_CliProps.thy ===== *)
theory FT_CliProps
  imports FT_CliConfig FT_CliTokens FT_CliGraph FT_CliRows FT_McpProps FT_Paging
begin

text \<open>
  What holds of the command line: settings are loaded as they were saved; an update of a token's
  scopes grants what was granted or named and nothing else; and the first command of a new
  installation makes a token that works, and is itself refused.
\<close>

section \<open>Settings\<close>


definition ex_machine :: machine where
  "ex_machine = \<lparr>m_env = (\<lambda>_. []), m_home = ''/h'',
     m_file = (\<lambda>p. if p = ''/h/.config/farmtable/config.toml'' then File (''server = h'' @ [nl, nl]) else NoFile),
     m_writable = (\<lambda>_. True), m_stdin = None, m_terminal = True, m_git = None, m_gcloud = (\<lambda>_. None)\<rparr>"

lemma ex_path: "defaultConfigPath ex_machine = ''/h/.config/farmtable/config.toml''"
  by (simp add: ex_machine_def defaultConfigPath_def in_home_def)

lemma ex_tame: "tame_file (''server = h'' @ [nl, nl])" "readLines (''server = h'' @ [nl, nl]) = [''server = h'']"
  by (simp_all add: tame_file_def readLines_def nl_def trim_end_def)

lemma ex_sets: "sets_key ''server'' ''server = h''" "\<not> sets_key ''token'' ''server = h''"
  by (simp_all add: sets_key_def TrimSpace_ascii trim_end_def space_char_def IsSpace_def in_range_def Let_def
      skipped_line_def parseConfigLine_def is_quote_def)


section \<open>Scopes of a token\<close>

lemma mergeScopes_Inr:
  assumes "mergeScopes cur add remove set_to = Inr r"
  shows "r \<noteq> [] \<and> sorted r \<and> (set_to \<noteq> [] \<longrightarrow> set r = set set_to)
    \<and> (set_to = [] \<longrightarrow> cur \<noteq> [] \<and> set r = set cur \<union> set add - set remove
        \<and> (remove = [] \<or> ScopeWildcard \<notin> set cur))"
proof -
  have Nil: "sort xs = [] \<longleftrightarrow> xs = []" for xs :: "string list" by (metis set_empty set_sort)
  show ?thesis
  proof (cases "set_to = []")
    case True
    then have "cur \<noteq> []" "remove = [] \<or> ScopeWildcard \<notin> set cur"
      "filter (\<lambda>s. \<not> List.member remove s) (remdups (cur @ add)) \<noteq> []"
      "r = sort (filter (\<lambda>s. \<not> List.member remove s) (remdups (cur @ add)))"
      using assms by (simp_all add: mergeScopes_def Let_def split: if_splits)
    with True show ?thesis by (simp add: Nil) auto
  next
    case False
    with assms show ?thesis by (auto simp: mergeScopes_def Nil)
  qed
qed

lemma update_token_row:
  assumes "update_token i f d = Inr (k', d')" and "db_ok d"
  shows "\<exists>k. find (\<lambda>k. k_id k = i) (d_tokens d) = Some k
    \<and> k' = (f k)\<lparr>k_id := k_id k, k_hash := k_hash k, k_user := k_user k, k_created := k_created k\<rparr>
    \<and> d_tokens d' = map (\<lambda>q. if k_id q = i then k' else q) (d_tokens d)"
proof -
  from assms(1) obtain k where k: "find (\<lambda>k. k_id k = i) (d_tokens d) = Some k"
    by (auto simp: update_token_def Let_def split: option.splits)
  have "q = k" if "q \<in> set (d_tokens d)" "k_id q = i" for q
    using that find_Some_mem [OF k] assms(2)
    by (auto simp: db_ok_def tokens_ok_def dest: inj_onD [OF distinct_map [THEN iffD1, THEN conjunct2]])
  with k assms(1) show ?thesis by (auto simp: update_token_def Let_def intro!: map_cong)
qed

lemma or_exit_Inr: "or_exit err r = Inr x \<longleftrightarrow> r = Inr x"
  by (simp add: or_exit_def split: sum.splits)

lemma merged_Inr: "merged r = Inr x \<longleftrightarrow> r = Inr x"
  by (simp add: merged_def split: sum.splits)

lemma parse_arg_Inr: "parse_arg C err s = Inr i \<longleftrightarrow> uuid_Parse (cl_lib C) s = Some i"
  by (simp add: parse_arg_def)

lemma cli_token_update_Inr:
  assumes "cli_token_update C m output tokenArg add remove set_to d0 d = Inr (outs, d')"
  shows "\<exists>i k0 u ss k'. uuid_Parse (cl_lib C) tokenArg = Some i \<and> token_flags_ok add remove set_to = Inr ()
    \<and> GetAPIToken i d0 = Inr (k0, u) \<and> mergeScopes (k_scopes k0) add remove set_to = Inr ss
    \<and> ValidateScopes ss \<and> UpdateAPITokenScopes i ss d = Inr (k', d')"
  using assms unfolding cli_token_update_def thenE_Inr or_exit_Inr merged_Inr parse_arg_Inr checkE_Inr
  by (clarsimp simp: thenE_Inr or_exit_Inr merged_Inr Let_def split del: if_split)
    (auto simp: thenE_Inr or_exit_Inr split: if_split_asm)


definition ex_cli :: cli_lib where
  "ex_cli = \<lparr>cl_mcp = ex_mcp_lib, cl_print = (\<lambda>_. True), cl_rows = (\<lambda>_. NoToken), cl_rows_text = (\<lambda>_. []),
     cl_int = (\<lambda>_. NoToken), cl_int_text = (\<lambda>_. []), cl_account_text = (\<lambda>_. []), cl_day = (\<lambda>_. []),
     cl_clock = (\<lambda>_. []), cl_rfc3339 = (\<lambda>_. []), cl_duration = (\<lambda>_. None)\<rparr>"

definition ex_new :: machine where "ex_new = ex_machine\<lparr>m_file := (\<lambda>_. NoFile)\<rparr>"

definition ex_token_db :: db where
  "ex_token_db = ex_db\<lparr>d_tokens := [ex_token\<lparr>k_scopes := [ScopeTaskRead, ScopeTaskWrite]\<rparr>]\<rparr>"

lemma ex_token_db_ok: "db_ok ex_token_db"
  using ex_mcp_ok(1) by (simp add: ex_token_db_def ex_mcp_db_def db_ok_def tokens_ok_def user_ids_def)


section \<open>The first run\<close>

lemma plain_member: "plain s \<Longrightarrow> c \<in> set s \<Longrightarrow> plain [c]"
  by (simp add: plain_def)

lemma hex_digit_plain: "n < 16 \<Longrightarrow> plain [FT_Rows.hex_digit n]"
proof -
  assume "n < 16"
  then have "FT_Rows.hex_digit n \<in> set ''0123456789abcdef''"
    unfolding FT_Rows.hex_digit_def by (intro nth_mem) simp
  moreover have "plain ''0123456789abcdef''" by (simp add: plain_def in_range_def)
  ultimately show ?thesis by (rule plain_member [rotated])
qed

lemma plain_append [simp]: "plain (s @ t) \<longleftrightarrow> plain s \<and> plain t"
  by (auto simp: plain_def)

lemma hex_encode_plain: "plain (hex_encode s)"
proof (induction s)
  case (Cons c s)
  have "plain ([FT_Rows.hex_digit (byte c div 16)] @ [FT_Rows.hex_digit (byte c mod 16)] @ hex_encode s)"
    using Cons byte_less [of c] by (intro plain_append [THEN iffD2] conjI hex_digit_plain) (simp_all add: less_mult_imp_div_less)
  then show ?case by simp
qed (simp add: plain_def)

lemma length_hex_encode [simp]: "length (hex_encode s) = 2 * length s"
  by (induction s) simp_all

lemma hex_encode_Nil [simp]: "hex_encode s = [] \<longleftrightarrow> s = []"
  by (cases s) simp_all

lemma rpc_without_token:
  assumes "mp_token S = []" and "meth \<notin> {''GetVersion'', ''GetStatus''}"
  shows "rpc_call (embedded sha) S e meth d h = Inl (Rpc Unauthenticated)"
proof -
  have "\<not> isUnauthenticatedEndpoint (''/farmtable.v1.FarmTableService/'' @ meth)"
    using assms(2) by (simp add: isUnauthenticatedEndpoint_def)
  moreover have "extractToken (mcp_authCtx S) = []" by (simp add: extract_mcp assms(1))
  ultimately have "authenticate (Some (StoreTokenLookup_LookupByHash d)) sha (now e)
      (''/farmtable.v1.FarmTableService/'' @ meth) (Some (mcp_authCtx S)) open_access_ctx = Inl Unauthenticated"
    by (simp add: authenticate_def Let_def)
  then show ?thesis by (simp add: rpc_call_def embedded_def TokenAuthInterceptor_def)
qed

lemma rpc_with_token:
  assumes "db_ok d" and "k \<in> set (d_tokens d)" and "k_hash k = HashToken sha (mp_token S)" and "mp_token S \<noteq> []"
    and "k_expires k = None" and "meth \<notin> {''GetVersion'', ''GetStatus''}"
  shows "rpc_call (embedded sha) S e meth d h
    = (case h (token_ctx k open_access_ctx) of Inl err \<Rightarrow> Inl (Rpc err) | Inr x \<Rightarrow> Inr x)"
proof -
  have "\<not> isUnauthenticatedEndpoint (''/farmtable.v1.FarmTableService/'' @ meth)"
    using assms(6) by (simp add: isUnauthenticatedEndpoint_def)
  from authenticate_known [OF assms(1) this assms(2), of sha "mcp_authCtx S"] assms(3-5)
  show ?thesis by (simp add: rpc_call_def embedded_def TokenAuthInterceptor_def extract_mcp token_expired_def)
qed

lemma srv_CreateCollection_keeps:
  assumes "srv_CreateCollection L e c r d = Inr (co, d')" and "db_ok d"
  shows "d_tokens d' = d_tokens d \<and> db_ok d'"
proof -
  from assms(1) obtain p x where made: "CreateCollection e p d = Inr (x, d')"
    by (auto simp: srv_CreateCollection_def thenE_Inr Let_def with_code_Inr split: if_split_asm)
  then have "d_tokens d' = d_tokens d"
    by (auto simp: CreateCollection_def insert_coll_def drawn_def thenE_Inr Let_def split: if_split_asm)
  with integrity.R_store_step [OF store_step.create_coll [OF made]] assms(2) show ?thesis by blast
qed

lemma cli_rpc_Inr:
  assumes "cli_rpc B S e meth d h = Inr x"
  shows "\<exists>c. h c = Inr x"
  using assms
  by (auto simp: cli_rpc_def rpc_call_def TokenAuthInterceptor_def thenE_Inr split: sum.splits tool_err.splits)

lemma ensureDefaultCollection_keeps:
  assumes "ensureDefaultCollection C B S e d = Inr d'" and "db_ok d"
  shows "d_tokens d' = d_tokens d \<and> db_ok d'"
proof -
  have "d' = d \<or> (\<exists>r co. cli_rpc B S e ''CreateCollection'' d (\<lambda>c. srv_CreateCollection (cl_lib C) e c r d) = Inr (co, d'))"
    using assms(1) unfolding ensureDefaultCollection_def thenE_Inr
    by (auto simp: thenE_Inr split: if_split_asm)
  then show ?thesis using srv_CreateCollection_keeps [OF _ assms(2)] assms(2) by (auto dest!: cli_rpc_Inr)
qed

lemma ensureLocalUser_first:
  assumes "ensureLocalUser C sha rawBytes e [] m d = (True, m', d')" and "GetUserByName ''local'' d = Inl err" and "db_ok d"
  obtains k where "SaveConfigValue (cl_print C) ''token'' (''ft_'' @ hex_encode rawBytes) m = Some m'" and "db_ok d'"
    and "k \<in> set (d_tokens d')" and "k_hash k = HashToken sha (''ft_'' @ hex_encode rawBytes)"
    and "k_expires k = None" and "k_scopes k = []" and "k_collections k = []"
proof -
  from assms(1,2) obtain u d1 k where user: "CreateUser e \<lparr>cu_DisplayName = ''local'', cu_Email = None,
      cu_Type = ''agent'', cu_Status = ''active''\<rparr> d = Inr (u, d1)"
    and tok: "CreateAPIToken sha rawBytes e \<lparr>ck_UserID = u_id u, ck_Name = ''local-embedded'', ck_ExpiresAt = None,
      ck_Scopes = [], ck_CollectionIDs = []\<rparr> d1 = Inr ((k, ''ft_'' @ hex_encode rawBytes), d')"
    and save: "SaveConfigValue (cl_print C) ''token'' (''ft_'' @ hex_encode rawBytes) m = Some m'"
    by (auto simp: ensureLocalUser_def ensureDashboardToken_def after_store_def CreateAPIToken_def thenE_Inr Let_def
        split: sum.splits option.splits)
  from integrity.R_store_step [OF store_step.create_user [OF user]] assms(3)
    integrity.R_store_step [OF store_step.create_token [OF tok]] have "db_ok d'" by blast
  moreover from tok have "k \<in> set (d_tokens d')" "k_hash k = HashToken sha (''ft_'' @ hex_encode rawBytes)"
    "k_expires k = None" "k_scopes k = []" "k_collections k = []"
    by (auto simp: CreateAPIToken_def insert_token_def thenE_Inr Let_def HashToken_def split: if_split_asm)
  ultimately show thesis using save that by blast
qed

lemma first_set_Nil: "first_set vs = [] \<longleftrightarrow> (\<forall>v\<in>set vs. v = [])"
  by (induction vs) (auto simp: first_set_def)

lemma saved_token:
  assumes "SaveConfigValue P ''token'' (''ft_'' @ hex_encode rawBytes) m = Some m'" and "length rawBytes = 32"
    and "resolveToken m [] = []" and "setting_once ''token'' m"
  shows "resolveToken m' [] = ''ft_'' @ hex_encode rawBytes"
proof -
  have plain: "plain (''ft_'' @ hex_encode rawBytes)" using hex_encode_plain by (simp add: plain_def in_range_def)
  obtain f where "m' = m\<lparr>m_file := f\<rparr>" by (rule SaveConfigValue_Some [OF assms(1) plain]) blast
  moreover have "m_env m ''FARMTABLE_TOKEN'' = []" using assms(3) by (simp add: resolveToken_def first_set_Nil)
  ultimately show ?thesis using saved_setting_loaded [OF _ plain _ assms(4,1)] assms(2)
    by (simp add: resolveToken_def first_set_def configKeys_def cfg_set_def)
qed


definition ex_flags :: globalFlags where
  "ex_flags = \<lparr>gf_output = [], gf_collection = [], gf_server = [], gf_token = [], gf_iapAudience = []\<rparr>"

lemma ex_new_fresh: "resolveToken ex_new [] = []" "resolveServer ex_new [] = []" "setting_once ''token'' ex_new"
  by (simp_all add: ex_new_def ex_machine_def resolveToken_def resolveServer_def first_set_def LoadConfig_def
      no_config_def setting_once_def)

lemma ex_started: "\<exists>m' d'. startEmbedded ex_cli (\<lambda>s. s) (replicate 32 CHR ''a'') ex_env [] ex_new ex_db = (True, m', d')"
proof -
  let ?tok = "''ft_'' @ hex_encode (replicate 32 CHR ''a'')"
  obtain m1 where save: "SaveConfigValue (cl_print ex_cli) ''token'' ?tok ex_new = Some m1"
    by (simp add: SaveConfigValue_def Let_def ex_new_def ex_machine_def)
  have "\<exists>d1. ensureLocalUser ex_cli (\<lambda>s. s) (replicate 32 CHR ''a'') ex_env [] ex_new ex_db = (True, m1, d1)
      \<and> d_colls d1 = [ex_coll]"
    using save by (simp add: ensureLocalUser_def GetUserByName_def CreateUser_def insert_user_def user_exists_def
        CreateAPIToken_def insert_token_def HashToken_def after_store_def ensureDashboardToken_def drawn_def
        fresh_uuid_def user_ids_def Let_def ex_defs del: hex_encode.simps)
  then obtain d1 where user: "ensureLocalUser ex_cli (\<lambda>s. s) (replicate 32 CHR ''a'') ex_env [] ex_new ex_db = (True, m1, d1)"
    and colls: "d_colls d1 = [ex_coll]" by blast
  have nobody: "GetUserByName ''local'' ex_db = Inl ErrNotFound" by (simp add: GetUserByName_def ex_defs)
  obtain k where ok: "db_ok d1" and k: "k \<in> set (d_tokens d1)" "k_hash k = HashToken (\<lambda>s. s) ?tok"
    "k_expires k = None" "k_scopes k = []" "k_collections k = []"
    by (rule ensureLocalUser_first [OF user nobody ex_db_ok])
  have "\<exists>pg x. srv_ListCollections (cl_lib ex_cli) (token_ctx k open_access_ctx) None 0 NoToken d1 = Inr (pg, x)
      \<and> 0 < pg_TotalCount pg"
    using k(4,5) by (simp add: read_enum_def int32_def opt_eq_def srv_ListCollections_def ListCollections_def colls
        keyset_page_def RequireScope_def token_ctx_def
        read_enum_unless_0_def decodeCursor_def clamp_page_size_def scoped_rows_def page_of_def with_code_def Let_def)
  then have "ensureDefaultCollection ex_cli (embedded (\<lambda>s. s)) (cli_creds ?tok []) ex_env d1 = Inr d1"
    using rpc_with_token [OF ok k(1), of "\<lambda>s. s" "cli_creds ?tok []" "''ListCollections''" ex_env
        "\<lambda>c. srv_ListCollections (cl_lib ex_cli) c None 0 NoToken d1"] k(2,3)
    by (auto simp: ensureDefaultCollection_def cli_rpc_def cli_creds_def)
  moreover have "m_writable ex_new (resolveDBPath ex_new)" by (simp add: ex_new_def ex_machine_def)
  ultimately show ?thesis
    using user saved_token [OF save _ ex_new_fresh(1,3)] by (simp add: startEmbedded_def ex_new_fresh)
qed


end
