(* ===== verification/Spec2Isabelle.thy ===== *)
theory Spec2Isabelle
  imports FT_Prelude FT_Model FT_GoText FT_Scopes FT_Db FT_Integrity FT_Example FT_Availability
    FT_Tasks FT_TaskFacts FT_TaskProps FT_Crypto FT_Rows FT_Paging FT_ListTasks FT_Import
    FT_StoreSteps FT_Auth FT_Utf8 FT_Urls FT_Convert FT_Events FT_Service FT_ServiceWrites
    FT_ServiceRows FT_GraphSearch FT_Graph FT_GraphProps FT_ServiceProps
    FT_Watch FT_WatchProps FT_WatchList FT_Documents FT_Beads FT_DocImport FT_DocProps FT_DocTrip
    FT_Labels FT_LabelProps FT_GitHub FT_PassThrough FT_IssueTree FT_MultiStore FT_MultiProps
    FT_GitHubProps FT_TreeProps FT_MessageTypes FT_Session FT_Login FT_LoginProps FT_LinkFlow FT_LinkProps
    FT_Credentials FT_Decompose FT_Engine FT_EngineProps FT_PlanProps FT_PlanStore
    FT_Mcp FT_McpTools FT_McpProps FT_Sync FT_SyncProps FT_BeadsAdapter FT_BeadsSync
    FT_GitHubAdapter FT_GitHubSync FT_RateLimit
    FT_Cli FT_CliConnect FT_CliTasks FT_CliGraph FT_CliRows FT_CliTokens FT_CliConfig FT_CliProps
begin

text \<open>
  Farm Table is a task runtime for agents: a store of tasks with a dependency graph, versioned
  updates and atomic claims, a gRPC service over it that checks scopes, adapters that serve a
  collection from an issue tracker, a server with sessions and logins around the service, and
  a decomposer that fills the store with the plan of a language model. This development models
  the Go code under \<open>internal/\<close> and the wiring in \<open>cmd/\<close> that the models need.

  \<^bold>\<open>Base.\<close>

  \<^item> \<open>FT_Prelude\<close>: sums as results (\<open>thenE\<close>, \<open>checkE\<close>, \<open>optE\<close>, folds), lemmas on keyed lists.
  \<^item> \<open>FT_GoText\<close>, \<open>FT_Utf8\<close>: decimal text of 64-bit integers, the version counter, runes,
    white space; the tables of \<open>unicode\<close> are a record.
  \<^item> \<open>FT_Model\<close>: the tables of \<open>internal/store/schema\<close> as records, the enum columns as datatypes.
    A column may hold a text that is not declared; the last constructor of such a datatype
    carries it. Instants are nanoseconds, identifiers numbers in their order.
  \<^item> \<open>FT_Db\<close>: the database as lists of rows, and the insert, update and delete statements the
    generated ORM runs, with the uniqueness and foreign key rules of the schema.
    \<open>FT_Integrity\<close>: the integrity predicate \<open>db_ok\<close> and the locale \<open>db_step\<close> of relations that
    every statement satisfies, interpreted for integrity, for the append-only change log and
    for declared stages. \<open>FT_Example\<close>: the small database of the witnesses.

  \<^bold>\<open>The store (\<open>internal/store\<close>).\<close>

  \<^item> \<open>FT_Availability\<close>: when a task is available, \<open>GetReadyTasks\<close>, \<open>GetBlockedTasks\<close>.
  \<^item> \<open>FT_Tasks\<close>, \<open>FT_TaskFacts\<close>, \<open>FT_TaskProps\<close>: create, insert after, update with retry,
    claim, close, delete, the field diff; their effects, races and version conflicts.
  \<^item> \<open>FT_Crypto\<close>: the encryption of stored credentials.
  \<^item> \<open>FT_Rows\<close>, \<open>FT_Paging\<close>, \<open>FT_ListTasks\<close>: the other tables and the listings in pages; the
    locale \<open>keyset_listing\<close> holds the walk over pages, interpreted for every listing.
  \<^item> \<open>FT_Import\<close>: \<open>ImportCollection\<close> and the migration of persisted task states.
  \<^item> \<open>FT_StoreSteps\<close>: all operations of the store as one step relation.

  \<^bold>\<open>The service (\<open>internal/server\<close>, \<open>internal/convert\<close>, \<open>internal/streaming\<close>).\<close>

  \<^item> \<open>FT_Scopes\<close>, \<open>FT_Auth\<close>: scopes, the transition table, the interceptors and token lookup.
  \<^item> \<open>FT_Urls\<close>, \<open>FT_Convert\<close>, \<open>FT_MessageTypes\<close>: validation of URLs and remote data, rows as
    messages, enumerations as their numbers, and what every message satisfies.
  \<^item> \<open>FT_Service\<close>, \<open>FT_ServiceWrites\<close>, \<open>FT_ServiceRows\<close>, \<open>FT_ServiceProps\<close>: the handlers as scope
    checks, parsing, bounds, store operations and events; what callers can and cannot change.
  \<^item> \<open>FT_GraphSearch\<close>, \<open>FT_Graph\<close>, \<open>FT_GraphProps\<close>: the dependency tree, critical path and
    bottlenecks with the depth limits 50 and 20 and the limit of 500 tasks of the code, which
    make their recursions structural in the depth.
  \<^item> \<open>FT_Events\<close>, \<open>FT_Watch\<close>, \<open>FT_WatchProps\<close>, \<open>FT_WatchList\<close>: the event bus and the watch streams as a
    step relation with shared event pointers, refined to one queue for each stream.
  \<^item> \<open>FT_Documents\<close>, \<open>FT_Beads\<close>, \<open>FT_DocImport\<close>, \<open>FT_DocProps\<close>, \<open>FT_DocTrip\<close>: export and import; a
    document is a record, and its JSON text a value of a codec that is a parameter.

  \<^bold>\<open>Trackers (\<open>internal/platform\<close>, \<open>internal/store/multistore.go\<close>).\<close>

  \<^item> \<open>FT_Labels\<close>, \<open>FT_LabelProps\<close>, \<open>FT_GitHub\<close>, \<open>FT_PassThrough\<close>, \<open>FT_IssueTree\<close>, \<open>FT_GitHubProps\<close>,
    \<open>FT_TreeProps\<close>: labels as stages, the pass-through store and the ready and blocked issues, over
    a record of the GraphQL operations.
  \<^item> \<open>FT_MultiStore\<close>, \<open>FT_MultiProps\<close>: the composed store and its routing.
  \<^item> \<open>FT_Sync\<close>, \<open>FT_SyncProps\<close>, \<open>FT_BeadsAdapter\<close>, \<open>FT_BeadsSync\<close>, \<open>FT_GitHubAdapter\<close>, \<open>FT_GitHubSync\<close>: the
    adapters that copy a collection of Beads or GitHub into the database and push tasks back. What
    a sync does is proved in the locale \<open>adapter_sync\<close>, interpreted for both.
  \<^item> \<open>FT_RateLimit\<close>: the transport of the GitHub clients; four attempts are its fuel, as in the code.

  \<^bold>\<open>The server (\<open>internal/serverapp\<close>).\<close>

  \<^item> \<open>FT_Session\<close>, \<open>FT_Login\<close>, \<open>FT_LoginProps\<close>: sessions, the login modes, provisioning, Google and
    proxy logins. \<open>FT_LinkFlow\<close>, \<open>FT_LinkProps\<close>: linking accounts. \<open>FT_Credentials\<close>: credential
    checks and token refresh.

  \<^bold>\<open>The decomposer (\<open>internal/decomposer\<close>).\<close>

  \<^item> \<open>FT_Decompose\<close>: plans, prompt, the client that writes tasks. \<open>FT_Engine\<close>: goroutines with the
    semaphore, retries and cancellation as a labelled step relation over a tree of goroutines.
    \<open>FT_EngineProps\<close>: termination by a multiset measure, the bound of the semaphore and progress,
    proved in the locale \<open>task_writer\<close> of the writer's interface. \<open>FT_PlanProps\<close>, \<open>FT_PlanStore\<close>: the
    shape of the written tasks, and the tasks in the database of the service.

  \<^bold>\<open>The MCP adapter (\<open>internal/mcp\<close>).\<close>

  \<^item> \<open>FT_Mcp\<close>, \<open>FT_McpTools\<close>: the parsing of arguments, the tools as calls through the interceptor,
    answers as JSON values. \<open>FT_McpProps\<close>: a tool that writes is a step of the service in the
    context of the adapter's token, so that the invariants of runs hold of its clients; printed
    names read back; what a search sees.

  \<^bold>\<open>The command line (\<open>internal/cli\<close>).\<close>

  \<^item> \<open>FT_Cli\<close>, \<open>FT_CliConnect\<close>: the machine a command runs on, the configuration file, the precedence
    of settings, exit statuses, and the clients, with the first run of the embedded server.
    \<open>FT_CliTasks\<close>, \<open>FT_CliGraph\<close>, \<open>FT_CliRows\<close>: the commands over the service as a function of
    their flags, with what they print before its layout. \<open>FT_CliTokens\<close>: the commands on the local store
    and the merge of token scopes. \<open>FT_CliConfig\<close>, \<open>FT_CliProps\<close>: saved settings are loaded again, an
    update of scopes grants nothing that is not named, and what the first command of a new
    installation leaves behind.

  \<^bold>\<open>State and effects.\<close> An operation takes an environment (the clock and a source of fresh
  identifiers) and the database, and returns an error or a result with the new database; an
  error leaves the database as it was, because the code rolls its transaction back. An
  operation that reads before it opens its write takes one database per statement, so that the
  writes of other clients may come between; \<open>_serial\<close> is the case where none does.

  \<^bold>\<open>Loops.\<close> Loops over lists are folds or structural recursions; walks over pages take as fuel a
  number of pages that the properties bound by the number of rows, or are partial functions.

  \<^bold>\<open>Not modelled.\<close> The ORM and protobuf code, which is generated: its statements are in \<open>FT_Db\<close>
  and its messages records. The network, SQL text, HTTP multiplexing, cookies, key derivation and
  logging. The cipher, hashes, random bytes, the JSON codec, \<open>net/url\<close>'s parser, the GraphQL and
  OAuth services and the language models are parameters. Cobra's parsing of flags, the layout of
  tables, and the web dashboard, which is TypeScript.
\<close>

end
